(* ===== verification/GoPrelude.thy ===== *)
theory GoPrelude
  imports Main "HOL-Library.State_Monad"
begin

text \<open>
  What the components share: Go's error values and \<open>errors.Is\<close>, times and durations,
  state-passing computations with the rules that lift a relation between states over a
  whole handler, and tables ordered by a key.
\<close>

section \<open>Collections\<close>

named_theorems go_eqs \<open>definitions unfolded to run a modelled function\<close>
named_theorems keyed_intros \<open>operations that keep a table ordered by its key\<close>

section \<open>Go types\<close>

text \<open>Identifiers are 64-bit signed integers in Go and in SQLite. The only arithmetic the
  code does on them is the row number SQLite draws, whose upper bound is checked there.\<close>

type_synonym int64 = int

definition max_int64 :: int where
  "max_int64 = 9223372036854775807"

text \<open>\<open>time.Time\<close> is an instant: nanoseconds since the Unix epoch. The zero time of Go is
  the first of January of year 1.\<close>

type_synonym Time = int
type_synonym Duration = int

definition ns_per_s :: int where
  "ns_per_s = 1000000000"

definition time_zero :: Time where
  "time_zero = -62135596800 * ns_per_s"

definition IsZero :: "Time \<Rightarrow> bool" where
  "IsZero t \<longleftrightarrow> t = time_zero"

definition After :: "Time \<Rightarrow> Time \<Rightarrow> bool" where
  "After t u \<longleftrightarrow> u < t"

section \<open>Errors\<close>

text \<open>
  A Go error is a sentinel variable, a fresh error with a text, or an error made by
  \<open>fmt.Errorf\<close> that wraps others with \<open>%w\<close>. \<open>errors.Is\<close> looks for a
  sentinel anywhere in the tree of wrapped errors.
\<close>

datatype sentinel =
    ErrNoRows              \<comment> \<open>database/sql\<close>
  | ErrTxDone
  | ErrServerClosed        \<comment> \<open>net/http\<close>
  | ContextCanceled        \<comment> \<open>context\<close>
  | DeadlineExceeded
  | ErrNotAdmin            \<comment> \<open>internal/model\<close>
  | ErrNestedTransaction   \<comment> \<open>cmd/server/tx.go\<close>
  | ErrNotFound            \<comment> \<open>internal/appreq\<close>
  | ErrNoToken             \<comment> \<open>internal/gateauth\<close>
  | ErrInvalidToken

datatype go_error = Sentinel sentinel | NewError string | Wrapped string "go_error list"

fun sentinel_text :: "sentinel \<Rightarrow> string" where
  "sentinel_text ErrNoRows = ''sql: no rows in result set''"
| "sentinel_text ErrTxDone = ''sql: transaction has already been committed or rolled back''"
| "sentinel_text ErrServerClosed = ''http: Server closed''"
| "sentinel_text ContextCanceled = ''context canceled''"
| "sentinel_text DeadlineExceeded = ''context deadline exceeded''"
| "sentinel_text ErrNotAdmin = ''unauthorized''"
| "sentinel_text ErrNestedTransaction = ''a write transaction is already open''"
| "sentinel_text ErrNotFound = ''request not found in context''"
| "sentinel_text ErrNoToken = ''no identity from the gate''"
| "sentinel_text ErrInvalidToken = ''unverifiable identity from the gate''"

fun error_text :: "go_error \<Rightarrow> string" where
  "error_text (Sentinel s) = sentinel_text s"
| "error_text (NewError t) = t"
| "error_text (Wrapped t _) = t"

fun errors_Is :: "go_error \<Rightarrow> sentinel \<Rightarrow> bool" where
  "errors_Is (Sentinel s) t \<longleftrightarrow> s = t"
| "errors_Is (NewError _) t \<longleftrightarrow> False"
| "errors_Is (Wrapped _ es) t \<longleftrightarrow> list_ex (\<lambda>e. errors_Is e t) es"

text \<open>\<open>fmt.Errorf("prefix: %w", err)\<close>: the text is the prefix and the text of the cause.\<close>

definition Errorf_w :: "string \<Rightarrow> go_error \<Rightarrow> go_error" where
  "Errorf_w prefix err = Wrapped (prefix @ '': '' @ error_text err) [err]"

lemma errors_Is_Errorf_w [simp]: "errors_Is (Errorf_w p e) t = errors_Is e t"
  by (simp add: Errorf_w_def)

section \<open>Stateful computations\<close>

text \<open>
  A method with effects is a computation of the state monad over the world it changes. One
  that can fail returns \<open>Inl\<close> of the error or \<open>Inr\<close> of the value: an early
  \<open>return\<close> of the code is the branch of the \<open>case\<close> that does not go on.
\<close>

type_synonym ('w, 'a) io = "('w, go_error + 'a) state"

abbreviation ret :: "'a \<Rightarrow> ('w, 'a) state" where
  "ret \<equiv> State_Monad.return"

abbreviation run :: "('w, 'a) state \<Rightarrow> 'w \<Rightarrow> 'a \<times> 'w" where
  "run \<equiv> run_state"

definition modify_world :: "('w \<Rightarrow> 'w) \<Rightarrow> ('w, unit) state" where
  "modify_world f = State (\<lambda>w. ((), f w))"

definition ask_world :: "('w \<Rightarrow> 'a) \<Rightarrow> ('w, 'a) state" where
  "ask_world f = State (\<lambda>w. (f w, w))"

lemma run_modify_world [simp]: "run (modify_world f) w = ((), f w)"
  by (simp add: modify_world_def)

lemma run_ask_world [simp]: "run (ask_world f) w = (f w, w)"
  by (simp add: ask_world_def)

lemma run_State [simp]: "run (State f) w = f w"
  by simp

text \<open>
  A reflexive and transitive relation between states that every primitive operation
  respects is respected by every handler built from them. The rules follow the shape of the
  code: sequence, branch on a condition, on an error, on an absent value.
\<close>

locale state_preorder =
  fixes R :: "'w \<Rightarrow> 'w \<Rightarrow> bool"
  assumes refl: "R w w"
    and trans: "R u v \<Longrightarrow> R v w \<Longrightarrow> R u w"
begin

definition evolves :: "('w, 'a) state \<Rightarrow> bool" where
  "evolves m \<longleftrightarrow> (\<forall>w. R w (snd (run m w)))"

lemma evolvesI: "(\<And>w. R w (snd (run m w))) \<Longrightarrow> evolves m"
  by (simp add: evolves_def)

lemma evolvesD: "evolves m \<Longrightarrow> R w (snd (run m w))"
  by (simp add: evolves_def)

lemma evolves_run: "evolves m \<Longrightarrow> run m w = (x, w') \<Longrightarrow> R w w'"
  by (metis evolvesD snd_conv)

lemma evolves_return: "evolves (ret x)"
  by (simp add: evolves_def refl)

lemma evolves_bind: "evolves m \<Longrightarrow> (\<And>x. evolves (f x)) \<Longrightarrow> evolves (m \<bind> f)"
  unfolding evolves_def by (auto split: prod.splits) (metis trans snd_conv)

lemma evolves_ask: "evolves (ask_world f)"
  by (simp add: evolves_def refl)

lemma evolves_if: "evolves m \<Longrightarrow> evolves n \<Longrightarrow> evolves (if b then m else n)"
  by simp

lemma evolves_sum:
  "(\<And>e. evolves (f e)) \<Longrightarrow> (\<And>x. evolves (g x)) \<Longrightarrow> evolves (case r of Inl e \<Rightarrow> f e | Inr x \<Rightarrow> g x)"
  by (simp split: sum.splits)

lemma evolves_option:
  "evolves m \<Longrightarrow> (\<And>x. evolves (f x)) \<Longrightarrow> evolves (case r of None \<Rightarrow> m | Some x \<Rightarrow> f x)"
  by (simp split: option.splits)

lemma evolves_prod: "(\<And>x y. evolves (f x y)) \<Longrightarrow> evolves (case p of (x, y) \<Rightarrow> f x y)"
  by (simp split: prod.splits)

lemmas evolves_rules =
  evolves_return evolves_bind evolves_ask evolves_if evolves_sum evolves_option evolves_prod

end

section \<open>Tables ordered by a key\<close>

text \<open>
  A table with an integer primary key is the list of its rows in key order, each key once:
  the order in which SQLite stores and scans a rowid table.
\<close>

definition keyed :: "('r \<Rightarrow> int) \<Rightarrow> 'r list \<Rightarrow> bool" where
  "keyed k rs \<longleftrightarrow> sorted (map k rs) \<and> distinct (map k rs)"

definition keys :: "('r \<Rightarrow> 'k) \<Rightarrow> 'r list \<Rightarrow> 'k set" where
  "keys k rs = k ` set rs"

lemma keyed_Nil [simp, keyed_intros]: "keyed k []"
  by (simp add: keyed_def)

lemma keyed_Cons: "keyed k (r # rs) \<longleftrightarrow> (\<forall>s \<in> set rs. k r < k s) \<and> keyed k rs"
  by (auto simp: keyed_def order_le_less)

lemma keyed_unique: "keyed k rs \<Longrightarrow> r \<in> set rs \<Longrightarrow> s \<in> set rs \<Longrightarrow> k r = k s \<Longrightarrow> r = s"
  by (auto simp: keyed_def distinct_map dest: inj_onD)

lemma keyed_insort [keyed_intros]:
  "keyed k rs \<Longrightarrow> k r \<notin> keys k rs \<Longrightarrow> keyed k (insort_key k r rs)"
  by (induction rs) (auto simp: keyed_Cons keys_def set_insort_key)

lemma keyed_snoc [keyed_intros]:
  "keyed k rs \<Longrightarrow> (\<And>s. s \<in> set rs \<Longrightarrow> k s < k r) \<Longrightarrow> keyed k (rs @ [r])"
  by (fastforce simp: keyed_def sorted_append order_le_less)

lemma keyed_filter [keyed_intros]: "keyed k rs \<Longrightarrow> keyed k (filter P rs)"
  by (induction rs) (auto simp: keyed_Cons)

lemma keyed_update [keyed_intros]:
  "keyed k rs \<Longrightarrow> (\<And>r. k (f r) = k r) \<Longrightarrow> keyed k (map f rs)"
  by (simp add: keyed_def o_def)

lemma keys_simps [simp]:
  "keys k [] = {}"
  "keys k (r # rs) = insert (k r) (keys k rs)"
  "keys k (rs @ ss) = keys k rs \<union> keys k ss"
  "keys k (insort_key k' r rs) = insert (k r) (keys k rs)"
  by (auto simp: keys_def set_insort_key)

lemma keys_update [simp]: "(\<And>r. k (f r) = k r) \<Longrightarrow> keys k (map f rs) = keys k rs"
  by (simp add: keys_def image_image)

lemma keys_filter: "keys k (filter P rs) \<subseteq> keys k rs"
  by (auto simp: keys_def)

text \<open>Selecting by the key gives at most one row.\<close>

lemma keyed_select:
  "keyed k rs \<Longrightarrow> r \<in> set rs \<Longrightarrow> k r = x \<Longrightarrow> filter (\<lambda>s. k s = x) rs = [r]"
proof (induction rs)
  case (Cons s rs)
  then show ?case
    by (auto simp: keyed_Cons filter_empty_conv)
qed simp

lemma select_none: "x \<notin> keys k rs \<Longrightarrow> filter (\<lambda>s. k s = x) rs = []"
  by (auto simp: keys_def filter_empty_conv)

lemma select_cases:
  assumes "keyed k rs"
  obtains (none) "x \<notin> keys k rs" "filter (\<lambda>s. k s = x) rs = []"
    | (one) r where "r \<in> set rs" "k r = x" "filter (\<lambda>s. k s = x) rs = [r]"
  using assms keyed_select select_none by (metis imageE keys_def)

end
