(* ===== verification/GoStrings.thy ===== *)
theory GoStrings
  imports GoPrelude "HOL-Library.Char_ord" "HOL-Library.List_Lexorder" "HOL-Library.Sublist"
begin

text \<open>
  The functions of \<open>strings\<close>, \<open>unicode/utf8\<close>, \<open>strconv\<close> and \<open>sort\<close> that the
  program calls. A Go string is a sequence of bytes: a \<open>string\<close> whose characters are the
  bytes, so \<open>length\<close> is Go's \<open>len\<close> and the order is Go's bytewise \<open><\<close>.
\<close>

section \<open>Decimal numbers\<close>

definition digit :: "int \<Rightarrow> char" where
  "digit d = char_of (48 + d)"

function dec :: "int \<Rightarrow> string" where
  "dec n = (if n < 10 then [digit n] else dec (n div 10) @ [digit (n mod 10)])"
  by pat_completeness auto
termination
  by (relation "measure nat") auto

declare dec.simps [simp del]

definition int_dec :: "int \<Rightarrow> string" where
  "int_dec i = (if i < 0 then ''-'' @ dec (- i) else dec i)"

section \<open>Prefixes, suffixes, joining, splitting\<close>

definition HasPrefix :: "string \<Rightarrow> string \<Rightarrow> bool" where
  "HasPrefix s p \<longleftrightarrow> prefix p s"

definition HasSuffix :: "string \<Rightarrow> string \<Rightarrow> bool" where
  "HasSuffix s p \<longleftrightarrow> suffix p s"

definition CutPrefix :: "string \<Rightarrow> string \<Rightarrow> string \<times> bool" where
  "CutPrefix s p = (if HasPrefix s p then (drop (length p) s, True) else (s, False))"

definition Contains :: "string \<Rightarrow> string \<Rightarrow> bool" where
  "Contains s p \<longleftrightarrow> list_ex (\<lambda>t. prefix p t) (suffixes s)"

fun Join :: "string list \<Rightarrow> string \<Rightarrow> string" where
  "Join [] sep = ''''"
| "Join [s] sep = s"
| "Join (s # t # ss) sep = s @ sep @ Join (t # ss) sep"

text \<open>\<open>strings.Split\<close> by a separator of one byte: one more piece than separators.\<close>

fun split_on :: "char \<Rightarrow> string \<Rightarrow> string list" where
  "split_on c [] = [[]]"
| "split_on c (d # s) =
     (if d = c then [] # split_on c s
      else (case split_on c s of [] \<Rightarrow> [[d]] | p # ps \<Rightarrow> (d # p) # ps))"

text \<open>\<open>strings.ReplaceAll\<close> of a one-byte string.\<close>

definition replace_char :: "char \<Rightarrow> string \<Rightarrow> string \<Rightarrow> string" where
  "replace_char c new s = concat (map (\<lambda>d. if d = c then new else [d]) s)"

section \<open>White space and letter case\<close>

text \<open>
  The UTF-8 encodings of the runes for which \<open>unicode.IsSpace\<close> holds. \<open>strings.TrimSpace\<close>
  removes them from both ends. A byte sequence starts (ends) with such a rune exactly when the
  decoder finds it there, since a leading byte fixes the length of its encoding.
\<close>

definition space_runes :: "string list" where
  "space_runes =
     [[CHR 0x09], [CHR 0x0A], [CHR 0x0B], [CHR 0x0C], [CHR 0x0D], [CHR 0x20], [CHR 0xC2, CHR 0x85],
      [CHR 0xC2, CHR 0xA0], [CHR 0xE1, CHR 0x9A, CHR 0x80],
      [CHR 0xE2, CHR 0x80, CHR 0x80], [CHR 0xE2, CHR 0x80, CHR 0x81], [CHR 0xE2, CHR 0x80, CHR 0x82],
      [CHR 0xE2, CHR 0x80, CHR 0x83], [CHR 0xE2, CHR 0x80, CHR 0x84], [CHR 0xE2, CHR 0x80, CHR 0x85],
      [CHR 0xE2, CHR 0x80, CHR 0x86], [CHR 0xE2, CHR 0x80, CHR 0x87], [CHR 0xE2, CHR 0x80, CHR 0x88],
      [CHR 0xE2, CHR 0x80, CHR 0x89], [CHR 0xE2, CHR 0x80, CHR 0x8A], [CHR 0xE2, CHR 0x80, CHR 0xA8],
      [CHR 0xE2, CHR 0x80, CHR 0xA9], [CHR 0xE2, CHR 0x80, CHR 0xAF], [CHR 0xE2, CHR 0x81, CHR 0x9F],
      [CHR 0xE3, CHR 0x80, CHR 0x80]]"

lemma space_runes_nonempty: "r \<in> set space_runes \<Longrightarrow> r \<noteq> []"
  by (auto simp: space_runes_def)

text \<open>Removes leading members of a set of non-empty words, as long as there is one.\<close>

function (sequential) trim_words :: "string list \<Rightarrow> string \<Rightarrow> string" where
  "trim_words ws s =
     (case find (\<lambda>r. r \<noteq> [] \<and> prefix r s) ws of
        None \<Rightarrow> s
      | Some r \<Rightarrow> trim_words ws (drop (length r) s))"
  by pat_completeness auto
termination
  by (relation "measure (\<lambda>(ws, s). length s)")
    (auto simp: find_Some_iff prefix_def)

declare trim_words.simps [simp del]

definition TrimLeftSpace :: "string \<Rightarrow> string" where
  "TrimLeftSpace s = trim_words space_runes s"

definition TrimRightSpace :: "string \<Rightarrow> string" where
  "TrimRightSpace s = rev (trim_words (map rev space_runes) (rev s))"

definition TrimSpace :: "string \<Rightarrow> string" where
  "TrimSpace s = TrimRightSpace (TrimLeftSpace s)"

lemma trim_words_done: "r \<in> set ws \<Longrightarrow> r \<noteq> [] \<Longrightarrow> \<not> prefix r (trim_words ws s)"
proof (induction ws s rule: trim_words.induct)
  case (1 ws s)
  show ?case
  proof (cases "find (\<lambda>r. r \<noteq> [] \<and> prefix r s) ws")
    case None
    then have "trim_words ws s = s" by (simp add: trim_words.simps [of ws s])
    with None 1(2,3) show ?thesis by (auto simp: find_None_iff)
  next
    case (Some r')
    with 1 show ?thesis by (simp add: trim_words.simps [of ws s])
  qed
qed

lemma trim_words_suffix: "suffix (trim_words ws s) s"
proof (induction ws s rule: trim_words.induct)
  case (1 ws s)
  then show ?case
    by (subst trim_words.simps)
      (auto split: option.splits intro: suffix_order.trans suffix_drop)
qed

lemma trim_words_id: "(\<And>r. r \<in> set ws \<Longrightarrow> r \<noteq> [] \<Longrightarrow> \<not> prefix r s) \<Longrightarrow> trim_words ws s = s"
  by (subst trim_words.simps) (auto simp: find_Some_iff split: option.splits)

text \<open>After trimming the text begins and ends with no white space, and it is a part of the
  original; trimming again changes nothing.\<close>

lemma TrimRightSpace_prefix: "prefix (TrimRightSpace s) s"
  using trim_words_suffix [of "map rev space_runes" "rev s"]
  by (simp add: TrimRightSpace_def suffix_to_prefix)

lemma TrimSpace_sublist: "sublist (TrimSpace s) s"
  unfolding TrimSpace_def TrimLeftSpace_def
  by (meson TrimRightSpace_prefix trim_words_suffix prefix_imp_sublist suffix_imp_sublist
      sublist_order.order_trans)

lemma TrimSpace_no_leading:
  assumes "r \<in> set space_runes"
  shows "\<not> prefix r (TrimSpace s)"
  using assms trim_words_done [of r space_runes s] space_runes_nonempty [of r]
    TrimRightSpace_prefix [of "TrimLeftSpace s"]
  by (auto simp: TrimSpace_def TrimLeftSpace_def intro: prefix_order.trans)

lemma TrimSpace_no_trailing:
  assumes "r \<in> set space_runes"
  shows "\<not> suffix r (TrimSpace s)"
  using assms trim_words_done [of "rev r" "map rev space_runes" "rev (TrimLeftSpace s)"]
    space_runes_nonempty [of r]
  by (auto simp: TrimSpace_def TrimRightSpace_def suffix_to_prefix)

lemma TrimSpace_idem [simp]: "TrimSpace (TrimSpace s) = TrimSpace s"
proof -
  have "TrimLeftSpace (TrimSpace s) = TrimSpace s"
    using TrimSpace_no_leading by (auto simp: TrimLeftSpace_def intro: trim_words_id)
  moreover have "TrimRightSpace (TrimSpace s) = TrimSpace s"
  proof -
    have "trim_words (map rev space_runes) (rev (TrimSpace s)) = rev (TrimSpace s)"
      using TrimSpace_no_trailing by (intro trim_words_id) (auto simp: suffix_to_prefix)
    then show ?thesis by (simp add: TrimRightSpace_def)
  qed
  ultimately show ?thesis by (simp add: TrimSpace_def [of "TrimSpace s"])
qed

text \<open>
  \<open>strings.ToLower\<close> maps the bytes of an ASCII string one by one. For a string with other
  runes it consults the Unicode tables of the standard library, which are the argument
  \<open>unicode_lower\<close> here.
\<close>

definition is_ascii :: "string \<Rightarrow> bool" where
  "is_ascii s \<longleftrightarrow> list_all (\<lambda>c. (of_char c :: int) < 128) s"

definition lower_byte :: "char \<Rightarrow> char" where
  "lower_byte c =
     (let n = (of_char c :: int) in if 65 \<le> n \<and> n \<le> 90 then char_of (n + 32) else c)"

definition ToLower :: "(string \<Rightarrow> string) \<Rightarrow> string \<Rightarrow> string" where
  "ToLower unicode_lower s = (if is_ascii s then map lower_byte s else unicode_lower s)"

section \<open>UTF-8\<close>

text \<open>
  \<open>utf8.RuneStart\<close>, and \<open>utf8.ValidString\<close>: the encodings of RFC 3629, with no
  overlong forms, no surrogates and nothing above U+10FFFF.
\<close>

definition byte_in :: "int \<Rightarrow> int \<Rightarrow> char \<Rightarrow> bool" where
  "byte_in lo hi c \<longleftrightarrow> lo \<le> (of_char c :: int) \<and> (of_char c :: int) \<le> hi"

abbreviation is_cont :: "char \<Rightarrow> bool" where
  "is_cont c \<equiv> byte_in 0x80 0xBF c"

definition RuneStart :: "char \<Rightarrow> bool" where
  "RuneStart c \<longleftrightarrow> \<not> is_cont c"

definition two_byte_rune :: "char \<Rightarrow> char \<Rightarrow> bool" where
  "two_byte_rune a b \<longleftrightarrow> byte_in 0xC2 0xDF a \<and> is_cont b"

definition three_byte_rune :: "char \<Rightarrow> char \<Rightarrow> char \<Rightarrow> bool" where
  "three_byte_rune a b c \<longleftrightarrow>
     (byte_in 0xE0 0xE0 a \<and> byte_in 0xA0 0xBF b
      \<or> byte_in 0xE1 0xEC a \<and> is_cont b
      \<or> byte_in 0xED 0xED a \<and> byte_in 0x80 0x9F b
      \<or> byte_in 0xEE 0xEF a \<and> is_cont b) \<and> is_cont c"

definition four_byte_rune :: "char \<Rightarrow> char \<Rightarrow> char \<Rightarrow> char \<Rightarrow> bool" where
  "four_byte_rune a b c d \<longleftrightarrow>
     (byte_in 0xF0 0xF0 a \<and> byte_in 0x90 0xBF b
      \<or> byte_in 0xF1 0xF3 a \<and> is_cont b
      \<or> byte_in 0xF4 0xF4 a \<and> byte_in 0x80 0x8F b) \<and> is_cont c \<and> is_cont d"

text \<open>The encoding of one rune, and a string as a sequence of them.\<close>

fun rune_bytes :: "string \<Rightarrow> bool" where
  "rune_bytes [a] \<longleftrightarrow> byte_in 0 0x7F a"
| "rune_bytes [a, b] \<longleftrightarrow> two_byte_rune a b"
| "rune_bytes [a, b, c] \<longleftrightarrow> three_byte_rune a b c"
| "rune_bytes [a, b, c, d] \<longleftrightarrow> four_byte_rune a b c d"
| "rune_bytes _ \<longleftrightarrow> False"

inductive valid_utf8 :: "string \<Rightarrow> bool" where
  empty: "valid_utf8 []"
| rune: "rune_bytes r \<Longrightarrow> valid_utf8 s \<Longrightarrow> valid_utf8 (r @ s)"

text \<open>The first byte of a rune starts it and the others continue it.\<close>

lemma rune_bytes_shape:
  assumes "rune_bytes r"
  obtains a cs where "r = a # cs" "RuneStart a" "list_all is_cont cs"
  using assms
  by (cases r rule: rune_bytes.cases)
    (auto simp: RuneStart_def byte_in_def two_byte_rune_def three_byte_rune_def four_byte_rune_def)

lemma valid_utf8_append: "valid_utf8 s \<Longrightarrow> valid_utf8 t \<Longrightarrow> valid_utf8 (s @ t)"
  by (induction rule: valid_utf8.induct) (auto intro: valid_utf8.intros)

lemma byte_nonneg: "0 \<le> (of_char c :: int)"
  by (metis of_char_mod_256 pos_mod_sign zero_less_numeral)

lemma valid_utf8_ascii: "is_ascii s \<Longrightarrow> valid_utf8 s"
proof (induction s)
  case (Cons c s)
  then have "rune_bytes [c]" "valid_utf8 s"
    by (auto simp: is_ascii_def byte_in_def byte_nonneg)
  then show ?case using valid_utf8.rune [of "[c]" s] by simp
qed (rule valid_utf8.empty)

text \<open>Cutting a valid string just before a byte that starts a rune leaves a valid string.\<close>

lemma valid_utf8_take:
  "valid_utf8 s \<Longrightarrow> n < length s \<Longrightarrow> RuneStart (s ! n) \<Longrightarrow> valid_utf8 (take n s)"
proof (induction s arbitrary: n rule: valid_utf8.induct)
  case (rune r s)
  obtain a cs where r: "r = a # cs" "list_all is_cont cs"
    using rune_bytes_shape rune.hyps(1) by blast
  show ?case
  proof (cases "n < length r")
    case True
    have "n = 0"
    proof (rule ccontr)
      assume "n \<noteq> 0"
      with True r have "is_cont ((r @ s) ! n)"
        by (auto simp: nth_append list_all_length nth_Cons')
      with rune.prems show False by (simp add: RuneStart_def)
    qed
    then show ?thesis by (simp add: valid_utf8.empty)
  next
    case False
    with rune.prems have "n - length r < length s" "RuneStart (s ! (n - length r))"
      by (auto simp: nth_append)
    then have "valid_utf8 (take (n - length r) s)" by (rule rune.IH)
    with rune.hyps(1) False show ?thesis by (simp add: valid_utf8.rune)
  qed
qed simp

end
