(* ===== verification/DbModels.thy ===== *)
theory DbModels
  imports GoStrings "HOL-Library.Word"
begin

text \<open>
  The data layer's types: \<open>dbtime.Stamp\<close> (internal/dbtime/stamp.go), the structs sqlc
  generates (internal/db/models.go), and the tables of db/schema.sql as SQLite stores them,
  with the constraints the schema declares.
\<close>

section \<open>Stamps\<close>

text \<open>What a driver hands to \<open>Scan\<close>; a float64 is its bits.\<close>

datatype driver_value =
    DNil | DInt64 int64 | DFloat64 "64 word" | DBool bool | DBytes string | DString string
  | DTime Time

fun go_type_name :: "driver_value \<Rightarrow> string" where
  "go_type_name DNil = ''<nil>''"
| "go_type_name (DInt64 _) = ''int64''"
| "go_type_name (DFloat64 _) = ''float64''"
| "go_type_name (DBool _) = ''bool''"
| "go_type_name (DBytes _) = ''[]uint8''"
| "go_type_name (DString _) = ''string''"
| "go_type_name (DTime _) = ''time.Time''"

datatype Stamp = Stamp (stamp_Time: Time)

definition time_Unix :: "int64 \<Rightarrow> Time" where
  "time_Unix s = s * ns_per_s"

definition Unix :: "Time \<Rightarrow> int64" where
  "Unix t = t div ns_per_s"

text \<open>\<open>UTC\<close> changes the location a time is shown in, not the instant.\<close>

definition dbtime_At :: "Time \<Rightarrow> Stamp" where
  "dbtime_At moment = Stamp moment"

fun Stamp_Scan :: "driver_value \<Rightarrow> go_error + Stamp" where
  "Stamp_Scan (DInt64 value) = Inr (Stamp (time_Unix value))"
| "Stamp_Scan DNil = Inr (Stamp time_zero)"
| "Stamp_Scan src = Inl (NewError (''cannot scan '' @ go_type_name src @ '' into a stamp''))"

definition Stamp_Value :: "Stamp \<Rightarrow> go_error + driver_value" where
  "Stamp_Value s = Inr (DInt64 (Unix (stamp_Time s)))"

text \<open>The integer a stamp is stored as, and the stamp read back from it. A pointer to a stamp
  is stored as null when it is nil.\<close>

definition stored_at :: "Stamp \<Rightarrow> int" where
  "stored_at s = Unix (stamp_Time s)"

definition stamp_of :: "int \<Rightarrow> Stamp" where
  "stamp_of n = Stamp (time_Unix n)"

lemma Stamp_Value_stored: "Stamp_Value s = Inr (DInt64 (stored_at s))"
  by (simp add: Stamp_Value_def stored_at_def)

lemma Stamp_Scan_stored: "Stamp_Scan (DInt64 n) = Inr (stamp_of n)"
  by (simp add: stamp_of_def)

lemma stored_stamp_of [simp]: "stored_at (stamp_of n) = n"
  by (simp add: stored_at_def stamp_of_def Unix_def time_Unix_def ns_per_s_def)

lemma Unix_mono: "t \<le> u \<Longrightarrow> Unix t \<le> Unix u"
  by (simp add: Unix_def ns_per_s_def zdiv_mono1)

lemma Unix_floor: "time_Unix (Unix t) \<le> t \<and> t < time_Unix (Unix t) + ns_per_s"
  by (simp add: Unix_def time_Unix_def ns_per_s_def) linarith

section \<open>Dates\<close>

text \<open>
  \<open>time.Format\<close> of a UTC time in the layout \<open>time.RFC3339\<close>, the one the code formats
  stamps with and the default of the API: the proleptic Gregorian date of a day number, by
  eras of 400 years that begin on the first of March.
\<close>

definition civil_from_days :: "int \<Rightarrow> int \<times> int \<times> int" where
  "civil_from_days d =
     (let z = d + 719468;
          era = z div 146097;
          doe = z mod 146097;
          yoe = (doe - doe div 1460 + doe div 36524 - doe div 146096) div 365;
          doy = doe - (365 * yoe + yoe div 4 - yoe div 100);
          mp = (5 * doy + 2) div 153;
          day = doy - (153 * mp + 2) div 5 + 1;
          month = (if mp < 10 then mp + 3 else mp - 9);
          year = yoe + era * 400 + (if month \<le> 2 then 1 else 0)
      in (year, month, day))"

definition zero_padded :: "nat \<Rightarrow> int \<Rightarrow> string" where
  "zero_padded width n =
     (let t = dec \<bar>n\<bar>
      in (if n < 0 then ''-'' else []) @ replicate (width - length t) (digit 0) @ t)"

definition rfc3339 :: "Time \<Rightarrow> string" where
  "rfc3339 t =
     (let s = Unix t; d = s div 86400; sod = s mod 86400
      in case civil_from_days d of (y, m, day) \<Rightarrow>
        zero_padded 4 y @ ''-'' @ zero_padded 2 m @ ''-'' @ zero_padded 2 day @ ''T''
        @ zero_padded 2 (sod div 3600) @ '':'' @ zero_padded 2 (sod div 60 mod 60) @ '':''
        @ zero_padded 2 (sod mod 60) @ ''Z'')"

lemma rfc3339_epoch: "rfc3339 0 = ''1970-01-01T00:00:00Z''"
  by code_simp

lemma rfc3339_leap_day: "rfc3339 (time_Unix 951827696) = ''2000-02-29T12:34:56Z''"
  by code_simp

section \<open>Structs\<close>

record Admin =
  Admin_UserID :: int64
  Admin_CreatedAt :: Stamp

record AuditLog =
  AuditLog_ID :: int64
  AuditLog_UserID :: "int64 option"
  AuditLog_Email :: string
  AuditLog_Action :: string
  AuditLog_Detail :: string
  AuditLog_Ip :: string
  AuditLog_CreatedAt :: Stamp

record User =
  User_ID :: int64
  User_OidcIssuer :: string
  User_OidcSubject :: string
  User_Email :: string
  User_Name :: string
  User_LastSigninAt :: "Stamp option"
  User_CreatedAt :: Stamp

record UserBan =
  UserBan_UserID :: int64
  UserBan_BannedBy :: "int64 option"
  UserBan_Reason :: string
  UserBan_CreatedAt :: Stamp

record Goqite =
  Goqite_ID :: string
  Goqite_Created :: string
  Goqite_Updated :: string
  Goqite_Queue :: string
  Goqite_Body :: string
  Goqite_Timeout :: string
  Goqite_Received :: int64
  Goqite_Priority :: int64

record SchemaMigration =
  SchemaMigration_Version :: string

section \<open>Tables\<close>

record users_row =
  u_id :: int
  u_oidc_issuer :: string
  u_oidc_subject :: string
  u_email :: string
  u_name :: string
  u_last_signin_at :: "int option"
  u_created_at :: int

record admins_row =
  a_user_id :: int
  a_created_at :: int

record user_bans_row =
  b_user_id :: int
  b_banned_by :: "int option"
  b_reason :: string
  b_created_at :: int

record audit_log_row =
  l_id :: int
  l_user_id :: "int option"
  l_email :: string
  l_action :: string
  l_detail :: string
  l_ip :: string
  l_created_at :: int

text \<open>
  A table declared \<open>autoincrement\<close> also has the largest row number it ever drew, which
  SQLite keeps in \<open>sqlite_sequence\<close>.
\<close>

record Database =
  db_users :: "users_row list"
  seq_users :: int
  db_admins :: "admins_row list"
  db_user_bans :: "user_bans_row list"
  db_audit_log :: "audit_log_row list"
  seq_audit_log :: int
  db_goqite :: "Goqite list"
  db_schema_migrations :: "SchemaMigration list"

definition empty_db :: Database where
  "empty_db =
     \<lparr>db_users = [], seq_users = 0, db_admins = [], db_user_bans = [], db_audit_log = [],
      seq_audit_log = 0, db_goqite = [], db_schema_migrations = []\<rparr>"

section \<open>Rows as structs\<close>

definition scan_Admin :: "admins_row \<Rightarrow> Admin" where
  "scan_Admin r = \<lparr>Admin_UserID = a_user_id r, Admin_CreatedAt = stamp_of (a_created_at r)\<rparr>"

definition scan_AuditLog :: "audit_log_row \<Rightarrow> AuditLog" where
  "scan_AuditLog r =
     \<lparr>AuditLog_ID = l_id r, AuditLog_UserID = l_user_id r, AuditLog_Email = l_email r,
      AuditLog_Action = l_action r, AuditLog_Detail = l_detail r, AuditLog_Ip = l_ip r,
      AuditLog_CreatedAt = stamp_of (l_created_at r)\<rparr>"

definition scan_User :: "users_row \<Rightarrow> User" where
  "scan_User r =
     \<lparr>User_ID = u_id r, User_OidcIssuer = u_oidc_issuer r, User_OidcSubject = u_oidc_subject r,
      User_Email = u_email r, User_Name = u_name r,
      User_LastSigninAt = map_option stamp_of (u_last_signin_at r),
      User_CreatedAt = stamp_of (u_created_at r)\<rparr>"

definition scan_UserBan :: "user_bans_row \<Rightarrow> UserBan" where
  "scan_UserBan r =
     \<lparr>UserBan_UserID = b_user_id r, UserBan_BannedBy = b_banned_by r, UserBan_Reason = b_reason r,
      UserBan_CreatedAt = stamp_of (b_created_at r)\<rparr>"

section \<open>The schema's constraints\<close>

definition oidc_key :: "users_row \<Rightarrow> string \<times> string" where
  "oidc_key r = (u_oidc_issuer r, u_oidc_subject r)"

definition wf_users :: "Database \<Rightarrow> bool" where
  "wf_users db \<longleftrightarrow>
     keyed u_id (db_users db) \<and> distinct (map oidc_key (db_users db))
     \<and> (\<forall>r \<in> set (db_users db). 1 \<le> u_id r \<and> u_id r \<le> seq_users db)
     \<and> 0 \<le> seq_users db \<and> seq_users db \<le> max_int64"

definition wf_admins :: "Database \<Rightarrow> bool" where
  "wf_admins db \<longleftrightarrow>
     keyed a_user_id (db_admins db)
     \<and> keys a_user_id (db_admins db) \<subseteq> keys u_id (db_users db)"

definition wf_user_bans :: "Database \<Rightarrow> bool" where
  "wf_user_bans db \<longleftrightarrow>
     keyed b_user_id (db_user_bans db)
     \<and> keys b_user_id (db_user_bans db) \<subseteq> keys u_id (db_users db)
     \<and> (\<forall>b \<in> set (db_user_bans db). \<forall>x. b_banned_by b = Some x
           \<longrightarrow> x \<in> keys a_user_id (db_admins db))"

definition wf_audit_log :: "Database \<Rightarrow> bool" where
  "wf_audit_log db \<longleftrightarrow>
     keyed l_id (db_audit_log db)
     \<and> (\<forall>r \<in> set (db_audit_log db). 1 \<le> l_id r \<and> l_id r \<le> seq_audit_log db)
     \<and> 0 \<le> seq_audit_log db \<and> seq_audit_log db \<le> max_int64"

definition wf_db :: "Database \<Rightarrow> bool" where
  "wf_db db \<longleftrightarrow> wf_users db \<and> wf_admins db \<and> wf_user_bans db \<and> wf_audit_log db"

lemmas wf_db_parts = wf_db_def wf_users_def wf_admins_def wf_user_bans_def wf_audit_log_def

lemma wf_empty_db: "wf_db empty_db"
  by (simp add: wf_db_parts empty_db_def max_int64_def)

lemma wf_dbD:
  assumes "wf_db db"
  shows "keyed u_id (db_users db)" "keyed a_user_id (db_admins db)"
    "keyed b_user_id (db_user_bans db)" "keyed l_id (db_audit_log db)"
    "distinct (map oidc_key (db_users db))"
    "keys a_user_id (db_admins db) \<subseteq> keys u_id (db_users db)"
    "keys b_user_id (db_user_bans db) \<subseteq> keys u_id (db_users db)"
  using assms by (simp_all add: wf_db_parts)

end
