(* ===== verification/Sql.thy ===== *)
theory Sql
  imports DbModels
begin

text \<open>
  The statements of internal/db/queries.read.sql.go and queries.write.sql.go: each query is
  the function on the database that its SQL text denotes, and for a write the constraint
  failures that SQLite reports. A failed statement changes nothing. The Go methods that run
  them on a connection are in theory World.
\<close>

section \<open>Reads\<close>

definition sql_DBCountAdmins :: "Database \<Rightarrow> int64" where
  "sql_DBCountAdmins db = int (length (db_admins db))"

definition sql_DBCountAuditLog :: "Database \<Rightarrow> int64" where
  "sql_DBCountAuditLog db = int (length (db_audit_log db))"

definition sql_DBCountUsers :: "Database \<Rightarrow> int64" where
  "sql_DBCountUsers db = int (length (db_users db))"

definition sql_DBGetAdminByUserID :: "int64 \<Rightarrow> Database \<Rightarrow> Admin list" where
  "sql_DBGetAdminByUserID userID db = [scan_Admin a. a \<leftarrow> db_admins db, a_user_id a = userID]"

text \<open>\<open>left join t on t.user_id = x\<close>: the matching rows, or one absent row; and the columns
  computed from them.\<close>

definition left_join :: "('r \<Rightarrow> int) \<Rightarrow> int \<Rightarrow> 'r list \<Rightarrow> 'r option list" where
  "left_join k x rs =
     (case filter (\<lambda>r. k r = x) rs of [] \<Rightarrow> [None] | ms \<Rightarrow> map Some ms)"

definition is_admin_column :: "admins_row option \<Rightarrow> int64" where
  "is_admin_column a = (case a of None \<Rightarrow> 0 | Some _ \<Rightarrow> 1)"

definition ban_reason_column :: "user_bans_row option \<Rightarrow> string" where
  "ban_reason_column b = (case b of None \<Rightarrow> '''' | Some r \<Rightarrow> b_reason r)"

record DBGetAdminUserByIDRow =
  AdminUser_ID :: int64
  AdminUser_Email :: string
  AdminUser_Name :: string
  AdminUser_CreatedAt :: Stamp
  AdminUser_LastSigninAt :: "Stamp option"
  AdminUser_IsAdmin :: int64
  AdminUser_BanReason :: string

record DBGetIdentityByOIDCParams =
  IdentityParams_OidcIssuer :: string
  IdentityParams_OidcSubject :: string

record DBGetIdentityByOIDCRow =
  Identity_ID :: int64
  Identity_Email :: string
  Identity_Name :: string
  Identity_CreatedAt :: Stamp
  Identity_LastSigninAt :: "Stamp option"
  Identity_IsAdmin :: int64
  Identity_BanReason :: string

record DBListAdminsRow =
  ListAdmins_UserID :: int64
  ListAdmins_CreatedAt :: Stamp
  ListAdmins_Email :: string
  ListAdmins_Name :: string

record DBListUsersRow =
  ListUsers_ID :: int64
  ListUsers_Email :: string
  ListUsers_Name :: string
  ListUsers_CreatedAt :: Stamp
  ListUsers_LastSigninAt :: "Stamp option"
  ListUsers_IsAdmin :: int64
  ListUsers_BanReason :: string

record DBListAuditLogParams =
  ListAuditLogParams_Before :: int64
  ListAuditLogParams_PageLimit :: int64

definition scan_AdminUser ::
  "users_row \<Rightarrow> admins_row option \<Rightarrow> user_bans_row option \<Rightarrow> DBGetAdminUserByIDRow" where
  "scan_AdminUser u a b =
     \<lparr>AdminUser_ID = u_id u, AdminUser_Email = u_email u, AdminUser_Name = u_name u,
      AdminUser_CreatedAt = stamp_of (u_created_at u),
      AdminUser_LastSigninAt = map_option stamp_of (u_last_signin_at u),
      AdminUser_IsAdmin = is_admin_column a, AdminUser_BanReason = ban_reason_column b\<rparr>"

definition scan_Identity ::
  "users_row \<Rightarrow> admins_row option \<Rightarrow> user_bans_row option \<Rightarrow> DBGetIdentityByOIDCRow" where
  "scan_Identity u a b =
     \<lparr>Identity_ID = u_id u, Identity_Email = u_email u, Identity_Name = u_name u,
      Identity_CreatedAt = stamp_of (u_created_at u),
      Identity_LastSigninAt = map_option stamp_of (u_last_signin_at u),
      Identity_IsAdmin = is_admin_column a, Identity_BanReason = ban_reason_column b\<rparr>"

definition scan_ListUsers ::
  "users_row \<Rightarrow> admins_row option \<Rightarrow> user_bans_row option \<Rightarrow> DBListUsersRow" where
  "scan_ListUsers u a b =
     \<lparr>ListUsers_ID = u_id u, ListUsers_Email = u_email u, ListUsers_Name = u_name u,
      ListUsers_CreatedAt = stamp_of (u_created_at u),
      ListUsers_LastSigninAt = map_option stamp_of (u_last_signin_at u),
      ListUsers_IsAdmin = is_admin_column a, ListUsers_BanReason = ban_reason_column b\<rparr>"

definition scan_ListAdmins :: "admins_row \<Rightarrow> users_row \<Rightarrow> DBListAdminsRow" where
  "scan_ListAdmins a u =
     \<lparr>ListAdmins_UserID = a_user_id a, ListAdmins_CreatedAt = stamp_of (a_created_at a),
      ListAdmins_Email = u_email u, ListAdmins_Name = u_name u\<rparr>"

definition sql_DBGetAdminUserByID :: "int64 \<Rightarrow> Database \<Rightarrow> DBGetAdminUserByIDRow list" where
  "sql_DBGetAdminUserByID uid db =
     [scan_AdminUser u a b. u \<leftarrow> db_users db, u_id u = uid,
        a \<leftarrow> left_join a_user_id (u_id u) (db_admins db),
        b \<leftarrow> left_join b_user_id (u_id u) (db_user_bans db)]"

definition sql_DBGetIdentityByOIDC ::
  "DBGetIdentityByOIDCParams \<Rightarrow> Database \<Rightarrow> DBGetIdentityByOIDCRow list" where
  "sql_DBGetIdentityByOIDC arg db =
     [scan_Identity u a b. u \<leftarrow> db_users db,
        u_oidc_issuer u = IdentityParams_OidcIssuer arg
          \<and> u_oidc_subject u = IdentityParams_OidcSubject arg,
        a \<leftarrow> left_join a_user_id (u_id u) (db_admins db),
        b \<leftarrow> left_join b_user_id (u_id u) (db_user_bans db)]"

definition sql_DBGetUserBan :: "int64 \<Rightarrow> Database \<Rightarrow> UserBan list" where
  "sql_DBGetUserBan userID db = [scan_UserBan b. b \<leftarrow> db_user_bans db, b_user_id b = userID]"

definition sql_DBGetUserByID :: "int64 \<Rightarrow> Database \<Rightarrow> User list" where
  "sql_DBGetUserByID uid db = [scan_User u. u \<leftarrow> db_users db, u_id u = uid]"

text \<open>\<open>order by\<close> sorts; the order of rows with equal keys is not specified by SQL, and here
  it is the order of the scan.\<close>

definition sql_DBListAdmins :: "Database \<Rightarrow> DBListAdminsRow list" where
  "sql_DBListAdmins db =
     map (\<lambda>(a, u). scan_ListAdmins a u)
       (sort_key (\<lambda>(a, u). - a_created_at a)
         [(a, u). a \<leftarrow> db_admins db, u \<leftarrow> db_users db, u_id u = a_user_id a])"

text \<open>A negative \<open>limit\<close> is no limit.\<close>

definition sql_limit :: "int64 \<Rightarrow> 'r list \<Rightarrow> 'r list" where
  "sql_limit n rs = (if n < 0 then rs else take (nat n) rs)"

definition sql_DBListAuditLog :: "DBListAuditLogParams \<Rightarrow> Database \<Rightarrow> AuditLog list" where
  "sql_DBListAuditLog arg db =
     map scan_AuditLog
       (sql_limit (ListAuditLogParams_PageLimit arg)
         (sort_key (\<lambda>r. - l_id r)
           (filter (\<lambda>r. l_id r < ListAuditLogParams_Before arg \<or> ListAuditLogParams_Before arg = 0)
             (db_audit_log db))))"

definition sql_DBListUsers :: "Database \<Rightarrow> DBListUsersRow list" where
  "sql_DBListUsers db =
     [scan_ListUsers u a b. u \<leftarrow> sort_key u_id (db_users db),
        a \<leftarrow> left_join a_user_id (u_id u) (db_admins db),
        b \<leftarrow> left_join b_user_id (u_id u) (db_user_bans db)]"

section \<open>Writes\<close>

definition fk_failed :: go_error where
  "fk_failed = NewError ''FOREIGN KEY constraint failed''"

definition db_full :: go_error where
  "db_full = NewError ''database or disk is full''"

type_synonym 'a stmt = "Database \<Rightarrow> go_error + ('a \<times> Database)"

record DBInsertAdminParams =
  InsertAdmin_UserID :: int64
  InsertAdmin_CreatedAt :: Stamp

record DBInsertAuditLogParams =
  InsertAuditLog_UserID :: "int64 option"
  InsertAuditLog_Email :: string
  InsertAuditLog_Action :: string
  InsertAuditLog_Detail :: string
  InsertAuditLog_Ip :: string
  InsertAuditLog_CreatedAt :: Stamp

record DBInsertUserBanParams =
  InsertUserBan_UserID :: int64
  InsertUserBan_BannedBy :: "int64 option"
  InsertUserBan_Reason :: string
  InsertUserBan_CreatedAt :: Stamp

record DBMarkSignInParams =
  MarkSignIn_IssuedAt :: "Stamp option"
  MarkSignIn_ID :: int64

record DBUpsertUserByOIDCParams =
  UpsertUser_OidcIssuer :: string
  UpsertUser_OidcSubject :: string
  UpsertUser_Email :: string
  UpsertUser_Name :: string
  UpsertUser_LastSigninAt :: "Stamp option"
  UpsertUser_CreatedAt :: Stamp

text \<open>A ban points at the admin who made it, \<open>on delete restrict\<close>: the statement fails while
  such a ban exists.\<close>

definition sql_DBDeleteAdmin :: "int64 \<Rightarrow> int64 stmt" where
  "sql_DBDeleteAdmin userID db =
     (let matched = filter (\<lambda>a. a_user_id a = userID \<and> sql_DBCountAdmins db > 1) (db_admins db)
      in if matched = [] then Inr (0, db)
         else if list_ex (\<lambda>b. b_banned_by b = Some userID) (db_user_bans db) then Inl fk_failed
         else Inr (int (length matched),
                   db\<lparr>db_admins := filter (\<lambda>a. a_user_id a \<noteq> userID) (db_admins db)\<rparr>))"

definition sql_DBDeleteAuditLogBefore :: "Stamp \<Rightarrow> unit stmt" where
  "sql_DBDeleteAuditLogBefore before db =
     Inr ((), db\<lparr>db_audit_log :=
                  filter (\<lambda>r. \<not> l_created_at r < stored_at before) (db_audit_log db)\<rparr>)"

definition sql_DBDeleteUserBan :: "int64 \<Rightarrow> unit stmt" where
  "sql_DBDeleteUserBan userID db =
     Inr ((), db\<lparr>db_user_bans := filter (\<lambda>b. b_user_id b \<noteq> userID) (db_user_bans db)\<rparr>)"

definition sql_DBInsertAdmin :: "DBInsertAdminParams \<Rightarrow> unit stmt" where
  "sql_DBInsertAdmin arg db =
     (if list_ex (\<lambda>a. a_user_id a = InsertAdmin_UserID arg) (db_admins db) then Inr ((), db)
      else if \<not> list_ex (\<lambda>u. u_id u = InsertAdmin_UserID arg) (db_users db) then Inl fk_failed
      else Inr ((), db\<lparr>db_admins := insort_key a_user_id
              \<lparr>a_user_id = InsertAdmin_UserID arg,
               a_created_at = stored_at (InsertAdmin_CreatedAt arg)\<rparr> (db_admins db)\<rparr>))"

text \<open>\<open>autoincrement\<close> draws the number after the largest ever drawn, and fails when there is
  none left.\<close>

definition sql_DBInsertAuditLog :: "DBInsertAuditLogParams \<Rightarrow> unit stmt" where
  "sql_DBInsertAuditLog arg db =
     (if seq_audit_log db \<ge> max_int64 then Inl db_full
      else let n = seq_audit_log db + 1
      in Inr ((), db\<lparr>seq_audit_log := n,
                    db_audit_log := db_audit_log db @
                      [\<lparr>l_id = n, l_user_id = InsertAuditLog_UserID arg,
                        l_email = InsertAuditLog_Email arg, l_action = InsertAuditLog_Action arg,
                        l_detail = InsertAuditLog_Detail arg, l_ip = InsertAuditLog_Ip arg,
                        l_created_at = stored_at (InsertAuditLog_CreatedAt arg)\<rparr>]\<rparr>))"

text \<open>On conflict only the reason changes: who banned, and when, stay those of the first ban,
  and the refused row's references are not checked.\<close>

definition sql_DBInsertUserBan :: "DBInsertUserBanParams \<Rightarrow> UserBan stmt" where
  "sql_DBInsertUserBan arg db =
     (case filter (\<lambda>b. b_user_id b = InsertUserBan_UserID arg) (db_user_bans db) of
        old # _ \<Rightarrow>
          Inr (scan_UserBan (old\<lparr>b_reason := InsertUserBan_Reason arg\<rparr>),
               db\<lparr>db_user_bans :=
                    map (\<lambda>b. if b_user_id b = InsertUserBan_UserID arg
                             then b\<lparr>b_reason := InsertUserBan_Reason arg\<rparr> else b)
                      (db_user_bans db)\<rparr>)
      | [] \<Rightarrow>
          if \<not> list_ex (\<lambda>u. u_id u = InsertUserBan_UserID arg) (db_users db)
             \<or> (case InsertUserBan_BannedBy arg of None \<Rightarrow> False
                | Some x \<Rightarrow> \<not> list_ex (\<lambda>a. a_user_id a = x) (db_admins db))
          then Inl fk_failed
          else let row = \<lparr>b_user_id = InsertUserBan_UserID arg,
                          b_banned_by = InsertUserBan_BannedBy arg,
                          b_reason = InsertUserBan_Reason arg,
                          b_created_at = stored_at (InsertUserBan_CreatedAt arg)\<rparr>
               in Inr (scan_UserBan row,
                       db\<lparr>db_user_bans := insort_key b_user_id row (db_user_bans db)\<rparr>))"

text \<open>A comparison with null is not true.\<close>

definition marks_sign_in :: "int option \<Rightarrow> users_row \<Rightarrow> bool" where
  "marks_sign_in issued u \<longleftrightarrow>
     (case u_last_signin_at u of None \<Rightarrow> True
      | Some l \<Rightarrow> (case issued of None \<Rightarrow> False | Some i \<Rightarrow> l < i))"

definition sql_DBMarkSignIn :: "DBMarkSignInParams \<Rightarrow> int64 stmt" where
  "sql_DBMarkSignIn arg db =
     (let issued = map_option stored_at (MarkSignIn_IssuedAt arg);
          hit = (\<lambda>u. u_id u = MarkSignIn_ID arg \<and> marks_sign_in issued u)
      in Inr (int (length (filter hit (db_users db))),
              db\<lparr>db_users := map (\<lambda>u. if hit u then u\<lparr>u_last_signin_at := issued\<rparr> else u)
                   (db_users db)\<rparr>))"

text \<open>The row number drawn for a row that then conflicts is not given back.\<close>

definition sql_DBUpsertUserByOIDC :: "DBUpsertUserByOIDCParams \<Rightarrow> User stmt" where
  "sql_DBUpsertUserByOIDC arg db =
     (let n = seq_users db + 1;
          last = map_option stored_at (UpsertUser_LastSigninAt arg);
          same = (\<lambda>u. u_oidc_issuer u = UpsertUser_OidcIssuer arg
                     \<and> u_oidc_subject u = UpsertUser_OidcSubject arg);
          upd = (\<lambda>u. u\<lparr>u_email := UpsertUser_Email arg, u_name := UpsertUser_Name arg,
                       u_last_signin_at := last\<rparr>)
      in if seq_users db \<ge> max_int64 then Inl db_full
         else case filter same (db_users db) of
           old # _ \<Rightarrow>
             Inr (scan_User (upd old),
                  db\<lparr>seq_users := n,
                     db_users := map (\<lambda>u. if same u then upd u else u) (db_users db)\<rparr>)
         | [] \<Rightarrow>
             let row = \<lparr>u_id = n, u_oidc_issuer = UpsertUser_OidcIssuer arg,
                        u_oidc_subject = UpsertUser_OidcSubject arg,
                        u_email = UpsertUser_Email arg, u_name = UpsertUser_Name arg,
                        u_last_signin_at = last,
                        u_created_at = stored_at (UpsertUser_CreatedAt arg)\<rparr>
             in Inr (scan_User row,
                     db\<lparr>seq_users := n, db_users := db_users db @ [row]\<rparr>))"

end
