(* ===== verification/SqlProps.thy ===== *)
theory SqlProps
  imports Sql
begin

text \<open>
  What the statements keep and what they compute. The users, admins and bans of a database as
  sets and functions; each read in those terms on a well-formed database; each write keeps the
  schema's constraints and changes what it names and nothing else.
\<close>

section \<open>The tables as sets and functions\<close>

definition user_ids :: "Database \<Rightarrow> int set" where
  "user_ids db = keys u_id (db_users db)"

definition admin_ids :: "Database \<Rightarrow> int set" where
  "admin_ids db = keys a_user_id (db_admins db)"

definition banned_ids :: "Database \<Rightarrow> int set" where
  "banned_ids db = keys b_user_id (db_user_bans db)"

definition row_of :: "('r \<Rightarrow> int) \<Rightarrow> int \<Rightarrow> 'r list \<Rightarrow> 'r option" where
  "row_of k x rs = find (\<lambda>r. k r = x) rs"

definition ban_reason :: "Database \<Rightarrow> int \<Rightarrow> string" where
  "ban_reason db uid = ban_reason_column (row_of b_user_id uid (db_user_bans db))"

text \<open>Every stored ban has a reason. It is not a constraint of the schema: banuser's check of
  its input makes it so.\<close>

definition reasons_given :: "Database \<Rightarrow> bool" where
  "reasons_given db \<longleftrightarrow> (\<forall>b \<in> set (db_user_bans db). b_reason b \<noteq> [])"

lemmas id_sets = user_ids_def admin_ids_def banned_ids_def

lemma row_of_None: "row_of k x rs = None \<longleftrightarrow> x \<notin> keys k rs"
  by (auto simp: row_of_def find_None_iff keys_def)

lemma row_of_SomeD: "row_of k x rs = Some r \<Longrightarrow> r \<in> set rs \<and> k r = x"
  by (auto simp: row_of_def find_Some_iff)

lemma row_of_unique:
  assumes "keyed k rs" "r \<in> set rs" "k r = x"
  shows "row_of k x rs = Some r"
proof (cases "row_of k x rs")
  case None
  then have "x \<notin> keys k rs" by (rule row_of_None [THEN iffD1])
  with assms(2,3) show ?thesis by (auto simp: keys_def)
next
  case (Some s)
  from row_of_SomeD [OF Some] have "s \<in> set rs" "k s = k r" using assms(3) by simp_all
  then have "s = r" using assms(1,2) by (blast intro: keyed_unique)
  with Some show ?thesis by simp
qed

lemma filter_key: "keyed k rs \<Longrightarrow>
  filter (\<lambda>r. k r = x) rs = (case row_of k x rs of None \<Rightarrow> [] | Some r \<Rightarrow> [r])"
proof (cases "row_of k x rs")
  case None
  then have "filter (\<lambda>r. k r = x) rs = []" by (simp add: row_of_None select_none)
  with None show ?thesis by simp
next
  case (Some r)
  moreover assume "keyed k rs"
  ultimately show ?thesis using row_of_SomeD [OF Some] by (simp add: keyed_select)
qed

lemma left_join_row_of: "keyed k rs \<Longrightarrow> left_join k x rs = [row_of k x rs]"
  by (simp add: left_join_def filter_key split: option.splits)

lemma list_ex_key: "list_ex (\<lambda>r. k r = x) rs \<longleftrightarrow> x \<in> keys k rs"
  by (auto simp: list_ex_iff keys_def)

lemma ban_reason_nonempty: "ban_reason db uid \<noteq> [] \<Longrightarrow> uid \<in> banned_ids db"
  by (auto simp: ban_reason_def ban_reason_column_def banned_ids_def keys_def
      split: option.splits dest: row_of_SomeD)

lemma ban_reason_banned:
  "reasons_given db \<Longrightarrow> uid \<in> banned_ids db \<longleftrightarrow> ban_reason db uid \<noteq> []"
proof
  assume "reasons_given db" "uid \<in> banned_ids db"
  then obtain b where "row_of b_user_id uid (db_user_bans db) = Some b"
    using row_of_None [of b_user_id uid "db_user_bans db"] by (auto simp: banned_ids_def)
  with \<open>reasons_given db\<close> show "ban_reason db uid \<noteq> []"
    by (auto simp: ban_reason_def ban_reason_column_def reasons_given_def dest: row_of_SomeD)
qed (rule ban_reason_nonempty)

lemma is_admin_column_row [simp]:
  "is_admin_column (row_of a_user_id uid (db_admins db)) = (if uid \<in> admin_ids db then 1 else 0)"
  by (auto simp: is_admin_column_def admin_ids_def row_of_None [symmetric] split: option.splits)

section \<open>Reads\<close>

lemma concat_if_filter:
  "concat (map (\<lambda>x. if P x then f x else []) xs) = concat (map f (filter P xs))"
  by (induction xs) auto

lemma DBGetAdminByUserID_eq:
  assumes "wf_db db"
  shows "sql_DBGetAdminByUserID uid db =
    (case row_of a_user_id uid (db_admins db) of None \<Rightarrow> [] | Some a \<Rightarrow> [scan_Admin a])"
  using wf_dbD(2) [OF assms]
  by (simp add: sql_DBGetAdminByUserID_def concat_if_filter filter_key split: option.splits)

lemma DBGetUserByID_eq:
  assumes "wf_db db"
  shows "sql_DBGetUserByID uid db =
    (case row_of u_id uid (db_users db) of None \<Rightarrow> [] | Some u \<Rightarrow> [scan_User u])"
  using wf_dbD(1) [OF assms]
  by (simp add: sql_DBGetUserByID_def concat_if_filter filter_key split: option.splits)

lemma DBGetUserBan_eq:
  assumes "wf_db db"
  shows "sql_DBGetUserBan uid db =
    (case row_of b_user_id uid (db_user_bans db) of None \<Rightarrow> [] | Some b \<Rightarrow> [scan_UserBan b])"
  using wf_dbD(3) [OF assms]
  by (simp add: sql_DBGetUserBan_def concat_if_filter filter_key split: option.splits)

lemma DBGetAdminUserByID_eq:
  assumes "wf_db db"
  shows "sql_DBGetAdminUserByID uid db =
    (case row_of u_id uid (db_users db) of None \<Rightarrow> []
     | Some u \<Rightarrow> [scan_AdminUser u (row_of a_user_id uid (db_admins db))
                    (row_of b_user_id uid (db_user_bans db))])"
  using wf_dbD(1-3) [OF assms]
  by (auto simp: sql_DBGetAdminUserByID_def concat_if_filter filter_key left_join_row_of
      split: option.splits dest: row_of_SomeD)

definition user_with :: "string \<Rightarrow> string \<Rightarrow> Database \<Rightarrow> users_row option" where
  "user_with issuer subject db = find (\<lambda>u. oidc_key u = (issuer, subject)) (db_users db)"

lemma filter_oidc:
  assumes "distinct (map oidc_key us)"
  shows "filter (\<lambda>u. u_oidc_issuer u = i \<and> u_oidc_subject u = s) us =
    (case find (\<lambda>u. oidc_key u = (i, s)) us of None \<Rightarrow> [] | Some u \<Rightarrow> [u])"
  using assms
proof (induction us)
  case (Cons u us)
  have "filter (\<lambda>v. u_oidc_issuer v = i \<and> u_oidc_subject v = s) us = []" if "oidc_key u = (i, s)"
    using Cons.prems that by (auto simp: filter_empty_conv oidc_key_def image_iff)
  with Cons show ?case by (auto simp: oidc_key_def)
qed simp

lemma DBGetIdentityByOIDC_eq:
  assumes "wf_db db"
  shows "sql_DBGetIdentityByOIDC arg db =
    (case user_with (IdentityParams_OidcIssuer arg) (IdentityParams_OidcSubject arg) db of
       None \<Rightarrow> []
     | Some u \<Rightarrow> [scan_Identity u (row_of a_user_id (u_id u) (db_admins db))
                    (row_of b_user_id (u_id u) (db_user_bans db))])"
  using wf_dbD(2,3,5) [OF assms]
  by (simp add: sql_DBGetIdentityByOIDC_def concat_if_filter filter_oidc user_with_def
      left_join_row_of split: option.splits)

lemma user_with_SomeD:
  "user_with i s db = Some u \<Longrightarrow> u \<in> set (db_users db) \<and> u_oidc_issuer u = i \<and> u_oidc_subject u = s"
  by (auto simp: user_with_def find_Some_iff oidc_key_def)

section \<open>Writes keep the constraints\<close>

text \<open>What a statement may do to a database it leaves well formed, and to one whose bans all
  have reasons.\<close>

definition keeps_wf :: "'a stmt \<Rightarrow> bool" where
  "keeps_wf f \<longleftrightarrow> (\<forall>db x db'. wf_db db \<longrightarrow> f db = Inr (x, db') \<longrightarrow> wf_db db')"

lemma keeps_wfI: "(\<And>db x db'. wf_db db \<Longrightarrow> f db = Inr (x, db') \<Longrightarrow> wf_db db') \<Longrightarrow> keeps_wf f"
  by (simp add: keeps_wf_def)

named_theorems stmt_wf \<open>statements that keep the schema's constraints\<close>

lemma wf_DBDeleteAdmin [stmt_wf]: "keeps_wf (sql_DBDeleteAdmin uid)"
proof (rule keeps_wfI)
  fix db x db' assume wf: "wf_db db" and run: "sql_DBDeleteAdmin uid db = Inr (x, db')"
  show "wf_db db'"
  proof (cases "db' = db")
    case False
    with run have db': "db' = db\<lparr>db_admins := filter (\<lambda>a. a_user_id a \<noteq> uid) (db_admins db)\<rparr>"
      and free: "\<And>b. b \<in> set (db_user_bans db) \<Longrightarrow> b_banned_by b \<noteq> Some uid"
      by (auto simp: sql_DBDeleteAdmin_def Let_def list_ex_iff split: if_splits)
    from wf have "wf_users db'" "wf_audit_log db'"
      by (simp_all add: db' wf_db_parts)
    moreover from wf have "wf_admins db'"
      by (auto simp: db' wf_db_parts keyed_filter dest: subsetD [OF keys_filter])
    moreover from wf free have "wf_user_bans db'"
      by (fastforce simp: db' wf_db_parts keys_def)
    ultimately show ?thesis by (simp add: wf_db_def)
  qed (use wf in simp)
qed

lemma wf_DBDeleteAuditLogBefore [stmt_wf]: "keeps_wf (sql_DBDeleteAuditLogBefore t)"
  by (auto simp: keeps_wf_def sql_DBDeleteAuditLogBefore_def wf_db_parts keyed_filter)

lemma wf_DBDeleteUserBan [stmt_wf]: "keeps_wf (sql_DBDeleteUserBan uid)"
proof (rule keeps_wfI)
  fix db x db' assume wf: "wf_db db" and run: "sql_DBDeleteUserBan uid db = Inr (x, db')"
  from run have db': "db' = db\<lparr>db_user_bans := filter (\<lambda>b. b_user_id b \<noteq> uid) (db_user_bans db)\<rparr>"
    by (simp add: sql_DBDeleteUserBan_def)
  from wf show "wf_db db'"
    using keys_filter [of b_user_id "\<lambda>b. b_user_id b \<noteq> uid" "db_user_bans db"]
    by (auto simp: db' wf_db_parts keyed_filter)
qed

lemma wf_DBInsertAdmin [stmt_wf]: "keeps_wf (sql_DBInsertAdmin arg)"
  by (auto simp: keeps_wf_def sql_DBInsertAdmin_def wf_db_parts list_ex_key keyed_insort
      split: if_splits)

lemma wf_DBInsertAuditLog [stmt_wf]: "keeps_wf (sql_DBInsertAuditLog arg)"
proof (rule keeps_wfI)
  fix db x db' assume wf: "wf_db db" and run: "sql_DBInsertAuditLog arg db = Inr (x, db')"
  then have "wf_audit_log db'"
    by (force simp: sql_DBInsertAuditLog_def wf_db_parts Let_def split: if_splits
        intro!: keyed_snoc)
  with wf run show "wf_db db'"
    by (auto simp: sql_DBInsertAuditLog_def wf_db_parts Let_def split: if_splits)
qed

lemma wf_DBInsertUserBan [stmt_wf]: "keeps_wf (sql_DBInsertUserBan arg)"
proof (rule keeps_wfI)
  fix db x db' assume wf: "wf_db db" and run: "sql_DBInsertUserBan arg db = Inr (x, db')"
  let ?uid = "InsertUserBan_UserID arg"
  show "wf_db db'"
  proof (cases "?uid \<in> keys b_user_id (db_user_bans db)")
    case True
    then obtain old rest where "filter (\<lambda>b. b_user_id b = ?uid) (db_user_bans db) = old # rest"
      by (cases "filter (\<lambda>b. b_user_id b = ?uid) (db_user_bans db)")
        (auto simp: keys_def filter_empty_conv)
    with run wf show ?thesis
      by (auto simp: sql_DBInsertUserBan_def wf_db_parts keyed_update)
  next
    case False
    with run have "list_ex (\<lambda>u. u_id u = ?uid) (db_users db)"
      "\<And>x. InsertUserBan_BannedBy arg = Some x \<Longrightarrow> list_ex (\<lambda>a. a_user_id a = x) (db_admins db)"
      "db' = db\<lparr>db_user_bans := insort_key b_user_id
        \<lparr>b_user_id = ?uid, b_banned_by = InsertUserBan_BannedBy arg,
         b_reason = InsertUserBan_Reason arg,
         b_created_at = stored_at (InsertUserBan_CreatedAt arg)\<rparr> (db_user_bans db)\<rparr>"
      by (auto simp: sql_DBInsertUserBan_def select_none Let_def split: if_splits option.splits)
    with wf False show ?thesis
      by (auto simp: wf_db_parts list_ex_key keyed_insort set_insort_key)
  qed
qed

lemma wf_DBMarkSignIn [stmt_wf]: "keeps_wf (sql_DBMarkSignIn arg)"
proof (rule keeps_wfI)
  fix db x db' assume wf: "wf_db db" and run: "sql_DBMarkSignIn arg db = Inr (x, db')"
  from run obtain f where db': "db' = db\<lparr>db_users := map f (db_users db)\<rparr>"
    and f: "\<And>u. u_id (f u) = u_id u" "\<And>u. oidc_key (f u) = oidc_key u"
    unfolding sql_DBMarkSignIn_def Let_def by (auto simp: oidc_key_def)
  from wf show "wf_db db'"
    by (auto simp: db' wf_db_parts keyed_update f o_def)
qed

lemma wf_DBUpsertUserByOIDC [stmt_wf]: "keeps_wf (sql_DBUpsertUserByOIDC arg)"
proof (rule keeps_wfI)
  fix db x db' assume wf: "wf_db db" and run: "sql_DBUpsertUserByOIDC arg db = Inr (x, db')"
  let ?same = "\<lambda>u. u_oidc_issuer u = UpsertUser_OidcIssuer arg
                   \<and> u_oidc_subject u = UpsertUser_OidcSubject arg"
  show "wf_db db'"
  proof (cases "filter ?same (db_users db)")
    case (Cons old rest)
    with run obtain f where db': "db' = db\<lparr>seq_users := seq_users db + 1, db_users := map f (db_users db)\<rparr>"
      and f: "\<And>u. u_id (f u) = u_id u" "\<And>u. oidc_key (f u) = oidc_key u"
      and room: "seq_users db < max_int64"
      unfolding sql_DBUpsertUserByOIDC_def Let_def by (auto simp: oidc_key_def split: if_splits)
    from wf room show ?thesis
      by (force simp: db' wf_db_parts keyed_update f o_def)
  next
    case Nil
    with run obtain row where db': "db' = db\<lparr>seq_users := seq_users db + 1, db_users := db_users db @ [row]\<rparr>"
      and row: "u_id row = seq_users db + 1"
        "oidc_key row = (UpsertUser_OidcIssuer arg, UpsertUser_OidcSubject arg)"
      and room: "seq_users db < max_int64"
      unfolding sql_DBUpsertUserByOIDC_def Let_def by (auto simp: oidc_key_def split: if_splits)
    have new: "oidc_key row \<notin> oidc_key ` set (db_users db)"
      using Nil row(2) by (auto simp: filter_empty_conv oidc_key_def)
    have "wf_users db'"
      using wf room row(1) new by (force simp: db' wf_db_parts intro!: keyed_snoc)
    with wf show ?thesis by (auto simp: db' wf_db_parts)
  qed
qed

end
