(* ===== verification/GqlModel.thy ===== *)
theory GqlModel
  imports SqlProps "HOL-Library.Multiset"
begin

text \<open>
  The GraphQL layer's data (internal/graph/model, internal/model) and the validation of inputs.
  \<open>ozzo-validation\<close> is a library outside the repository: its \<open>ValidateStruct\<close> is an
  argument of every definition that calls it, and \<open>ozzo_documented\<close> states what its
  documentation says of the three rules the program uses.
\<close>

section \<open>Validation rules\<close>

datatype ozzo_rule = Required | Min int64 | Length nat nat

datatype ozzo_value = VInt64 int64 | VString string

datatype ozzo_field = Field (field_name: string) (field_value: ozzo_value) (field_rules: "ozzo_rule list")

text \<open>A nil error, the library's map from field names to errors with its text, or another
  error. A Go map is iterated in no fixed order: the list is one such order.\<close>

datatype ozzo_result = OzzoNil | OzzoErrors string "(string \<times> string) list" | OzzoOther string

type_synonym ozzo = "ozzo_field list \<Rightarrow> ozzo_result"

fun rule_holds :: "ozzo_value \<Rightarrow> ozzo_rule \<Rightarrow> bool" where
  "rule_holds (VInt64 n) Required \<longleftrightarrow> n \<noteq> 0"
| "rule_holds (VString s) Required \<longleftrightarrow> s \<noteq> []"
| "rule_holds (VInt64 n) (Min m) \<longleftrightarrow> n = 0 \<or> m \<le> n"
| "rule_holds (VString s) (Min m) \<longleftrightarrow> s = []"
| "rule_holds (VInt64 n) (Length lo hi) \<longleftrightarrow> n = 0"
| "rule_holds (VString s) (Length lo hi) \<longleftrightarrow> s = [] \<or> lo \<le> length s \<and> length s \<le> hi"

definition field_holds :: "ozzo_field \<Rightarrow> bool" where
  "field_holds f \<longleftrightarrow> list_all (rule_holds (field_value f)) (field_rules f)"

definition ozzo_documented :: "ozzo \<Rightarrow> bool" where
  "ozzo_documented V \<longleftrightarrow>
     (\<forall>fs. distinct (map field_name fs) \<longrightarrow>
        (if list_all field_holds fs then V fs = OzzoNil
         else \<exists>text es. V fs = OzzoErrors text es \<and> distinct (map fst es)
                \<and> set (map fst es) = field_name ` {f \<in> set fs. \<not> field_holds f}))"

text \<open>A validator that behaves as documented, for evaluation.\<close>

definition ozzo_reference :: ozzo where
  "ozzo_reference fs =
     (if list_all field_holds fs then OzzoNil
      else OzzoErrors ''invalid input''
             (map (\<lambda>f. (field_name f, ''invalid'')) (filter (\<lambda>f. \<not> field_holds f) fs)))"

lemma distinct_map_filter_name: "distinct (map g fs) \<Longrightarrow> distinct (map g (filter P fs))"
  by (induction fs) auto

lemma ozzo_reference_documented: "ozzo_documented ozzo_reference"
  unfolding ozzo_documented_def
proof (intro allI impI)
  fix fs :: "ozzo_field list" assume d: "distinct (map field_name fs)"
  let ?es = "map (\<lambda>f. (field_name f, ''invalid'')) (filter (\<lambda>f. \<not> field_holds f) fs)"
  have "distinct (map fst ?es)" using distinct_map_filter_name [OF d] by (simp add: o_def)
  moreover have "set (map fst ?es) = field_name ` {f \<in> set fs. \<not> field_holds f}"
    by (auto simp: image_iff)
  ultimately show "if list_all field_holds fs then ozzo_reference fs = OzzoNil
      else \<exists>text es. ozzo_reference fs = OzzoErrors text es \<and> distinct (map fst es)
        \<and> set (map fst es) = field_name ` {f \<in> set fs. \<not> field_holds f}"
    unfolding ozzo_reference_def by (metis (no_types, lifting))
qed

section \<open>Payloads\<close>

record FieldMessage =
  FieldMessage_Name :: string
  FieldMessage_Value :: string

record ErrorPayload =
  ErrorPayload_Message :: string
  ErrorPayload_ByFields :: "FieldMessage list"

definition error_payload :: "string \<Rightarrow> ErrorPayload" where
  "error_payload message = \<lparr>ErrorPayload_Message = message, ErrorPayload_ByFields = []\<rparr>"

text \<open>The union types of the schema: a payload of its own or the common error payload.\<close>

datatype 'p OrErrorPayload = Payload 'p | Rejected ErrorPayload

record BanUserInput =
  BanUserInput_UserID :: int64
  BanUserInput_Reason :: string

record UnbanUserInput =
  UnbanUserInput_UserID :: int64

record MakeAdminInput =
  MakeAdminInput_UserID :: int64

record RemoveAdminInput =
  RemoveAdminInput_UserID :: int64

record BanUserPayload =
  BanUserPayload_UserID :: int64

record UnbanUserPayload =
  UnbanUserPayload_UserID :: int64

record MakeAdminPayload =
  MakeAdminPayload_UserID :: int64

record RemoveAdminPayload =
  RemoveAdminPayload_UserID :: int64

record SignOutPayload =
  SignOutPayload_RedirectURL :: string

type_synonym BanUserOrErrorPayload = "BanUserPayload OrErrorPayload"
type_synonym UnbanUserOrErrorPayload = "UnbanUserPayload OrErrorPayload"
type_synonym MakeAdminOrErrorPayload = "MakeAdminPayload OrErrorPayload"
type_synonym RemoveAdminOrErrorPayload = "RemoveAdminPayload OrErrorPayload"

record PageInfo =
  PageInfo_HasNextPage :: bool
  PageInfo_EndCursor :: "int64 option"

record AuditLogConnection =
  AuditLogConnection_TotalCount :: int64
  AuditLogConnection_Nodes :: "AuditLog list"
  AuditLogConnection_PageInfo :: PageInfo

datatype ViewerRole = ViewerRoleAdmin | ViewerRoleUser | ViewerRoleGuest

section \<open>NewOzzoError\<close>

definition field_message :: "string \<times> string \<Rightarrow> FieldMessage" where
  "field_message e = \<lparr>FieldMessage_Name = fst e, FieldMessage_Value = snd e\<rparr>"

fun NewOzzoError :: "ozzo_result \<Rightarrow> ErrorPayload option" where
  "NewOzzoError OzzoNil = None"
| "NewOzzoError (OzzoOther text) = Some (error_payload text)"
| "NewOzzoError (OzzoErrors text fieldErrors) =
     Some \<lparr>ErrorPayload_Message = text,
           ErrorPayload_ByFields = sort_key FieldMessage_Name (map field_message fieldErrors)\<rparr>"

lemma NewOzzoError_None [simp]: "NewOzzoError r = None \<longleftrightarrow> r = OzzoNil"
  by (cases r) auto

lemma validated:
  assumes "ozzo_documented V" "distinct (map field_name fs)"
  shows "NewOzzoError (V fs) = None \<longleftrightarrow> list_all field_holds fs"
  using assms by (auto simp: ozzo_documented_def split: if_splits)

text \<open>Two sorted lists with the same elements and distinct keys are the same list.\<close>

lemma sort_key_unique:
  assumes "mset xs = mset ys" "distinct (map f xs)"
  shows "sort_key f xs = sort_key f ys"
proof (rule properties_for_sort_key [symmetric])
  show "mset (sort_key f xs) = mset ys" using assms(1) by simp
  show "sorted (map f (sort_key f xs))" by simp
  fix k assume "k \<in> set (sort_key f xs)"
  have d: "distinct (map f ys)"
    using assms by (metis mset_map distinct_count_atmost_1 set_mset_mset set_map mset_eq_imp_distinct_iff)
  have one: "length (filter (\<lambda>x. f k = f x) zs) \<le> 1" if "distinct (map f zs)" for zs
    using that by (induction zs) (auto simp: filter_empty_conv image_iff)
  have "mset (filter (\<lambda>x. f k = f x) (sort_key f xs)) = mset (filter (\<lambda>x. f k = f x) ys)"
    using assms(1) by (simp add: mset_filter)
  then show "filter (\<lambda>x. f k = f x) (sort_key f xs) = filter (\<lambda>x. f k = f x) ys"
    using one [OF d]
    by (cases "filter (\<lambda>x. f k = f x) ys"; cases "filter (\<lambda>x. f k = f x) (sort_key f xs)")
      (auto dest: arg_cong [of _ _ size])
qed

end
