(* ===== verification/CaseBan.thy ===== *)
theory CaseBan
  imports GqlModel
begin

text \<open>
  The use cases about bans: internal/case/banuser, internal/case/unbanuser and
  internal/case/notifyuserbanned. Each declares the interface it needs (\<open>Env\<close>, a record of
  methods) and is a function of it, for any world the methods act on; \<open>'c\<close> is the type of
  contexts, which the cases only pass on. What a case may assume of its \<open>Env\<close> is a locale.
\<close>

definition IsNotFound :: "go_error \<Rightarrow> bool" where
  "IsNotFound err = errors_Is err ErrNoRows"

lemma IsNotFound_simps [simp]:
  "IsNotFound (Sentinel ErrNoRows)"
  "\<not> IsNotFound (NewError t)"
  "IsNotFound (Errorf_w p e) = IsNotFound e"
  by (simp_all add: IsNotFound_def)

section \<open>banuser\<close>

record ('c, 'w) banuser_Env =
  banuser_DBGetUserByID :: "'c \<Rightarrow> int64 \<Rightarrow> ('w, User) io"
  banuser_DBInsertUserBan :: "'c \<Rightarrow> DBInsertUserBanParams \<Rightarrow> ('w, UserBan) io"
  banuser_CurrentUserID :: "'c \<Rightarrow> ('w, int64 option) state"
  banuser_EnqueueUserBannedNotice :: "'c \<Rightarrow> int64 \<Rightarrow> ('w, unit) io"
  banuser_Now :: "('w, Time) state"
  banuser_MetricsIncreaseUserBanned :: "'c \<Rightarrow> ('w, unit) state"

definition banuser_validate :: "ozzo \<Rightarrow> BanUserInput \<Rightarrow> ErrorPayload option" where
  "banuser_validate V input =
     NewOzzoError (V [Field ''userId'' (VInt64 (BanUserInput_UserID input)) [Required, Min 1],
                      Field ''reason'' (VString (BanUserInput_Reason input)) [Required, Length 1 500]])"

definition banuser_Resolve ::
  "ozzo \<Rightarrow> 'c \<Rightarrow> ('c, 'w) banuser_Env \<Rightarrow> BanUserInput \<Rightarrow> ('w, BanUserOrErrorPayload) io" where
  "banuser_Resolve V ctx env input0 =
    (let input = input0\<lparr>BanUserInput_Reason := TrimSpace (BanUserInput_Reason input0)\<rparr> in
     case banuser_validate V input of
       Some invalid \<Rightarrow> ret (Inr (Rejected invalid))
     | None \<Rightarrow> do {
         actor \<leftarrow> banuser_CurrentUserID env ctx;
         if actor = Some (BanUserInput_UserID input)
         then ret (Inr (Rejected (error_payload ''you cannot ban yourself'')))
         else do {
           user \<leftarrow> banuser_DBGetUserByID env ctx (BanUserInput_UserID input);
           case user of
             Inl err \<Rightarrow>
               if IsNotFound err then ret (Inr (Rejected (error_payload ''user not found'')))
               else ret (Inl (Errorf_w ''failed to load user'' err))
           | Inr _ \<Rightarrow> do {
               now \<leftarrow> banuser_Now env;
               banned \<leftarrow> banuser_DBInsertUserBan env ctx
                 \<lparr>InsertUserBan_UserID = BanUserInput_UserID input,
                  InsertUserBan_BannedBy = actor,
                  InsertUserBan_Reason = BanUserInput_Reason input,
                  InsertUserBan_CreatedAt = dbtime_At now\<rparr>;
               case banned of
                 Inl err \<Rightarrow> ret (Inl (Errorf_w ''failed to insert user ban'' err))
               | Inr _ \<Rightarrow> do {
                   queued \<leftarrow> banuser_EnqueueUserBannedNotice env ctx (BanUserInput_UserID input);
                   case queued of
                     Inl err \<Rightarrow> ret (Inl (Errorf_w ''failed to enqueue the ban notice'' err))
                   | Inr _ \<Rightarrow> do {
                       banuser_MetricsIncreaseUserBanned env ctx;
                       ret (Inr (Payload \<lparr>BanUserPayload_UserID = BanUserInput_UserID input\<rparr>))
                     }
                 }
             }
         }
       })"

section \<open>unbanuser\<close>

record ('c, 'w) unbanuser_Env =
  unbanuser_DBDeleteUserBan :: "'c \<Rightarrow> int64 \<Rightarrow> ('w, unit) io"

definition unbanuser_validate :: "ozzo \<Rightarrow> UnbanUserInput \<Rightarrow> ErrorPayload option" where
  "unbanuser_validate V input =
     NewOzzoError (V [Field ''userId'' (VInt64 (UnbanUserInput_UserID input)) [Required, Min 1]])"

definition unbanuser_Resolve ::
  "ozzo \<Rightarrow> 'c \<Rightarrow> ('c, 'w) unbanuser_Env \<Rightarrow> UnbanUserInput \<Rightarrow> ('w, UnbanUserOrErrorPayload) io"
where
  "unbanuser_Resolve V ctx env input =
    (case unbanuser_validate V input of
       Some invalid \<Rightarrow> ret (Inr (Rejected invalid))
     | None \<Rightarrow> do {
         r \<leftarrow> unbanuser_DBDeleteUserBan env ctx (UnbanUserInput_UserID input);
         case r of
           Inl err \<Rightarrow> ret (Inl (Errorf_w ''failed to delete user ban'' err))
         | Inr _ \<Rightarrow> ret (Inr (Payload \<lparr>UnbanUserPayload_UserID = UnbanUserInput_UserID input\<rparr>))
       })"

section \<open>notifyuserbanned\<close>

record ('c, 'w) notifyuserbanned_Env =
  notifyuserbanned_DBGetUserByID :: "'c \<Rightarrow> int64 \<Rightarrow> ('w, User) io"
  notifyuserbanned_DBGetUserBan :: "'c \<Rightarrow> int64 \<Rightarrow> ('w, UserBan) io"
  notifyuserbanned_NotifyUserBanned :: "'c \<Rightarrow> string \<Rightarrow> string \<Rightarrow> ('w, unit) io"

record notifyuserbanned_Input =
  notifyuserbanned_UserID :: int64

definition notifyuserbanned_Resolve ::
  "'c \<Rightarrow> ('c, 'w) notifyuserbanned_Env \<Rightarrow> notifyuserbanned_Input \<Rightarrow> ('w, unit) io" where
  "notifyuserbanned_Resolve ctx env input = do {
     let uid = notifyuserbanned_UserID input;
     u \<leftarrow> notifyuserbanned_DBGetUserByID env ctx uid;
     case u of
       Inl err \<Rightarrow>
         if IsNotFound err then ret (Inr ())
         else ret (Inl (Errorf_w (''failed to load user '' @ int_dec uid) err))
     | Inr user \<Rightarrow> do {
         b \<leftarrow> notifyuserbanned_DBGetUserBan env ctx uid;
         case b of
           Inl err \<Rightarrow>
             if IsNotFound err then ret (Inr ())
             else ret (Inl (Errorf_w (''failed to load the ban of user '' @ int_dec uid) err))
         | Inr ban \<Rightarrow> do {
             n \<leftarrow> notifyuserbanned_NotifyUserBanned env ctx (User_Email user) (UserBan_Reason ban);
             case n of
               Inl err \<Rightarrow> ret (Inl (Errorf_w (''failed to notify user '' @ int_dec uid) err))
             | Inr _ \<Rightarrow> ret (Inr ())
           }
       }
   }"

end
