(* ===== verification/CaseAdmin.thy ===== *)
theory CaseAdmin
  imports CaseBan
begin

text \<open>
  The use cases about admin access: internal/case/makeadmin and internal/case/removeadmin.
\<close>

section \<open>makeadmin\<close>

record ('c, 'w) makeadmin_Env =
  makeadmin_DBGetAdminUserByID :: "'c \<Rightarrow> int64 \<Rightarrow> ('w, DBGetAdminUserByIDRow) io"
  makeadmin_DBInsertAdmin :: "'c \<Rightarrow> DBInsertAdminParams \<Rightarrow> ('w, unit) io"
  makeadmin_MetricsIncreaseAdminChanged :: "'c \<Rightarrow> string \<Rightarrow> ('w, unit) state"
  makeadmin_Now :: "('w, Time) state"

definition makeadmin_validate :: "ozzo \<Rightarrow> MakeAdminInput \<Rightarrow> ErrorPayload option" where
  "makeadmin_validate V input =
     NewOzzoError (V [Field ''userId'' (VInt64 (MakeAdminInput_UserID input)) [Required, Min 1]])"

definition makeadmin_Resolve ::
  "ozzo \<Rightarrow> 'c \<Rightarrow> ('c, 'w) makeadmin_Env \<Rightarrow> MakeAdminInput \<Rightarrow> ('w, MakeAdminOrErrorPayload) io"
where
  "makeadmin_Resolve V ctx env input =
    (case makeadmin_validate V input of
       Some invalid \<Rightarrow> ret (Inr (Rejected invalid))
     | None \<Rightarrow> do {
         u \<leftarrow> makeadmin_DBGetAdminUserByID env ctx (MakeAdminInput_UserID input);
         case u of
           Inl err \<Rightarrow>
             if IsNotFound err then ret (Inr (Rejected (error_payload ''user not found'')))
             else ret (Inl (Errorf_w ''failed to load user'' err))
         | Inr user \<Rightarrow>
             if AdminUser_BanReason user \<noteq> ''''
             then ret (Inr (Rejected (error_payload ''user is banned'')))
             else do {
               now \<leftarrow> makeadmin_Now env;
               r \<leftarrow> makeadmin_DBInsertAdmin env ctx
                 \<lparr>InsertAdmin_UserID = MakeAdminInput_UserID input,
                  InsertAdmin_CreatedAt = dbtime_At now\<rparr>;
               case r of
                 Inl err \<Rightarrow> ret (Inl (Errorf_w ''failed to insert admin'' err))
               | Inr _ \<Rightarrow> do {
                   makeadmin_MetricsIncreaseAdminChanged env ctx ''make'';
                   ret (Inr (Payload \<lparr>MakeAdminPayload_UserID = MakeAdminInput_UserID input\<rparr>))
                 }
             }
       })"

section \<open>removeadmin\<close>

record ('c, 'w) removeadmin_Env =
  removeadmin_DBDeleteAdmin :: "'c \<Rightarrow> int64 \<Rightarrow> ('w, int64) io"
  removeadmin_DBGetAdminByUserID :: "'c \<Rightarrow> int64 \<Rightarrow> ('w, Admin) io"
  removeadmin_CurrentUserID :: "'c \<Rightarrow> ('w, int64 option) state"
  removeadmin_MetricsIncreaseAdminChanged :: "'c \<Rightarrow> string \<Rightarrow> ('w, unit) state"

definition removeadmin_validate :: "ozzo \<Rightarrow> RemoveAdminInput \<Rightarrow> ErrorPayload option" where
  "removeadmin_validate V input =
     NewOzzoError (V [Field ''userId'' (VInt64 (RemoveAdminInput_UserID input)) [Required, Min 1]])"

definition removeadmin_Resolve ::
  "ozzo \<Rightarrow> 'c \<Rightarrow> ('c, 'w) removeadmin_Env \<Rightarrow> RemoveAdminInput \<Rightarrow> ('w, RemoveAdminOrErrorPayload) io"
where
  "removeadmin_Resolve V ctx env input =
    (let payload = Payload \<lparr>RemoveAdminPayload_UserID = RemoveAdminInput_UserID input\<rparr> in
     case removeadmin_validate V input of
       Some invalid \<Rightarrow> ret (Inr (Rejected invalid))
     | None \<Rightarrow> do {
         actor \<leftarrow> removeadmin_CurrentUserID env ctx;
         if actor = Some (RemoveAdminInput_UserID input)
         then ret (Inr (Rejected (error_payload ''you cannot remove your own admin access'')))
         else do {
           r \<leftarrow> removeadmin_DBDeleteAdmin env ctx (RemoveAdminInput_UserID input);
           case r of
             Inl err \<Rightarrow> ret (Inl (Errorf_w ''failed to delete admin'' err))
           | Inr removed \<Rightarrow>
               if removed = 0 then do {
                 a \<leftarrow> removeadmin_DBGetAdminByUserID env ctx (RemoveAdminInput_UserID input);
                 case a of
                   Inr _ \<Rightarrow> ret (Inr (Rejected (error_payload ''the last admin cannot be removed'')))
                 | Inl err \<Rightarrow>
                     if \<not> IsNotFound err then ret (Inl (Errorf_w ''failed to load admin'' err))
                     else ret (Inr payload)
               }
               else do {
                 removeadmin_MetricsIncreaseAdminChanged env ctx ''remove'';
                 ret (Inr payload)
               }
         }
       })"

end
