(* ===== verification/CaseSignIn.thy ===== *)
theory CaseSignIn
  imports CaseAdmin
begin

text \<open>
  The use case of the first sign-in: internal/case/signinbyoidc. \<open>ul\<close> stands for the
  Unicode case tables behind \<open>strings.ToLower\<close>.
\<close>

record ('c, 'w) signinbyoidc_Env =
  signinbyoidc_DBUpsertUserByOIDC :: "'c \<Rightarrow> DBUpsertUserByOIDCParams \<Rightarrow> ('w, User) io"
  signinbyoidc_DBGetAdminByUserID :: "'c \<Rightarrow> int64 \<Rightarrow> ('w, Admin) io"
  signinbyoidc_DBCountAdmins :: "'c \<Rightarrow> ('w, int64) io"
  signinbyoidc_DBInsertAdmin :: "'c \<Rightarrow> DBInsertAdminParams \<Rightarrow> ('w, unit) io"
  signinbyoidc_BootstrapAdminEmail :: string
  signinbyoidc_Now :: "('w, Time) state"

record signinbyoidc_Input =
  SignInInput_Issuer :: string
  SignInInput_Subject :: string
  SignInInput_Email :: string
  SignInInput_Name :: string
  SignInInput_IssuedAt :: Time

record signinbyoidc_Result =
  SignInResult_User :: User
  SignInResult_IsAdmin :: bool

definition seenAt :: "Time \<Rightarrow> Stamp option" where
  "seenAt issued = (if IsZero issued then None else Some (dbtime_At issued))"

definition ensureAdmin ::
  "(string \<Rightarrow> string) \<Rightarrow> 'c \<Rightarrow> ('c, 'w) signinbyoidc_Env \<Rightarrow> User \<Rightarrow> string \<Rightarrow> ('w, bool) io" where
  "ensureAdmin ul ctx env user email = do {
     a \<leftarrow> signinbyoidc_DBGetAdminByUserID env ctx (User_ID user);
     case a of
       Inr _ \<Rightarrow> ret (Inr True)
     | Inl err \<Rightarrow>
         if \<not> IsNotFound err then ret (Inl (Errorf_w ''failed to look up admin'' err))
         else
           let bootstrap = ToLower ul (TrimSpace (signinbyoidc_BootstrapAdminEmail env)) in
           if bootstrap = '''' \<or> bootstrap \<noteq> email then ret (Inr False)
           else do {
             c \<leftarrow> signinbyoidc_DBCountAdmins env ctx;
             case c of
               Inl err \<Rightarrow> ret (Inl (Errorf_w ''failed to count admins'' err))
             | Inr admins \<Rightarrow>
                 if admins > 0 then ret (Inr False)
                 else do {
                   now \<leftarrow> signinbyoidc_Now env;
                   r \<leftarrow> signinbyoidc_DBInsertAdmin env ctx
                     \<lparr>InsertAdmin_UserID = User_ID user, InsertAdmin_CreatedAt = dbtime_At now\<rparr>;
                   case r of
                     Inl err \<Rightarrow> ret (Inl (Errorf_w ''failed to bootstrap admin'' err))
                   | Inr _ \<Rightarrow> ret (Inr True)
                 }
           }
   }"

definition signinbyoidc_Resolve ::
  "(string \<Rightarrow> string) \<Rightarrow> 'c \<Rightarrow> ('c, 'w) signinbyoidc_Env \<Rightarrow> signinbyoidc_Input
   \<Rightarrow> ('w, signinbyoidc_Result) io" where
  "signinbyoidc_Resolve ul ctx env input =
    (if SignInInput_Issuer input = '''' \<or> SignInInput_Subject input = ''''
     then ret (Inl (NewError ''identity has no issuer or subject''))
     else
       let email = ToLower ul (TrimSpace (SignInInput_Email input)) in
       if email = '''' then ret (Inl (NewError ''identity has no email''))
       else do {
         now \<leftarrow> signinbyoidc_Now env;
         u \<leftarrow> signinbyoidc_DBUpsertUserByOIDC env ctx
           \<lparr>UpsertUser_OidcIssuer = SignInInput_Issuer input,
            UpsertUser_OidcSubject = SignInInput_Subject input,
            UpsertUser_Email = email,
            UpsertUser_Name = SignInInput_Name input,
            UpsertUser_LastSigninAt = seenAt (SignInInput_IssuedAt input),
            UpsertUser_CreatedAt = dbtime_At now\<rparr>;
         case u of
           Inl err \<Rightarrow> ret (Inl (Errorf_w ''failed to upsert user'' err))
         | Inr user \<Rightarrow> do {
             a \<leftarrow> ensureAdmin ul ctx env user email;
             case a of
               Inl err \<Rightarrow> ret (Inl err)
             | Inr isAdmin \<Rightarrow>
                 ret (Inr \<lparr>SignInResult_User = user, SignInResult_IsAdmin = isAdmin\<rparr>)
           }
       })"

end
