(* ===== verification/CaseAudit.thy ===== *)
theory CaseAudit
  imports CaseSignIn
begin

text \<open>
  The use cases on the audit log: internal/case/listauditlog (a page of the log) and
  internal/case/purgeauditlog (the retention sweep).
\<close>

section \<open>listauditlog\<close>

record ('c, 'w) listauditlog_Env =
  listauditlog_DBListAuditLog :: "'c \<Rightarrow> DBListAuditLogParams \<Rightarrow> ('w, AuditLog list) io"
  listauditlog_DBCountAuditLog :: "'c \<Rightarrow> ('w, int64) io"

record listauditlog_Input =
  listauditlog_Limit :: int64
  listauditlog_Before :: "int64 option"

definition defaultLimit :: int64 where "defaultLimit = 50"

definition maxLimit :: int64 where "maxLimit = 500"

definition page_limit :: "int64 \<Rightarrow> int64" where
  "page_limit n = (let limit = (if n \<le> 0 then defaultLimit else n)
                   in if limit > maxLimit then maxLimit else limit)"

definition page_of :: "int64 \<Rightarrow> AuditLog list \<Rightarrow> int64 \<Rightarrow> AuditLogConnection" where
  "page_of limit rows n =
     (let nodes = (if int (length rows) > limit then take (nat limit) rows else rows)
      in \<lparr>AuditLogConnection_TotalCount = n,
          AuditLogConnection_Nodes = nodes,
          AuditLogConnection_PageInfo =
            \<lparr>PageInfo_HasNextPage = int (length rows) > limit,
             PageInfo_EndCursor = (if nodes = [] then None else Some (AuditLog_ID (last nodes)))\<rparr>\<rparr>)"

definition listauditlog_Resolve ::
  "'c \<Rightarrow> ('c, 'w) listauditlog_Env \<Rightarrow> listauditlog_Input \<Rightarrow> ('w, AuditLogConnection) io" where
  "listauditlog_Resolve ctx env input = do {
     let limit = page_limit (listauditlog_Limit input);
     let before = (case listauditlog_Before input of None \<Rightarrow> 0 | Some b \<Rightarrow> b);
     r \<leftarrow> listauditlog_DBListAuditLog env ctx
       \<lparr>ListAuditLogParams_Before = before, ListAuditLogParams_PageLimit = limit + 1\<rparr>;
     case r of
       Inl err \<Rightarrow> ret (Inl (Errorf_w ''failed to list audit log'' err))
     | Inr rows \<Rightarrow> do {
         c \<leftarrow> listauditlog_DBCountAuditLog env ctx;
         case c of
           Inl err \<Rightarrow> ret (Inl (Errorf_w ''failed to count audit log'' err))
         | Inr n \<Rightarrow> ret (Inr (page_of limit rows n))
       }
   }"

section \<open>purgeauditlog\<close>

record ('c, 'w) purgeauditlog_Env =
  purgeauditlog_DBDeleteAuditLogBefore :: "'c \<Rightarrow> Stamp \<Rightarrow> ('w, unit) io"
  purgeauditlog_AuditRetention :: Duration
  purgeauditlog_Now :: "('w, Time) state"

definition purgeauditlog_Resolve ::
  "'c \<Rightarrow> ('c, 'w) purgeauditlog_Env \<Rightarrow> ('w, unit) io" where
  "purgeauditlog_Resolve ctx env =
    (let retention = purgeauditlog_AuditRetention env in
     if retention \<le> 0 then ret (Inr ())
     else do {
       now \<leftarrow> purgeauditlog_Now env;
       let cutoff = dbtime_At (now - retention);
       r \<leftarrow> purgeauditlog_DBDeleteAuditLogBefore env ctx cutoff;
       case r of
         Inl err \<Rightarrow>
           ret (Inl (Errorf_w (''failed to purge audit log before ''
                       @ rfc3339 (stamp_Time cutoff)) err))
       | Inr _ \<Rightarrow> ret (Inr ())
     })"

end
