(* ===== verification/Store.thy ===== *)
theory Store
  imports CaseAudit
begin

text \<open>
  What a use case may assume of the data layer, as an interface: the locale \<open>store\<close>. A world
  inside a session shows one database (\<open>view\<close>); a method either performs its statement on it
  or, when the connection is not healthy, fails and leaves it alone. Rules over this interface
  reduce a whole handler to statements on databases.
\<close>

section \<open>Statements as outcomes\<close>

definition outcome :: "'a stmt \<Rightarrow> Database \<Rightarrow> (go_error + 'a) \<times> Database" where
  "outcome f v = (case f v of Inl e \<Rightarrow> (Inl e, v) | Inr (x, v') \<Rightarrow> (Inr x, v'))"

definition query :: "(Database \<Rightarrow> go_error + 'a) \<Rightarrow> 'a stmt" where
  "query f v = (case f v of Inl e \<Rightarrow> Inl e | Inr x \<Rightarrow> Inr (x, v))"

lemma outcome_query [simp]: "outcome (query f) v = (f v, v)"
  by (simp add: outcome_def query_def split: sum.splits)

fun found :: "'a option \<Rightarrow> go_error + 'a" where
  "found None = Inl (Sentinel ErrNoRows)"
| "found (Some x) = Inr x"

section \<open>The interface\<close>

locale store =
  fixes inside :: "'w \<Rightarrow> bool" and view :: "'w \<Rightarrow> Database" and healthy :: bool
  assumes wf_view: "inside w \<Longrightarrow> wf_db (view w)"
begin

definition wp :: "('w, 'a) state \<Rightarrow> ('a \<Rightarrow> Database \<Rightarrow> bool) \<Rightarrow> Database \<Rightarrow> bool" where
  "wp m Q v \<longleftrightarrow> (\<forall>w. inside w \<longrightarrow> view w = v \<longrightarrow>
     inside (snd (run m w)) \<and> Q (fst (run m w)) (view (snd (run m w))))"

definition performs :: "('w, 'a) io \<Rightarrow> 'a stmt \<Rightarrow> bool" where
  "performs m f \<longleftrightarrow> (\<forall>v. wp m (\<lambda>r v'. (r, v') = outcome f v
     \<or> \<not> healthy \<and> v' = v \<and> (\<exists>e. r = Inl e \<and> \<not> IsNotFound e)) v)"

definition silent :: "('w, 'a) state \<Rightarrow> bool" where
  "silent m \<longleftrightarrow> (\<forall>v. wp m (\<lambda>_ v'. v' = v) v)"

lemma wpI:
  "(\<And>w x w'. inside w \<Longrightarrow> view w = v \<Longrightarrow> run m w = (x, w') \<Longrightarrow> inside w' \<and> Q x (view w')) \<Longrightarrow> wp m Q v"
  unfolding wp_def by (metis prod.collapse)

lemma wpD:
  assumes "wp m Q (view w)" "inside w" "run m w = (x, w')"
  shows "inside w'" "Q x (view w')"
  using assms by (force simp: wp_def)+

lemma wp_wf: "(wf_db v \<Longrightarrow> wp m Q v) \<Longrightarrow> wp m Q v"
  unfolding wp_def using wf_view by blast

lemma wp_mono: "wp m P v \<Longrightarrow> (\<And>x v'. wf_db v' \<Longrightarrow> P x v' \<Longrightarrow> Q x v') \<Longrightarrow> wp m Q v"
  unfolding wp_def using wf_view by blast

lemma wp_return: "Q x v \<Longrightarrow> wp (ret x) Q v"
  by (simp add: wp_def)

lemma wp_bind: "wp m (\<lambda>x. wp (f x) Q) v \<Longrightarrow> wp (m \<bind> f) Q v"
  by (force simp: wp_def split: prod.splits)

lemma wp_performs:
  assumes "performs m f"
    and "\<And>v'. wf_db v \<Longrightarrow> f v = Inl v' \<Longrightarrow> Q (Inl v') v"
    and "\<And>x v'. wf_db v \<Longrightarrow> f v = Inr (x, v') \<Longrightarrow> Q (Inr x) v'"
    and "\<And>e. wf_db v \<Longrightarrow> \<not> healthy \<Longrightarrow> \<not> IsNotFound e \<Longrightarrow> Q (Inl e) v"
  shows "wp m Q v"
proof (rule wp_wf, rule wp_mono)
  from assms(1) show "wp m (\<lambda>r v'. (r, v') = outcome f v
     \<or> \<not> healthy \<and> v' = v \<and> (\<exists>e. r = Inl e \<and> \<not> IsNotFound e)) v"
    by (simp add: performs_def)
  fix r v' assume "wf_db v"
    "(r, v') = outcome f v \<or> \<not> healthy \<and> v' = v \<and> (\<exists>e. r = Inl e \<and> \<not> IsNotFound e)"
  then show "Q r v'"
    using assms(2-4) by (auto simp: outcome_def split: sum.splits)
qed

lemma performs_cong: "performs m f \<Longrightarrow> (\<And>v. wf_db v \<Longrightarrow> f v = g v) \<Longrightarrow> performs m g"
  unfolding performs_def wp_def using wf_view by (auto simp: outcome_def)

lemma wp_reads:
  assumes "performs m (query f)"
    and "wf_db v \<Longrightarrow> Q (f v) v"
    and "\<And>e. wf_db v \<Longrightarrow> \<not> healthy \<Longrightarrow> \<not> IsNotFound e \<Longrightarrow> Q (Inl e) v"
  shows "wp m Q v"
  using assms by (auto intro: wp_performs simp: query_def split: sum.splits)

lemma wp_silent: "silent m \<Longrightarrow> (\<And>x. Q x v) \<Longrightarrow> wp m Q v"
  by (simp add: silent_def wp_def)

lemma wp_known: "(\<And>w. inside w \<Longrightarrow> run m w = (a, w)) \<Longrightarrow> Q a v \<Longrightarrow> wp m Q v"
  by (simp add: wp_def)

lemma wp_if: "(b \<Longrightarrow> wp m Q v) \<Longrightarrow> (\<not> b \<Longrightarrow> wp n Q v) \<Longrightarrow> wp (if b then m else n) Q v"
  by simp

lemma wp_sum:
  "(\<And>e. r = Inl e \<Longrightarrow> wp (f e) Q v) \<Longrightarrow> (\<And>x. r = Inr x \<Longrightarrow> wp (g x) Q v)
   \<Longrightarrow> wp (case r of Inl e \<Rightarrow> f e | Inr x \<Rightarrow> g x) Q v"
  by (simp split: sum.splits)

lemma wp_option:
  "(r = None \<Longrightarrow> wp m Q v) \<Longrightarrow> (\<And>x. r = Some x \<Longrightarrow> wp (f x) Q v)
   \<Longrightarrow> wp (case r of None \<Rightarrow> m | Some x \<Rightarrow> f x) Q v"
  by (simp split: option.splits)

lemmas wp_control = wp_return wp_bind wp_if wp_sum wp_option

end

end
