(* ===== verification/SqlEffects.thy ===== *)
theory SqlEffects
  imports SqlProps
begin

text \<open>
  The effect of each write of internal/db/queries.write.sql.go, in terms of the rows it names:
  what a row reads as afterwards, and that everything else is as it was. The equation
  \<open>v' = v\<lparr>t := t v'\<rparr>\<close> says that only table \<open>t\<close> differs.
\<close>

section \<open>Rows of changed tables\<close>

lemma row_of_update: "(\<And>r. k (f r) = k r) \<Longrightarrow> row_of k x (map f rs) = map_option f (row_of k x rs)"
  by (induction rs) (auto simp: row_of_def)

lemma row_of_without:
  "row_of k x (filter (\<lambda>r. k r \<noteq> y) rs) = (if x = y then None else row_of k x rs)"
  by (induction rs) (auto simp: row_of_def)

lemma row_of_insort:
  "k r \<notin> keys k rs \<Longrightarrow> row_of k x (insort_key k r rs) = (if x = k r then Some r else row_of k x rs)"
  by (induction rs) (auto simp: row_of_def)

lemma row_of_snoc:
  "k r \<notin> keys k rs \<Longrightarrow> row_of k x (rs @ [r]) = (if x = k r then Some r else row_of k x rs)"
  by (induction rs) (auto simp: row_of_def)

lemma keys_without: "keys k (filter (\<lambda>r. k r \<noteq> y) rs) = keys k rs - {y}"
  by (auto simp: keys_def)

lemma row_of_keys: "x \<in> keys k rs \<longleftrightarrow> (\<exists>r. row_of k x rs = Some r)"
proof -
  have "x \<notin> keys k rs \<longleftrightarrow> row_of k x rs = None" by (rule row_of_None [symmetric])
  then show ?thesis by auto
qed

lemma length_keyed: "keyed k rs \<Longrightarrow> length rs = card (keys k rs)"
  by (metis keyed_def keys_def distinct_card length_map set_map)

lemma filter_conj_const: "filter (\<lambda>r. P r \<and> c) rs = (if c then filter P rs else [])"
  by simp

section \<open>Bans\<close>

definition ban_row :: "DBInsertUserBanParams \<Rightarrow> user_bans_row option \<Rightarrow> user_bans_row" where
  "ban_row arg old =
     (case old of
        Some b \<Rightarrow> b\<lparr>b_reason := InsertUserBan_Reason arg\<rparr>
      | None \<Rightarrow> \<lparr>b_user_id = InsertUserBan_UserID arg, b_banned_by = InsertUserBan_BannedBy arg,
                 b_reason = InsertUserBan_Reason arg,
                 b_created_at = stored_at (InsertUserBan_CreatedAt arg)\<rparr>)"

lemma DBInsertUserBan_effect:
  assumes wf: "wf_db v" and run: "sql_DBInsertUserBan arg v = Inr (b, v')"
  defines "uid \<equiv> InsertUserBan_UserID arg"
  shows "v' = v\<lparr>db_user_bans := db_user_bans v'\<rparr>"
    and "b = scan_UserBan (ban_row arg (row_of b_user_id uid (db_user_bans v)))"
    and "row_of b_user_id x (db_user_bans v') =
      (if x = uid then Some (ban_row arg (row_of b_user_id uid (db_user_bans v)))
       else row_of b_user_id x (db_user_bans v))"
proof -
  note k = wf_dbD(3) [OF wf]
  have sel: "filter (\<lambda>b. b_user_id b = InsertUserBan_UserID arg) (db_user_bans v) =
    (case row_of b_user_id uid (db_user_bans v) of None \<Rightarrow> [] | Some r \<Rightarrow> [r])"
    using filter_key [OF k] by (simp add: uid_def)
  have "v' = v\<lparr>db_user_bans := db_user_bans v'\<rparr>
    \<and> b = scan_UserBan (ban_row arg (row_of b_user_id uid (db_user_bans v)))
    \<and> row_of b_user_id x (db_user_bans v') =
      (if x = uid then Some (ban_row arg (row_of b_user_id uid (db_user_bans v)))
       else row_of b_user_id x (db_user_bans v))"
  proof (cases "row_of b_user_id uid (db_user_bans v)")
    case None
    then have "uid \<notin> keys b_user_id (db_user_bans v)" by (rule row_of_None [THEN iffD1])
    with None run show ?thesis
      by (auto simp: sql_DBInsertUserBan_def sel ban_row_def Let_def uid_def row_of_insort
          split: if_splits option.splits)
  next
    case (Some old)
    from row_of_SomeD [OF Some] have old: "b_user_id old = uid" by simp
    have upd: "row_of b_user_id x (map (\<lambda>b. if b_user_id b = uid
        then b\<lparr>b_reason := InsertUserBan_Reason arg\<rparr> else b) (db_user_bans v)) =
      map_option (\<lambda>b. if b_user_id b = uid then b\<lparr>b_reason := InsertUserBan_Reason arg\<rparr> else b)
        (row_of b_user_id x (db_user_bans v))"
      by (rule row_of_update) simp
    have other: "b_user_id r = x" if "row_of b_user_id x (db_user_bans v) = Some r" for r
      using row_of_SomeD [OF that] by simp
    from Some run show ?thesis
      using old other upd
      by (cases "row_of b_user_id x (db_user_bans v)")
        (auto simp: sql_DBInsertUserBan_def sel ban_row_def uid_def)
  qed
  then show "v' = v\<lparr>db_user_bans := db_user_bans v'\<rparr>"
    and "b = scan_UserBan (ban_row arg (row_of b_user_id uid (db_user_bans v)))"
    and "row_of b_user_id x (db_user_bans v') =
      (if x = uid then Some (ban_row arg (row_of b_user_id uid (db_user_bans v)))
       else row_of b_user_id x (db_user_bans v))" by blast+
qed

lemma DBInsertUserBan_views:
  assumes "wf_db v" "sql_DBInsertUserBan arg v = Inr (b, v')"
  shows "banned_ids v' = insert (InsertUserBan_UserID arg) (banned_ids v)"
    and "ban_reason v' = (ban_reason v)(InsertUserBan_UserID arg := InsertUserBan_Reason arg)"
proof -
  note e = DBInsertUserBan_effect(3) [OF assms]
  show "banned_ids v' = insert (InsertUserBan_UserID arg) (banned_ids v)"
    by (auto simp: banned_ids_def row_of_keys e split: if_splits)
  show "ban_reason v' = (ban_reason v)(InsertUserBan_UserID arg := InsertUserBan_Reason arg)"
    by (rule ext)
      (simp add: ban_reason_def e ban_row_def ban_reason_column_def split: option.splits)
qed

lemma DBInsertUserBan_fails:
  assumes "sql_DBInsertUserBan arg v = Inl e"
  shows "e = fk_failed" "InsertUserBan_UserID arg \<notin> banned_ids v"
    "InsertUserBan_UserID arg \<notin> user_ids v
      \<or> (\<exists>x. InsertUserBan_BannedBy arg = Some x \<and> x \<notin> admin_ids v)"
  using assms
  by (auto simp: sql_DBInsertUserBan_def id_sets list_ex_key keys_def filter_empty_conv Let_def
      split: list.splits if_splits option.splits)

lemma DBDeleteUserBan_effect:
  assumes "sql_DBDeleteUserBan uid v = Inr (x, v')"
  shows "v' = v\<lparr>db_user_bans := db_user_bans v'\<rparr>"
    and "row_of b_user_id y (db_user_bans v') =
      (if y = uid then None else row_of b_user_id y (db_user_bans v))"
    and "banned_ids v' = banned_ids v - {uid}"
    and "ban_reason v' = (ban_reason v)(uid := '''')"
  using assms
  by (auto simp: sql_DBDeleteUserBan_def row_of_without banned_ids_def keys_without
      ban_reason_def ban_reason_column_def)

section \<open>Admins\<close>

lemma DBInsertAdmin_effect:
  assumes wf: "wf_db v" and run: "sql_DBInsertAdmin arg v = Inr (x, v')"
  shows "v' = v\<lparr>db_admins := db_admins v'\<rparr>"
    and "admin_ids v' = insert (InsertAdmin_UserID arg) (admin_ids v)"
    and "InsertAdmin_UserID arg \<in> user_ids v"
    and "InsertAdmin_UserID arg \<in> admin_ids v \<Longrightarrow> v' = v"
  using run wf_dbD(6) [OF wf]
  by (auto simp: sql_DBInsertAdmin_def id_sets list_ex_key split: if_splits)

lemma DBInsertAdmin_fails:
  "sql_DBInsertAdmin arg v = Inl e \<Longrightarrow> InsertAdmin_UserID arg \<notin> user_ids v"
  by (auto simp: sql_DBInsertAdmin_def id_sets list_ex_key split: if_splits)

definition ban_makers :: "Database \<Rightarrow> int set" where
  "ban_makers v = {x. \<exists>b \<in> set (db_user_bans v). b_banned_by b = Some x}"

lemma count_admins: "wf_db v \<Longrightarrow> sql_DBCountAdmins v = int (card (admin_ids v))"
  by (simp add: sql_DBCountAdmins_def admin_ids_def length_keyed wf_dbD(2))

lemma DBDeleteAdmin_cases:
  assumes wf: "wf_db v"
  shows "sql_DBDeleteAdmin uid v =
    (if uid \<notin> admin_ids v \<or> card (admin_ids v) \<le> 1 then Inr (0, v)
     else if uid \<in> ban_makers v then Inl fk_failed
     else Inr (1, v\<lparr>db_admins := filter (\<lambda>a. a_user_id a \<noteq> uid) (db_admins v)\<rparr>))"
proof -
  note k = wf_dbD(2) [OF wf]
  have fk: "list_ex (\<lambda>b. b_banned_by b = Some uid) (db_user_bans v) \<longleftrightarrow> uid \<in> ban_makers v"
    by (auto simp: list_ex_iff ban_makers_def)
  show ?thesis
  proof (cases "row_of a_user_id uid (db_admins v)")
    case None
    then have "uid \<notin> admin_ids v" unfolding admin_ids_def by (rule row_of_None [THEN iffD1])
    with None show ?thesis
      by (simp add: sql_DBDeleteAdmin_def count_admins [OF wf] filter_key [OF k] filter_conj_const
          Let_def)
  next
    case (Some a)
    then have "uid \<in> admin_ids v" by (auto simp: admin_ids_def row_of_keys)
    with Some show ?thesis
      by (auto simp: sql_DBDeleteAdmin_def count_admins [OF wf] filter_key [OF k] fk
          filter_conj_const Let_def)
  qed
qed

lemma DBDeleteAdmin_removed:
  assumes wf: "wf_db v" and run: "sql_DBDeleteAdmin uid v = Inr (n, v')" and "n \<noteq> 0"
  shows "v' = v\<lparr>db_admins := db_admins v'\<rparr>" "admin_ids v' = admin_ids v - {uid}"
    "uid \<in> admin_ids v" "1 < card (admin_ids v)"
  using run assms(3) unfolding DBDeleteAdmin_cases [OF wf]
  by (auto simp: admin_ids_def keys_without split: if_splits)

lemma DBDeleteAdmin_kept:
  assumes wf: "wf_db v" and run: "sql_DBDeleteAdmin uid v = Inr (0, v')"
  shows "v' = v" "uid \<notin> admin_ids v \<or> card (admin_ids v) \<le> 1"
  using run unfolding DBDeleteAdmin_cases [OF wf] by (auto split: if_splits)

lemma DBDeleteAdmin_fails:
  assumes wf: "wf_db v" and run: "sql_DBDeleteAdmin uid v = Inl e"
  shows "uid \<in> admin_ids v" "1 < card (admin_ids v)" "uid \<in> ban_makers v" "e = fk_failed"
  using run unfolding DBDeleteAdmin_cases [OF wf] by (auto split: if_splits)

section \<open>Users\<close>

definition upserted :: "DBUpsertUserByOIDCParams \<Rightarrow> Database \<Rightarrow> users_row" where
  "upserted arg v =
     (case user_with (UpsertUser_OidcIssuer arg) (UpsertUser_OidcSubject arg) v of
        Some u \<Rightarrow> u\<lparr>u_email := UpsertUser_Email arg, u_name := UpsertUser_Name arg,
                    u_last_signin_at := map_option stored_at (UpsertUser_LastSigninAt arg)\<rparr>
      | None \<Rightarrow> \<lparr>u_id = seq_users v + 1, u_oidc_issuer = UpsertUser_OidcIssuer arg,
                 u_oidc_subject = UpsertUser_OidcSubject arg, u_email = UpsertUser_Email arg,
                 u_name = UpsertUser_Name arg,
                 u_last_signin_at = map_option stored_at (UpsertUser_LastSigninAt arg),
                 u_created_at = stored_at (UpsertUser_CreatedAt arg)\<rparr>)"

lemma DBUpsertUserByOIDC_cases:
  assumes wf: "wf_db v"
  shows "sql_DBUpsertUserByOIDC arg v =
    (if seq_users v \<ge> max_int64 then Inl db_full
     else Inr (scan_User (upserted arg v), v\<lparr>seq_users := seq_users v + 1,
       db_users := (if user_with (UpsertUser_OidcIssuer arg) (UpsertUser_OidcSubject arg) v = None
         then db_users v @ [upserted arg v]
         else map (\<lambda>u. if u_id u = u_id (upserted arg v) then upserted arg v else u)
                (db_users v))\<rparr>))"
proof -
  let ?i = "UpsertUser_OidcIssuer arg" and ?s = "UpsertUser_OidcSubject arg"
  note sel = filter_oidc [OF wf_dbD(5) [OF wf], of ?i ?s, folded user_with_def]
  show ?thesis
  proof (cases "user_with ?i ?s v")
    case None
    then show ?thesis by (simp add: sql_DBUpsertUserByOIDC_def sel upserted_def Let_def)
  next
    case (Some old)
    note old = user_with_SomeD [OF Some]
    have same: "u_oidc_issuer u = ?i \<and> u_oidc_subject u = ?s \<longleftrightarrow> u = old"
      "u_id u = u_id old \<longleftrightarrow> u = old" if "u \<in> set (db_users v)" for u
      using that old wf_dbD(1,5) [OF wf] keyed_unique [of u_id "db_users v" u old]
      by (auto simp: oidc_key_def distinct_map inj_on_def)
    have "map (\<lambda>u. if u_oidc_issuer u = ?i \<and> u_oidc_subject u = ?s
        then u\<lparr>u_email := UpsertUser_Email arg, u_name := UpsertUser_Name arg,
               u_last_signin_at := map_option stored_at (UpsertUser_LastSigninAt arg)\<rparr> else u) (db_users v)
      = map (\<lambda>u. if u_id u = u_id (upserted arg v) then upserted arg v else u) (db_users v)"
      by (rule map_cong) (simp_all add: upserted_def Some same)
    with Some show ?thesis
      by (simp add: sql_DBUpsertUserByOIDC_def sel upserted_def Let_def)
  qed
qed

end
