(* ===== verification/Contracts.thy ===== *)
theory Contracts
  imports Store SqlEffects
begin

text \<open>
  What each use case of internal/case does with any \<open>Env\<close> that keeps its contract. The
  contract of a case is a locale over \<open>store\<close>: which statement each method performs, and which
  methods leave the data alone. Its lemma gives the case's answer and its effect on the data,
  on every branch. Theory AppEnv proves the contracts for the methods of \<open>app\<close>.
\<close>

section \<open>The shape of a command's outcome\<close>

text \<open>
  A command refuses with a payload, or has its effect; it fails only on an unhealthy
  connection, or when a constraint of the schema stands in the way (\<open>blocked\<close>).
\<close>

definition decides :: "bool \<Rightarrow> ErrorPayload option \<Rightarrow> 'p \<Rightarrow> (Database \<Rightarrow> bool) \<Rightarrow> bool
    \<Rightarrow> Database \<Rightarrow> go_error + 'p OrErrorPayload \<Rightarrow> Database \<Rightarrow> bool" where
  "decides healthy refusal payload effect blocked v r v' \<longleftrightarrow>
     (case r of
        Inl e \<Rightarrow> healthy \<longrightarrow> refusal = None \<and> blocked
      | Inr (Rejected p) \<Rightarrow> refusal = Some p \<and> v' = v
      | Inr (Payload q) \<Rightarrow> refusal = None \<and> q = payload \<and> effect v')"

lemma decides_simps [simp]:
  "decides h refusal q eff blocked v (Inl e) v' \<longleftrightarrow> (h \<longrightarrow> refusal = None \<and> blocked)"
  "decides h refusal q eff blocked v (Inr (Rejected p)) v' \<longleftrightarrow> refusal = Some p \<and> v' = v"
  "decides h refusal q eff blocked v (Inr (Payload q')) v' \<longleftrightarrow> refusal = None \<and> q' = q \<and> eff v'"
  by (simp_all add: decides_def)

lemma found_simps:
  "x \<notin> keys k rs \<Longrightarrow> found (map_option f (row_of k x rs)) = Inl (Sentinel ErrNoRows)"
  "found m = Inr y \<longleftrightarrow> m = Some y"
  "found m = Inl e \<longleftrightarrow> m = None \<and> e = Sentinel ErrNoRows"
proof -
  assume "x \<notin> keys k rs"
  then have "row_of k x rs = None" by (rule row_of_None [THEN iffD2])
  then show "found (map_option f (row_of k x rs)) = Inl (Sentinel ErrNoRows)" by simp
qed (cases m; auto)+

definition get_user :: "int64 \<Rightarrow> User stmt" where
  "get_user uid = query (\<lambda>v. found (map_option scan_User (row_of u_id uid (db_users v))))"

definition get_admin :: "int64 \<Rightarrow> Admin stmt" where
  "get_admin uid = query (\<lambda>v. found (map_option scan_Admin (row_of a_user_id uid (db_admins v))))"

definition get_ban :: "int64 \<Rightarrow> UserBan stmt" where
  "get_ban uid = query (\<lambda>v. found (map_option scan_UserBan (row_of b_user_id uid (db_user_bans v))))"

definition get_admin_user :: "int64 \<Rightarrow> DBGetAdminUserByIDRow stmt" where
  "get_admin_user uid = query (\<lambda>v. found (map_option
     (\<lambda>u. scan_AdminUser u (row_of a_user_id uid (db_admins v)) (row_of b_user_id uid (db_user_bans v)))
     (row_of u_id uid (db_users v))))"

lemma lookups:
  "get_user uid v = Inr (u, v') \<Longrightarrow> v' = v \<and> uid \<in> user_ids v"
  "get_user uid v = Inl e \<Longrightarrow> e = Sentinel ErrNoRows \<and> uid \<notin> user_ids v"
  "get_admin uid v = Inr (a, v') \<Longrightarrow> v' = v \<and> uid \<in> admin_ids v"
  "get_admin uid v = Inl e \<Longrightarrow> e = Sentinel ErrNoRows \<and> uid \<notin> admin_ids v"
  by (auto simp: get_user_def get_admin_def query_def id_sets row_of_keys found_simps
      split: sum.splits)

lemma get_admin_user_cases:
  "get_admin_user uid v = Inr (u, v') \<Longrightarrow>
     v' = v \<and> uid \<in> user_ids v \<and> AdminUser_BanReason u = ban_reason v uid"
  "get_admin_user uid v = Inl e \<Longrightarrow> e = Sentinel ErrNoRows \<and> uid \<notin> user_ids v"
  by (auto simp: get_admin_user_def query_def id_sets row_of_keys found_simps scan_AdminUser_def
      ban_reason_def split: sum.splits)

text \<open>The rules for the lookups that several cases share.\<close>

context store
begin

lemma wp_get_user:
  assumes "performs m (get_user uid)"
    and "\<And>u. uid \<in> user_ids v \<Longrightarrow> Q (Inr u) v"
    and "uid \<notin> user_ids v \<Longrightarrow> Q (Inl (Sentinel ErrNoRows)) v"
    and "\<And>e. \<not> healthy \<Longrightarrow> \<not> IsNotFound e \<Longrightarrow> Q (Inl e) v"
  shows "wp m Q v"
  using assms(2-4) by (intro wp_performs [OF assms(1)]) (auto dest!: lookups)

lemma wp_get_admin:
  assumes "performs m (get_admin uid)"
    and "\<And>a. uid \<in> admin_ids v \<Longrightarrow> Q (Inr a) v"
    and "uid \<notin> admin_ids v \<Longrightarrow> Q (Inl (Sentinel ErrNoRows)) v"
    and "\<And>e. \<not> healthy \<Longrightarrow> \<not> IsNotFound e \<Longrightarrow> Q (Inl e) v"
  shows "wp m Q v"
  using assms(2-4) by (intro wp_performs [OF assms(1)]) (auto dest!: lookups)

lemma wp_get_admin_user:
  assumes "performs m (get_admin_user uid)"
    and "\<And>u. uid \<in> user_ids v \<Longrightarrow> AdminUser_BanReason u = ban_reason v uid \<Longrightarrow> Q (Inr u) v"
    and "uid \<notin> user_ids v \<Longrightarrow> Q (Inl (Sentinel ErrNoRows)) v"
    and "\<And>e. \<not> healthy \<Longrightarrow> \<not> IsNotFound e \<Longrightarrow> Q (Inl e) v"
  shows "wp m Q v"
  using assms(2-4) by (intro wp_performs [OF assms(1)]) (auto dest!: get_admin_user_cases)

end

section \<open>banuser\<close>

definition ban_refusal ::
  "ozzo \<Rightarrow> int64 option \<Rightarrow> BanUserInput \<Rightarrow> Database \<Rightarrow> ErrorPayload option" where
  "ban_refusal V actor input v =
    (let uid = BanUserInput_UserID input;
         trimmed = input\<lparr>BanUserInput_Reason := TrimSpace (BanUserInput_Reason input)\<rparr>
     in case banuser_validate V trimmed of
          Some p \<Rightarrow> Some p
        | None \<Rightarrow>
            if actor = Some uid then Some (error_payload ''you cannot ban yourself'')
            else if uid \<notin> user_ids v then Some (error_payload ''user not found'')
            else None)"

definition ban_effect :: "(Goqite list \<Rightarrow> Goqite \<Rightarrow> bool) \<Rightarrow> int64 \<Rightarrow> string \<Rightarrow> Database \<Rightarrow> Database \<Rightarrow> bool"
where
  "ban_effect notice uid reason v v' \<longleftrightarrow>
     v' = v\<lparr>db_user_bans := db_user_bans v', db_goqite := db_goqite v'\<rparr>
     \<and> banned_ids v' = insert uid (banned_ids v)
     \<and> ban_reason v' = (ban_reason v)(uid := reason)
     \<and> (\<exists>row. notice (db_goqite v) row \<and> db_goqite v' = db_goqite v @ [row])"

definition ban_blocked :: "int64 option \<Rightarrow> int64 \<Rightarrow> Database \<Rightarrow> bool" where
  "ban_blocked actor uid v \<longleftrightarrow> uid \<notin> banned_ids v \<and> (\<exists>x. actor = Some x \<and> x \<notin> admin_ids v)"

locale banuser_contract = store inside view healthy
  for inside :: "'w \<Rightarrow> bool" and view :: "'w \<Rightarrow> Database" and healthy :: bool +
  fixes env :: "('c, 'w) banuser_Env" and ctx :: 'c
    and actor :: "int64 option" and notice :: "int64 \<Rightarrow> Goqite list \<Rightarrow> Goqite \<Rightarrow> bool"
  assumes user: "performs (banuser_DBGetUserByID env ctx uid) (get_user uid)"
    and ban: "performs (banuser_DBInsertUserBan env ctx arg) (sql_DBInsertUserBan arg)"
    and who: "inside w \<Longrightarrow> run (banuser_CurrentUserID env ctx) w = (actor, w)"
    and enqueue: "wp (banuser_EnqueueUserBannedNotice env ctx uid) (\<lambda>r v'.
      (case r of
         Inr _ \<Rightarrow> \<exists>row. notice uid (db_goqite v) row \<and> v' = v\<lparr>db_goqite := db_goqite v @ [row]\<rparr>
       | Inl e \<Rightarrow> \<not> healthy)) v"
    and now: "silent (banuser_Now env)"
    and counter: "silent (banuser_MetricsIncreaseUserBanned env ctx)"
begin

lemma inserted_and_queued:
  assumes "sql_DBInsertUserBan \<lparr>InsertUserBan_UserID = uid, InsertUserBan_BannedBy = who,
      InsertUserBan_Reason = reason, InsertUserBan_CreatedAt = at\<rparr> v = Inr (b, v1)"
    and "wf_db v" "notice uid (db_goqite v1) row"
  shows "ban_effect (notice uid) uid reason v (v1\<lparr>db_goqite := db_goqite v1 @ [row]\<rparr>)"
proof -
  note e = DBInsertUserBan_effect(1) [OF assms(2,1)] DBInsertUserBan_views [OF assms(2,1), simplified]
  have q: "db_goqite v1 = db_goqite v" by (subst e(1)) simp
  have "v1\<lparr>db_goqite := g\<rparr> = v\<lparr>db_user_bans := db_user_bans v1, db_goqite := g\<rparr>" for g
    by (subst e(1)) simp
  with assms(3) e(2,3) q show ?thesis
    by (auto simp: ban_effect_def banned_ids_def ban_reason_def fun_eq_iff)
qed

lemma not_inserted:
  assumes "sql_DBInsertUserBan \<lparr>InsertUserBan_UserID = uid, InsertUserBan_BannedBy = who,
      InsertUserBan_Reason = reason, InsertUserBan_CreatedAt = at\<rparr> v = Inl e"
    and "uid \<in> user_ids v"
  shows "ban_blocked who uid v"
  using DBInsertUserBan_fails [OF assms(1)] assms(2) by (auto simp: ban_blocked_def)

lemma wp_enqueue:
  assumes "\<And>row. notice uid (db_goqite v) row \<Longrightarrow> Q (Inr ()) (v\<lparr>db_goqite := db_goqite v @ [row]\<rparr>)"
    and "\<And>e v'. \<not> healthy \<Longrightarrow> Q (Inl e) v'"
  shows "wp (banuser_EnqueueUserBannedNotice env ctx uid) Q v"
  by (rule wp_mono [OF enqueue]) (auto split: sum.splits intro: assms)

theorem Resolve_decides:
  "wp (banuser_Resolve V ctx env input) (\<lambda>r v'.
     decides healthy (ban_refusal V actor input v)
       \<lparr>BanUserPayload_UserID = BanUserInput_UserID input\<rparr>
       (ban_effect (notice (BanUserInput_UserID input)) (BanUserInput_UserID input)
          (TrimSpace (BanUserInput_Reason input)) v)
       (ban_blocked actor (BanUserInput_UserID input) v) v r v') v"
  (is "wp _ ?Q v")
proof (cases "banuser_validate V (input\<lparr>BanUserInput_Reason := TrimSpace (BanUserInput_Reason input)\<rparr>)")
  case (Some p)
  then show ?thesis
    by (auto simp: banuser_Resolve_def ban_refusal_def Let_def intro!: wp_return)
next
  case None
  then show ?thesis
    unfolding banuser_Resolve_def Let_def
    by (auto intro!: wp_bind wp_if wp_return wp_known [OF who] wp_get_user [OF user]
        wp_silent [OF now] wp_performs [OF ban] wp_enqueue wp_silent [OF counter]
        inserted_and_queued not_inserted simp: ban_refusal_def Let_def)
qed

end

section \<open>unbanuser\<close>

definition unban_effect :: "int64 \<Rightarrow> Database \<Rightarrow> Database \<Rightarrow> bool" where
  "unban_effect uid v v' \<longleftrightarrow>
     v' = v\<lparr>db_user_bans := db_user_bans v'\<rparr>
     \<and> banned_ids v' = banned_ids v - {uid} \<and> ban_reason v' = (ban_reason v)(uid := '''')"

locale unbanuser_contract = store inside view healthy
  for inside :: "'w \<Rightarrow> bool" and view :: "'w \<Rightarrow> Database" and healthy :: bool +
  fixes env :: "('c, 'w) unbanuser_Env" and ctx :: 'c
  assumes unban: "performs (unbanuser_DBDeleteUserBan env ctx uid) (sql_DBDeleteUserBan uid)"
begin

lemma unbanned: "sql_DBDeleteUserBan uid v = Inr (x, v') \<Longrightarrow> unban_effect uid v v'"
  by (simp add: unban_effect_def DBDeleteUserBan_effect)

lemma always_unbans: "sql_DBDeleteUserBan uid v \<noteq> Inl e"
  by (simp add: sql_DBDeleteUserBan_def)

theorem Resolve_decides:
  "wp (unbanuser_Resolve V ctx env input) (\<lambda>r v'.
     decides healthy (unbanuser_validate V input)
       \<lparr>UnbanUserPayload_UserID = UnbanUserInput_UserID input\<rparr>
       (unban_effect (UnbanUserInput_UserID input) v) False v r v') v"
  unfolding unbanuser_Resolve_def
  by (cases "unbanuser_validate V input")
    (auto intro!: wp_bind wp_return wp_performs [OF unban] unbanned simp: always_unbans)

end

section \<open>makeadmin\<close>

definition make_refusal :: "ozzo \<Rightarrow> MakeAdminInput \<Rightarrow> Database \<Rightarrow> ErrorPayload option" where
  "make_refusal V input v =
    (let uid = MakeAdminInput_UserID input
     in case makeadmin_validate V input of
          Some p \<Rightarrow> Some p
        | None \<Rightarrow>
            if uid \<notin> user_ids v then Some (error_payload ''user not found'')
            else if ban_reason v uid \<noteq> '''' then Some (error_payload ''user is banned'')
            else None)"

definition make_effect :: "int64 \<Rightarrow> Database \<Rightarrow> Database \<Rightarrow> bool" where
  "make_effect uid v v' \<longleftrightarrow>
     v' = v\<lparr>db_admins := db_admins v'\<rparr> \<and> admin_ids v' = insert uid (admin_ids v)
     \<and> (uid \<in> admin_ids v \<longrightarrow> v' = v)"

locale makeadmin_contract = store inside view healthy
  for inside :: "'w \<Rightarrow> bool" and view :: "'w \<Rightarrow> Database" and healthy :: bool +
  fixes env :: "('c, 'w) makeadmin_Env" and ctx :: 'c
  assumes user: "performs (makeadmin_DBGetAdminUserByID env ctx uid) (get_admin_user uid)"
    and grant: "performs (makeadmin_DBInsertAdmin env ctx arg) (sql_DBInsertAdmin arg)"
    and now: "silent (makeadmin_Now env)"
    and counter: "silent (makeadmin_MetricsIncreaseAdminChanged env ctx action)"
begin

lemma granted:
  assumes "sql_DBInsertAdmin \<lparr>InsertAdmin_UserID = uid, InsertAdmin_CreatedAt = at\<rparr> v = Inr (x, v')"
    and "wf_db v"
  shows "make_effect uid v v'"
  using DBInsertAdmin_effect [OF assms(2,1)] by (simp add: make_effect_def)

lemma not_granted:
  "sql_DBInsertAdmin \<lparr>InsertAdmin_UserID = uid, InsertAdmin_CreatedAt = at\<rparr> v = Inl e
   \<Longrightarrow> uid \<notin> user_ids v"
  by (drule DBInsertAdmin_fails) simp

theorem Resolve_decides:
  "wp (makeadmin_Resolve V ctx env input) (\<lambda>r v'.
     decides healthy (make_refusal V input v)
       \<lparr>MakeAdminPayload_UserID = MakeAdminInput_UserID input\<rparr>
       (make_effect (MakeAdminInput_UserID input) v) False v r v') v"
  unfolding makeadmin_Resolve_def
  by (cases "makeadmin_validate V input")
    (auto intro!: wp_bind wp_if wp_return wp_get_admin_user [OF user] wp_silent [OF now]
      wp_performs [OF grant] wp_silent [OF counter] granted simp: make_refusal_def
      dest!: not_granted)

end

section \<open>removeadmin\<close>

definition remove_refusal ::
  "ozzo \<Rightarrow> int64 option \<Rightarrow> RemoveAdminInput \<Rightarrow> Database \<Rightarrow> ErrorPayload option" where
  "remove_refusal V actor input v =
    (let uid = RemoveAdminInput_UserID input
     in case removeadmin_validate V input of
          Some p \<Rightarrow> Some p
        | None \<Rightarrow>
            if actor = Some uid then Some (error_payload ''you cannot remove your own admin access'')
            else if uid \<in> admin_ids v \<and> card (admin_ids v) \<le> 1
            then Some (error_payload ''the last admin cannot be removed'')
            else None)"

definition remove_effect :: "int64 \<Rightarrow> Database \<Rightarrow> Database \<Rightarrow> bool" where
  "remove_effect uid v v' \<longleftrightarrow>
     v' = v\<lparr>db_admins := db_admins v'\<rparr> \<and> admin_ids v' = admin_ids v - {uid}
     \<and> (uid \<notin> admin_ids v \<longrightarrow> v' = v)"

definition remove_blocked :: "int64 \<Rightarrow> Database \<Rightarrow> bool" where
  "remove_blocked uid v \<longleftrightarrow> uid \<in> admin_ids v \<and> uid \<in> ban_makers v"

locale removeadmin_contract = store inside view healthy
  for inside :: "'w \<Rightarrow> bool" and view :: "'w \<Rightarrow> Database" and healthy :: bool +
  fixes env :: "('c, 'w) removeadmin_Env" and ctx :: 'c and actor :: "int64 option"
  assumes admin: "performs (removeadmin_DBGetAdminByUserID env ctx uid) (get_admin uid)"
    and revoke: "performs (removeadmin_DBDeleteAdmin env ctx uid) (sql_DBDeleteAdmin uid)"
    and who: "inside w \<Longrightarrow> run (removeadmin_CurrentUserID env ctx) w = (actor, w)"
    and counter: "silent (removeadmin_MetricsIncreaseAdminChanged env ctx action)"
begin

lemma nothing_removed: "uid \<notin> admin_ids v \<Longrightarrow> remove_effect uid v v"
  by (simp add: remove_effect_def)

lemma wp_revoke:
  assumes "\<And>v'. uid \<in> admin_ids v \<Longrightarrow> 1 < card (admin_ids v) \<Longrightarrow> remove_effect uid v v' \<Longrightarrow> Q (Inr 1) v'"
    and "uid \<notin> admin_ids v \<or> card (admin_ids v) \<le> 1 \<Longrightarrow> Q (Inr 0) v"
    and "\<And>e. 1 < card (admin_ids v) \<Longrightarrow> remove_blocked uid v \<Longrightarrow> Q (Inl e) v"
    and "\<And>e. \<not> healthy \<Longrightarrow> Q (Inl e) v"
  shows "wp (removeadmin_DBDeleteAdmin env ctx uid) Q v"
proof (rule wp_performs [OF revoke])
  fix n v' assume wf: "wf_db v" and run: "sql_DBDeleteAdmin uid v = Inr (n, v')"
  from run have n: "n = 0 \<or> n = 1"
    unfolding DBDeleteAdmin_cases [OF wf] by (auto split: if_splits)
  show "Q (Inr n) v'"
  proof (cases "n = 0")
    case True
    with run have "sql_DBDeleteAdmin uid v = Inr (0, v')" by simp
    from DBDeleteAdmin_kept [OF wf this] True assms(2) show ?thesis by simp
  next
    case False
    note removed = DBDeleteAdmin_removed [OF wf run False]
    have "remove_effect uid v v'"
      unfolding remove_effect_def using removed(1-3) by blast
    with removed(3,4) n False assms(1) show ?thesis by simp
  qed
next
  fix e assume "wf_db v" "sql_DBDeleteAdmin uid v = Inl e"
  from DBDeleteAdmin_fails [OF this] show "Q (Inl e) v"
    by (auto intro: assms(3) simp: remove_blocked_def)
qed (rule assms(4))

theorem Resolve_decides:
  "wp (removeadmin_Resolve V ctx env input) (\<lambda>r v'.
     decides healthy (remove_refusal V actor input v)
       \<lparr>RemoveAdminPayload_UserID = RemoveAdminInput_UserID input\<rparr>
       (remove_effect (RemoveAdminInput_UserID input) v)
       (remove_blocked (RemoveAdminInput_UserID input) v) v r v') v"
  unfolding removeadmin_Resolve_def Let_def
  by (cases "removeadmin_validate V input")
    (auto intro!: wp_bind wp_if wp_return wp_known [OF who] wp_revoke wp_get_admin [OF admin]
      wp_silent [OF counter] nothing_removed simp: remove_refusal_def)

end

section \<open>signinbyoidc\<close>

definition sign_in_params ::
  "(string \<Rightarrow> string) \<Rightarrow> signinbyoidc_Input \<Rightarrow> Time \<Rightarrow> DBUpsertUserByOIDCParams" where
  "sign_in_params ul input now =
     \<lparr>UpsertUser_OidcIssuer = SignInInput_Issuer input,
      UpsertUser_OidcSubject = SignInInput_Subject input,
      UpsertUser_Email = ToLower ul (TrimSpace (SignInInput_Email input)),
      UpsertUser_Name = SignInInput_Name input,
      UpsertUser_LastSigninAt = seenAt (SignInInput_IssuedAt input),
      UpsertUser_CreatedAt = dbtime_At now\<rparr>"

definition sign_in_incomplete :: "(string \<Rightarrow> string) \<Rightarrow> signinbyoidc_Input \<Rightarrow> bool" where
  "sign_in_incomplete ul input \<longleftrightarrow>
     SignInInput_Issuer input = '''' \<or> SignInInput_Subject input = ''''
     \<or> ToLower ul (TrimSpace (SignInInput_Email input)) = ''''"

text \<open>The bootstrap: the configured address, and no admin yet.\<close>

definition bootstraps :: "(string \<Rightarrow> string) \<Rightarrow> string \<Rightarrow> string \<Rightarrow> Database \<Rightarrow> bool" where
  "bootstraps ul configured email v \<longleftrightarrow>
     ToLower ul (TrimSpace configured) \<noteq> '''' \<and> ToLower ul (TrimSpace configured) = email
     \<and> admin_ids v = {}"

definition users_after :: "DBUpsertUserByOIDCParams \<Rightarrow> Database \<Rightarrow> Database" where
  "users_after arg v = v\<lparr>seq_users := seq_users v + 1,
     db_users := (if user_with (UpsertUser_OidcIssuer arg) (UpsertUser_OidcSubject arg) v = None
       then db_users v @ [upserted arg v]
       else map (\<lambda>u. if u_id u = u_id (upserted arg v) then upserted arg v else u) (db_users v))\<rparr>"

definition signed_in :: "(string \<Rightarrow> string) \<Rightarrow> string \<Rightarrow> signinbyoidc_Input \<Rightarrow> Time
    \<Rightarrow> Database \<Rightarrow> signinbyoidc_Result \<Rightarrow> Database \<Rightarrow> bool" where
  "signed_in ul configured input now v res v' \<longleftrightarrow>
    (let arg = sign_in_params ul input now; uid = u_id (upserted arg v)
     in SignInResult_User res = scan_User (upserted arg v)
      \<and> (SignInResult_IsAdmin res \<longleftrightarrow> uid \<in> admin_ids v')
      \<and> v' = (users_after arg v)\<lparr>db_admins := db_admins v'\<rparr>
      \<and> admin_ids v' = (if bootstraps ul configured (UpsertUser_Email arg) v then {uid}
                        else admin_ids v))"

locale signinbyoidc_contract = store inside view healthy
  for inside :: "'w \<Rightarrow> bool" and view :: "'w \<Rightarrow> Database" and healthy :: bool +
  fixes env :: "('c, 'w) signinbyoidc_Env" and ctx :: 'c
  assumes upsert: "performs (signinbyoidc_DBUpsertUserByOIDC env ctx uarg) (sql_DBUpsertUserByOIDC uarg)"
    and admin: "performs (signinbyoidc_DBGetAdminByUserID env ctx uid) (get_admin uid)"
    and admins: "performs (signinbyoidc_DBCountAdmins env ctx) (query (\<lambda>v. Inr (sql_DBCountAdmins v)))"
    and grant: "performs (signinbyoidc_DBInsertAdmin env ctx arg) (sql_DBInsertAdmin arg)"
    and now: "silent (signinbyoidc_Now env)"
begin

lemma upsert_cases:
  "wf_db v \<Longrightarrow> sql_DBUpsertUserByOIDC arg v =
    (if seq_users v \<ge> max_int64 then Inl db_full
     else Inr (scan_User (upserted arg v), users_after arg v))"
  by (simp add: DBUpsertUserByOIDC_cases users_after_def)

lemma wf_users_after: "wf_db v \<Longrightarrow> seq_users v < max_int64 \<Longrightarrow> wf_db (users_after arg v)"
  using wf_DBUpsertUserByOIDC [of arg] upsert_cases [of v arg] by (force simp: keeps_wf_def)

lemma wp_upsert:
  assumes "wf_db v \<Longrightarrow> seq_users v < max_int64 \<Longrightarrow> Q (Inr (scan_User (upserted arg v))) (users_after arg v)"
    and "\<And>e. \<not> healthy \<or> seq_users v \<ge> max_int64 \<Longrightarrow> Q (Inl e) v"
  shows "wp (signinbyoidc_DBUpsertUserByOIDC env ctx arg) Q v"
  by (rule wp_performs [OF upsert]) (auto intro: assms simp: upsert_cases split: if_splits)

lemma admin_ids_users_after [simp]: "admin_ids (users_after arg v) = admin_ids v"
  by (simp add: users_after_def admin_ids_def)

lemma upserted_id: "u_id (upserted arg v) \<in> user_ids (users_after arg v)"
proof (cases "user_with (UpsertUser_OidcIssuer arg) (UpsertUser_OidcSubject arg) v")
  case (Some u)
  then have "u \<in> set (db_users v)" "u_id u = u_id (upserted arg v)"
    using user_with_SomeD [OF Some] by (simp_all add: upserted_def)
  then have "upserted arg v \<in> set (db_users (users_after arg v))"
    using Some by (force simp: users_after_def)
  then show ?thesis by (auto simp: user_ids_def keys_def)
qed (simp add: users_after_def user_ids_def)

lemma some_admins: "wf_db v \<Longrightarrow> 0 < sql_DBCountAdmins v \<longleftrightarrow> admin_ids v \<noteq> {}"
  by (simp add: count_admins card_gt_0_iff) (simp add: admin_ids_def keys_def)

lemma wp_ensureAdmin:
  assumes wf: "wf_db v" and uid: "User_ID user \<in> user_ids v"
    and "\<And>isAdmin v'. v' = v\<lparr>db_admins := db_admins v'\<rparr> \<Longrightarrow> isAdmin = (User_ID user \<in> admin_ids v')
      \<Longrightarrow> admin_ids v' = (if bootstraps ul (signinbyoidc_BootstrapAdminEmail env) email v
                          then {User_ID user} else admin_ids v) \<Longrightarrow> Q (Inr isAdmin) v'"
    and "\<And>e v'. \<not> healthy \<Longrightarrow> Q (Inl e) v'"
  shows "wp (ensureAdmin ul ctx env user email) Q v"
proof -
  have same: "Q (Inr b) v" if "b = (User_ID user \<in> admin_ids v)"
    "\<not> bootstraps ul (signinbyoidc_BootstrapAdminEmail env) email v" for b
    by (rule assms(3)) (use that in simp_all)
  have granted: "Q (Inr True) v'"
    if "sql_DBInsertAdmin \<lparr>InsertAdmin_UserID = User_ID user, InsertAdmin_CreatedAt = at\<rparr> v = Inr (x, v')"
      "bootstraps ul (signinbyoidc_BootstrapAdminEmail env) email v" for at x v'
    using DBInsertAdmin_effect [OF wf that(1)] that(2)
    by (intro assms(3)) (auto simp: bootstraps_def)
  have insert: "wp (signinbyoidc_DBInsertAdmin env ctx
        \<lparr>InsertAdmin_UserID = User_ID user, InsertAdmin_CreatedAt = at\<rparr> \<bind> (\<lambda>r. case r of
        Inl err \<Rightarrow> ret (Inl (Errorf_w ''failed to bootstrap admin'' err)) | Inr _ \<Rightarrow> ret (Inr True))) Q v"
    if "bootstraps ul (signinbyoidc_BootstrapAdminEmail env) email v" for at
    using that by (auto intro!: wp_bind wp_performs [OF grant] wp_return granted assms(4)
        dest!: DBInsertAdmin_fails simp: uid)
  show ?thesis
    unfolding ensureAdmin_def Let_def
  proof (rule wp_bind, rule wp_get_admin [OF admin], goal_cases)
    case 1
    then show ?case by (auto intro!: wp_return same simp: bootstraps_def)
  next
    case 2
    then show ?case
      by (auto intro!: wp_bind wp_if wp_return wp_reads [OF admins] wp_silent [OF now] same
          insert assms(4) simp: some_admins bootstraps_def)
  next
    case 3
    then show ?case by (auto intro!: wp_return assms(4))
  qed
qed

theorem Resolve_signs_in:
  "wp (signinbyoidc_Resolve ul ctx env input) (\<lambda>r v'.
     case r of
       Inl e \<Rightarrow> healthy \<longrightarrow> sign_in_incomplete ul input \<or> seq_users v \<ge> max_int64
     | Inr res \<Rightarrow> \<not> sign_in_incomplete ul input
         \<and> (\<exists>now. signed_in ul (signinbyoidc_BootstrapAdminEmail env) input now v res v')) v"
proof (cases "sign_in_incomplete ul input")
  case True
  then show ?thesis
    by (auto simp: signinbyoidc_Resolve_def sign_in_incomplete_def Let_def intro!: wp_return)
next
  case False
  let ?arg = "sign_in_params ul input"
  have result: "signed_in ul (signinbyoidc_BootstrapAdminEmail env) input now v
      \<lparr>SignInResult_User = scan_User (upserted (?arg now) v), SignInResult_IsAdmin = isAdmin\<rparr> v'"
    if "v' = (users_after (?arg now) v)\<lparr>db_admins := db_admins v'\<rparr>"
      "isAdmin = (u_id (upserted (?arg now) v) \<in> admin_ids v')"
      "admin_ids v' = (if bootstraps ul (signinbyoidc_BootstrapAdminEmail env)
           (UpsertUser_Email (?arg now)) (users_after (?arg now) v)
         then {u_id (upserted (?arg now) v)} else admin_ids v)"
    for now isAdmin v'
    unfolding signed_in_def Let_def using that by (simp add: bootstraps_def)
  have ensured: "wp (ensureAdmin ul ctx env (scan_User (upserted (?arg now) v))
      (ToLower ul (TrimSpace (SignInInput_Email input)))) Q (users_after (?arg now) v)"
    if "wf_db (users_after (?arg now) v)"
      "\<And>isAdmin v'. \<exists>t. signed_in ul (signinbyoidc_BootstrapAdminEmail env) input t v
         \<lparr>SignInResult_User = scan_User (upserted (?arg now) v), SignInResult_IsAdmin = isAdmin\<rparr> v'
         \<Longrightarrow> Q (Inr isAdmin) v'"
      "\<And>e v'. \<not> healthy \<Longrightarrow> Q (Inl e) v'" for now Q
  proof (rule wp_ensureAdmin [OF that(1)], goal_cases)
    case 1
    show ?case using upserted_id by (simp add: scan_User_def)
  next
    case (2 isAdmin v')
    have "User_ID (scan_User u) = u_id u" for u by (simp add: scan_User_def)
    moreover have "UpsertUser_Email (?arg now) = ToLower ul (TrimSpace (SignInInput_Email input))"
      by (simp add: sign_in_params_def)
    ultimately show ?case using 2 by (intro that(2) exI [of _ now] result) simp_all
  qed (rule that(3))
  have "signinbyoidc_Resolve ul ctx env input = do {
      now \<leftarrow> signinbyoidc_Now env;
      u \<leftarrow> signinbyoidc_DBUpsertUserByOIDC env ctx (?arg now);
      case u of
        Inl err \<Rightarrow> ret (Inl (Errorf_w ''failed to upsert user'' err))
      | Inr user \<Rightarrow> do {
          a \<leftarrow> ensureAdmin ul ctx env user (ToLower ul (TrimSpace (SignInInput_Email input)));
          case a of
            Inl err \<Rightarrow> ret (Inl err)
          | Inr isAdmin \<Rightarrow>
              ret (Inr \<lparr>SignInResult_User = user, SignInResult_IsAdmin = isAdmin\<rparr>)
        }
    }"
    using False by (simp add: signinbyoidc_Resolve_def sign_in_incomplete_def Let_def sign_in_params_def)
  moreover from False have "\<not> sign_in_incomplete ul input" .
  ultimately show ?thesis
    by (auto intro!: wp_bind wp_silent [OF now] wp_upsert ensured wp_return wf_users_after) (erule exI)
qed

end

section \<open>listauditlog and purgeauditlog\<close>

definition audit_page :: "listauditlog_Input \<Rightarrow> Database \<Rightarrow> AuditLogConnection" where
  "audit_page input v =
    (let limit = page_limit (listauditlog_Limit input)
     in page_of limit
          (sql_DBListAuditLog
             \<lparr>ListAuditLogParams_Before = (case listauditlog_Before input of None \<Rightarrow> 0 | Some b \<Rightarrow> b),
              ListAuditLogParams_PageLimit = limit + 1\<rparr> v)
          (sql_DBCountAuditLog v))"

locale listauditlog_contract = store inside view healthy
  for inside :: "'w \<Rightarrow> bool" and view :: "'w \<Rightarrow> Database" and healthy :: bool +
  fixes env :: "('c, 'w) listauditlog_Env" and ctx :: 'c
  assumes rows: "performs (listauditlog_DBListAuditLog env ctx arg)
      (query (\<lambda>v. Inr (sql_DBListAuditLog arg v)))"
    and size: "performs (listauditlog_DBCountAuditLog env ctx)
      (query (\<lambda>v. Inr (sql_DBCountAuditLog v)))"
begin

theorem Resolve_pages:
  "wp (listauditlog_Resolve ctx env input) (\<lambda>r v'.
     v' = v \<and> (r = Inr (audit_page input v) \<or> \<not> healthy \<and> (\<exists>e. r = Inl e))) v"
  unfolding listauditlog_Resolve_def Let_def
  by (auto intro!: wp_bind wp_reads [OF rows] wp_reads [OF size] wp_return
      simp: audit_page_def Let_def)

end

definition purged :: "Time \<Rightarrow> Database \<Rightarrow> Database" where
  "purged cutoff v =
     v\<lparr>db_audit_log := filter (\<lambda>r. \<not> l_created_at r < Unix cutoff) (db_audit_log v)\<rparr>"

locale purgeauditlog_contract = store inside view healthy
  for inside :: "'w \<Rightarrow> bool" and view :: "'w \<Rightarrow> Database" and healthy :: bool +
  fixes env :: "('c, 'w) purgeauditlog_Env" and ctx :: 'c and clock :: "Time set"
  assumes purge: "performs (purgeauditlog_DBDeleteAuditLogBefore env ctx at)
      (sql_DBDeleteAuditLogBefore at)"
    and now: "wp (purgeauditlog_Now env) (\<lambda>t v'. v' = v \<and> t \<in> clock) v"
begin

lemma wp_now: "(\<And>t. t \<in> clock \<Longrightarrow> Q t v) \<Longrightarrow> wp (purgeauditlog_Now env) Q v"
  by (rule wp_mono [OF now]) auto

lemma always_purges:
  "sql_DBDeleteAuditLogBefore (dbtime_At t) v = Inr (x, v') \<longleftrightarrow> v' = purged t v"
  "sql_DBDeleteAuditLogBefore at v \<noteq> Inl e"
  by (auto simp: sql_DBDeleteAuditLogBefore_def purged_def dbtime_At_def stored_at_def)

theorem Resolve_purges:
  "wp (purgeauditlog_Resolve ctx env) (\<lambda>r v'.
     case r of
       Inl e \<Rightarrow> \<not> healthy \<and> v' = v
     | Inr _ \<Rightarrow> if purgeauditlog_AuditRetention env \<le> 0 then v' = v
               else \<exists>t \<in> clock. v' = purged (t - purgeauditlog_AuditRetention env) v) v"
  unfolding purgeauditlog_Resolve_def Let_def
  by (auto intro!: wp_bind wp_if wp_return wp_now wp_performs [OF purge] simp: always_purges)
    (rule bexI, rule refl)

end

end
