(* ===== verification/Netip.thy ===== *)
theory Netip
  imports GoStrings "HOL-Library.Word"
begin

unbundle bit_operations_syntax

text \<open>
  The parts of the standard library's \<open>net/netip\<close> and \<open>net\<close> that the client address and
  the list of trusted proxies rest on: addresses and prefixes, their text forms, containment.
\<close>

section \<open>Addresses and prefixes\<close>

text \<open>An IPv6 address carries a zone, empty when there is none.\<close>

datatype Addr = IPv4 "32 word" | IPv6 "128 word" string

datatype Prefix = Prefix (prefix_Addr: Addr) (prefix_Bits: nat)

definition Is4In6 :: "128 word \<Rightarrow> bool" where
  "Is4In6 w \<longleftrightarrow> drop_bit 32 w = 0xFFFF"

fun Unmap :: "Addr \<Rightarrow> Addr" where
  "Unmap (IPv4 a) = IPv4 a"
| "Unmap (IPv6 w z) = (if Is4In6 w then IPv4 (ucast w) else IPv6 w z)"

fun Prefix_Contains :: "Prefix \<Rightarrow> Addr \<Rightarrow> bool" where
  "Prefix_Contains (Prefix (IPv4 p) bits) (IPv4 a) \<longleftrightarrow> drop_bit (32 - bits) (a XOR p) = 0"
| "Prefix_Contains (Prefix (IPv6 p _) bits) (IPv6 a z) \<longleftrightarrow>
     z = [] \<and> drop_bit (128 - bits) (a XOR p) = 0"
| "Prefix_Contains _ _ \<longleftrightarrow> False"

section \<open>Reading an address\<close>

definition byte_val :: "char \<Rightarrow> int" where
  "byte_val c = of_char c"

definition is_digit :: "char \<Rightarrow> bool" where
  "is_digit c \<longleftrightarrow> 48 \<le> byte_val c \<and> byte_val c \<le> 57"

definition dec_value :: "string \<Rightarrow> int" where
  "dec_value s = foldl (\<lambda>n c. n * 10 + (byte_val c - 48)) 0 s"

text \<open>One field of a dotted address: digits, no leading zero, at most 255.\<close>

definition octet :: "string \<Rightarrow> int option" where
  "octet s = (if s \<noteq> [] \<and> list_all is_digit s \<and> (hd s = digit 0 \<longrightarrow> length s = 1)
                \<and> dec_value s \<le> 255
              then Some (dec_value s) else None)"

definition parseIPv4Fields :: "string \<Rightarrow> int list option" where
  "parseIPv4Fields s =
     (case map octet (split_on CHR ''.'' s) of
        [Some a, Some b, Some c, Some d] \<Rightarrow> Some [a, b, c, d]
      | _ \<Rightarrow> None)"

definition from_base :: "int \<Rightarrow> int list \<Rightarrow> int" where
  "from_base b ds = foldl (\<lambda>n d. n * b + d) 0 ds"

definition parseIPv4 :: "string \<Rightarrow> Addr option" where
  "parseIPv4 s = map_option (\<lambda>fs. IPv4 (word_of_int (from_base 256 fs))) (parseIPv4Fields s)"

definition hex_digit_val :: "char \<Rightarrow> int option" where
  "hex_digit_val c =
     (let n = byte_val c in
      if 48 \<le> n \<and> n \<le> 57 then Some (n - 48)
      else if 97 \<le> n \<and> n \<le> 102 then Some (n - 87)
      else if 65 \<le> n \<and> n \<le> 70 then Some (n - 55)
      else None)"

definition is_hex :: "char \<Rightarrow> bool" where
  "is_hex c \<longleftrightarrow> hex_digit_val c \<noteq> None"

definition hex_value :: "string \<Rightarrow> int" where
  "hex_value s =
     foldl (\<lambda>n c. n * 16 + (case hex_digit_val c of None \<Rightarrow> 0 | Some d \<Rightarrow> d)) 0 s"

text \<open>
  The loop of \<open>parseIPv6\<close>: what is left of the text, the 16-bit groups read so far, and
  where the \<open>::\<close> stood among them. \<open>None\<close> is any of its errors.
\<close>

function (sequential) v6_loop ::
  "string \<Rightarrow> int list \<Rightarrow> nat option \<Rightarrow> (string \<times> int list \<times> nat option) option" where
  "v6_loop s gs ell =
     (if length gs \<ge> 8 then Some (s, gs, ell)
      else let ds = takeWhile is_hex s; rest = dropWhile is_hex s; gs' = gs @ [hex_value ds] in
      if ds = [] \<or> length ds > 4 then None
      else case rest of
        [] \<Rightarrow> Some ([], gs', ell)
      | c # s1 \<Rightarrow>
          if c = CHR ''.'' then
            (if ell = None \<and> length gs \<noteq> 6 \<or> length gs + 2 > 8 then None
             else case parseIPv4Fields s of
               Some [a, b, c, d] \<Rightarrow> Some ([], gs @ [a * 256 + b, c * 256 + d], ell)
             | _ \<Rightarrow> None)
          else if c \<noteq> CHR '':'' \<or> s1 = [] then None
          else if hd s1 = CHR '':'' then
            (if ell \<noteq> None then None
             else if tl s1 = [] then Some ([], gs', Some (length gs'))
             else v6_loop (tl s1) gs' (Some (length gs')))
          else v6_loop s1 gs' ell)"
  by pat_completeness auto

lemma dropWhile_shorter: "dropWhile P s = c # t \<Longrightarrow> length t < length s"
  by (metis length_Cons length_dropWhile_le less_eq_Suc_le)

termination v6_loop
proof (relation "measure (\<lambda>(s, gs, ell). length s)", goal_cases)
  case (2 s gs ell ds rest gs' c s1)
  then show ?case using dropWhile_shorter [of is_hex s c s1] by simp
next
  case (3 s gs ell ds rest gs' c s1)
  then show ?case using dropWhile_shorter [of is_hex s c s1] by simp
qed simp

declare v6_loop.simps [simp del]

text \<open>Split at the first occurrence of a character.\<close>

definition cut_at :: "char \<Rightarrow> string \<Rightarrow> string \<times> string option" where
  "cut_at c s = (takeWhile (\<lambda>d. d \<noteq> c) s,
     (case dropWhile (\<lambda>d. d \<noteq> c) s of [] \<Rightarrow> None | _ # t \<Rightarrow> Some t))"

definition expand_groups :: "string \<times> int list \<times> nat option \<Rightarrow> int list option" where
  "expand_groups r =
     (case r of (s, gs, ell) \<Rightarrow>
        if s \<noteq> [] then None
        else case ell of
          None \<Rightarrow> (if length gs < 8 then None else Some gs)
        | Some e \<Rightarrow> (if length gs < 8
                   then Some (take e gs @ replicate (8 - length gs) 0 @ drop e gs) else None))"

definition parseIPv6_groups :: "string \<Rightarrow> int list option" where
  "parseIPv6_groups s =
     (if s = ''::'' then Some (replicate 8 0)
      else let r = (if HasPrefix s ''::'' then v6_loop (drop 2 s) [] (Some 0) else v6_loop s [] None)
           in Option.bind r expand_groups)"

definition parseIPv6 :: "string \<Rightarrow> Addr option" where
  "parseIPv6 s =
     (case cut_at CHR ''%'' s of (addr, zone) \<Rightarrow>
        if zone = Some [] then None
        else map_option (\<lambda>gs. IPv6 (word_of_int (from_base 65536 gs)) (case zone of None \<Rightarrow> [] | Some z \<Rightarrow> z))
               (parseIPv6_groups addr))"

text \<open>The first of dot, colon and percent decides the kind of address.\<close>

definition ParseAddr :: "string \<Rightarrow> Addr option" where
  "ParseAddr s =
     (case find (\<lambda>c. c \<in> {CHR ''.'', CHR '':'', CHR ''%''}) s of
        None \<Rightarrow> None
      | Some c \<Rightarrow> (if c = CHR ''.'' then parseIPv4 s
                 else if c = CHR '':'' then parseIPv6 s else None))"

text \<open>The text after the last slash is the number of bits, in plain decimal.\<close>

definition ParsePrefix :: "string \<Rightarrow> Prefix option" where
  "ParsePrefix s =
     (case cut_at CHR ''/'' (rev s) of
        (_, None) \<Rightarrow> None
      | (rbits, Some raddr) \<Rightarrow>
          let bits = rev rbits in
          (case ParseAddr (rev raddr) of
             None \<Rightarrow> None
           | Some ip \<Rightarrow>
               if (case ip of IPv4 _ \<Rightarrow> False | IPv6 _ z \<Rightarrow> z \<noteq> []) then None
               else if bits = [] \<or> \<not> list_all is_digit bits
                       \<or> length bits > 1 \<and> hd bits = digit 0 then None
               else if dec_value bits \<le> (case ip of IPv4 _ \<Rightarrow> 32 | IPv6 _ _ \<Rightarrow> 128)
               then Some (Prefix ip (nat (dec_value bits))) else None))"

section \<open>Writing an address\<close>

definition octets :: "32 word \<Rightarrow> int list" where
  "octets a = map (\<lambda>i. uint (drop_bit (8 * i) a) mod 256) [3, 2, 1, 0]"

definition groups :: "128 word \<Rightarrow> int list" where
  "groups w = map (\<lambda>i. uint (drop_bit (16 * i) w) mod 65536) [7, 6, 5, 4, 3, 2, 1, 0]"

definition hex_digit :: "int \<Rightarrow> char" where
  "hex_digit d = char_of (if d < 10 then 48 + d else 87 + d)"

function hex :: "int \<Rightarrow> string" where
  "hex n = (if n < 16 then [hex_digit n] else hex (n div 16) @ [hex_digit (n mod 16)])"
  by pat_completeness auto
termination
  by (relation "measure nat") auto

declare hex.simps [simp del]

definition string4 :: "32 word \<Rightarrow> string" where
  "string4 a = Join (map dec (octets a)) ''.''"

text \<open>The longest run of zero groups, the first of the longest, of two groups at least.\<close>

definition zero_run :: "int list \<Rightarrow> nat \<Rightarrow> nat" where
  "zero_run gs i = length (takeWhile (\<lambda>g. g = 0) (drop i gs))"

definition best_zero_run :: "int list \<Rightarrow> nat \<times> nat" where
  "best_zero_run gs =
     foldl (\<lambda>(start, len) i.
              if zero_run gs i \<ge> 2 \<and> zero_run gs i > len then (i, zero_run gs i) else (start, len))
       (0, 0) [0 ..< 8]"

definition string6 :: "128 word \<Rightarrow> string" where
  "string6 w =
     (let gs = groups w; shown = (\<lambda>xs. Join (map hex xs) '':'') in
      case best_zero_run gs of (start, len) \<Rightarrow>
        if len = 0 then shown gs
        else shown (take start gs) @ ''::'' @ shown (drop (start + len) gs))"

fun Addr_String :: "Addr \<Rightarrow> string" where
  "Addr_String (IPv4 a) = string4 a"
| "Addr_String (IPv6 w z) =
     (if Is4In6 w then ''::ffff:'' @ string4 (ucast w) else string6 w)
     @ (if z = [] then [] else ''%'' @ z)"

section \<open>net.SplitHostPort\<close>

text \<open>
  The host of \<open>host:port\<close>, \<open>[host]:port\<close> or \<open>[host%zone]:port\<close>; \<open>None\<close> is its error.
\<close>

definition SplitHostPort :: "string \<Rightarrow> (string \<times> string) option" where
  "SplitHostPort hostport =
     (case cut_at CHR '':'' (rev hostport) of
        (_, None) \<Rightarrow> None
      | (rport, Some rhost) \<Rightarrow>
          let host = rev rhost; port = rev rport in
          if hostport \<noteq> [] \<and> hd hostport = CHR ''['' then
            (case cut_at CHR '']'' hostport of
               (_, None) \<Rightarrow> None
             | (bracketed, Some after) \<Rightarrow>
                 if length bracketed + 1 \<noteq> length host then None
                 else if list_ex (\<lambda>c. c = CHR ''['') (tl hostport) then None
                 else if list_ex (\<lambda>c. c = CHR '']'') after then None
                 else Some (tl bracketed, port))
          else if list_ex (\<lambda>c. c = CHR '':'') host then None
          else if list_ex (\<lambda>c. c = CHR ''['' \<or> c = CHR '']'') hostport then None
          else Some (host, port))"

end
