(* ===== verification/World.thy ===== *)
theory World
  imports CaseAudit Netip
begin

text \<open>
  The state the server acts on and the operations of its libraries that change it: the
  database file with the one open write transaction, the connection pools over it, requests
  in flight, counters and log lines, the clock. The process-lifetime values every copy of
  \<open>app\<close> shares (cmd/server/app.go) are the record \<open>appState\<close>.
\<close>

section \<open>Libraries outside the repository\<close>

text \<open>
  A verified ID token of \<open>go-oidc\<close>: its subject, its issue time, and what decoding its
  claims into the fields the panel reads gives.
\<close>

record token_claims =
  claims_Email :: string
  claims_Verified :: "bool option"
  claims_Name :: string

record IDToken =
  token_Subject :: string
  token_IssuedAt :: Time
  token_Claims :: "go_error + token_claims"

text \<open>A message of the queue library \<open>goqite\<close>.\<close>

record Message =
  Message_Body :: string
  Message_Priority :: int64

text \<open>
  The arguments of the model: the validator, the Unicode case tables, the token verifier (at
  a time), and the creation of a job, which adds a row to the queue's table: the time, the
  queue's name, the job's name, the message and the present rows give the new row.
\<close>

record libs =
  lib_ValidateStruct :: ozzo
  lib_unicode_lower :: "string \<Rightarrow> string"
  lib_Verify :: "Time \<Rightarrow> string \<Rightarrow> go_error + IDToken"
  lib_job_row :: "Time \<Rightarrow> string \<Rightarrow> string \<Rightarrow> Message \<Rightarrow> Goqite list \<Rightarrow> Goqite"

section \<open>Configuration\<close>

record metrics_Config =
  metrics_Addr :: string
  metrics_Path :: string
  metrics_Namespace :: string
  metrics_UpdateInterval :: Duration

record Config =
  Config_Addr :: string
  Config_PublicURL :: string
  Config_BasePath :: string
  Config_DatabaseURL :: string
  Config_DatabaseFile :: string
  Config_OIDCIssuer :: string
  Config_OIDCClientID :: string
  Config_SignOutURL :: string
  Config_BootstrapAdmin :: string
  Config_AuditRetention :: Duration
  Config_AuditPurgeSpec :: string
  Config_NotifierFrom :: string
  Config_TrustedProxies :: "Prefix list"
  Config_Metrics :: metrics_Config
  Config_ShutdownDelay :: Duration
  Config_ShutdownTimeout :: Duration
  Config_LogLevel :: string
  Config_DevMode :: bool

section \<open>Database handles and the app\<close>

text \<open>
  A \<open>DBTX\<close> is a pool (\<open>conns.Read\<close>, \<open>conns.Write\<close>, \<open>conns.Queue\<close>) or a transaction. \<open>db.Queries\<close>
  holds one; \<open>db.WriteQueries\<close> embeds a \<open>db.Queries\<close> and alone has the writing methods, so
  a holder of \<open>Queries\<close> cannot write: the model keeps the two types apart.
\<close>

datatype DBTX = ReadPool | WritePool | QueuePool | OnTx nat

datatype Queries = Queries (q_db: DBTX)

datatype WriteQueries = WriteQueries (w_Queries: Queries)

definition db_New :: "DBTX \<Rightarrow> Queries" where
  "db_New h = Queries h"

definition NewWriteQueries :: "DBTX \<Rightarrow> WriteQueries" where
  "NewWriteQueries h = WriteQueries (db_New h)"

text \<open>The gate's client holds the verifier, a library value, and the issuer.\<close>

record notifier_Notifier =
  notifier_from :: string
  notifier_origin :: string

record appState =
  state_Notifier :: notifier_Notifier
  state_config :: Config
  state_buildCommit :: string
  state_baseWrite :: WriteQueries
  state_gate_issuer :: string
  state_libs :: libs

record app =
  app_state :: appState
  app_Queries :: Queries
  app_WriteQueries :: WriteQueries
  app_currentTx :: "nat option"

section \<open>Requests and contexts\<close>

record audit_Entry =
  Entry_UserID :: "int64 option"
  Entry_Email :: string
  Entry_Action :: string
  Entry_Detail :: string
  Entry_IP :: string

text \<open>\<open>appreq.Request\<close>. A request is shared by pointer, so it lives in the world, under a
  number; the context of a call carries that number and, inside \<open>WithTransaction\<close>, the
  transaction's environment.\<close>

record Request =
  Request_Env :: app
  Request_user :: "User option"
  Request_isAdmin :: bool
  Request_ip :: string
  Request_audits :: "audit_Entry list"

record Ctx =
  ctx_txEnv :: "app option"
  ctx_request :: "nat option"

definition background :: Ctx where
  "background = \<lparr>ctx_txEnv = None, ctx_request = None\<rparr>"

section \<open>The world\<close>

text \<open>What can go wrong below a driver call, other than an empty result.\<close>

datatype driver_fault = DriverError string | CtxCanceled | CtxDeadline

fun fault_error :: "driver_fault \<Rightarrow> go_error" where
  "fault_error (DriverError t) = NewError t"
| "fault_error CtxCanceled = Sentinel ContextCanceled"
| "fault_error CtxDeadline = Sentinel DeadlineExceeded"

lemma fault_error_found [simp]: "\<not> IsNotFound (fault_error f)"
  by (cases f) (simp_all add: IsNotFound_def)

datatype log_level = Debug | Info | Warn | Error

datatype log_line = Log log_level string "(string \<times> string) list"

text \<open>Calls of the Prometheus client on a metric, by its name and label values.\<close>

datatype prom_call =
    Inc string "string list"
  | GaugeReset string
  | GaugeSet string "string list" int

text \<open>
  \<open>w_committed\<close> is the database every other connection reads (WAL). \<open>w_tx\<close> is the
  transaction that holds the single write connection, with the database as it sees it. A
  driver call takes the next entry of \<open>w_faults\<close>: any schedule of failures is a choice of
  that function. \<open>w_stalls\<close> counts the calls that waited for the write connection while it
  was taken; such a call returns only when its context ends.
\<close>

record World =
  w_committed :: Database
  w_tx :: "(nat \<times> Database) option"
  w_next_tx :: nat
  w_requests :: "nat \<Rightarrow> Request option"
  w_next_request :: nat
  w_ready :: bool
  w_prom :: "prom_call list"
  w_log :: "log_line list"
  w_clock :: "nat \<Rightarrow> Time"
  w_ticks :: nat
  w_faults :: "nat \<Rightarrow> driver_fault option"
  w_calls :: nat
  w_stalls :: nat

type_synonym 'a act = "(World, 'a) state"

section \<open>Primitive operations\<close>

definition Now :: "Time act" where
  "Now = State (\<lambda>w. (w_clock w (w_ticks w), w\<lparr>w_ticks := Suc (w_ticks w)\<rparr>))"

definition log_at :: "log_level \<Rightarrow> string \<Rightarrow> (string \<times> string) list \<Rightarrow> unit act" where
  "log_at level msg args = modify_world (\<lambda>w. w\<lparr>w_log := w_log w @ [Log level msg args]\<rparr>)"

definition prom_Inc :: "string \<Rightarrow> string list \<Rightarrow> unit act" where
  "prom_Inc name labels = modify_world (\<lambda>w. w\<lparr>w_prom := w_prom w @ [Inc name labels]\<rparr>)"

definition prom_call :: "prom_call \<Rightarrow> unit act" where
  "prom_call c = modify_world (\<lambda>w. w\<lparr>w_prom := w_prom w @ [c]\<rparr>)"

definition driver_call :: "driver_fault option act" where
  "driver_call = State (\<lambda>w. (w_faults w (w_calls w), w\<lparr>w_calls := Suc (w_calls w)\<rparr>))"

text \<open>Waiting for the write connection: only the end of the context ends it.\<close>

definition stall :: "(World, 'a) io" where
  "stall = State (\<lambda>w. (Inl (Sentinel DeadlineExceeded), w\<lparr>w_stalls := Suc (w_stalls w)\<rparr>))"

definition read_on :: "DBTX \<Rightarrow> (Database \<Rightarrow> 'a) \<Rightarrow> (World, 'a) io" where
  "read_on h f = do {
     fault \<leftarrow> driver_call;
     case fault of
       Some e \<Rightarrow> ret (Inl (fault_error e))
     | None \<Rightarrow> do {
         tx \<leftarrow> ask_world w_tx;
         db \<leftarrow> ask_world w_committed;
         case h of
           ReadPool \<Rightarrow> ret (Inr (f db))
         | QueuePool \<Rightarrow> ret (Inr (f db))
         | WritePool \<Rightarrow> (case tx of Some _ \<Rightarrow> stall | None \<Rightarrow> ret (Inr (f db)))
         | OnTx n \<Rightarrow>
             (case tx of
                None \<Rightarrow> ret (Inl (Sentinel ErrTxDone))
              | Some (m, view) \<Rightarrow> if m = n then ret (Inr (f view)) else ret (Inl (Sentinel ErrTxDone)))
       }
   }"

text \<open>The read pool is opened with \<open>query_only(1)\<close>.\<close>

definition readonly_failed :: go_error where
  "readonly_failed = NewError ''attempt to write a readonly database''"

text \<open>The queue's pool is another connection: it waits \<open>busy_timeout\<close> for the write lock of an
  open transaction, and then fails.\<close>

definition database_locked :: go_error where
  "database_locked = NewError ''database is locked''"

definition autocommit :: "'a stmt \<Rightarrow> Database \<Rightarrow> (World, 'a) io" where
  "autocommit stmt db =
    (case stmt db of
       Inl e \<Rightarrow> ret (Inl e)
     | Inr (x, db') \<Rightarrow> do { modify_world (\<lambda>w. w\<lparr>w_committed := db'\<rparr>); ret (Inr x) })"

definition write_on :: "DBTX \<Rightarrow> 'a stmt \<Rightarrow> (World, 'a) io" where
  "write_on h stmt = do {
     fault \<leftarrow> driver_call;
     case fault of
       Some e \<Rightarrow> ret (Inl (fault_error e))
     | None \<Rightarrow> do {
         tx \<leftarrow> ask_world w_tx;
         db \<leftarrow> ask_world w_committed;
         case h of
           ReadPool \<Rightarrow> ret (Inl readonly_failed)
         | WritePool \<Rightarrow> (case tx of Some _ \<Rightarrow> stall | None \<Rightarrow> autocommit stmt db)
         | QueuePool \<Rightarrow>
             (case tx of Some _ \<Rightarrow> ret (Inl database_locked) | None \<Rightarrow> autocommit stmt db)
         | OnTx n \<Rightarrow>
             (case tx of
                None \<Rightarrow> ret (Inl (Sentinel ErrTxDone))
              | Some (m, view) \<Rightarrow>
                  if m = n then
                    (case stmt view of
                       Inl e \<Rightarrow> ret (Inl e)
                     | Inr (x, db') \<Rightarrow> do {
                         modify_world (\<lambda>w. w\<lparr>w_tx := Some (m, db')\<rparr>);
                         ret (Inr x)
                       })
                  else ret (Inl (Sentinel ErrTxDone)))
       }
   }"

text \<open>
  \<open>BEGIN IMMEDIATE\<close> on the write pool, \<open>COMMIT\<close> and \<open>ROLLBACK\<close>. A transaction whose
  commit fails is over and its changes are gone, as database/sql ends it either way.
\<close>

definition BeginTx :: "(World, nat) io" where
  "BeginTx = do {
     fault \<leftarrow> driver_call;
     case fault of
       Some e \<Rightarrow> ret (Inl (fault_error e))
     | None \<Rightarrow> do {
         tx \<leftarrow> ask_world w_tx;
         case tx of
           Some _ \<Rightarrow> stall
         | None \<Rightarrow> do {
             n \<leftarrow> ask_world w_next_tx;
             modify_world (\<lambda>w. w\<lparr>w_tx := Some (n, w_committed w), w_next_tx := Suc n\<rparr>);
             ret (Inr n)
           }
       }
   }"

definition tx_Commit :: "nat \<Rightarrow> (World, unit) io" where
  "tx_Commit n = do {
     tx \<leftarrow> ask_world w_tx;
     case tx of
       None \<Rightarrow> ret (Inl (Sentinel ErrTxDone))
     | Some (m, view) \<Rightarrow>
         if m \<noteq> n then ret (Inl (Sentinel ErrTxDone))
         else do {
           modify_world (\<lambda>w. w\<lparr>w_tx := None\<rparr>);
           fault \<leftarrow> driver_call;
           case fault of
             Some e \<Rightarrow> ret (Inl (fault_error e))
           | None \<Rightarrow> do {
               modify_world (\<lambda>w. w\<lparr>w_committed := view\<rparr>);
               ret (Inr ())
             }
         }
   }"

definition tx_Rollback :: "nat \<Rightarrow> (World, unit) io" where
  "tx_Rollback n = do {
     tx \<leftarrow> ask_world w_tx;
     case tx of
       None \<Rightarrow> ret (Inl (Sentinel ErrTxDone))
     | Some (m, view) \<Rightarrow>
         if m \<noteq> n then ret (Inl (Sentinel ErrTxDone))
         else do {
           modify_world (\<lambda>w. w\<lparr>w_tx := None\<rparr>);
           fault \<leftarrow> driver_call;
           case fault of
             Some e \<Rightarrow> ret (Inl (fault_error e))
           | None \<Rightarrow> ret (Inr ())
         }
   }"

end
