(* ===== verification/Queries.thy ===== *)
theory Queries
  imports World
begin

text \<open>
  The methods of \<open>db.Queries\<close> and \<open>db.WriteQueries\<close> (internal/db/db.go,
  queries.read.sql.go, queries.write.sql.go): each runs its statement on the handle it holds.
  A method of kind \<open>:one\<close> whose query gives no row fails with \<open>sql.ErrNoRows\<close>.
\<close>

section \<open>Running a query\<close>

fun first_row :: "'a list \<Rightarrow> go_error + 'a" where
  "first_row [] = Inl (Sentinel ErrNoRows)"
| "first_row (r # _) = Inr r"

definition QueryRow :: "DBTX \<Rightarrow> (Database \<Rightarrow> 'a list) \<Rightarrow> (World, 'a) io" where
  "QueryRow h f = do {
     r \<leftarrow> read_on h f;
     ret (case r of Inl e \<Rightarrow> Inl e | Inr rows \<Rightarrow> first_row rows)
   }"

definition WithTx :: "Queries \<Rightarrow> nat \<Rightarrow> Queries" where
  "WithTx q tx = Queries (OnTx tx)"

section \<open>Reads\<close>

definition DBCountAdmins :: "Queries \<Rightarrow> (World, int64) io" where
  "DBCountAdmins q = QueryRow (q_db q) (\<lambda>db. [sql_DBCountAdmins db])"

definition DBCountAuditLog :: "Queries \<Rightarrow> (World, int64) io" where
  "DBCountAuditLog q = QueryRow (q_db q) (\<lambda>db. [sql_DBCountAuditLog db])"

definition DBCountUsers :: "Queries \<Rightarrow> (World, int64) io" where
  "DBCountUsers q = QueryRow (q_db q) (\<lambda>db. [sql_DBCountUsers db])"

definition DBGetAdminByUserID :: "Queries \<Rightarrow> int64 \<Rightarrow> (World, Admin) io" where
  "DBGetAdminByUserID q userID = QueryRow (q_db q) (sql_DBGetAdminByUserID userID)"

definition DBGetAdminUserByID :: "Queries \<Rightarrow> int64 \<Rightarrow> (World, DBGetAdminUserByIDRow) io" where
  "DBGetAdminUserByID q uid = QueryRow (q_db q) (sql_DBGetAdminUserByID uid)"

definition DBGetIdentityByOIDC ::
  "Queries \<Rightarrow> DBGetIdentityByOIDCParams \<Rightarrow> (World, DBGetIdentityByOIDCRow) io" where
  "DBGetIdentityByOIDC q arg = QueryRow (q_db q) (sql_DBGetIdentityByOIDC arg)"

definition DBGetUserBan :: "Queries \<Rightarrow> int64 \<Rightarrow> (World, UserBan) io" where
  "DBGetUserBan q userID = QueryRow (q_db q) (sql_DBGetUserBan userID)"

definition DBGetUserByID :: "Queries \<Rightarrow> int64 \<Rightarrow> (World, User) io" where
  "DBGetUserByID q uid = QueryRow (q_db q) (sql_DBGetUserByID uid)"

definition DBListAdmins :: "Queries \<Rightarrow> (World, DBListAdminsRow list) io" where
  "DBListAdmins q = read_on (q_db q) sql_DBListAdmins"

definition DBListAuditLog :: "Queries \<Rightarrow> DBListAuditLogParams \<Rightarrow> (World, AuditLog list) io" where
  "DBListAuditLog q arg = read_on (q_db q) (sql_DBListAuditLog arg)"

definition DBListUsers :: "Queries \<Rightarrow> (World, DBListUsersRow list) io" where
  "DBListUsers q = read_on (q_db q) sql_DBListUsers"

section \<open>Writes\<close>

abbreviation wq_db :: "WriteQueries \<Rightarrow> DBTX" where
  "wq_db q \<equiv> q_db (w_Queries q)"

definition DBDeleteAdmin :: "WriteQueries \<Rightarrow> int64 \<Rightarrow> (World, int64) io" where
  "DBDeleteAdmin q userID = write_on (wq_db q) (sql_DBDeleteAdmin userID)"

definition DBDeleteAuditLogBefore :: "WriteQueries \<Rightarrow> Stamp \<Rightarrow> (World, unit) io" where
  "DBDeleteAuditLogBefore q createdAt = write_on (wq_db q) (sql_DBDeleteAuditLogBefore createdAt)"

definition DBDeleteUserBan :: "WriteQueries \<Rightarrow> int64 \<Rightarrow> (World, unit) io" where
  "DBDeleteUserBan q userID = write_on (wq_db q) (sql_DBDeleteUserBan userID)"

definition DBInsertAdmin :: "WriteQueries \<Rightarrow> DBInsertAdminParams \<Rightarrow> (World, unit) io" where
  "DBInsertAdmin q arg = write_on (wq_db q) (sql_DBInsertAdmin arg)"

definition DBInsertAuditLog :: "WriteQueries \<Rightarrow> DBInsertAuditLogParams \<Rightarrow> (World, unit) io" where
  "DBInsertAuditLog q arg = write_on (wq_db q) (sql_DBInsertAuditLog arg)"

definition DBInsertUserBan :: "WriteQueries \<Rightarrow> DBInsertUserBanParams \<Rightarrow> (World, UserBan) io" where
  "DBInsertUserBan q arg = write_on (wq_db q) (sql_DBInsertUserBan arg)"

definition DBMarkSignIn :: "WriteQueries \<Rightarrow> DBMarkSignInParams \<Rightarrow> (World, int64) io" where
  "DBMarkSignIn q arg = write_on (wq_db q) (sql_DBMarkSignIn arg)"

definition DBUpsertUserByOIDC ::
  "WriteQueries \<Rightarrow> DBUpsertUserByOIDCParams \<Rightarrow> (World, User) io" where
  "DBUpsertUserByOIDC q arg = write_on (wq_db q) (sql_DBUpsertUserByOIDC arg)"

lemmas query_defs =
  DBCountAdmins_def DBCountAuditLog_def DBCountUsers_def DBGetAdminByUserID_def
  DBGetAdminUserByID_def DBGetIdentityByOIDC_def DBGetUserBan_def DBGetUserByID_def
  DBListAdmins_def DBListAuditLog_def DBListUsers_def

lemmas exec_defs =
  DBDeleteAdmin_def DBDeleteAuditLogBefore_def DBDeleteUserBan_def DBInsertAdmin_def
  DBInsertAuditLog_def DBInsertUserBan_def DBMarkSignIn_def DBUpsertUserByOIDC_def

end
