(* ===== verification/App.thy ===== *)
theory App
  imports Contracts Queries
begin

text \<open>
  The IO spine: \<open>app\<close> of cmd/server (app.go, tx.go, jobs.go, commands.go) with what it embeds
  (internal/appreq, internal/metrics, internal/notifier). Each use case of internal/case is run
  with the methods of \<open>app\<close> as its \<open>Env\<close>; a writing one runs in a transaction.
\<close>

section \<open>internal/appreq\<close>

text \<open>A request is shared by pointer: \<open>FromCtx\<close> gives its number and what it holds now.\<close>

definition FromCtx :: "Ctx \<Rightarrow> (World, nat \<times> Request) io" where
  "FromCtx ctx = ask_world (\<lambda>w.
     (case ctx_request ctx of
        None \<Rightarrow> Inl (Sentinel ErrNotFound)
      | Some n \<Rightarrow> (case w_requests w n of
                     None \<Rightarrow> Inl (Sentinel ErrNotFound)
                   | Some req \<Rightarrow> Inr (n, req))))"

definition appreq_New :: "app \<Rightarrow> string \<Rightarrow> nat act" where
  "appreq_New env ip = do {
     n \<leftarrow> ask_world w_next_request;
     modify_world (\<lambda>w. w\<lparr>w_next_request := Suc n,
       w_requests := (w_requests w)(n \<mapsto> \<lparr>Request_Env = env, Request_user = None,
         Request_isAdmin = False, Request_ip = ip, Request_audits = []\<rparr>)\<rparr>);
     ret n
   }"

definition NewContext :: "nat \<Rightarrow> Ctx \<Rightarrow> Ctx" where
  "NewContext n ctx = ctx\<lparr>ctx_request := Some n\<rparr>"

definition change_request :: "nat \<Rightarrow> (Request \<Rightarrow> Request) \<Rightarrow> unit act" where
  "change_request n f =
     modify_world (\<lambda>w. w\<lparr>w_requests := (w_requests w)(n := map_option f (w_requests w n))\<rparr>)"

definition AddAudit :: "nat \<Rightarrow> audit_Entry \<Rightarrow> unit act" where
  "AddAudit n entry = change_request n (\<lambda>r. r\<lparr>Request_audits := Request_audits r @ [entry]\<rparr>)"

definition TakeAudit :: "nat \<Rightarrow> audit_Entry list act" where
  "TakeAudit n = do {
     entries \<leftarrow> ask_world (\<lambda>w. case w_requests w n of None \<Rightarrow> [] | Some r \<Rightarrow> Request_audits r);
     change_request n (\<lambda>r. r\<lparr>Request_audits := []\<rparr>);
     ret entries
   }"

definition SetIdentity :: "nat \<Rightarrow> User \<Rightarrow> bool \<Rightarrow> unit act" where
  "SetIdentity n user isAdmin =
     change_request n (\<lambda>r. r\<lparr>Request_user := Some user, Request_isAdmin := isAdmin\<rparr>)"

definition UserID :: "Request \<Rightarrow> int64 option" where
  "UserID req = map_option User_ID (Request_user req)"

section \<open>internal/metrics: the counters\<close>

text \<open>\<open>prometheus.CounterOpts\<close>: the full name joins the namespace and the name.\<close>

definition metric_name :: "metrics_Config \<Rightarrow> string \<Rightarrow> string" where
  "metric_name config name =
     (if metrics_Namespace config = '''' then name
      else metrics_Namespace config @ ''_'' @ name)"

definition MetricsIncreaseSignIn :: "metrics_Config \<Rightarrow> unit act" where
  "MetricsIncreaseSignIn m = prom_Inc (metric_name m ''sign_ins_total'') []"

definition MetricsIncreaseAdminDenied :: "metrics_Config \<Rightarrow> string \<Rightarrow> unit act" where
  "MetricsIncreaseAdminDenied m operation = prom_Inc (metric_name m ''admin_denied_total'') [operation]"

definition MetricsIncreaseUserBanned :: "metrics_Config \<Rightarrow> unit act" where
  "MetricsIncreaseUserBanned m = prom_Inc (metric_name m ''users_banned_total'') []"

definition MetricsIncreaseAdminChanged :: "metrics_Config \<Rightarrow> string \<Rightarrow> unit act" where
  "MetricsIncreaseAdminChanged m action = prom_Inc (metric_name m ''admin_changed_total'') [action]"

definition MetricsIncreaseNotification :: "metrics_Config \<Rightarrow> string \<Rightarrow> unit act" where
  "MetricsIncreaseNotification m kind = prom_Inc (metric_name m ''notifications_total'') [kind]"

definition MetricsIncreaseJobFinished ::
  "metrics_Config \<Rightarrow> string \<Rightarrow> go_error option \<Rightarrow> unit act" where
  "MetricsIncreaseJobFinished m job err =
     (let outcome = (case err of None \<Rightarrow> ''ok'' | Some _ \<Rightarrow> ''error'')
      in prom_Inc (metric_name m ''jobs_finished_total'') [job, outcome])"

section \<open>internal/notifier\<close>

definition KindUserBanned :: string where
  "KindUserBanned = ''user_banned''"

definition deliver ::
  "metrics_Config \<Rightarrow> notifier_Notifier \<Rightarrow> string \<Rightarrow> string \<Rightarrow> string \<Rightarrow> (World, unit) io" where
  "deliver m n kind recipient body =
    (if recipient = ''''
     then ret (Inl (NewError (''cannot deliver '' @ kind @ '' to an empty address'')))
     else do {
       log_at Info ''notice delivered''
         [(''kind'', kind), (''from'', notifier_from n), (''to'', recipient), (''body'', body)];
       MetricsIncreaseNotification m kind;
       ret (Inr ())
     })"

definition NotifyUserBanned ::
  "metrics_Config \<Rightarrow> notifier_Notifier \<Rightarrow> string \<Rightarrow> string \<Rightarrow> (World, unit) io" where
  "NotifyUserBanned m n recipient reason =
     deliver m n KindUserBanned recipient
       (''your access to '' @ notifier_origin n @ '' was revoked: '' @ reason)"

section \<open>app\<close>

definition app_config :: "app \<Rightarrow> Config" where
  "app_config a = state_config (app_state a)"

definition app_metrics :: "app \<Rightarrow> metrics_Config" where
  "app_metrics a = Config_Metrics (app_config a)"

definition app_libs :: "app \<Rightarrow> libs" where
  "app_libs a = state_libs (app_state a)"

definition SignOutURL :: "app \<Rightarrow> string" where
  "SignOutURL a = Config_SignOutURL (app_config a)"

definition BuildGitCommit :: "app \<Rightarrow> string" where
  "BuildGitCommit a = state_buildCommit (app_state a)"

definition AuditRetention :: "app \<Rightarrow> Duration" where
  "AuditRetention a = Config_AuditRetention (app_config a)"

definition BootstrapAdminEmail :: "app \<Rightarrow> string" where
  "BootstrapAdminEmail a = Config_BootstrapAdmin (app_config a)"

definition CurrentUserID :: "app \<Rightarrow> Ctx \<Rightarrow> int64 option act" where
  "CurrentUserID a ctx = do {
     r \<leftarrow> FromCtx ctx;
     case r of Inl _ \<Rightarrow> ret None | Inr (n, req) \<Rightarrow> ret (UserID req)
   }"

section \<open>Transactions\<close>

definition txEnvFromCtx :: "app \<Rightarrow> Ctx \<Rightarrow> app option act" where
  "txEnvFromCtx a ctx =
    (if (case ctx_txEnv ctx of None \<Rightarrow> False | Some txEnv \<Rightarrow> app_currentTx txEnv \<noteq> None)
     then ret (ctx_txEnv ctx)
     else do {
       r \<leftarrow> FromCtx ctx;
       if (case r of Inl _ \<Rightarrow> False | Inr (n, req) \<Rightarrow> app_currentTx (Request_Env req) \<noteq> None)
       then ret (case r of Inl _ \<Rightarrow> None | Inr (n, req) \<Rightarrow> Some (Request_Env req))
       else ret (if app_currentTx a \<noteq> None then Some a else None)
     })"

definition withTxQueries :: "app \<Rightarrow> nat \<Rightarrow> app" where
  "withTxQueries a tx =
    (let writeQueries = NewWriteQueries (OnTx tx)
     in a\<lparr>app_Queries := w_Queries writeQueries, app_WriteQueries := writeQueries,
          app_currentTx := Some tx\<rparr>)"

text \<open>The deferred rollback runs on every way out. After a commit it finds the transaction
  done. A variable that the closure assigns is the value of the computation.\<close>

definition deferred_Rollback :: "nat \<Rightarrow> unit act" where
  "deferred_Rollback tx = do {
     r \<leftarrow> tx_Rollback tx;
     case r of
       Inl rollbackErr \<Rightarrow>
         if \<not> errors_Is rollbackErr ErrTxDone
         then log_at Error ''failed to roll back transaction'' [(''error'', error_text rollbackErr)]
         else ret ()
     | Inr _ \<Rightarrow> ret ()
   }"

definition WithTransaction ::
  "app \<Rightarrow> Ctx \<Rightarrow> (Ctx \<Rightarrow> app \<Rightarrow> (World, 'a) io) \<Rightarrow> (World, 'a) io" where
  "WithTransaction a ctx fn = do {
     outer \<leftarrow> txEnvFromCtx a ctx;
     case outer of
       Some _ \<Rightarrow> ret (Inl (Sentinel ErrNestedTransaction))
     | None \<Rightarrow> do {
         b \<leftarrow> BeginTx;
         case b of
           Inl err \<Rightarrow> ret (Inl (Errorf_w ''failed to begin transaction'' err))
         | Inr tx \<Rightarrow> do {
             let txEnv = withTxQueries a tx;
             let txCtx = ctx\<lparr>ctx_txEnv := Some txEnv\<rparr>;
             r \<leftarrow> do {
               out \<leftarrow> fn txCtx txEnv;
               case out of
                 Inl err \<Rightarrow> ret (Inl err)
               | Inr x \<Rightarrow> do {
                   c \<leftarrow> tx_Commit tx;
                   case c of
                     Inl commitErr \<Rightarrow> ret (Inl (Errorf_w ''failed to commit transaction'' commitErr))
                   | Inr _ \<Rightarrow> ret (Inr x)
                 }
             };
             deferred_Rollback tx;
             ret r
           }
       }
   }"

section \<open>Jobs\<close>

definition jobPurgeAuditLog :: string where
  "jobPurgeAuditLog = ''purge-audit-log''"

definition jobNotifyUserBanned :: string where
  "jobNotifyUserBanned = ''notify-user-banned''"

text \<open>The payloads the program enqueues, and \<open>json.Marshal\<close> of each.\<close>

datatype job_payload = EmptyStruct | NotifyPayload notifyuserbanned_Input

fun json_Marshal :: "job_payload \<Rightarrow> go_error + string" where
  "json_Marshal EmptyStruct = Inr ''{}''"
| "json_Marshal (NotifyPayload input) =
     Inr (''{'' @ [CHR 0x22] @ ''userId'' @ [CHR 0x22] @ '':''
          @ int_dec (notifyuserbanned_UserID input) @ ''}'')"

definition queue_name :: string where
  "queue_name = ''jobs''"

definition add_job :: "libs \<Rightarrow> Time \<Rightarrow> string \<Rightarrow> Message \<Rightarrow> unit stmt" where
  "add_job L t job_id msg db =
     Inr ((), db\<lparr>db_goqite := db_goqite db @ [lib_job_row L t queue_name job_id msg (db_goqite db)]\<rparr>)"

definition goqitejobs_CreateTx :: "libs \<Rightarrow> nat \<Rightarrow> string \<Rightarrow> Message \<Rightarrow> (World, unit) io" where
  "goqitejobs_CreateTx L tx job_id msg = do {
     t \<leftarrow> Now;
     write_on (OnTx tx) (add_job L t job_id msg)
   }"

definition goqitejobs_Create :: "libs \<Rightarrow> string \<Rightarrow> Message \<Rightarrow> (World, unit) io" where
  "goqitejobs_Create L job_id msg = do {
     t \<leftarrow> Now;
     write_on QueuePool (add_job L t job_id msg)
   }"

definition EnqueueJob :: "app \<Rightarrow> Ctx \<Rightarrow> string \<Rightarrow> job_payload \<Rightarrow> int64 \<Rightarrow> (World, unit) io" where
  "EnqueueJob a ctx job_id payload priority =
    (case json_Marshal payload of
       Inl err \<Rightarrow> ret (Inl (Errorf_w (''failed to marshal '' @ job_id @ '' payload'') err))
     | Inr body \<Rightarrow> do {
         let msg = \<lparr>Message_Body = body, Message_Priority = priority\<rparr>;
         txEnv \<leftarrow> txEnvFromCtx a ctx;
         r \<leftarrow> (case (case txEnv of None \<Rightarrow> None | Some e \<Rightarrow> app_currentTx e) of
                 Some tx \<Rightarrow> goqitejobs_CreateTx (app_libs a) tx job_id msg
               | None \<Rightarrow> goqitejobs_Create (app_libs a) job_id msg);
         case r of
           Inl err \<Rightarrow> ret (Inl (Errorf_w (''failed to enqueue '' @ job_id) err))
         | Inr _ \<Rightarrow> ret (Inr ())
       })"

definition EnqueueUserBannedNotice :: "app \<Rightarrow> Ctx \<Rightarrow> int64 \<Rightarrow> (World, unit) io" where
  "EnqueueUserBannedNotice a ctx userID =
     EnqueueJob a ctx jobNotifyUserBanned (NotifyPayload \<lparr>notifyuserbanned_UserID = userID\<rparr>) 0"

section \<open>The Env of each case\<close>

definition banuser_env :: "app \<Rightarrow> (Ctx, World) banuser_Env" where
  "banuser_env a =
     \<lparr>banuser_DBGetUserByID = (\<lambda>ctx. DBGetUserByID (app_Queries a)),
      banuser_DBInsertUserBan = (\<lambda>ctx. DBInsertUserBan (app_WriteQueries a)),
      banuser_CurrentUserID = CurrentUserID a,
      banuser_EnqueueUserBannedNotice = EnqueueUserBannedNotice a,
      banuser_Now = Now,
      banuser_MetricsIncreaseUserBanned = (\<lambda>ctx. MetricsIncreaseUserBanned (app_metrics a))\<rparr>"

definition unbanuser_env :: "app \<Rightarrow> (Ctx, World) unbanuser_Env" where
  "unbanuser_env a =
     \<lparr>unbanuser_DBDeleteUserBan = (\<lambda>ctx. DBDeleteUserBan (app_WriteQueries a))\<rparr>"

definition makeadmin_env :: "app \<Rightarrow> (Ctx, World) makeadmin_Env" where
  "makeadmin_env a =
     \<lparr>makeadmin_DBGetAdminUserByID = (\<lambda>ctx. DBGetAdminUserByID (app_Queries a)),
      makeadmin_DBInsertAdmin = (\<lambda>ctx. DBInsertAdmin (app_WriteQueries a)),
      makeadmin_MetricsIncreaseAdminChanged = (\<lambda>ctx. MetricsIncreaseAdminChanged (app_metrics a)),
      makeadmin_Now = Now\<rparr>"

definition removeadmin_env :: "app \<Rightarrow> (Ctx, World) removeadmin_Env" where
  "removeadmin_env a =
     \<lparr>removeadmin_DBDeleteAdmin = (\<lambda>ctx. DBDeleteAdmin (app_WriteQueries a)),
      removeadmin_DBGetAdminByUserID = (\<lambda>ctx. DBGetAdminByUserID (app_Queries a)),
      removeadmin_CurrentUserID = CurrentUserID a,
      removeadmin_MetricsIncreaseAdminChanged = (\<lambda>ctx. MetricsIncreaseAdminChanged (app_metrics a))\<rparr>"

definition signinbyoidc_env :: "app \<Rightarrow> (Ctx, World) signinbyoidc_Env" where
  "signinbyoidc_env a =
     \<lparr>signinbyoidc_DBUpsertUserByOIDC = (\<lambda>ctx. DBUpsertUserByOIDC (app_WriteQueries a)),
      signinbyoidc_DBGetAdminByUserID = (\<lambda>ctx. DBGetAdminByUserID (app_Queries a)),
      signinbyoidc_DBCountAdmins = (\<lambda>ctx. DBCountAdmins (app_Queries a)),
      signinbyoidc_DBInsertAdmin = (\<lambda>ctx. DBInsertAdmin (app_WriteQueries a)),
      signinbyoidc_BootstrapAdminEmail = BootstrapAdminEmail a,
      signinbyoidc_Now = Now\<rparr>"

definition listauditlog_env :: "app \<Rightarrow> (Ctx, World) listauditlog_Env" where
  "listauditlog_env a =
     \<lparr>listauditlog_DBListAuditLog = (\<lambda>ctx. DBListAuditLog (app_Queries a)),
      listauditlog_DBCountAuditLog = (\<lambda>ctx. DBCountAuditLog (app_Queries a))\<rparr>"

definition purgeauditlog_env :: "app \<Rightarrow> (Ctx, World) purgeauditlog_Env" where
  "purgeauditlog_env a =
     \<lparr>purgeauditlog_DBDeleteAuditLogBefore = (\<lambda>ctx. DBDeleteAuditLogBefore (app_WriteQueries a)),
      purgeauditlog_AuditRetention = AuditRetention a,
      purgeauditlog_Now = Now\<rparr>"

definition notifyuserbanned_env :: "app \<Rightarrow> (Ctx, World) notifyuserbanned_Env" where
  "notifyuserbanned_env a =
     \<lparr>notifyuserbanned_DBGetUserByID = (\<lambda>ctx. DBGetUserByID (app_Queries a)),
      notifyuserbanned_DBGetUserBan = (\<lambda>ctx. DBGetUserBan (app_Queries a)),
      notifyuserbanned_NotifyUserBanned =
        (\<lambda>ctx. NotifyUserBanned (app_metrics a) (state_Notifier (app_state a)))\<rparr>"

section \<open>Commands and registered jobs\<close>

definition runInTx :: "Ctx \<Rightarrow> app \<Rightarrow> (Ctx \<Rightarrow> app \<Rightarrow> (World, 'o) io) \<Rightarrow> (World, 'o) io" where
  "runInTx ctx a fn = WithTransaction a ctx fn"

definition BanUser :: "app \<Rightarrow> Ctx \<Rightarrow> BanUserInput \<Rightarrow> (World, BanUserOrErrorPayload) io" where
  "BanUser a ctx input = runInTx ctx a (\<lambda>txCtx env.
     banuser_Resolve (lib_ValidateStruct (app_libs a)) txCtx (banuser_env env) input)"

definition UnbanUser :: "app \<Rightarrow> Ctx \<Rightarrow> UnbanUserInput \<Rightarrow> (World, UnbanUserOrErrorPayload) io" where
  "UnbanUser a ctx input = runInTx ctx a (\<lambda>txCtx env.
     unbanuser_Resolve (lib_ValidateStruct (app_libs a)) txCtx (unbanuser_env env) input)"

definition MakeAdmin :: "app \<Rightarrow> Ctx \<Rightarrow> MakeAdminInput \<Rightarrow> (World, MakeAdminOrErrorPayload) io" where
  "MakeAdmin a ctx input = runInTx ctx a (\<lambda>txCtx env.
     makeadmin_Resolve (lib_ValidateStruct (app_libs a)) txCtx (makeadmin_env env) input)"

definition RemoveAdmin :: "app \<Rightarrow> Ctx \<Rightarrow> RemoveAdminInput \<Rightarrow> (World, RemoveAdminOrErrorPayload) io"
where
  "RemoveAdmin a ctx input = runInTx ctx a (\<lambda>txCtx env.
     removeadmin_Resolve (lib_ValidateStruct (app_libs a)) txCtx (removeadmin_env env) input)"

definition ListAuditLog ::
  "app \<Rightarrow> Ctx \<Rightarrow> int64 \<Rightarrow> int64 option \<Rightarrow> (World, AuditLogConnection) io" where
  "ListAuditLog a ctx limit before =
     listauditlog_Resolve ctx (listauditlog_env a)
       \<lparr>listauditlog_Limit = limit, listauditlog_Before = before\<rparr>"

definition SignInByOIDC :: "app \<Rightarrow> Ctx \<Rightarrow> signinbyoidc_Input \<Rightarrow> (World, signinbyoidc_Result) io"
where
  "SignInByOIDC a ctx input = WithTransaction a ctx (\<lambda>txCtx env.
     signinbyoidc_Resolve (lib_unicode_lower (app_libs a)) txCtx (signinbyoidc_env env) input)"

definition purge_job :: "app \<Rightarrow> Ctx \<Rightarrow> (World, unit) io" where
  "purge_job a ctx = WithTransaction a ctx (\<lambda>txCtx env.
     purgeauditlog_Resolve txCtx (purgeauditlog_env env))"

definition notify_job :: "app \<Rightarrow> Ctx \<Rightarrow> notifyuserbanned_Input \<Rightarrow> (World, unit) io" where
  "notify_job a ctx params = notifyuserbanned_Resolve ctx (notifyuserbanned_env a) params"

end
