(* ===== verification/AppEnv.thy ===== *)
theory AppEnv
  imports App
begin

text \<open>
  The methods of \<open>app\<close> keep the contracts of the use cases. Two sessions are stores: inside a
  transaction (the view is the transaction's database) and at rest (the view is the committed
  one). Each contract of theory Contracts is interpreted on the \<open>Env\<close> that \<open>app\<close> gives the
  case, and \<open>WithTransaction\<close> turns a step inside a transaction into one atomic step at rest.
\<close>

section \<open>Sessions\<close>

definition healthy_world :: "World \<Rightarrow> bool" where
  "healthy_world w \<longleftrightarrow> w_faults w = (\<lambda>_. None)"

definition same_frame :: "World \<Rightarrow> World \<Rightarrow> bool" where
  "same_frame w0 w \<longleftrightarrow>
     w_requests w = w_requests w0 \<and> w_stalls w = w_stalls w0 \<and> w_clock w = w_clock w0
     \<and> w_faults w = w_faults w0 \<and> w_ticks w0 \<le> w_ticks w"

definition in_tx :: "nat \<Rightarrow> World \<Rightarrow> World \<Rightarrow> bool" where
  "in_tx n w0 w \<longleftrightarrow>
     same_frame w0 w \<and> w_committed w = w_committed w0 \<and> (\<exists>db. w_tx w = Some (n, db) \<and> wf_db db)"

definition view_tx :: "World \<Rightarrow> Database" where
  "view_tx w = (case w_tx w of Some (n, db) \<Rightarrow> db | None \<Rightarrow> empty_db)"

definition at_rest :: "World \<Rightarrow> World \<Rightarrow> bool" where
  "at_rest w0 w \<longleftrightarrow> same_frame w0 w \<and> w_tx w = None \<and> wf_db (w_committed w)"

interpretation tx: store "in_tx n w0" view_tx "healthy_world w0" for n w0
  by unfold_locales (auto simp: in_tx_def view_tx_def)

interpretation pool: store "at_rest w0" w_committed "healthy_world w0" for w0
  by unfold_locales (simp add: at_rest_def)

abbreviation tx_performs :: "nat \<Rightarrow> World \<Rightarrow> (World, 'a) io \<Rightarrow> 'a stmt \<Rightarrow> bool" where
  "tx_performs n w0 \<equiv> store.performs (in_tx n w0) view_tx (healthy_world w0)"

abbreviation pool_performs :: "World \<Rightarrow> (World, 'a) io \<Rightarrow> 'a stmt \<Rightarrow> bool" where
  "pool_performs w0 \<equiv> store.performs (at_rest w0) w_committed (healthy_world w0)"

lemmas frame_defs = same_frame_def in_tx_def view_tx_def at_rest_def healthy_world_def

section \<open>Statements on a handle\<close>

lemma tx_write: "keeps_wf f \<Longrightarrow> tx_performs n w0 (write_on (OnTx n) f) f"
  unfolding tx.performs_def tx.wp_def
  by (auto simp: write_on_def driver_call_def frame_defs outcome_def keeps_wf_def
      split: option.splits sum.splits prod.splits)

lemma tx_read: "tx_performs n w0 (read_on (OnTx n) f) (query (\<lambda>v. Inr (f v)))"
  unfolding tx.performs_def tx.wp_def
  by (auto simp: read_on_def driver_call_def frame_defs split: option.splits)

lemma tx_row: "tx_performs n w0 (QueryRow (OnTx n) f) (query (\<lambda>v. first_row (f v)))"
  unfolding tx.performs_def tx.wp_def
  by (auto simp: QueryRow_def read_on_def driver_call_def frame_defs split: option.splits)

lemma pool_write: "keeps_wf f \<Longrightarrow> pool_performs w0 (write_on WritePool f) f"
  unfolding pool.performs_def pool.wp_def
  by (auto simp: write_on_def autocommit_def driver_call_def frame_defs outcome_def keeps_wf_def
      split: option.splits sum.splits prod.splits)

lemma pool_read: "pool_performs w0 (read_on ReadPool f) (query (\<lambda>v. Inr (f v)))"
  unfolding pool.performs_def pool.wp_def
  by (auto simp: read_on_def driver_call_def frame_defs split: option.splits)

lemma pool_row: "pool_performs w0 (QueryRow ReadPool f) (query (\<lambda>v. first_row (f v)))"
  unfolding pool.performs_def pool.wp_def
  by (auto simp: QueryRow_def read_on_def driver_call_def frame_defs split: option.splits)

lemma quiet:
  "store.silent (in_tx n w0) view_tx Now" "store.silent (in_tx n w0) view_tx (prom_Inc name labels)"
  "store.silent (at_rest w0) w_committed Now"
  "store.silent (at_rest w0) w_committed (prom_Inc name labels)"
  unfolding tx.silent_def tx.wp_def pool.silent_def pool.wp_def
  by (auto simp: Now_def prom_Inc_def frame_defs)

lemma now_on_clock:
  "store.wp (in_tx n w0) view_tx Now (\<lambda>t v'. v' = v \<and> t \<in> w_clock w0 ` {w_ticks w0 ..}) v"
  unfolding tx.wp_def by (auto simp: Now_def frame_defs)

section \<open>Rows found by their key\<close>

lemma first_row_found:
  "first_row (case m of None \<Rightarrow> [] | Some x \<Rightarrow> [f x]) = found (map_option f m)"
  by (cases m) simp_all

lemma rows_found:
  assumes "wf_db v"
  shows "query (\<lambda>v. first_row (sql_DBGetUserByID uid v)) v = get_user uid v"
    and "query (\<lambda>v. first_row (sql_DBGetAdminByUserID uid v)) v = get_admin uid v"
    and "query (\<lambda>v. first_row (sql_DBGetUserBan uid v)) v = get_ban uid v"
    and "query (\<lambda>v. first_row (sql_DBGetAdminUserByID uid v)) v = get_admin_user uid v"
  by (simp_all add: query_def get_user_def get_admin_def get_ban_def get_admin_user_def
      DBGetUserByID_eq [OF assms] DBGetAdminByUserID_eq [OF assms] DBGetUserBan_eq [OF assms]
      DBGetAdminUserByID_eq [OF assms] first_row_found)

lemma tx_lookups:
  "tx_performs n w0 (QueryRow (OnTx n) (sql_DBGetUserByID uid)) (get_user uid)"
  "tx_performs n w0 (QueryRow (OnTx n) (sql_DBGetAdminByUserID uid)) (get_admin uid)"
  "tx_performs n w0 (QueryRow (OnTx n) (sql_DBGetAdminUserByID uid)) (get_admin_user uid)"
  by (rule tx.performs_cong [OF tx_row], erule rows_found)+

lemma pool_lookups:
  "pool_performs w0 (QueryRow ReadPool (sql_DBGetUserByID uid)) (get_user uid)"
  "pool_performs w0 (QueryRow ReadPool (sql_DBGetUserBan uid)) (get_ban uid)"
  "pool_performs w0 (QueryRow ReadPool (sql_DBGetAdminUserByID uid)) (get_admin_user uid)"
  by (rule pool.performs_cong [OF pool_row], erule rows_found)+

section \<open>The Env of a transaction\<close>

abbreviation tx_env :: "app \<Rightarrow> nat \<Rightarrow> app" where
  "tx_env a n \<equiv> withTxQueries a n"

abbreviation tx_ctx :: "app \<Rightarrow> nat \<Rightarrow> Ctx \<Rightarrow> Ctx" where
  "tx_ctx a n ctx \<equiv> ctx\<lparr>ctx_txEnv := Some (tx_env a n)\<rparr>"

lemma tx_env_simps [simp]:
  "app_Queries (tx_env a n) = Queries (OnTx n)"
  "wq_db (app_WriteQueries (tx_env a n)) = OnTx n"
  "app_currentTx (tx_env a n) = Some n"
  "app_state (tx_env a n) = app_state a"
  "app_config (tx_env a n) = app_config a" "app_metrics (tx_env a n) = app_metrics a"
  "app_libs (tx_env a n) = app_libs a"
  "AuditRetention (tx_env a n) = AuditRetention a"
  "BootstrapAdminEmail (tx_env a n) = BootstrapAdminEmail a"
  by (simp_all add: withTxQueries_def Let_def NewWriteQueries_def db_New_def app_config_def
      app_metrics_def app_libs_def AuditRetention_def BootstrapAdminEmail_def)

lemma txEnvFromCtx_tx_ctx [simp]: "txEnvFromCtx b (tx_ctx a n ctx) = ret (Some (tx_env a n))"
  by (simp add: txEnvFromCtx_def)

text \<open>Who the request of a context belongs to.\<close>

definition actor_of :: "Ctx \<Rightarrow> World \<Rightarrow> int64 option" where
  "actor_of ctx w =
     (case ctx_request ctx of None \<Rightarrow> None
      | Some n \<Rightarrow> (case w_requests w n of None \<Rightarrow> None | Some req \<Rightarrow> UserID req))"

lemma run_CurrentUserID: "run (CurrentUserID a ctx) w = (actor_of ctx w, w)"
  by (simp add: CurrentUserID_def FromCtx_def actor_of_def split: option.splits)

lemma actor_of_tx_ctx [simp]: "actor_of (tx_ctx a n ctx) w = actor_of ctx w"
  by (simp add: actor_of_def)

lemma actor_of_frame: "same_frame w0 w \<Longrightarrow> actor_of ctx w = actor_of ctx w0"
  by (auto simp: actor_of_def same_frame_def split: option.splits)

text \<open>The job a ban puts in the queue, made at some moment of the clock.\<close>

definition ban_notice :: "libs \<Rightarrow> World \<Rightarrow> int64 \<Rightarrow> Goqite list \<Rightarrow> Goqite \<Rightarrow> bool" where
  "ban_notice L w0 uid rows row \<longleftrightarrow>
     (\<exists>k \<ge> w_ticks w0. \<exists>body.
        json_Marshal (NotifyPayload \<lparr>notifyuserbanned_UserID = uid\<rparr>) = Inr body
        \<and> row = lib_job_row L (w_clock w0 k) queue_name jobNotifyUserBanned
                  \<lparr>Message_Body = body, Message_Priority = 0\<rparr> rows)"

lemma wf_goqite: "wf_db (v\<lparr>db_goqite := g\<rparr>) = wf_db v"
  by (simp add: wf_db_parts)

lemma tx_enqueue:
  "store.wp (in_tx n w0) view_tx (EnqueueUserBannedNotice b (tx_ctx a n ctx) uid) (\<lambda>r v'.
     case r of
       Inr _ \<Rightarrow> \<exists>row. ban_notice (app_libs b) w0 uid (db_goqite v) row
                 \<and> v' = v\<lparr>db_goqite := db_goqite v @ [row]\<rparr>
     | Inl e \<Rightarrow> \<not> healthy_world w0) v"
  unfolding tx.wp_def
  by (auto simp: EnqueueUserBannedNotice_def EnqueueJob_def goqitejobs_CreateTx_def Now_def
      write_on_def driver_call_def add_job_def frame_defs wf_goqite ban_notice_def
      split: option.splits)

section \<open>The contracts hold\<close>

lemma tx_who: "in_tx n w0 w \<Longrightarrow> run (CurrentUserID b (tx_ctx a n ctx)) w = (actor_of ctx w0, w)"
  by (simp add: run_CurrentUserID in_tx_def actor_of_frame)

interpretation ban_tx: banuser_contract "in_tx n w0" view_tx "healthy_world w0"
    "banuser_env (tx_env a n)" "tx_ctx a n ctx" "actor_of ctx w0" "ban_notice (app_libs a) w0"
  for a ctx n w0
proof
  show "tx_performs n w0 (banuser_DBGetUserByID (banuser_env (tx_env a n)) (tx_ctx a n ctx) uid)
      (get_user uid)" for uid
    by (simp add: banuser_env_def DBGetUserByID_def tx_lookups)
  show "tx_performs n w0 (banuser_DBInsertUserBan (banuser_env (tx_env a n)) (tx_ctx a n ctx) arg)
      (sql_DBInsertUserBan arg)" for arg
    by (simp add: banuser_env_def DBInsertUserBan_def tx_write stmt_wf)
  show "run (banuser_CurrentUserID (banuser_env (tx_env a n)) (tx_ctx a n ctx)) w
      = (actor_of ctx w0, w)" if "in_tx n w0 w" for w
    using tx_who [OF that] by (simp add: banuser_env_def)
  show "store.wp (in_tx n w0) view_tx
      (banuser_EnqueueUserBannedNotice (banuser_env (tx_env a n)) (tx_ctx a n ctx) uid) (\<lambda>r v'.
        case r of
          Inl e \<Rightarrow> \<not> healthy_world w0
        | Inr _ \<Rightarrow> \<exists>row. ban_notice (app_libs a) w0 uid (db_goqite v) row
            \<and> v' = v\<lparr>db_goqite := db_goqite v @ [row]\<rparr>) v" for uid v
    using tx_enqueue [of n w0 "tx_env a n" a ctx uid v] unfolding tx_env_simps
    by (simp add: banuser_env_def)
qed (simp_all add: banuser_env_def MetricsIncreaseUserBanned_def quiet)

interpretation unban_tx: unbanuser_contract "in_tx n w0" view_tx "healthy_world w0"
    "unbanuser_env (tx_env a n)" "tx_ctx a n ctx" for a ctx n w0
  by unfold_locales (simp add: unbanuser_env_def DBDeleteUserBan_def tx_write stmt_wf)

interpretation make_tx: makeadmin_contract "in_tx n w0" view_tx "healthy_world w0"
    "makeadmin_env (tx_env a n)" "tx_ctx a n ctx" for a ctx n w0
  by unfold_locales
    (simp_all add: makeadmin_env_def DBGetAdminUserByID_def DBInsertAdmin_def tx_lookups
      tx_write stmt_wf MetricsIncreaseAdminChanged_def quiet)

interpretation remove_tx: removeadmin_contract "in_tx n w0" view_tx "healthy_world w0"
    "removeadmin_env (tx_env a n)" "tx_ctx a n ctx" "actor_of ctx w0" for a ctx n w0
  by unfold_locales
    (simp_all add: removeadmin_env_def DBGetAdminByUserID_def DBDeleteAdmin_def tx_lookups
      tx_write stmt_wf MetricsIncreaseAdminChanged_def quiet tx_who)

interpretation signin_tx: signinbyoidc_contract "in_tx n w0" view_tx "healthy_world w0"
    "signinbyoidc_env (tx_env a n)" "tx_ctx a n ctx" for a ctx n w0
proof
  show "tx_performs n w0 (signinbyoidc_DBCountAdmins (signinbyoidc_env (tx_env a n)) (tx_ctx a n ctx))
      (query (\<lambda>v. Inr (sql_DBCountAdmins v)))"
    using tx_row [of n w0 "\<lambda>db. [sql_DBCountAdmins db]"]
    by (simp add: signinbyoidc_env_def DBCountAdmins_def)
qed (simp_all add: signinbyoidc_env_def DBUpsertUserByOIDC_def DBGetAdminByUserID_def
      DBInsertAdmin_def tx_lookups tx_write stmt_wf quiet)

interpretation purge_tx: purgeauditlog_contract "in_tx n w0" view_tx "healthy_world w0"
    "purgeauditlog_env (tx_env a n)" "tx_ctx a n ctx" "w_clock w0 ` {w_ticks w0 ..}"
  for a ctx n w0
  by unfold_locales
    (simp_all add: purgeauditlog_env_def DBDeleteAuditLogBefore_def tx_write stmt_wf now_on_clock)

text \<open>The page of the log is read outside a transaction, on the read pool.\<close>

definition base_app :: "app \<Rightarrow> bool" where
  "base_app a \<longleftrightarrow> app_Queries a = Queries ReadPool \<and> wq_db (app_WriteQueries a) = WritePool
     \<and> app_currentTx a = None \<and> wq_db (state_baseWrite (app_state a)) = WritePool"

definition log_pool :: "app \<Rightarrow> (Ctx, World) listauditlog_Env" where
  "log_pool a = listauditlog_env (a\<lparr>app_Queries := Queries ReadPool\<rparr>)"

interpretation list_pool: listauditlog_contract "at_rest w0" w_committed "healthy_world w0"
    "log_pool a" ctx for a ctx w0
  using pool_row [of w0 "\<lambda>db. [sql_DBCountAuditLog db]"]
  by unfold_locales
    (simp_all add: log_pool_def listauditlog_env_def DBListAuditLog_def DBCountAuditLog_def pool_read)

lemma log_pool_base: "base_app a \<Longrightarrow> log_pool a = listauditlog_env a"
  by (simp add: log_pool_def base_app_def listauditlog_env_def)

section \<open>WithTransaction\<close>

text \<open>The transaction a call would find open, by its context.\<close>

definition open_env :: "app \<Rightarrow> Ctx \<Rightarrow> World \<Rightarrow> app option" where
  "open_env a ctx w = fst (run (txEnvFromCtx a ctx) w)"

lemma run_txEnvFromCtx: "run (txEnvFromCtx a ctx) w = (open_env a ctx w, w)"
  by (auto simp: open_env_def txEnvFromCtx_def FromCtx_def split: option.splits)

lemma open_env_frame: "same_frame w0 w \<Longrightarrow> open_env a ctx w = open_env a ctx w0"
  by (cases "ctx_request ctx")
    (auto simp: open_env_def txEnvFromCtx_def FromCtx_def same_frame_def split: option.splits)

lemma same_frame_trans: "same_frame u v \<Longrightarrow> same_frame v w \<Longrightarrow> same_frame u w"
  by (simp add: same_frame_def)

lemma rollback_done: "w_tx w = None \<Longrightarrow> run (deferred_Rollback n) w = ((), w)"
  by (simp add: deferred_Rollback_def tx_Rollback_def)

lemma rollback_open:
  assumes "in_tx n w1 w"
  shows "at_rest w1 (snd (run (deferred_Rollback n) w)) \<or> \<not> wf_db (w_committed w1)"
    and "w_committed (snd (run (deferred_Rollback n) w)) = w_committed w1"
  using assms
  by (auto simp: deferred_Rollback_def tx_Rollback_def driver_call_def log_at_def frame_defs
      split: option.splits sum.splits)

lemma commit_open:
  assumes "in_tx n w1 w" "run (tx_Commit n) w = (c, w')"
  shows "same_frame w1 w'" "w_tx w' = None"
    and "c = Inr () \<and> w_committed w' = view_tx w
      \<or> \<not> healthy_world w1 \<and> (\<exists>e. c = Inl e) \<and> w_committed w' = w_committed w1"
  using assms
  by (auto simp: tx_Commit_def driver_call_def frame_defs split: option.splits)

lemma begin_rest:
  assumes "at_rest w0 w" "run BeginTx w = (b, w')"
  shows "(\<exists>n. b = Inr n \<and> in_tx n w' w' \<and> view_tx w' = w_committed w \<and> w_committed w' = w_committed w
            \<and> same_frame w w')
      \<or> \<not> healthy_world w0 \<and> (\<exists>e. b = Inl e) \<and> at_rest w0 w' \<and> w_committed w' = w_committed w"
  using assms
  by (auto simp: BeginTx_def driver_call_def frame_defs split: option.splits)

text \<open>The part of \<open>WithTransaction\<close> after the transaction has begun.\<close>

definition tx_body :: "nat \<Rightarrow> (World, 'a) io \<Rightarrow> (World, 'a) io" where
  "tx_body tx fn = do {
     r \<leftarrow> do {
       out \<leftarrow> fn;
       case out of
         Inl err \<Rightarrow> ret (Inl err)
       | Inr x \<Rightarrow> do {
           c \<leftarrow> tx_Commit tx;
           case c of
             Inl commitErr \<Rightarrow> ret (Inl (Errorf_w ''failed to commit transaction'' commitErr))
           | Inr _ \<Rightarrow> ret (Inr x)
         }
     };
     deferred_Rollback tx;
     ret r
   }"

lemma WithTransaction_eq:
  "WithTransaction a ctx fn = do {
     outer \<leftarrow> txEnvFromCtx a ctx;
     case outer of
       Some _ \<Rightarrow> ret (Inl (Sentinel ErrNestedTransaction))
     | None \<Rightarrow> do {
         b \<leftarrow> BeginTx;
         case b of
           Inl err \<Rightarrow> ret (Inl (Errorf_w ''failed to begin transaction'' err))
         | Inr tx \<Rightarrow> tx_body tx (fn (tx_ctx a tx ctx) (tx_env a tx))
       }
   }"
  unfolding WithTransaction_def tx_body_def Let_def by (rule refl)

lemma tx_body_atomic:
  assumes begun: "in_tx n w1 w1" "wf_db (w_committed w1)"
    and body: "tx.wp n w1 fn Q (view_tx w1)"
    and run: "run (tx_body n fn) w1 = (r, w')"
  shows "at_rest w1 w'"
    and "case r of
        Inr x \<Rightarrow> Q (Inr x) (w_committed w')
      | Inl e \<Rightarrow> w_committed w' = w_committed w1
          \<and> (healthy_world w1 \<longrightarrow> (\<exists>db. Q (Inl e) db))"
proof -
  obtain out w2 where fn: "run fn w1 = (out, w2)" by force
  note after = tx.wpD [OF body begun(1) fn]
  have "at_rest w1 w' \<and> (case r of
        Inr x \<Rightarrow> Q (Inr x) (w_committed w')
      | Inl e \<Rightarrow> w_committed w' = w_committed w1 \<and> (healthy_world w1 \<longrightarrow> (\<exists>db. Q (Inl e) db)))"
  proof (cases out)
    case (Inl e)
    with run fn rollback_open [OF after(1)] begun(2) after(2) show ?thesis
      by (auto simp: tx_body_def split: prod.splits)
  next
    case (Inr x)
    obtain c w3 where c: "run (tx_Commit n) w2 = (c, w3)" by force
    note committed = commit_open [OF after(1) c]
    have "r = (case c of Inl e \<Rightarrow> Inl (Errorf_w ''failed to commit transaction'' e) | Inr _ \<Rightarrow> Inr x)"
      "w' = w3"
      using run fn c Inr rollback_done [OF committed(2)]
      by (auto simp: tx_body_def split: sum.splits)
    with committed after Inr begun(2) show ?thesis
      using tx.wf_view [OF after(1)] by (auto simp: at_rest_def)
  qed
  then show "at_rest w1 w'"
    and "case r of
        Inr x \<Rightarrow> Q (Inr x) (w_committed w')
      | Inl e \<Rightarrow> w_committed w' = w_committed w1
          \<and> (healthy_world w1 \<longrightarrow> (\<exists>db. Q (Inl e) db))"
    by blast+
qed

lemma WithTransaction_wp:
  assumes free: "open_env a ctx w0 = None"
    and body: "\<And>n w1. same_frame w0 w1 \<Longrightarrow> tx.wp n w1 (fn (tx_ctx a n ctx) (tx_env a n)) Q v"
  shows "pool.wp w0 (WithTransaction a ctx fn) (\<lambda>r v'.
    case r of
      Inr x \<Rightarrow> Q (Inr x) v'
    | Inl e \<Rightarrow> v' = v \<and> (healthy_world w0 \<longrightarrow> (\<exists>db. Q (Inl e) db))) v"
proof (rule pool.wpI)
  fix w r w' assume rest: "at_rest w0 w" and v: "w_committed w = v"
    and run: "run (WithTransaction a ctx fn) w = (r, w')"
  obtain b w1 where b: "run BeginTx w = (b, w1)" by force
  have frame: "same_frame w0 w" using rest by (simp add: at_rest_def)
  have run: "(case b of Inl err \<Rightarrow> (Inl (Errorf_w ''failed to begin transaction'' err), w1)
      | Inr n \<Rightarrow> run (tx_body n (fn (tx_ctx a n ctx) (tx_env a n))) w1) = (r, w')"
    using run b free open_env_frame [OF frame]
    by (auto simp: WithTransaction_eq run_txEnvFromCtx split: sum.splits)
  from begin_rest [OF rest b] show "at_rest w0 w' \<and> (case r of
      Inr x \<Rightarrow> Q (Inr x) (w_committed w')
    | Inl e \<Rightarrow> w_committed w' = v \<and> (healthy_world w0 \<longrightarrow> (\<exists>db. Q (Inl e) db)))"
  proof (elim disjE exE conjE)
    fix n assume begun: "b = Inr n" "in_tx n w1 w1" "view_tx w1 = w_committed w"
      "w_committed w1 = w_committed w" "same_frame w w1"
    have f: "same_frame w0 w1" using frame begun(5) by (rule same_frame_trans)
    have "at_rest w1 w'" and "case r of
        Inr x \<Rightarrow> Q (Inr x) (w_committed w')
      | Inl e \<Rightarrow> w_committed w' = w_committed w1 \<and> (healthy_world w1 \<longrightarrow> (\<exists>db. Q (Inl e) db))"
      using tx_body_atomic [OF begun(2), of _ Q] body [OF f, of n] run begun(1,3,4) v rest
      by (simp_all add: at_rest_def)
    moreover have "healthy_world w1 = healthy_world w0"
      using f by (simp add: healthy_world_def same_frame_def)
    ultimately show ?thesis
      using f begun(4) v same_frame_trans by (auto simp: at_rest_def split: sum.splits)
  next
    fix e assume "b = Inl e" "\<not> healthy_world w0" "at_rest w0 w1" "w_committed w1 = w_committed w"
    with run v show ?thesis by auto
  qed
qed

end
