(* ===== verification/AppProps.thy ===== *)
theory AppProps
  imports AppEnv
begin

text \<open>
  The commands of cmd/server/commands.go and auth.go, run by \<open>app\<close> at rest: each is one atomic
  step on the committed database. It answers with a refusal and changes nothing, or has its
  whole effect, or fails and changes nothing, whatever fails below it.
\<close>

section \<open>Commands as atomic steps\<close>

lemma command_wp:
  assumes "open_env a ctx w0 = None"
    and "\<And>n w1. same_frame w0 w1 \<Longrightarrow> tx.wp n w1 (fn (tx_ctx a n ctx) (tx_env a n))
      (\<lambda>r v'. decides (healthy_world w0) refusal q eff blocked v r v') v"
  shows "pool.wp w0 (WithTransaction a ctx fn) (\<lambda>r v'.
    decides (healthy_world w0) refusal q eff blocked v r v' \<and> (\<forall>e. r = Inl e \<longrightarrow> v' = v)) v"
  by (rule pool.wp_mono [OF WithTransaction_wp [OF assms(1), of fn "\<lambda>r v'.
        decides (healthy_world w0) refusal q eff blocked v r v'"]])
    (auto intro: assms(2) split: sum.splits)

lemma healthy_frame: "same_frame w0 w1 \<Longrightarrow> healthy_world w1 = healthy_world w0"
  by (simp add: same_frame_def healthy_world_def)

lemma ban_notice_frame:
  "same_frame w0 w1 \<Longrightarrow> ban_notice L w1 uid rows row \<Longrightarrow> ban_notice L w0 uid rows row"
  by (auto simp: ban_notice_def same_frame_def intro: order_trans)

lemma ban_effect_mono:
  "(\<And>rows row. P rows row \<Longrightarrow> P' rows row) \<Longrightarrow> ban_effect P uid reason v v' \<Longrightarrow> ban_effect P' uid reason v v'"
  by (auto simp: ban_effect_def)

lemma decides_mono:
  "decides h refusal q eff blocked v r v' \<Longrightarrow> (\<And>v'. eff v' \<Longrightarrow> eff' v')
   \<Longrightarrow> decides h refusal q eff' blocked v r v'"
  by (auto simp: decides_def split: sum.splits OrErrorPayload.splits)

lemma BanUser_wp:
  fixes a :: app and input :: BanUserInput
  assumes "open_env a ctx w0 = None"
  defines "uid \<equiv> BanUserInput_UserID input" and "V \<equiv> lib_ValidateStruct (app_libs a)"
  shows "pool.wp w0 (BanUser a ctx input) (\<lambda>r v'.
    decides (healthy_world w0) (ban_refusal V (actor_of ctx w0) input v) \<lparr>BanUserPayload_UserID = uid\<rparr>
      (ban_effect (ban_notice (app_libs a) w0 uid) uid (TrimSpace (BanUserInput_Reason input)) v)
      (ban_blocked (actor_of ctx w0) uid v) v r v'
    \<and> (\<forall>e. r = Inl e \<longrightarrow> v' = v)) v"
  unfolding BanUser_def runInTx_def
proof (rule command_wp [OF assms(1)])
  fix n w1 assume f: "same_frame w0 w1"
  show "tx.wp n w1 (banuser_Resolve (lib_ValidateStruct (app_libs a)) (tx_ctx a n ctx)
      (banuser_env (tx_env a n)) input) (\<lambda>r v'.
    decides (healthy_world w0) (ban_refusal V (actor_of ctx w0) input v) \<lparr>BanUserPayload_UserID = uid\<rparr>
      (ban_effect (ban_notice (app_libs a) w0 uid) uid (TrimSpace (BanUserInput_Reason input)) v)
      (ban_blocked (actor_of ctx w0) uid v) v r v') v"
    by (rule tx.wp_mono [OF ban_tx.Resolve_decides])
      (auto simp: healthy_frame [OF f] actor_of_frame [OF f] V_def uid_def
        elim!: decides_mono ban_effect_mono [rotated] dest: ban_notice_frame [OF f])
qed

lemma UnbanUser_wp:
  fixes a :: app and input :: UnbanUserInput
  assumes "open_env a ctx w0 = None"
  defines "uid \<equiv> UnbanUserInput_UserID input" and "V \<equiv> lib_ValidateStruct (app_libs a)"
  shows "pool.wp w0 (UnbanUser a ctx input) (\<lambda>r v'.
    decides (healthy_world w0) (unbanuser_validate V input) \<lparr>UnbanUserPayload_UserID = uid\<rparr>
      (unban_effect uid v) False v r v'
    \<and> (\<forall>e. r = Inl e \<longrightarrow> v' = v)) v"
  unfolding UnbanUser_def runInTx_def
  by (rule command_wp [OF assms(1)], rule tx.wp_mono [OF unban_tx.Resolve_decides])
    (simp add: healthy_frame V_def uid_def)

lemma MakeAdmin_wp:
  fixes a :: app and input :: MakeAdminInput
  assumes "open_env a ctx w0 = None"
  defines "uid \<equiv> MakeAdminInput_UserID input" and "V \<equiv> lib_ValidateStruct (app_libs a)"
  shows "pool.wp w0 (MakeAdmin a ctx input) (\<lambda>r v'.
    decides (healthy_world w0) (make_refusal V input v) \<lparr>MakeAdminPayload_UserID = uid\<rparr>
      (make_effect uid v) False v r v'
    \<and> (\<forall>e. r = Inl e \<longrightarrow> v' = v)) v"
  unfolding MakeAdmin_def runInTx_def
  by (rule command_wp [OF assms(1)], rule tx.wp_mono [OF make_tx.Resolve_decides])
    (simp add: healthy_frame V_def uid_def)

lemma RemoveAdmin_wp:
  fixes a :: app and input :: RemoveAdminInput
  assumes "open_env a ctx w0 = None"
  defines "uid \<equiv> RemoveAdminInput_UserID input" and "V \<equiv> lib_ValidateStruct (app_libs a)"
  shows "pool.wp w0 (RemoveAdmin a ctx input) (\<lambda>r v'.
    decides (healthy_world w0) (remove_refusal V (actor_of ctx w0) input v)
      \<lparr>RemoveAdminPayload_UserID = uid\<rparr> (remove_effect uid v) (remove_blocked uid v) v r v'
    \<and> (\<forall>e. r = Inl e \<longrightarrow> v' = v)) v"
  unfolding RemoveAdmin_def runInTx_def
  by (rule command_wp [OF assms(1)], rule tx.wp_mono [OF remove_tx.Resolve_decides])
    (simp add: healthy_frame actor_of_frame V_def uid_def)

lemma SignInByOIDC_wp:
  fixes a :: app
  assumes "open_env a ctx w0 = None"
  defines "ul \<equiv> lib_unicode_lower (app_libs a)"
  shows "pool.wp w0 (SignInByOIDC a ctx input) (\<lambda>r v'.
     case r of
       Inl e \<Rightarrow> v' = v
         \<and> (healthy_world w0 \<longrightarrow> sign_in_incomplete ul input \<or> seq_users v \<ge> max_int64)
     | Inr res \<Rightarrow> \<not> sign_in_incomplete ul input
         \<and> (\<exists>now. signed_in ul (BootstrapAdminEmail a) input now v res v')) v"
proof -
  let ?Q = "\<lambda>r v'. case r of
       Inl e \<Rightarrow> healthy_world w0 \<longrightarrow> sign_in_incomplete ul input \<or> seq_users v \<ge> max_int64
     | Inr res \<Rightarrow> \<not> sign_in_incomplete ul input
         \<and> (\<exists>now. signed_in ul (BootstrapAdminEmail a) input now v res v')"
  have boot: "signinbyoidc_BootstrapAdminEmail (signinbyoidc_env (tx_env a n)) = BootstrapAdminEmail a"
    for n by (simp add: signinbyoidc_env_def)
  have body: "tx.wp n w1 (signinbyoidc_Resolve (lib_unicode_lower (app_libs a)) (tx_ctx a n ctx)
      (signinbyoidc_env (tx_env a n)) input) ?Q v" if f: "same_frame w0 w1" for n w1
    unfolding ul_def
    by (rule tx.wp_mono [OF signin_tx.Resolve_signs_in])
      (simp add: healthy_frame [OF f] boot split: sum.splits)
  show ?thesis
    unfolding SignInByOIDC_def
    by (rule pool.wp_mono, rule WithTransaction_wp [where Q = ?Q, OF assms(1)], erule body)
      (auto split: sum.splits)
qed

lemma purge_wp:
  assumes "open_env a ctx w0 = None"
  shows "pool.wp w0 (purge_job a ctx) (\<lambda>r v'.
     case r of
       Inl e \<Rightarrow> v' = v \<and> \<not> healthy_world w0
     | Inr _ \<Rightarrow> if AuditRetention a \<le> 0 then v' = v
         else \<exists>k \<ge> w_ticks w0. v' = purged (w_clock w0 k - AuditRetention a) v) v"
proof -
  let ?Q = "\<lambda>r v'. case r of
       Inl e \<Rightarrow> \<not> healthy_world w0
     | Inr _ \<Rightarrow> if AuditRetention a \<le> 0 then v' = v
         else \<exists>k \<ge> w_ticks w0. v' = purged (w_clock w0 k - AuditRetention a) v"
  have body: "tx.wp n w1 (purgeauditlog_Resolve (tx_ctx a n ctx) (purgeauditlog_env (tx_env a n))) ?Q v"
    if f: "same_frame w0 w1" for n w1
    by (rule tx.wp_mono [OF purge_tx.Resolve_purges])
      (use f in \<open>auto simp: healthy_frame [OF f] purgeauditlog_env_def same_frame_def
         split: sum.splits if_splits intro: order_trans\<close>)
  show ?thesis
    unfolding purge_job_def
    by (rule pool.wp_mono, rule WithTransaction_wp [where Q = ?Q, OF assms], erule body)
      (auto split: sum.splits)
qed

end
