(* ===== verification/Demo.thy ===== *)
theory Demo
  imports AppProps
begin

text \<open>
  A concrete panel, on which the properties are evaluated: three users, two admins, a ban made
  by one of them, two audit rows, a request of the first admin, and libraries that behave as
  documented.
\<close>

definition demo_libs :: libs where
  "demo_libs =
     \<lparr>lib_ValidateStruct = ozzo_reference, lib_unicode_lower = (\<lambda>s. s),
      lib_Verify = (\<lambda>t raw. if raw = ''good'' then Inr \<lparr>token_Subject = ''sub-9'',
          token_IssuedAt = 5000000000, token_Claims = Inr \<lparr>claims_Email = ''Root@example.com'',
          claims_Verified = Some True, claims_Name = ''Root''\<rparr>\<rparr> else Inl (NewError ''bad token'')),
      lib_job_row = (\<lambda>t q j m rows. \<lparr>Goqite_ID = j, Goqite_Created = '''', Goqite_Updated = '''',
          Goqite_Queue = q, Goqite_Body = Message_Body m, Goqite_Timeout = '''', Goqite_Received = 0,
          Goqite_Priority = Message_Priority m\<rparr>)\<rparr>"

definition demo_config :: Config where
  "demo_config =
     \<lparr>Config_Addr = '':7301'', Config_PublicURL = ''https://panel.example.com'', Config_BasePath = '''',
      Config_DatabaseURL = ''sqlite:panel.db'', Config_DatabaseFile = ''panel.db'',
      Config_OIDCIssuer = ''https://dex.example.com'', Config_OIDCClientID = ''panel'',
      Config_SignOutURL = ''/oauth2/sign_out'', Config_BootstrapAdmin = ''root@example.com'',
      Config_AuditRetention = 90000000000, Config_AuditPurgeSpec = ''@daily'',
      Config_NotifierFrom = ''panel@example.com'', Config_TrustedProxies = [],
      Config_Metrics = \<lparr>metrics_Addr = '':7302'', metrics_Path = ''/metrics'',
        metrics_Namespace = ''starterkit'', metrics_UpdateInterval = 30000000000\<rparr>,
      Config_ShutdownDelay = 0, Config_ShutdownTimeout = 0, Config_LogLevel = ''info'',
      Config_DevMode = False\<rparr>"

definition demo_app :: app where
  "demo_app =
     \<lparr>app_state = \<lparr>state_Notifier = \<lparr>notifier_from = ''panel@example.com'',
          notifier_origin = ''https://panel.example.com''\<rparr>,
        state_config = demo_config, state_buildCommit = ''dev'',
        state_baseWrite = NewWriteQueries WritePool,
        state_gate_issuer = ''https://dex.example.com'', state_libs = demo_libs\<rparr>,
      app_Queries = db_New ReadPool, app_WriteQueries = NewWriteQueries WritePool,
      app_currentTx = None\<rparr>"

definition demo_user :: "int \<Rightarrow> string \<Rightarrow> users_row" where
  "demo_user n subject =
     \<lparr>u_id = n, u_oidc_issuer = ''https://dex.example.com'', u_oidc_subject = subject,
      u_email = subject @ ''@example.com'', u_name = subject, u_last_signin_at = Some 3,
      u_created_at = 1\<rparr>"

definition demo_db :: Database where
  "demo_db =
     \<lparr>db_users = [demo_user 1 ''ann'', demo_user 2 ''bob'', demo_user 3 ''eve''], seq_users = 3,
      db_admins = [\<lparr>a_user_id = 1, a_created_at = 1\<rparr>, \<lparr>a_user_id = 2, a_created_at = 2\<rparr>],
      db_user_bans = [\<lparr>b_user_id = 3, b_banned_by = Some 1, b_reason = ''spam'', b_created_at = 4\<rparr>],
      db_audit_log = [\<lparr>l_id = 1, l_user_id = Some 1, l_email = ''ann@example.com'',
          l_action = ''sign_in'', l_detail = '''', l_ip = ''10.0.0.1'', l_created_at = 2\<rparr>,
        \<lparr>l_id = 2, l_user_id = Some 1, l_email = ''ann@example.com'',
          l_action = ''mutation:banUser'', l_detail = '''', l_ip = ''10.0.0.1'', l_created_at = 200\<rparr>],
      seq_audit_log = 2, db_goqite = [],
      db_schema_migrations = [\<lparr>SchemaMigration_Version = ''20260810090000''\<rparr>]\<rparr>"

definition demo_world :: World where
  "demo_world =
     \<lparr>w_committed = demo_db, w_tx = None, w_next_tx = 1,
      w_requests = [1 \<mapsto> \<lparr>Request_Env = demo_app, Request_user = Some (scan_User (demo_user 1 ''ann'')),
        Request_isAdmin = True, Request_ip = ''10.0.0.1'', Request_audits = []\<rparr>],
      w_next_request = 2, w_ready = True, w_prom = [], w_log = [],
      w_clock = (\<lambda>k. 100000000000), w_ticks = 0, w_faults = (\<lambda>_. None), w_calls = 0,
      w_stalls = 0\<rparr>"

definition demo_ctx :: Ctx where
  "demo_ctx = \<lparr>ctx_txEnv = None, ctx_request = Some 1\<rparr>"

lemma demo_wf: "wf_db demo_db"
  by (simp add: wf_db_parts demo_db_def demo_user_def keyed_def oidc_key_def max_int64_def)

lemma demo_rest: "at_rest demo_world demo_world" "open_env demo_app demo_ctx demo_world = None"
  by (simp_all add: at_rest_def same_frame_def demo_world_def demo_wf open_env_def txEnvFromCtx_def
     demo_ctx_def FromCtx_def demo_app_def)

lemma demo_ids [simp]:
  "user_ids (w_committed demo_world) = {1, 2, 3}"
  "admin_ids (w_committed demo_world) = {1, 2}"
  "banned_ids (w_committed demo_world) = {3}"
  by (auto simp: demo_world_def demo_db_def demo_user_def id_sets)

lemma demo_base: "base_app demo_app"
  by (simp add: base_app_def demo_app_def db_New_def NewWriteQueries_def)

end
