(* ===== verification/Outcomes.thy ===== *)
theory Outcomes
  imports Demo
begin

text \<open>
  Properties of the commands: what each answers and what it leaves in the database, on every
  branch, whatever the driver does; and what a history of commands keeps.
\<close>

section \<open>At rest, with no transaction open\<close>

definition idle :: "app \<Rightarrow> Ctx \<Rightarrow> World \<Rightarrow> bool" where
  "idle a ctx w \<longleftrightarrow> w_tx w = None \<and> wf_db (w_committed w) \<and> open_env a ctx w = None"

lemma idleD: "idle a ctx w \<Longrightarrow> at_rest w w" "idle a ctx w \<Longrightarrow> open_env a ctx w = None"
  by (simp_all add: idle_def at_rest_def same_frame_def)

lemma demo_idle: "idle demo_app demo_ctx demo_world"
  using demo_rest by (simp add: idle_def at_rest_def)

text \<open>What every command keeps, whatever its answer: no transaction is left open, no call waited
  for the write connection, requests are as they were, the schema's constraints hold.\<close>

lemma at_restD:
  assumes "at_rest w w'"
  shows "w_tx w' = None" "w_stalls w' = w_stalls w" "w_requests w' = w_requests w"
    "wf_db (w_committed w')"
  using assms by (simp_all add: at_rest_def same_frame_def)

section \<open>Each command\<close>

text \<open>
  C1. \<open>BanUser\<close> is one atomic step. It answers with the payload exactly when there is no reason
  to refuse, and then the ban has the trimmed reason, one notice is queued and no other table
  changes; a refusal or an error leaves the committed database as it was. On a healthy
  connection the only error is the foreign key on the banning admin. No transaction stays open.
\<close>

theorem BanUser_outcome:
  assumes "idle a ctx w" and "run (BanUser a ctx input) w = (r, w')"
  shows "at_rest w w' \<and>
    (let uid = BanUserInput_UserID input; reason = TrimSpace (BanUserInput_Reason input);
         v = w_committed w; v' = w_committed w';
         refusal = ban_refusal (lib_ValidateStruct (app_libs a)) (actor_of ctx w) input v
     in case r of
          Inr (Payload p) \<Rightarrow> refusal = None \<and> p = \<lparr>BanUserPayload_UserID = uid\<rparr>
            \<and> ban_effect (ban_notice (app_libs a) w uid) uid reason v v'
        | Inr (Rejected p) \<Rightarrow> refusal = Some p \<and> v' = v
        | Inl e \<Rightarrow> v' = v \<and> (healthy_world w \<longrightarrow> refusal = None \<and> ban_blocked (actor_of ctx w) uid v))"
  using pool.wpD [OF BanUser_wp [OF idleD(2) [OF assms(1)]] idleD(1) [OF assms(1)] assms(2)]
  by (auto simp: Let_def split: sum.splits OrErrorPayload.splits)

definition ban_bob :: BanUserInput where
  "ban_bob = \<lparr>BanUserInput_UserID = 2, BanUserInput_Reason = '' rude ''\<rparr>"

lemma ban_bob_answer:
  "fst (run (BanUser demo_app demo_ctx ban_bob) demo_world)
   = Inr (Payload \<lparr>BanUserPayload_UserID = 2\<rparr>)"
  by code_simp

theorem BanUser_outcome_witness:
  "banned_ids (w_committed (snd (run (BanUser demo_app demo_ctx ban_bob) demo_world))) = {2, 3}"
  using BanUser_outcome [OF demo_idle, of ban_bob, OF surjective_pairing, unfolded ban_bob_answer]
  by (auto simp: Let_def ban_effect_def ban_bob_def)

text \<open>
  C2. \<open>RemoveAdmin\<close> is one atomic step. It refuses to remove the caller and the last admin;
  otherwise the admin is gone and nothing else changes, and removing one who is no admin
  answers the same and changes nothing. On a healthy connection it fails only while a ban made
  by that admin exists.
\<close>

theorem RemoveAdmin_outcome:
  assumes "idle a ctx w" and "run (RemoveAdmin a ctx input) w = (r, w')"
  shows "at_rest w w' \<and>
    (let uid = RemoveAdminInput_UserID input; v = w_committed w; v' = w_committed w';
         refusal = remove_refusal (lib_ValidateStruct (app_libs a)) (actor_of ctx w) input v
     in case r of
          Inr (Payload p) \<Rightarrow> refusal = None \<and> p = \<lparr>RemoveAdminPayload_UserID = uid\<rparr>
            \<and> remove_effect uid v v'
        | Inr (Rejected p) \<Rightarrow> refusal = Some p \<and> v' = v
        | Inl e \<Rightarrow> v' = v \<and> (healthy_world w \<longrightarrow> refusal = None \<and> remove_blocked uid v))"
  using pool.wpD [OF RemoveAdmin_wp [OF idleD(2) [OF assms(1)]] idleD(1) [OF assms(1)] assms(2)]
  by (auto simp: Let_def split: sum.splits OrErrorPayload.splits)

lemma remove_bob_answer:
  "fst (run (RemoveAdmin demo_app demo_ctx \<lparr>RemoveAdminInput_UserID = 2\<rparr>) demo_world)
   = Inr (Payload \<lparr>RemoveAdminPayload_UserID = 2\<rparr>)"
  by code_simp

theorem RemoveAdmin_outcome_witness:
  "admin_ids (w_committed (snd (run (RemoveAdmin demo_app demo_ctx \<lparr>RemoveAdminInput_UserID = 2\<rparr>)
      demo_world))) = {1}"
  using RemoveAdmin_outcome [OF demo_idle, of "\<lparr>RemoveAdminInput_UserID = 2\<rparr>", OF surjective_pairing,
      unfolded remove_bob_answer]
  by (simp add: Let_def remove_effect_def insert_Diff_if)

text \<open>
  C3. \<open>MakeAdmin\<close> is one atomic step. It refuses a user who does not exist and one who is
  banned; otherwise the user is an admin and nothing else changes, and one who already was
  keeps the row. On a healthy connection it never fails.
\<close>

theorem MakeAdmin_outcome:
  assumes "idle a ctx w" and "run (MakeAdmin a ctx input) w = (r, w')"
  shows "at_rest w w' \<and>
    (let uid = MakeAdminInput_UserID input; v = w_committed w; v' = w_committed w';
         refusal = make_refusal (lib_ValidateStruct (app_libs a)) input v
     in case r of
          Inr (Payload p) \<Rightarrow> refusal = None \<and> p = \<lparr>MakeAdminPayload_UserID = uid\<rparr>
            \<and> make_effect uid v v'
        | Inr (Rejected p) \<Rightarrow> refusal = Some p \<and> v' = v
        | Inl e \<Rightarrow> v' = v \<and> \<not> healthy_world w)"
  using pool.wpD [OF MakeAdmin_wp [OF idleD(2) [OF assms(1)]] idleD(1) [OF assms(1)] assms(2)]
  by (auto simp: Let_def split: sum.splits OrErrorPayload.splits)

lemma make_eve_answer:
  "fst (run (MakeAdmin demo_app demo_ctx \<lparr>MakeAdminInput_UserID = 3\<rparr>) demo_world)
   = Inr (Rejected (error_payload ''user is banned''))"
  by code_simp

theorem MakeAdmin_outcome_witness:
  "admin_ids (w_committed (snd (run (MakeAdmin demo_app demo_ctx \<lparr>MakeAdminInput_UserID = 3\<rparr>)
      demo_world))) = {1, 2}"
  using MakeAdmin_outcome [OF demo_idle, of "\<lparr>MakeAdminInput_UserID = 3\<rparr>", OF surjective_pairing,
      unfolded make_eve_answer]
  by (simp add: Let_def insert_Diff_if)

text \<open>
  C4. \<open>UnbanUser\<close> is one atomic step. It refuses only invalid input; otherwise the user is not
  banned and nothing else changes, banned before or not. On a healthy connection it never
  fails.
\<close>

theorem UnbanUser_outcome:
  assumes "idle a ctx w" and "run (UnbanUser a ctx input) w = (r, w')"
  shows "at_rest w w' \<and>
    (let uid = UnbanUserInput_UserID input; v = w_committed w; v' = w_committed w';
         refusal = unbanuser_validate (lib_ValidateStruct (app_libs a)) input
     in case r of
          Inr (Payload p) \<Rightarrow> refusal = None \<and> p = \<lparr>UnbanUserPayload_UserID = uid\<rparr>
            \<and> unban_effect uid v v'
        | Inr (Rejected p) \<Rightarrow> refusal = Some p \<and> v' = v
        | Inl e \<Rightarrow> v' = v \<and> \<not> healthy_world w)"
  using pool.wpD [OF UnbanUser_wp [OF idleD(2) [OF assms(1)]] idleD(1) [OF assms(1)] assms(2)]
  by (auto simp: Let_def split: sum.splits OrErrorPayload.splits)

lemma unban_eve_answer:
  "fst (run (UnbanUser demo_app demo_ctx \<lparr>UnbanUserInput_UserID = 3\<rparr>) demo_world)
   = Inr (Payload \<lparr>UnbanUserPayload_UserID = 3\<rparr>)"
  by code_simp

theorem UnbanUser_outcome_witness:
  "banned_ids (w_committed (snd (run (UnbanUser demo_app demo_ctx \<lparr>UnbanUserInput_UserID = 3\<rparr>)
      demo_world))) = {}"
  using UnbanUser_outcome [OF demo_idle, of "\<lparr>UnbanUserInput_UserID = 3\<rparr>", OF surjective_pairing,
      unfolded unban_eve_answer]
  by (simp add: Let_def unban_effect_def insert_Diff_if)

end
