(* ===== verification/AuditPages.thy ===== *)
theory AuditPages
  imports Outcomes
begin

text \<open>
  The audit log as its readers see it: a page of internal/case/listauditlog is a window of the
  log, newest first, and following the cursors from the first page reads the whole log.
\<close>

section \<open>Descending order\<close>

lemma insort_last: "(\<And>y. y \<in> set ys \<Longrightarrow> f y < f x) \<Longrightarrow> insort_key f x ys = ys @ [x]"
proof (induction ys)
  case (Cons a ys)
  from Cons.prems [of a] have "\<not> f x \<le> f a" by (simp add: not_le)
  with Cons show ?case by simp
qed simp

lemma sort_descending: "keyed k rs \<Longrightarrow> sort_key (\<lambda>r. - k r) rs = rev rs"
  by (induction rs) (auto simp: keyed_Cons intro!: insort_last)

lemma keyed_append: "keyed k (xs @ ys) \<Longrightarrow> x \<in> set xs \<Longrightarrow> y \<in> set ys \<Longrightarrow> k x < k y"
  by (induction xs) (auto simp: keyed_Cons)

text \<open>Below the last row of a window is the rest.\<close>

lemma below_window:
  assumes "keyed k rs" "rev rs = xs @ [c] @ ys"
  shows "filter (\<lambda>r. k r < k c) rs = rev ys"
proof -
  have rs: "rs = rev ys @ c # rev xs" using arg_cong [OF assms(2), of rev] by simp
  have "k y < k c" if "y \<in> set ys" for y
    using keyed_append [of k "rev ys" "c # rev xs" y c] assms(1) that by (simp add: rs)
  moreover have "k c < k x" if "x \<in> set xs" for x
    using keyed_append [of k "rev ys @ [c]" "rev xs" c x] assms(1) that by (simp add: rs)
  ultimately show ?thesis
    by (simp add: rs filter_True filter_False not_less less_imp_le)
qed

section \<open>A page\<close>

definition log_below :: "int64 \<Rightarrow> Database \<Rightarrow> audit_log_row list" where
  "log_below before v =
     rev (filter (\<lambda>r. l_id r < before \<or> before = 0) (db_audit_log v))"

definition cursor :: "int64 option \<Rightarrow> int64" where
  "cursor before = (case before of None \<Rightarrow> 0 | Some b \<Rightarrow> b)"

lemma page_limit_bounds: "1 \<le> page_limit n" "page_limit n \<le> maxLimit"
  by (auto simp: page_limit_def defaultLimit_def maxLimit_def Let_def)

lemma page_limit_nat:
  "nat (page_limit limit) = (if limit \<le> 0 then 50 else if 500 < limit then 500 else nat limit)"
  by (simp add: page_limit_def defaultLimit_def maxLimit_def Let_def)

lemma audit_page_eq:
  fixes before :: "int64 option" and limit :: int64
  assumes "wf_db v"
  defines "window \<equiv> log_below (cursor before) v" and "n \<equiv> nat (page_limit limit)"
  shows "audit_page \<lparr>listauditlog_Limit = limit, listauditlog_Before = before\<rparr> v =
    \<lparr>AuditLogConnection_TotalCount = int (length (db_audit_log v)),
     AuditLogConnection_Nodes = map scan_AuditLog (take n window),
     AuditLogConnection_PageInfo =
       \<lparr>PageInfo_HasNextPage = n < length window,
        PageInfo_EndCursor =
          (if window = [] then None else Some (l_id (last (take n window))))\<rparr>\<rparr>"
proof -
  have n: "page_limit limit = int n" "0 < n"
    using page_limit_bounds [of limit] by (simp_all add: n_def)
  have rows: "sql_DBListAuditLog \<lparr>ListAuditLogParams_Before = cursor before,
      ListAuditLogParams_PageLimit = page_limit limit + 1\<rparr> v = map scan_AuditLog (take (Suc n) window)"
    using wf_dbD(4) [OF assms(1)]
    by (simp add: sql_DBListAuditLog_def sql_limit_def sort_descending keyed_filter n window_def
        log_below_def nat_add_distrib)
  have "AuditLog_ID (scan_AuditLog r) = l_id r" for r by (simp add: scan_AuditLog_def)
  then show ?thesis
    unfolding audit_page_def Let_def listauditlog_Input.simps cursor_def [symmetric] rows
    using n(2)
    by (simp add: page_of_def Let_def n(1) sql_DBCountAuditLog_def take_map min_def last_map)
qed

text \<open>
  C7. \<open>ListAuditLog\<close> reads and changes nothing. It answers with the newest rows below the
  cursor (all rows, without one): exactly as many as were requested, while there are so many, but
  never more than 500, and 50 when no positive number was requested; whether more follow; the
  identifier to go on from; and the size of the log. It fails only on an unhealthy connection.
\<close>

theorem ListAuditLog_outcome:
  assumes "idle a ctx w" "base_app a" and "run (ListAuditLog a ctx limit before) w = (r, w')"
  shows "at_rest w w' \<and> w_committed w' = w_committed w \<and>
    (let v = w_committed w; window = log_below (cursor before) v;
         n = (if limit \<le> 0 then 50 else if 500 < limit then 500 else nat limit)
     in case r of
          Inl e \<Rightarrow> \<not> healthy_world w
        | Inr page \<Rightarrow>
            AuditLogConnection_Nodes page = map scan_AuditLog (take n window)
            \<and> AuditLogConnection_TotalCount page = int (length (db_audit_log v))
            \<and> (PageInfo_HasNextPage (AuditLogConnection_PageInfo page) \<longleftrightarrow> n < length window)
            \<and> PageInfo_EndCursor (AuditLogConnection_PageInfo page)
                = (if window = [] then None else Some (l_id (last (take n window)))))"
proof -
  note page = list_pool.Resolve_pages [of w ctx a "\<lparr>listauditlog_Limit = limit, listauditlog_Before = before\<rparr>"
      "w_committed w", unfolded log_pool_base [OF assms(2)]]
  have "wf_db (w_committed w)" using assms(1) by (simp add: idle_def)
  then show ?thesis
    using pool.wpD [OF page idleD(1) [OF assms(1)] assms(3) [unfolded ListAuditLog_def]]
    by (auto simp: audit_page_eq Let_def page_limit_nat)
qed

theorem ListAuditLog_outcome_witness:
  "case fst (run (ListAuditLog demo_app demo_ctx 1 None) demo_world) of
     Inl e \<Rightarrow> False
   | Inr page \<Rightarrow> length (AuditLogConnection_Nodes page) = min 1 (length (db_audit_log demo_db))"
proof -
  have demo: "healthy_world demo_world" "w_committed demo_world = demo_db"
    "length (log_below (cursor None) demo_db) = length (db_audit_log demo_db)"
    by (simp_all add: healthy_world_def demo_world_def log_below_def cursor_def)
  with ListAuditLog_outcome [OF demo_idle demo_base, of 1 None, OF surjective_pairing] show ?thesis
    by (cases "fst (run (ListAuditLog demo_app demo_ctx 1 None) demo_world)") (simp_all add: Let_def)
qed

section \<open>All pages\<close>

text \<open>A reader who follows the end cursor while there is a next page, for so many pages.\<close>

fun read_pages :: "app \<Rightarrow> Ctx \<Rightarrow> int64 \<Rightarrow> nat \<Rightarrow> int64 option \<Rightarrow> World \<Rightarrow> AuditLog list" where
  "read_pages a ctx limit 0 before w = []"
| "read_pages a ctx limit (Suc k) before w =
     (case run (ListAuditLog a ctx limit before) w of
        (Inl e, w') \<Rightarrow> []
      | (Inr page, w') \<Rightarrow>
          AuditLogConnection_Nodes page
          @ (if PageInfo_HasNextPage (AuditLogConnection_PageInfo page)
             then read_pages a ctx limit k (PageInfo_EndCursor (AuditLogConnection_PageInfo page)) w'
             else []))"

lemma idle_frame: "idle a ctx w \<Longrightarrow> at_rest w w' \<Longrightarrow> idle a ctx w'"
  using open_env_frame by (auto simp: idle_def at_rest_def)

lemma ListAuditLog_page:
  assumes "idle a ctx w" "base_app a" "healthy_world w"
  obtains w' where "run (ListAuditLog a ctx limit before) w =
      (Inr (audit_page \<lparr>listauditlog_Limit = limit, listauditlog_Before = before\<rparr> (w_committed w)), w')"
    "idle a ctx w'" "healthy_world w'" "w_committed w' = w_committed w"
proof -
  note page = list_pool.Resolve_pages [of w ctx a "\<lparr>listauditlog_Limit = limit, listauditlog_Before = before\<rparr>"
      "w_committed w", unfolded log_pool_base [OF assms(2)]]
  obtain r w' where run: "run (ListAuditLog a ctx limit before) w = (r, w')" by force
  note step = pool.wpD [OF page idleD(1) [OF assms(1)] run [unfolded ListAuditLog_def]]
  from that [of w'] run step assms idle_frame healthy_frame [of w w'] show thesis
    by (auto simp: at_rest_def)
qed

lemma log_below_next:
  assumes "wf_db v" "n < length (log_below before v)" "0 < n"
  shows "log_below (l_id (last (take n (log_below before v)))) v = drop n (log_below before v)"
proof -
  let ?rows = "filter (\<lambda>r. l_id r < before \<or> before = 0) (db_audit_log v)"
  let ?L = "log_below before v"
  let ?c = "last (take n ?L)"
  have "take n ?L \<noteq> []" using assms(2,3) by auto
  then have "butlast (take n ?L) @ [?c] = take n ?L" by simp
  then have split: "rev ?rows = butlast (take n ?L) @ [?c] @ drop n ?L"
    by (metis append_assoc append_take_drop_id log_below_def)
  have c: "?c \<in> set ?rows"
    using split by (metis in_set_conv_decomp append_Cons append_Nil set_rev)
  then have "1 \<le> l_id ?c" using assms(1) by (auto simp: wf_db_parts)
  have "filter (\<lambda>r. l_id r < l_id ?c) ?rows = rev (drop n ?L)"
    by (rule below_window [OF keyed_filter [OF wf_dbD(4) [OF assms(1)]] split])
  moreover have "filter (\<lambda>r. l_id r < l_id ?c \<or> l_id ?c = 0) (db_audit_log v)
      = filter (\<lambda>r. l_id r < l_id ?c) ?rows"
    using c \<open>1 \<le> l_id ?c\<close> by (auto intro!: filter_cong)
  ultimately show ?thesis by (simp add: log_below_def)
qed

lemma read_pages_below:
  assumes "idle a ctx w" "base_app a" "healthy_world w" "w_committed w = v"
    and "length (log_below (cursor before) v) < k"
  shows "read_pages a ctx limit k before w = map scan_AuditLog (log_below (cursor before) v)"
  using assms
proof (induction k arbitrary: before w)
  case (Suc k)
  let ?L = "log_below (cursor before) v" and ?n = "nat (page_limit limit)"
  have wf: "wf_db v" using Suc.prems(1,4) by (simp add: idle_def)
  have n: "0 < ?n" using page_limit_bounds [of limit] by simp
  from ListAuditLog_page [OF Suc.prems(1-3), of limit before] obtain w' where
    run: "run (ListAuditLog a ctx limit before) w =
      (Inr (audit_page \<lparr>listauditlog_Limit = limit, listauditlog_Before = before\<rparr> v), w')"
    and w': "idle a ctx w'" "healthy_world w'" "w_committed w' = v"
    using Suc.prems(4) by auto
  show ?case
  proof (cases "?n < length ?L")
    case False
    then show ?thesis by (simp add: run audit_page_eq [OF wf])
  next
    case True
    let ?c = "Some (l_id (last (take ?n ?L)))"
    have below: "log_below (cursor ?c) v = drop ?n ?L"
      using log_below_next [OF wf True n] by (simp add: cursor_def)
    have "length (log_below (cursor ?c) v) < k" unfolding below using Suc.prems(5) n True by simp
    from Suc.IH [OF w'(1) Suc.prems(2) w'(2,3) this]
    have "read_pages a ctx limit k ?c w' = map scan_AuditLog (drop ?n ?L)" unfolding below .
    moreover have "?L \<noteq> []" using True by auto
    ultimately show ?thesis
      using True by (simp add: run audit_page_eq [OF wf] flip: map_append)
  qed
qed simp

text \<open>
  C8. Following the cursors of \<open>ListAuditLog\<close> from the first page reads the whole audit log,
  newest first, every row once, whatever page size is asked for.
\<close>

theorem read_pages_whole_log:
  assumes "idle a ctx w" "base_app a" "healthy_world w" "length (db_audit_log (w_committed w)) < k"
  shows "read_pages a ctx limit k None w = map scan_AuditLog (rev (db_audit_log (w_committed w)))"
  using read_pages_below [OF assms(1-3) refl, of None k limit] assms(4)
  by (simp add: cursor_def log_below_def)

theorem read_pages_whole_log_witness:
  "map AuditLog_ID (read_pages demo_app demo_ctx 1 3 None demo_world) = [2, 1]"
  using read_pages_whole_log [OF demo_idle demo_base, of 3 1]
  by (simp add: healthy_world_def demo_world_def demo_db_def scan_AuditLog_def)

end
