(* ===== verification/Panel.thy ===== *)
theory Panel
  imports Outcomes
begin

text \<open>
  The remaining commands, and histories: what any sequence of commands, each by an admin who is
  not banned, and of sign-ins and sweeps keeps of the panel.
\<close>

text \<open>
  C5. \<open>SignInByOIDC\<close> is one atomic step. The user of the issuer and subject is created, or has
  the address, name and last sign-in replaced; the answer is that user and whether the user is
  now an admin. The only admin it ever adds is this user, when the address is the configured
  one and there is no admin at all. It fails, changing nothing, for an identity without issuer,
  subject or address, when no row number is left, or on an unhealthy connection.
\<close>

theorem SignInByOIDC_outcome:
  assumes "idle a ctx w" and "run (SignInByOIDC a ctx input) w = (r, w')"
  shows "at_rest w w' \<and>
    (let ul = lib_unicode_lower (app_libs a); v = w_committed w; v' = w_committed w'
     in case r of
          Inr res \<Rightarrow> \<not> sign_in_incomplete ul input
            \<and> (\<exists>now. signed_in ul (BootstrapAdminEmail a) input now v res v')
        | Inl e \<Rightarrow> v' = v
            \<and> (healthy_world w \<longrightarrow> sign_in_incomplete ul input \<or> max_int64 \<le> seq_users v))"
  using pool.wpD [OF SignInByOIDC_wp [OF idleD(2) [OF assms(1)]] idleD(1) [OF assms(1)] assms(2)]
  by (simp add: Let_def)

definition sign_in_root :: signinbyoidc_Input where
  "sign_in_root =
     \<lparr>SignInInput_Issuer = ''https://dex.example.com'', SignInInput_Subject = ''root'',
      SignInInput_Email = ''Root@Example.com'', SignInInput_Name = ''Root'',
      SignInInput_IssuedAt = 5000000000\<rparr>"

definition first_world :: World where
  "first_world = demo_world\<lparr>w_committed := empty_db\<rparr>"

lemma first_idle: "idle demo_app demo_ctx first_world"
proof -
  have "same_frame demo_world first_world" by (simp add: same_frame_def first_world_def)
  from open_env_frame [OF this] demo_idle show ?thesis
    by (simp add: idle_def first_world_def wf_empty_db)
qed

lemma sign_in_root_answer:
  "map_sum id (\<lambda>res. (User_ID (SignInResult_User res), User_Email (SignInResult_User res),
      SignInResult_IsAdmin res)) (fst (run (SignInByOIDC demo_app demo_ctx sign_in_root) first_world))
   = Inr (1, ''root@example.com'', True)"
  by code_simp

theorem SignInByOIDC_outcome_witness:
  "admin_ids (w_committed (snd (run (SignInByOIDC demo_app demo_ctx sign_in_root) first_world))) = {1}"
proof -
  obtain r w' where run: "run (SignInByOIDC demo_app demo_ctx sign_in_root) first_world = (r, w')"
    by force
  obtain res where r: "r = Inr res" and answer: "User_ID (SignInResult_User res) = 1"
    "SignInResult_IsAdmin res"
    using sign_in_root_answer run by (cases r) auto
  have none: "admin_ids (w_committed first_world) = {}"
    by (simp add: first_world_def empty_db_def admin_ids_def)
  have "User_ID (scan_User u) = u_id u" for u by (simp add: scan_User_def)
  with SignInByOIDC_outcome [OF first_idle run] r answer none show ?thesis
    unfolding run by (auto simp: Let_def signed_in_def split: if_splits)
qed

text \<open>
  C6. The retention sweep deletes exactly the audit rows older than the retention period at
  some reading of the clock during the sweep, and nothing else. Without a retention it deletes
  nothing. It fails, changing nothing, only on an unhealthy connection.
\<close>

theorem purge_job_outcome:
  assumes "idle a ctx w" and "run (purge_job a ctx) w = (r, w')"
  shows "at_rest w w' \<and>
    (let v = w_committed w; v' = w_committed w'
     in case r of
          Inl e \<Rightarrow> v' = v \<and> \<not> healthy_world w
        | Inr _ \<Rightarrow>
            if AuditRetention a \<le> 0 then v' = v
            else \<exists>k \<ge> w_ticks w. v' = v\<lparr>db_audit_log :=
              filter (\<lambda>r. Unix (w_clock w k - AuditRetention a) \<le> l_created_at r) (db_audit_log v)\<rparr>)"
  using pool.wpD [OF purge_wp [OF idleD(2) [OF assms(1)]] idleD(1) [OF assms(1)] assms(2)]
  by (auto simp: Let_def purged_def not_less split: sum.splits)

lemma purge_demo_answer: "fst (run (purge_job demo_app demo_ctx) demo_world) = Inr ()"
  by code_simp

theorem purge_job_outcome_witness:
  "map l_id (db_audit_log (w_committed (snd (run (purge_job demo_app demo_ctx) demo_world)))) = [2]"
  using purge_job_outcome [OF demo_idle, OF surjective_pairing, unfolded purge_demo_answer]
  by (auto simp: Let_def AuditRetention_def app_config_def demo_app_def demo_config_def Unix_def
      ns_per_s_def demo_world_def demo_db_def)

section \<open>Nesting\<close>

text \<open>
  C9. A transaction is never opened inside another: a call that finds one by its own
  environment, by the context, or by the request of the context answers
  \<open>ErrNestedTransaction\<close> at once. It runs nothing and does not wait for the connection.
\<close>

theorem WithTransaction_nested:
  assumes "app_currentTx b \<noteq> None
    \<or> (\<exists>e. ctx_txEnv ctx = Some e \<and> app_currentTx e \<noteq> None)
    \<or> (\<exists>n req. ctx_request ctx = Some n \<and> w_requests w n = Some req
         \<and> app_currentTx (Request_Env req) \<noteq> None)"
  shows "run (WithTransaction b ctx fn) w = (Inl (Sentinel ErrNestedTransaction), w)"
  using assms
  by (auto simp: WithTransaction_def txEnvFromCtx_def FromCtx_def split: option.splits)

theorem WithTransaction_nested_witness:
  "run (BanUser demo_app (demo_ctx\<lparr>ctx_txEnv := Some (withTxQueries demo_app 7)\<rparr>) ban_bob) demo_world
   = (Inl (Sentinel ErrNestedTransaction), demo_world)"
  unfolding BanUser_def runInTx_def
  by (rule WithTransaction_nested) (simp add: withTxQueries_def Let_def)

section \<open>Histories\<close>

datatype panel_command =
    CmdBan BanUserInput | CmdUnban UnbanUserInput | CmdMake MakeAdminInput
  | CmdRemove RemoveAdminInput | CmdSignIn signinbyoidc_Input | CmdPurge

fun perform :: "app \<Rightarrow> Ctx \<Rightarrow> panel_command \<Rightarrow> World \<Rightarrow> World" where
  "perform a ctx (CmdBan i) w = snd (run (BanUser a ctx i) w)"
| "perform a ctx (CmdUnban i) w = snd (run (UnbanUser a ctx i) w)"
| "perform a ctx (CmdMake i) w = snd (run (MakeAdmin a ctx i) w)"
| "perform a ctx (CmdRemove i) w = snd (run (RemoveAdmin a ctx i) w)"
| "perform a ctx (CmdSignIn i) w = snd (run (SignInByOIDC a ctx i) w)"
| "perform a ctx CmdPurge w = snd (run (purge_job a ctx) w)"

definition usable_admins :: "Database \<Rightarrow> int set" where
  "usable_admins v = admin_ids v - banned_ids v"

text \<open>What the admin namespace and the ban check let through: a command is run for an admin who
  is not banned. Sign-ins and sweeps have no actor.\<close>

definition admitted :: "Ctx \<Rightarrow> panel_command \<Rightarrow> World \<Rightarrow> bool" where
  "admitted ctx c w \<longleftrightarrow>
     (case c of CmdSignIn _ \<Rightarrow> True | CmdPurge \<Rightarrow> True
      | _ \<Rightarrow> \<exists>x \<in> usable_admins (w_committed w). actor_of ctx w = Some x)"

text \<open>A step runs one admitted command, or lets requests come and go. Commands do not overlap:
  each holds the one write connection from its first statement to its commit.\<close>

inductive history :: "app \<Rightarrow> World \<Rightarrow> World \<Rightarrow> bool" for a where
  start: "history a w w"
| command: "history a w w1 \<Longrightarrow> open_env a ctx w1 = None \<Longrightarrow> admitted ctx c w1
    \<Longrightarrow> history a w (perform a ctx c w1)"
| requests: "history a w w1 \<Longrightarrow> history a w (w1\<lparr>w_requests := rs\<rparr>)"

lemma reasons_given_iff:
  "wf_db v \<Longrightarrow> reasons_given v \<longleftrightarrow> (\<forall>uid \<in> banned_ids v. ban_reason v uid \<noteq> '''')"
  using row_of_unique [OF wf_dbD(3)]
  by (fastforce simp: reasons_given_def banned_ids_def keys_def ban_reason_def ban_reason_column_def)

lemma TrimSpace_accepted:
  assumes "ozzo_documented V" "ban_refusal V actor input v = None"
  shows "TrimSpace (BanUserInput_Reason input) \<noteq> ''''"
proof -
  let ?fs = "[Field ''userId'' (VInt64 (BanUserInput_UserID input)) [Required, Min 1],
    Field ''reason'' (VString (TrimSpace (BanUserInput_Reason input))) [Required, Length 1 500]]"
  have "NewOzzoError (V ?fs) = None"
    using assms(2) by (auto simp: ban_refusal_def banuser_validate_def Let_def split: option.splits)
  then show ?thesis
    using validated [OF assms(1), of ?fs] by (simp add: field_holds_def)
qed

text \<open>One step: the invariants of the panel.\<close>

definition sound_panel :: "World \<Rightarrow> bool" where
  "sound_panel w \<longleftrightarrow> w_tx w = None \<and> wf_db (w_committed w) \<and> reasons_given (w_committed w)"

lemma signed_in_frame:
  assumes "signed_in ul conf input now v res v'"
  shows "banned_ids v' = banned_ids v" "ban_reason v' = ban_reason v"
    "admin_ids v \<noteq> {} \<Longrightarrow> admin_ids v' = admin_ids v"
proof -
  have v': "v' = (users_after (sign_in_params ul input now) v)\<lparr>db_admins := db_admins v'\<rparr>"
    using assms by (simp add: signed_in_def Let_def)
  show "banned_ids v' = banned_ids v" "ban_reason v' = ban_reason v"
    by (subst v', simp add: users_after_def banned_ids_def ban_reason_def fun_eq_iff)+
  show "admin_ids v' = admin_ids v" if "admin_ids v \<noteq> {}"
    using assms that by (auto simp: signed_in_def Let_def bootstraps_def)
qed

lemma ban_effect_admins: "ban_effect P uid reason v v' \<Longrightarrow> admin_ids v' = admin_ids v"
proof -
  assume "ban_effect P uid reason v v'"
  then obtain B G where "v' = v\<lparr>db_user_bans := B, db_goqite := G\<rparr>" by (auto simp: ban_effect_def)
  then show ?thesis by (simp add: admin_ids_def)
qed

lemma unban_effect_admins: "unban_effect uid v v' \<Longrightarrow> admin_ids v' = admin_ids v"
proof -
  assume "unban_effect uid v v'"
  then obtain B where "v' = v\<lparr>db_user_bans := B\<rparr>" by (auto simp: unban_effect_def)
  then show ?thesis by (simp add: admin_ids_def)
qed

lemma admins_change_bans:
  assumes "make_effect uid v v' \<or> remove_effect uid v v'"
  shows "banned_ids v' = banned_ids v" "ban_reason v' = ban_reason v"
proof -
  from assms obtain A where "v' = v\<lparr>db_admins := A\<rparr>" by (auto simp: make_effect_def remove_effect_def)
  then show "banned_ids v' = banned_ids v" "ban_reason v' = ban_reason v"
    by (simp_all add: banned_ids_def ban_reason_def fun_eq_iff)
qed

lemma purged_frame:
  "banned_ids (purged t v) = banned_ids v" "ban_reason (purged t v) = ban_reason v"
  "admin_ids (purged t v) = admin_ids v"
  by (simp_all add: purged_def banned_ids_def admin_ids_def ban_reason_def fun_eq_iff)

text \<open>What a command may do to the admins and the bans, for an actor.\<close>

definition kept :: "int64 option \<Rightarrow> Database \<Rightarrow> Database \<Rightarrow> bool" where
  "kept actor v v' \<longleftrightarrow>
     (\<forall>uid \<in> banned_ids v'. uid \<in> banned_ids v \<and> ban_reason v' uid = ban_reason v uid
        \<or> ban_reason v' uid \<noteq> '''')
     \<and> (\<forall>x \<in> usable_admins v. actor = Some x \<or> actor = None \<longrightarrow> x \<in> usable_admins v')"

lemma kept_refl [simp]: "kept actor v v"
  by (simp add: kept_def)

lemma kept_decides:
  assumes "decides h refusal q eff blocked v r v'" "\<forall>e. r = Inl e \<longrightarrow> v' = v"
    and "refusal = None \<Longrightarrow> eff v' \<Longrightarrow> kept actor v v'"
  shows "kept actor v v'"
  using assms by (auto simp: decides_def split: sum.splits OrErrorPayload.splits)

lemma kept_ban:
  assumes "ban_refusal V actor input v = None" "ozzo_documented V"
    and "ban_effect P (BanUserInput_UserID input) (TrimSpace (BanUserInput_Reason input)) v v'"
    and "actor \<noteq> None"
  shows "kept actor v v'"
proof -
  have "actor \<noteq> Some (BanUserInput_UserID input)"
    using assms(1) by (auto simp: ban_refusal_def Let_def split: option.splits)
  with assms(3,4) TrimSpace_accepted [OF assms(2,1)] ban_effect_admins [OF assms(3)] show ?thesis
    by (auto simp: kept_def usable_admins_def ban_effect_def)
qed

lemma kept_unban: "unban_effect uid v v' \<Longrightarrow> kept actor v v'"
  using unban_effect_admins by (auto simp: kept_def usable_admins_def unban_effect_def)

lemma kept_make: "make_effect uid v v' \<Longrightarrow> kept actor v v'"
proof -
  assume make: "make_effect uid v v'"
  then have "admin_ids v' = insert uid (admin_ids v)" by (simp add: make_effect_def)
  then show ?thesis
    by (simp add: kept_def usable_admins_def admins_change_bans [OF disjI1, OF make])
qed

lemma kept_remove:
  assumes "remove_refusal V actor input v = None" "actor \<noteq> None"
    and "remove_effect (RemoveAdminInput_UserID input) v v'"
  shows "kept actor v v'"
proof -
  have "actor \<noteq> Some (RemoveAdminInput_UserID input)"
    using assms(1) by (auto simp: remove_refusal_def Let_def split: option.splits)
  moreover have "admin_ids v' = admin_ids v - {RemoveAdminInput_UserID input}"
    using assms(3) by (simp add: remove_effect_def)
  ultimately show ?thesis
    using assms(2) by (auto simp: kept_def usable_admins_def admins_change_bans [OF disjI2, OF assms(3)])
qed

lemma perform_kept:
  assumes "idle a ctx w" "admitted ctx c w" "ozzo_documented (lib_ValidateStruct (app_libs a))"
  shows "at_rest w (perform a ctx c w)"
    and "\<exists>actor. (actor = None \<or> (\<exists>x \<in> usable_admins (w_committed w). actor = Some x))
           \<and> kept actor (w_committed w) (w_committed (perform a ctx c w))"
proof -
  note free = idleD(2) [OF assms(1)] and rest = idleD(1) [OF assms(1)]
  let ?v = "w_committed w" and ?w' = "perform a ctx c w"
  have "at_rest w ?w' \<and> (\<exists>actor. (actor = None \<or> (\<exists>x \<in> usable_admins ?v. actor = Some x))
           \<and> kept actor ?v (w_committed ?w'))"
  proof (cases c)
    case (CmdBan i)
    with assms(2) have actor: "\<exists>x \<in> usable_admins ?v. actor_of ctx w = Some x"
      by (simp add: admitted_def)
    note step = pool.wpD [OF BanUser_wp [OF free] rest surjective_pairing, of i]
    from actor step(1) kept_decides [OF conjunct1 [OF step(2)] conjunct2 [OF step(2)] kept_ban]
      assms(3) CmdBan show ?thesis by (intro conjI exI [of _ "actor_of ctx w"]) auto
  next
    case (CmdUnban i)
    with assms(2) have actor: "\<exists>x \<in> usable_admins ?v. actor_of ctx w = Some x"
      by (simp add: admitted_def)
    note step = pool.wpD [OF UnbanUser_wp [OF free] rest surjective_pairing, of i]
    from actor step(1) kept_decides [OF conjunct1 [OF step(2)] conjunct2 [OF step(2)] kept_unban]
      CmdUnban show ?thesis by (intro conjI exI [of _ "actor_of ctx w"]) auto
  next
    case (CmdMake i)
    with assms(2) have actor: "\<exists>x \<in> usable_admins ?v. actor_of ctx w = Some x"
      by (simp add: admitted_def)
    note step = pool.wpD [OF MakeAdmin_wp [OF free] rest surjective_pairing, of i]
    from actor step(1) kept_decides [OF conjunct1 [OF step(2)] conjunct2 [OF step(2)] kept_make]
      CmdMake show ?thesis by (intro conjI exI [of _ "actor_of ctx w"]) auto
  next
    case (CmdRemove i)
    with assms(2) have actor: "\<exists>x \<in> usable_admins ?v. actor_of ctx w = Some x"
      by (simp add: admitted_def)
    note step = pool.wpD [OF RemoveAdmin_wp [OF free] rest surjective_pairing, of i]
    from actor step(1) kept_decides [OF conjunct1 [OF step(2)] conjunct2 [OF step(2)] kept_remove]
      CmdRemove show ?thesis by (intro conjI exI [of _ "actor_of ctx w"]) auto
  next
    case (CmdSignIn i)
    note step = pool.wpD [OF SignInByOIDC_wp [OF free] rest surjective_pairing, of i]
    have "kept None ?v (w_committed (snd (run (SignInByOIDC a ctx i) w)))"
      using step(2) signed_in_frame
      by (fastforce simp: kept_def usable_admins_def split: sum.splits)
    with step(1) CmdSignIn show ?thesis by auto
  next
    case CmdPurge
    note step = pool.wpD [OF purge_wp [OF free] rest surjective_pairing]
    have "kept None ?v (w_committed (snd (run (purge_job a ctx) w)))"
      using step(2) by (auto simp: kept_def usable_admins_def purged_frame split: sum.splits if_splits)
    with step(1) CmdPurge show ?thesis by auto
  qed
  then show "at_rest w ?w'"
    and "\<exists>actor. (actor = None \<or> (\<exists>x \<in> usable_admins ?v. actor = Some x))
           \<and> kept actor ?v (w_committed ?w')" by blast+
qed

lemma step_sound:
  assumes "sound_panel w" "open_env a ctx w = None" "admitted ctx c w"
    and "ozzo_documented (lib_ValidateStruct (app_libs a))"
  shows "sound_panel (perform a ctx c w)"
    and "usable_admins (w_committed w) \<noteq> {} \<Longrightarrow> usable_admins (w_committed (perform a ctx c w)) \<noteq> {}"
    and "w_stalls (perform a ctx c w) = w_stalls w"
proof -
  have idle: "idle a ctx w" using assms(1,2) by (simp add: sound_panel_def idle_def)
  note step = perform_kept [OF idle assms(3,4)]
  obtain actor where actor: "actor = None \<or> (\<exists>x \<in> usable_admins (w_committed w). actor = Some x)"
    and kept: "kept actor (w_committed w) (w_committed (perform a ctx c w))"
    using step(2) by blast
  have wf: "wf_db (w_committed w)" "wf_db (w_committed (perform a ctx c w))"
    using idle step(1) by (simp_all add: idle_def at_rest_def)
  from assms(1) have "\<forall>uid \<in> banned_ids (w_committed w). ban_reason (w_committed w) uid \<noteq> ''''"
    by (simp add: sound_panel_def flip: reasons_given_iff [OF wf(1)])
  with kept have "\<forall>uid \<in> banned_ids (w_committed (perform a ctx c w)).
      ban_reason (w_committed (perform a ctx c w)) uid \<noteq> ''''"
    unfolding kept_def by metis
  then show "sound_panel (perform a ctx c w)"
    using wf step(1) by (simp add: sound_panel_def reasons_given_iff at_rest_def)
  show "usable_admins (w_committed (perform a ctx c w)) \<noteq> {}" if "usable_admins (w_committed w) \<noteq> {}"
    using that actor kept by (auto simp: kept_def)
  show "w_stalls (perform a ctx c w) = w_stalls w"
    using step(1) by (simp add: at_rest_def same_frame_def)
qed

text \<open>
  C10. However the panel is used, as long as every command comes from an admin who is not
  banned: the schema's constraints hold, no transaction is left open, no call ever waits for
  the write connection, every ban has a reason (which is how a ban is recognised), and there is
  always an admin who is not banned. Failures of the driver at any call are included.
\<close>

theorem panel_invariants:
  assumes "history a w w'" and "sound_panel w" and "usable_admins (w_committed w) \<noteq> {}"
    and "ozzo_documented (lib_ValidateStruct (app_libs a))"
  shows "sound_panel w' \<and> usable_admins (w_committed w') \<noteq> {} \<and> w_stalls w' = w_stalls w"
  using assms(1,2,3)
proof induction
  case (start w)
  then show ?case by simp
next
  case (command w w1 ctx c)
  then show ?case using step_sound [OF _ command.hyps(2,3) assms(4)] by auto
next
  case (requests w w1 rs)
  then show ?case by (simp add: sound_panel_def)
qed

lemma demo_documented: "ozzo_documented (lib_ValidateStruct (app_libs demo_app))"
  by (simp add: demo_app_def app_libs_def demo_libs_def ozzo_reference_documented)

lemma demo_sound: "sound_panel demo_world"
  using demo_idle by (simp add: sound_panel_def idle_def) (simp add: demo_world_def demo_db_def reasons_given_def)

theorem panel_invariants_witness:
  "usable_admins (w_committed (perform demo_app demo_ctx (CmdBan ban_bob) demo_world)) \<noteq> {}"
proof -
  have "actor_of demo_ctx demo_world = Some 1"
    by (simp add: actor_of_def demo_ctx_def demo_world_def UserID_def scan_User_def demo_user_def)
  then have "admitted demo_ctx (CmdBan ban_bob) demo_world"
    by (simp add: admitted_def usable_admins_def)
  then have "history demo_app demo_world (perform demo_app demo_ctx (CmdBan ban_bob) demo_world)"
    by (intro history.command history.start) (rule demo_rest)
  from panel_invariants [OF this demo_sound _ demo_documented] show ?thesis
    by (simp add: usable_admins_def)
qed

end
