(* ===== verification/Auth.thy ===== *)
theory Auth
  imports App
begin

text \<open>
  Who a request belongs to: internal/gateauth (the bearer token of the gate), internal/audit
  (its constants), and cmd/server/auth.go (identity, sign-in, the audit log's writer).
\<close>

section \<open>Requests of net/http\<close>

text \<open>What the program reads of \<open>http.Request\<close>; header names are in canonical form. A body behind
  \<open>http.MaxBytesReader\<close> has a limit: reading past it fails.\<close>

record http_Request =
  http_Method :: string
  http_Path :: string
  http_Header :: "(string \<times> string list) list"
  http_RemoteAddr :: string
  http_Body :: string
  http_BodyLimit :: "nat option"

definition Header_Values :: "http_Request \<Rightarrow> string \<Rightarrow> string list" where
  "Header_Values r name = (case map_of (http_Header r) name of None \<Rightarrow> [] | Some vs \<Rightarrow> vs)"

definition Header_Get :: "http_Request \<Rightarrow> string \<Rightarrow> string" where
  "Header_Get r name = (case Header_Values r name of [] \<Rightarrow> '''' | v # _ \<Rightarrow> v)"

section \<open>internal/gateauth\<close>

record gate_Identity =
  gate_Issuer :: string
  gate_Subject :: string
  gate_Email :: string
  gate_Name :: string
  gate_IssuedAt :: Time

definition bearerToken :: "http_Request \<Rightarrow> go_error + string" where
  "bearerToken r =
    (let header = Header_Get r ''Authorization'' in
     if header = '''' then Inl (Sentinel ErrNoToken)
     else case CutPrefix header ''Bearer '' of
       (raw, has) \<Rightarrow>
         if \<not> has \<or> raw = '''' then Inl (Sentinel ErrNoToken) else Inr raw)"

text \<open>\<open>fmt.Errorf("%w: failed to verify id token: %w", ErrInvalidToken, err)\<close>.\<close>

definition invalid_token :: "go_error \<Rightarrow> go_error" where
  "invalid_token err =
     Wrapped (error_text (Sentinel ErrInvalidToken) @ '': failed to verify id token: '' @ error_text err)
       [Sentinel ErrInvalidToken, err]"

definition claims_identity :: "string \<Rightarrow> IDToken \<Rightarrow> go_error + gate_Identity" where
  "claims_identity issuer token =
    (case token_Claims token of
       Inl err \<Rightarrow> Inl (Errorf_w ''failed to read id token claims'' err)
     | Inr claims \<Rightarrow>
         if claims_Email claims = '''' then Inl (NewError ''id token has no email claim'')
         else if claims_Verified claims = None \<or> claims_Verified claims = Some False
         then Inl (NewError ''id token email is not verified'')
         else Inr \<lparr>gate_Issuer = issuer, gate_Subject = token_Subject token,
                   gate_Email = claims_Email claims, gate_Name = claims_Name claims,
                   gate_IssuedAt = token_IssuedAt token\<rparr>)"

definition gate_IdentityOf :: "libs \<Rightarrow> string \<Rightarrow> http_Request \<Rightarrow> (World, gate_Identity) io" where
  "gate_IdentityOf L issuer r =
    (case bearerToken r of
       Inl err \<Rightarrow> ret (Inl err)
     | Inr raw \<Rightarrow> do {
         t \<leftarrow> Now;
         case lib_Verify L t raw of
           Inl err \<Rightarrow> ret (Inl (invalid_token err))
         | Inr token \<Rightarrow> ret (claims_identity issuer token)
       })"

section \<open>internal/audit\<close>

definition ActionSignIn :: string where "ActionSignIn = ''sign_in''"
definition ActionSignOut :: string where "ActionSignOut = ''sign_out''"
definition PrefixDenied :: string where "PrefixDenied = ''denied:''"

section \<open>The caller\<close>

definition CurrentAdmin :: "app \<Rightarrow> Ctx \<Rightarrow> (World, int64) io" where
  "CurrentAdmin a ctx = do {
     r \<leftarrow> FromCtx ctx;
     case r of
       Inl _ \<Rightarrow> ret (Inl (Sentinel ErrNotAdmin))
     | Inr (n, req) \<Rightarrow>
         if \<not> Request_isAdmin req then ret (Inl (Sentinel ErrNotAdmin))
         else (case UserID req of
                 None \<Rightarrow> ret (Inl (Sentinel ErrNotAdmin))
               | Some userID \<Rightarrow> ret (Inr userID))
   }"

definition CurrentUser :: "app \<Rightarrow> Ctx \<Rightarrow> User option act" where
  "CurrentUser a ctx = do {
     r \<leftarrow> FromCtx ctx;
     case r of Inl _ \<Rightarrow> ret None | Inr (n, req) \<Rightarrow> ret (Request_user req)
   }"

section \<open>Writing the audit log\<close>

text \<open>
  The context of the write is detached from the request's: it ends after five seconds and not
  when the client goes away. Each entry is one statement on the write pool.
\<close>

fun flushAudit :: "app \<Rightarrow> audit_Entry list \<Rightarrow> unit act" where
  "flushAudit a [] = ret ()"
| "flushAudit a (entry # entries) = do {
     now \<leftarrow> Now;
     r \<leftarrow> DBInsertAuditLog (state_baseWrite (app_state a))
       \<lparr>InsertAuditLog_UserID = Entry_UserID entry, InsertAuditLog_Email = Entry_Email entry,
        InsertAuditLog_Action = Entry_Action entry, InsertAuditLog_Detail = Entry_Detail entry,
        InsertAuditLog_Ip = Entry_IP entry, InsertAuditLog_CreatedAt = dbtime_At now\<rparr>;
     (case r of
        Inl err \<Rightarrow> log_at Error ''failed to write audit entry''
                     [(''action'', Entry_Action entry), (''error'', error_text err)]
      | Inr _ \<Rightarrow> ret ());
     flushAudit a entries
   }"

definition WriteAudit :: "app \<Rightarrow> Ctx \<Rightarrow> audit_Entry \<Rightarrow> unit act" where
  "WriteAudit a ctx entry = do {
     r \<leftarrow> FromCtx ctx;
     case r of
       Inr (n, req) \<Rightarrow> AddAudit n entry
     | Inl _ \<Rightarrow> flushAudit a [entry]
   }"

section \<open>Sign-in and sign-out\<close>

record AuthIdentity =
  Auth_User :: "User option"
  Auth_IsAdmin :: bool
  Auth_BanReason :: string
  Auth_StaleToken :: bool

definition Banned :: "AuthIdentity option \<Rightarrow> bool" where
  "Banned i \<longleftrightarrow> (case i of None \<Rightarrow> False | Some x \<Rightarrow> Auth_BanReason x \<noteq> '''')"

definition Stale :: "AuthIdentity option \<Rightarrow> bool" where
  "Stale i \<longleftrightarrow> (case i of None \<Rightarrow> False | Some x \<Rightarrow> Auth_StaleToken x)"

definition sign_entry :: "int64 \<Rightarrow> string \<Rightarrow> string \<Rightarrow> string \<Rightarrow> audit_Entry" where
  "sign_entry uid email action ip =
     \<lparr>Entry_UserID = Some uid, Entry_Email = email, Entry_Action = action, Entry_Detail = '''',
      Entry_IP = ip\<rparr>"

text \<open>The address of a request never changes once it is made.\<close>

definition request_ip :: "nat \<Rightarrow> string act" where
  "request_ip n = ask_world (\<lambda>w. case w_requests w n of None \<Rightarrow> '''' | Some r \<Rightarrow> Request_ip r)"

definition recordSignIn ::
  "app \<Rightarrow> Ctx \<Rightarrow> nat \<Rightarrow> DBGetIdentityByOIDCRow \<Rightarrow> Time \<Rightarrow> unit act" where
  "recordSignIn a ctx n identity issued =
    (if IsZero issued then ret ()
     else if (case Identity_LastSigninAt identity of
                None \<Rightarrow> False | Some seen \<Rightarrow> \<not> After issued (stamp_Time seen))
     then ret ()
     else do {
       let at = dbtime_At issued;
       r \<leftarrow> DBMarkSignIn (state_baseWrite (app_state a))
         \<lparr>MarkSignIn_IssuedAt = Some at, MarkSignIn_ID = Identity_ID identity\<rparr>;
       case r of
         Inl err \<Rightarrow> log_at Error ''failed to record a sign-in''
                     [(''user'', int_dec (Identity_ID identity)), (''error'', error_text err)]
       | Inr marked \<Rightarrow>
           if marked = 0 then ret ()
           else do {
             MetricsIncreaseSignIn (app_metrics a);
             ip \<leftarrow> request_ip n;
             WriteAudit a ctx (sign_entry (Identity_ID identity) (Identity_Email identity) ActionSignIn ip)
           }
     })"

definition RecordSignOut :: "app \<Rightarrow> Ctx \<Rightarrow> unit act" where
  "RecordSignOut a ctx = do {
     r \<leftarrow> FromCtx ctx;
     case r of
       Inl _ \<Rightarrow> ret ()
     | Inr (n, req) \<Rightarrow>
         (case Request_user req of
            None \<Rightarrow> ret ()
          | Some user \<Rightarrow> WriteAudit a ctx
              (sign_entry (User_ID user) (User_Email user) ActionSignOut (Request_ip req)))
   }"

definition firstSignIn ::
  "app \<Rightarrow> Ctx \<Rightarrow> nat \<Rightarrow> gate_Identity \<Rightarrow> (World, AuthIdentity option) io" where
  "firstSignIn a ctx n claimed = do {
     r \<leftarrow> SignInByOIDC a ctx
       \<lparr>SignInInput_Issuer = gate_Issuer claimed, SignInInput_Subject = gate_Subject claimed,
        SignInInput_Email = gate_Email claimed, SignInInput_Name = gate_Name claimed,
        SignInInput_IssuedAt = gate_IssuedAt claimed\<rparr>;
     case r of
       Inl err \<Rightarrow> ret (Inl (Errorf_w ''failed to sign in'' err))
     | Inr result \<Rightarrow> do {
         let user = SignInResult_User result;
         SetIdentity n user (SignInResult_IsAdmin result);
         MetricsIncreaseSignIn (app_metrics a);
         ip \<leftarrow> request_ip n;
         WriteAudit a ctx (sign_entry (User_ID user) (User_Email user) ActionSignIn ip);
         ret (Inr (Some \<lparr>Auth_User = Some user, Auth_IsAdmin = SignInResult_IsAdmin result,
                         Auth_BanReason = '''', Auth_StaleToken = False\<rparr>))
       }
   }"

definition identity_user :: "DBGetIdentityByOIDCRow \<Rightarrow> User" where
  "identity_user identity =
     \<lparr>User_ID = Identity_ID identity, User_OidcIssuer = '''', User_OidcSubject = '''',
      User_Email = Identity_Email identity, User_Name = Identity_Name identity,
      User_LastSigninAt = None, User_CreatedAt = Identity_CreatedAt identity\<rparr>"

definition resolveIdentity ::
  "app \<Rightarrow> Ctx \<Rightarrow> nat \<Rightarrow> http_Request \<Rightarrow> (World, AuthIdentity option) io" where
  "resolveIdentity a ctx n r = do {
     g \<leftarrow> gate_IdentityOf (app_libs a) (state_gate_issuer (app_state a)) r;
     case g of
       Inl err \<Rightarrow>
         if errors_Is err ErrNoToken then ret (Inr None)
         else if errors_Is err ErrInvalidToken then do {
           log_at Warn ''rejected an identity from the gate'' [(''error'', error_text err)];
           ret (Inr (Some \<lparr>Auth_User = None, Auth_IsAdmin = False, Auth_BanReason = '''',
                           Auth_StaleToken = True\<rparr>))
         }
         else do {
           log_at Warn ''rejected an identity from the gate'' [(''error'', error_text err)];
           ret (Inr None)
         }
     | Inr claimed \<Rightarrow> do {
         q \<leftarrow> DBGetIdentityByOIDC (app_Queries a)
           \<lparr>IdentityParams_OidcIssuer = gate_Issuer claimed,
            IdentityParams_OidcSubject = gate_Subject claimed\<rparr>;
         case q of
           Inl err \<Rightarrow>
             if IsNotFound err then firstSignIn a ctx n claimed
             else ret (Inl (Errorf_w ''failed to load identity'' err))
         | Inr identity \<Rightarrow>
             if Identity_BanReason identity \<noteq> ''''
             then ret (Inr (Some \<lparr>Auth_User = None, Auth_IsAdmin = False,
                                  Auth_BanReason = Identity_BanReason identity,
                                  Auth_StaleToken = False\<rparr>))
             else do {
               let user = identity_user identity;
               SetIdentity n user (Identity_IsAdmin identity \<noteq> 0);
               recordSignIn a ctx n identity (gate_IssuedAt claimed);
               ret (Inr (Some \<lparr>Auth_User = Some user, Auth_IsAdmin = Identity_IsAdmin identity \<noteq> 0,
                               Auth_BanReason = '''', Auth_StaleToken = False\<rparr>))
             }
       }
   }"

end
