(* ===== verification/AuthProps.thy ===== *)
theory AuthProps
  imports Auth Panel
begin

text \<open>
  What cmd/server/auth.go makes of a request: whose it is, when a sign-in is recorded, and what
  reaches the audit log.
\<close>

section \<open>Steps outside a transaction\<close>

text \<open>Like \<open>at_rest\<close>, for a step that may also change the requests.\<close>

definition calm :: "World \<Rightarrow> World \<Rightarrow> bool" where
  "calm w w' \<longleftrightarrow> w_tx w' = None \<and> wf_db (w_committed w') \<and> w_stalls w' = w_stalls w
     \<and> w_clock w' = w_clock w \<and> w_faults w' = w_faults w \<and> w_ticks w \<le> w_ticks w'"

lemma calm_at_rest: "at_rest w w' \<longleftrightarrow> calm w w' \<and> w_requests w' = w_requests w"
  by (auto simp: at_rest_def calm_def same_frame_def)

lemma calm_trans: "calm u v \<Longrightarrow> calm v w \<Longrightarrow> calm u w"
  by (simp add: calm_def)

lemma calm_refl: "calm w w \<longleftrightarrow> w_tx w = None \<and> wf_db (w_committed w)"
  by (auto simp: calm_def)

lemma calm_self: "calm u w \<Longrightarrow> calm w w"
  by (simp add: calm_def)

interpretation quiet_step: state_preorder
  "\<lambda>w w'. w_committed w' = w_committed w \<and> w_tx w' = w_tx w \<and> w_stalls w' = w_stalls w"
  by unfold_locales auto

lemma run_AddAudit:
  "w_requests w n = Some req \<Longrightarrow> run (AddAudit n entry) w =
     ((), w\<lparr>w_requests := (w_requests w)(n \<mapsto> req\<lparr>Request_audits := Request_audits req @ [entry]\<rparr>)\<rparr>)"
  by (simp add: AddAudit_def change_request_def)

lemma run_WriteAudit:
  "ctx_request ctx = Some n \<Longrightarrow> w_requests w n = Some req \<Longrightarrow> run (WriteAudit a ctx entry) w =
     ((), w\<lparr>w_requests := (w_requests w)(n \<mapsto> req\<lparr>Request_audits := Request_audits req @ [entry]\<rparr>)\<rparr>)"
  by (simp add: WriteAudit_def FromCtx_def run_AddAudit)

lemma run_SetIdentity:
  "w_requests w n = Some req \<Longrightarrow> run (SetIdentity n user adm) w =
     ((), w\<lparr>w_requests := (w_requests w)
        (n \<mapsto> req\<lparr>Request_user := Some user, Request_isAdmin := adm\<rparr>)\<rparr>)"
  by (simp add: SetIdentity_def change_request_def)

lemma run_counters:
  "run (MetricsIncreaseSignIn m) w =
     ((), w\<lparr>w_prom := w_prom w @ [Inc (metric_name m ''sign_ins_total'') []]\<rparr>)"
  by (simp add: MetricsIncreaseSignIn_def prom_Inc_def)

lemma base_appD:
  assumes "base_app a"
  shows "app_Queries a = Queries ReadPool" "wq_db (state_baseWrite (app_state a)) = WritePool"
    "app_currentTx a = None"
  using assms by (simp_all add: base_app_def)

section \<open>The token\<close>

definition verified_claims :: "app \<Rightarrow> http_Request \<Rightarrow> gate_Identity \<Rightarrow> bool" where
  "verified_claims a r claimed \<longleftrightarrow>
     (\<exists>raw t token. bearerToken r = Inr raw \<and> lib_Verify (app_libs a) t raw = Inr token
        \<and> claims_identity (state_gate_issuer (app_state a)) token = Inr claimed)"

lemma gate_step:
  assumes "run (gate_IdentityOf (app_libs a) (state_gate_issuer (app_state a)) r) w = (g, w')"
    and "calm w w"
  shows "calm w w'" "w_committed w' = w_committed w" "w_requests w' = w_requests w"
    "g = Inr claimed \<Longrightarrow> verified_claims a r claimed"
  using assms
  by (auto simp: gate_IdentityOf_def Now_def calm_def verified_claims_def split: sum.splits)

section \<open>The lookup\<close>

definition identity_row :: "gate_Identity \<Rightarrow> Database \<Rightarrow> DBGetIdentityByOIDCRow option" where
  "identity_row claimed v =
     map_option (\<lambda>u. scan_Identity u (row_of a_user_id (u_id u) (db_admins v))
                       (row_of b_user_id (u_id u) (db_user_bans v)))
       (user_with (gate_Issuer claimed) (gate_Subject claimed) v)"

lemma identity_lookup:
  assumes "app_Queries a = Queries ReadPool" "calm w w"
    and "run (DBGetIdentityByOIDC (app_Queries a) \<lparr>IdentityParams_OidcIssuer = gate_Issuer claimed,
        IdentityParams_OidcSubject = gate_Subject claimed\<rparr>) w = (q, w')"
  shows "calm w w'" "w_committed w' = w_committed w" "w_requests w' = w_requests w"
    "q = found (identity_row claimed (w_committed w))
       \<or> \<not> healthy_world w \<and> (\<exists>e. q = Inl e \<and> \<not> IsNotFound e)"
proof -
  let ?arg = "\<lparr>IdentityParams_OidcIssuer = gate_Issuer claimed,
    IdentityParams_OidcSubject = gate_Subject claimed\<rparr>"
  have "pool_performs w (QueryRow ReadPool (sql_DBGetIdentityByOIDC ?arg))
      (query (\<lambda>v. found (identity_row claimed v)))"
    by (rule pool.performs_cong [OF pool_row])
      (simp add: query_def DBGetIdentityByOIDC_eq identity_row_def split: option.splits)
  then have step: "pool.wp w (QueryRow ReadPool (sql_DBGetIdentityByOIDC ?arg)) (\<lambda>q v'.
      v' = w_committed w \<and> (q = found (identity_row claimed (w_committed w))
       \<or> \<not> healthy_world w \<and> (\<exists>e. q = Inl e \<and> \<not> IsNotFound e))) (w_committed w)"
    by (rule pool.wp_reads) auto
  have "run (QueryRow ReadPool (sql_DBGetIdentityByOIDC ?arg)) w = (q, w')"
    using assms(1,3) by (simp add: DBGetIdentityByOIDC_def)
  from pool.wpD [OF step _ this] assms(2)
  show "calm w w'" "w_committed w' = w_committed w" "w_requests w' = w_requests w"
    "q = found (identity_row claimed (w_committed w))
       \<or> \<not> healthy_world w \<and> (\<exists>e. q = Inl e \<and> \<not> IsNotFound e)"
    by (auto simp: calm_at_rest)
qed

lemma identity_row_Some:
  assumes "identity_row claimed v = Some row" "wf_db v"
  obtains u where "u \<in> set (db_users v)" "u_id u = Identity_ID row"
    "oidc_key u = (gate_Issuer claimed, gate_Subject claimed)"
    "Identity_Email row = u_email u"
    "Identity_LastSigninAt row = map_option stamp_of (u_last_signin_at u)"
    "Identity_IsAdmin row \<noteq> 0 \<longleftrightarrow> Identity_ID row \<in> admin_ids v"
    "Identity_BanReason row = ban_reason v (Identity_ID row)"
proof -
  from assms(1) obtain u where u: "user_with (gate_Issuer claimed) (gate_Subject claimed) v = Some u"
    and row: "row = scan_Identity u (row_of a_user_id (u_id u) (db_admins v))
                (row_of b_user_id (u_id u) (db_user_bans v))"
    by (auto simp: identity_row_def)
  from that [of u] user_with_SomeD [OF u] show thesis
    by (simp add: row scan_Identity_def oidc_key_def ban_reason_def)
qed

lemma identity_row_None:
  "identity_row claimed v = None \<longleftrightarrow> user_with (gate_Issuer claimed) (gate_Subject claimed) v = None"
  by (simp add: identity_row_def)

section \<open>Recording a sign-in\<close>

text \<open>The statement matches the user's row at most, and only when the stored sign-in is older.\<close>

lemma DBMarkSignIn_cases:
  assumes wf: "wf_db v"
  shows "sql_DBMarkSignIn \<lparr>MarkSignIn_IssuedAt = Some s, MarkSignIn_ID = uid\<rparr> v =
    (case row_of u_id uid (db_users v) of
       None \<Rightarrow> Inr (0, v)
     | Some u \<Rightarrow>
         if marks_sign_in (Some (stored_at s)) u
         then Inr (1, v\<lparr>db_users := map (\<lambda>x. if u_id x = uid
                          then x\<lparr>u_last_signin_at := Some (stored_at s)\<rparr> else x) (db_users v)\<rparr>)
         else Inr (0, v))"
proof -
  note k = wf_dbD(1) [OF wf]
  let ?hit = "\<lambda>u. u_id u = uid \<and> marks_sign_in (Some (stored_at s)) u"
  have hits: "filter ?hit (db_users v) =
      (case row_of u_id uid (db_users v) of None \<Rightarrow> []
       | Some u \<Rightarrow> if marks_sign_in (Some (stored_at s)) u then [u] else [])"
  proof -
    have "filter ?hit (db_users v) =
        filter (marks_sign_in (Some (stored_at s))) (filter (\<lambda>u. u_id u = uid) (db_users v))" by simp
    then show ?thesis unfolding filter_key [OF k] by (simp split: option.splits)
  qed
  have same: "u_id x = uid \<longleftrightarrow> row_of u_id uid (db_users v) = Some x" if "x \<in> set (db_users v)" for x
    using row_of_unique [OF k that] row_of_SomeD [of u_id uid "db_users v" x] by auto
  have upd: "map (\<lambda>x. if ?hit x then f x else x) (db_users v) =
      (case row_of u_id uid (db_users v) of None \<Rightarrow> db_users v
       | Some u \<Rightarrow> if marks_sign_in (Some (stored_at s)) u
                  then map (\<lambda>x. if u_id x = uid then f x else x) (db_users v) else db_users v)" for f
    using same by (auto intro!: map_cong map_idI split: option.splits)
  show ?thesis
    using hits upd by (simp add: sql_DBMarkSignIn_def Let_def split: option.splits)
qed

lemma mark_frame:
  assumes "wf_db v" "sql_DBMarkSignIn \<lparr>MarkSignIn_IssuedAt = Some s, MarkSignIn_ID = uid\<rparr> v = Inr (m, v')"
  shows "admin_ids v' = admin_ids v" "banned_ids v' = banned_ids v" "db_audit_log v' = db_audit_log v"
    "map (\<lambda>u. (u_id u, oidc_key u)) (db_users v') = map (\<lambda>u. (u_id u, oidc_key u)) (db_users v)"
    "m = 0 \<longrightarrow> v' = v"
  using assms(2) unfolding DBMarkSignIn_cases [OF assms(1)]
  by (auto simp: id_sets oidc_key_def split: option.splits if_splits)

lemma mark_step:
  assumes "wq_db q = WritePool" "calm w w"
    and "run (DBMarkSignIn q \<lparr>MarkSignIn_IssuedAt = Some s, MarkSignIn_ID = uid\<rparr>) w = (r, w')"
  shows "calm w w'" "w_requests w' = w_requests w"
    "(\<exists>m. r = Inr m \<and> sql_DBMarkSignIn \<lparr>MarkSignIn_IssuedAt = Some s, MarkSignIn_ID = uid\<rparr>
          (w_committed w) = Inr (m, w_committed w'))
     \<or> \<not> healthy_world w \<and> (\<exists>e. r = Inl e) \<and> w_committed w' = w_committed w"
proof -
  let ?arg = "\<lparr>MarkSignIn_IssuedAt = Some s, MarkSignIn_ID = uid\<rparr>"
  have never: "sql_DBMarkSignIn ?arg v \<noteq> Inl e" for v e by (simp add: sql_DBMarkSignIn_def Let_def)
  have "pool_performs w (write_on WritePool (sql_DBMarkSignIn ?arg)) (sql_DBMarkSignIn ?arg)"
    by (rule pool_write [OF wf_DBMarkSignIn])
  then have step: "pool.wp w (write_on WritePool (sql_DBMarkSignIn ?arg)) (\<lambda>r v'.
      (\<exists>m. r = Inr m \<and> sql_DBMarkSignIn ?arg (w_committed w) = Inr (m, v'))
      \<or> \<not> healthy_world w \<and> (\<exists>e. r = Inl e) \<and> v' = w_committed w) (w_committed w)"
    by (rule pool.wp_performs) (auto simp: never)
  have "run (write_on WritePool (sql_DBMarkSignIn ?arg)) w = (r, w')"
    using assms(1,3) by (simp add: DBMarkSignIn_def)
  from pool.wpD [OF step _ this] assms(2)
  show "calm w w'" "w_requests w' = w_requests w"
    "(\<exists>m. r = Inr m \<and> sql_DBMarkSignIn ?arg (w_committed w) = Inr (m, w_committed w'))
     \<or> \<not> healthy_world w \<and> (\<exists>e. r = Inl e) \<and> w_committed w' = w_committed w"
    by (auto simp: calm_at_rest)
qed

text \<open>When a token shows a fresh sign-in of a user: it carries an issue time, and the stored
  sign-in is absent or older.\<close>

definition fresh_sign_in :: "Time \<Rightarrow> Stamp option \<Rightarrow> bool" where
  "fresh_sign_in issued seen \<longleftrightarrow>
     \<not> IsZero issued \<and> (case seen of None \<Rightarrow> True | Some s \<Rightarrow> stored_at s < Unix issued)"

lemma After_seconds: "n < Unix t \<Longrightarrow> After t (time_Unix n)"
  using Unix_floor [of t] by (auto simp: After_def time_Unix_def ns_per_s_def)

text \<open>\<open>recordSignIn\<close> either leaves everything, or marks the user and buffers one entry.\<close>

lemma recordSignIn_step:
  assumes base: "base_app a" and calm: "calm w w"
    and req: "ctx_request ctx = Some n" "w_requests w n = Some req"
    and user: "row_of u_id (Identity_ID identity) (db_users (w_committed w)) = Some u"
      "Identity_LastSigninAt identity = map_option stamp_of (u_last_signin_at u)"
    and run: "run (recordSignIn a ctx n identity issued) w = ((), w')"
  defines "entry \<equiv> sign_entry (Identity_ID identity) (Identity_Email identity) ActionSignIn (Request_ip req)"
  obtains (unmarked) "calm w w'" "w_committed w' = w_committed w" "w_requests w' = w_requests w"
        "healthy_world w \<Longrightarrow> \<not> fresh_sign_in issued (Identity_LastSigninAt identity)"
    | (marked) m where "calm w w'" "fresh_sign_in issued (Identity_LastSigninAt identity)"
        "sql_DBMarkSignIn \<lparr>MarkSignIn_IssuedAt = Some (dbtime_At issued), MarkSignIn_ID = Identity_ID identity\<rparr>
           (w_committed w) = Inr (m, w_committed w')"
        "w_requests w' = (w_requests w)(n \<mapsto> req\<lparr>Request_audits := Request_audits req @ [entry]\<rparr>)"
proof (cases "IsZero issued \<or> (case Identity_LastSigninAt identity of
    None \<Rightarrow> False | Some seen \<Rightarrow> \<not> After issued (stamp_Time seen))")
  case True
  with run have "w' = w" by (auto simp: recordSignIn_def split: if_splits)
  moreover have "\<not> fresh_sign_in issued (Identity_LastSigninAt identity)"
    using True After_seconds
    by (auto simp: fresh_sign_in_def user(2) stamp_of_def stored_at_def Unix_def time_Unix_def
        ns_per_s_def split: option.splits)
  ultimately show thesis using unmarked calm by simp
next
  case False
  let ?q = "state_baseWrite (app_state a)"
  let ?arg = "\<lparr>MarkSignIn_IssuedAt = Some (dbtime_At issued), MarkSignIn_ID = Identity_ID identity\<rparr>"
  obtain r w1 where mark: "run (DBMarkSignIn ?q ?arg) w = (r, w1)" by force
  note step = mark_step [OF base_appD(2) [OF base] calm mark]
  have wf: "wf_db (w_committed w)" using calm by (simp add: calm_def)
  have fresh: "fresh_sign_in issued (Identity_LastSigninAt identity)
      \<longleftrightarrow> marks_sign_in (Some (Unix issued)) u"
    using False by (auto simp: fresh_sign_in_def marks_sign_in_def user(2) split: option.splits)
  have rest: "run (case r of
        Inl err \<Rightarrow> log_at Error ''failed to record a sign-in''
                     [(''user'', int_dec (Identity_ID identity)), (''error'', error_text err)]
      | Inr marked \<Rightarrow>
          if marked = 0 then ret ()
          else do {
            MetricsIncreaseSignIn (app_metrics a);
            ip \<leftarrow> request_ip n;
            WriteAudit a ctx (sign_entry (Identity_ID identity) (Identity_Email identity) ActionSignIn ip)
          }) w1 = ((), w')"
    using run False mark by (auto simp: recordSignIn_def Let_def)
  show thesis
  proof (cases "\<exists>m. r = Inr m \<and> m \<noteq> 0")
    case True
    then obtain m where m: "r = Inr m" "m \<noteq> 0" by blast
    with rest step(2) req have "w' = w1\<lparr>w_prom := w_prom w1 @ [Inc (metric_name (app_metrics a) ''sign_ins_total'') []],
        w_requests := (w_requests w)(n \<mapsto> req\<lparr>Request_audits := Request_audits req @ [entry]\<rparr>)\<rparr>"
      by (simp add: run_counters request_ip_def run_WriteAudit [of ctx n _ req] entry_def)
    moreover have "fresh_sign_in issued (Identity_LastSigninAt identity)"
      using step(3) m unfolding DBMarkSignIn_cases [OF wf]
      by (auto simp: user(1) fresh dbtime_At_def stored_at_def split: if_splits)
    ultimately show thesis using marked [of m] step m by (auto simp: calm_def)
  next
    case no: False
    have "calm w w' \<and> w_committed w' = w_committed w1 \<and> w_requests w' = w_requests w1"
      using rest no step(1)
      by (cases r) (auto simp: log_at_def calm_def)
    moreover have "w_committed w1 = w_committed w"
      using step(3) no mark_frame(5) calm by (fastforce simp: calm_def)
    moreover have "\<not> fresh_sign_in issued (Identity_LastSigninAt identity)" if "healthy_world w"
      using step(3) no that unfolding DBMarkSignIn_cases [OF wf]
      by (auto simp: user(1) fresh dbtime_At_def stored_at_def split: if_splits)
    ultimately show thesis using unmarked step(2) by simp
  qed
qed

section \<open>The first sign-in\<close>

lemma banned_seen: "wf_db v \<Longrightarrow> uid \<in> banned_ids v \<Longrightarrow> uid \<le> seq_users v"
proof -
  assume wf: "wf_db v" and "uid \<in> banned_ids v"
  then have "uid \<in> keys u_id (db_users v)" using wf_dbD(7) by (auto simp: banned_ids_def)
  with wf show ?thesis by (auto simp: keys_def wf_db_def wf_users_def)
qed

lemma firstSignIn_step:
  assumes calm: "calm w w" and free: "open_env a ctx w = None"
    and req: "ctx_request ctx = Some n" "w_requests w n = Some req"
    and new: "user_with (gate_Issuer claimed) (gate_Subject claimed) (w_committed w) = None"
    and run: "run (firstSignIn a ctx n claimed) w = (res, w')"
  obtains (failed) e where "res = Inl e" "calm w w'" "w_committed w' = w_committed w"
      "w_requests w' = w_requests w"
    | (signed) u adm row where
      "res = Inr (Some \<lparr>Auth_User = Some u, Auth_IsAdmin = adm, Auth_BanReason = '''',
          Auth_StaleToken = False\<rparr>)" "calm w w'"
      "row \<in> set (db_users (w_committed w'))" "u_id row = User_ID u"
      "oidc_key row = (gate_Issuer claimed, gate_Subject claimed)"
      "User_ID u \<notin> banned_ids (w_committed w')" "adm \<longleftrightarrow> User_ID u \<in> admin_ids (w_committed w')"
      "w_requests w' = (w_requests w)(n \<mapsto> req\<lparr>Request_user := Some u, Request_isAdmin := adm,
         Request_audits := Request_audits req
           @ [sign_entry (User_ID u) (User_Email u) ActionSignIn (Request_ip req)]\<rparr>)"
proof -
  let ?v = "w_committed w"
  let ?in = "\<lparr>SignInInput_Issuer = gate_Issuer claimed, SignInInput_Subject = gate_Subject claimed,
        SignInInput_Email = gate_Email claimed, SignInInput_Name = gate_Name claimed,
        SignInInput_IssuedAt = gate_IssuedAt claimed\<rparr>"
  obtain r w1 where sign: "run (SignInByOIDC a ctx ?in) w = (r, w1)" by force
  have rest: "at_rest w w" using calm by (simp add: calm_at_rest)
  note step = pool.wpD [OF SignInByOIDC_wp [OF free] rest sign]
  have c1: "calm w w1" "w_requests w1 = w_requests w" using step(1) by (simp_all add: calm_at_rest)
  show thesis
  proof (cases r)
    case (Inl e)
    with run sign step(2) c1 failed show thesis by (auto simp: firstSignIn_def)
  next
    case (Inr result)
    then obtain now where after: "signed_in (lib_unicode_lower (app_libs a)) (BootstrapAdminEmail a) ?in now ?v
        result (w_committed w1)"
      using step(2) by auto
    define arg where "arg = sign_in_params (lib_unicode_lower (app_libs a)) ?in now"
    define u where "u = SignInResult_User result"
    have none: "user_with (UpsertUser_OidcIssuer arg) (UpsertUser_OidcSubject arg) ?v = None"
      using new by (simp add: arg_def sign_in_params_def)
    then have row: "u_id (upserted arg ?v) = seq_users ?v + 1"
        "oidc_key (upserted arg ?v) = (gate_Issuer claimed, gate_Subject claimed)"
      by (simp_all add: upserted_def arg_def sign_in_params_def oidc_key_def)
    have u: "User_ID u = u_id (upserted arg ?v)"
      and adm: "SignInResult_IsAdmin result \<longleftrightarrow> User_ID u \<in> admin_ids (w_committed w1)"
      and users: "w_committed w1 = (users_after arg ?v)\<lparr>db_admins := db_admins (w_committed w1)\<rparr>"
      using after by (simp_all add: signed_in_def Let_def u_def arg_def scan_User_def)
    have "upserted arg ?v \<in> set (db_users (w_committed w1))"
      by (subst users) (simp add: users_after_def none)
    moreover have "User_ID u \<notin> banned_ids (w_committed w1)"
      using signed_in_frame(1) [OF after] banned_seen [of ?v "User_ID u"] calm u row(1)
      by (auto simp: calm_def)
    moreover have "res = Inr (Some \<lparr>Auth_User = Some u, Auth_IsAdmin = SignInResult_IsAdmin result,
          Auth_BanReason = '''', Auth_StaleToken = False\<rparr>)"
      "w' = w1\<lparr>w_prom := w_prom w1 @ [Inc (metric_name (app_metrics a) ''sign_ins_total'') []],
        w_requests := (w_requests w)(n \<mapsto> req\<lparr>Request_user := Some u,
          Request_isAdmin := SignInResult_IsAdmin result, Request_audits := Request_audits req
            @ [sign_entry (User_ID u) (User_Email u) ActionSignIn (Request_ip req)]\<rparr>)\<rparr>"
      using run sign Inr c1(2) req
      by (simp_all add: firstSignIn_def Let_def run_SetIdentity [of _ n req] run_counters
          request_ip_def run_WriteAudit u_def)
    ultimately show thesis
      using c1 u adm row by (intro signed [of u "SignInResult_IsAdmin result" "upserted arg ?v"]) (auto simp: calm_def)
  qed
qed

section \<open>Resolving the identity\<close>

definition sign_in_due :: "gate_Identity \<Rightarrow> Database \<Rightarrow> bool" where
  "sign_in_due claimed v \<longleftrightarrow>
     (case identity_row claimed v of
        None \<Rightarrow> True
      | Some row \<Rightarrow> fresh_sign_in (gate_IssuedAt claimed) (Identity_LastSigninAt row))"

definition identified :: "app \<Rightarrow> nat \<Rightarrow> Request \<Rightarrow> World \<Rightarrow> gate_Identity \<Rightarrow> AuthIdentity \<Rightarrow> User
    \<Rightarrow> audit_Entry list \<Rightarrow> World \<Rightarrow> bool" where
  "identified a n req w claimed i u audits w' \<longleftrightarrow>
     i = \<lparr>Auth_User = Some u, Auth_IsAdmin = Auth_IsAdmin i, Auth_BanReason = '''', Auth_StaleToken = False\<rparr>
     \<and> (\<exists>row \<in> set (db_users (w_committed w')). u_id row = User_ID u
          \<and> oidc_key row = (gate_Issuer claimed, gate_Subject claimed))
     \<and> User_ID u \<notin> banned_ids (w_committed w')
     \<and> (Auth_IsAdmin i \<longleftrightarrow> User_ID u \<in> admin_ids (w_committed w'))
     \<and> w_requests w' = (w_requests w)(n \<mapsto> req\<lparr>Request_user := Some u,
          Request_isAdmin := Auth_IsAdmin i, Request_audits := Request_audits req @ audits\<rparr>)"

lemma known_user_step:
  assumes base: "base_app a" and calm: "calm w w"
    and req: "ctx_request ctx = Some n" "w_requests w n = Some req"
    and row: "identity_row claimed (w_committed w) = Some row" "Identity_BanReason row = ''''"
    and reasons: "reasons_given (w_committed w)"
    and run: "run (do {
        SetIdentity n (identity_user row) (Identity_IsAdmin row \<noteq> 0);
        recordSignIn a ctx n row (gate_IssuedAt claimed);
        ret (Inr (Some \<lparr>Auth_User = Some (identity_user row), Auth_IsAdmin = Identity_IsAdmin row \<noteq> 0,
                        Auth_BanReason = '''', Auth_StaleToken = False\<rparr>)) :: (World, AuthIdentity option) io
      }) w = (res, w')"
  obtains i audits where "res = Inr (Some i)" "calm w w'"
    "identified a n req w claimed i (identity_user row) audits w'"
    "audits = [] \<or> audits = [sign_entry (Identity_ID row) (Identity_Email row) ActionSignIn (Request_ip req)]"
    "healthy_world w \<Longrightarrow> audits \<noteq> [] \<longleftrightarrow> fresh_sign_in (gate_IssuedAt claimed) (Identity_LastSigninAt row)"
proof -
  let ?v = "w_committed w"
  let ?req = "req\<lparr>Request_user := Some (identity_user row), Request_isAdmin := Identity_IsAdmin row \<noteq> 0\<rparr>"
  let ?w1 = "w\<lparr>w_requests := (w_requests w)(n \<mapsto> ?req)\<rparr>"
  let ?i = "\<lparr>Auth_User = Some (identity_user row), Auth_IsAdmin = Identity_IsAdmin row \<noteq> 0,
      Auth_BanReason = '''', Auth_StaleToken = False\<rparr>"
  let ?entry = "sign_entry (Identity_ID row) (Identity_Email row) ActionSignIn (Request_ip req)"
  have wf: "wf_db ?v" using calm by (simp add: calm_def)
  obtain u where u: "u \<in> set (db_users ?v)" "u_id u = Identity_ID row"
      "oidc_key u = (gate_Issuer claimed, gate_Subject claimed)"
    and seen: "Identity_LastSigninAt row = map_option stamp_of (u_last_signin_at u)"
    and adm: "Identity_IsAdmin row \<noteq> 0 \<longleftrightarrow> Identity_ID row \<in> admin_ids ?v"
    and ban: "Identity_BanReason row = ban_reason ?v (Identity_ID row)"
    by (rule identity_row_Some [OF row(1) wf])
  have free: "Identity_ID row \<notin> banned_ids ?v"
    using ban row(2) ban_reason_banned [OF reasons] by simp
  have key: "row_of u_id (Identity_ID row) (db_users ?v) = Some u"
    by (rule row_of_unique [OF wf_dbD(1) [OF wf] u(1,2)])
  have uid: "User_ID (identity_user row) = Identity_ID row" by (simp add: identity_user_def)
  obtain w2 where rec: "run (recordSignIn a ctx n row (gate_IssuedAt claimed)) ?w1 = ((), w2)"
    by (metis old.unit.exhaust surj_pair)
  have out: "res = Inr (Some ?i)" "w' = w2"
    using run rec by (auto simp: run_SetIdentity [OF req(2)])
  have later: "calm w w'" if "calm ?w1 w2"
    using calm that out by (auto simp: calm_def)
  note step = recordSignIn_step [OF base _ req(1) _ _ seen rec, of ?req]
  from calm have "calm ?w1 ?w1" by (simp add: calm_def)
  moreover have "w_requests ?w1 n = Some ?req" by simp
  moreover have "row_of u_id (Identity_ID row) (db_users (w_committed ?w1)) = Some u" using key by simp
  ultimately show thesis
  proof (rule step)
    assume s: "calm ?w1 w2" "w_committed w2 = w_committed ?w1" "w_requests w2 = w_requests ?w1"
      "healthy_world ?w1 \<Longrightarrow> \<not> fresh_sign_in (gate_IssuedAt claimed) (Identity_LastSigninAt row)"
    show thesis
      by (rule that [of ?i "[]"])
        (use s out later u adm free in \<open>auto simp: identified_def uid healthy_world_def\<close>)
  next
    fix m assume s: "calm ?w1 w2" "fresh_sign_in (gate_IssuedAt claimed) (Identity_LastSigninAt row)"
      "sql_DBMarkSignIn \<lparr>MarkSignIn_IssuedAt = Some (dbtime_At (gate_IssuedAt claimed)),
          MarkSignIn_ID = Identity_ID row\<rparr> (w_committed ?w1) = Inr (m, w_committed w2)"
      "w_requests w2 = (w_requests ?w1)(n \<mapsto> ?req\<lparr>Request_audits := Request_audits ?req
          @ [sign_entry (Identity_ID row) (Identity_Email row) ActionSignIn (Request_ip ?req)]\<rparr>)"
    from s(3) have mark: "sql_DBMarkSignIn \<lparr>MarkSignIn_IssuedAt = Some (dbtime_At (gate_IssuedAt claimed)),
        MarkSignIn_ID = Identity_ID row\<rparr> ?v = Inr (m, w_committed w2)" by simp
    note f = mark_frame [OF wf mark]
    have "(u_id u, oidc_key u) \<in> set (map (\<lambda>u. (u_id u, oidc_key u)) (db_users (w_committed w2)))"
      unfolding f(4) using u(1) by simp
    then obtain u' where "u' \<in> set (db_users (w_committed w2))" "u_id u' = u_id u" "oidc_key u' = oidc_key u"
      by auto
    with s f u adm free out later show thesis
      by (intro that [of ?i "[?entry]"]) (auto simp: identified_def uid)
  qed
qed

lemma resolveIdentity_step:
  assumes base: "base_app a" and calm: "calm w w" and free: "open_env a ctx w = None"
    and req: "ctx_request ctx = Some n" "w_requests w n = Some req"
    and reasons: "reasons_given (w_committed w)"
    and run: "run (resolveIdentity a ctx n r) w = (res, w')"
  obtains (refused) "case res of Inr (Some i) \<Rightarrow> Auth_User i = None \<and> (Banned (Some i) \<or> Stale (Some i)) | _ \<Rightarrow> True"
      "calm w w'" "w_committed w' = w_committed w" "w_requests w' = w_requests w"
    | (known) i u claimed audits where "res = Inr (Some i)" "calm w w'" "verified_claims a r claimed"
      "identified a n req w claimed i u audits w'"
      "audits = [] \<or> audits = [sign_entry (User_ID u) (User_Email u) ActionSignIn (Request_ip req)]"
      "healthy_world w \<Longrightarrow> audits \<noteq> [] \<longleftrightarrow> sign_in_due claimed (w_committed w)"
proof -
  let ?v = "w_committed w"
  obtain g w1 where gate: "run (gate_IdentityOf (app_libs a) (state_gate_issuer (app_state a)) r) w = (g, w1)"
    by force
  note g1 = gate_step(1-3) [OF gate calm]
  show thesis
  proof (cases g)
    case (Inl err)
    with run gate g1 refused show thesis
      by (auto simp: resolveIdentity_def log_at_def calm_def Stale_def split: if_splits)
  next
    case (Inr claimed)
    note claims = gate_step(4) [OF gate calm Inr]
    let ?q = "\<lparr>IdentityParams_OidcIssuer = gate_Issuer claimed, IdentityParams_OidcSubject = gate_Subject claimed\<rparr>"
    obtain q w2 where look: "run (DBGetIdentityByOIDC (app_Queries a) ?q) w1 = (q, w2)" by force
    note l = identity_lookup [OF base_appD(1) [OF base] calm_self [OF g1(1)] look]
    have c2: "calm w w2" "calm w2 w2" "w_committed w2 = ?v" "w_requests w2 = w_requests w"
        "healthy_world w2 = healthy_world w"
      using l(1-3) g1 by (auto simp: calm_def healthy_world_def)
    have free2: "open_env a ctx w2 = None"
      using free open_env_frame [of w w2] c2(1,4) by (simp add: calm_def same_frame_def)
    have h: "healthy_world w1 = healthy_world w" using g1(1) by (simp add: calm_def healthy_world_def)
    have l4: "q = found (identity_row claimed ?v) \<or> \<not> healthy_world w \<and> (\<exists>e. q = Inl e \<and> \<not> IsNotFound e)"
      using l(4) g1(2) h by simp
    show thesis
    proof (cases q)
      case q: (Inl err)
      show thesis
      proof (cases "IsNotFound err")
        case True
        with l4 q have none: "identity_row claimed ?v = None"
          by (cases "identity_row claimed ?v") auto
        have "w_requests w2 n = Some req" using req(2) c2(4) by simp
        moreover have "user_with (gate_Issuer claimed) (gate_Subject claimed) (w_committed w2) = None"
          using none by (simp add: identity_row_None c2(3))
        moreover have "run (firstSignIn a ctx n claimed) w2 = (res, w')"
          using run gate Inr look q True by (simp add: resolveIdentity_def)
        ultimately show thesis
        proof (rule firstSignIn_step [OF c2(2) free2 req(1)])
          fix e assume s: "res = Inl e" "calm w2 w'" "w_committed w' = w_committed w2"
            "w_requests w' = w_requests w2"
          show thesis
            by (rule refused) (use s calm_trans [OF c2(1) s(2)] c2(3,4) in simp_all)
        next
          fix u adm row assume s: "res = Inr (Some \<lparr>Auth_User = Some u, Auth_IsAdmin = adm,
              Auth_BanReason = '''', Auth_StaleToken = False\<rparr>)" "calm w2 w'"
            "row \<in> set (db_users (w_committed w'))" "u_id row = User_ID u"
            "oidc_key row = (gate_Issuer claimed, gate_Subject claimed)"
            "User_ID u \<notin> banned_ids (w_committed w')" "adm \<longleftrightarrow> User_ID u \<in> admin_ids (w_committed w')"
            "w_requests w' = (w_requests w2)(n \<mapsto> req\<lparr>Request_user := Some u, Request_isAdmin := adm,
               Request_audits := Request_audits req
                 @ [sign_entry (User_ID u) (User_Email u) ActionSignIn (Request_ip req)]\<rparr>)"
          show thesis
            by (rule known [OF s(1) calm_trans [OF c2(1) s(2)] claims, of u
                  "[sign_entry (User_ID u) (User_Email u) ActionSignIn (Request_ip req)]"])
              (use s c2 none in \<open>auto simp: identified_def sign_in_due_def\<close>)
        qed
      next
        case False
        with run gate Inr look q have "res = Inl (Errorf_w ''failed to load identity'' err)" "w' = w2"
          by (simp_all add: resolveIdentity_def)
        with c2 show thesis by (intro refused) simp_all
      qed
    next
      case q: (Inr row)
      with l4 have row: "identity_row claimed ?v = Some row"
        by (cases "identity_row claimed ?v") auto
      show thesis
      proof (cases "Identity_BanReason row = ''''")
        case False
        with run gate Inr look q c2 refused show thesis
          by (auto simp: resolveIdentity_def Banned_def)
      next
        case True
        have "run (do {
            SetIdentity n (identity_user row) (Identity_IsAdmin row \<noteq> 0);
            recordSignIn a ctx n row (gate_IssuedAt claimed);
            ret (Inr (Some \<lparr>Auth_User = Some (identity_user row), Auth_IsAdmin = Identity_IsAdmin row \<noteq> 0,
                            Auth_BanReason = '''', Auth_StaleToken = False\<rparr>)) :: (World, AuthIdentity option) io
          }) w2 = (res, w')"
          using run gate Inr look q True by (simp add: resolveIdentity_def Let_def)
        moreover have "identity_row claimed (w_committed w2) = Some row" using row c2(3) by simp
        moreover have "reasons_given (w_committed w2)" using reasons c2(3) by simp
        moreover have "w_requests w2 n = Some req" using req(2) c2(4) by simp
        ultimately obtain i audits where s: "res = Inr (Some i)" "calm w2 w'"
            "identified a n req w2 claimed i (identity_user row) audits w'"
            "audits = [] \<or> audits = [sign_entry (Identity_ID row) (Identity_Email row) ActionSignIn (Request_ip req)]"
            "healthy_world w2 \<Longrightarrow> audits \<noteq> [] \<longleftrightarrow> fresh_sign_in (gate_IssuedAt claimed) (Identity_LastSigninAt row)"
          using known_user_step [OF base c2(2) req(1) _ _ True] by metis
        show thesis
          by (rule known [OF s(1) calm_trans [OF c2(1) s(2)] claims, of "identity_user row" audits])
            (use s c2 row in \<open>auto simp: identified_def sign_in_due_def identity_user_def\<close>)
      qed
    qed
  qed
qed

section \<open>Properties\<close>

text \<open>
  C17. An identity comes only from a verified token. When a request gets a user, the gate's
  token verified and named that user's issuer and subject, the user is not banned, the admin
  flag is what the database says now, and the request carries both. A banned user and a token
  that no longer verifies get an answer without a user; then, and on every error, neither the
  database nor the request has changed. No transaction stays open and nothing waits for the
  write connection.
\<close>

theorem resolveIdentity_sound:
  assumes "base_app a" "idle a ctx w" "ctx_request ctx = Some n" "w_requests w n = Some req"
    and "reasons_given (w_committed w)" and "run (resolveIdentity a ctx n r) w = (res, w')"
  shows "w_tx w' = None \<and> w_stalls w' = w_stalls w \<and> wf_db (w_committed w') \<and>
    (case res of
       Inr (Some i) \<Rightarrow>
         (case Auth_User i of
            Some u \<Rightarrow>
              (\<exists>claimed. verified_claims a r claimed \<and> (\<exists>row \<in> set (db_users (w_committed w')).
                 u_id row = User_ID u \<and> oidc_key row = (gate_Issuer claimed, gate_Subject claimed)))
              \<and> User_ID u \<notin> banned_ids (w_committed w')
              \<and> (Auth_IsAdmin i \<longleftrightarrow> User_ID u \<in> admin_ids (w_committed w'))
              \<and> (\<exists>req'. w_requests w' n = Some req' \<and> Request_user req' = Some u
                   \<and> Request_isAdmin req' = Auth_IsAdmin i)
          | None \<Rightarrow> (Banned (Some i) \<or> Stale (Some i))
              \<and> w_committed w' = w_committed w \<and> w_requests w' = w_requests w)
     | _ \<Rightarrow> w_committed w' = w_committed w \<and> w_requests w' = w_requests w)"
proof -
  have calm: "calm w w" using assms(2) by (simp add: idle_def calm_refl)
  show ?thesis
  proof (rule resolveIdentity_step [OF assms(1) calm idleD(2) [OF assms(2)] assms(3-6)])
    assume s: "case res of Inr (Some i) \<Rightarrow> Auth_User i = None \<and> (Banned (Some i) \<or> Stale (Some i)) | _ \<Rightarrow> True"
      "calm w w'" "w_committed w' = w_committed w" "w_requests w' = w_requests w"
    then show ?thesis by (auto simp: calm_def split: sum.splits option.splits)
  next
    fix i u claimed audits assume s: "res = Inr (Some i)" "calm w w'" "verified_claims a r claimed"
      "identified a n req w claimed i u audits w'"
    have "Auth_User i = Some u" using s(4) by (cases i) (simp add: identified_def)
    with s show ?thesis by (auto simp: calm_def identified_def)
  qed
qed

definition bearer :: "string \<Rightarrow> http_Request" where
  "bearer raw = \<lparr>http_Method = ''GET'', http_Path = ''/'',
     http_Header = [(''Authorization'', [''Bearer '' @ raw])], http_RemoteAddr = ''10.0.0.1:4000'', http_Body = '''',
     http_BodyLimit = None\<rparr>"

lemma demo_request: "ctx_request demo_ctx = Some 1"
  "w_requests demo_world 1 = Some \<lparr>Request_Env = demo_app,
     Request_user = Some (scan_User (demo_user 1 ''ann'')), Request_isAdmin = True,
     Request_ip = ''10.0.0.1'', Request_audits = []\<rparr>"
  by (simp_all add: demo_ctx_def demo_world_def)

lemma demo_reasons: "reasons_given (w_committed demo_world)"
  using demo_sound by (simp add: sound_panel_def)

lemma stale_answer:
  "map_sum id (map_option Auth_User)
     (fst (run (resolveIdentity demo_app demo_ctx 1 (bearer ''old'')) demo_world)) = Inr (Some None)"
  by code_simp

theorem resolveIdentity_sound_witness:
  "w_committed (snd (run (resolveIdentity demo_app demo_ctx 1 (bearer ''old'')) demo_world)) = demo_db"
proof -
  obtain res w' where run: "run (resolveIdentity demo_app demo_ctx 1 (bearer ''old'')) demo_world = (res, w')"
    by force
  obtain i where i: "res = Inr (Some i)" "Auth_User i = None"
    using stale_answer unfolding run by (cases res) auto
  from resolveIdentity_sound [OF demo_base demo_idle demo_request demo_reasons run] i
  show ?thesis unfolding run by (simp add: demo_world_def)
qed

text \<open>
  A sign-in is recorded when the token shows a fresh one, and only then: the request's
  buffer gains exactly one \<open>sign_in\<close> entry, of that user and from the request's address, when
  the user is new or the token was issued after the last recorded sign-in, and otherwise none.
\<close>

theorem resolveIdentity_records_sign_in:
  assumes "base_app a" "idle a ctx w" "ctx_request ctx = Some n" "w_requests w n = Some req"
    and "reasons_given (w_committed w)" "healthy_world w"
    and "run (resolveIdentity a ctx n r) w = (Inr (Some i), w')" "Auth_User i = Some u"
  shows "\<exists>claimed. verified_claims a r claimed \<and>
    w_requests w' = (w_requests w)(n \<mapsto> req\<lparr>Request_user := Some u, Request_isAdmin := Auth_IsAdmin i,
      Request_audits := Request_audits req @
        (if sign_in_due claimed (w_committed w)
         then [sign_entry (User_ID u) (User_Email u) ActionSignIn (Request_ip req)] else [])\<rparr>)"
proof -
  have calm: "calm w w" using assms(2) by (simp add: idle_def calm_refl)
  show ?thesis
  proof (rule resolveIdentity_step [OF assms(1) calm idleD(2) [OF assms(2)] assms(3-5,7)])
    fix j u' claimed audits assume s: "Inr (Some i) = (Inr (Some j) :: go_error + AuthIdentity option)"
      "verified_claims a r claimed" "identified a n req w claimed j u' audits w'"
      "audits = [] \<or> audits = [sign_entry (User_ID u') (User_Email u') ActionSignIn (Request_ip req)]"
      "healthy_world w \<Longrightarrow> audits \<noteq> [] \<longleftrightarrow> sign_in_due claimed (w_committed w)"
    have "j = i" "u' = u" using s(1,3) assms(8) by (cases j; simp add: identified_def)+
    with s assms(6) show ?thesis by (intro exI [of _ claimed]) (auto simp: identified_def)
  qed (use assms(8) in simp)
qed

lemma root_answer:
  "(case run (resolveIdentity demo_app demo_ctx 1 (bearer ''good'')) demo_world of
      (Inr (Some i), w') \<Rightarrow> map_option (\<lambda>u. (User_ID u, User_Email u)) (Auth_User i)
    | _ \<Rightarrow> None) = Some (4, ''root@example.com'')"
  by code_simp

theorem resolveIdentity_records_sign_in_witness:
  "\<exists>req. w_requests (snd (run (resolveIdentity demo_app demo_ctx 1 (bearer ''good'')) demo_world)) 1 = Some req
     \<and> Request_ip req = ''10.0.0.1''"
proof -
  obtain res w' where run: "run (resolveIdentity demo_app demo_ctx 1 (bearer ''good'')) demo_world = (res, w')"
    by force
  obtain i u where i: "res = Inr (Some i)" "Auth_User i = Some u"
    using root_answer unfolding run by (auto split: sum.splits option.splits)
  have "healthy_world demo_world" by (simp add: healthy_world_def demo_world_def)
  from resolveIdentity_records_sign_in [OF demo_base demo_idle demo_request demo_reasons this
      run [unfolded i(1)] i(2)]
  show ?thesis unfolding run by auto
qed

text \<open>
  However many requests present the same token at once, at most one of them records the
  sign-in: after one \<open>DBMarkSignIn\<close>, another for a sign-in no later marks nothing and changes
  nothing.
\<close>

lemma DBMarkSignIn_at_most_once:
  assumes "wf_db v"
    and "sql_DBMarkSignIn \<lparr>MarkSignIn_IssuedAt = Some s, MarkSignIn_ID = uid\<rparr> v = Inr (m, v')"
    and "stored_at s' \<le> stored_at s"
  shows "m \<in> {0, 1} \<and>
    sql_DBMarkSignIn \<lparr>MarkSignIn_IssuedAt = Some s', MarkSignIn_ID = uid\<rparr> v' = Inr (0, v')"
proof -
  have wf': "wf_db v'" using wf_DBMarkSignIn assms(1,2) by (auto simp: keeps_wf_def)
  show ?thesis
  proof (cases "row_of u_id uid (db_users v)")
    case None
    with assms(2) have "m = 0" "v' = v" unfolding DBMarkSignIn_cases [OF assms(1)] by simp_all
    with None show ?thesis by (simp add: DBMarkSignIn_cases [OF assms(1)])
  next
    case (Some u)
    then have u: "u_id u = uid" using row_of_SomeD by fastforce
    let ?set = "\<lambda>x. if u_id x = uid then x\<lparr>u_last_signin_at := Some (stored_at s)\<rparr> else x"
    have upd: "row_of u_id uid (map ?set (db_users v)) = Some (u\<lparr>u_last_signin_at := Some (stored_at s)\<rparr>)"
      by (subst row_of_update) (simp_all add: Some u)
    show ?thesis
    proof (cases "marks_sign_in (Some (stored_at s)) u")
      case True
      with assms(2) Some have "m = 1" "v' = v\<lparr>db_users := map ?set (db_users v)\<rparr>"
        unfolding DBMarkSignIn_cases [OF assms(1)] by simp_all
      with upd assms(3) show ?thesis
        unfolding DBMarkSignIn_cases [OF wf'] by (simp add: marks_sign_in_def)
    next
      case False
      with assms(2) Some have "m = 0" "v' = v" unfolding DBMarkSignIn_cases [OF assms(1)] by simp_all
      moreover have "\<not> marks_sign_in (Some (stored_at s')) u"
        using False assms(3) by (auto simp: marks_sign_in_def split: option.splits)
      ultimately show ?thesis by (simp add: DBMarkSignIn_cases [OF assms(1)] Some)
    qed
  qed
qed

lemma DBMarkSignIn_at_most_once_witness:
  "(case sql_DBMarkSignIn \<lparr>MarkSignIn_IssuedAt = Some (stamp_of 9), MarkSignIn_ID = 2\<rparr> demo_db of
      Inr (m, v') \<Rightarrow> m = 1 \<and> sql_DBMarkSignIn \<lparr>MarkSignIn_IssuedAt = Some (stamp_of 9), MarkSignIn_ID = 2\<rparr> v'
        = Inr (0, v')
    | Inl e \<Rightarrow> False)"
proof -
  have "(case sql_DBMarkSignIn \<lparr>MarkSignIn_IssuedAt = Some (stamp_of 9), MarkSignIn_ID = 2\<rparr> demo_db of
      Inr (m, v') \<Rightarrow> m = 1 | Inl e \<Rightarrow> False)" by code_simp
  then show ?thesis
    using DBMarkSignIn_at_most_once [OF demo_wf, of "stamp_of 9" 2 _ _ "stamp_of 9"]
    by (auto split: sum.splits)
qed

section \<open>What reaches the audit log\<close>

definition row_entry :: "audit_log_row \<Rightarrow> audit_Entry" where
  "row_entry r =
     \<lparr>Entry_UserID = l_user_id r, Entry_Email = l_email r, Entry_Action = l_action r,
      Entry_Detail = l_detail r, Entry_IP = l_ip r\<rparr>"

definition log_appended :: "Database \<Rightarrow> audit_log_row list \<Rightarrow> Database \<Rightarrow> bool" where
  "log_appended v rows v' \<longleftrightarrow>
     v' = v\<lparr>seq_audit_log := seq_audit_log v + int (length rows), db_audit_log := db_audit_log v @ rows\<rparr>"

lemma audit_insert_step:
  assumes "base_app a" "calm w w"
    and "run (DBInsertAuditLog (state_baseWrite (app_state a))
       \<lparr>InsertAuditLog_UserID = Entry_UserID entry, InsertAuditLog_Email = Entry_Email entry,
        InsertAuditLog_Action = Entry_Action entry, InsertAuditLog_Detail = Entry_Detail entry,
        InsertAuditLog_Ip = Entry_IP entry, InsertAuditLog_CreatedAt = at\<rparr>) w = (r, w')"
  shows "calm w w'" "w_requests w' = w_requests w"
    "(\<exists>row. r = Inr () \<and> row_entry row = entry \<and> log_appended (w_committed w) [row] (w_committed w'))
     \<or> (\<not> healthy_world w \<or> seq_audit_log (w_committed w) \<ge> max_int64)
        \<and> (\<exists>e. r = Inl e) \<and> w_committed w' = w_committed w"
proof -
  let ?arg = "\<lparr>InsertAuditLog_UserID = Entry_UserID entry, InsertAuditLog_Email = Entry_Email entry,
        InsertAuditLog_Action = Entry_Action entry, InsertAuditLog_Detail = Entry_Detail entry,
        InsertAuditLog_Ip = Entry_IP entry, InsertAuditLog_CreatedAt = at\<rparr>"
  let ?v = "w_committed w"
  have ins: "\<exists>row. row_entry row = entry \<and> log_appended ?v [row] v'"
    if "sql_DBInsertAuditLog ?arg ?v = Inr (x, v')" for x v'
    using that
    by (intro exI [of _ "\<lparr>l_id = seq_audit_log ?v + 1, l_user_id = Entry_UserID entry,
          l_email = Entry_Email entry, l_action = Entry_Action entry, l_detail = Entry_Detail entry,
          l_ip = Entry_IP entry, l_created_at = stored_at at\<rparr>"])
      (auto simp: sql_DBInsertAuditLog_def Let_def log_appended_def row_entry_def split: if_splits)
  have full: "seq_audit_log ?v \<ge> max_int64" if "sql_DBInsertAuditLog ?arg ?v = Inl e" for e
    using that by (auto simp: sql_DBInsertAuditLog_def Let_def split: if_splits)
  have "pool_performs w (write_on WritePool (sql_DBInsertAuditLog ?arg)) (sql_DBInsertAuditLog ?arg)"
    by (rule pool_write [OF wf_DBInsertAuditLog])
  then have step: "pool.wp w (write_on WritePool (sql_DBInsertAuditLog ?arg)) (\<lambda>r v'.
      (\<exists>row. r = Inr () \<and> row_entry row = entry \<and> log_appended ?v [row] v')
      \<or> (\<not> healthy_world w \<or> seq_audit_log ?v \<ge> max_int64) \<and> (\<exists>e. r = Inl e) \<and> v' = ?v) ?v"
    by (rule pool.wp_performs) (auto dest: ins full)
  have "run (write_on WritePool (sql_DBInsertAuditLog ?arg)) w = (r, w')"
    using assms(3) base_appD(2) [OF assms(1)] by (simp add: DBInsertAuditLog_def)
  from pool.wpD [OF step _ this] assms(2)
  show "calm w w'" "w_requests w' = w_requests w"
    "(\<exists>row. r = Inr () \<and> row_entry row = entry \<and> log_appended (w_committed w) [row] (w_committed w'))
     \<or> (\<not> healthy_world w \<or> seq_audit_log (w_committed w) \<ge> max_int64)
        \<and> (\<exists>e. r = Inl e) \<and> w_committed w' = w_committed w"
    by (auto simp: calm_at_rest)
qed

lemma flushAudit_step:
  assumes "base_app a" "calm w w" "run (flushAudit a entries) w = ((), w')"
  shows "calm w w' \<and> w_requests w' = w_requests w \<and>
    (\<exists>rows. log_appended (w_committed w) rows (w_committed w') \<and> subseq (map row_entry rows) entries
       \<and> (healthy_world w \<and> seq_audit_log (w_committed w) + int (length entries) \<le> max_int64
            \<longrightarrow> map row_entry rows = entries))"
  using assms(2,3)
proof (induction entries arbitrary: w)
  case Nil
  then show ?case by (auto simp: log_appended_def intro!: exI [of _ "[]"])
next
  case (Cons entry entries)
  let ?w0 = "w\<lparr>w_ticks := Suc (w_ticks w)\<rparr>"
  let ?arg = "\<lparr>InsertAuditLog_UserID = Entry_UserID entry, InsertAuditLog_Email = Entry_Email entry,
        InsertAuditLog_Action = Entry_Action entry, InsertAuditLog_Detail = Entry_Detail entry,
        InsertAuditLog_Ip = Entry_IP entry,
        InsertAuditLog_CreatedAt = dbtime_At (w_clock w (w_ticks w))\<rparr>"
  obtain r w1 where ins: "run (DBInsertAuditLog (state_baseWrite (app_state a)) ?arg) ?w0 = (r, w1)"
    by force
  have c0: "calm ?w0 ?w0" using Cons.prems(1) by (simp add: calm_def)
  note step = audit_insert_step [OF assms(1) c0 ins]
  define w2 where "w2 = (case r of
      Inl err \<Rightarrow> w1\<lparr>w_log := w_log w1 @ [Log Error ''failed to write audit entry''
                     [(''action'', Entry_Action entry), (''error'', error_text err)]]\<rparr>
    | Inr _ \<Rightarrow> w1)"
  have rest: "run (flushAudit a entries) w2 = ((), w')"
    using Cons.prems(2) ins by (cases r) (auto simp: Now_def log_at_def w2_def)
  have w2: "calm w w2" "w_requests w2 = w_requests w" "w_committed w2 = w_committed w1"
      "healthy_world w2 = healthy_world w"
    using step(1,2) by (auto simp: w2_def calm_def healthy_world_def split: sum.splits)
  from Cons.IH [OF calm_self [OF w2(1)] rest] obtain rows where
    rows: "calm w2 w'" "w_requests w' = w_requests w2" "log_appended (w_committed w2) rows (w_committed w')"
      "subseq (map row_entry rows) entries"
      "healthy_world w2 \<and> seq_audit_log (w_committed w2) + int (length entries) \<le> max_int64
         \<longrightarrow> map row_entry rows = entries" by auto
  from step(3) consider (stored) row where "row_entry row = entry"
        "log_appended (w_committed ?w0) [row] (w_committed w1)"
    | (lost) "\<not> healthy_world ?w0 \<or> seq_audit_log (w_committed ?w0) \<ge> max_int64"
        "w_committed w1 = w_committed ?w0" by blast
  then show ?case
  proof cases
    case row: stored
    have "log_appended (w_committed w) (row # rows) (w_committed w')"
      using row(2) rows(3) w2(3) by (simp add: log_appended_def algebra_simps)
    moreover have "subseq (map row_entry (row # rows)) (entry # entries)" using rows(4) row(1) by simp
    moreover have "healthy_world w \<and> seq_audit_log (w_committed w) + int (length (entry # entries)) \<le> max_int64
         \<longrightarrow> map row_entry (row # rows) = entry # entries"
      using rows(5) row w2(3,4) by (simp add: log_appended_def algebra_simps)
    ultimately show ?thesis using calm_trans [OF w2(1) rows(1)] rows(2) w2(2) by metis
  next
    case fail: lost
    have "subseq (map row_entry rows) (entry # entries)" using rows(4) by (rule list_emb_Cons)
    moreover have "log_appended (w_committed w) rows (w_committed w')" using rows(3) w2(3) fail(2) by simp
    moreover have "\<not> (healthy_world w \<and> seq_audit_log (w_committed w) + int (length (entry # entries)) \<le> max_int64)"
      using fail(1) by (auto simp: healthy_world_def)
    ultimately show ?thesis using calm_trans [OF w2(1) rows(1)] rows(2) w2(2) by metis
  qed
qed

lemma run_unit: "run (c :: (World, unit) state) w = ((), snd (run c w))"
  by (cases "run c w") simp

text \<open>
  Flushing the buffered entries only ever appends to the audit log: the new rows are
  entries of the buffer, in order, each at most once, whatever fails; on a healthy connection
  with row numbers left they are all of them. Nothing else in the database changes, nothing
  waits for the write connection and no transaction is opened.
\<close>

theorem flushAudit_appends:
  assumes "base_app a" "w_tx w = None" "wf_db (w_committed w)" and "run (flushAudit a entries) w = ((), w')"
  shows "w_tx w' = None \<and> w_stalls w' = w_stalls w \<and>
    (\<exists>rows. w_committed w' = (w_committed w)
           \<lparr>seq_audit_log := seq_audit_log (w_committed w) + int (length rows),
            db_audit_log := db_audit_log (w_committed w) @ rows\<rparr>
       \<and> subseq (map row_entry rows) entries
       \<and> (healthy_world w \<and> seq_audit_log (w_committed w) + int (length entries) \<le> max_int64
            \<longrightarrow> map row_entry rows = entries))"
  using flushAudit_step [OF assms(1) _ assms(4)] assms(2,3)
  by (auto simp: calm_refl calm_def log_appended_def)

theorem flushAudit_appends_witness:
  "map row_entry (drop 2 (db_audit_log (w_committed (snd (run (flushAudit demo_app
      [sign_entry 1 ''ann@example.com'' ActionSignOut ''10.0.0.1'']) demo_world)))))
   = [sign_entry 1 ''ann@example.com'' ActionSignOut ''10.0.0.1'']"
proof -
  obtain w' where run: "run (flushAudit demo_app [sign_entry 1 ''ann@example.com'' ActionSignOut ''10.0.0.1''])
      demo_world = ((), w')" using run_unit ..
  have d: "length (db_audit_log (w_committed demo_world)) = 2" "healthy_world demo_world"
    "seq_audit_log (w_committed demo_world) = 2" "w_tx demo_world = None"
    by (simp_all add: demo_world_def demo_db_def healthy_world_def)
  have small: "2 + int (length [sign_entry 1 ''ann@example.com'' ActionSignOut ''10.0.0.1'']) \<le> max_int64"
    by (simp add: max_int64_def)
  have "wf_db (w_committed demo_world)" using demo_wf by (simp add: demo_world_def)
  from flushAudit_appends [OF demo_base d(4) this run, THEN conjunct2, THEN conjunct2]
  obtain rows where rows: "w_committed w' = (w_committed demo_world)
        \<lparr>seq_audit_log := seq_audit_log (w_committed demo_world) + int (length rows),
         db_audit_log := db_audit_log (w_committed demo_world) @ rows\<rparr>
      \<and> subseq (map row_entry rows) [sign_entry 1 ''ann@example.com'' ActionSignOut ''10.0.0.1'']
      \<and> (healthy_world demo_world \<and> seq_audit_log (w_committed demo_world)
           + int (length [sign_entry 1 ''ann@example.com'' ActionSignOut ''10.0.0.1'']) \<le> max_int64
         \<longrightarrow> map row_entry rows = [sign_entry 1 ''ann@example.com'' ActionSignOut ''10.0.0.1''])" ..
  note stored = conjunct1 [OF rows] and all = conjunct2 [OF conjunct2 [OF rows]]
  from mp [OF all [unfolded d(3)] conjI [OF d(2) small]]
  have "map row_entry rows = [sign_entry 1 ''ann@example.com'' ActionSignOut ''10.0.0.1'']" .
  with d(1) show ?thesis unfolding run snd_conv stored by simp
qed

end
