(* ===== verification/Json.thy ===== *)
theory Json
  imports Netip
begin

text \<open>
  What the program uses of \<open>encoding/json\<close>: writing the values that a GraphQL request's
  variables can hold. The text is escaped as \<open>json.Marshal\<close> does it by default: the HTML
  characters and the two line separators as \<open>\u\<close> sequences, bytes that are no UTF-8 as the
  replacement character.
\<close>

section \<open>Values\<close>

text \<open>
  The values of a decoded document: the members of an object are a Go map, in any order. A
  number is a \<open>json.Number\<close>, which keeps its text.
\<close>

datatype json =
    JNull
  | JBool bool
  | JNumber string
  | JString string
  | JArray "json list"
  | JObject "(string \<times> json) list"

section \<open>Runes\<close>

text \<open>The length of the encoded rune a text starts with; zero when the decoder fails there.\<close>

definition rune_len :: "string \<Rightarrow> nat" where
  "rune_len s =
     (case find (\<lambda>k. k \<le> length s \<and> rune_bytes (take k s)) [1, 2, 3, 4] of
        None \<Rightarrow> 0
      | Some k \<Rightarrow> k)"

lemma rune_len_le: "rune_len s \<le> length s"
  by (auto simp: rune_len_def find_Some_iff simp del: find.simps split: option.splits)

lemma rune_len_bytes: "rune_len s = n \<Longrightarrow> n \<noteq> 0 \<Longrightarrow> rune_bytes (take n s)"
  by (auto simp: rune_len_def find_Some_iff simp del: find.simps split: option.splits)

section \<open>Writing a string\<close>

definition backslash :: char where "backslash = CHR 0x5C"
definition quote :: char where "quote = CHR 0x22"

definition u_escape :: "char \<Rightarrow> string" where
  "u_escape c =
     [backslash] @ ''u00'' @ [hex_digit (byte_val c div 16), hex_digit (byte_val c mod 16)]"

definition escape_ascii :: "char \<Rightarrow> string" where
  "escape_ascii c =
     (if c = quote \<or> c = backslash then [backslash, c]
      else if c = CHR 0x08 then [backslash, CHR ''b'']
      else if c = CHR 0x0C then [backslash, CHR ''f'']
      else if c = CHR 0x0A then [backslash, CHR ''n'']
      else if c = CHR 0x0D then [backslash, CHR ''r'']
      else if c = CHR 0x09 then [backslash, CHR ''t'']
      else if byte_val c < 0x20 \<or> c = CHR ''<'' \<or> c = CHR ''>'' \<or> c = CHR ''&''
      then u_escape c
      else [c])"

definition escape_rune :: "string \<Rightarrow> string" where
  "escape_rune r =
     (if r = [CHR 0xE2, CHR 0x80, CHR 0xA8] then [backslash] @ ''u2028''
      else if r = [CHR 0xE2, CHR 0x80, CHR 0xA9] then [backslash] @ ''u2029''
      else r)"

function (sequential) json_escape :: "string \<Rightarrow> string" where
  "json_escape [] = []"
| "json_escape (c # s) =
     (if byte_val c < 0x80 then escape_ascii c @ json_escape s
      else let n = rune_len (c # s) in
        if n = 0 then [backslash] @ ''ufffd'' @ json_escape s
        else escape_rune (take n (c # s)) @ json_escape (drop n (c # s)))"
  by pat_completeness auto
termination
  by (relation "measure length") auto

definition json_quote :: "string \<Rightarrow> string" where
  "json_quote s = [quote] @ json_escape s @ [quote]"

section \<open>Writing a value\<close>

text \<open>\<open>isValidNumber\<close>: an optional sign, an integer with no leading zero, a fraction, an exponent.\<close>

definition drop_sign :: "string \<Rightarrow> string" where
  "drop_sign s = (case s of [] \<Rightarrow> [] | c # t \<Rightarrow> (if c = CHR ''-'' \<or> c = CHR ''+'' then t else s))"

definition valid_exponent :: "string \<Rightarrow> bool" where
  "valid_exponent s =
     (case s of
        [] \<Rightarrow> True
      | c # t \<Rightarrow> (c = CHR ''e'' \<or> c = CHR ''E'') \<and> drop_sign t \<noteq> []
                  \<and> list_all is_digit (drop_sign t))"

definition valid_fraction :: "string \<Rightarrow> bool" where
  "valid_fraction s =
     (case s of
        [] \<Rightarrow> True
      | c # t \<Rightarrow>
          if c = CHR ''.'' \<and> t \<noteq> [] \<and> is_digit (hd t)
          then valid_exponent (dropWhile is_digit t) else valid_exponent s)"

definition isValidNumber :: "string \<Rightarrow> bool" where
  "isValidNumber s =
     (let t = (if HasPrefix s ''-'' then tl s else s) in
      case t of
        [] \<Rightarrow> False
      | c # u \<Rightarrow>
          if c = CHR ''0'' then valid_fraction u
          else is_digit c \<and> valid_fraction (dropWhile is_digit u))"

text \<open>The first error of a list of results, or their values.\<close>

fun collect :: "(go_error + 'a) list \<Rightarrow> go_error + 'a list" where
  "collect [] = Inr []"
| "collect (Inl err # rs) = Inl err"
| "collect (Inr x # rs) = (case collect rs of Inl err \<Rightarrow> Inl err | Inr xs \<Rightarrow> Inr (x # xs))"

definition json_member :: "string \<times> (go_error + string) \<Rightarrow> go_error + string" where
  "json_member m = map_sum id (\<lambda>t. json_quote (fst m) @ '':'' @ t) (snd m)"

fun json_encode :: "json \<Rightarrow> go_error + string" where
  "json_encode JNull = Inr ''null''"
| "json_encode (JBool b) = Inr (if b then ''true'' else ''false'')"
| "json_encode (JNumber t) =
     (if t = [] then Inr ''0''
      else if isValidNumber t then Inr t
      else Inl (NewError (''json: invalid number literal '' @ json_quote t)))"
| "json_encode (JString s) = Inr (json_quote s)"
| "json_encode (JArray vs) =
     (case collect (map json_encode vs) of
        Inl err \<Rightarrow> Inl err
      | Inr ts \<Rightarrow> Inr (''['' @ Join ts '','' @ '']''))"
| "json_encode (JObject ms) =
     (case collect (map json_member (sort_key fst (map (\<lambda>m. (fst m, json_encode (snd m))) ms))) of
        Inl err \<Rightarrow> Inl err
      | Inr ts \<Rightarrow> Inr (''{'' @ Join ts '','' @ ''}''))"

section \<open>What is written is UTF-8\<close>

lemma byte_val_char: "0 \<le> n \<Longrightarrow> n < 256 \<Longrightarrow> byte_val (char_of n) = n"
  by (simp add: byte_val_def of_char_of)

lemma valid_utf8_Cons: "byte_val c < 0x80 \<Longrightarrow> valid_utf8 s \<Longrightarrow> valid_utf8 (c # s)"
  using valid_utf8.rune [of "[c]" s] by (simp add: byte_in_def byte_val_def byte_nonneg)

lemma valid_utf8_rune: "rune_bytes r \<Longrightarrow> valid_utf8 r"
  using valid_utf8.rune [of r "[]"] valid_utf8.empty by simp

lemma hex_digit_ascii: "0 \<le> d \<Longrightarrow> d < 16 \<Longrightarrow> byte_val (hex_digit d) < 0x80"
  by (simp add: hex_digit_def byte_val_char)

lemma byte_val_lt: "byte_val c < 256"
  unfolding byte_val_def by (metis of_char_mod_256 pos_mod_bound zero_less_numeral)

lemma is_ascii_byte_val: "is_ascii s \<longleftrightarrow> list_all (\<lambda>c. byte_val c < 0x80) s"
  by (simp add: is_ascii_def byte_val_def)

lemma ascii_chars [simp]:
  "byte_val quote < 0x80" "byte_val backslash < 0x80"
  by (simp_all add: quote_def backslash_def byte_val_def)

lemma ascii_letters [simp]:
  "byte_val CHR ''b'' < 0x80" "byte_val CHR ''f'' < 0x80" "byte_val CHR ''n'' < 0x80"
  "byte_val CHR ''r'' < 0x80" "byte_val CHR ''t'' < 0x80" "byte_val CHR ''u'' < 0x80"
  "byte_val CHR ''d'' < 0x80" "byte_val CHR ''0'' < 0x80" "byte_val CHR ''2'' < 0x80"
  "byte_val CHR ''8'' < 0x80" "byte_val CHR ''9'' < 0x80"
  by (simp_all add: byte_val_def)

lemma byte_val_nonneg [simp]: "0 \<le> byte_val c"
  by (simp add: byte_val_def byte_nonneg)

lemma ascii_u_escape: "byte_val c < 0x80 \<Longrightarrow> is_ascii (u_escape c)"
  by (auto simp: is_ascii_byte_val u_escape_def pos_imp_zdiv_nonneg_iff intro!: hex_digit_ascii)

lemma ascii_escape_ascii: "byte_val c < 0x80 \<Longrightarrow> is_ascii (escape_ascii c)"
  using ascii_u_escape [of c] by (simp add: escape_ascii_def is_ascii_byte_val)

lemma ascii_escape_words [simp]:
  "is_ascii ([backslash] @ ''u2028'')" "is_ascii ([backslash] @ ''u2029'')"
  "is_ascii ([backslash] @ ''ufffd'')"
  by (simp_all add: is_ascii_byte_val)

lemma valid_utf8_escape_rune: "rune_bytes r \<Longrightarrow> valid_utf8 (escape_rune r)"
  using ascii_escape_words [THEN valid_utf8_ascii]
  by (simp add: escape_rune_def valid_utf8_rune)

lemma valid_utf8_json_escape: "valid_utf8 (json_escape s)"
proof (induction s rule: json_escape.induct)
  case 1
  then show ?case by (simp add: valid_utf8.empty)
next
  case (2 c s)
  have bad: "valid_utf8 ([backslash] @ ''ufffd'')" by (rule valid_utf8_ascii [OF ascii_escape_words(3)])
  show ?case
  proof (cases "byte_val c < 0x80")
    case True
    with 2 show ?thesis by (simp add: valid_utf8_append valid_utf8_ascii ascii_escape_ascii)
  next
    case big: False
    show ?thesis
    proof (cases "rune_len (c # s) = 0")
      case True
      then show ?thesis using big 2(2) [OF big refl True] valid_utf8_append [OF bad] by simp
    next
      case False
      have "valid_utf8 (escape_rune (take (rune_len (c # s)) (c # s)))"
        using False by (intro valid_utf8_escape_rune rune_len_bytes) simp
      with 2(3) [OF big refl False] big False show ?thesis
        by (simp add: Let_def valid_utf8_append)
    qed
  qed
qed

lemma valid_utf8_json_quote [simp]: "valid_utf8 (json_quote s)"
  by (simp add: json_quote_def valid_utf8_Cons valid_utf8_append valid_utf8_json_escape
      valid_utf8.empty)

lemma valid_utf8_Join:
  "list_all valid_utf8 ts \<Longrightarrow> valid_utf8 sep \<Longrightarrow> valid_utf8 (Join ts sep)"
  by (induction ts sep rule: Join.induct) (auto intro!: valid_utf8_append valid_utf8.empty)

lemma collect_all: "collect rs = Inr xs \<Longrightarrow> list_all (\<lambda>r. \<forall>x. r = Inr x \<longrightarrow> P x) rs \<Longrightarrow> list_all P xs"
  by (induction rs arbitrary: xs rule: collect.induct) (auto split: sum.splits)

lemma digits_ascii: "is_digit c \<Longrightarrow> byte_val c < 0x80"
  by (simp add: is_digit_def)

lemma is_ascii_append: "is_ascii (s @ t) \<longleftrightarrow> is_ascii s \<and> is_ascii t"
  by (simp add: is_ascii_def)

lemma ascii_digits: "list_all is_digit s \<Longrightarrow> is_ascii s"
  by (auto simp: is_ascii_byte_val is_digit_def list_all_iff)

lemma ascii_after_digits: "is_ascii (dropWhile is_digit s) \<Longrightarrow> is_ascii s"
proof -
  assume rest: "is_ascii (dropWhile is_digit s)"
  have "is_ascii (takeWhile is_digit s)"
    by (auto intro!: ascii_digits simp: list_all_iff dest: set_takeWhileD)
  with rest show "is_ascii s" by (metis is_ascii_append takeWhile_dropWhile_id)
qed

lemma ascii_Cons: "is_ascii (c # s) \<longleftrightarrow> byte_val c < 0x80 \<and> is_ascii s"
  by (simp add: is_ascii_byte_val)

lemma ascii_Nil [simp]: "is_ascii []"
  by (simp add: is_ascii_def)

lemma ascii_drop_sign: "is_ascii (drop_sign s) \<Longrightarrow> is_ascii s"
  by (auto simp: drop_sign_def ascii_Cons byte_val_def split: list.splits if_splits)

lemma ascii_exponent: "valid_exponent s \<Longrightarrow> is_ascii s"
  by (auto simp: valid_exponent_def ascii_Cons byte_val_def split: list.splits
      intro!: ascii_drop_sign [OF ascii_digits])

lemma ascii_fraction:
  assumes "valid_fraction s"
  shows "is_ascii s"
proof (cases s)
  case (Cons c u)
  show ?thesis
  proof (cases "c = CHR ''.'' \<and> u \<noteq> [] \<and> is_digit (hd u)")
    case True
    with assms Cons have "is_ascii u"
      by (auto simp: valid_fraction_def intro: ascii_after_digits ascii_exponent)
    with True Cons show ?thesis by (simp add: ascii_Cons byte_val_def)
  next
    case False
    then have "valid_fraction s = valid_exponent s" by (auto simp: valid_fraction_def Cons)
    with assms show ?thesis by (simp add: ascii_exponent)
  qed
qed simp

lemma ascii_integer: "is_digit c \<Longrightarrow> valid_fraction (dropWhile is_digit u) \<Longrightarrow> is_ascii (c # u)"
  by (simp add: ascii_Cons digits_ascii ascii_after_digits ascii_fraction)

lemma ascii_number:
  assumes "isValidNumber t"
  shows "is_ascii t"
proof -
  have zero: "byte_val CHR ''0'' < 0x80" by (simp add: byte_val_def)
  have "is_ascii (if HasPrefix t ''-'' then tl t else t)"
    using assms zero unfolding isValidNumber_def Let_def
    by (auto simp: ascii_Cons split: list.splits if_splits intro: ascii_fraction
        dest: ascii_integer)
  then show ?thesis
    by (cases t) (auto simp: HasPrefix_def ascii_Cons byte_val_def split: if_splits)
qed

lemma valid_utf8_member:
  assumes "json_member m = Inr x" "\<And>t. snd m = Inr t \<Longrightarrow> valid_utf8 t"
  shows "valid_utf8 x"
  using assms
  by (cases "snd m") (auto simp: json_member_def byte_val_def intro!: valid_utf8_append valid_utf8_Cons)

text \<open>Whatever the values hold, the text written for them is valid UTF-8.\<close>

lemma valid_utf8_json_encode: "json_encode v = Inr t \<Longrightarrow> valid_utf8 t"
proof (induction v arbitrary: t rule: json_encode.induct)
  case (3 n)
  have "is_ascii ''0''" by (simp add: ascii_Cons byte_val_def)
  with 3 show ?case by (auto split: if_splits intro: valid_utf8_ascii ascii_number)
next
  case (5 vs)
  then obtain ts where ts: "collect (map json_encode vs) = Inr ts" "t = ''['' @ Join ts '','' @ '']''"
    by (auto split: sum.splits)
  have "list_all valid_utf8 ts"
    using ts(1) by (rule collect_all) (use 5(1) in \<open>auto simp: list_all_iff\<close>)
  then show ?case using ts(2)
    by (auto intro!: valid_utf8_Cons valid_utf8_append valid_utf8_Join valid_utf8.empty simp: byte_val_def)
next
  case (6 ms)
  let ?rs = "map json_member (sort_key fst (map (\<lambda>m. (fst m, json_encode (snd m))) ms))"
  from 6(2) obtain ts where ts: "collect ?rs = Inr ts" "t = ''{'' @ Join ts '','' @ ''}''"
    by (auto split: sum.splits)
  have "list_all valid_utf8 ts"
    using ts(1) by (rule collect_all)
      (use 6(1) in \<open>auto simp: list_all_iff intro: valid_utf8_member\<close>)
  then show ?case using ts(2)
    by (auto intro!: valid_utf8_Cons valid_utf8_append valid_utf8_Join valid_utf8.empty simp: byte_val_def)
qed (auto intro!: valid_utf8_ascii simp: is_ascii_byte_val byte_val_def)

end
