(* ===== verification/Graph.thy ===== *)
theory Graph
  imports Auth Json
begin

text \<open>
  The hand-written GraphQL layer (internal/graph): the \<open>Env\<close> of the resolvers, the admin
  boundary (resolver.go), what the audit log records of an operation (audit_entry.go), the
  resolvers (schema.resolvers.go, rows.go), what a caller reads of an error
  (error_presenter.go) and the handler's set-up (handler.go).
\<close>

section \<open>Values of gqlgen\<close>

text \<open>
  A selection set is a list of fields and fragments. What \<open>gqlgen\<close> does with it is a library
  function: \<open>gql_CollectFields\<close> gives the fields selected on an object of one of the named
  types, each with the labels of the \<open>@defer\<close> directives it stands under. The default error
  presenter, \<open>gqlerror.WrapPath\<close> and the texts of an error and of a path are library functions
  too.
\<close>

datatype Selection =
    SelField (sel_Alias: string) (sel_Name: string) (sel_Args: "(string \<times> json) list")
      (sel_Selections: "Selection list")
  | SelFragment string "Selection list"

record CollectedField =
  field_Alias :: string
  field_Name :: string
  field_Args :: "(string \<times> json) list"
  field_Selections :: "Selection list"
  field_Deferrables :: "string list"

datatype operation = Query | Mutation | Subscription

record OperationContext =
  oc_Operation :: "(operation \<times> Selection list) option"
  oc_Variables :: "(string \<times> json) list"

record gqlerror =
  gqlerror_Message :: string
  gqlerror_Err :: "go_error option"
  gqlerror_Path :: "string list"

text \<open>An error of a resolver or of the library; \<open>fmt.Errorf\<close> may have wrapped it with a text.\<close>

datatype graph_error = Plain go_error | Gql gqlerror | Wrapping string graph_error

record gqlgen =
  gql_CollectFields :: "OperationContext option \<Rightarrow> Selection list \<Rightarrow> string list \<Rightarrow> CollectedField list"
  gql_DefaultErrorPresenter :: "string list \<Rightarrow> graph_error \<Rightarrow> gqlerror"
  gql_WrapPath :: "string list \<Rightarrow> go_error \<Rightarrow> gqlerror"
  gql_Error :: "gqlerror \<Rightarrow> string"
  gql_PathString :: "string list \<Rightarrow> string"

text \<open>The context of a resolver: the request's, and what \<open>gqlgen\<close> keeps in it.\<close>

record gctx =
  g_ctx :: Ctx
  g_operation :: "OperationContext option"
  g_field :: "CollectedField option"
  g_path :: "string list"

section \<open>What the audit log records of an operation\<close>

definition maxDetail :: nat where "maxDetail = 4000"
definition maxActionFields :: nat where "maxActionFields = 8"

text \<open>The loop with its map of names already seen.\<close>

fun unseen_names :: "string list \<Rightarrow> string list \<Rightarrow> string list" where
  "unseen_names seen [] = []"
| "unseen_names seen (name # selected) =
     (if HasPrefix name ''__'' \<or> name \<in> set seen then unseen_names seen selected
      else name # unseen_names (name # seen) selected)"

definition selectedFieldNames :: "gqlgen \<Rightarrow> gctx \<Rightarrow> string list" where
  "selectedFieldNames G ctx =
     (case g_field ctx of
        None \<Rightarrow> []
      | Some field \<Rightarrow>
          let names = sort (unseen_names [] (map field_Name
                (gql_CollectFields G (g_operation ctx) (field_Selections field) [])))
          in if length names > maxActionFields then take maxActionFields names else names)"

definition adminAction :: "gqlgen \<Rightarrow> gctx \<Rightarrow> operation \<Rightarrow> string" where
  "adminAction G ctx operation =
     (let kind = (if operation = Mutation then ''mutation'' else ''query'');
          fields = selectedFieldNames G ctx
      in if fields = [] then kind else kind @ '':'' @ Join fields '','')"

text \<open>The loop that moves the cut back to the start of a rune.\<close>

fun cut_back :: "string \<Rightarrow> nat \<Rightarrow> nat" where
  "cut_back s 0 = 0"
| "cut_back s (Suc n) = (if RuneStart (s ! Suc n) then Suc n else cut_back s n)"

definition truncate_detail :: "string \<Rightarrow> string" where
  "truncate_detail s =
     (if length s \<le> maxDetail then s else take (cut_back s maxDetail) s @ ''...'')"

definition auditVariables :: "gctx \<Rightarrow> string" where
  "auditVariables ctx =
     (case g_operation ctx of
        None \<Rightarrow> ''''
      | Some opCtx \<Rightarrow>
          if oc_Operation opCtx = None \<or> oc_Variables opCtx = [] then ''''
          else (case json_encode (JObject (oc_Variables opCtx)) of
                  Inl err \<Rightarrow> ''''
                | Inr encoded \<Rightarrow> truncate_detail encoded))"

section \<open>The Env of the resolvers\<close>

record ('c, 'w) graph_Env =
  graph_WriteAudit :: "'c \<Rightarrow> audit_Entry \<Rightarrow> ('w, unit) state"
  graph_BanUser :: "'c \<Rightarrow> BanUserInput \<Rightarrow> ('w, BanUserOrErrorPayload) io"
  graph_UnbanUser :: "'c \<Rightarrow> UnbanUserInput \<Rightarrow> ('w, UnbanUserOrErrorPayload) io"
  graph_MakeAdmin :: "'c \<Rightarrow> MakeAdminInput \<Rightarrow> ('w, MakeAdminOrErrorPayload) io"
  graph_RemoveAdmin :: "'c \<Rightarrow> RemoveAdminInput \<Rightarrow> ('w, RemoveAdminOrErrorPayload) io"
  graph_ListAuditLog :: "'c \<Rightarrow> int64 \<Rightarrow> int64 option \<Rightarrow> ('w, AuditLogConnection) io"
  graph_DBListUsers :: "'c \<Rightarrow> ('w, DBListUsersRow list) io"
  graph_DBCountUsers :: "'c \<Rightarrow> ('w, int64) io"
  graph_DBGetAdminUserByID :: "'c \<Rightarrow> int64 \<Rightarrow> ('w, DBGetAdminUserByIDRow) io"
  graph_DBListAdmins :: "'c \<Rightarrow> ('w, DBListAdminsRow list) io"
  graph_DBCountAdmins :: "'c \<Rightarrow> ('w, int64) io"
  graph_RecordSignOut :: "'c \<Rightarrow> ('w, unit) state"
  graph_SignOutURL :: string
  graph_BuildGitCommit :: string
  graph_Logger :: "log_level \<Rightarrow> string \<Rightarrow> (string \<times> string) list \<Rightarrow> ('w, unit) state"
  graph_Now :: "('w, Time) state"
  graph_MetricsIncreaseAdminDenied :: "'c \<Rightarrow> string \<Rightarrow> ('w, unit) state"
  graph_CurrentAdmin :: "'c \<Rightarrow> ('w, int64) io"
  graph_CurrentUser :: "'c \<Rightarrow> ('w, User option) state"
  graph_CurrentUserID :: "'c \<Rightarrow> ('w, int64 option) state"

type_synonym app_Env = "(Ctx, World) graph_Env"

definition graph_env :: "app \<Rightarrow> app_Env" where
  "graph_env a =
     \<lparr>graph_WriteAudit = WriteAudit a,
      graph_BanUser = BanUser a, graph_UnbanUser = UnbanUser a,
      graph_MakeAdmin = MakeAdmin a, graph_RemoveAdmin = RemoveAdmin a,
      graph_ListAuditLog = ListAuditLog a,
      graph_DBListUsers = (\<lambda>ctx. DBListUsers (app_Queries a)),
      graph_DBCountUsers = (\<lambda>ctx. DBCountUsers (app_Queries a)),
      graph_DBGetAdminUserByID = (\<lambda>ctx. DBGetAdminUserByID (app_Queries a)),
      graph_DBListAdmins = (\<lambda>ctx. DBListAdmins (app_Queries a)),
      graph_DBCountAdmins = (\<lambda>ctx. DBCountAdmins (app_Queries a)),
      graph_RecordSignOut = RecordSignOut a,
      graph_SignOutURL = SignOutURL a, graph_BuildGitCommit = BuildGitCommit a,
      graph_Logger = log_at, graph_Now = Now,
      graph_MetricsIncreaseAdminDenied = (\<lambda>ctx. MetricsIncreaseAdminDenied (app_metrics a)),
      graph_CurrentAdmin = CurrentAdmin a, graph_CurrentUser = CurrentUser a,
      graph_CurrentUserID = CurrentUserID a\<rparr>"

record Resolver =
  resolver_DefaultEnv :: app_Env

text \<open>Every \<open>Env\<close> stored in a request is the \<open>app\<close>, so the type assertion never fails.\<close>

definition resolver_env :: "Resolver \<Rightarrow> gctx \<Rightarrow> app_Env act" where
  "resolver_env r ctx = do {
     req \<leftarrow> FromCtx (g_ctx ctx);
     case req of
       Inl err \<Rightarrow> ret (resolver_DefaultEnv r)
     | Inr (n, req) \<Rightarrow> ret (graph_env (Request_Env req))
   }"

section \<open>The admin boundary\<close>

definition denyAdmin :: "gctx \<Rightarrow> app_Env \<Rightarrow> audit_Entry \<Rightarrow> go_error act" where
  "denyAdmin ctx env entry0 =
    (let entry = entry0\<lparr>Entry_Action := PrefixDenied @ Entry_Action entry0,
                        Entry_Detail := auditVariables ctx\<rparr>
     in do {
       graph_WriteAudit env (g_ctx ctx) entry;
       graph_MetricsIncreaseAdminDenied env (g_ctx ctx) (Entry_Action entry);
       ret (Sentinel ErrNotAdmin)
     })"

definition admin_entry :: "string \<Rightarrow> Request \<Rightarrow> audit_Entry" where
  "admin_entry action req =
     (let entry = \<lparr>Entry_UserID = None, Entry_Email = '''', Entry_Action = action,
                   Entry_Detail = '''', Entry_IP = Request_ip req\<rparr>
      in case Request_user req of
           None \<Rightarrow> entry
         | Some user \<Rightarrow> entry\<lparr>Entry_UserID := Some (User_ID user), Entry_Email := User_Email user\<rparr>)"

definition checkAdmin :: "gqlgen \<Rightarrow> Resolver \<Rightarrow> gctx \<Rightarrow> operation \<Rightarrow> go_error option act" where
  "checkAdmin G r ctx operation = do {
     env \<leftarrow> resolver_env r ctx;
     let action = adminAction G ctx operation;
     found \<leftarrow> FromCtx (g_ctx ctx);
     case found of
       Inl err \<Rightarrow> do {
         denied \<leftarrow> denyAdmin ctx env \<lparr>Entry_UserID = None, Entry_Email = '''',
           Entry_Action = action, Entry_Detail = '''', Entry_IP = ''''\<rparr>;
         ret (Some denied)
       }
     | Inr (n, req) \<Rightarrow> do {
         let entry = admin_entry action req;
         admin \<leftarrow> graph_CurrentAdmin env (g_ctx ctx);
         case admin of
           Inl err \<Rightarrow>
             if errors_Is err ErrNotAdmin then do {
               denied \<leftarrow> denyAdmin ctx env entry;
               ret (Some denied)
             }
             else ret (Some (Errorf_w ''failed to check admin'' err))
         | Inr _ \<Rightarrow>
             if operation = Mutation then do {
               graph_WriteAudit env (g_ctx ctx) (entry\<lparr>Entry_Detail := auditVariables ctx\<rparr>);
               ret None
             }
             else ret None
       }
   }"

end
