(* ===== verification/Resolvers.thy ===== *)
theory Resolvers
  imports Graph
begin

text \<open>
  The resolvers of the schema (schema.resolvers.go, rows.go), one definition per method, the
  presenter of errors (error_presenter.go) and the set-up of the handler (handler.go).
\<close>

section \<open>Values of the schema\<close>

text \<open>The namespace objects of internal/model carry nothing.\<close>

datatype AdminQuery = AdminQuery
datatype AdminMutation = AdminMutation
datatype Viewer = Viewer

record AdminsConnection =
  AdminsConnection_TotalCount :: int64
  AdminsConnection_Nodes :: "DBListAdminsRow list"

record UsersConnection =
  UsersConnection_TotalCount :: int64
  UsersConnection_Nodes :: "DBListUsersRow list"

definition adminUserRow :: "DBGetAdminUserByIDRow \<Rightarrow> DBListUsersRow" where
  "adminUserRow row =
     \<lparr>ListUsers_ID = AdminUser_ID row, ListUsers_Email = AdminUser_Email row,
      ListUsers_Name = AdminUser_Name row, ListUsers_CreatedAt = AdminUser_CreatedAt row,
      ListUsers_LastSigninAt = AdminUser_LastSigninAt row,
      ListUsers_IsAdmin = AdminUser_IsAdmin row, ListUsers_BanReason = AdminUser_BanReason row\<rparr>"

section \<open>Mutations\<close>

definition AdminMutation_BanUser ::
  "Resolver \<Rightarrow> gctx \<Rightarrow> BanUserInput \<Rightarrow> (World, BanUserOrErrorPayload) io" where
  "AdminMutation_BanUser r ctx input = do {
     env \<leftarrow> resolver_env r ctx;
     graph_BanUser env (g_ctx ctx) input
   }"

definition AdminMutation_UnbanUser ::
  "Resolver \<Rightarrow> gctx \<Rightarrow> UnbanUserInput \<Rightarrow> (World, UnbanUserOrErrorPayload) io" where
  "AdminMutation_UnbanUser r ctx input = do {
     env \<leftarrow> resolver_env r ctx;
     graph_UnbanUser env (g_ctx ctx) input
   }"

definition AdminMutation_MakeAdmin ::
  "Resolver \<Rightarrow> gctx \<Rightarrow> MakeAdminInput \<Rightarrow> (World, MakeAdminOrErrorPayload) io" where
  "AdminMutation_MakeAdmin r ctx input = do {
     env \<leftarrow> resolver_env r ctx;
     graph_MakeAdmin env (g_ctx ctx) input
   }"

definition AdminMutation_RemoveAdmin ::
  "Resolver \<Rightarrow> gctx \<Rightarrow> RemoveAdminInput \<Rightarrow> (World, RemoveAdminOrErrorPayload) io" where
  "AdminMutation_RemoveAdmin r ctx input = do {
     env \<leftarrow> resolver_env r ctx;
     graph_RemoveAdmin env (g_ctx ctx) input
   }"

definition Mutation_SignOut :: "Resolver \<Rightarrow> gctx \<Rightarrow> (World, SignOutPayload) io" where
  "Mutation_SignOut r ctx = do {
     env \<leftarrow> resolver_env r ctx;
     graph_RecordSignOut env (g_ctx ctx);
     ret (Inr \<lparr>SignOutPayload_RedirectURL = graph_SignOutURL env\<rparr>)
   }"

definition Mutation_Admin :: "gqlgen \<Rightarrow> Resolver \<Rightarrow> gctx \<Rightarrow> (World, AdminMutation) io" where
  "Mutation_Admin G r ctx = do {
     err \<leftarrow> checkAdmin G r ctx Mutation;
     case err of Some err \<Rightarrow> ret (Inl err) | None \<Rightarrow> ret (Inr AdminMutation)
   }"

section \<open>Queries\<close>

definition Query_Viewer :: "gctx \<Rightarrow> (World, Viewer) io" where
  "Query_Viewer ctx = ret (Inr Viewer)"

definition Query_Admin :: "gqlgen \<Rightarrow> Resolver \<Rightarrow> gctx \<Rightarrow> (World, AdminQuery) io" where
  "Query_Admin G r ctx = do {
     err \<leftarrow> checkAdmin G r ctx Query;
     case err of Some err \<Rightarrow> ret (Inl err) | None \<Rightarrow> ret (Inr AdminQuery)
   }"

definition AdminQuery_Users :: "(World, UsersConnection) io" where
  "AdminQuery_Users = ret (Inr \<lparr>UsersConnection_TotalCount = 0, UsersConnection_Nodes = []\<rparr>)"

definition AdminQuery_User ::
  "Resolver \<Rightarrow> gctx \<Rightarrow> int64 \<Rightarrow> (World, DBListUsersRow option) io" where
  "AdminQuery_User r ctx uid = do {
     env \<leftarrow> resolver_env r ctx;
     row \<leftarrow> graph_DBGetAdminUserByID env (g_ctx ctx) uid;
     case row of
       Inl err \<Rightarrow>
         if IsNotFound err then ret (Inr None)
         else ret (Inl (Errorf_w (''failed to load user '' @ int_dec uid) err))
     | Inr row \<Rightarrow> ret (Inr (Some (adminUserRow row)))
   }"

definition AdminQuery_Admins :: "(World, AdminsConnection) io" where
  "AdminQuery_Admins = ret (Inr \<lparr>AdminsConnection_TotalCount = 0, AdminsConnection_Nodes = []\<rparr>)"

definition AdminQuery_AuditLog ::
  "Resolver \<Rightarrow> gctx \<Rightarrow> int64 \<Rightarrow> int64 option \<Rightarrow> (World, AuditLogConnection) io" where
  "AdminQuery_AuditLog r ctx limit before = do {
     env \<leftarrow> resolver_env r ctx;
     graph_ListAuditLog env (g_ctx ctx) limit before
   }"

definition AdminQuery_BuildGitCommit :: "Resolver \<Rightarrow> gctx \<Rightarrow> (World, string) io" where
  "AdminQuery_BuildGitCommit r ctx = do {
     env \<leftarrow> resolver_env r ctx;
     ret (Inr (graph_BuildGitCommit env))
   }"

definition AdminUser_IsAdminField :: "DBListUsersRow \<Rightarrow> (World, bool) io" where
  "AdminUser_IsAdminField obj = ret (Inr (ListUsers_IsAdmin obj \<noteq> 0))"

definition AdminsConnection_TotalCountField :: "Resolver \<Rightarrow> gctx \<Rightarrow> (World, int64) io" where
  "AdminsConnection_TotalCountField r ctx = do {
     env \<leftarrow> resolver_env r ctx;
     total \<leftarrow> graph_DBCountAdmins env (g_ctx ctx);
     case total of
       Inl err \<Rightarrow> ret (Inl (Errorf_w ''failed to count admins'' err))
     | Inr n \<Rightarrow> ret (Inr n)
   }"

definition AdminsConnection_NodesField ::
  "Resolver \<Rightarrow> gctx \<Rightarrow> (World, DBListAdminsRow list) io" where
  "AdminsConnection_NodesField r ctx = do {
     env \<leftarrow> resolver_env r ctx;
     rows \<leftarrow> graph_DBListAdmins env (g_ctx ctx);
     case rows of
       Inl err \<Rightarrow> ret (Inl (Errorf_w ''failed to list admins'' err))
     | Inr rows \<Rightarrow> ret (Inr rows)
   }"

definition UsersConnection_TotalCountField :: "Resolver \<Rightarrow> gctx \<Rightarrow> (World, int64) io" where
  "UsersConnection_TotalCountField r ctx = do {
     env \<leftarrow> resolver_env r ctx;
     total \<leftarrow> graph_DBCountUsers env (g_ctx ctx);
     case total of
       Inl err \<Rightarrow> ret (Inl (Errorf_w ''failed to count users'' err))
     | Inr n \<Rightarrow> ret (Inr n)
   }"

definition UsersConnection_NodesField ::
  "Resolver \<Rightarrow> gctx \<Rightarrow> (World, DBListUsersRow list) io" where
  "UsersConnection_NodesField r ctx = do {
     env \<leftarrow> resolver_env r ctx;
     rows \<leftarrow> graph_DBListUsers env (g_ctx ctx);
     case rows of
       Inl err \<Rightarrow> ret (Inl (Errorf_w ''failed to list users'' err))
     | Inr rows \<Rightarrow> ret (Inr rows)
   }"

definition Viewer_User :: "Resolver \<Rightarrow> gctx \<Rightarrow> (World, User option) io" where
  "Viewer_User r ctx = do {
     env \<leftarrow> resolver_env r ctx;
     user \<leftarrow> graph_CurrentUser env (g_ctx ctx);
     ret (Inr user)
   }"

definition Viewer_Role :: "gctx \<Rightarrow> (World, ViewerRole) io" where
  "Viewer_Role ctx = do {
     req \<leftarrow> FromCtx (g_ctx ctx);
     case req of
       Inl err \<Rightarrow> ret (Inr ViewerRoleGuest)
     | Inr (n, req) \<Rightarrow>
         if UserID req = None then ret (Inr ViewerRoleGuest)
         else if Request_isAdmin req then ret (Inr ViewerRoleAdmin)
         else ret (Inr ViewerRoleUser)
   }"

section \<open>What a caller reads of an error\<close>

fun graph_error_Is :: "graph_error \<Rightarrow> sentinel \<Rightarrow> bool" where
  "graph_error_Is (Plain err) s = errors_Is err s"
| "graph_error_Is (Gql g) s =
     (case gqlerror_Err g of None \<Rightarrow> False | Some err \<Rightarrow> errors_Is err s)"
| "graph_error_Is (Wrapping t e) s = graph_error_Is e s"

text \<open>\<open>errors.As\<close> with a \<open>*gqlerror.Error\<close>: the first one in the chain.\<close>

fun as_gqlerror :: "graph_error \<Rightarrow> gqlerror option" where
  "as_gqlerror (Plain err) = None"
| "as_gqlerror (Gql g) = Some g"
| "as_gqlerror (Wrapping t e) = as_gqlerror e"

text \<open>The text of an error, which is what the log gets of it.\<close>

fun graph_error_text :: "gqlgen \<Rightarrow> graph_error \<Rightarrow> string" where
  "graph_error_text G (Plain err) = error_text err"
| "graph_error_text G (Gql g) = gql_Error G g"
| "graph_error_text G (Wrapping t e) = t @ '': '' @ graph_error_text G e"

text \<open>\<open>crypto/rand\<close> gives an error or the bytes; \<open>hex.EncodeToString\<close> two digits for each.\<close>

definition EncodeToString :: "string \<Rightarrow> string" where
  "EncodeToString buf =
     concat (map (\<lambda>c. [hex_digit (byte_val c div 16), hex_digit (byte_val c mod 16)]) buf)"

definition errorRef :: "(nat \<Rightarrow> go_error + string) \<Rightarrow> string" where
  "errorRef rand_Read =
     (case rand_Read 6 of Inl err \<Rightarrow> ''unavailable'' | Inr buf \<Rightarrow> EncodeToString buf)"

definition errorPresenter ::
  "gqlgen \<Rightarrow> (nat \<Rightarrow> go_error + string) \<Rightarrow> gctx \<Rightarrow> graph_error \<Rightarrow> gqlerror act" where
  "errorPresenter G rand_Read ctx err =
    (if graph_error_Is err ErrNotAdmin
     then ret (gql_WrapPath G (g_path ctx) (Sentinel ErrNotAdmin))
     else if (case as_gqlerror err of None \<Rightarrow> False | Some g \<Rightarrow> gqlerror_Err g = None)
     then ret (gql_DefaultErrorPresenter G (g_path ctx) err)
     else do {
       let ref = errorRef rand_Read;
       log_at Error ''resolver failed''
         [(''error'', graph_error_text G err), (''ref'', ref),
          (''path'', gql_PathString G (g_path ctx))];
       ret (gql_WrapPath G (g_path ctx) (NewError (''internal error, ref '' @ ref)))
     })"

section \<open>The handler\<close>

datatype transport = Transport_Options | Transport_POST

datatype extension = Introspection | FixedComplexityLimit nat

record Server =
  server_Resolver :: Resolver
  server_Transports :: "transport list"
  server_QueryCache :: nat
  server_Extensions :: "extension list"
  server_ErrorPresenter :: "gctx \<Rightarrow> graph_error \<Rightarrow> gqlerror act"

definition NewHandler :: "gqlgen \<Rightarrow> (nat \<Rightarrow> go_error + string) \<Rightarrow> app_Env \<Rightarrow> Server" where
  "NewHandler G rand_Read env =
     \<lparr>server_Resolver = \<lparr>resolver_DefaultEnv = env\<rparr>,
      server_Transports = [Transport_Options, Transport_POST],
      server_QueryCache = 200,
      server_Extensions = [Introspection, FixedComplexityLimit 60],
      server_ErrorPresenter = errorPresenter G rand_Read\<rparr>"

end
