(* ===== verification/NetipProps.thy ===== *)
theory NetipProps
  imports Netip
begin

text \<open>
  The text of an address is read back as that address, for all addresses of both families: the
  groups of an IPv6 address with its longest run of zeros left out, the mixed notation of an IPv4
  address inside one, and the zone.
\<close>

section \<open>Splitting\<close>

lemma split_on_nonempty [simp]: "split_on c s \<noteq> []"
  by (induction c s rule: split_on.induct) (auto split: list.splits)

lemma split_on_append:
  "split_on c (s @ c # t) = split_on c s @ split_on c t"
  by (induction s) (auto split: list.splits)

lemma split_on_single: "c \<notin> set s \<Longrightarrow> split_on c s = [s]"
  by (induction s) auto

section \<open>IPv4\<close>

lemma digits_of_octets:
  "list_all (\<lambda>n. octet (dec n) = Some n \<and> CHR ''.'' \<notin> set (dec n) \<and> CHR '':'' \<notin> set (dec n)
     \<and> CHR ''%'' \<notin> set (dec n)) [0..255]"
  by code_simp

lemma octet_dec:
  assumes "0 \<le> n" "n \<le> 255"
  shows "octet (dec n) = Some n" "CHR ''.'' \<notin> set (dec n)" "CHR '':'' \<notin> set (dec n)"
    "CHR ''%'' \<notin> set (dec n)"
  using assms digits_of_octets by (auto simp: list_all_iff)

lemma base_256:
  fixes x :: int
  assumes "0 \<le> x" "x < 2 ^ 32"
  shows "((x div 2 ^ 24 mod 256 * 256 + x div 2 ^ 16 mod 256) * 256 + x div 2 ^ 8 mod 256) * 256
    + x mod 256 = x"
proof -
  define x1 x2 x3 where "x1 = x div 256" and "x2 = x1 div 256" and "x3 = x2 div 256"
  have d: "x div 2 ^ 8 = x1" "x div 2 ^ 16 = x2" "x div 2 ^ 24 = x3"
    by (simp_all add: x1_def x2_def x3_def flip: zdiv_zmult2_eq)
  have top: "x3 mod 256 = x3" using assms by (simp flip: d(3))
  have e: "x3 * 256 + x2 mod 256 = x2" "x2 * 256 + x1 mod 256 = x1" "x1 * 256 + x mod 256 = x"
    by (simp_all add: x1_def x2_def x3_def)
  show ?thesis unfolding d top e ..
qed

lemma uint_drop: "uint (drop_bit n (a :: 32 word)) = uint a div 2 ^ n"
  unfolding unsigned_drop_bit_eq by (simp add: bintr_uint drop_bit_eq_div)

lemma uint32: "0 \<le> uint (a :: 32 word)" "uint (a :: 32 word) < 2 ^ 32"
  using uint_lt2p [of a] by simp_all

lemma octets_eq:
  "octets a = [uint a div 2 ^ 24 mod 256, uint a div 2 ^ 16 mod 256, uint a div 2 ^ 8 mod 256,
    uint a mod 256]"
  unfolding octets_def list.map uint_drop by simp

lemma octets_value: "word_of_int (from_base 256 (octets a)) = a"
proof -
  have "from_base 256 (octets a) = uint a"
    unfolding octets_eq from_base_def foldl.simps mult_zero_left add_0
    by (rule base_256 [OF uint32])
  then show ?thesis by simp
qed

lemma find_first: "CHR ''.'' \<in> set s \<Longrightarrow> CHR '':'' \<notin> set s \<Longrightarrow> CHR ''%'' \<notin> set s \<Longrightarrow>
  find (\<lambda>c. c \<in> {CHR ''.'', CHR '':'', CHR ''%''}) s = Some CHR ''.''"
  by (induction s) auto

lemma ParseAddr_string4: "ParseAddr (string4 a) = Some (IPv4 a)"
proof -
  obtain b c d e where o4: "octets a = [b, c, d, e]" by (simp add: octets_eq)
  have range: "0 \<le> n \<and> n \<le> 255" if "n \<in> set (octets a)" for n
    using that by (auto simp: octets_eq)
  note digits = octet_dec [OF range [THEN conjunct1] range [THEN conjunct2]]
  have shown: "string4 a = dec b @ CHR ''.'' # dec c @ CHR ''.'' # dec d @ CHR ''.'' # dec e"
    by (simp add: string4_def o4)
  have "split_on CHR ''.'' (string4 a) = [dec b, dec c, dec d, dec e]"
    unfolding shown using digits(2) by (simp add: split_on_append split_on_single o4)
  then have "parseIPv4 (string4 a) = Some (IPv4 a)"
    using digits(1) octets_value [of a] by (simp add: parseIPv4_def parseIPv4Fields_def o4)
  moreover have "find (\<lambda>c. c \<in> {CHR ''.'', CHR '':'', CHR ''%''}) (string4 a) = Some CHR ''.''"
    using digits(3,4) by (intro find_first) (auto simp: shown o4)
  ultimately show ?thesis by (simp add: ParseAddr_def)
qed

section \<open>Digits\<close>

lemma from_base_append: "from_base b (xs @ [d]) = from_base b xs * b + d"
  by (simp add: from_base_def)

lemma from_base_Cons: "from_base b (d # ds) = d * b ^ length ds + from_base b ds"
proof (induction ds rule: rev_induct)
  case (snoc x ds)
  then have "from_base b ((d # ds) @ [x]) = (d * b ^ length ds + from_base b ds) * b + x"
    by (simp only: from_base_append)
  then show ?case by (simp add: from_base_append algebra_simps)
qed (simp add: from_base_def)

lemma from_base_digits:
  fixes x :: int
  assumes "0 < b"
  shows "from_base b (map (\<lambda>i. x div b ^ i mod b) (rev [0..<n])) = x mod b ^ n"
proof (induction n)
  case (Suc n)
  then have "from_base b (map (\<lambda>i. x div b ^ i mod b) (rev [0..<Suc n]))
      = x div b ^ n mod b * b ^ n + x mod b ^ n"
    by (simp add: from_base_Cons)
  also have "\<dots> = x mod (b ^ n * b)"
    using zmod_zmult2_eq [of b x "b ^ n"] assms by (simp only: zero_le_power less_imp_le mult.commute)
  finally show ?case by (simp add: mult.commute)
qed (simp add: from_base_def)

lemma groups_value: "word_of_int (from_base 65536 (groups w)) = w"
proof -
  have "uint (drop_bit (16 * i) w) mod 65536 = uint w div 65536 ^ i mod 65536" for i
  proof -
    have "uint (drop_bit (16 * i) w) = uint w div 2 ^ (16 * i)"
      unfolding unsigned_drop_bit_eq by (simp add: bintr_uint drop_bit_eq_div)
    then show ?thesis by (simp add: power_mult)
  qed
  moreover have "[7, 6, 5, 4, 3, 2, 1, 0] = rev [0..<8]" by (simp add: upt_rec)
  ultimately have "groups w = map (\<lambda>i. uint w div 65536 ^ i mod 65536) (rev [0..<8])"
    unfolding groups_def by simp
  with from_base_digits [of 65536 "uint w" 8] have "from_base 65536 (groups w) = uint w mod 65536 ^ 8"
    by simp
  also have "\<dots> = uint w" using uint_lt2p [of w] by simp
  finally show ?thesis by simp
qed

lemma groups_range: "g \<in> set (groups w) \<Longrightarrow> 0 \<le> g \<and> g < 65536"
  by (auto simp: groups_def)

lemma length_groups [simp]: "length (groups w) = 8"
  by (simp add: groups_def)

lemma hex_digit_read:
  assumes "0 \<le> d" "d < 16"
  shows "hex_digit_val (hex_digit d) = Some d" "is_hex (hex_digit d)"
proof -
  have "list_all (\<lambda>d. hex_digit_val (hex_digit d) = Some d) [0..15]" by code_simp
  then have "\<forall>d \<in> {0..15}. hex_digit_val (hex_digit d) = Some d" by (simp add: list_all_iff)
  with assms show "hex_digit_val (hex_digit d) = Some d" by simp
  then show "is_hex (hex_digit d)" by (simp add: is_hex_def)
qed

lemma hex_text:
  assumes "0 \<le> n"
  shows "hex n \<noteq> [] \<and> list_all is_hex (hex n) \<and> hex_value (hex n) = n"
  using assms
proof (induction n rule: hex.induct)
  case (1 n)
  show ?case
  proof (cases "n < 16")
    case True
    with 1 hex_digit_read show ?thesis by (simp add: hex.simps [of n] hex_value_def)
  next
    case False
    with 1 have "hex (n div 16) \<noteq> [] \<and> list_all is_hex (hex (n div 16)) \<and> hex_value (hex (n div 16)) = n div 16"
      by simp
    with False hex_digit_read [of "n mod 16"] show ?thesis
      by (simp add: hex.simps [of n] hex_value_def)
  qed
qed

lemma hex_length: "0 \<le> n \<Longrightarrow> n < 16 ^ Suc k \<Longrightarrow> length (hex n) \<le> Suc k"
proof (induction k arbitrary: n)
  case 0
  then show ?case by (simp add: hex.simps [of n])
next
  case (Suc k)
  from Suc.prems have "n div 16 < 16 ^ Suc k" by auto
  with Suc.IH [of "n div 16"] Suc.prems(1) show ?case by (simp add: hex.simps [of n])
qed

text \<open>A group of an address as text.\<close>

lemma hex_group:
  assumes "0 \<le> g \<and> g < 65536"
  shows "hex g \<noteq> []" "\<forall>c \<in> set (hex g). is_hex c" "hex_value (hex g) = g" "length (hex g) \<le> 4"
  using hex_text [of g] hex_length [of g 3] assms by (simp_all add: list_all_iff)

lemma not_hex: "\<not> is_hex CHR '':''" "\<not> is_hex CHR ''.''" "\<not> is_hex CHR ''%''"
  by code_simp+

section \<open>The loop of the groups\<close>

definition shown_groups :: "int list \<Rightarrow> string" where
  "shown_groups gs = Join (map hex gs) '':''"

lemma shown_groups_simps:
  "shown_groups [] = ''''"
  "shown_groups [g] = hex g"
  "shown_groups (g # h # gs) = hex g @ CHR '':'' # shown_groups (h # gs)"
  by (simp_all add: shown_groups_def)

definition group_list :: "int list \<Rightarrow> bool" where
  "group_list gs \<longleftrightarrow> (\<forall>g \<in> set gs. 0 \<le> g \<and> g < 65536)"

lemma group_list_simps [simp]:
  "group_list []"
  "group_list (g # gs) \<longleftrightarrow> 0 \<le> g \<and> g < 65536 \<and> group_list gs"
  "group_list (gs @ hs) \<longleftrightarrow> group_list gs \<and> group_list hs"
  by (auto simp: group_list_def)

lemma shown_groups_head:
  assumes "group_list gs" "gs \<noteq> []"
  shows "shown_groups gs \<noteq> []" "is_hex (hd (shown_groups gs))"
proof -
  obtain g hs where gs: "gs = g # hs" using assms(2) by (cases gs) auto
  with assms(1) have "0 \<le> g \<and> g < 65536" by simp
  note g = hex_group [OF this]
  have "\<exists>t. shown_groups gs = hex g @ t" unfolding gs by (cases hs) (auto simp: shown_groups_simps)
  with g show "shown_groups gs \<noteq> []" "is_hex (hd (shown_groups gs))" by auto
qed

lemma take_hex:
  assumes "\<forall>c \<in> set ds. is_hex c" "s = [] \<or> \<not> is_hex (hd s)"
  shows "takeWhile is_hex (ds @ s) = ds" "dropWhile is_hex (ds @ s) = s"
  using assms by (induction ds; cases s; simp)+

text \<open>One turn of the loop: a group and what follows it.\<close>

lemma v6_turn:
  assumes "0 \<le> g \<and> g < 65536" "length acc < 8"
  shows "v6_loop (hex g) acc ell = Some ([], acc @ [g], ell)"
    "s \<noteq> [] \<Longrightarrow> hd s \<noteq> CHR '':'' \<Longrightarrow> v6_loop (hex g @ CHR '':'' # s) acc ell = v6_loop s (acc @ [g]) ell"
    "v6_loop (hex g @ '':'' @ '':'' @ s) acc None =
       (if s = [] then Some ([], acc @ [g], Some (Suc (length acc)))
        else v6_loop s (acc @ [g]) (Some (Suc (length acc))))"
proof -
  note g = hex_group [OF assms(1)]
  have alone: "takeWhile is_hex (hex g) = hex g" "dropWhile is_hex (hex g) = []"
    using take_hex [OF g(2), of "[]"] by simp_all
  note more = take_hex [OF g(2), of "CHR '':'' # s"]
    and twice = take_hex [OF g(2), of "CHR '':'' # CHR '':'' # s"]
  show "v6_loop (hex g) acc ell = Some ([], acc @ [g], ell)"
    using assms(2) g(1,3,4) by (subst v6_loop.simps) (simp add: alone)
  show "v6_loop (hex g @ CHR '':'' # s) acc ell = v6_loop s (acc @ [g]) ell" if "s \<noteq> []" "hd s \<noteq> CHR '':''"
    using assms(2) g more that not_hex by (subst v6_loop.simps) (simp add: Let_def)
  show "v6_loop (hex g @ '':'' @ '':'' @ s) acc None =
      (if s = [] then Some ([], acc @ [g], Some (Suc (length acc)))
       else v6_loop s (acc @ [g]) (Some (Suc (length acc))))"
    using assms(2) g twice not_hex by (subst v6_loop.simps) (simp add: Let_def)
qed

lemma v6_all:
  assumes "group_list gs" "gs \<noteq> []" "length acc + length gs \<le> 8"
  shows "v6_loop (shown_groups gs) acc ell = Some ([], acc @ gs, ell)"
  using assms
proof (induction gs arbitrary: acc rule: induct_list012)
  case (2 g)
  then show ?case using v6_turn(1) [of g acc ell] by (simp add: shown_groups_simps)
next
  case (3 g h gs)
  then have tail: "shown_groups (h # gs) \<noteq> []" "is_hex (hd (shown_groups (h # gs)))"
    using shown_groups_head [of "h # gs"] by simp_all
  with not_hex(1) have "hd (shown_groups (h # gs)) \<noteq> CHR '':''" by metis
  with v6_turn(2) [of g acc "shown_groups (h # gs)" ell] tail(1) "3.prems"
  have "v6_loop (shown_groups (g # h # gs)) acc ell = v6_loop (shown_groups (h # gs)) (acc @ [g]) ell"
    by (simp add: shown_groups_simps(3))
  with "3.IH"(2) [of "acc @ [g]"] "3.prems" show ?case by simp
qed simp

lemma v6_gap:
  assumes "group_list (gs @ hs)" "gs \<noteq> []" "length acc + length gs + length hs < 8"
  shows "v6_loop (shown_groups gs @ ''::'' @ shown_groups hs) acc None =
    Some ([], acc @ gs @ hs, Some (length acc + length gs))"
  using assms
proof (induction gs arbitrary: acc rule: induct_list012)
  case (2 g)
  show ?case
  proof (cases "hs = []")
    case True
    with 2 v6_turn(3) [of g acc "[]"] show ?thesis by (simp add: shown_groups_simps)
  next
    case False
    with 2 v6_turn(3) [of g acc "shown_groups hs"] shown_groups_head [of hs]
      v6_all [of hs "acc @ [g]" "Some (Suc (length acc))"] show ?thesis
      by (simp add: shown_groups_simps)
  qed
next
  case (3 g h gs)
  then have "shown_groups (h # gs) \<noteq> []" "is_hex (hd (shown_groups (h # gs)))"
    using shown_groups_head [of "h # gs"] by simp_all
  then have tail: "shown_groups (h # gs) @ ''::'' @ shown_groups hs \<noteq> []"
    "hd (shown_groups (h # gs) @ ''::'' @ shown_groups hs) \<noteq> CHR '':''"
    using not_hex(1) by auto
  with v6_turn(2) [of g acc "shown_groups (h # gs) @ ''::'' @ shown_groups hs" None] "3.prems"
  have "v6_loop (shown_groups (g # h # gs) @ ''::'' @ shown_groups hs) acc None
      = v6_loop (shown_groups (h # gs) @ ''::'' @ shown_groups hs) (acc @ [g]) None"
    by (simp add: shown_groups_simps(3))
  with "3.IH"(2) [of "acc @ [g]"] "3.prems" show ?case by simp
qed simp

section \<open>The run of zeros\<close>

lemma zero_run_zeros: "take (zero_run gs i) (drop i gs) = replicate (zero_run gs i) 0"
proof -
  have "takeWhile (\<lambda>g. g = 0) xs = replicate (length (takeWhile (\<lambda>g. g = 0) xs)) 0" for xs :: "int list"
    by (induction xs) auto
  then show ?thesis
    unfolding zero_run_def by (metis takeWhile_eq_take)
qed

lemma best_zero_run_is_run:
  assumes "best_zero_run gs = (start, len)" "len \<noteq> 0"
  shows "2 \<le> len \<and> len = zero_run gs start"
proof -
  have "case foldl (\<lambda>(start, len) i. if zero_run gs i \<ge> 2 \<and> zero_run gs i > len then (i, zero_run gs i)
      else (start, len)) (0, 0) is of (start, len) \<Rightarrow> len = 0 \<or> 2 \<le> len \<and> len = zero_run gs start" for "is"
    by (induction "is" rule: rev_induct) (auto split: prod.splits)
  from this [of "[0..<8]"] assms show ?thesis by (simp add: best_zero_run_def)
qed

lemma groups_split:
  assumes "best_zero_run gs = (start, len)" "len \<noteq> 0"
  shows "gs = take start gs @ replicate len 0 @ drop (start + len) gs"
    "length (take start gs) + len + length (drop (start + len) gs) = length gs" "2 \<le> len"
proof -
  from best_zero_run_is_run [OF assms] have len: "2 \<le> len" "len = zero_run gs start" by blast+
  have "drop start gs = replicate len 0 @ drop (start + len) gs"
    using zero_run_zeros [of gs start] append_take_drop_id [of len "drop start gs"] len(2)
    by (simp add: add.commute)
  then show split: "gs = take start gs @ replicate len 0 @ drop (start + len) gs"
    by (metis append_take_drop_id)
  from arg_cong [OF split, of length] show
    "length (take start gs) + len + length (drop (start + len) gs) = length gs" by simp
  show "2 \<le> len" by (rule len(1))
qed

section \<open>IPv6\<close>

lemma shown_groups_bytes:
  assumes "group_list gs" "c \<in> set (shown_groups gs)"
  shows "is_hex c \<or> c = CHR '':''"
  using assms
proof (induction gs rule: induct_list012)
  case (2 g)
  then show ?case using hex_group(2) [of g] by (simp add: shown_groups_simps)
next
  case (3 g h gs)
  then show ?case using hex_group(2) [of g] by (auto simp: shown_groups_simps(3))
qed (simp add: shown_groups_def)

lemma string6_eq:
  "string6 w = (case best_zero_run (groups w) of (start, len) \<Rightarrow>
     if len = 0 then shown_groups (groups w)
     else shown_groups (take start (groups w)) @ ''::'' @ shown_groups (drop (start + len) (groups w)))"
  by (cases "best_zero_run (groups w)") (simp add: string6_def shown_groups_def Let_def)

lemma group_list_groups: "group_list (groups w)" "group_list (take n (groups w))" "group_list (drop n (groups w))"
  using groups_range [of _ w] by (auto simp: group_list_def dest: in_set_takeD in_set_dropD)

lemma string6_bytes: "c \<in> set (string6 w) \<Longrightarrow> is_hex c \<or> c = CHR '':''"
  using shown_groups_bytes group_list_groups
  by (fastforce simp: string6_eq split: prod.splits if_splits)

lemma starts_with_hex: "s \<noteq> [] \<Longrightarrow> is_hex (hd s) \<Longrightarrow> \<not> HasPrefix (s @ t) ''::'' \<and> s @ t \<noteq> ''::''"
  using not_hex(1) by (cases s) (auto simp: HasPrefix_def)

lemma parse_plain_groups:
  assumes "group_list gs" "length gs = 8"
  shows "parseIPv6_groups (shown_groups gs) = Some gs"
proof -
  from assms(2) have "gs \<noteq> []" by auto
  note head = shown_groups_head [OF assms(1) this]
  from starts_with_hex [OF head, of "[]"] v6_all [OF assms(1) \<open>gs \<noteq> []\<close>, of "[]" None] assms(2)
  show ?thesis by (simp add: parseIPv6_groups_def expand_groups_def)
qed

lemma parse_gap_groups:
  assumes "group_list gs" "group_list hs" "length gs + len + length hs = 8" "2 \<le> len"
  shows "parseIPv6_groups (shown_groups gs @ ''::'' @ shown_groups hs) = Some (gs @ replicate len 0 @ hs)"
proof (cases "gs = []")
  case True
  show ?thesis
  proof (cases "hs = []")
    case True
    with \<open>gs = []\<close> assms(3) show ?thesis by (simp add: parseIPv6_groups_def shown_groups_simps(1))
  next
    case False
    from v6_all [OF assms(2) False, of "[]" "Some 0"] assms(3,4) True
      shown_groups_head [OF assms(2) False]
    show ?thesis
      by (simp add: parseIPv6_groups_def shown_groups_simps(1) HasPrefix_def expand_groups_def)
  qed
next
  case False
  note head = shown_groups_head [OF assms(1) False]
  from v6_gap [of gs hs "[]"] starts_with_hex [OF head] False assms
  show ?thesis by (simp add: parseIPv6_groups_def expand_groups_def)
qed

lemma parse_string6: "parseIPv6_groups (string6 w) = Some (groups w)"
proof (cases "best_zero_run (groups w)")
  case (Pair start len)
  show ?thesis
  proof (cases "len = 0")
    case True
    with Pair parse_plain_groups group_list_groups show ?thesis by (simp add: string6_eq)
  next
    case False
    note split = groups_split [OF Pair False]
    from parse_gap_groups [OF group_list_groups(2,3) _ split(3), of start w "start + len"] split(1,2)
    show ?thesis using Pair False by (simp add: string6_eq)
  qed
qed

section \<open>IPv4 inside IPv6\<close>

text \<open>A digit is a hexadecimal digit too.\<close>

lemma dec_octets:
  "list_all (\<lambda>n. list_all is_hex (dec n) \<and> dec n \<noteq> [] \<and> length (dec n) \<le> 3) [0..255]"
  by code_simp

lemma string4_parts:
  obtains b c d e where "octets a = [b, c, d, e]"
    "string4 a = dec b @ CHR ''.'' # dec c @ CHR ''.'' # dec d @ CHR ''.'' # dec e"
    "parseIPv4Fields (string4 a) = Some [b, c, d, e]"
    "\<forall>x \<in> set (dec b). is_hex x" "dec b \<noteq> []" "length (dec b) \<le> 3"
proof -
  obtain b c d e where o4: "octets a = [b, c, d, e]" by (simp add: octets_eq)
  have range: "0 \<le> n \<and> n \<le> 255" if "n \<in> set (octets a)" for n
    using that by (auto simp: octets_eq)
  note digits = octet_dec [OF range [THEN conjunct1] range [THEN conjunct2]]
  have shown: "string4 a = dec b @ CHR ''.'' # dec c @ CHR ''.'' # dec d @ CHR ''.'' # dec e"
    by (simp add: string4_def o4)
  have "split_on CHR ''.'' (string4 a) = [dec b, dec c, dec d, dec e]"
    unfolding shown using digits(2) by (simp add: split_on_append split_on_single o4)
  then have fields: "parseIPv4Fields (string4 a) = Some [b, c, d, e]"
    using digits(1) by (simp add: parseIPv4Fields_def o4)
  from range [of b] o4 have "b \<in> set [0..255]" by simp
  with dec_octets have "list_all is_hex (dec b) \<and> dec b \<noteq> [] \<and> length (dec b) \<le> 3"
    unfolding list_all_iff by blast
  with that [OF o4 shown fields] show thesis by (simp add: list_all_iff)
qed

lemma string4_bytes: "c \<in> set (string4 a) \<Longrightarrow> c \<noteq> CHR '':'' \<and> c \<noteq> CHR ''%''"
proof -
  assume c: "c \<in> set (string4 a)"
  have range: "0 \<le> n \<and> n \<le> 255" if "n \<in> set (octets a)" for n
    using that by (auto simp: octets_eq)
  obtain b1 b2 b3 b4 where o4: "octets a = [b1, b2, b3, b4]" by (simp add: octets_eq)
  note digits = octet_dec [OF range [THEN conjunct1] range [THEN conjunct2]]
  from c digits(3,4) show ?thesis by (auto simp: string4_def o4)
qed

lemma v6_mixed:
  assumes "octets a = [b, c, d, e]"
  shows "v6_loop (string4 a) [65535] (Some 0) = Some ([], [65535, b * 256 + c, d * 256 + e], Some 0)"
proof (rule string4_parts [of a])
  fix b' c' d' e'
  assume a: "octets a = [b', c', d', e']"
    "string4 a = dec b' @ CHR ''.'' # dec c' @ CHR ''.'' # dec d' @ CHR ''.'' # dec e'"
    "parseIPv4Fields (string4 a) = Some [b', c', d', e']"
    "\<forall>x \<in> set (dec b'). is_hex x" "dec b' \<noteq> []" "length (dec b') \<le> 3"
  note scan = take_hex [OF a(4), of "CHR ''.'' # dec c' @ CHR ''.'' # dec d' @ CHR ''.'' # dec e'"]
  have "takeWhile is_hex (string4 a) = dec b'"
    "dropWhile is_hex (string4 a) = CHR ''.'' # dec c' @ CHR ''.'' # dec d' @ CHR ''.'' # dec e'"
    unfolding a(2) using scan not_hex(2) by simp_all
  then show ?thesis
    using assms a(1,3,5,6) by (subst v6_loop.simps) simp
qed

lemma parse_mixed:
  assumes "octets a = [b, c, d, e]"
  shows "parseIPv6_groups (''::ffff:'' @ string4 a) = Some [0, 0, 0, 0, 0, 65535, b * 256 + c, d * 256 + e]"
proof -
  have ffff: "hex 65535 = ''ffff''" by code_simp
  from string4_parts [of a] have some_text: "string4 a \<noteq> []" by (metis append_is_Nil_conv list.distinct(1))
  then have "hd (string4 a) \<noteq> CHR '':''" using string4_bytes hd_in_set by blast
  with v6_turn(2) [of 65535 "[]" "string4 a" "Some 0"] some_text v6_mixed [OF assms]
  have "v6_loop (''ffff'' @ CHR '':'' # string4 a) [] (Some 0)
      = Some ([], [65535, b * 256 + c, d * 256 + e], Some 0)"
    unfolding ffff by simp
  then show ?thesis
    by (simp add: parseIPv6_groups_def HasPrefix_def expand_groups_def numeral_eq_Suc)
qed

lemma mixed_value:
  assumes "Is4In6 w" "octets (ucast w) = [b, c, d, e]"
  shows "word_of_int (from_base 65536 [0, 0, 0, 0, 0, 65535, b * 256 + c, d * 256 + e]) = w"
proof -
  have "from_base 256 [b, c, d, e] = uint (ucast w :: 32 word)"
    unfolding assms(2) [symmetric] octets_eq from_base_def foldl.simps mult_zero_left add_0
    by (rule base_256 [OF uint32])
  then have low: "((b * 256 + c) * 256 + d) * 256 + e = uint w mod 2 ^ 32"
    by (simp add: from_base_def unsigned_ucast_eq take_bit_eq_mod)
  have "uint (drop_bit 32 w) = 65535" using assms(1) by (simp add: Is4In6_def)
  then have high: "uint w div 2 ^ 32 = 65535"
    unfolding unsigned_drop_bit_eq by (simp add: bintr_uint drop_bit_eq_div)
  have "from_base 65536 [0, 0, 0, 0, 0, 65535, b * 256 + c, d * 256 + e]
      = 65535 * 2 ^ 32 + (((b * 256 + c) * 256 + d) * 256 + e)"
    by (simp add: from_base_def algebra_simps)
  also have "\<dots> = uint w"
    unfolding low using div_mult_mod_eq [of "uint w" "2 ^ 32"] unfolding high by simp
  finally show ?thesis by simp
qed

section \<open>All addresses\<close>

definition text6 :: "128 word \<Rightarrow> string" where
  "text6 w = (if Is4In6 w then ''::ffff:'' @ string4 (ucast w) else string6 w)"

lemma parse_text6: "map_option (\<lambda>gs. word_of_int (from_base 65536 gs)) (parseIPv6_groups (text6 w)) = Some w"
proof (cases "Is4In6 w")
  case True
  obtain b c d e where "octets (ucast w) = [b, c, d, e]" by (simp add: octets_eq)
  with parse_mixed mixed_value True show ?thesis by (simp add: text6_def)
next
  case False
  then show ?thesis by (simp add: text6_def parse_string6 groups_value)
qed

lemma text6_no_percent: "CHR ''%'' \<notin> set (text6 w)"
  using string6_bytes [of "CHR ''%''" w] string4_bytes [of "CHR ''%''" "ucast w"] not_hex(3)
  by (auto simp: text6_def)

text \<open>The colon is the first of the bytes that decide the kind of an address.\<close>

definition kind_byte :: "char \<Rightarrow> bool" where
  "kind_byte c \<longleftrightarrow> c \<in> {CHR ''.'', CHR '':'', CHR ''%''}"

lemma find_colon:
  assumes "\<forall>c \<in> set s. is_hex c \<or> c = CHR '':''" "CHR '':'' \<in> set s"
  shows "find kind_byte (s @ t) = Some CHR '':''"
  using assms not_hex by (induction s) (auto simp: kind_byte_def)

lemma shown_groups_colon: "2 \<le> length gs \<Longrightarrow> CHR '':'' \<in> set (shown_groups gs)"
  by (cases gs rule: remdups_adj.cases) (simp_all add: shown_groups_simps(3))

lemma text6_kind: "find kind_byte (text6 w @ t) = Some CHR '':''"
proof (cases "Is4In6 w")
  case True
  then show ?thesis by (simp add: text6_def kind_byte_def)
next
  case False
  have "CHR '':'' \<in> set (string6 w)"
    using shown_groups_colon [of "groups w"]
    by (cases "best_zero_run (groups w)") (simp add: string6_eq)
  with False find_colon [of "string6 w" t] string6_bytes show ?thesis by (simp add: text6_def)
qed

lemma cut_at_append: "c \<notin> set s \<Longrightarrow> cut_at c (s @ c # t) = (s, Some t)"
  by (induction s) (auto simp: cut_at_def)

lemma cut_at_absent: "c \<notin> set s \<Longrightarrow> cut_at c s = (s, None)"
  by (induction s) (auto simp: cut_at_def)

lemma ParseAddr_v6: "ParseAddr (Addr_String (IPv6 w z)) = Some (IPv6 w z)"
proof -
  from parse_text6 [of w] obtain gs where gs: "parseIPv6_groups (text6 w) = Some gs"
    "word_of_int (from_base 65536 gs) = w" by auto
  have shown: "Addr_String (IPv6 w z) = text6 w @ (if z = [] then [] else CHR ''%'' # z)"
    by (simp add: text6_def)
  have "cut_at CHR ''%'' (Addr_String (IPv6 w z)) = (text6 w, if z = [] then None else Some z)"
    unfolding shown using cut_at_append [OF text6_no_percent] cut_at_absent [OF text6_no_percent] by simp
  with gs have "parseIPv6 (Addr_String (IPv6 w z)) = Some (IPv6 w z)"
    by (simp only: parseIPv6_def) (simp split: if_split)
  moreover have "find (\<lambda>c. c \<in> {CHR ''.'', CHR '':'', CHR ''%''}) (Addr_String (IPv6 w z)) = Some CHR '':''"
    unfolding shown using text6_kind by (simp add: kind_byte_def [abs_def])
  ultimately show ?thesis by (simp only: ParseAddr_def) simp
qed

theorem ParseAddr_String: "ParseAddr (Addr_String addr) = Some addr"
proof (cases addr)
  case (IPv4 a)
  then show ?thesis by (simp add: ParseAddr_string4)
next
  case (IPv6 w z)
  then show ?thesis by (simp only: ParseAddr_v6)
qed

lemma Addr_String_inject: "Addr_String a = Addr_String b \<longleftrightarrow> a = b"
  using ParseAddr_String by (metis option.inject)

end
