(* ===== verification/ClientIp.thy ===== *)
theory ClientIp
  imports Auth NetipProps
begin

text \<open>
  internal/clientip: the caller's address behind trusted proxies. What the walk over
  \<open>X-Forwarded-For\<close> returns, that a caller cannot choose it, and that the address reads back.
\<close>

section \<open>The code\<close>

definition clientip_Parse :: "string \<Rightarrow> Prefix list" where
  "clientip_Parse list =
     List.map_filter
       (\<lambda>item. let item = TrimSpace item in if item = '''' then None else ParsePrefix item)
       (split_on CHR '','' list)"

definition isTrusted :: "Addr \<Rightarrow> Prefix list \<Rightarrow> bool" where
  "isTrusted addr0 trusted =
     (let addr = Unmap addr0 in list_ex (\<lambda>prefix. Prefix_Contains prefix addr) trusted)"

definition hostOnly :: "string \<Rightarrow> string" where
  "hostOnly remoteAddr =
     (case SplitHostPort remoteAddr of None \<Rightarrow> remoteAddr | Some (host, _) \<Rightarrow> host)"

text \<open>The loop over the hops, from the last.\<close>

fun walk_hops :: "Prefix list \<Rightarrow> string list \<Rightarrow> Addr option" where
  "walk_hops trusted [] = None"
| "walk_hops trusted (hop # hops) =
     (case ParseAddr (TrimSpace hop) of
        None \<Rightarrow> walk_hops trusted hops
      | Some addr \<Rightarrow> if isTrusted addr trusted then walk_hops trusted hops else Some addr)"

definition forwarded_hops :: "http_Request \<Rightarrow> string list" where
  "forwarded_hops r =
     concat (map (split_on CHR '','') (Header_Values r ''X-Forwarded-For''))"

definition clientip_Resolve :: "http_Request \<Rightarrow> Prefix list \<Rightarrow> string" where
  "clientip_Resolve r trusted =
     (let remote = hostOnly (http_RemoteAddr r) in
      if (case ParseAddr remote of None \<Rightarrow> True | Some addr \<Rightarrow> \<not> isTrusted addr trusted) then remote
      else case walk_hops trusted (rev (forwarded_hops r)) of
             None \<Rightarrow> remote
           | Some hop \<Rightarrow> Addr_String hop)"

section \<open>The walk\<close>

text \<open>The addresses among the hops that no trusted prefix contains, in the order of the hops.\<close>

definition outside_hops :: "Prefix list \<Rightarrow> string list \<Rightarrow> Addr list" where
  "outside_hops trusted hops =
     filter (\<lambda>addr. \<not> isTrusted addr trusted) (List.map_filter (\<lambda>hop. ParseAddr (TrimSpace hop)) hops)"

lemma outside_hops_simps [simp]:
  "outside_hops trusted [] = []"
  "outside_hops trusted (hops @ hops') = outside_hops trusted hops @ outside_hops trusted hops'"
  by (simp_all add: outside_hops_def List.map_filter_def)

lemma outside_hops_single:
  "outside_hops trusted [hop] =
     (case ParseAddr (TrimSpace hop) of
        None \<Rightarrow> []
      | Some addr \<Rightarrow> if isTrusted addr trusted then [] else [addr])"
  by (simp add: outside_hops_def List.map_filter_def split: option.splits)

lemma walk_hops_eq:
  "walk_hops trusted hops =
     (case outside_hops trusted (rev hops) of [] \<Rightarrow> None | addrs \<Rightarrow> Some (last addrs))"
  by (induction hops)
    (auto simp: outside_hops_single split: option.splits list.splits)

definition speaks_for_clients :: "http_Request \<Rightarrow> Prefix list \<Rightarrow> bool" where
  "speaks_for_clients r trusted \<longleftrightarrow>
     (\<exists>addr. ParseAddr (hostOnly (http_RemoteAddr r)) = Some addr \<and> isTrusted addr trusted)"

lemma clientip_Resolve_eq:
  "clientip_Resolve r trusted =
     (if \<not> speaks_for_clients r trusted \<or> outside_hops trusted (forwarded_hops r) = []
      then hostOnly (http_RemoteAddr r)
      else Addr_String (last (outside_hops trusted (forwarded_hops r))))"
  by (auto simp: clientip_Resolve_def speaks_for_clients_def walk_hops_eq Let_def
      split: option.splits list.splits)

section \<open>Properties\<close>

text \<open>
  C22. A caller cannot choose the address the panel records. Unless the connection itself comes
  from a trusted proxy the headers are not read at all. Behind trusted proxies the answer is the
  last forwarded address that no trusted prefix contains, whatever stands before it: what a
  caller sends ahead of the address its proxy appends makes no difference. Without such an
  address the answer is the connection's.
\<close>

theorem clientip_Resolve_trust:
  "clientip_Resolve r trusted =
     (if \<not> speaks_for_clients r trusted \<or> outside_hops trusted (forwarded_hops r) = []
      then hostOnly (http_RemoteAddr r)
      else Addr_String (last (outside_hops trusted (forwarded_hops r))))
   \<and> (\<forall>hop addr claimed. ParseAddr (TrimSpace hop) = Some addr \<and> \<not> isTrusted addr trusted
        \<and> CHR '','' \<notin> set hop \<and> speaks_for_clients r trusted
        \<and> Header_Values r ''X-Forwarded-For'' = [claimed @ '','' @ hop] \<longrightarrow>
          clientip_Resolve r trusted = Addr_String addr)"
proof (intro conjI allI impI)
  fix hop addr claimed
  assume a: "ParseAddr (TrimSpace hop) = Some addr \<and> \<not> isTrusted addr trusted
    \<and> CHR '','' \<notin> set hop \<and> speaks_for_clients r trusted
    \<and> Header_Values r ''X-Forwarded-For'' = [claimed @ '','' @ hop]"
  then have "forwarded_hops r = split_on CHR '','' claimed @ [hop]"
    by (simp add: forwarded_hops_def split_on_append split_on_single)
  with a show "clientip_Resolve r trusted = Addr_String addr"
    by (simp add: clientip_Resolve_eq outside_hops_single)
qed (rule clientip_Resolve_eq)

definition forwarded :: "string \<Rightarrow> string list \<Rightarrow> http_Request" where
  "forwarded remote values = \<lparr>http_Method = ''GET'', http_Path = ''/'',
     http_Header = [(''X-Forwarded-For'', values)], http_RemoteAddr = remote, http_Body = '''',
     http_BodyLimit = None\<rparr>"

definition demo_proxies :: "Prefix list" where
  "demo_proxies = clientip_Parse ''127.0.0.1/32, 10.0.0.0/8,nonsense,''"

definition demo_forwarded :: http_Request where
  "demo_forwarded = forwarded ''127.0.0.1:4000'' [''1.1.1.1, evil'' @ '','' @ '' 203.0.113.9'']"

lemma demo_hop:
  "ParseAddr (TrimSpace '' 203.0.113.9'') = Some (IPv4 0xCB007109)"
  "isTrusted (IPv4 0xCB007109) demo_proxies = False"
  "outside_hops demo_proxies (forwarded_hops demo_forwarded) = [IPv4 0x01010101, IPv4 0xCB007109]"
  "(case ParseAddr (hostOnly (http_RemoteAddr demo_forwarded)) of
      None \<Rightarrow> False | Some addr \<Rightarrow> isTrusted addr demo_proxies) = True"
  "string4 0xCB007109 = ''203.0.113.9''"
  by code_simp+

lemma demo_speaks: "speaks_for_clients demo_forwarded demo_proxies"
  using demo_hop(4) by (auto simp: speaks_for_clients_def split: option.splits)

theorem clientip_Resolve_trust_witness:
  "clientip_Resolve demo_forwarded demo_proxies = ''203.0.113.9''"
proof -
  have "Header_Values demo_forwarded ''X-Forwarded-For'' = [''1.1.1.1, evil'' @ '','' @ '' 203.0.113.9'']"
    by (simp add: demo_forwarded_def forwarded_def Header_Values_def)
  with clientip_Resolve_trust [of demo_forwarded demo_proxies] demo_hop(1,2) demo_speaks
  have "clientip_Resolve demo_forwarded demo_proxies = Addr_String (IPv4 0xCB007109)"
    by (elim conjE allE [of _ "'' 203.0.113.9''"] allE [of _ "IPv4 0xCB007109"]
        allE [of _ "''1.1.1.1, evil''"] mp) simp
  then show ?thesis by (simp add: demo_hop(5))
qed

text \<open>
  C23. The address that comes out of the headers is recorded in canonical form, in both families:
  reading the recorded text gives that address back, zone included, and it is not a trusted one;
  and whatever the requests and however the hops were spelled, two addresses are recorded as the
  same text exactly when they are the same. (An IPv4 address inside an IPv6 one is an address of
  its own.)
\<close>

theorem clientip_Resolve_canonical:
  assumes "speaks_for_clients r trusted" "outside_hops trusted (forwarded_hops r) \<noteq> []"
  defines "addr \<equiv> last (outside_hops trusted (forwarded_hops r))"
  shows "ParseAddr (clientip_Resolve r trusted) = Some addr \<and> \<not> isTrusted addr trusted
    \<and> (\<forall>r' trusted'. speaks_for_clients r' trusted' \<and> outside_hops trusted' (forwarded_hops r') \<noteq> [] \<longrightarrow>
         (clientip_Resolve r' trusted' = clientip_Resolve r trusted
            \<longleftrightarrow> last (outside_hops trusted' (forwarded_hops r')) = addr))"
proof -
  have "last (outside_hops trusted (forwarded_hops r)) \<in> set (outside_hops trusted (forwarded_hops r))"
    using assms(2) by (rule last_in_set)
  then show ?thesis
    using assms(1,2)
    by (simp add: clientip_Resolve_eq ParseAddr_String Addr_String_inject outside_hops_def addr_def)
qed

definition demo_spelled :: "string \<Rightarrow> http_Request" where
  "demo_spelled hop = forwarded ''127.0.0.1:4000'' [hop]"

lemma demo_spellings:
  "(case ParseAddr (hostOnly ''127.0.0.1:4000'') of
      None \<Rightarrow> False | Some addr \<Rightarrow> isTrusted addr demo_proxies) = True"
  "outside_hops demo_proxies (forwarded_hops (demo_spelled ''2001:DB8:0::0:1%eth0''))
     = [IPv6 0x20010DB8000000000000000000000001 ''eth0'']"
  "outside_hops demo_proxies (forwarded_hops (demo_spelled '' 2001:db8::1%eth0''))
     = [IPv6 0x20010DB8000000000000000000000001 ''eth0'']"
  by code_simp+

theorem clientip_Resolve_canonical_witness:
  "clientip_Resolve (demo_spelled ''2001:DB8:0::0:1%eth0'') demo_proxies
     = clientip_Resolve (demo_spelled '' 2001:db8::1%eth0'') demo_proxies
   \<and> ParseAddr (clientip_Resolve (demo_spelled '' 2001:db8::1%eth0'') demo_proxies)
     = Some (IPv6 0x20010DB8000000000000000000000001 ''eth0'')"
proof -
  have speaks: "speaks_for_clients (demo_spelled hop) demo_proxies" for hop
    using demo_spellings(1)
    by (auto simp: speaks_for_clients_def demo_spelled_def forwarded_def split: option.splits)
  show ?thesis
    using clientip_Resolve_canonical [OF speaks, of "'' 2001:db8::1%eth0''"]
      speaks [of "''2001:DB8:0::0:1%eth0''"] demo_spellings(2,3) by simp
qed

end
