(* ===== verification/Http.thy ===== *)
theory Http
  imports Resolvers ClientIp
begin

text \<open>
  The HTTP layer: cmd/server/http.go (routes, middleware, the gate's second check) and
  assets/embed.go (the shell of the single-page application).
\<close>

section \<open>Responses and handlers of net/http\<close>

text \<open>
  A response writer: the headers, the status once it is written, the body. The first
  \<open>WriteHeader\<close> counts; a body without one has status 200, and so has an empty response.
\<close>

record Response =
  resp_Header :: "(string \<times> string) list"
  resp_Status :: "int option"
  resp_Body :: string

definition new_response :: Response where
  "new_response = \<lparr>resp_Header = [], resp_Status = None, resp_Body = []\<rparr>"

definition resp_get :: "Response \<Rightarrow> string \<Rightarrow> string option" where
  "resp_get w name = map_of (resp_Header w) name"

definition resp_code :: "Response \<Rightarrow> int" where
  "resp_code w = (case resp_Status w of None \<Rightarrow> 200 | Some code \<Rightarrow> code)"

definition Header_Set :: "string \<Rightarrow> string \<Rightarrow> Response \<Rightarrow> Response" where
  "Header_Set name v w =
     w\<lparr>resp_Header := (name, v) # filter (\<lambda>h. fst h \<noteq> name) (resp_Header w)\<rparr>"

definition WriteHeader :: "int \<Rightarrow> Response \<Rightarrow> Response" where
  "WriteHeader code w =
     (case resp_Status w of None \<Rightarrow> w\<lparr>resp_Status := Some code\<rparr> | Some _ \<Rightarrow> w)"

definition resp_Write :: "string \<Rightarrow> Response \<Rightarrow> Response" where
  "resp_Write data w = (WriteHeader 200 w)\<lparr>resp_Body := resp_Body w @ data\<rparr>"

definition http_Error :: "string \<Rightarrow> int \<Rightarrow> Response \<Rightarrow> Response" where
  "http_Error msg code w =
     resp_Write (msg @ [CHR 0x0A])
       (WriteHeader code
         (Header_Set ''X-Content-Type-Options'' ''nosniff''
           (Header_Set ''Content-Type'' ''text/plain; charset=utf-8'' w)))"

text \<open>A handler is a function of the request's context, the request and the writer so far.\<close>

type_synonym handler = "Ctx \<Rightarrow> http_Request \<Rightarrow> Response \<Rightarrow> Response act"

text \<open>
  What is not in the repository: the GraphQL server of \<open>gqlgen\<close> over a handler's set-up, its
  playground page, the files of the built bundle (a build output) and the embedded shell; and
  \<open>http.Redirect\<close>, by the address it puts in \<open>Location\<close> and the body it writes, with the status
  that the version of \<open>ServeMux\<close> uses for the redirect to a clean path.
\<close>

record http_libs =
  http_ServeGraphQL :: "Server \<Rightarrow> handler"
  http_Playground :: "string \<Rightarrow> string \<Rightarrow> handler"
  http_FileServer :: handler
  http_redirect_target :: "http_Request \<Rightarrow> string \<Rightarrow> string \<times> string"
  http_redirect_status :: int
  http_shell :: string
  http_gqlgen :: gqlgen
  http_rand :: "nat \<Rightarrow> go_error + string"

definition http_Redirect :: "http_libs \<Rightarrow> http_Request \<Rightarrow> string \<Rightarrow> int \<Rightarrow> Response \<Rightarrow> Response" where
  "http_Redirect H r url code w =
     (case http_redirect_target H r url of
        (location, body) \<Rightarrow> resp_Write body (WriteHeader code (Header_Set ''Location'' location w)))"

section \<open>assets: the shell\<close>

function (sequential) ReplaceAll :: "string \<Rightarrow> string \<Rightarrow> string \<Rightarrow> string" where
  "ReplaceAll old new [] = []"
| "ReplaceAll old new (c # s) =
     (if old \<noteq> [] \<and> prefix old (c # s) then new @ ReplaceAll old new (drop (length old) (c # s))
      else c # ReplaceAll old new s)"
  by pat_completeness auto
termination
  by (relation "measure (\<lambda>(old, new, s). length s)") (auto simp: neq_Nil_conv)

text \<open>\<open>url.QueryEscape\<close>.\<close>

definition unreserved :: "char \<Rightarrow> bool" where
  "unreserved c \<longleftrightarrow>
     (let n = byte_val c in
      48 \<le> n \<and> n \<le> 57 \<or> 65 \<le> n \<and> n \<le> 90 \<or> 97 \<le> n \<and> n \<le> 122
      \<or> c \<in> {CHR ''-'', CHR ''_'', CHR ''.'', CHR ''~''})"

definition upper_hex :: "int \<Rightarrow> char" where
  "upper_hex d = char_of (if d < 10 then 48 + d else 55 + d)"

definition QueryEscape :: "string \<Rightarrow> string" where
  "QueryEscape s =
     concat (map (\<lambda>c. if unreserved c then [c]
                      else if c = CHR '' '' then ''+''
                      else [CHR ''%'', upper_hex (byte_val c div 16), upper_hex (byte_val c mod 16)]) s)"

definition spa_page :: "http_libs \<Rightarrow> string \<Rightarrow> string \<Rightarrow> string" where
  "spa_page H basePath revision =
     ReplaceAll ''{{revision}}'' (QueryEscape revision)
       (ReplaceAll ''{{base_path}}'' basePath (http_shell H))"

definition strip_ui :: "http_Request \<Rightarrow> http_Request" where
  "strip_ui r = r\<lparr>http_Path := drop (length ''/ui/'') (http_Path r)\<rparr>"

definition SPAHandler :: "http_libs \<Rightarrow> string \<Rightarrow> string \<Rightarrow> handler" where
  "SPAHandler H basePath revision =
    (let page = spa_page H basePath revision in
     (\<lambda>ctx r w.
       if HasPrefix (http_Path r) ''/ui/'' then http_FileServer H ctx (strip_ui r) w
       else ret (resp_Write page (Header_Set ''Content-Type'' ''text/html; charset=utf-8'' w))))"

section \<open>Middleware\<close>

definition settingsScript :: "string \<Rightarrow> handler" where
  "settingsScript basePath =
    (let encoded = (case json_encode (JObject [(''graphqlUrl'', JString (basePath @ ''/graphql''))]) of
                      Inl err \<Rightarrow> [] | Inr t \<Rightarrow> t);
         script = ''window.starterkit_settings = '' @ encoded @ [CHR 0x0A] in
     (\<lambda>ctx r w.
       ret (resp_Write script (Header_Set ''Content-Type'' ''text/javascript; charset=utf-8'' w))))"

text \<open>An apostrophe inside a policy.\<close>

definition quoted :: "string \<Rightarrow> string" where
  "quoted s = [CHR 0x27] @ s @ [CHR 0x27]"

definition contentSecurityPolicy :: string where
  "contentSecurityPolicy =
     ''default-src '' @ quoted ''self'' @ ''; style-src '' @ quoted ''self'' @ '' ''
     @ quoted ''unsafe-inline'' @ ''; frame-ancestors '' @ quoted ''none'' @ ''; object-src ''
     @ quoted ''none'' @ ''; base-uri '' @ quoted ''none''"

definition playground_csp :: string where
  "playground_csp =
     (let cdn = '' https://cdn.jsdelivr.net; '' in
      ''default-src '' @ quoted ''self'' @ ''; script-src '' @ quoted ''self'' @ '' ''
      @ quoted ''unsafe-inline'' @ cdn @ ''style-src '' @ quoted ''self'' @ '' ''
      @ quoted ''unsafe-inline'' @ cdn @ ''img-src '' @ quoted ''self'' @ '' data:'' @ cdn
      @ ''connect-src '' @ quoted ''self'' @ ''; frame-ancestors '' @ quoted ''none'')"

definition playgroundPolicy :: "handler \<Rightarrow> handler" where
  "playgroundPolicy nxt =
     (\<lambda>ctx r w. nxt ctx r (Header_Set ''Content-Security-Policy'' playground_csp w))"

definition securityHeaders :: "handler \<Rightarrow> handler" where
  "securityHeaders nxt =
     (\<lambda>ctx r w. nxt ctx r
        (Header_Set ''Referrer-Policy'' ''same-origin''
          (Header_Set ''X-Content-Type-Options'' ''nosniff''
            (Header_Set ''X-Frame-Options'' ''DENY''
              (Header_Set ''Content-Security-Policy'' contentSecurityPolicy w)))))"

definition maxRequestBody :: nat where "maxRequestBody = 1048576"

definition limitBody :: "handler \<Rightarrow> handler" where
  "limitBody nxt = (\<lambda>ctx r w. nxt ctx (r\<lparr>http_BodyLimit := Some maxRequestBody\<rparr>) w)"

definition modeNavigate :: string where "modeNavigate = ''navigate''"

definition isNavigation :: "http_Request \<Rightarrow> bool" where
  "isNavigation r \<longleftrightarrow>
     (if http_Method r \<noteq> ''GET'' \<and> http_Method r \<noteq> ''HEAD'' then False
      else let mode = Header_Get r ''Sec-Fetch-Mode'' in
        if mode \<noteq> '''' then mode = modeNavigate
        else Contains (Header_Get r ''Accept'') ''text/html'')"

definition refuseStaleToken :: "http_libs \<Rightarrow> app \<Rightarrow> handler" where
  "refuseStaleToken H a =
     (\<lambda>ctx r w.
        if isNavigation r then ret (http_Redirect H r (SignOutURL a) 303 w)
        else ret (http_Error (''the gate'' @ [CHR 0x27]
               @ ''s token no longer verifies: sign in again'') 401 w))"

definition requireIdentity :: "handler \<Rightarrow> handler" where
  "requireIdentity nxt =
     (\<lambda>ctx r w. do {
        req \<leftarrow> FromCtx ctx;
        if (case req of Inl err \<Rightarrow> True | Inr (n, req) \<Rightarrow> UserID req = None)
        then ret (http_Error
          ''no verified identity on this request: reach the panel through the gate'' 401 w)
        else nxt ctx r w
      })"

definition withRequest :: "http_libs \<Rightarrow> app \<Rightarrow> handler \<Rightarrow> handler" where
  "withRequest H a nxt =
     (\<lambda>ctx0 r w. do {
        n \<leftarrow> appreq_New a (clientip_Resolve r (Config_TrustedProxies (app_config a)));
        let ctx = NewContext n ctx0;
        identity \<leftarrow> resolveIdentity a ctx n r;
        case identity of
          Inl err \<Rightarrow> do {
            log_at Error ''failed to resolve identity'' [(''error'', error_text err)];
            ret (http_Error ''internal error'' 500 w)
          }
        | Inr identity \<Rightarrow>
            if Banned identity
            then ret (http_Error (''access revoked: ''
                   @ (case identity of None \<Rightarrow> [] | Some i \<Rightarrow> Auth_BanReason i)) 403 w)
            else if Stale identity then refuseStaleToken H a ctx r w
            else do {
              w \<leftarrow> nxt ctx r w;
              entries \<leftarrow> TakeAudit n;
              flushAudit a entries;
              ret w
            }
      })"

section \<open>Routes\<close>

text \<open>
  \<open>http.ServeMux\<close> cleans the path first and redirects when that changes it. A pattern of
  method GET also matches HEAD; the pattern \<open>GET /\<close> matches what no longer pattern does; a
  method that no pattern of the path has is refused.
\<close>

definition clean_segments :: "string list \<Rightarrow> string list" where
  "clean_segments ss =
     foldl (\<lambda>acc s. if s = [] \<or> s = ''.'' then acc
                    else if s = ''..'' then butlast acc else acc @ [s]) [] ss"

definition clean_path :: "string \<Rightarrow> string" where
  "clean_path p =
     (let np = ''/'' @ Join (clean_segments (split_on CHR ''/'' p)) ''/'' in
      if HasSuffix p ''/'' \<and> np \<noteq> ''/'' then np @ ''/'' else np)"

datatype route =
    Healthz | Readyz | GraphQLEndpoint | PlaygroundPage | Settings | Shell
  | CleanRedirect string | MethodNotAllowed

definition mux_route :: "string \<Rightarrow> bool \<Rightarrow> string \<Rightarrow> string \<Rightarrow> route" where
  "mux_route base devMode verb path =
    (let reads = (verb = ''GET'' \<or> verb = ''HEAD'') in
     if clean_path path \<noteq> path then CleanRedirect (clean_path path)
     else if reads \<and> path = base @ ''/healthz'' then Healthz
     else if reads \<and> path = base @ ''/readyz'' then Readyz
     else if verb = ''POST'' \<and> path = base @ ''/graphql'' then GraphQLEndpoint
     else if devMode \<and> reads \<and> path = base @ ''/graphql'' then PlaygroundPage
     else if reads \<and> path = base @ ''/settings.js'' then Settings
     else if reads then Shell
     else MethodNotAllowed)"

definition healthz_handler :: handler where
  "healthz_handler = (\<lambda>ctx r w. ret (resp_Write ''ok'' (WriteHeader 200 w)))"

definition readyz_handler :: handler where
  "readyz_handler =
     (\<lambda>ctx r w. do {
        ready \<leftarrow> ask_world w_ready;
        if \<not> ready then ret (http_Error ''shutting down'' 503 w)
        else ret (resp_Write ''ready'' (WriteHeader 200 w))
      })"

definition mux :: "http_libs \<Rightarrow> app \<Rightarrow> handler" where
  "mux H a =
    (let base = Config_BasePath (app_config a);
         server = NewHandler (http_gqlgen H) (http_rand H) (graph_env a) in
     (\<lambda>ctx r w.
       case mux_route base (Config_DevMode (app_config a)) (http_Method r) (http_Path r) of
         Healthz \<Rightarrow> healthz_handler ctx r w
       | Readyz \<Rightarrow> readyz_handler ctx r w
       | GraphQLEndpoint \<Rightarrow> limitBody (requireIdentity (http_ServeGraphQL H server)) ctx r w
       | PlaygroundPage \<Rightarrow>
           requireIdentity (playgroundPolicy (http_Playground H ''Starterkit'' (base @ ''/graphql''))) ctx r w
       | Settings \<Rightarrow> requireIdentity (settingsScript base) ctx r w
       | Shell \<Rightarrow> requireIdentity (SPAHandler H base (state_buildCommit (app_state a))) ctx r w
       | CleanRedirect path \<Rightarrow> ret (http_Redirect H r path (http_redirect_status H) w)
       | MethodNotAllowed \<Rightarrow> ret (http_Error ''Method Not Allowed'' 405 w)))"

definition routes :: "http_libs \<Rightarrow> app \<Rightarrow> handler" where
  "routes H a = securityHeaders (withRequest H a (mux H a))"

end
