(* ===== verification/GraphProps.thy ===== *)
theory GraphProps
  imports Resolvers AuthProps
begin

text \<open>
  What the GraphQL layer guarantees: the admin boundary decides by the request's identity and
  leaves a trace, the names and the details of an audit entry are bounded and well formed, and
  the text of an internal error never reaches the caller.
\<close>

section \<open>The names of an audit entry\<close>

lemma unseen_names_spec:
  "set (unseen_names seen names) = {n \<in> set names. \<not> HasPrefix n ''__''} - set seen
   \<and> distinct (unseen_names seen names)"
  by (induction seen names rule: unseen_names.induct) auto

lemma selectedFieldNames_eq:
  assumes "g_field ctx = Some field"
  shows "selectedFieldNames G ctx = take 8 (sorted_list_of_set
    {n \<in> field_Name ` set (gql_CollectFields G (g_operation ctx) (field_Selections field) []).
     \<not> HasPrefix n ''__''})"
proof -
  define found where
    "found = unseen_names [] (map field_Name (gql_CollectFields G (g_operation ctx) (field_Selections field) []))"
  have found: "distinct found" "set found = {n \<in> field_Name `
      set (gql_CollectFields G (g_operation ctx) (field_Selections field) []). \<not> HasPrefix n ''__''}"
    unfolding found_def using unseen_names_spec by auto
  have "sort found = sorted_list_of_set (set found)"
    using sorted_list_of_set_sort_remdups [of found] found(1) by (simp add: distinct_remdups_id)
  moreover have "selectedFieldNames G ctx = take 8 (sort found)"
    using assms by (simp add: selectedFieldNames_def found_def maxActionFields_def Let_def)
  ultimately show ?thesis unfolding found(2) by simp
qed

section \<open>The detail of an audit entry\<close>

lemma cut_back_le: "cut_back s n \<le> n"
  by (induction n) auto

lemma cut_back_start: "cut_back s n = 0 \<or> RuneStart (s ! cut_back s n)"
  by (induction n) auto

lemma valid_utf8_truncate:
  assumes "valid_utf8 s"
  shows "valid_utf8 (truncate_detail s)"
proof (cases "length s \<le> maxDetail")
  case False
  have "valid_utf8 (take (cut_back s maxDetail) s)"
  proof (cases "cut_back s maxDetail = 0")
    case True
    then show ?thesis by (simp add: valid_utf8.empty)
  next
    case start: False
    with cut_back_start have "RuneStart (s ! cut_back s maxDetail)" by metis
    with assms False cut_back_le [of s maxDetail] show ?thesis
      by (intro valid_utf8_take) auto
  qed
  moreover have "valid_utf8 ''...''" by (intro valid_utf8_ascii) (simp add: ascii_Cons byte_val_def)
  ultimately show ?thesis using False by (simp add: truncate_detail_def valid_utf8_append)
qed (simp add: truncate_detail_def assms)

lemma length_truncate: "length (truncate_detail s) \<le> maxDetail + 3"
  using cut_back_le [of s maxDetail] by (auto simp: truncate_detail_def)

text \<open>The cut drops at most the three bytes of a rune that it would split.\<close>

lemma cut_back_greatest: "RuneStart (s ! m) \<Longrightarrow> m \<le> n \<Longrightarrow> m \<le> cut_back s n"
  by (induction n) (auto simp: le_Suc_eq)

text \<open>Every four bytes of a valid text hold the start of a rune.\<close>

lemma rune_starts_near:
  "valid_utf8 s \<Longrightarrow> n < length s \<Longrightarrow> \<exists>m. m \<le> n \<and> n \<le> m + 3 \<and> RuneStart (s ! m)"
proof (induction s arbitrary: n rule: valid_utf8.induct)
  case (rune r s)
  obtain a cs where r: "r = a # cs" "RuneStart a" using rune_bytes_shape rune.hyps(1) by blast
  have len: "length r \<le> 4" using rune.hyps(1) by (cases r rule: rune_bytes.cases) auto
  show ?case
  proof (cases "n < length r")
    case True
    with len r show ?thesis by (intro exI [of _ 0]) auto
  next
    case False
    with rune.prems have "n - length r < length s" by simp
    from rune.IH [OF this] obtain m where
      "m \<le> n - length r" "n - length r \<le> m + 3" "RuneStart (s ! m)" by blast
    with False show ?thesis by (intro exI [of _ "length r + m"]) (auto simp: nth_append)
  qed
qed simp

lemma truncate_keeps:
  assumes "valid_utf8 s"
  obtains (whole) "length s \<le> maxDetail" "truncate_detail s = s"
    | (cut) k where "maxDetail < length s" "maxDetail - 3 \<le> k" "k \<le> maxDetail"
        "truncate_detail s = take k s @ ''...''"
proof (cases "length s \<le> maxDetail")
  case False
  then obtain m where "m \<le> maxDetail" "maxDetail \<le> m + 3" "RuneStart (s ! m)"
    using rune_starts_near [OF assms] by (metis not_le)
  with cut_back_greatest have "maxDetail - 3 \<le> cut_back s maxDetail" by fastforce
  with False cut_back_le that(2) show thesis by (auto simp: truncate_detail_def)
qed (auto simp: truncate_detail_def that(1))

text \<open>
  C18. The detail that the audit log records of an operation is valid UTF-8 of at most 4003
  bytes. When the variables can be written as JSON it is that text, or, of a text of more than
  4000 bytes, all but at most the last three of its first 4000 bytes, followed by three dots.
\<close>

theorem auditVariables_wellformed:
  "valid_utf8 (auditVariables ctx) \<and> length (auditVariables ctx) \<le> 4003 \<and>
   (\<forall>opCtx encoded. g_operation ctx = Some opCtx \<and> oc_Operation opCtx \<noteq> None
        \<and> oc_Variables opCtx \<noteq> [] \<and> json_encode (JObject (oc_Variables opCtx)) = Inr encoded \<longrightarrow>
      (if length encoded \<le> 4000 then auditVariables ctx = encoded
       else \<exists>k. 3997 \<le> k \<and> k \<le> 4000 \<and> auditVariables ctx = take k encoded @ ''...''))"
proof (intro conjI allI impI)
  have "valid_utf8 (auditVariables ctx) \<and> length (auditVariables ctx) \<le> 4003"
    using valid_utf8_json_encode valid_utf8_truncate length_truncate
    by (auto simp: auditVariables_def valid_utf8.empty maxDetail_def
        simp del: json_encode.simps split: option.splits sum.splits)
  then show "valid_utf8 (auditVariables ctx)" "length (auditVariables ctx) \<le> 4003" by simp_all
next
  fix opCtx encoded
  assume a: "g_operation ctx = Some opCtx \<and> oc_Operation opCtx \<noteq> None
    \<and> oc_Variables opCtx \<noteq> [] \<and> json_encode (JObject (oc_Variables opCtx)) = Inr encoded"
  then have detail: "auditVariables ctx = truncate_detail encoded" by (auto simp: auditVariables_def simp del: json_encode.simps)
  have "valid_utf8 encoded" using a valid_utf8_json_encode by blast
  then show "if length encoded \<le> 4000 then auditVariables ctx = encoded
      else \<exists>k. 3997 \<le> k \<and> k \<le> 4000 \<and> auditVariables ctx = take k encoded @ ''...''"
    by (cases rule: truncate_keeps) (auto simp: detail maxDetail_def)
qed

definition demo_gctx :: gctx where
  "demo_gctx = \<lparr>g_ctx = demo_ctx,
     g_operation = Some \<lparr>oc_Operation = Some (Mutation, []),
       oc_Variables = [(''reason'', JString ''a<b''), (''id'', JNumber ''7'')]\<rparr>,
     g_field = Some \<lparr>field_Alias = ''admin'', field_Name = ''admin'', field_Args = [],
       field_Selections = [SelField ''x'' ''banUser'' [] [], SelField ''y'' ''banUser'' [] [],
         SelField ''t'' ''__typename'' [] []],
       field_Deferrables = []\<rparr>,
     g_path = [''admin'']\<rparr>"

definition demo_encoded :: string where
  "demo_encoded = ''{'' @ [quote] @ ''id'' @ [quote] @ '':7,'' @ [quote] @ ''reason'' @ [quote] @ '':''
     @ [quote] @ ''a'' @ [backslash] @ ''u003cb'' @ [quote] @ ''}''"

lemma demo_encoding:
  "json_encode (JObject (case g_operation demo_gctx of Some opCtx \<Rightarrow> oc_Variables opCtx)) = Inr demo_encoded"
  by code_simp

theorem auditVariables_wellformed_witness:
  "auditVariables demo_gctx = demo_encoded"
proof -
  have "length demo_encoded \<le> 4000" by (simp add: demo_encoded_def)
  with auditVariables_wellformed [of demo_gctx] demo_encoding show ?thesis
    by (auto simp: demo_gctx_def)
qed

section \<open>The admin boundary\<close>

lemma checkAdmin_run:
  assumes "ctx_request (g_ctx ctx) = Some n" "w_requests w n = Some req"
  shows "run (checkAdmin G r ctx op) w =
    (let action = adminAction G ctx op;
         admitted = Request_isAdmin req \<and> Request_user req \<noteq> None;
         entry = (admin_entry action req)
           \<lparr>Entry_Action := (if admitted then action else PrefixDenied @ action),
            Entry_Detail := auditVariables ctx\<rparr>;
         recorded = (w_requests w)(n \<mapsto> req\<lparr>Request_audits := Request_audits req @ [entry]\<rparr>)
     in if admitted
        then (None, if op = Mutation then w\<lparr>w_requests := recorded\<rparr> else w)
        else (Some (Sentinel ErrNotAdmin), w\<lparr>w_requests := recorded, w_prom := w_prom w @
           [Inc (metric_name (app_metrics (Request_Env req)) ''admin_denied_total'')
              [PrefixDenied @ action]]\<rparr>))"
proof -
  have from_ctx: "run (FromCtx (g_ctx ctx)) w = (Inr (n, req), w)"
    using assms by (simp add: FromCtx_def)
  have action: "Entry_Action (admin_entry action req) = action" for action
    by (simp add: admin_entry_def Let_def split: option.splits)
  have same: "(admin_entry action req)\<lparr>Entry_Action := action\<rparr> = admin_entry action req" for action
    by (simp add: admin_entry_def Let_def split: option.splits)
  show ?thesis
    using assms from_ctx
    by (cases "Request_isAdmin req"; cases "Request_user req")
      (simp_all add: checkAdmin_def resolver_env_def graph_env_def CurrentAdmin_def UserID_def
        denyAdmin_def Let_def action same WriteAudit_def AddAudit_def change_request_def
        MetricsIncreaseAdminDenied_def prom_Inc_def)
qed

text \<open>
  C19. The admin boundary is exact and leaves a trace. A request crosses it when its user is an
  admin, as the database said when the request's identity was resolved, and gets \<open>ErrNotAdmin\<close>
  otherwise. A refusal puts one entry with the action marked \<open>denied:\<close> and the variables in the
  request's buffer and counts it under the same label; a mutation that is let through puts one
  entry; a query that is let through none. Nothing else in the world changes: in particular no
  statement runs.
\<close>

theorem checkAdmin_exact:
  assumes "ctx_request (g_ctx ctx) = Some n" "w_requests w n = Some req"
  shows "run (checkAdmin G r ctx op) w =
    (let action = adminAction G ctx op;
         admitted = Request_isAdmin req \<and> Request_user req \<noteq> None;
         entry = (admin_entry action req)
           \<lparr>Entry_Action := (if admitted then action else PrefixDenied @ action),
            Entry_Detail := auditVariables ctx\<rparr>;
         recorded = (w_requests w)(n \<mapsto> req\<lparr>Request_audits := Request_audits req @ [entry]\<rparr>)
     in if admitted
        then (None, if op = Mutation then w\<lparr>w_requests := recorded\<rparr> else w)
        else (Some (Sentinel ErrNotAdmin), w\<lparr>w_requests := recorded, w_prom := w_prom w @
           [Inc (metric_name (app_metrics (Request_Env req)) ''admin_denied_total'')
              [PrefixDenied @ action]]\<rparr>))"
  by (rule checkAdmin_run [OF assms])

text \<open>A library that collects the fields of the selection itself and follows no fragment.\<close>

fun plain_field :: "Selection \<Rightarrow> CollectedField list" where
  "plain_field (SelField al name args sels) =
     [\<lparr>field_Alias = al, field_Name = name, field_Args = args, field_Selections = sels,
       field_Deferrables = []\<rparr>]"
| "plain_field (SelFragment on sels) = []"

definition demo_gqlgen :: gqlgen where
  "demo_gqlgen =
     \<lparr>gql_CollectFields = (\<lambda>op sels on. concat (map plain_field sels)),
      gql_DefaultErrorPresenter = (\<lambda>path e. case e of
          Gql g \<Rightarrow> g\<lparr>gqlerror_Path := path\<rparr>
        | Plain err \<Rightarrow> \<lparr>gqlerror_Message = error_text err, gqlerror_Err = Some err, gqlerror_Path = path\<rparr>
        | Wrapping t inner \<Rightarrow> (case as_gqlerror inner of
              Some g \<Rightarrow> g\<lparr>gqlerror_Path := path\<rparr>
            | None \<Rightarrow> \<lparr>gqlerror_Message = t, gqlerror_Err = Some (NewError t), gqlerror_Path = path\<rparr>)),
      gql_WrapPath = (\<lambda>path err. \<lparr>gqlerror_Message = error_text err, gqlerror_Err = Some err,
          gqlerror_Path = path\<rparr>),
      gql_Error = gqlerror_Message, gql_PathString = (\<lambda>path. Join path ''.'')\<rparr>"

definition demo_resolver :: Resolver where
  "demo_resolver = \<lparr>resolver_DefaultEnv = graph_env demo_app\<rparr>"

lemma demo_action: "adminAction demo_gqlgen demo_gctx Mutation = ''mutation:banUser''"
  by code_simp

theorem checkAdmin_exact_witness:
  "fst (run (checkAdmin demo_gqlgen demo_resolver demo_gctx Mutation) demo_world) = None"
proof -
  have ctx: "ctx_request (g_ctx demo_gctx) = Some 1" by (simp add: demo_gctx_def demo_ctx_def)
  show ?thesis
    unfolding checkAdmin_exact [OF ctx demo_request(2)] by (simp add: Let_def)
qed

text \<open>
  C20. The name of an audited operation, which also labels a metric, depends only on which
  schema fields were selected: not on aliases, repetition or order. It lists the first eight of
  them in order, each once, and none whose name starts with two underscores.
\<close>

theorem adminAction_names:
  assumes "g_field ctx = Some field"
  shows "adminAction G ctx op =
    (let kind = (if op = Mutation then ''mutation'' else ''query'');
         names = take 8 (sorted_list_of_set
           {n \<in> field_Name ` set (gql_CollectFields G (g_operation ctx) (field_Selections field) []).
            \<not> HasPrefix n ''__''})
     in if names = [] then kind else kind @ '':'' @ Join names '','')"
  unfolding adminAction_def selectedFieldNames_eq [OF assms] by (simp only: Let_def)

theorem adminAction_names_witness:
  "take 8 (sorted_list_of_set {n \<in> {''banUser'', ''__typename''}. \<not> HasPrefix n ''__''})
   = [''banUser''] \<and> adminAction demo_gqlgen demo_gctx Mutation = ''mutation:banUser''"
proof -
  let ?field = "the (g_field demo_gctx)"
  have field: "g_field demo_gctx = Some ?field" by (simp add: demo_gctx_def)
  have names: "{n \<in> {''banUser'', ''__typename''}. \<not> HasPrefix n ''__''} = {''banUser''}"
    by (auto simp: HasPrefix_def)
  have "field_Name ` set (gql_CollectFields demo_gqlgen (g_operation demo_gctx)
      (field_Selections ?field) []) = {''banUser'', ''__typename''}"
    by (simp add: demo_gqlgen_def demo_gctx_def)
  with names show ?thesis
    unfolding adminAction_names [OF field] by (simp add: Let_def)
qed

section \<open>Errors\<close>

text \<open>What the library documents of \<open>WrapPath\<close>.\<close>

definition wraps_documented :: "gqlgen \<Rightarrow> bool" where
  "wraps_documented G \<longleftrightarrow>
     (\<forall>path err. gqlerror_Message (gql_WrapPath G path err) = error_text err
        \<and> gqlerror_Path (gql_WrapPath G path err) = path)"

definition speaks_of_itself :: "graph_error \<Rightarrow> bool" where
  "speaks_of_itself e \<longleftrightarrow> (case as_gqlerror e of None \<Rightarrow> False | Some g \<Rightarrow> gqlerror_Err g = None)"

lemma hex_digit_val_digit: "0 \<le> d \<Longrightarrow> d < 16 \<Longrightarrow> hex_digit_val (hex_digit d) = Some d"
  by (simp add: hex_digit_val_def hex_digit_def byte_val_char Let_def)

lemma EncodeToString_hex:
  "list_all is_hex (EncodeToString buf) \<and> length (EncodeToString buf) = 2 * length buf"
proof -
  have nib: "byte_val c div 16 < 16" "0 \<le> byte_val c div 16" for c
    using byte_val_lt [of c] byte_val_nonneg [of c] by linarith+
  show ?thesis
    by (induction buf) (auto simp: EncodeToString_def is_hex_def hex_digit_val_digit nib)
qed

text \<open>
  C21. Nothing of an internal error reaches the caller: whatever failed, the caller reads the
  same answer, made only of a reference of twelve hex digits (or the word that there is none)
  and the path it asked for, and the whole text of the error is logged once, under that reference
  and path. The refusal of the admin boundary and the errors of the library that wrap nothing
  pass through, unlogged, also when a text was put in front of them.
\<close>

theorem errorPresenter_hides:
  assumes "wraps_documented G" "\<And>buf. rand_Read 6 = Inr buf \<Longrightarrow> length buf = 6"
    and "run (errorPresenter G rand_Read ctx err) w = (shown, w')"
  shows "if graph_error_Is err ErrNotAdmin
    then gqlerror_Message shown = ''unauthorized'' \<and> gqlerror_Path shown = g_path ctx \<and> w' = w
    else if speaks_of_itself err
    then shown = gql_DefaultErrorPresenter G (g_path ctx) err \<and> w' = w
    else \<exists>ref. gqlerror_Message shown = ''internal error, ref '' @ ref
           \<and> (ref = ''unavailable'' \<or> length ref = 12 \<and> list_all is_hex ref)
           \<and> gqlerror_Path shown = g_path ctx
           \<and> w' = w\<lparr>w_log := w_log w @ [Log Error ''resolver failed''
                [(''error'', graph_error_text G err), (''ref'', ref), (''path'', gql_PathString G (g_path ctx))]]\<rparr>
           \<and> (\<forall>other v. \<not> graph_error_Is other ErrNotAdmin \<and> \<not> speaks_of_itself other \<longrightarrow>
                fst (run (errorPresenter G rand_Read ctx other) v) = shown)"
proof -
  have ref: "errorRef rand_Read = ''unavailable''
      \<or> length (errorRef rand_Read) = 12 \<and> list_all is_hex (errorRef rand_Read)"
    using assms(2) EncodeToString_hex
    by (auto simp: errorRef_def split: sum.splits)
  note presenter = errorPresenter_def speaks_of_itself_def [symmetric] log_at_def Let_def
  show ?thesis
  proof (cases "graph_error_Is err ErrNotAdmin \<or> speaks_of_itself err")
    case True
    with assms(1,3) show ?thesis by (auto simp: presenter wraps_documented_def)
  next
    case False
    with assms(1,3) ref show ?thesis
      by (auto simp: presenter wraps_documented_def)
  qed
qed

definition demo_rand :: "nat \<Rightarrow> go_error + string" where
  "demo_rand k = Inr (replicate k CHR 0x0F)"

definition demo_failure :: graph_error where
  "demo_failure = Wrapping ''failed to list users'' (Plain (NewError ''no such column: users.secret''))"

theorem errorPresenter_hides_witness:
  "w_log (snd (run (errorPresenter demo_gqlgen demo_rand demo_gctx demo_failure) demo_world))
    = [Log Error ''resolver failed'' [(''error'', ''failed to list users: no such column: users.secret''),
         (''ref'', ''0f0f0f0f0f0f''), (''path'', ''admin'')]]"
proof -
  have doc: "wraps_documented demo_gqlgen" by (simp add: wraps_documented_def demo_gqlgen_def)
  have len: "\<And>buf. demo_rand 6 = Inr buf \<Longrightarrow> length buf = 6" by (auto simp: demo_rand_def)
  have internal: "graph_error_Is demo_failure ErrNotAdmin = False" "speaks_of_itself demo_failure = False"
    by (simp_all add: speaks_of_itself_def demo_failure_def)
  obtain shown w' where run: "run (errorPresenter demo_gqlgen demo_rand demo_gctx demo_failure) demo_world
      = (shown, w')" by (cases "run (errorPresenter demo_gqlgen demo_rand demo_gctx demo_failure) demo_world")
  from errorPresenter_hides [OF doc len run, unfolded internal if_False]
  obtain ref where "gqlerror_Message shown = ''internal error, ref '' @ ref"
    "w' = demo_world\<lparr>w_log := w_log demo_world @ [Log Error ''resolver failed''
        [(''error'', graph_error_text demo_gqlgen demo_failure), (''ref'', ref),
         (''path'', gql_PathString demo_gqlgen (g_path demo_gctx))]]\<rparr>" by blast
  moreover have "gqlerror_Message (fst (run (errorPresenter demo_gqlgen demo_rand demo_gctx demo_failure)
      demo_world)) = ''internal error, ref 0f0f0f0f0f0f''"
    by code_simp
  moreover have "w_log demo_world = []" by (simp add: demo_world_def)
  moreover have "graph_error_text demo_gqlgen demo_failure = ''failed to list users: no such column: users.secret''"
    "gql_PathString demo_gqlgen (g_path demo_gctx) = ''admin''"
    by code_simp+
  ultimately show ?thesis by (simp add: run)
qed

text \<open>Inputs written into the text of an operation are not among its variables.\<close>

lemma inline_inputs_unrecorded:
  "g_operation ctx = Some opCtx \<Longrightarrow> oc_Variables opCtx = [] \<Longrightarrow> auditVariables ctx = ''''"
  by (simp add: auditVariables_def)

end
