(* ===== verification/HttpProps.thy ===== *)
theory HttpProps
  imports Http GraphProps
begin

text \<open>
  What the HTTP layer guarantees of every request: nobody gets past it without a verified
  identity, a ban takes effect at once, the security headers are on every answer, and the audit
  entries of a request reach the log after it.
\<close>

lemmas resp_defs = resp_code_def http_Error_def http_Redirect_def resp_Write_def WriteHeader_def
  Header_Set_def

section \<open>The request in flight\<close>

lemma run_appreq_New:
  "run (appreq_New a ip) w = (w_next_request w, w\<lparr>w_next_request := Suc (w_next_request w),
     w_requests := (w_requests w)(w_next_request w \<mapsto> \<lparr>Request_Env = a, Request_user = None,
       Request_isAdmin = False, Request_ip = ip, Request_audits = []\<rparr>)\<rparr>)"
  by (simp add: appreq_New_def)

definition entered :: "app \<Rightarrow> http_Request \<Rightarrow> World \<Rightarrow> World" where
  "entered a r w = snd (run (appreq_New a (clientip_Resolve r (Config_TrustedProxies (app_config a)))) w)"

lemma entered_calm: "calm w w \<Longrightarrow> calm w (entered a r w)"
  by (simp add: entered_def run_appreq_New calm_def)

lemma entered_simps [simp]:
  "w_committed (entered a r w) = w_committed w"
  "w_next_request (entered a r w) = Suc (w_next_request w)"
  "healthy_world (entered a r w) = healthy_world w"
  "w_clock (entered a r w) = w_clock w" "w_ticks (entered a r w) = w_ticks w"
  "w_ready (entered a r w) = w_ready w"
  "w_requests (entered a r w) (w_next_request w) = Some \<lparr>Request_Env = a, Request_user = None,
       Request_isAdmin = False, Request_ip = clientip_Resolve r (Config_TrustedProxies (app_config a)),
       Request_audits = []\<rparr>"
  by (simp_all add: entered_def run_appreq_New healthy_world_def)

lemma entered_free:
  "base_app a \<Longrightarrow> ctx_txEnv outer = None \<Longrightarrow> open_env a (NewContext (w_next_request w) outer) (entered a r w) = None"
  by (simp add: open_env_def txEnvFromCtx_def FromCtx_def NewContext_def base_app_def)

definition stale_answer :: "http_libs \<Rightarrow> app \<Rightarrow> http_Request \<Rightarrow> Response \<Rightarrow> Response" where
  "stale_answer H a r resp =
     (if isNavigation r then http_Redirect H r (SignOutURL a) 303 resp
      else http_Error (''the gate'' @ [CHR 0x27] @ ''s token no longer verifies: sign in again'') 401 resp)"

lemma run_refuseStaleToken: "run (refuseStaleToken H a ctx r resp) w = (stale_answer H a r resp, w)"
  by (simp add: refuseStaleToken_def stale_answer_def)

text \<open>Every way through the middleware, from the identity it finds.\<close>

lemma withRequest_cases:
  assumes run: "run (withRequest H a nxt outer r resp) w = (out, w')"
    and ident: "run (resolveIdentity a (NewContext (w_next_request w) outer) (w_next_request w) r)
      (entered a r w) = (seen, w2)"
  obtains (failed) err where "seen = Inl err" "out = http_Error ''internal error'' 500 resp"
      "w' = w2\<lparr>w_log := w_log w2 @ [Log Error ''failed to resolve identity'' [(''error'', error_text err)]]\<rparr>"
    | (banned) i where "seen = Inr (Some i)" "Auth_BanReason i \<noteq> ''''"
      "out = http_Error (''access revoked: '' @ Auth_BanReason i) 403 resp" "w' = w2"
    | (stale) i where "seen = Inr (Some i)" "Auth_StaleToken i"
      "out = stale_answer H a r resp" "w' = w2"
    | (served) i w3 where "seen = Inr i" "\<not> Banned i" "\<not> Stale i"
      "run (nxt (NewContext (w_next_request w) outer) r resp) w2 = (out, w3)"
      "run (do { entries \<leftarrow> TakeAudit (w_next_request w); flushAudit a entries }) w3 = ((), w')"
proof -
  have start: "run (appreq_New a (clientip_Resolve r (Config_TrustedProxies (app_config a)))) w
      = (w_next_request w, entered a r w)"
    by (simp add: entered_def run_appreq_New)
  note unfolded = run [unfolded withRequest_def]
  show thesis
  proof (cases seen)
    case (Inl err)
    with unfolded start ident failed show thesis by (auto simp: Let_def log_at_def)
  next
    case (Inr i)
    show thesis
    proof (cases "Banned i")
      case True
      then obtain i' where "i = Some i'" by (auto simp: Banned_def split: option.splits)
      with True Inr unfolded start ident banned show thesis by (auto simp: Let_def Banned_def)
    next
      case free: False
      show thesis
      proof (cases "Stale i")
        case True
        then obtain i' where "i = Some i'" by (auto simp: Stale_def split: option.splits)
        with True free Inr unfolded start ident stale show thesis
          by (auto simp: Let_def Stale_def run_refuseStaleToken)
      next
        case False
        with free Inr unfolded start ident served show thesis
          by (auto simp: Let_def split: prod.splits)
      qed
    qed
  qed
qed

lemma resolveIdentity_unverified:
  assumes "calm w w" "\<And>claimed. \<not> verified_claims a r claimed"
    and "run (resolveIdentity a ctx n r) w = (seen, w')"
  shows "calm w w'" "w_committed w' = w_committed w" "w_requests w' = w_requests w"
    "w_ready w' = w_ready w"
    "seen = Inr None \<or> (\<exists>i. seen = Inr (Some i) \<and> Auth_BanReason i = '''' \<and> Auth_StaleToken i)"
proof -
  obtain g w1 where gate: "run (gate_IdentityOf (app_libs a) (state_gate_issuer (app_state a)) r) w = (g, w1)"
    by force
  note g1 = gate_step(1-3) [OF gate assms(1)]
  have ready: "w_ready w1 = w_ready w"
    using gate by (auto simp: gate_IdentityOf_def Now_def split: sum.splits)
  obtain err where "g = Inl err" using gate_step(4) [OF gate assms(1)] assms(2) by (cases g) auto
  note resolved = assms(3) [unfolded resolveIdentity_def] gate
  have "\<exists>l. w' = w1\<lparr>w_log := l\<rparr>"
  proof (cases "errors_Is err ErrNoToken")
    case True
    with resolved \<open>g = Inl err\<close> have "w' = w1\<lparr>w_log := w_log w1\<rparr>" by simp
    then show ?thesis by (rule exI)
  next
    case False
    with resolved \<open>g = Inl err\<close>
    have "w' = w1\<lparr>w_log := w_log w1 @ [Log Warn ''rejected an identity from the gate'' [(''error'', error_text err)]]\<rparr>"
      by (simp add: log_at_def split: if_splits)
    then show ?thesis by (rule exI)
  qed
  then obtain l where w': "w' = w1\<lparr>w_log := l\<rparr>" ..
  have seen: "seen = Inr None \<or> (\<exists>i. seen = Inr (Some i) \<and> Auth_BanReason i = '''' \<and> Auth_StaleToken i)"
  proof -
    have "seen = (if errors_Is err ErrNoToken then Inr None else if errors_Is err ErrInvalidToken
        then Inr (Some \<lparr>Auth_User = None, Auth_IsAdmin = False, Auth_BanReason = '''', Auth_StaleToken = True\<rparr>)
        else Inr None)"
      using resolved \<open>g = Inl err\<close> by (simp add: log_at_def split: if_splits)
    then show ?thesis by simp
  qed
  from g1(1) show "calm w w'" by (simp add: calm_def w')
  show "w_committed w' = w_committed w" "w_requests w' = w_requests w" "w_ready w' = w_ready w"
    by (simp_all add: w' g1 ready)
  show "seen = Inr None \<or> (\<exists>i. seen = Inr (Some i) \<and> Auth_BanReason i = '''' \<and> Auth_StaleToken i)"
    by (rule seen)
qed

section \<open>Properties\<close>

definition guarded :: "route \<Rightarrow> bool" where
  "guarded rt \<longleftrightarrow> rt \<in> {GraphQLEndpoint, PlaygroundPage, Settings, Shell}"

definition no_identity :: "Response \<Rightarrow> Response" where
  "no_identity w = http_Error ''no verified identity on this request: reach the panel through the gate'' 401 w"

lemma run_requireIdentity:
  assumes "ctx_request ctx = Some n" "w_requests w n = Some req"
  shows "run (requireIdentity nxt ctx r resp) w =
    (if Request_user req = None then (no_identity resp, w) else run (nxt ctx r resp) w)"
  using assms by (simp add: requireIdentity_def FromCtx_def UserID_def no_identity_def)

lemma mux_anonymous:
  assumes "ctx_request ctx = Some n" "w_requests w n = Some req" "Request_user req = None"
    and "guarded (mux_route (Config_BasePath (app_config a)) (Config_DevMode (app_config a)) (http_Method r) (http_Path r))"
  shows "run (mux H a ctx r resp) w = (no_identity resp, w)"
  using assms
  by (auto simp: mux_def guarded_def Let_def limitBody_def run_requireIdentity)

lemma flush_nothing:
  assumes "w_requests w n = Some req" "Request_audits req = []"
  shows "snd (run (do { entries \<leftarrow> TakeAudit n; flushAudit a entries }) w)
    = w\<lparr>w_requests := (w_requests w)(n \<mapsto> req)\<rparr>"
  using assms by (cases req) (simp add: TakeAudit_def change_request_def)

definition secured :: "Response \<Rightarrow> Response" where
  "secured w =
     Header_Set ''Referrer-Policy'' ''same-origin''
       (Header_Set ''X-Content-Type-Options'' ''nosniff''
         (Header_Set ''X-Frame-Options'' ''DENY''
           (Header_Set ''Content-Security-Policy'' contentSecurityPolicy w)))"

lemma routes_eq: "routes H a ctx r resp = withRequest H a (mux H a) ctx r (secured resp)"
  by (simp add: routes_def securityHeaders_def secured_def)

text \<open>
  C24. Nobody gets past the front door without a verified identity. For a request whose token
  does not verify, or that has none, the guarded routes (the GraphQL endpoint, the playground,
  the settings script and the shell) answer 401, or send a browser with a stale token to sign
  out; no handler runs, the database is as it was and nothing waits for it.
\<close>

theorem routes_need_identity:
  assumes "calm w w" "\<And>claimed. \<not> verified_claims a r claimed"
    and "guarded (mux_route (Config_BasePath (app_config a)) (Config_DevMode (app_config a)) (http_Method r) (http_Path r))"
    and "run (routes H a outer r new_response) w = (out, w')"
  shows "(out = no_identity (secured new_response) \<or> out = stale_answer H a r (secured new_response))
    \<and> resp_code out = (if out = no_identity (secured new_response) \<or> \<not> isNavigation r then 401 else 303)
    \<and> w_committed w' = w_committed w \<and> w_tx w' = None \<and> w_stalls w' = w_stalls w"
proof -
  let ?n = "w_next_request w"
  let ?ctx = "NewContext ?n outer"
  obtain seen w2 where ident: "run (resolveIdentity a ?ctx ?n r) (entered a r w) = (seen, w2)" by force
  have in_calm: "calm (entered a r w) (entered a r w)" using entered_calm [OF assms(1)] calm_self by blast
  note id2 = resolveIdentity_unverified [OF in_calm assms(2) ident]
  have c2: "calm w w2" using calm_trans [OF entered_calm [OF assms(1)] id2(1)] .
  have no_ban: "\<And>i. seen = Inr (Some i) \<Longrightarrow> Auth_BanReason i = ''''" using id2(5) by auto
  from assms(4) have run: "run (withRequest H a (mux H a) outer r (secured new_response)) w = (out, w')"
    by (simp add: routes_eq)
  have codes: "resp_code (no_identity (secured new_response)) = 401"
    "resp_code (stale_answer H a r (secured new_response)) = (if isNavigation r then 303 else 401)"
    by (simp_all add: resp_defs no_identity_def stale_answer_def secured_def new_response_def split: prod.splits)
  from run ident show ?thesis
  proof (cases rule: withRequest_cases)
    case (failed err)
    with id2(5) show ?thesis by simp
  next
    case (banned i)
    with no_ban show ?thesis by simp
  next
    case (stale i)
    with c2 id2(2) codes show ?thesis by (auto simp: calm_def)
  next
    case (served i w3)
    have ctx: "ctx_request ?ctx = Some ?n" by (simp add: NewContext_def)
    obtain req where req: "w_requests w2 ?n = Some req" "Request_user req = None" "Request_audits req = []"
      using id2(3) by simp
    from served(4) mux_anonymous [OF ctx req(1,2) assms(3)]
    have "out = no_identity (secured new_response)" "w3 = w2" by simp_all
    moreover have "w' = w2\<lparr>w_requests := (w_requests w2)(?n \<mapsto> req)\<rparr>"
      using served(5) flush_nothing [OF req(1,3), of a] \<open>w3 = w2\<close> by simp
    ultimately show ?thesis using c2 id2(2) codes by (simp add: calm_def)
  qed
qed

section \<open>A panel to evaluate on\<close>

definition demo_http :: http_libs where
  "demo_http =
     \<lparr>http_ServeGraphQL = (\<lambda>server ctx r w. ret (resp_Write ''{}'' w)),
      http_Playground = (\<lambda>title endpoint ctx r w. ret (resp_Write title w)),
      http_FileServer = (\<lambda>ctx r w. ret (resp_Write ''file'' w)),
      http_redirect_target = (\<lambda>r url. (url, '''')),
      http_redirect_status = 307,
      http_shell = ''<base href={{base_path}}>'',
      http_gqlgen = demo_gqlgen,
      http_rand = demo_rand\<rparr>"

definition anonymous :: "string \<Rightarrow> http_Request" where
  "anonymous path = \<lparr>http_Method = ''GET'', http_Path = path, http_Header = [],
     http_RemoteAddr = ''10.0.0.1:4000'', http_Body = '''', http_BodyLimit = None\<rparr>"

lemma demo_calm: "calm demo_world demo_world"
  using demo_idle by (simp add: idle_def calm_refl)

theorem routes_need_identity_witness:
  "resp_code (fst (run (routes demo_http demo_app background (anonymous ''/settings.js'') new_response) demo_world)) = 401"
proof -
  have none: "\<And>claimed. \<not> verified_claims demo_app (anonymous ''/settings.js'') claimed"
    by (simp add: verified_claims_def bearerToken_def Header_Get_def Header_Values_def anonymous_def)
  have route: "mux_route (Config_BasePath (app_config demo_app)) (Config_DevMode (app_config demo_app))
      (http_Method (anonymous ''/settings.js'')) (http_Path (anonymous ''/settings.js'')) = Settings"
    by code_simp
  have "\<not> (isNavigation (anonymous ''/settings.js''))"
    by (simp add: isNavigation_def anonymous_def Header_Get_def Header_Values_def Contains_def)
  with routes_need_identity [where H = demo_http and r = "anonymous ''/settings.js''" and outer = background,
      OF demo_calm none _ surjective_pairing, unfolded route]
  show ?thesis by (simp add: guarded_def)
qed

section \<open>Bans\<close>

lemma resolveIdentity_banned:
  assumes "base_app a" "calm w w" "healthy_world w" "bearerToken r = Inr raw"
    and "lib_Verify (app_libs a) (w_clock w (w_ticks w)) raw = Inr token"
    and "claims_identity (state_gate_issuer (app_state a)) token = Inr claimed"
    and "identity_row claimed (w_committed w) = Some row" "Identity_BanReason row \<noteq> ''''"
    and "run (resolveIdentity a ctx n r) w = (res, w')"
  shows "res = Inr (Some \<lparr>Auth_User = None, Auth_IsAdmin = False,
      Auth_BanReason = Identity_BanReason row, Auth_StaleToken = False\<rparr>)"
    "calm w w'" "w_committed w' = w_committed w"
proof -
  define w1 where "w1 = w\<lparr>w_ticks := Suc (w_ticks w)\<rparr>"
  have gate: "run (gate_IdentityOf (app_libs a) (state_gate_issuer (app_state a)) r) w = (Inr claimed, w1)"
    using assms(4-6) by (simp add: gate_IdentityOf_def Now_def w1_def)
  note g1 = gate_step(1,2) [OF gate assms(2)]
  let ?q = "\<lparr>IdentityParams_OidcIssuer = gate_Issuer claimed, IdentityParams_OidcSubject = gate_Subject claimed\<rparr>"
  obtain q w2 where look: "run (DBGetIdentityByOIDC (app_Queries a) ?q) w1 = (q, w2)" by force
  note l = identity_lookup [OF base_appD(1) [OF assms(1)] calm_self [OF g1(1)] look]
  have "healthy_world w1" using assms(3) by (simp add: w1_def healthy_world_def)
  with l(4) g1(2) assms(7) have q: "q = Inr row" by simp
  have out: "(res, w') = (Inr (Some \<lparr>Auth_User = None, Auth_IsAdmin = False,
      Auth_BanReason = Identity_BanReason row, Auth_StaleToken = False\<rparr>), w2)"
    unfolding assms(9) [symmetric] using gate look q assms(8) by (simp add: resolveIdentity_def)
  then show "res = Inr (Some \<lparr>Auth_User = None, Auth_IsAdmin = False,
      Auth_BanReason = Identity_BanReason row, Auth_StaleToken = False\<rparr>)" by simp
  from out g1 l(1,2) show "calm w w'" "w_committed w' = w_committed w"
    by (auto intro: calm_trans)
qed

text \<open>
  C25. A ban takes effect on the next request. Whatever a banned user's verified request asks
  for, the answer is 403 with the reason of the ban; no handler runs and the database is as it
  was.
\<close>

theorem ban_blocks_next_request:
  assumes "base_app a" "calm w w" "healthy_world w" "bearerToken r = Inr raw"
    and "lib_Verify (app_libs a) (w_clock w (w_ticks w)) raw = Inr token"
    and "claims_identity (state_gate_issuer (app_state a)) token = Inr claimed"
    and "user_with (gate_Issuer claimed) (gate_Subject claimed) (w_committed w) = Some u"
    and "row_of b_user_id (u_id u) (db_user_bans (w_committed w)) = Some ban" "b_reason ban \<noteq> ''''"
    and "run (withRequest H a nxt outer r resp) w = (out, w')"
  shows "out = http_Error (''access revoked: '' @ b_reason ban) 403 resp
    \<and> w_committed w' = w_committed w \<and> w_tx w' = None \<and> w_stalls w' = w_stalls w"
proof -
  let ?n = "w_next_request w" and ?v = "w_committed w"
  let ?w = "entered a r w"
  obtain seen w2 where ident: "run (resolveIdentity a (NewContext ?n outer) ?n r) ?w = (seen, w2)" by force
  obtain row where row: "identity_row claimed (w_committed ?w) = Some row" "Identity_BanReason row = b_reason ban"
    using assms(7,8) by (simp add: identity_row_def scan_Identity_def ban_reason_column_def)
  have calm: "calm ?w ?w" using entered_calm [OF assms(2)] calm_self by blast
  note known = resolveIdentity_banned [OF assms(1) calm _ assms(4) _ assms(6) row(1) _ ident]
  have res: "seen = Inr (Some \<lparr>Auth_User = None, Auth_IsAdmin = False, Auth_BanReason = b_reason ban,
      Auth_StaleToken = False\<rparr>)" "calm ?w w2" "w_committed w2 = ?v"
    using known assms(3,5,9) row(2) by simp_all
  have "calm w w2" using calm_trans [OF entered_calm [OF assms(2)] res(2)] .
  moreover from assms(10) ident have "out = http_Error (''access revoked: '' @ b_reason ban) 403 resp \<and> w' = w2"
    by (cases rule: withRequest_cases) (use res(1) assms(9) in \<open>auto simp: Banned_def\<close>)
  ultimately show ?thesis using res(3) by (simp add: calm_def)
qed

definition eve_token :: IDToken where
  "eve_token = \<lparr>token_Subject = ''eve'', token_IssuedAt = 7, token_Claims = Inr \<lparr>claims_Email = ''eve@example.com'',
     claims_Verified = Some True, claims_Name = ''Eve''\<rparr>\<rparr>"

definition eve_app :: app where
  "eve_app = demo_app\<lparr>app_state := (app_state demo_app)
     \<lparr>state_libs := demo_libs\<lparr>lib_Verify := (\<lambda>t raw. Inr eve_token)\<rparr>\<rparr>\<rparr>"

theorem ban_blocks_next_request_witness:
  "fst (run (withRequest demo_http eve_app healthz_handler background (bearer ''eve'') new_response) demo_world)
   = http_Error ''access revoked: spam'' 403 new_response"
proof -
  let ?claimed = "\<lparr>gate_Issuer = ''https://dex.example.com'', gate_Subject = ''eve'',
    gate_Email = ''eve@example.com'', gate_Name = ''Eve'', gate_IssuedAt = 7\<rparr>"
  have base: "base_app eve_app" using demo_base by (simp add: base_app_def eve_app_def)
  have healthy: "healthy_world demo_world" by (simp add: healthy_world_def demo_world_def)
  have bearer: "bearerToken (bearer ''eve'') = Inr ''eve''"
    by (simp add: bearerToken_def bearer_def Header_Get_def Header_Values_def CutPrefix_def HasPrefix_def)
  have verify: "lib_Verify (app_libs eve_app) (w_clock demo_world (w_ticks demo_world)) ''eve'' = Inr eve_token"
    by (simp add: app_libs_def eve_app_def)
  have claims: "claims_identity (state_gate_issuer (app_state eve_app)) eve_token = Inr ?claimed"
    by (simp add: claims_identity_def eve_token_def eve_app_def demo_app_def)
  have user: "user_with (gate_Issuer ?claimed) (gate_Subject ?claimed) (w_committed demo_world)
      = Some (demo_user 3 ''eve'')"
    by (simp add: demo_world_def demo_db_def demo_user_def user_with_def oidc_key_def)
  have ban: "row_of b_user_id (u_id (demo_user 3 ''eve'')) (db_user_bans (w_committed demo_world))
      = Some \<lparr>b_user_id = 3, b_banned_by = Some 1, b_reason = ''spam'', b_created_at = 4\<rparr>"
    by (simp add: demo_world_def demo_db_def demo_user_def row_of_def)
  show ?thesis
    using ban_blocks_next_request [OF base demo_calm healthy bearer verify claims user ban _ surjective_pairing,
        where H = demo_http and nxt = healthz_handler and outer = background and resp = new_response]
    by simp
qed

section \<open>Headers\<close>

text \<open>
  What is relied on of the handlers of the libraries: they leave the policies of the writer they
  were given as they are, and set at most \<open>X-Content-Type-Options: nosniff\<close>, which
  \<open>http.Error\<close> does, and with it the file server when it answers that a file is missing.
\<close>

definition policy_headers :: "string list" where
  "policy_headers = [''Content-Security-Policy'', ''X-Frame-Options'', ''Referrer-Policy'']"

definition keeps_policy :: "handler \<Rightarrow> bool" where
  "keeps_policy h \<longleftrightarrow>
     (\<forall>ctx r w v. let out = fst (run (h ctx r w) v) in
        (\<forall>name \<in> set policy_headers. resp_get out name = resp_get w name)
        \<and> resp_get out ''X-Content-Type-Options'' \<in> {resp_get w ''X-Content-Type-Options'', Some ''nosniff''})"

definition libs_keep_policy :: "http_libs \<Rightarrow> bool" where
  "libs_keep_policy H \<longleftrightarrow>
     (\<forall>server. keeps_policy (http_ServeGraphQL H server))
     \<and> (\<forall>title endpoint. keeps_policy (http_Playground H title endpoint))
     \<and> keeps_policy (http_FileServer H)"

definition framed :: "string \<Rightarrow> Response \<Rightarrow> bool" where
  "framed csp w \<longleftrightarrow>
     resp_get w ''Content-Security-Policy'' = Some csp \<and> resp_get w ''X-Frame-Options'' = Some ''DENY''
     \<and> resp_get w ''X-Content-Type-Options'' = Some ''nosniff'' \<and> resp_get w ''Referrer-Policy'' = Some ''same-origin''"

lemma map_of_without: "k \<noteq> k' \<Longrightarrow> map_of (filter (\<lambda>h. fst h \<noteq> k') hs) k = map_of hs k"
  by (induction hs) auto

lemma resp_get_Header_Set [simp]:
  "resp_get (Header_Set name v w) name' = (if name' = name then Some v else resp_get w name')"
  by (simp add: resp_get_def Header_Set_def map_of_without)

lemma resp_get_writes [simp]:
  "resp_get (WriteHeader code w) name = resp_get w name"
  "resp_get (resp_Write data w) name = resp_get w name"
  by (simp_all add: resp_get_def WriteHeader_def resp_Write_def split: option.splits)

lemma framed_answers [simp]:
  "framed csp w \<Longrightarrow> framed csp (http_Error msg code w)"
  "framed csp w \<Longrightarrow> framed csp (http_Redirect H r url code w)"
  "framed csp w \<Longrightarrow> framed csp (resp_Write data w)"
  "framed csp w \<Longrightarrow> framed csp (WriteHeader code w)"
  "framed csp w \<Longrightarrow> framed csp (Header_Set ''Content-Type'' ct w)"
  "framed csp w \<Longrightarrow> framed csp' (Header_Set ''Content-Security-Policy'' csp' w)"
  by (simp_all add: framed_def http_Error_def http_Redirect_def split: prod.splits)

lemma framed_secured: "framed contentSecurityPolicy (secured w)"
  by (simp add: framed_def secured_def)

lemma framed_library:
  "keeps_policy h \<Longrightarrow> framed csp w \<Longrightarrow> framed csp (fst (run (h ctx r w) v))"
  unfolding keeps_policy_def framed_def policy_headers_def Let_def
  by (drule spec [of _ ctx], drule spec [of _ r], drule spec [of _ w], drule spec [of _ v]) auto

lemma requireIdentity_cases:
  "run (requireIdentity h ctx r w) v = (no_identity w, v) \<or> run (requireIdentity h ctx r w) v = run (h ctx r w) v"
  by (simp add: requireIdentity_def FromCtx_def UserID_def no_identity_def split: option.splits)

lemma framed_requireIdentity:
  assumes "framed csp w" "framed csp' (fst (run (h ctx r w) v))"
  shows "framed csp (fst (run (requireIdentity h ctx r w) v)) \<or> framed csp' (fst (run (requireIdentity h ctx r w) v))"
  using requireIdentity_cases [of h ctx r w v] assms by (auto simp: no_identity_def)

lemma framed_mux:
  assumes "libs_keep_policy H" "framed csp w"
  shows "framed csp (fst (run (mux H a ctx r w) v))
    \<or> Config_DevMode (app_config a) \<and> mux_route (Config_BasePath (app_config a))
         (Config_DevMode (app_config a)) (http_Method r) (http_Path r) = PlaygroundPage
       \<and> framed playground_csp (fst (run (mux H a ctx r w) v))"
proof -
  have served: "framed csp (fst (run (http_ServeGraphQL H server ctx r' w) v))" for server r'
    using assms by (intro framed_library) (simp_all add: libs_keep_policy_def)
  have graphql: "framed csp (fst (run (limitBody (requireIdentity (http_ServeGraphQL H server)) ctx r w) v))" for server
    using framed_requireIdentity [of csp w csp "http_ServeGraphQL H server" ctx _ v] assms(2) served
    by (simp add: limitBody_def)
  have page: "framed csp (fst (run (SPAHandler H base rev ctx r w) v))" for base rev
    using assms by (auto simp: SPAHandler_def Let_def libs_keep_policy_def framed_library)
  have shell: "framed csp (fst (run (requireIdentity (SPAHandler H base rev) ctx r w) v))" for base rev
    using framed_requireIdentity [of csp w csp "SPAHandler H base rev" ctx r v] assms(2) page by blast
  have settings: "framed csp (fst (run (requireIdentity (settingsScript base) ctx r w) v))" for base
    using framed_requireIdentity [of csp w csp "settingsScript base" ctx r v] assms(2)
    by (simp add: settingsScript_def Let_def)
  have playground: "framed playground_csp (fst (run (playgroundPolicy (http_Playground H title endpoint) ctx r w) v))"
    for title endpoint
    unfolding playgroundPolicy_def
    by (rule framed_library) (use assms in \<open>simp_all add: libs_keep_policy_def\<close>)
  have played: "framed csp (fst (run (requireIdentity (playgroundPolicy (http_Playground H title endpoint)) ctx r w) v))
      \<or> framed playground_csp (fst (run (requireIdentity (playgroundPolicy (http_Playground H title endpoint)) ctx r w) v))"
    for title endpoint
    using framed_requireIdentity [of csp w playground_csp "playgroundPolicy (http_Playground H title endpoint)" ctx r v]
      assms(2) playground by blast
  have dev: "Config_DevMode (app_config a)" if "mux_route (Config_BasePath (app_config a))
      (Config_DevMode (app_config a)) (http_Method r) (http_Path r) = PlaygroundPage"
    using that by (simp add: mux_route_def Let_def split: if_splits)
  show ?thesis
    using assms(2) graphql shell settings dev played
    by (cases "mux_route (Config_BasePath (app_config a)) (Config_DevMode (app_config a)) (http_Method r) (http_Path r)")
      (auto simp: mux_def Let_def healthz_handler_def readyz_handler_def)
qed

text \<open>
  C26. No answer of the panel can be framed, sniffed or extended with foreign content: whatever
  the route, the identity or the outcome, refusals and errors included, it carries the four
  security headers. Only the playground page, which is served in development mode alone, has a
  wider content policy, and it forbids framing too.
\<close>

theorem every_answer_is_framed:
  assumes "libs_keep_policy H" and "run (routes H a outer r new_response) w = (out, w')"
  shows "framed contentSecurityPolicy out
    \<or> Config_DevMode (app_config a) \<and> mux_route (Config_BasePath (app_config a))
         (Config_DevMode (app_config a)) (http_Method r) (http_Path r) = PlaygroundPage
       \<and> framed playground_csp out"
proof -
  let ?n = "w_next_request w"
  obtain seen w2 where ident: "run (resolveIdentity a (NewContext ?n outer) ?n r) (entered a r w) = (seen, w2)" by force
  from assms(2) have run: "run (withRequest H a (mux H a) outer r (secured new_response)) w = (out, w')"
    by (simp add: routes_eq)
  from run ident show ?thesis
  proof (cases rule: withRequest_cases)
    case (served i w3)
    with framed_mux [OF assms(1) framed_secured, of a "NewContext ?n outer" r new_response w2] show ?thesis by simp
  qed (auto simp: framed_secured stale_answer_def)
qed

text \<open>
  A file server of one file, which answers \<open>http.Error\<close> for every other name, and the request
  of a signed-in user for a script that is gone.
\<close>

definition demo_site :: http_libs where
  "demo_site = demo_http\<lparr>http_FileServer := (\<lambda>ctx r w.
     if http_Path r = ''/app.js'' then ret (resp_Write ''start'' (Header_Set ''Content-Type'' ''text/javascript'' w))
     else ret (http_Error ''404 page not found'' 404 w))\<rparr>"

lemma resp_get_http_Error:
  "resp_get (http_Error msg code w) name =
     (if name = ''X-Content-Type-Options'' then Some ''nosniff''
      else if name = ''Content-Type'' then Some ''text/plain; charset=utf-8'' else resp_get w name)"
  by (simp add: http_Error_def)

theorem every_answer_is_framed_witness:
  "libs_keep_policy demo_site \<and>
   (let out = fst (run (routes demo_site demo_app background ((bearer ''good'')\<lparr>http_Path := ''/ui/gone.js''\<rparr>)
      new_response) demo_world) in framed contentSecurityPolicy out \<and> resp_code out = 404)"
proof -
  have "libs_keep_policy demo_site"
    by (simp add: libs_keep_policy_def demo_site_def demo_http_def keeps_policy_def policy_headers_def Let_def
        resp_get_http_Error)
  moreover have "\<not> Config_DevMode (app_config demo_app)"
    by (simp add: app_config_def demo_app_def demo_config_def)
  moreover have "resp_code (fst (run (routes demo_site demo_app background
      ((bearer ''good'')\<lparr>http_Path := ''/ui/gone.js''\<rparr>) new_response) demo_world)) = 404"
    by code_simp
  ultimately show ?thesis
    using every_answer_is_framed [OF _ surjective_pairing, where H = demo_site and a = demo_app]
    by (auto simp: Let_def)
qed

end
