(* ===== verification/JsonRead.thy ===== *)
theory JsonRead
  imports Json
begin

text \<open>
  Reading JSON as \<open>encoding/json\<close> does: the document as a value of \<open>json\<close>, and its conversion
  to the Go values the program reads, which are 64-bit integers and structs with such a field.
\<close>

section \<open>Reading a document\<close>

text \<open>
  \<open>json.Unmarshal\<close> reads the whole text first. Tokens, then a machine over them whose stack
  holds the arrays and objects that are open.
\<close>

datatype token =
    TLBrace | TRBrace | TLBrack | TRBrack | TColon | TComma
  | TStr string | TNum string | TTrue | TFalse | TNull

definition utf8_encode :: "int \<Rightarrow> string" where
  "utf8_encode u =
     (if u < 0x80 then [char_of u]
      else if u < 0x800 then [char_of (0xC0 + u div 64), char_of (0x80 + u mod 64)]
      else if 0xD800 \<le> u \<and> u \<le> 0xDFFF then [CHR 0xEF, CHR 0xBF, CHR 0xBD]
      else if u < 0x10000
      then [char_of (0xE0 + u div 4096), char_of (0x80 + u div 64 mod 64), char_of (0x80 + u mod 64)]
      else [char_of (0xF0 + u div 262144), char_of (0x80 + u div 4096 mod 64),
            char_of (0x80 + u div 64 mod 64), char_of (0x80 + u mod 64)])"

definition replacement :: string where
  "replacement = [CHR 0xEF, CHR 0xBF, CHR 0xBD]"

definition simple_escape :: "char \<Rightarrow> char option" where
  "simple_escape c =
     map_of [(quote, quote), (backslash, backslash), (CHR ''/'', CHR ''/''), (CHR ''b'', CHR 0x08),
             (CHR ''f'', CHR 0x0C), (CHR ''n'', CHR 0x0A), (CHR ''r'', CHR 0x0D), (CHR ''t'', CHR 0x09)] c"

text \<open>Four hexadecimal digits.\<close>

definition hex4 :: "string \<Rightarrow> int option" where
  "hex4 s = (if length s \<ge> 4 \<and> list_all is_hex (take 4 s) then Some (hex_value (take 4 s)) else None)"

text \<open>What a \<open>\u\<close> escape stands for, with a low surrogate that may follow a high one, and the
  number of bytes after the \<open>u\<close> it takes.\<close>

definition u_rune :: "string \<Rightarrow> (string \<times> nat) option" where
  "u_rune s =
     (case hex4 s of
        None \<Rightarrow> None
      | Some u \<Rightarrow>
          if \<not> (0xD800 \<le> u \<and> u \<le> 0xDFFF) then Some (utf8_encode u, 4)
          else case (if take 2 (drop 4 s) = [backslash, CHR ''u''] then hex4 (drop 6 s) else None) of
            Some lo \<Rightarrow>
              if u < 0xDC00 \<and> 0xDC00 \<le> lo \<and> lo \<le> 0xDFFF
              then Some (utf8_encode (0x10000 + (u - 0xD800) * 1024 + (lo - 0xDC00)), 10)
              else Some (replacement, 4)
          | None \<Rightarrow> Some (replacement, 4))"

text \<open>The text of a string after its opening quote, and what follows its closing quote.\<close>

function (sequential) lex_string :: "string \<Rightarrow> (string \<times> string) option" where
  "lex_string [] = None"
| "lex_string (c # s) =
     (if c = quote then Some ([], s)
      else if c = backslash then
        (case s of
           [] \<Rightarrow> None
         | e # t \<Rightarrow>
             if e = CHR ''u'' then
               (case u_rune t of
                  None \<Rightarrow> None
                | Some (r, n) \<Rightarrow> map_option (apfst ((@) r)) (lex_string (drop n t)))
             else
               (case simple_escape e of
                  None \<Rightarrow> None
                | Some d \<Rightarrow> map_option (apfst ((#) d)) (lex_string t)))
      else if byte_val c < 0x20 then None
      else if byte_val c < 0x80 then map_option (apfst ((#) c)) (lex_string s)
      else let n = rune_len (c # s) in
        if n = 0 then map_option (apfst ((@) replacement)) (lex_string s)
        else map_option (apfst ((@) (take n (c # s)))) (lex_string (drop n (c # s))))"
  by pat_completeness auto
termination
  by (relation "measure length") auto

declare lex_string.simps [simp del]

lemma lex_string_shorter: "lex_string s = Some (t, rest) \<Longrightarrow> length rest < length s"
proof (induction s arbitrary: t rest rule: length_induct)
  case (1 s)
  have rec: "length rest < length s" if "lex_string u = Some (t', rest)" "length u < length s" for u t'
    using 1(1) that by (meson less_trans)
  show ?case
  proof (cases s)
    case Nil
    with 1(2) show ?thesis by (simp add: lex_string.simps)
  next
    case (Cons c u)
    from 1(2) [unfolded Cons lex_string.simps] show ?thesis
      by (auto simp: Cons Let_def split: if_splits list.splits option.splits
          dest!: rec [unfolded Cons, simplified])
  qed
qed

definition number_byte :: "char \<Rightarrow> bool" where
  "number_byte c \<longleftrightarrow> is_digit c \<or> c \<in> {CHR ''+'', CHR ''-'', CHR ''.'', CHR ''e'', CHR ''E''}"

definition punctuation :: "char \<Rightarrow> token option" where
  "punctuation c =
     map_of [(CHR ''{'', TLBrace), (CHR ''}'', TRBrace), (CHR ''['', TLBrack), (CHR '']'', TRBrack),
             (CHR '':'', TColon), (CHR '','', TComma)] c"

definition json_space :: "char \<Rightarrow> bool" where
  "json_space c \<longleftrightarrow> c \<in> {CHR '' '', CHR 0x09, CHR 0x0A, CHR 0x0D}"

definition literal :: "string \<Rightarrow> (token \<times> string) option" where
  "literal s =
     (if prefix ''true'' s then Some (TTrue, drop 4 s)
      else if prefix ''false'' s then Some (TFalse, drop 5 s)
      else if prefix ''null'' s then Some (TNull, drop 4 s)
      else None)"

function (sequential) lex :: "string \<Rightarrow> token list option" where
  "lex [] = Some []"
| "lex (c # s) =
     (if json_space c then lex s
      else if c = quote then
        (case lex_string s of None \<Rightarrow> None | Some (t, rest) \<Rightarrow> map_option ((#) (TStr t)) (lex rest))
      else if number_byte c then
        (if isValidNumber (takeWhile number_byte (c # s))
         then map_option ((#) (TNum (takeWhile number_byte (c # s)))) (lex (dropWhile number_byte s))
         else None)
      else case punctuation c of
        Some p \<Rightarrow> map_option ((#) p) (lex s)
      | None \<Rightarrow>
          (case literal (c # s) of None \<Rightarrow> None | Some (t, rest) \<Rightarrow> map_option ((#) t) (lex rest)))"
  by pat_completeness auto

lemma literal_shorter: "literal s = Some (t, rest) \<Longrightarrow> length rest < length s"
  by (auto simp: literal_def prefix_def split: if_splits)

termination lex
  by (relation "measure length")
    (auto simp: length_dropWhile_le less_Suc_eq_le
      dest: lex_string_shorter literal_shorter)

declare lex.simps [simp del]

text \<open>
  The machine: a value is wanted, or a value or the end of an array, a key or the end of an
  object, a key, a colon, what may follow a value, or the document is complete.
\<close>

datatype frame = InArray "json list" | InObject "(string \<times> json) list" | InMember "(string \<times> json) list" string

datatype reader =
    Want "frame list" | WantOrEnd "frame list" | KeyOrEnd "frame list" | Key "frame list"
  | Colon "frame list" | Following "frame list" | Complete json

fun got :: "json \<Rightarrow> frame list \<Rightarrow> reader option" where
  "got v [] = Some (Complete v)"
| "got v (InArray vs # fs) = Some (Following (InArray (vs @ [v]) # fs))"
| "got v (InMember ms k # fs) = Some (Following (InObject (ms @ [(k, v)]) # fs))"
| "got v (InObject ms # fs) = None"

definition max_depth :: nat where "max_depth = 10000"

fun read_value :: "frame list \<Rightarrow> token \<Rightarrow> reader option" where
  "read_value fs TNull = got JNull fs"
| "read_value fs TTrue = got (JBool True) fs"
| "read_value fs TFalse = got (JBool False) fs"
| "read_value fs (TNum t) = got (JNumber t) fs"
| "read_value fs (TStr t) = got (JString t) fs"
| "read_value fs TLBrack = (if length fs < max_depth then Some (WantOrEnd (InArray [] # fs)) else None)"
| "read_value fs TLBrace = (if length fs < max_depth then Some (KeyOrEnd (InObject [] # fs)) else None)"
| "read_value fs _ = None"

definition close_array :: "frame list \<Rightarrow> reader option" where
  "close_array fs = (case fs of InArray vs # fs' \<Rightarrow> got (JArray vs) fs' | _ \<Rightarrow> None)"

definition close_object :: "frame list \<Rightarrow> reader option" where
  "close_object fs = (case fs of InObject ms # fs' \<Rightarrow> got (JObject ms) fs' | _ \<Rightarrow> None)"

definition read_key :: "frame list \<Rightarrow> token \<Rightarrow> reader option" where
  "read_key fs t =
     (case (fs, t) of
        (InObject ms # fs', TStr k) \<Rightarrow> Some (Colon (InMember ms k # fs'))
      | _ \<Rightarrow> None)"

fun read_token :: "reader \<Rightarrow> token \<Rightarrow> reader option" where
  "read_token (Want fs) t = read_value fs t"
| "read_token (WantOrEnd fs) t = (if t = TRBrack then close_array fs else read_value fs t)"
| "read_token (KeyOrEnd fs) t = (if t = TRBrace then close_object fs else read_key fs t)"
| "read_token (Key fs) t = read_key fs t"
| "read_token (Colon fs) t = (if t = TColon then Some (Want fs) else None)"
| "read_token (Following fs) t =
     (case fs of
        InArray vs # _ \<Rightarrow>
          if t = TComma then Some (Want fs) else if t = TRBrack then close_array fs else None
      | InObject ms # _ \<Rightarrow>
          if t = TComma then Some (Key fs) else if t = TRBrace then close_object fs else None
      | _ \<Rightarrow> None)"
| "read_token (Complete v) t = None"

fun read_tokens :: "reader \<Rightarrow> token list \<Rightarrow> reader option" where
  "read_tokens r [] = Some r"
| "read_tokens r (t # ts) = (case read_token r t of None \<Rightarrow> None | Some r' \<Rightarrow> read_tokens r' ts)"

definition json_decode :: "string \<Rightarrow> json option" where
  "json_decode s =
     (case lex s of
        None \<Rightarrow> None
      | Some ts \<Rightarrow> (case read_tokens (Want []) ts of Some (Complete v) \<Rightarrow> Some v | _ \<Rightarrow> None))"

section \<open>Structs\<close>

definition min_int64 :: int where "min_int64 = -9223372036854775808"

text \<open>\<open>strconv.ParseInt\<close> with base 10 and 64 bits.\<close>

definition ParseInt64 :: "string \<Rightarrow> int64 option" where
  "ParseInt64 s =
     (let digits = drop_sign s;
          n = (if HasPrefix s ''-'' then - dec_value digits else dec_value digits)
      in if digits = [] \<or> \<not> list_all is_digit digits then None
         else if min_int64 \<le> n \<and> n \<le> max_int64 then Some n else None)"

text \<open>
  A key that is no field's name matches a field whose folded name it has: letters of either
  case, and the long s.
\<close>

fun fold_name :: "string \<Rightarrow> string" where
  "fold_name [] = []"
| "fold_name [c] = [lower_byte c]"
| "fold_name (c # d # s) =
     (if c = CHR 0xC5 \<and> d = CHR 0xBF then CHR ''s'' # fold_name s
      else lower_byte c # fold_name (d # s))"

definition cannot_unmarshal :: go_error where
  "cannot_unmarshal = NewError ''json: cannot unmarshal value into Go struct''"

definition syntax_error :: go_error where
  "syntax_error = NewError ''json: syntax error''"

text \<open>The members in order: null leaves the field, another type is an error that does not stop
  the others, and a later member wins. The first result is the value, the second the error.\<close>

fun int_member :: "string \<Rightarrow> string \<times> json \<Rightarrow> int64 \<times> bool \<Rightarrow> int64 \<times> bool" where
  "int_member name (k, v) (n, bad) =
     (if fold_name k \<noteq> fold_name name then (n, bad)
      else case v of
        JNull \<Rightarrow> (n, bad)
      | JNumber t \<Rightarrow> (case ParseInt64 t of None \<Rightarrow> (n, True) | Some m \<Rightarrow> (m, bad))
      | _ \<Rightarrow> (n, True))"

text \<open>\<open>json.Unmarshal\<close> into a struct with one \<open>int64\<close> field, and into the empty struct.\<close>

definition Unmarshal_int_struct :: "string \<Rightarrow> string \<Rightarrow> go_error + int64" where
  "Unmarshal_int_struct name body =
     (case json_decode body of
        None \<Rightarrow> Inl syntax_error
      | Some JNull \<Rightarrow> Inr 0
      | Some (JObject ms) \<Rightarrow>
          (case fold (int_member name) ms (0, False) of
             (n, True) \<Rightarrow> Inl cannot_unmarshal
           | (n, False) \<Rightarrow> Inr n)
      | Some _ \<Rightarrow> Inl cannot_unmarshal)"

definition Unmarshal_empty_struct :: "string \<Rightarrow> go_error + unit" where
  "Unmarshal_empty_struct body =
     (case json_decode body of
        None \<Rightarrow> Inl syntax_error
      | Some JNull \<Rightarrow> Inr ()
      | Some (JObject ms) \<Rightarrow> Inr ()
      | Some _ \<Rightarrow> Inl cannot_unmarshal)"

section \<open>Integers read back\<close>

lemma dec_step: "dec n = (if n < 10 then [digit n] else dec (n div 10) @ [digit (n mod 10)])"
  by (rule dec.simps)

lemma byte_val_digit: "0 \<le> d \<Longrightarrow> d < 10 \<Longrightarrow> byte_val (digit d) = 48 + d"
  by (simp add: digit_def byte_val_char)

lemma is_digit_digit: "0 \<le> d \<Longrightarrow> d < 10 \<Longrightarrow> is_digit (digit d)"
  by (simp add: is_digit_def byte_val_digit)

lemma dec_digits: "0 \<le> n \<Longrightarrow> list_all is_digit (dec n)"
proof (induction n rule: dec.induct)
  case (1 n)
  then show ?case
    by (subst dec_step) (auto simp: is_digit_digit)
qed

lemma dec_nonempty [simp]: "dec n \<noteq> []"
  by (subst dec_step) simp

lemma dec_value_snoc: "dec_value (s @ [c]) = dec_value s * 10 + (byte_val c - 48)"
  by (simp add: dec_value_def)

lemma dec_value_dec: "0 \<le> n \<Longrightarrow> dec_value (dec n) = n"
proof (induction n rule: dec.induct)
  case (1 n)
  show ?case
  proof (cases "n < 10")
    case True
    with 1(2) show ?thesis by (subst dec_step) (simp add: dec_value_def byte_val_digit)
  next
    case False
    with 1 have "dec_value (dec (n div 10)) = n div 10" by simp
    with False show ?thesis by (subst dec_step) (simp add: dec_value_snoc byte_val_digit)
  qed
qed

text \<open>The first digit is not zero, unless the number is.\<close>

lemma dec_hd: "0 < n \<Longrightarrow> hd (dec n) \<noteq> CHR ''0''"
proof (induction n rule: dec.induct)
  case (1 n)
  show ?case
  proof (cases "n < 10")
    case True
    with 1(2) have "byte_val (digit n) \<noteq> byte_val CHR ''0''"
      by (simp add: byte_val_digit) (simp add: byte_val_def)
    with True show ?thesis by (subst dec_step) auto
  next
    case False
    with 1 have "hd (dec (n div 10)) \<noteq> CHR ''0''" by simp
    with False show ?thesis by (subst dec_step) simp
  qed
qed

lemma ParseInt64_int_dec:
  assumes "min_int64 \<le> n" "n \<le> max_int64"
  shows "ParseInt64 (int_dec n) = Some n"
proof -
  have plain: "drop_sign (dec m) = dec m" "\<not> HasPrefix (dec m) ''-''" if "0 \<le> m" for m
    using dec_digits [OF that] by (cases "dec m"; auto simp: drop_sign_def HasPrefix_def is_digit_def byte_val_def)+
  show ?thesis
  proof (cases "n < 0")
    case True
    then have "int_dec n = CHR ''-'' # dec (- n)" by (simp add: int_dec_def)
    with True assms show ?thesis
      using dec_digits [of "- n"] dec_value_dec [of "- n"]
      by (simp add: ParseInt64_def drop_sign_def HasPrefix_def Let_def)
  next
    case False
    then have "int_dec n = dec n" by (simp add: int_dec_def)
    with False assms plain [of n] show ?thesis
      using dec_digits [of n] dec_value_dec [of n] by (simp add: ParseInt64_def Let_def)
  qed
qed

lemma isValidNumber_dec:
  assumes "0 \<le> n"
  shows "isValidNumber (dec n)" "isValidNumber (CHR ''-'' # dec n)"
proof -
  obtain c s where d: "dec n = c # s" by (cases "dec n") auto
  have digits: "is_digit c" "list_all is_digit s" using dec_digits [OF assms] d by simp_all
  have zero: "s = []" if "c = CHR ''0''"
  proof (cases "n = 0")
    case True
    then have "dec n = [digit 0]" by (subst dec_step) simp
    with d show ?thesis by simp
  next
    case False
    with assms dec_hd [of n] d that show ?thesis by simp
  qed
  have no_sign: "c \<noteq> CHR ''-''" using digits(1) by (auto simp: is_digit_def byte_val_def)
  have none: "dropWhile is_digit s = []" using digits(2) by (simp add: list_all_iff)
  have rest: "valid_fraction (dropWhile is_digit s)" "valid_fraction []"
    unfolding none by (simp_all add: valid_fraction_def)
  show "isValidNumber (dec n)" "isValidNumber (CHR ''-'' # dec n)"
    using digits(1) zero rest no_sign
    by (auto simp: isValidNumber_def HasPrefix_def d Let_def)
qed

lemma isValidNumber_int_dec: "isValidNumber (int_dec n)"
  using isValidNumber_dec [of n] isValidNumber_dec [of "- n"] by (simp add: int_dec_def)

lemma number_bytes_int_dec: "list_all number_byte (int_dec n)"
proof -
  have "list_all number_byte (dec m)" if "0 \<le> m" for m
    using dec_digits [OF that] by (auto simp: list_all_iff number_byte_def)
  then show ?thesis by (simp add: int_dec_def number_byte_def)
qed

section \<open>The payload of a notice\<close>

lemma lex_number:
  assumes "isValidNumber t" "list_all number_byte t" "t \<noteq> []" "\<not> json_space (hd t)" "hd t \<noteq> quote"
    "s \<noteq> [] \<Longrightarrow> \<not> number_byte (hd s)"
  shows "lex (t @ s) = map_option ((#) (TNum t)) (lex s)"
proof -
  obtain c u where t: "t = c # u" using assms(3) by (cases t) auto
  have "takeWhile number_byte (t @ s) = t" "dropWhile number_byte (t @ s) = s"
    using assms(2,6) by (cases s; simp add: takeWhile_append list_all_iff; metis)+
  with assms show ?thesis by (simp add: t lex.simps)
qed

lemma lex_userId:
  "lex (''{'' @ [quote] @ ''userId'' @ [quote] @ '':'' @ s)
   = map_option (\<lambda>ts. TLBrace # TStr ''userId'' # TColon # ts) (lex s)"
  by (cases "lex s")
    (simp_all add: lex.simps lex_string.simps json_space_def quote_def backslash_def
      punctuation_def number_byte_def is_digit_def byte_val_def)

lemma lex_close: "lex ''}'' = Some [TRBrace]"
  by (simp add: lex.simps json_space_def quote_def punctuation_def number_byte_def is_digit_def byte_val_def)

lemma int_dec_hd: "\<not> json_space (hd (int_dec n))" "hd (int_dec n) \<noteq> quote" "int_dec n \<noteq> []"
proof -
  have "int_dec n \<noteq> [] \<and> number_byte (hd (int_dec n))"
    using number_bytes_int_dec [of n] by (cases "int_dec n") (auto simp: int_dec_def split: if_splits)
  then show "\<not> json_space (hd (int_dec n))" "hd (int_dec n) \<noteq> quote" "int_dec n \<noteq> []"
    by (auto simp: number_byte_def json_space_def quote_def is_digit_def byte_val_def)
qed

lemma Unmarshal_notice:
  assumes "min_int64 \<le> n" "n \<le> max_int64"
  shows "Unmarshal_int_struct ''userId''
    (''{'' @ [quote] @ ''userId'' @ [quote] @ '':'' @ int_dec n @ ''}'') = Inr n"
proof -
  have "lex (int_dec n @ ''}'') = Some [TNum (int_dec n), TRBrace]"
    using lex_number [OF isValidNumber_int_dec number_bytes_int_dec, of n "''}''"] int_dec_hd [of n]
    by (simp add: lex_close number_byte_def is_digit_def byte_val_def)
  then have "json_decode (''{'' @ [quote] @ ''userId'' @ [quote] @ '':'' @ int_dec n @ ''}'')
      = Some (JObject [(''userId'', JNumber (int_dec n))])"
    unfolding json_decode_def lex_userId
    by (simp add: max_depth_def read_key_def close_object_def)
  then show ?thesis
    using ParseInt64_int_dec [OF assms] by (simp add: Unmarshal_int_struct_def)
qed

end
