(* ===== verification/Jobs.thy ===== *)
theory Jobs
  imports AppEnv JsonRead
begin

text \<open>
  Background jobs: the typed seam over the queue (internal/jobs), the registration of the jobs
  (cmd/server/jobs.go), and what a notice job does when it runs.
\<close>

section \<open>internal/jobs\<close>

text \<open>
  The queue's runner keeps a handler for each job name; a handler gets the body of a message.
  \<open>Register\<close> is generic in the type of the payload: the reader of that type is an argument.
\<close>

type_synonym job_handler = "Ctx \<Rightarrow> string \<Rightarrow> (World, unit) io"
type_synonym job_table = "(string \<times> job_handler) list"

record jobs_Env =
  jobs_RegisterJob :: "string \<Rightarrow> job_handler \<Rightarrow> job_table \<Rightarrow> job_table"
  jobs_EnqueueJob :: "Ctx \<Rightarrow> string \<Rightarrow> job_payload \<Rightarrow> int64 \<Rightarrow> (World, unit) io"
  jobs_MetricsIncreaseJobFinished :: "Ctx \<Rightarrow> string \<Rightarrow> go_error option \<Rightarrow> unit act"

type_synonym EnqueueFunc = "Ctx \<Rightarrow> job_payload \<Rightarrow> (World, unit) io"

definition registered_handler ::
  "jobs_Env \<Rightarrow> (string \<Rightarrow> go_error + 'p) \<Rightarrow> string \<Rightarrow> (Ctx \<Rightarrow> 'p \<Rightarrow> (World, unit) io) \<Rightarrow> job_handler" where
  "registered_handler env unmarshal jobID handler =
     (\<lambda>ctx body.
        case unmarshal body of
          Inl err \<Rightarrow> ret (Inl (Errorf_w (''failed to unmarshal '' @ jobID @ '' params'') err))
        | Inr params \<Rightarrow> do {
            r \<leftarrow> handler ctx params;
            jobs_MetricsIncreaseJobFinished env ctx jobID
              (case r of Inl err \<Rightarrow> Some err | Inr _ \<Rightarrow> None);
            case r of
              Inl err \<Rightarrow> ret (Inl (Errorf_w (''failed to run '' @ jobID) err))
            | Inr _ \<Rightarrow> ret (Inr ())
          })"

definition jobs_Register ::
  "jobs_Env \<Rightarrow> (string \<Rightarrow> go_error + 'p) \<Rightarrow> string \<Rightarrow> int64 \<Rightarrow> (Ctx \<Rightarrow> 'p \<Rightarrow> (World, unit) io)
   \<Rightarrow> job_table \<Rightarrow> EnqueueFunc \<times> job_table" where
  "jobs_Register env unmarshal jobID priority handler table =
     ((\<lambda>ctx payload. jobs_EnqueueJob env ctx jobID payload priority),
      jobs_RegisterJob env jobID (registered_handler env unmarshal jobID handler) table)"

section \<open>The jobs of the server\<close>

definition RegisterJob :: "string \<Rightarrow> job_handler \<Rightarrow> job_table \<Rightarrow> job_table" where
  "RegisterJob id' handler table = table @ [(id', handler)]"

definition jobs_env :: "app \<Rightarrow> jobs_Env" where
  "jobs_env a =
     \<lparr>jobs_RegisterJob = RegisterJob,
      jobs_EnqueueJob = EnqueueJob a,
      jobs_MetricsIncreaseJobFinished = (\<lambda>ctx. MetricsIncreaseJobFinished (app_metrics a))\<rparr>"

definition Unmarshal_notice_input :: "string \<Rightarrow> go_error + notifyuserbanned_Input" where
  "Unmarshal_notice_input body =
     map_sum id (\<lambda>n. \<lparr>notifyuserbanned_UserID = n\<rparr>) (Unmarshal_int_struct ''userId'' body)"

definition registerJobs :: "app \<Rightarrow> job_table \<Rightarrow> job_table" where
  "registerJobs a table =
    (let table = snd (jobs_Register (jobs_env a) Unmarshal_empty_struct jobPurgeAuditLog 0
                        (\<lambda>ctx _. purge_job a ctx) table)
     in snd (jobs_Register (jobs_env a) Unmarshal_notice_input jobNotifyUserBanned 0
               (\<lambda>ctx params. notify_job a ctx params) table))"

end
