(* ===== verification/JobsProps.thy ===== *)
theory JobsProps
  imports Jobs AuditPages
begin

text \<open>
  A queued job reaches its handler with the payload it was queued with, and what the notice of
  a ban does in each case.
\<close>

section \<open>From the queue to the handler\<close>

definition finished :: "app \<Rightarrow> string \<Rightarrow> (go_error + unit) \<times> World \<Rightarrow> (go_error + unit) \<times> World" where
  "finished a jobID result =
     (case result of (r, w) \<Rightarrow>
        (map_sum (Errorf_w (''failed to run '' @ jobID)) id r,
         w\<lparr>w_prom := w_prom w @ [Inc (metric_name (app_metrics a) ''jobs_finished_total'')
             [jobID, if isl r then ''error'' else ''ok'']]\<rparr>))"

lemma run_registered_handler:
  assumes "unmarshal body = Inr params"
  shows "run (registered_handler (jobs_env a) unmarshal jobID handler ctx body) w
    = finished a jobID (run (handler ctx params) w)"
  using assms
  by (auto simp: registered_handler_def jobs_env_def finished_def MetricsIncreaseJobFinished_def
      prom_Inc_def split: prod.splits sum.splits)

lemma Unmarshal_payload:
  assumes "json_Marshal (NotifyPayload input) = Inr body"
    and "min_int64 \<le> notifyuserbanned_UserID input" "notifyuserbanned_UserID input \<le> max_int64"
  shows "Unmarshal_notice_input body = Inr input"
  using assms Unmarshal_notice [OF assms(2,3)]
  by (auto simp: Unmarshal_notice_input_def quote_def)

lemma job_names_differ: "jobNotifyUserBanned \<noteq> jobPurgeAuditLog"
  by (simp add: jobNotifyUserBanned_def jobPurgeAuditLog_def)

lemma registered_jobs:
  "map fst (registerJobs a []) = [jobPurgeAuditLog, jobNotifyUserBanned]"
  "map_of (registerJobs a []) jobPurgeAuditLog = Some (registered_handler (jobs_env a)
     Unmarshal_empty_struct jobPurgeAuditLog (\<lambda>ctx _. purge_job a ctx))"
  "map_of (registerJobs a []) jobNotifyUserBanned = Some (registered_handler (jobs_env a)
     Unmarshal_notice_input jobNotifyUserBanned (\<lambda>ctx params. notify_job a ctx params))"
  using job_names_differ
  by (simp_all add: registerJobs_def jobs_Register_def jobs_env_def RegisterJob_def)

lemma Unmarshal_empty: "Unmarshal_empty_struct ''{}'' = Inr ()"
  by (simp add: Unmarshal_empty_struct_def json_decode_def lex.simps json_space_def quote_def
      punctuation_def number_byte_def is_digit_def byte_val_def max_depth_def close_object_def)

text \<open>
  C27. What is queued is what runs. The runner knows exactly the two jobs the server queues; the
  body that a payload is written as is read back as that payload by the handler under that name,
  which runs the job on it, counts the outcome once and wraps an error with the job's name.
\<close>

theorem queued_job_runs:
  assumes "json_Marshal payload = Inr body"
    and "case payload of EmptyStruct \<Rightarrow> jobID = jobPurgeAuditLog \<and> job = purge_job a
         | NotifyPayload input \<Rightarrow> jobID = jobNotifyUserBanned \<and> job = (\<lambda>ctx. notify_job a ctx input)
             \<and> min_int64 \<le> notifyuserbanned_UserID input \<and> notifyuserbanned_UserID input \<le> max_int64"
  shows "\<exists>h. map_of (registerJobs a []) jobID = Some h
    \<and> (\<forall>ctx w. run (h ctx body) w = finished a jobID (run (job ctx) w))"
proof (cases payload)
  case EmptyStruct
  with assms show ?thesis
    using registered_jobs(2) [of a] Unmarshal_empty
      run_registered_handler [where unmarshal = Unmarshal_empty_struct and params = "()"] by auto
next
  case (NotifyPayload input)
  with assms have "Unmarshal_notice_input body = Inr input" by (intro Unmarshal_payload) simp_all
  with NotifyPayload assms(2) show ?thesis
    using registered_jobs(3) [of a]
      run_registered_handler [where unmarshal = Unmarshal_notice_input and params = input] by auto
qed

theorem queued_job_runs_witness:
  "\<exists>h. map_of (registerJobs demo_app []) jobNotifyUserBanned = Some h
    \<and> run (h background (''{'' @ [quote] @ ''userId'' @ [quote] @ '':3}'')) demo_world
      = finished demo_app jobNotifyUserBanned
          (run (notify_job demo_app background \<lparr>notifyuserbanned_UserID = 3\<rparr>) demo_world)"
proof -
  have "int_dec 3 = ''3''" by code_simp
  then have body: "json_Marshal (NotifyPayload \<lparr>notifyuserbanned_UserID = 3\<rparr>)
      = Inr (''{'' @ [quote] @ ''userId'' @ [quote] @ '':3}'')" by (simp add: quote_def)
  from queued_job_runs [OF body, of jobNotifyUserBanned
      "\<lambda>ctx. notify_job demo_app ctx \<lparr>notifyuserbanned_UserID = 3\<rparr>" demo_app]
  show ?thesis by (auto simp: min_int64_def max_int64_def)
qed

section \<open>The notice\<close>

lemma read_committed:
  assumes "healthy_world w"
  shows "run (read_on ReadPool f) w = (Inr (f (w_committed w)), w\<lparr>w_calls := Suc (w_calls w)\<rparr>)"
  using assms by (simp add: read_on_def driver_call_def healthy_world_def)

text \<open>
  C28. A notice says what is true when it is sent. It is delivered once, to the user's present
  address with the present reason, when the user is still banned; a ban that was lifted or a
  user that is gone since it was queued ends the job without a notice and without an error, so
  it is not retried. The database is only read.
\<close>

theorem notify_job_exact:
  assumes "base_app a" "wf_db (w_committed w)" "healthy_world w"
  shows "run (notify_job a ctx \<lparr>notifyuserbanned_UserID = uid\<rparr>) w =
    (case row_of u_id uid (db_users (w_committed w)) of
       None \<Rightarrow> (Inr (), w\<lparr>w_calls := w_calls w + 1\<rparr>)
     | Some user \<Rightarrow>
         (case row_of b_user_id uid (db_user_bans (w_committed w)) of
            None \<Rightarrow> (Inr (), w\<lparr>w_calls := w_calls w + 2\<rparr>)
          | Some ban \<Rightarrow>
              if u_email user = ''''
              then (Inl (Errorf_w (''failed to notify user '' @ int_dec uid)
                      (NewError ''cannot deliver user_banned to an empty address'')),
                    w\<lparr>w_calls := w_calls w + 2\<rparr>)
              else (Inr (), w\<lparr>w_calls := w_calls w + 2,
                w_log := w_log w @ [Log Info ''notice delivered''
                  [(''kind'', ''user_banned''), (''from'', notifier_from (state_Notifier (app_state a))),
                   (''to'', u_email user),
                   (''body'', ''your access to '' @ notifier_origin (state_Notifier (app_state a))
                      @ '' was revoked: '' @ b_reason ban)]],
                w_prom := w_prom w @ [Inc (metric_name (app_metrics a) ''notifications_total'') [''user_banned'']]\<rparr>)))"
proof -
  have read: "run (read_on ReadPool f) w' = (Inr (f (w_committed w)), w'\<lparr>w_calls := Suc (w_calls w')\<rparr>)"
    if "w' = w \<or> w' = w\<lparr>w_calls := Suc (w_calls w)\<rparr>" for w' and f :: "Database \<Rightarrow> 'b"
    using read_committed [of w'] assms(3) that by (auto simp: healthy_world_def)
  show ?thesis
    using assms(1,2)
    by (auto simp: notify_job_def notifyuserbanned_Resolve_def notifyuserbanned_env_def
        DBGetUserByID_def DBGetUserBan_def QueryRow_def base_app_def read DBGetUserByID_eq DBGetUserBan_eq
        NotifyUserBanned_def deliver_def KindUserBanned_def log_at_def MetricsIncreaseNotification_def
        prom_Inc_def scan_User_def scan_UserBan_def Let_def numeral_2_eq_2 split: option.splits)
qed

theorem notify_job_exact_witness:
  "w_log (snd (run (notify_job demo_app background \<lparr>notifyuserbanned_UserID = 3\<rparr>) demo_world))
   = [Log Info ''notice delivered''
       [(''kind'', ''user_banned''), (''from'', ''panel@example.com''), (''to'', ''eve@example.com''),
        (''body'', ''your access to https://panel.example.com was revoked: spam'')]]"
proof -
  have wf: "wf_db (w_committed demo_world)" using demo_wf by (simp add: demo_world_def)
  have healthy: "healthy_world demo_world" by (simp add: healthy_world_def demo_world_def)
  have rows: "row_of u_id 3 (db_users (w_committed demo_world)) = Some (demo_user 3 ''eve'')"
    "row_of b_user_id 3 (db_user_bans (w_committed demo_world))
      = Some \<lparr>b_user_id = 3, b_banned_by = Some 1, b_reason = ''spam'', b_created_at = 4\<rparr>"
    by (simp_all add: demo_world_def demo_db_def demo_user_def row_of_def)
  show ?thesis
    unfolding notify_job_exact [OF demo_base wf healthy] rows
    by (simp add: demo_world_def demo_user_def demo_app_def)
qed

end
