(* ===== verification/Cron.thy ===== *)
theory Cron
  imports Jobs
begin

text \<open>
  The scheduler: internal/cronjobs (a tick of a job is skipped while the job still runs, and a
  panic of a job is caught) and cmd/server/cron.go. Each tick of \<open>robfig/cron\<close> starts a goroutine,
  which runs when it is its turn, also after \<open>Stop\<close> was called: the runner's state changes under
  its mutex only, in the steps below.
\<close>

section \<open>The runner\<close>

text \<open>How the body of a job can end.\<close>

datatype job_end = Returned "go_error option" | Panicked string

record cron_Job =
  job_ID :: string
  job_Spec :: string
  job_Run :: "Ctx \<Rightarrow> (World, unit) io"

text \<open>
  \<open>running\<close> is the map of the runner. The library holds the entries and starts a goroutine for
  each tick, and \<open>cron_started\<close> says whether its scheduler runs; \<open>cron_waiting\<close> are the goroutines
  that have been started and have not locked the mutex yet, \<open>cron_active\<close> those that are inside a
  job's body.
\<close>

record Runner =
  cron_entries :: "cron_Job list"
  cron_running :: "string \<Rightarrow> bool"
  cron_waiting :: "cron_Job list"
  cron_active :: "string list"
  cron_started :: bool
  cron_log :: "log_line list"

definition cronjobs_New :: Runner where
  "cronjobs_New = \<lparr>cron_entries = [], cron_running = (\<lambda>_. False), cron_waiting = [],
     cron_active = [], cron_started = False, cron_log = []\<rparr>"

text \<open>The library's parser of cron specifications is an argument.\<close>

definition cron_Add :: "(string \<Rightarrow> go_error option) \<Rightarrow> cron_Job \<Rightarrow> Runner \<Rightarrow> go_error option \<times> Runner" where
  "cron_Add parse_spec job r =
     (case parse_spec (job_Spec job) of
        Some err \<Rightarrow> (Some (Errorf_w (''failed to schedule cron job '' @ job_ID job) err), r)
      | None \<Rightarrow> (None, r\<lparr>cron_entries := cron_entries r @ [job]\<rparr>))"

text \<open>\<open>run\<close> up to the job's body: the flag is tested and set under one lock. The answer says
  whether the body is entered.\<close>

definition run_enter :: "cron_Job \<Rightarrow> Runner \<Rightarrow> bool \<times> Runner" where
  "run_enter job r =
     (if cron_running r (job_ID job)
      then (False, r\<lparr>cron_log := cron_log r
              @ [Log Warn ''cron job still running, skipping tick'' [(''job'', job_ID job)]]\<rparr>)
      else (True, r\<lparr>cron_running := (cron_running r)(job_ID job := True),
                   cron_active := job_ID job # cron_active r\<rparr>))"

text \<open>The rest of \<open>run\<close>: the result is logged, a panic is recovered, and the flag is deleted.\<close>

definition run_exit :: "cron_Job \<Rightarrow> job_end \<Rightarrow> Runner \<Rightarrow> Runner" where
  "run_exit job ended r =
    (let logged = (case ended of
           Returned None \<Rightarrow> []
         | Returned (Some err) \<Rightarrow>
             [Log Error ''cron job failed'' [(''job'', job_ID job), (''error'', error_text err)]]
         | Panicked recovered \<Rightarrow>
             [Log Error ''cron job panicked'' [(''job'', job_ID job), (''panic'', recovered)]])
     in r\<lparr>cron_log := cron_log r @ logged,
          cron_running := (cron_running r)(job_ID job := False),
          cron_active := remove1 (job_ID job) (cron_active r)\<rparr>)"

definition cron_Start :: "Runner \<Rightarrow> Runner" where
  "cron_Start r = r\<lparr>cron_started := True\<rparr>"

text \<open>
  \<open>Stop\<close> stops the scheduler and then waits for the library, which waits for every goroutine it
  has started to return, whether it has run yet or not.
\<close>

definition cron_Stop :: "Runner \<Rightarrow> Runner" where
  "cron_Stop r = r\<lparr>cron_started := False\<rparr>"

definition stop_returns :: "Runner \<Rightarrow> bool" where
  "stop_returns r \<longleftrightarrow> \<not> cron_started r \<and> cron_waiting r = [] \<and> cron_active r = []"

section \<open>Its steps\<close>

text \<open>
  A tick starts a goroutine while the scheduler runs. A goroutine locks the mutex and enters the
  body or skips the tick; a body ends. All that happens at any time and in any order.
\<close>

definition cron_spawn :: "cron_Job \<Rightarrow> Runner \<Rightarrow> Runner" where
  "cron_spawn job r = r\<lparr>cron_waiting := cron_waiting r @ [job]\<rparr>"

inductive goroutine_step :: "Runner \<Rightarrow> Runner \<Rightarrow> bool" where
  enter: "cron_waiting r = xs @ job # ys \<Longrightarrow>
    run_enter job (r\<lparr>cron_waiting := xs @ ys\<rparr>) = (entered, r') \<Longrightarrow> goroutine_step r r'"
| leave: "job \<in> set (cron_entries r) \<Longrightarrow> job_ID job \<in> set (cron_active r) \<Longrightarrow>
    goroutine_step r (run_exit job ended r)"

inductive cron_step :: "Runner \<Rightarrow> Runner \<Rightarrow> bool" where
  tick: "cron_started r \<Longrightarrow> job \<in> set (cron_entries r) \<Longrightarrow> cron_step r (cron_spawn job r)"
| goroutine: "goroutine_step r r' \<Longrightarrow> cron_step r r'"
| start: "cron_step r (cron_Start r)"
| stop: "cron_step r (cron_Stop r)"
| add: "cron_Add parse_spec job r = (err, r') \<Longrightarrow> cron_step r r'"

inductive cron_reachable :: "Runner \<Rightarrow> bool" where
  new: "cron_reachable cronjobs_New"
| more: "cron_reachable r \<Longrightarrow> cron_step r r' \<Longrightarrow> cron_reachable r'"


section \<open>The server's cron jobs\<close>

definition purge_cron_job :: "app \<Rightarrow> cron_Job" where
  "purge_cron_job a =
     \<lparr>job_ID = jobPurgeAuditLog, job_Spec = Config_AuditPurgeSpec (app_config a),
      job_Run = (\<lambda>ctx. EnqueueJob a ctx jobPurgeAuditLog EmptyStruct 0)\<rparr>"

definition registerCronJobs ::
  "(string \<Rightarrow> go_error option) \<Rightarrow> app \<Rightarrow> Runner \<Rightarrow> go_error option \<times> Runner" where
  "registerCronJobs parse_spec a r = cron_Add parse_spec (purge_cron_job a) r"

section \<open>Properties\<close>

definition exclusive :: "Runner \<Rightarrow> bool" where
  "exclusive r \<longleftrightarrow> distinct (cron_active r) \<and> (\<forall>jobID. cron_running r jobID \<longleftrightarrow> jobID \<in> set (cron_active r))"

lemma exclusive_goroutine:
  assumes "exclusive r" "goroutine_step r r'"
  shows "exclusive r'"
  using assms(2)
proof cases
  case (enter xs job ys entered)
  with assms(1) show ?thesis by (auto simp: run_enter_def exclusive_def split: if_splits)
next
  case (leave job ended)
  with assms(1) show ?thesis by (auto simp: run_exit_def exclusive_def Let_def)
qed

lemma exclusive_step:
  assumes "exclusive r" "cron_step r r'"
  shows "exclusive r'"
  using assms(2)
proof cases
  case (add parse_spec job err)
  with assms(1) show ?thesis by (auto simp: cron_Add_def exclusive_def split: option.splits)
next
  case goroutine
  with assms(1) show ?thesis by (rule exclusive_goroutine)
qed (use assms(1) in \<open>simp_all add: exclusive_def cron_Start_def cron_Stop_def cron_spawn_def\<close>)

lemma exclusive_reachable: "cron_reachable r \<Longrightarrow> exclusive r"
  by (induction rule: cron_reachable.induct)
    (auto simp: exclusive_step, simp add: exclusive_def cronjobs_New_def)

text \<open>
  C29. A cron job never runs twice at once, and never stops running for good. In every state the
  scheduler can reach each job has at most one body in progress, and the runner's map says
  exactly which have one; a tick enters the body when none is in progress and is skipped
  otherwise; when a body ends, with an error or a panic too, the job's next tick enters again.
\<close>

theorem cron_jobs_exclusive:
  assumes "cron_reachable r" "job \<in> set (cron_entries r)"
  shows "distinct (cron_active r)
    \<and> fst (run_enter job r) = (job_ID job \<notin> set (cron_active r))
    \<and> (job_ID job \<in> set (cron_active r) \<longrightarrow>
         fst (run_enter job (run_exit job ended r))
         \<and> (\<forall>other. other \<noteq> job_ID job \<longrightarrow>
              cron_running (run_exit job ended r) other = cron_running r other))"
  using exclusive_reachable [OF assms(1)]
  by (auto simp: exclusive_def run_enter_def run_exit_def Let_def)

definition demo_job :: cron_Job where
  "demo_job = \<lparr>job_ID = ''purge'', job_Spec = ''@daily'', job_Run = (\<lambda>ctx. ret (Inr ()))\<rparr>"

definition demo_ticked :: Runner where
  "demo_ticked = cron_spawn demo_job (cron_Start (snd (cron_Add (\<lambda>_. None) demo_job cronjobs_New)))"

definition demo_runner :: Runner where
  "demo_runner = snd (run_enter demo_job (demo_ticked\<lparr>cron_waiting := []\<rparr>))"

lemmas demo_runner_defs = demo_runner_def demo_ticked_def run_enter_def cron_spawn_def cron_Start_def
  cron_Add_def cronjobs_New_def

lemma demo_ticked_reachable: "cron_reachable demo_ticked"
proof -
  have "cron_reachable (snd (cron_Add (\<lambda>_. None) demo_job cronjobs_New))"
    by (rule cron_reachable.more [OF cron_reachable.new cron_step.add [OF surjective_pairing]])
  then have "cron_reachable (cron_Start (snd (cron_Add (\<lambda>_. None) demo_job cronjobs_New)))"
    by (rule cron_reachable.more [OF _ cron_step.start])
  then show ?thesis
    unfolding demo_ticked_def
    by (rule cron_reachable.more [OF _ cron_step.tick]) (simp_all add: cron_Start_def cron_Add_def)
qed

lemma demo_enters: "cron_waiting r = [demo_job] \<Longrightarrow>
    goroutine_step r (snd (run_enter demo_job (r\<lparr>cron_waiting := []\<rparr>)))"
  using goroutine_step.enter [of r "[]" demo_job "[]", OF _ surjective_pairing] by simp

lemma demo_runner_reachable: "cron_reachable demo_runner" "demo_job \<in> set (cron_entries demo_runner)"
proof -
  have "goroutine_step demo_ticked demo_runner"
    unfolding demo_runner_def by (rule demo_enters) (simp add: demo_runner_defs)
  then show "cron_reachable demo_runner"
    by (rule cron_reachable.more [OF demo_ticked_reachable cron_step.goroutine])
  show "demo_job \<in> set (cron_entries demo_runner)" by (simp add: demo_runner_defs)
qed

theorem cron_jobs_exclusive_witness:
  "fst (run_enter demo_job demo_runner) = False
   \<and> fst (run_enter demo_job (run_exit demo_job (Panicked ''boom'') demo_runner))"
proof -
  have "job_ID demo_job \<in> set (cron_active demo_runner)" by (simp add: demo_runner_defs)
  with cron_jobs_exclusive [OF demo_runner_reachable] show ?thesis by blast
qed

text \<open>Every goroutine is that of an entry.\<close>

definition entered_jobs :: "Runner \<Rightarrow> bool" where
  "entered_jobs r \<longleftrightarrow> set (cron_waiting r) \<subseteq> set (cron_entries r)
     \<and> set (cron_active r) \<subseteq> job_ID ` set (cron_entries r)"

lemma entered_jobs_goroutine:
  assumes "entered_jobs r" "goroutine_step r r'"
  shows "entered_jobs r'"
  using assms(2)
proof cases
  case (enter xs job ys entered)
  with assms(1) show ?thesis by (auto simp: run_enter_def entered_jobs_def split: if_splits)
next
  case (leave job ended)
  with assms(1) set_remove1_subset [of "job_ID job" "cron_active r"] show ?thesis
    by (auto simp: run_exit_def entered_jobs_def Let_def)
qed

lemma entered_jobs_step:
  assumes "entered_jobs r" "cron_step r r'"
  shows "entered_jobs r'"
  using assms(2)
proof cases
  case (add parse_spec job err)
  with assms(1) show ?thesis by (auto simp: cron_Add_def entered_jobs_def split: option.splits)
next
  case goroutine
  with assms(1) show ?thesis by (rule entered_jobs_goroutine)
qed (use assms(1) in \<open>simp_all add: entered_jobs_def cron_Start_def cron_Stop_def cron_spawn_def\<close>)

lemma entered_jobs_reachable: "cron_reachable r \<Longrightarrow> entered_jobs r"
  by (induction rule: cron_reachable.induct)
    (auto simp: entered_jobs_step, simp add: entered_jobs_def cronjobs_New_def)

text \<open>The steps that the goroutines have left: two before the mutex, one inside the body.\<close>

definition goroutine_work :: "Runner \<Rightarrow> nat" where
  "goroutine_work r = 2 * length (cron_waiting r) + length (cron_active r)"

lemma run_exit_frame:
  "cron_started (run_exit job ended r) = cron_started r"
  "cron_waiting (run_exit job ended r) = cron_waiting r"
  "cron_entries (run_exit job ended r) = cron_entries r"
  by (simp_all add: run_exit_def Let_def)

lemma run_exit_work:
  assumes "job_ID job \<in> set (cron_active r)"
  shows "length (cron_active (run_exit job ended r)) < length (cron_active r)"
  using assms length_pos_if_in_set [OF assms] by (simp add: run_exit_def Let_def length_remove1)

lemma goroutine_works:
  assumes "goroutine_step r r'"
  shows "goroutine_work r' < goroutine_work r" "cron_started r' = cron_started r"
    "length (cron_waiting r') \<le> length (cron_waiting r)"
  using assms
  by (cases; fastforce simp: goroutine_work_def run_enter_def run_exit_frame
      dest: run_exit_work split: if_splits)+

lemma goroutine_goes_on:
  assumes "entered_jobs r" "0 < goroutine_work r"
  shows "\<exists>r'. goroutine_step r r'"
proof (cases "cron_waiting r")
  case (Cons job jobs)
  then have "cron_waiting r = [] @ job # jobs" by simp
  from goroutine_step.enter [OF this surjective_pairing] show ?thesis by blast
next
  case Nil
  with assms(2) have "hd (cron_active r) \<in> set (cron_active r)" by (simp add: goroutine_work_def)
  with assms(1) obtain job where "job \<in> set (cron_entries r)" "job_ID job \<in> set (cron_active r)"
    unfolding entered_jobs_def by force
  from goroutine_step.leave [OF this] show ?thesis by blast
qed

lemma goroutines_end:
  assumes "entered_jobs r" "\<not> cron_started r"
  shows "\<exists>n r'. (goroutine_step ^^ n) r r' \<and> stop_returns r'"
  using assms
proof (induction "goroutine_work r" arbitrary: r rule: less_induct)
  case less
  show ?case
  proof (cases "goroutine_work r = 0")
    case True
    with less.prems(2) show ?thesis
      by (intro exI [of _ 0] exI [of _ r]) (simp add: goroutine_work_def stop_returns_def)
  next
    case False
    with goroutine_goes_on less.prems(1) obtain r1 where r1: "goroutine_step r r1" by blast
    with less.hyps [OF goroutine_works(1) [OF r1]] less.prems goroutine_works(2) entered_jobs_goroutine
    obtain n r2 where "(goroutine_step ^^ n) r1 r2" "stop_returns r2" by blast
    with relpowp_Suc_I2 [of goroutine_step, OF r1] show ?thesis by blast
  qed
qed

lemma goroutine_run:
  assumes "(goroutine_step ^^ n) r r'" "entered_jobs r" "\<not> cron_started r"
  shows "n + goroutine_work r' \<le> goroutine_work r" "entered_jobs r'" "\<not> cron_started r'"
proof -
  have "n + goroutine_work r' \<le> goroutine_work r \<and> entered_jobs r' \<and> \<not> cron_started r'"
    using assms(1)
  proof (induction n arbitrary: r')
    case 0
    then show ?case using assms(2,3) by simp
  next
    case (Suc n)
    then obtain r1 where "(goroutine_step ^^ n) r r1" "goroutine_step r1 r'" by (auto elim: relpowp_Suc_E)
    with Suc.IH [OF this(1)] goroutine_works [OF this(2)] entered_jobs_goroutine show ?case by fastforce
  qed
  then show "n + goroutine_work r' \<le> goroutine_work r" "entered_jobs r'" "\<not> cron_started r'" by blast+
qed

lemma stopped_step:
  assumes "\<not> cron_started r" "cron_step r r'" "r' \<noteq> cron_Start r"
  shows "\<not> cron_started r' \<and> length (cron_waiting r') \<le> length (cron_waiting r)
    \<and> (goroutine_step r r' \<or> cron_waiting r' = cron_waiting r \<and> cron_active r' = cron_active r)"
  using assms(2)
proof cases
  case goroutine
  with assms(1) goroutine_works show ?thesis by blast
next
  case (add parse_spec job err)
  with assms(1) show ?thesis by (auto simp: cron_Add_def split: option.splits)
qed (use assms(1,3) in \<open>auto simp: cron_Stop_def\<close>)

text \<open>
  C30. \<open>Stop\<close> drains. Once the scheduler is stopped, and until it is started again, no tick
  starts another goroutine. Those that were started before go on, and one that has not locked the
  mutex yet may still enter the body of its job: each has at most two steps left, or one when it
  is inside the body. As long as one is left \<open>Stop\<close> does not return and some goroutine can make a
  step; so in whatever order they make them, after at most so many steps none is left and \<open>Stop\<close>
  returns.
\<close>

theorem cron_stop_drains:
  assumes "cron_reachable r" "\<not> cron_started r"
  shows "(\<forall>r'. cron_step r r' \<and> r' \<noteq> cron_Start r \<longrightarrow>
            \<not> cron_started r' \<and> length (cron_waiting r') \<le> length (cron_waiting r)
            \<and> (goroutine_step r r' \<or> cron_waiting r' = cron_waiting r \<and> cron_active r' = cron_active r))
    \<and> (\<forall>n r'. (goroutine_step ^^ n) r r' \<longrightarrow>
          n \<le> 2 * length (cron_waiting r) + length (cron_active r)
          \<and> (if cron_waiting r' = [] \<and> cron_active r' = [] then stop_returns r'
             else \<not> stop_returns r' \<and> (\<exists>r''. goroutine_step r' r'')))
    \<and> (\<exists>n r'. (goroutine_step ^^ n) r r' \<and> stop_returns r')"
proof (intro conjI allI impI)
  fix n r' assume steps: "(goroutine_step ^^ n) r r'"
  note run = goroutine_run [OF steps entered_jobs_reachable [OF assms(1)] assms(2)]
  show "n \<le> 2 * length (cron_waiting r) + length (cron_active r)"
    using run(1) by (simp add: goroutine_work_def)
  show "if cron_waiting r' = [] \<and> cron_active r' = [] then stop_returns r'
      else \<not> stop_returns r' \<and> (\<exists>r''. goroutine_step r' r'')"
    using run(3) goroutine_goes_on [OF run(2)] by (auto simp: stop_returns_def goroutine_work_def)
qed (use assms stopped_step entered_jobs_reachable goroutines_end in blast)+

definition demo_stopped :: Runner where
  "demo_stopped = cron_Stop demo_ticked"

text \<open>A goroutine that was started just before \<open>Stop\<close> runs its job after it.\<close>

lemma demo_enters_after_stop:
  "goroutine_step demo_stopped (snd (run_enter demo_job (demo_stopped\<lparr>cron_waiting := []\<rparr>)))
   \<and> fst (run_enter demo_job (demo_stopped\<lparr>cron_waiting := []\<rparr>)) \<and> \<not> cron_started demo_stopped"
  by (intro conjI demo_enters) (simp_all add: demo_stopped_def cron_Stop_def demo_runner_defs)

theorem cron_stop_drains_witness:
  "\<not> stop_returns demo_stopped \<and> (\<exists>n r'. n \<le> 2 \<and> (goroutine_step ^^ n) demo_stopped r' \<and> stop_returns r')"
proof -
  have "cron_reachable demo_stopped"
    unfolding demo_stopped_def by (rule cron_reachable.more [OF demo_ticked_reachable cron_step.stop])
  moreover have "\<not> cron_started demo_stopped" "length (cron_waiting demo_stopped) = 1"
    "cron_active demo_stopped = []"
    by (simp_all add: demo_stopped_def cron_Stop_def demo_runner_defs)
  ultimately show ?thesis
    using cron_stop_drains [of demo_stopped] by (fastforce simp: stop_returns_def)
qed

end
