(* ===== verification/Url.thy ===== *)
theory Url
  imports Http "HOL-Library.AList" "HOL-Library.Char_ord" "HOL-Library.List_Lexorder"
begin

text \<open>
  What the repository uses of \<open>net/url\<close>: parsing a URL, writing it, and encoding query values.
  The reader of an authority (user and host) is an argument, as only its result is used.
\<close>

section \<open>Escaping\<close>

definition escape_byte :: "char \<Rightarrow> string" where
  "escape_byte c = [CHR ''%'', upper_hex (byte_val c div 16), upper_hex (byte_val c mod 16)]"

definition escape_with :: "(char \<Rightarrow> bool) \<Rightarrow> string \<Rightarrow> string" where
  "escape_with keep s = concat (map (\<lambda>c. if keep c then [c] else escape_byte c) s)"

text \<open>The bytes that stand for themselves in a path, in a host and in a fragment.\<close>

definition path_byte :: "char \<Rightarrow> bool" where
  "path_byte c \<longleftrightarrow> unreserved c \<or> c \<in> set ''$&+,/:;=@''"

definition host_byte :: "char \<Rightarrow> bool" where
  "host_byte c \<longleftrightarrow> unreserved c \<or> c \<in> set ''!$&()*+,;=:[]<>'' \<union> {CHR 0x27, CHR 0x22}"

definition fragment_byte :: "char \<Rightarrow> bool" where
  "fragment_byte c \<longleftrightarrow> unreserved c \<or> c \<in> set ''$&+,/:;=?@!()*''"

definition valid_encoded :: "(char \<Rightarrow> bool) \<Rightarrow> string \<Rightarrow> bool" where
  "valid_encoded keep s \<longleftrightarrow> list_all (\<lambda>c. c \<in> set ''!$&()*+,;=:@[]%'' \<union> {CHR 0x27} \<or> keep c) s"

definition unhex :: "char \<Rightarrow> int option" where
  "unhex c =
    (let n = byte_val c in
     if 48 \<le> n \<and> n \<le> 57 then Some (n - 48)
     else if 97 \<le> n \<and> n \<le> 102 then Some (n - 87)
     else if 65 \<le> n \<and> n \<le> 70 then Some (n - 55)
     else None)"

definition escape_error :: "string \<Rightarrow> go_error" where
  "escape_error s = NewError (''invalid URL escape '' @ [CHR 0x22] @ s @ [CHR 0x22])"

text \<open>\<open>spaces\<close> says whether \<open>+\<close> stands for a space, as it does in a query.\<close>

fun unescape :: "bool \<Rightarrow> string \<Rightarrow> go_error + string" where
  "unescape spaces [] = Inr []"
| "unescape spaces (c # s) =
     (if c = CHR ''%'' then
        (case s of
           a # b # t \<Rightarrow>
             (case (unhex a, unhex b) of
                (Some h, Some l) \<Rightarrow> map_sum id (Cons (char_of (16 * h + l))) (unescape spaces t)
              | _ \<Rightarrow> Inl (escape_error [c, a, b]))
         | _ \<Rightarrow> Inl (escape_error (c # s)))
      else map_sum id (Cons (if spaces \<and> c = CHR ''+'' then CHR '' '' else c)) (unescape spaces s))"

section \<open>URLs\<close>

record URL =
  url_Scheme :: string
  url_Opaque :: string
  url_User :: "string option"
  url_Host :: string
  url_Path :: string
  url_RawPath :: string
  url_OmitHost :: bool
  url_ForceQuery :: bool
  url_RawQuery :: string
  url_Fragment :: string
  url_RawFragment :: string

definition empty_URL :: URL where
  "empty_URL =
     \<lparr>url_Scheme = [], url_Opaque = [], url_User = None, url_Host = [], url_Path = [],
      url_RawPath = [], url_OmitHost = False, url_ForceQuery = False, url_RawQuery = [],
      url_Fragment = [], url_RawFragment = []\<rparr>"

text \<open>\<open>strings.Cut\<close> at a byte.\<close>

fun cut_at :: "char \<Rightarrow> string \<Rightarrow> string \<times> string" where
  "cut_at c [] = ([], [])"
| "cut_at c (d # s) = (if d = c then ([], s) else apfst (Cons d) (cut_at c s))"

definition ascii_letter :: "char \<Rightarrow> bool" where
  "ascii_letter c \<longleftrightarrow> (let n = byte_val c in 65 \<le> n \<and> n \<le> 90 \<or> 97 \<le> n \<and> n \<le> 122)"

definition scheme_byte :: "char \<Rightarrow> bool" where
  "scheme_byte c \<longleftrightarrow> (let n = byte_val c in 48 \<le> n \<and> n \<le> 57 \<or> c \<in> set ''+-.'')"

definition getScheme :: "string \<Rightarrow> go_error + string \<times> string" where
  "getScheme raw =
    (let p = takeWhile (\<lambda>c. ascii_letter c \<or> scheme_byte c) raw in
     if p = [] then
       (if raw \<noteq> [] \<and> hd raw = CHR '':'' then Inl (NewError ''missing protocol scheme'')
        else Inr ([], raw))
     else if scheme_byte (hd p) then Inr ([], raw)
     else (case drop (length p) raw of
             CHR '':'' # rest \<Rightarrow> Inr (p, rest)
           | _ \<Rightarrow> Inr ([], raw)))"

definition setPath :: "string \<Rightarrow> URL \<Rightarrow> go_error + URL" where
  "setPath p u =
    (case unescape False p of
       Inl err \<Rightarrow> Inl err
     | Inr path \<Rightarrow>
         Inr (u\<lparr>url_Path := path,
                url_RawPath := (if p = escape_with path_byte path then [] else p)\<rparr>))"

definition setFragment :: "string \<Rightarrow> URL \<Rightarrow> go_error + URL" where
  "setFragment f u =
    (case unescape False f of
       Inl err \<Rightarrow> Inl err
     | Inr frag \<Rightarrow>
         Inr (u\<lparr>url_Fragment := frag,
                url_RawFragment := (if f = escape_with fragment_byte frag then [] else f)\<rparr>))"

type_synonym authority_reader = "string \<Rightarrow> go_error + string option \<times> string"

definition parse_hierarchy :: "authority_reader \<Rightarrow> string \<Rightarrow> string \<Rightarrow> URL \<Rightarrow> go_error + URL" where
  "parse_hierarchy authority scheme rest u =
    (if (scheme \<noteq> [] \<or> \<not> HasPrefix rest ''///'') \<and> HasPrefix rest ''//'' then
       (let a = takeWhile (\<lambda>c. c \<noteq> CHR ''/'') (drop 2 rest) in
        case authority a of
          Inl err \<Rightarrow> Inl err
        | Inr (user, host) \<Rightarrow>
            setPath (drop (length a) (drop 2 rest)) (u\<lparr>url_User := user, url_Host := host\<rparr>))
     else if scheme \<noteq> [] \<and> HasPrefix rest ''/'' then setPath rest (u\<lparr>url_OmitHost := True\<rparr>)
     else setPath rest u)"

definition control_byte :: "char \<Rightarrow> bool" where
  "control_byte c \<longleftrightarrow> byte_val c < 32 \<or> byte_val c = 127"

definition parse_unfragmented :: "authority_reader \<Rightarrow> string \<Rightarrow> go_error + URL" where
  "parse_unfragmented authority raw =
    (if list_ex control_byte raw then Inl (NewError ''net/url: invalid control character in URL'')
     else if raw = ''*'' then Inr (empty_URL\<lparr>url_Path := ''*''\<rparr>)
     else (case getScheme raw of
       Inl err \<Rightarrow> Inl err
     | Inr (scheme, tail) \<Rightarrow>
         (let forced = (HasSuffix tail ''?'' \<and> length (filter (\<lambda>c. c = CHR ''?'') tail) = 1);
              rest = fst (cut_at CHR ''?'' tail);
              u = empty_URL\<lparr>url_Scheme := map lower_byte scheme, url_ForceQuery := forced,
                    url_RawQuery := snd (cut_at CHR ''?'' tail)\<rparr> in
          if HasPrefix rest ''/'' then parse_hierarchy authority scheme rest u
          else if scheme \<noteq> [] then Inr (u\<lparr>url_Opaque := rest\<rparr>)
          else if CHR '':'' \<in> set (takeWhile (\<lambda>c. c \<noteq> CHR ''/'') rest)
          then Inl (NewError ''first path segment in URL cannot contain colon'')
          else parse_hierarchy authority scheme rest u)))"

text \<open>\<open>url.Parse\<close>: an error is wrapped with the text that was parsed, in quotes (the escapes Go
  puts into the quoted text are left out).\<close>

definition url_Parse :: "authority_reader \<Rightarrow> string \<Rightarrow> go_error + URL" where
  "url_Parse authority raw =
    (case cut_at CHR ''#'' raw of
       (before, frag) \<Rightarrow>
         (case parse_unfragmented authority before of
            Inl err \<Rightarrow> Inl (Errorf_w (''parse '' @ [CHR 0x22] @ before @ [CHR 0x22]) err)
          | Inr u \<Rightarrow>
              if frag = [] then Inr u
              else (case setFragment frag u of
                      Inl err \<Rightarrow> Inl (Errorf_w (''parse '' @ [CHR 0x22] @ raw @ [CHR 0x22]) err)
                    | Inr v \<Rightarrow> Inr v)))"

definition EscapedPath :: "URL \<Rightarrow> string" where
  "EscapedPath u =
    (if url_RawPath u \<noteq> [] \<and> valid_encoded path_byte (url_RawPath u)
        \<and> unescape False (url_RawPath u) = Inr (url_Path u) then url_RawPath u
     else if url_Path u = ''*'' then ''*''
     else escape_with path_byte (url_Path u))"

definition EscapedFragment :: "URL \<Rightarrow> string" where
  "EscapedFragment u =
    (if url_RawFragment u \<noteq> [] \<and> valid_encoded fragment_byte (url_RawFragment u)
        \<and> unescape False (url_RawFragment u) = Inr (url_Fragment u) then url_RawFragment u
     else escape_with fragment_byte (url_Fragment u))"

definition authority_text :: "URL \<Rightarrow> string" where
  "authority_text u =
    (if url_Scheme u = [] \<and> url_Host u = [] \<and> url_User u = None
        \<or> url_OmitHost u \<and> url_Host u = [] \<and> url_User u = None then []
     else (if url_Host u \<noteq> [] \<or> url_Path u \<noteq> [] \<or> url_User u \<noteq> None then ''//'' else [])
       @ (case url_User u of None \<Rightarrow> [] | Some user \<Rightarrow> user @ ''@'')
       @ escape_with host_byte (url_Host u))"

definition hierarchy_text :: "URL \<Rightarrow> string" where
  "hierarchy_text u =
    (let before = (if url_Scheme u = [] then [] else url_Scheme u @ '':'') @ authority_text u;
         path = EscapedPath u;
         slash = (if path \<noteq> [] \<and> hd path \<noteq> CHR ''/'' \<and> url_Host u \<noteq> [] then ''/'' else []);
         dot = (if before = [] \<and> slash = [] \<and> CHR '':'' \<in> set (takeWhile (\<lambda>c. c \<noteq> CHR ''/'') path)
                then ''./'' else [])
     in before @ slash @ dot @ path)"

definition URL_String :: "URL \<Rightarrow> string" where
  "URL_String u =
    (if url_Opaque u \<noteq> []
     then (if url_Scheme u = [] then [] else url_Scheme u @ '':'') @ url_Opaque u
     else hierarchy_text u)
    @ (if url_ForceQuery u \<or> url_RawQuery u \<noteq> [] then ''?'' @ url_RawQuery u else [])
    @ (if url_Fragment u \<noteq> [] then ''#'' @ EscapedFragment u else [])"

section \<open>Query values\<close>

text \<open>\<open>url.Values\<close>, in the order the keys were added; \<open>Encode\<close> writes the keys sorted.\<close>

type_synonym Values = "(string \<times> string list) list"

definition Values_Add :: "string \<Rightarrow> string \<Rightarrow> Values \<Rightarrow> Values" where
  "Values_Add k v q =
    (case map_of q k of
       None \<Rightarrow> q @ [(k, [v])]
     | Some vs \<Rightarrow> AList.update k (vs @ [v]) q)"

definition Values_Set :: "string \<Rightarrow> string \<Rightarrow> Values \<Rightarrow> Values" where
  "Values_Set k v q = AList.update k [v] q"

definition Values_Encode :: "Values \<Rightarrow> string" where
  "Values_Encode q =
     Join (concat (map (\<lambda>(k, vs). map (\<lambda>v. QueryEscape k @ ''='' @ QueryEscape v) vs)
       (sort_key fst q))) ''&''"

end
