(* ===== verification/Metrics.thy ===== *)
theory Metrics
  imports App "HOL-Library.AList" "HOL-Library.Char_ord" "HOL-Library.List_Lexorder"
begin

text \<open>
  The gauges of internal/metrics and what feeds them: internal/db/tablestats.go, which counts
  the rows of every table of the file. The counters are in theory App.
\<close>

section \<open>Identifiers in SQL text\<close>

definition dquote :: char where
  "dquote = CHR 0x22"

definition quoteIdentifier :: "string \<Rightarrow> string" where
  "quoteIdentifier s = [dquote] @ replace_char dquote [dquote, dquote] s @ [dquote]"

text \<open>
  SQLite's tokenizer after an opening quote: the identifier goes up to a quote that is not
  doubled; what follows is the rest of the text.
\<close>

fun identifier_rest :: "string \<Rightarrow> (string \<times> string) option" where
  "identifier_rest [] = None"
| "identifier_rest (c # s) =
     (if c \<noteq> dquote then map_option (apfst (Cons c)) (identifier_rest s)
      else (case s of
              [] \<Rightarrow> Some ([], [])
            | d # t \<Rightarrow> if d = dquote then map_option (apfst (Cons dquote)) (identifier_rest t)
                       else Some ([], s)))"

section \<open>internal/db: the tables\<close>

text \<open>The tables of the migrations, and the one dbmate keeps, by name, with their rows.\<close>

definition table_sizes :: "Database \<Rightarrow> (string \<times> nat) list" where
  "table_sizes db =
     [(''users'', length (db_users db)), (''admins'', length (db_admins db)),
      (''user_bans'', length (db_user_bans db)), (''audit_log'', length (db_audit_log db)),
      (''goqite'', length (db_goqite db)), (''schema_migrations'', length (db_schema_migrations db))]"

text \<open>SQLite's list: the tables above and its own, with schema and type.\<close>

record table_list_row =
  tl_schema :: string
  tl_name :: string
  tl_type :: string

definition pragma_table_list :: "Database \<Rightarrow> table_list_row list" where
  "pragma_table_list db =
     map (\<lambda>n. \<lparr>tl_schema = ''main'', tl_name = n, tl_type = ''table''\<rparr>)
       (map fst (table_sizes db) @ [''sqlite_schema'', ''sqlite_sequence''])
     @ [\<lparr>tl_schema = ''temp'', tl_name = ''sqlite_temp_schema'', tl_type = ''table''\<rparr>]"

text \<open>The pattern \<open>sqlite_%\<close>: letters match in either case, and \<open>_\<close> is any one character.\<close>

definition like_sqlite :: "string \<Rightarrow> bool" where
  "like_sqlite n \<longleftrightarrow> map lower_byte (take 6 n) = ''sqlite'' \<and> 6 < length n"

definition sql_tableNames :: "Database \<Rightarrow> string list" where
  "sql_tableNames db =
     sort (map tl_name (filter (\<lambda>r. tl_schema r = ''main'' \<and> tl_type r = ''table''
       \<and> \<not> like_sqlite (tl_name r)) (pragma_table_list db)))"

text \<open>
  The statement \<open>select count(*) from "name"\<close>, read from its text, which ends at a zero byte. A
  name means a table in whatever case its ASCII letters are. Names of no table of the file may be
  SQLite's own or virtual tables: what it answers for them is the argument \<open>unlisted\<close>.
\<close>

definition same_name :: "string \<Rightarrow> string \<Rightarrow> bool" where
  "same_name a b \<longleftrightarrow> map lower_byte a = map lower_byte b"

definition find_table :: "string \<Rightarrow> (string \<times> 'a) list \<Rightarrow> 'a option" where
  "find_table name tables = map_option snd (find (\<lambda>t. same_name name (fst t)) tables)"

definition sql_text :: "string \<Rightarrow> string" where
  "sql_text t = takeWhile (\<lambda>c. c \<noteq> CHR 0x00) t"

definition count_text :: string where
  "count_text = ''select count(*) from ''"

definition read_count :: "string \<Rightarrow> string option" where
  "read_count stmt_text =
    (case CutPrefix (sql_text stmt_text) (count_text @ [dquote]) of
       (t, False) \<Rightarrow> None
     | (t, True) \<Rightarrow> (case identifier_rest t of Some (name, []) \<Rightarrow> Some name | _ \<Rightarrow> None))"

type_synonym unlisted_tables = "string \<Rightarrow> Database \<Rightarrow> go_error + int64"

definition sql_count :: "unlisted_tables \<Rightarrow> string \<Rightarrow> Database \<Rightarrow> go_error + int64" where
  "sql_count unlisted stmt_text db =
    (case read_count stmt_text of
       None \<Rightarrow> Inl (NewError ''syntax error'')
     | Some name \<Rightarrow>
         (case find_table name (table_sizes db) of
            Some n \<Rightarrow> Inr (int n)
          | None \<Rightarrow> unlisted name db))"

definition tableNames :: "DBTX \<Rightarrow> (World, string list) io" where
  "tableNames conn = do {
     listed \<leftarrow> read_on conn sql_tableNames;
     case listed of
       Inl err \<Rightarrow> ret (Inl (Errorf_w ''failed to list tables'' err))
     | Inr names \<Rightarrow> do {
         fault \<leftarrow> driver_call;
         ret (case fault of Some e \<Rightarrow> Inl (fault_error e) | None \<Rightarrow> Inr names)
       }
   }"

text \<open>A Go map is an association list with distinct keys.\<close>

fun count_tables ::
  "unlisted_tables \<Rightarrow> DBTX \<Rightarrow> string list \<Rightarrow> (string \<times> int64) list \<Rightarrow> (World, (string \<times> int64) list) io" where
  "count_tables unlisted conn [] counts = ret (Inr counts)"
| "count_tables unlisted conn (name # names) counts = do {
     scanned \<leftarrow> read_on conn (sql_count unlisted (count_text @ quoteIdentifier name));
     case (case scanned of Inl err \<Rightarrow> Inl err | Inr n \<Rightarrow> n) of
       Inl err \<Rightarrow> ret (Inl (Errorf_w (''failed to count '' @ name) err))
     | Inr n \<Rightarrow> count_tables unlisted conn names (AList.update name n counts)
   }"

definition db_TableRowCounts ::
  "unlisted_tables \<Rightarrow> Ctx \<Rightarrow> DBTX \<Rightarrow> (World, (string \<times> int64) list) io" where
  "db_TableRowCounts unlisted ctx conn = do {
     listed \<leftarrow> tableNames conn;
     case listed of
       Inl err \<Rightarrow> ret (Inl err)
     | Inr names \<Rightarrow> count_tables unlisted conn names []
   }"

text \<open>\<open>app.TableRowCounts\<close> reads through the read pool.\<close>

definition TableRowCounts ::
  "unlisted_tables \<Rightarrow> app \<Rightarrow> Ctx \<Rightarrow> (World, (string \<times> int64) list) io" where
  "TableRowCounts unlisted a ctx = db_TableRowCounts unlisted ctx ReadPool"

section \<open>internal/metrics: registration\<close>

datatype metric_kind = Counter | Gauge

record metric =
  metric_kind :: metric_kind
  metric_fqName :: string
  metric_help :: string
  metric_labels :: "string list"

definition metrics_counter :: "metrics_Config \<Rightarrow> string \<Rightarrow> string \<Rightarrow> metric" where
  "metrics_counter config name help =
     \<lparr>metric_kind = Counter, metric_fqName = metric_name config name, metric_help = help,
      metric_labels = []\<rparr>"

definition counterVec :: "metrics_Config \<Rightarrow> string \<Rightarrow> string \<Rightarrow> string list \<Rightarrow> metric" where
  "counterVec config name help labels =
     \<lparr>metric_kind = Counter, metric_fqName = metric_name config name, metric_help = help,
      metric_labels = labels\<rparr>"

definition gaugeVec :: "metrics_Config \<Rightarrow> string \<Rightarrow> string \<Rightarrow> string list \<Rightarrow> metric" where
  "gaugeVec config name help labels =
     \<lparr>metric_kind = Gauge, metric_fqName = metric_name config name, metric_help = help,
      metric_labels = labels\<rparr>"

definition DefaultConfig :: metrics_Config where
  "DefaultConfig =
     \<lparr>metrics_Addr = ''127.0.0.1:7302'', metrics_Path = ''/metrics'',
      metrics_Namespace = ''starterkit'', metrics_UpdateInterval = 30 * ns_per_s\<rparr>"

text \<open>The metrics \<open>New\<close> registers; the collectors of the client library are not among them.\<close>

definition metrics_New :: "metrics_Config \<Rightarrow> metric list" where
  "metrics_New config =
     [metrics_counter config ''sign_ins_total'' ''Successful sign-ins.'',
      counterVec config ''admin_denied_total'' ''Refused crossings of the admin boundary.'' [''operation''],
      metrics_counter config ''users_banned_total'' ''Users banned.'',
      counterVec config ''admin_changed_total'' ''Admin access granted or revoked.'' [''action''],
      counterVec config ''jobs_finished_total'' ''Background jobs that ran to completion.''
        [''job'', ''outcome''],
      counterVec config ''notifications_total'' ''Notices handed to the notifier.'' [''kind''],
      gaugeVec config ''table_rows'' ''Rows currently in each table.'' [''table'']]"

section \<open>internal/metrics: the gauges\<close>

text \<open>The conversion \<open>float64(n)\<close>: exact up to 53 bits, to the nearest even beyond.\<close>

fun bit_count :: "nat \<Rightarrow> nat" where
  "bit_count n = (if n = 0 then 0 else Suc (bit_count (n div 2)))"

declare bit_count.simps [simp del]

definition float64 :: "int \<Rightarrow> int" where
  "float64 n =
    (let k = bit_count (nat \<bar>n\<bar>) - 53; q = \<bar>n\<bar> div 2 ^ k; r = \<bar>n\<bar> mod 2 ^ k in
     if k = 0 then n
     else sgn n * ((if 2 ^ k < 2 * r \<or> 2 ^ k = 2 * r \<and> odd q then q + 1 else q) * 2 ^ k))"

record metrics_Env =
  metrics_TableRowCounts :: "Ctx \<Rightarrow> (World, (string \<times> int64) list) io"

definition metrics_env :: "unlisted_tables \<Rightarrow> app \<Rightarrow> metrics_Env" where
  "metrics_env unlisted a = \<lparr>metrics_TableRowCounts = TableRowCounts unlisted a\<rparr>"

definition tableRows :: "metrics_Config \<Rightarrow> string" where
  "tableRows config = metric_name config ''table_rows''"

fun set_gauges :: "string \<Rightarrow> (string \<times> int64) list \<Rightarrow> unit act" where
  "set_gauges g [] = ret ()"
| "set_gauges g ((table, n) # counts) = do {
     prom_call (GaugeSet g [table] (float64 n));
     set_gauges g counts
   }"

text \<open>\<open>shuffle\<close> is the order in which \<open>range\<close> visits the map, which Go leaves open.\<close>

definition metrics_Update ::
  "metrics_Env \<Rightarrow> metrics_Config \<Rightarrow> ((string \<times> int64) list \<Rightarrow> (string \<times> int64) list) \<Rightarrow> Ctx
    \<Rightarrow> (World, unit) io" where
  "metrics_Update env config shuffle ctx = do {
     counted \<leftarrow> metrics_TableRowCounts env ctx;
     case counted of
       Inl err \<Rightarrow> ret (Inl err)
     | Inr counts \<Rightarrow> do {
         prom_call (GaugeReset (tableRows config));
         set_gauges (tableRows config) (shuffle counts);
         ret (Inr ())
       }
   }"

text \<open>
  \<open>Run\<close> waits on its context and its ticker; the list says for each \<open>select\<close> what the rest of the
  process does while it waits, and what it receives. At the end of the list the loop still
  waits. \<open>time.NewTicker\<close> panics on an interval that is not
  positive.
\<close>

datatype wake = CtxDone go_error | Tick

datatype run_result = Waiting | RunReturned go_error | TickerPanic

definition update_once ::
  "metrics_Env \<Rightarrow> metrics_Config \<Rightarrow> ((string \<times> int64) list \<Rightarrow> (string \<times> int64) list) \<Rightarrow> Ctx
    \<Rightarrow> (go_error \<Rightarrow> unit act) option \<Rightarrow> unit act" where
  "update_once env config shuffle ctx onError = do {
     updated \<leftarrow> metrics_Update env config shuffle ctx;
     case (updated, onError) of
       (Inl err, Some report) \<Rightarrow> report err
     | _ \<Rightarrow> ret ()
   }"

fun run_loop :: "unit act \<Rightarrow> (unit act \<times> wake) list \<Rightarrow> run_result act" where
  "run_loop update [] = do { update; ret Waiting }"
| "run_loop update ((meanwhile, wake) # wakes) = do {
     update;
     meanwhile;
     case wake of
       CtxDone err \<Rightarrow> ret (RunReturned err)
     | Tick \<Rightarrow> run_loop update wakes
   }"

definition metrics_Run ::
  "metrics_Env \<Rightarrow> metrics_Config \<Rightarrow> ((string \<times> int64) list \<Rightarrow> (string \<times> int64) list) \<Rightarrow> Ctx
    \<Rightarrow> (go_error \<Rightarrow> unit act) option \<Rightarrow> (unit act \<times> wake) list \<Rightarrow> run_result act" where
  "metrics_Run env config shuffle ctx onError wakes =
     (if metrics_UpdateInterval config \<le> 0 then ret TickerPanic
      else run_loop (update_once env config shuffle ctx onError) wakes)"

end
