(* ===== verification/SqliteDriver.thy ===== *)
theory SqliteDriver
  imports Url Metrics JsonRead
begin

text \<open>
  internal/dbmate/sqlite: the driver through which \<open>dbmate\<close> migrates the database when the
  server boots. A database is seen here as the driver sees it: the objects it holds, by name, and
  the rows of those that are tables of versions.
\<close>

section \<open>Addresses\<close>

text \<open>
  \<open>dbutil.MustUnescapePath\<close> of dbmate is an argument; \<open>None\<close> is its panic. The regular
  expression \<open>^//+\<close> matches two or more slashes at the start.
\<close>

definition leadingSlashes :: "string \<Rightarrow> string" where
  "leadingSlashes s = (if HasPrefix s ''//'' then CHR ''/'' # dropWhile (\<lambda>c. c = CHR ''/'') s else s)"

definition ConnectionString :: "(string \<Rightarrow> string option) \<Rightarrow> URL \<Rightarrow> string option" where
  "ConnectionString mustUnescape u =
    (let newURL = u\<lparr>url_Scheme := []\<rparr> in
     if url_Opaque newURL = [] \<and> url_Path newURL \<noteq> [] then
       (case mustUnescape (url_Path newURL) of
          None \<Rightarrow> None
        | Some path \<Rightarrow>
            Some (leadingSlashes (URL_String
              (newURL\<lparr>url_Opaque := ''//'' @ url_Host newURL @ path, url_Path := []\<rparr>))))
     else Some (leadingSlashes (URL_String newURL)))"

section \<open>The statements\<close>

datatype mig_sql =
    CreateVersions string
  | SelectVersions string "int option"
  | QuotedVersions string
  | InsertVersion string
  | DeleteVersion string

text \<open>A text that is \<open>prefix\<close>, a quoted identifier and something more.\<close>

definition split_sql :: "string \<Rightarrow> string \<Rightarrow> (string \<times> string) option" where
  "split_sql p stmt_text =
     (case CutPrefix stmt_text (p @ [dquote]) of
        (rest, True) \<Rightarrow> identifier_rest rest
      | (rest, False) \<Rightarrow> None)"

definition create_tail :: string where "create_tail = '' (version varchar(128) primary key)''"
definition desc_tail :: string where "desc_tail = '' order by version desc''"
definition asc_tail :: string where "asc_tail = '' order by version asc''"
definition insert_tail :: string where "insert_tail = '' (version) values (?)''"
definition delete_tail :: string where "delete_tail = '' where version = ?''"

definition read_limit :: "string \<Rightarrow> int option option" where
  "read_limit rest =
     (if rest = desc_tail then Some None
      else (case CutPrefix rest (desc_tail @ '' limit '') of
              (n, True) \<Rightarrow> map_option Some (ParseInt64 n)
            | _ \<Rightarrow> None))"

definition read_sql :: "string \<Rightarrow> mig_sql option" where
  "read_sql t =
    (case split_sql ''create table if not exists '' t of
       Some (name, rest) \<Rightarrow> if rest = create_tail then Some (CreateVersions name) else None
     | None \<Rightarrow>
    (case split_sql ''insert into '' t of
       Some (name, rest) \<Rightarrow> if rest = insert_tail then Some (InsertVersion name) else None
     | None \<Rightarrow>
    (case split_sql ''delete from '' t of
       Some (name, rest) \<Rightarrow> if rest = delete_tail then Some (DeleteVersion name) else None
     | None \<Rightarrow>
    (case split_sql ''select version from '' t of
       Some (name, rest) \<Rightarrow> map_option (SelectVersions name) (read_limit rest)
     | None \<Rightarrow>
    (case split_sql ''select quote(version) from '' t of
       Some (name, rest) \<Rightarrow> if rest = asc_tail then Some (QuotedVersions name) else None
     | None \<Rightarrow> None)))))"

text \<open>
  The objects of a file that share SQLite's names of tables. \<open>OtherTable\<close> is a table without a
  column \<open>version\<close>. A name means an object in whatever case its letters are, and names that start
  with \<open>sqlite_\<close> are reserved: SQLite's own tables have no column \<open>version\<close> either.
\<close>

datatype db_object = VersionTable "string list" | OtherTable | View | Index

fun is_table :: "db_object \<Rightarrow> bool" where
  "is_table (VersionTable rows) = True"
| "is_table OtherTable = True"
| "is_table _ = False"

type_synonym db_file = "(string \<times> db_object) list"

definition reserved_name :: "string \<Rightarrow> bool" where
  "reserved_name name \<longleftrightarrow> HasPrefix (map lower_byte name) ''sqlite_''"

definition no_versions :: "string \<Rightarrow> go_error" where
  "no_versions name = NewError (''no such table or column: '' @ name)"

definition version_rows :: "string \<Rightarrow> db_file \<Rightarrow> go_error + string list" where
  "version_rows name file =
     (case find_table name file of Some (VersionTable rows) \<Rightarrow> Inr rows | _ \<Rightarrow> Inl (no_versions name))"

definition set_rows :: "string \<Rightarrow> string list \<Rightarrow> db_file \<Rightarrow> db_file" where
  "set_rows name rows file =
     map (\<lambda>t. if same_name name (fst t) then (fst t, VersionTable rows) else t) file"

definition exec_sql :: "string \<Rightarrow> string list \<Rightarrow> db_file \<Rightarrow> go_error + db_file" where
  "exec_sql t args file =
    (case (read_sql (sql_text t), args) of
       (Some (CreateVersions name), []) \<Rightarrow>
         if reserved_name name
         then Inl (NewError (''object name reserved for internal use: '' @ name))
         else (case find_table name file of
                 None \<Rightarrow> Inr (file @ [(name, VersionTable [])])
               | Some Index \<Rightarrow> Inl (NewError (''there is already an index named '' @ name))
               | Some _ \<Rightarrow> Inr file)
     | (Some (InsertVersion name), [v]) \<Rightarrow>
         (case version_rows name file of
            Inl err \<Rightarrow> Inl err
          | Inr rows \<Rightarrow>
              if v \<in> set rows then Inl (NewError ''UNIQUE constraint failed'')
              else Inr (set_rows name (rows @ [v]) file))
     | (Some (DeleteVersion name), [v]) \<Rightarrow>
         (case version_rows name file of
            Inl err \<Rightarrow> Inl err
          | Inr rows \<Rightarrow> Inr (set_rows name (removeAll v rows) file))
     | _ \<Rightarrow> Inl (NewError ''syntax error''))"

text \<open>SQLite's \<open>quote\<close>: the text as an SQL literal.\<close>

definition sql_quote :: "string \<Rightarrow> string" where
  "sql_quote v = [CHR 0x27] @ replace_char CHR 0x27 [CHR 0x27, CHR 0x27] v @ [CHR 0x27]"

definition query_sql :: "string \<Rightarrow> db_file \<Rightarrow> go_error + string list" where
  "query_sql t file =
    (case read_sql (sql_text t) of
       Some (SelectVersions name limit) \<Rightarrow>
         (case version_rows name file of
            Inl err \<Rightarrow> Inl err
          | Inr rows \<Rightarrow>
              Inr ((case limit of None \<Rightarrow> id | Some n \<Rightarrow> if n < 0 then id else take (nat n)) (rev (sort rows))))
     | Some (QuotedVersions name) \<Rightarrow>
         (case version_rows name file of
            Inl err \<Rightarrow> Inl err
          | Inr rows \<Rightarrow> Inr (map sql_quote (sort rows)))
     | _ \<Rightarrow> Inl (NewError ''syntax error''))"

section \<open>The driver's world\<close>

datatype file_stat = FileExists | FileMissing | StatFailed go_error

text \<open>The files, the objects of each database file, the log, and a schedule of driver faults.\<close>

record DriverWorld =
  dw_stat :: "string \<Rightarrow> file_stat"
  dw_files :: "string \<Rightarrow> db_file"
  dw_remove :: "string \<Rightarrow> go_error option"
  dw_log :: string
  dw_open :: nat
  dw_faults :: "nat \<Rightarrow> driver_fault option"
  dw_calls :: nat

type_synonym 'a dio = "(DriverWorld, 'a) io"

definition dw_call :: "(DriverWorld, driver_fault option) state" where
  "dw_call = State (\<lambda>w. (dw_faults w (dw_calls w), w\<lparr>dw_calls := Suc (dw_calls w)\<rparr>))"

definition dw_fault :: "(DriverWorld, 'a) io \<Rightarrow> (DriverWorld, 'a) io" where
  "dw_fault c = do {
     fault \<leftarrow> dw_call;
     case fault of Some e \<Rightarrow> ret (Inl (fault_error e)) | None \<Rightarrow> c
   }"

text \<open>A handle is the path of the file; \<open>dw_open\<close> counts the handles not closed yet.\<close>

definition dw_Open :: "string \<Rightarrow> string dio" where
  "dw_Open path = dw_fault (do {
     modify_world (\<lambda>w. w\<lparr>dw_open := Suc (dw_open w)\<rparr>);
     ret (Inr path)
   })"

definition dw_Close :: "(DriverWorld, unit) state" where
  "dw_Close = modify_world (\<lambda>w. w\<lparr>dw_open := dw_open w - 1\<rparr>)"

definition dw_Ping :: "string \<Rightarrow> unit dio" where
  "dw_Ping path = dw_fault (ret (Inr ()))"

definition dw_Exec :: "string \<Rightarrow> string \<Rightarrow> string list \<Rightarrow> unit dio" where
  "dw_Exec path t args = dw_fault (do {
     files \<leftarrow> ask_world dw_files;
     case exec_sql t args (files path) of
       Inl e \<Rightarrow> ret (Inl e)
     | Inr file \<Rightarrow> do {
         modify_world (\<lambda>w. w\<lparr>dw_files := (dw_files w)(path := file)\<rparr>);
         ret (Inr ())
       }
   })"

definition dw_Query :: "string \<Rightarrow> string \<Rightarrow> string list dio" where
  "dw_Query path t = dw_fault (do {
     files \<leftarrow> ask_world dw_files;
     ret (query_sql t (files path))
   })"

definition dw_print :: "string \<Rightarrow> (DriverWorld, unit) state" where
  "dw_print s = modify_world (\<lambda>w. w\<lparr>dw_log := dw_log w @ s\<rparr>)"

section \<open>The driver\<close>

record Driver =
  drv_migrationsTableName :: string
  drv_databaseURL :: URL

definition NewDriver :: "string \<Rightarrow> URL \<Rightarrow> Driver" where
  "NewDriver table u = \<lparr>drv_migrationsTableName = table, drv_databaseURL = u\<rparr>"

definition drv_path :: "(string \<Rightarrow> string option) \<Rightarrow> Driver \<Rightarrow> string option" where
  "drv_path mustUnescape drv = ConnectionString mustUnescape (drv_databaseURL drv)"

definition driver_quoteIdentifier :: "string \<Rightarrow> string" where
  "driver_quoteIdentifier s = [dquote] @ replace_char dquote [dquote, dquote] s @ [dquote]"

definition quotedMigrationsTableName :: "Driver \<Rightarrow> string" where
  "quotedMigrationsTableName drv = driver_quoteIdentifier (drv_migrationsTableName drv)"

text \<open>
  The methods on files. Each starts with the connection string, so its panic is that of the
  whole method: \<open>None\<close>. Closing a handle is taken not to fail (\<open>dbutil.MustClose\<close>).
\<close>

definition drv_Open :: "(string \<Rightarrow> string option) \<Rightarrow> Driver \<Rightarrow> string dio option" where
  "drv_Open mustUnescape drv = map_option dw_Open (drv_path mustUnescape drv)"

definition open_and_ping :: "string \<Rightarrow> unit dio" where
  "open_and_ping path = do {
     opened \<leftarrow> dw_Open path;
     case opened of
       Inl err \<Rightarrow> ret (Inl err)
     | Inr db \<Rightarrow> do {
         pinged \<leftarrow> dw_Ping db;
         dw_Close;
         ret pinged
       }
   }"

definition drv_Ping :: "(string \<Rightarrow> string option) \<Rightarrow> Driver \<Rightarrow> unit dio option" where
  "drv_Ping mustUnescape drv = map_option open_and_ping (drv_path mustUnescape drv)"

definition CreateDatabase :: "(string \<Rightarrow> string option) \<Rightarrow> Driver \<Rightarrow> unit dio option" where
  "CreateDatabase mustUnescape drv =
     map_option (\<lambda>path. do { dw_print (''Creating: '' @ path @ [CHR 0x0A]); open_and_ping path })
       (drv_path mustUnescape drv)"

definition stat_exists :: "string \<Rightarrow> bool dio" where
  "stat_exists path = do {
     stat \<leftarrow> ask_world dw_stat;
     ret (case stat path of
            FileMissing \<Rightarrow> Inr False
          | StatFailed err \<Rightarrow> Inl err
          | FileExists \<Rightarrow> Inr True)
   }"

definition DatabaseExists :: "(string \<Rightarrow> string option) \<Rightarrow> Driver \<Rightarrow> bool dio option" where
  "DatabaseExists mustUnescape drv = map_option stat_exists (drv_path mustUnescape drv)"

definition os_Remove :: "string \<Rightarrow> unit dio" where
  "os_Remove path = do {
     failing \<leftarrow> ask_world dw_remove;
     case failing path of
       Some err \<Rightarrow> ret (Inl err)
     | None \<Rightarrow> do {
         modify_world (\<lambda>w. w\<lparr>dw_stat := (dw_stat w)(path := FileMissing),
           dw_files := (dw_files w)(path := [])\<rparr>);
         ret (Inr ())
       }
   }"

definition DropDatabase :: "(string \<Rightarrow> string option) \<Rightarrow> Driver \<Rightarrow> unit dio option" where
  "DropDatabase mustUnescape drv =
     map_option (\<lambda>path. do {
       dw_print (''Dropping: '' @ path @ [CHR 0x0A]);
       exists \<leftarrow> stat_exists path;
       case exists of
         Inl err \<Rightarrow> ret (Inl err)
       | Inr b \<Rightarrow> if \<not> b then ret (Inr ()) else os_Remove path
     }) (drv_path mustUnescape drv)"

text \<open>
  The methods on an open database. The first one looks its name up in SQLite's catalogue, where
  the name is that which the table was created with.
\<close>

definition MigrationsTableExists :: "Driver \<Rightarrow> string \<Rightarrow> bool dio" where
  "MigrationsTableExists drv db = dw_fault (do {
     files \<leftarrow> ask_world dw_files;
     ret (Inr (list_ex (\<lambda>t. is_table (snd t) \<and> fst t = drv_migrationsTableName drv) (files db)))
   })"

definition CreateMigrationsTable :: "Driver \<Rightarrow> string \<Rightarrow> unit dio" where
  "CreateMigrationsTable drv db =
     dw_Exec db (''create table if not exists '' @ quotedMigrationsTableName drv
       @ '' (version varchar(128) primary key)'') []"

definition SelectMigrations :: "Driver \<Rightarrow> string \<Rightarrow> int \<Rightarrow> (string \<times> bool) list dio" where
  "SelectMigrations drv db limit =
    (let q = ''select version from '' @ quotedMigrationsTableName drv @ '' order by version desc'';
         q' = (if 0 \<le> limit then q @ '' limit '' @ int_dec limit else q) in
     do {
       rows \<leftarrow> dw_Query db q';
       case rows of
         Inl err \<Rightarrow> ret (Inl err)
       | Inr vs \<Rightarrow> dw_fault (ret (Inr (fold (\<lambda>v. AList.update v True) vs [])))
     })"

definition InsertMigration :: "Driver \<Rightarrow> string \<Rightarrow> string \<Rightarrow> unit dio" where
  "InsertMigration drv db v =
     dw_Exec db (''insert into '' @ quotedMigrationsTableName drv @ '' (version) values (?)'') [v]"

definition DeleteMigration :: "Driver \<Rightarrow> string \<Rightarrow> string \<Rightarrow> unit dio" where
  "DeleteMigration drv db v =
     dw_Exec db (''delete from '' @ quotedMigrationsTableName drv @ '' where version = ?'') [v]"

definition schemaMigrationsDump :: "Driver \<Rightarrow> string \<Rightarrow> string dio" where
  "schemaMigrationsDump drv db =
    (let migrationsTable = quotedMigrationsTableName drv in
     do {
       column \<leftarrow> dw_Query db (''select quote(version) from '' @ migrationsTable @ '' order by version asc'');
       ret (case column of
              Inl err \<Rightarrow> Inl err
            | Inr migrations \<Rightarrow> Inr (''-- Dbmate schema migrations'' @ [CHR 0x0A]
                @ (if migrations \<noteq> []
                   then ''INSERT INTO '' @ migrationsTable @ '' (version) VALUES'' @ [CHR 0x0A] @ ''  (''
                        @ Join migrations (''),'' @ [CHR 0x0A] @ ''  ('') @ '');'' @ [CHR 0x0A]
                   else [])))
     })"

text \<open>The \<open>sqlite3\<close> command and dbmate's trimming of comments are arguments.\<close>

definition DumpSchema ::
  "(string \<Rightarrow> go_error + string) \<Rightarrow> (string \<Rightarrow> go_error + string) \<Rightarrow> (string \<Rightarrow> string option)
    \<Rightarrow> Driver \<Rightarrow> string \<Rightarrow> string dio option" where
  "DumpSchema schema_command trim mustUnescape drv db =
     map_option (\<lambda>path.
       case schema_command path of
         Inl err \<Rightarrow>
           ret (Inl (Errorf_w ''failed to dump schema (is the sqlite3 CLI installed?)'' err))
       | Inr schema \<Rightarrow> do {
           dumped \<leftarrow> schemaMigrationsDump drv db;
           ret (case dumped of Inl err \<Rightarrow> Inl err | Inr migrations \<Rightarrow> trim (schema @ migrations))
         }) (drv_path mustUnescape drv)"

end
