(* ===== verification/AppConfig.thy ===== *)
theory AppConfig
  imports SqliteDriver
begin

text \<open>
  internal/appconfig: the configuration, from flags, then the environment, then defaults. The
  environment is a map from names to values, the command line a list of arguments.
\<close>

section \<open>Values of the environment\<close>

type_synonym environment = "string \<Rightarrow> string option"

text \<open>\<open>godotenv.Load\<close> adds the variables of a file that are not set.\<close>

definition godotenv_Load :: "environment \<Rightarrow> environment \<Rightarrow> environment" where
  "godotenv_Load dotenv lookup = (\<lambda>k. case lookup k of Some v \<Rightarrow> Some v | None \<Rightarrow> dotenv k)"

definition env :: "environment \<Rightarrow> string \<Rightarrow> string \<Rightarrow> string" where
  "env lookup key fallback =
     (case lookup key of
        None \<Rightarrow> fallback
      | Some val \<Rightarrow> if val = '''' then fallback else val)"

definition ParseBool :: "string \<Rightarrow> bool option" where
  "ParseBool s =
     (if s \<in> {''1'', ''t'', ''T'', ''true'', ''TRUE'', ''True''} then Some True
      else if s \<in> {''0'', ''f'', ''F'', ''false'', ''FALSE'', ''False''} then Some False
      else None)"

definition envBool :: "environment \<Rightarrow> string \<Rightarrow> bool \<Rightarrow> bool" where
  "envBool lookup key fallback =
     (case lookup key of
        None \<Rightarrow> fallback
      | Some val \<Rightarrow> (case ParseBool val of None \<Rightarrow> fallback | Some parsed \<Rightarrow> parsed))"

section \<open>Durations\<close>

definition is_digit :: "char \<Rightarrow> bool" where
  "is_digit c \<longleftrightarrow> 48 \<le> byte_val c \<and> byte_val c \<le> 57"

definition two63 :: int where
  "two63 = 9223372036854775808"

text \<open>\<open>leadingInt\<close>: \<open>None\<close> when the number passes \<open>1<<63\<close>.\<close>

fun leadingInt :: "int \<Rightarrow> string \<Rightarrow> (int \<times> string) option" where
  "leadingInt x [] = Some (x, [])"
| "leadingInt x (c # s) =
     (if \<not> is_digit c then Some (x, c # s)
      else if two63 div 10 < x then None
      else let y = x * 10 + (byte_val c - 48) in if two63 < y then None else leadingInt y s)"

text \<open>\<open>leadingFraction\<close>: the digits that fit, and how many they are; the rest is dropped.\<close>

fun leadingFraction :: "bool \<Rightarrow> int \<Rightarrow> nat \<Rightarrow> string \<Rightarrow> int \<times> nat \<times> string" where
  "leadingFraction overflow x scale [] = (x, scale, [])"
| "leadingFraction overflow x scale (c # s) =
     (if \<not> is_digit c then (x, scale, c # s)
      else if overflow then leadingFraction True x scale s
      else if (two63 - 1) div 10 < x then leadingFraction True x scale s
      else let y = x * 10 + (byte_val c - 48) in
           if two63 < y then leadingFraction True x scale s
           else leadingFraction False y (Suc scale) s)"

definition unitMap :: "(string \<times> int) list" where
  "unitMap =
     [(''ns'', 1), (''us'', 1000), ([CHR 0xC2, CHR 0xB5, CHR ''s''], 1000),
      ([CHR 0xCE, CHR 0xBC, CHR ''s''], 1000), (''ms'', 1000000), (''s'', ns_per_s),
      (''m'', 60 * ns_per_s), (''h'', 3600 * ns_per_s)]"

text \<open>
  One number with its unit. The part behind the point is computed in floating point:
  \<open>frac f scale unit\<close> is \<open>uint64(float64(f) * (float64(unit) / 10^scale))\<close>.
\<close>

definition duration_part :: "(int \<Rightarrow> nat \<Rightarrow> int \<Rightarrow> int) \<Rightarrow> string \<Rightarrow> (int \<times> string) option" where
  "duration_part frac s =
    (if s = [] \<or> \<not> (hd s = CHR ''.'' \<or> is_digit (hd s)) then None
     else (case leadingInt 0 s of
       None \<Rightarrow> None
     | Some (v, s1) \<Rightarrow>
         let dot = (s1 \<noteq> [] \<and> hd s1 = CHR ''.'');
             (f, scale, s2) = (if dot then leadingFraction False 0 0 (tl s1) else (0, 0, s1));
             pre = (length s1 \<noteq> length s);
             post = (dot \<and> length s2 \<noteq> length (tl s1));
             u = takeWhile (\<lambda>c. \<not> (c = CHR ''.'' \<or> is_digit c)) s2;
             s3 = drop (length u) s2 in
         if \<not> pre \<and> \<not> post then None
         else if u = [] then None
         else (case map_of unitMap u of
           None \<Rightarrow> None
         | Some unit \<Rightarrow>
             if two63 div unit < v then None
             else let w = v * unit + (if 0 < f then frac f scale unit else 0) in
               if two63 < w then None else Some (w, s3))))"

lemma leadingInt_length: "leadingInt x s = Some (v, t) \<Longrightarrow> length t \<le> length s"
  by (induction x s rule: leadingInt.induct) (fastforce simp: Let_def split: if_splits)+

lemma leadingFraction_length: "leadingFraction b x n s = (f, k, t) \<Longrightarrow> length t \<le> length s"
  by (induction b x n s rule: leadingFraction.induct) (fastforce simp: Let_def split: if_splits)+

lemma duration_part_shorter:
  assumes "duration_part frac s = Some (v, t)"
  shows "length t < length s"
proof -
  from assms obtain n s1 where lead: "leadingInt 0 s = Some (n, s1)"
    by (auto simp: duration_part_def split: if_splits option.splits)
  obtain f k s2 where fraction: "(if s1 \<noteq> [] \<and> hd s1 = CHR ''.'' then leadingFraction False 0 0 (tl s1)
      else (0, 0, s1)) = (f, k, s2)" by (metis prod_cases3)
  then have "length s2 \<le> length s1"
    using leadingFraction_length [of False 0 0 "tl s1" f k s2] by (auto split: if_splits)
  with leadingInt_length [OF lead] have le: "length s2 \<le> length s" by simp
  from assms lead fraction have u: "takeWhile (\<lambda>c. \<not> (c = CHR ''.'' \<or> is_digit c)) s2 \<noteq> []"
    "t = drop (length (takeWhile (\<lambda>c. \<not> (c = CHR ''.'' \<or> is_digit c)) s2)) s2"
    by (auto simp: duration_part_def Let_def split: if_splits option.splits)
  from u(1) have "s2 \<noteq> []" by auto
  with u have "length t < length s2" by simp
  with le show ?thesis by simp
qed

text \<open>The loop over the parts, each of which takes at least one byte.\<close>

function duration_parts :: "(int \<Rightarrow> nat \<Rightarrow> int \<Rightarrow> int) \<Rightarrow> int \<Rightarrow> string \<Rightarrow> int option" where
  "duration_parts frac d s =
     (if s = [] then Some d
      else (case duration_part frac s of
              None \<Rightarrow> None
            | Some (v, s') \<Rightarrow> if two63 < d + v then None else duration_parts frac (d + v) s'))"
  by pat_completeness auto
termination
  by (relation "measure (\<lambda>(frac, d, s). length s)") (auto dest: duration_part_shorter)

declare duration_parts.simps [simp del]

definition ParseDuration :: "(int \<Rightarrow> nat \<Rightarrow> int \<Rightarrow> int) \<Rightarrow> string \<Rightarrow> Duration option" where
  "ParseDuration frac s =
    (let neg = (s \<noteq> [] \<and> hd s = CHR ''-'');
         t = (if s \<noteq> [] \<and> (hd s = CHR ''-'' \<or> hd s = CHR ''+'') then tl s else s) in
     if t = ''0'' then Some 0
     else if t = [] then None
     else (case duration_parts frac 0 t of
       None \<Rightarrow> None
     | Some d \<Rightarrow> if neg then Some (- d) else if two63 - 1 < d then None else Some d))"

definition envDuration ::
  "(int \<Rightarrow> nat \<Rightarrow> int \<Rightarrow> int) \<Rightarrow> environment \<Rightarrow> string \<Rightarrow> Duration \<Rightarrow> Duration" where
  "envDuration frac lookup key fallback =
     (case lookup key of
        None \<Rightarrow> fallback
      | Some val \<Rightarrow> (case ParseDuration frac val of None \<Rightarrow> fallback | Some parsed \<Rightarrow> parsed))"

section \<open>Flags\<close>

text \<open>A flag holds its value; the kind of the value is the kind of the flag.\<close>

datatype flag_value = StringFlag string | BoolFlag bool | DurationFlag Duration

type_synonym FlagSet = "(string \<times> flag_value) list"

definition parse_error :: go_error where
  "parse_error = NewError ''parse error''"

fun flag_set :: "(int \<Rightarrow> nat \<Rightarrow> int \<Rightarrow> int) \<Rightarrow> flag_value \<Rightarrow> string \<Rightarrow> go_error + flag_value" where
  "flag_set frac (StringFlag _) v = Inr (StringFlag v)"
| "flag_set frac (BoolFlag _) v =
     (case ParseBool v of None \<Rightarrow> Inl parse_error | Some b \<Rightarrow> Inr (BoolFlag b))"
| "flag_set frac (DurationFlag _) v =
     (case ParseDuration frac v of None \<Rightarrow> Inl parse_error | Some d \<Rightarrow> Inr (DurationFlag d))"

fun is_bool :: "flag_value \<Rightarrow> bool" where
  "is_bool (BoolFlag _) = True"
| "is_bool _ = False"

text \<open>One argument, without its dashes, as a name and perhaps a value.\<close>

definition split_flag :: "string \<Rightarrow> string \<times> string option" where
  "split_flag name =
    (let n = hd name # takeWhile (\<lambda>c. c \<noteq> CHR ''='') (tl name) in
     if length n < length name then (n, Some (drop (Suc (length n)) name)) else (n, None))"

definition bad_value :: "string \<Rightarrow> string \<Rightarrow> go_error \<Rightarrow> go_error" where
  "bad_value name v err =
     NewError (''invalid value '' @ [CHR 0x22] @ v @ [CHR 0x22] @ '' for flag -'' @ name @ '': ''
       @ error_text err)"

definition bad_bool :: "string \<Rightarrow> string \<Rightarrow> go_error \<Rightarrow> go_error" where
  "bad_bool name v err =
     NewError (''invalid boolean value '' @ [CHR 0x22] @ v @ [CHR 0x22] @ '' for -'' @ name @ '': ''
       @ error_text err)"


fun parse_flags :: "(int \<Rightarrow> nat \<Rightarrow> int \<Rightarrow> int) \<Rightarrow> FlagSet \<Rightarrow> string list \<Rightarrow> go_error + FlagSet" where
  "parse_flags frac fs [] = Inr fs"
| "parse_flags frac fs (s # args) =
    (if length s < 2 \<or> hd s \<noteq> CHR ''-'' \<or> s = ''--'' then Inr fs
     else
       let name = (if s ! 1 = CHR ''-'' then drop 2 s else drop 1 s) in
       if name = [] \<or> hd name = CHR ''-'' \<or> hd name = CHR ''=''
       then Inl (NewError (''bad flag syntax: '' @ s))
       else
         let (n, val) = split_flag name in
         (case map_of fs n of
            None \<Rightarrow>
              if n = ''help'' \<or> n = ''h'' then Inl (NewError ''flag: help requested'')
              else Inl (NewError (''flag provided but not defined: -'' @ n))
          | Some cur \<Rightarrow>
              if is_bool cur then
                (case flag_set frac cur (case val of None \<Rightarrow> ''true'' | Some v \<Rightarrow> v) of
                   Inl err \<Rightarrow> Inl (bad_bool n (case val of None \<Rightarrow> ''true'' | Some v \<Rightarrow> v) err)
                 | Inr new \<Rightarrow> parse_flags frac (AList.update n new fs) args)
              else
                (case val of
                   Some v \<Rightarrow>
                     (case flag_set frac cur v of
                        Inl err \<Rightarrow> Inl (bad_value n v err)
                      | Inr new \<Rightarrow> parse_flags frac (AList.update n new fs) args)
                 | None \<Rightarrow>
                     (case args of
                        [] \<Rightarrow> Inl (NewError (''flag needs an argument: -'' @ n))
                      | v # rest \<Rightarrow>
                          (case flag_set frac cur v of
                             Inl err \<Rightarrow> Inl (bad_value n v err)
                           | Inr new \<Rightarrow> parse_flags frac (AList.update n new fs) rest)))))"

definition string_of :: "FlagSet \<Rightarrow> string \<Rightarrow> string" where
  "string_of fs n = (case map_of fs n of Some (StringFlag v) \<Rightarrow> v | _ \<Rightarrow> '''')"

definition bool_of :: "FlagSet \<Rightarrow> string \<Rightarrow> bool" where
  "bool_of fs n = (case map_of fs n of Some (BoolFlag v) \<Rightarrow> v | _ \<Rightarrow> False)"

definition duration_of :: "FlagSet \<Rightarrow> string \<Rightarrow> Duration" where
  "duration_of fs n = (case map_of fs n of Some (DurationFlag v) \<Rightarrow> v | _ \<Rightarrow> 0)"

section \<open>Get\<close>

definition registerRuntimeFlags :: "(int \<Rightarrow> nat \<Rightarrow> int \<Rightarrow> int) \<Rightarrow> environment \<Rightarrow> FlagSet" where
  "registerRuntimeFlags frac lookup =
     [(''metrics-addr'', StringFlag (env lookup ''STARTERKIT_METRICS_ADDR'' (metrics_Addr DefaultConfig))),
      (''metrics-interval'', DurationFlag (envDuration frac lookup ''STARTERKIT_METRICS_INTERVAL''
         (metrics_UpdateInterval DefaultConfig))),
      (''shutdown-delay'', DurationFlag (envDuration frac lookup ''STARTERKIT_SHUTDOWN_DELAY'' 0)),
      (''shutdown-timeout'', DurationFlag (envDuration frac lookup ''STARTERKIT_SHUTDOWN_TIMEOUT''
         (15 * ns_per_s)))]"

definition flags :: "(int \<Rightarrow> nat \<Rightarrow> int \<Rightarrow> int) \<Rightarrow> environment \<Rightarrow> FlagSet" where
  "flags frac lookup =
     [(''addr'', StringFlag (env lookup ''STARTERKIT_ADDR'' ''127.0.0.1:7301'')),
      (''public-url'', StringFlag (env lookup ''STARTERKIT_PUBLIC_URL'' ''http://panel.sk.localbox'')),
      (''base-path'', StringFlag (env lookup ''STARTERKIT_BASE_PATH'' ''/_system/starterkit'')),
      (''database-url'', StringFlag (env lookup ''DATABASE_URL'' ''sqlite:data.sqlite3'')),
      (''oidc-issuer'', StringFlag (env lookup ''STARTERKIT_OIDC_ISSUER'' ''http://dex.sk.localbox/dex'')),
      (''oidc-client-id'', StringFlag (env lookup ''STARTERKIT_OIDC_CLIENT_ID'' ''starterkit'')),
      (''sign-out-url'', StringFlag (env lookup ''STARTERKIT_SIGN_OUT_URL'' ''/oauth2/sign_out'')),
      (''bootstrap-admin'', StringFlag (env lookup ''STARTERKIT_BOOTSTRAP_ADMIN'' '''')),
      (''log-level'', StringFlag (env lookup ''STARTERKIT_LOG_LEVEL'' ''info'')),
      (''dev'', BoolFlag (envBool lookup ''STARTERKIT_DEV_MODE'' False)),
      (''audit-retention'', DurationFlag (envDuration frac lookup ''STARTERKIT_AUDIT_RETENTION''
         (30 * 24 * 3600 * ns_per_s))),
      (''audit-purge-spec'', StringFlag (env lookup ''STARTERKIT_AUDIT_PURGE_SPEC'' ''0 4 * * *'')),
      (''notifier-from'', StringFlag (env lookup ''STARTERKIT_NOTIFIER_FROM'' ''noreply@example.invalid'')),
      (''trusted-proxies'', StringFlag (env lookup ''STARTERKIT_TRUSTED_PROXIES'' ''127.0.0.1/32,::1/128''))]
     @ registerRuntimeFlags frac lookup"

definition validate :: "Config \<Rightarrow> go_error option" where
  "validate c =
    (if \<not> HasPrefix (Config_BasePath c) ''/'' \<or> HasSuffix (Config_BasePath c) ''/''
     then Some (NewError (''base path must start with / and must not end with /: '' @ Config_BasePath c))
     else if Config_OIDCIssuer c = ''''
     then Some (NewError ''oidc issuer is empty: set STARTERKIT_OIDC_ISSUER'')
     else if Config_OIDCClientID c = ''''
     then Some (NewError (''oidc client id is empty: set STARTERKIT_OIDC_CLIENT_ID to the audience the gate''
       @ [CHR 0x27] @ ''s token carries''))
     else if Config_NotifierFrom c = ''''
     then Some (NewError ''notifier sender is empty: set STARTERKIT_NOTIFIER_FROM'')
     else None)"

text \<open>The file name is filled in when the address of the database has been parsed.\<close>

definition config_of :: "FlagSet \<Rightarrow> string \<Rightarrow> Config" where
  "config_of fs db_file =
     \<lparr>Config_Addr = string_of fs ''addr'', Config_PublicURL = string_of fs ''public-url'',
      Config_BasePath = string_of fs ''base-path'', Config_DatabaseURL = string_of fs ''database-url'',
      Config_DatabaseFile = db_file, Config_OIDCIssuer = string_of fs ''oidc-issuer'',
      Config_OIDCClientID = string_of fs ''oidc-client-id'',
      Config_SignOutURL = string_of fs ''sign-out-url'',
      Config_BootstrapAdmin = string_of fs ''bootstrap-admin'',
      Config_AuditRetention = duration_of fs ''audit-retention'',
      Config_AuditPurgeSpec = string_of fs ''audit-purge-spec'',
      Config_NotifierFrom = string_of fs ''notifier-from'',
      Config_TrustedProxies = clientip_Parse (string_of fs ''trusted-proxies''),
      Config_Metrics = DefaultConfig\<lparr>metrics_Addr := string_of fs ''metrics-addr'',
        metrics_UpdateInterval := duration_of fs ''metrics-interval''\<rparr>,
      Config_ShutdownDelay = duration_of fs ''shutdown-delay'',
      Config_ShutdownTimeout = duration_of fs ''shutdown-timeout'',
      Config_LogLevel = string_of fs ''log-level'', Config_DevMode = bool_of fs ''dev''\<rparr>"

text \<open>The libraries, and the results: a configuration, an error, or a panic of \<open>dbutil\<close>.\<close>

record config_libs =
  config_frac :: "int \<Rightarrow> nat \<Rightarrow> int \<Rightarrow> int"
  config_authority :: authority_reader
  config_unescape :: "string \<Rightarrow> string option"

datatype config_result = Configured Config | ConfigError go_error | ConfigPanic

definition appconfig_Get ::
  "config_libs \<Rightarrow> environment \<Rightarrow> environment \<Rightarrow> string list \<Rightarrow> config_result" where
  "appconfig_Get L dotenv environ args =
    (let lookup = godotenv_Load dotenv environ in
     case parse_flags (config_frac L) (flags (config_frac L) lookup) args of
       Inl err \<Rightarrow> ConfigError (Errorf_w ''failed to parse flags'' err)
     | Inr fs \<Rightarrow>
         (case url_Parse (config_authority L) (string_of fs ''database-url'') of
            Inl err \<Rightarrow> ConfigError (Errorf_w ''failed to parse DATABASE_URL'' err)
          | Inr parsed \<Rightarrow>
              (case ConnectionString (config_unescape L) parsed of
                 None \<Rightarrow> ConfigPanic
               | Some db_file \<Rightarrow>
                   (case validate (config_of fs db_file) of
                      Some err \<Rightarrow> ConfigError err
                    | None \<Rightarrow> Configured (config_of fs db_file)))))"

end
