(* ===== verification/Setup.thy ===== *)
theory Setup
  imports SqliteDriver
begin

text \<open>
  internal/db/setup.go: the database file is migrated and opened three times, for reading, for
  writing and for the queue. The state is that of database/sql: the pools not closed yet.
\<close>

section \<open>Pools\<close>

text \<open>A pool as \<open>sql.Open\<close> makes it and its setters change it; 0 connections is no limit.\<close>

record sql_DB =
  pool_dsn :: string
  pool_MaxOpenConns :: int
  pool_MaxIdleConns :: int
  pool_ConnMaxIdleTime :: Duration

record Conns =
  conns_open :: "(nat \<times> sql_DB) list"
  conns_next :: nat
  conns_faults :: "nat \<Rightarrow> driver_fault option"
  conns_calls :: nat

type_synonym 'a cio = "(Conns, 'a) io"

definition conns_call :: "(Conns, driver_fault option) state" where
  "conns_call = State (\<lambda>w. (conns_faults w (conns_calls w), w\<lparr>conns_calls := Suc (conns_calls w)\<rparr>))"

definition sql_Open :: "string \<Rightarrow> nat cio" where
  "sql_Open dsn = do {
     fault \<leftarrow> conns_call;
     case fault of
       Some e \<Rightarrow> ret (Inl (fault_error e))
     | None \<Rightarrow> do {
         n \<leftarrow> ask_world conns_next;
         modify_world (\<lambda>w. w\<lparr>conns_next := Suc n, conns_open := conns_open w
           @ [(n, \<lparr>pool_dsn = dsn, pool_MaxOpenConns = 0, pool_MaxIdleConns = 2,
                   pool_ConnMaxIdleTime = 0\<rparr>)]\<rparr>);
         ret (Inr n)
       }
   }"

definition change_pool :: "nat \<Rightarrow> (sql_DB \<Rightarrow> sql_DB) \<Rightarrow> (Conns, unit) state" where
  "change_pool n f = modify_world (\<lambda>w. w\<lparr>conns_open :=
     map (\<lambda>(m, p). (m, if m = n then f p else p)) (conns_open w)\<rparr>)"

text \<open>Opening is lazy: the first connection is made by \<open>PingContext\<close>.\<close>

definition PingContext :: "nat \<Rightarrow> unit cio" where
  "PingContext n = do {
     fault \<leftarrow> conns_call;
     ret (case fault of Some e \<Rightarrow> Inl (fault_error e) | None \<Rightarrow> Inr ())
   }"

definition sql_Close :: "nat \<Rightarrow> (Conns, unit) state" where
  "sql_Close n = modify_world (\<lambda>w. w\<lparr>conns_open := filter (\<lambda>(m, p). m \<noteq> n) (conns_open w)\<rparr>)"

section \<open>open\<close>

definition open_query :: "bool \<Rightarrow> Values" where
  "open_query readOnly =
    (let q = Values_Add ''_dqs'' ''false''
         (Values_Add ''_pragma'' ''cache_size(-64000)''
         (Values_Add ''_pragma'' ''temp_store(2)''
         (Values_Add ''_pragma'' ''synchronous(NORMAL)''
         (Values_Add ''_pragma'' ''foreign_keys(1)''
         (Values_Add ''_pragma'' ''journal_mode(WAL)''
         (Values_Add ''_pragma'' ''busy_timeout(20000)'' []))))));
         q = (if readOnly then Values_Add ''_pragma'' ''query_only(1)'' q else q)
     in if \<not> readOnly then Values_Set ''_txlock'' ''immediate'' q else q)"

definition open_dsn :: "string \<Rightarrow> bool \<Rightarrow> string" where
  "open_dsn file readOnly =
     URL_String (empty_URL\<lparr>url_Path := file, url_RawQuery := Values_Encode (open_query readOnly)\<rparr>)"

definition db_open :: "string \<Rightarrow> bool \<Rightarrow> nat cio" where
  "db_open file readOnly = do {
     opened \<leftarrow> sql_Open (open_dsn file readOnly);
     case opened of
       Inl err \<Rightarrow> ret (Inl (Errorf_w ''failed to open database'' err))
     | Inr conn \<Rightarrow> do {
         (if readOnly
          then change_pool conn (\<lambda>p. p\<lparr>pool_MaxOpenConns := 25, pool_MaxIdleConns := 25,
                 pool_ConnMaxIdleTime := 30 * ns_per_s\<rparr>)
          else change_pool conn (\<lambda>p. p\<lparr>pool_MaxOpenConns := 1, pool_MaxIdleConns := 1\<rparr>));
         pinged \<leftarrow> PingContext conn;
         case pinged of
           Inl err \<Rightarrow> do {
             sql_Close conn;
             ret (Inl (Errorf_w ''failed to ping database'' err))
           }
         | Inr u \<Rightarrow> ret (Inr conn)
       }
   }"

section \<open>Migrate and Setup\<close>

text \<open>dbmate's \<open>CreateAndMigrate\<close> is an argument: a migration set against a URL.\<close>

record dbmate_DB =
  dbm_DatabaseURL :: URL
  dbm_MigrationsDir :: "string list"
  dbm_AutoDumpSchema :: bool

record setup_libs =
  setup_authority :: authority_reader
  setup_CreateAndMigrate :: "dbmate_DB \<Rightarrow> unit cio"

definition Migrate :: "setup_libs \<Rightarrow> string \<Rightarrow> unit cio" where
  "Migrate L file =
    (case url_Parse (setup_authority L) (''sqlite:'' @ file) of
       Inl err \<Rightarrow> ret (Inl (Errorf_w ''failed to parse database url'' err))
     | Inr u \<Rightarrow> do {
         migrated \<leftarrow> setup_CreateAndMigrate L
           \<lparr>dbm_DatabaseURL = u, dbm_MigrationsDir = [''migrations''], dbm_AutoDumpSchema = False\<rparr>;
         ret (case migrated of Inl err \<Rightarrow> Inl (Errorf_w ''failed to migrate'' err) | Inr x \<Rightarrow> Inr ())
       })"

record Set =
  set_Read :: nat
  set_Write :: nat
  set_Queue :: nat

definition Set_Close :: "Set \<Rightarrow> (Conns, unit) state" where
  "Set_Close s = do { sql_Close (set_Read s); sql_Close (set_Write s); sql_Close (set_Queue s) }"

definition db_Setup :: "setup_libs \<Rightarrow> string \<Rightarrow> Set cio" where
  "db_Setup L file = do {
     migrated \<leftarrow> Migrate L file;
     case migrated of
       Inl err \<Rightarrow> ret (Inl err)
     | Inr u \<Rightarrow> do {
         opened \<leftarrow> db_open file True;
         case opened of
           Inl err \<Rightarrow> ret (Inl err)
         | Inr reads \<Rightarrow> do {
             opened \<leftarrow> db_open file False;
             case opened of
               Inl err \<Rightarrow> do { sql_Close reads; ret (Inl err) }
             | Inr writes \<Rightarrow> do {
                 opened \<leftarrow> db_open file False;
                 case opened of
                   Inl err \<Rightarrow> do { sql_Close reads; sql_Close writes; ret (Inl err) }
                 | Inr queue \<Rightarrow>
                     ret (Inr \<lparr>set_Read = reads, set_Write = writes, set_Queue = queue\<rparr>)
               }
           }
       }
   }"

end
