(* ===== verification/Server.thy ===== *)
theory Server
  imports AppConfig Setup Cron
begin

text \<open>
  cmd/server/main.go, internal/logger and the construction of internal/gateauth: how the process
  comes up, serves and drains. The part from the first listener to the last deferred call is a
  step relation, since \<open>run\<close>, the shutdown goroutine, requests, cron ticks and jobs interleave.
\<close>

section \<open>internal/logger\<close>

fun level_value :: "log_level \<Rightarrow> int" where
  "level_value Debug = -4"
| "level_value Info = 0"
| "level_value Warn = 4"
| "level_value Error = 8"

text \<open>Levels are ordered by their numbers.\<close>

lemma level_value_inject: "level_value l = level_value k \<Longrightarrow> l = k"
  by (cases l; cases k) simp_all

instantiation log_level :: linorder
begin

definition less_eq_log_level :: "log_level \<Rightarrow> log_level \<Rightarrow> bool" where
  "l \<le> k \<longleftrightarrow> level_value l \<le> level_value k"

definition less_log_level :: "log_level \<Rightarrow> log_level \<Rightarrow> bool" where
  "l < k \<longleftrightarrow> level_value l < level_value k"

instance
  by standard (auto simp: less_eq_log_level_def less_log_level_def intro: level_value_inject)

end

definition parseLevel :: "string \<Rightarrow> log_level" where
  "parseLevel level =
     (if level = ''debug'' then Debug
      else if level = ''warn'' then Warn
      else if level = ''error'' then Error
      else Info)"

text \<open>A logger: the least level it writes (none for \<open>Discard\<close>), its format, its attributes.\<close>

record slogLogger =
  logger_least :: "log_level option"
  logger_pretty :: bool
  logger_with :: "(string \<times> string) list"

definition logger_New :: "string \<Rightarrow> bool \<Rightarrow> slogLogger" where
  "logger_New level pretty =
     \<lparr>logger_least = Some (parseLevel level), logger_pretty = pretty, logger_with = []\<rparr>"

definition logger_Discard :: slogLogger where
  "logger_Discard = \<lparr>logger_least = None, logger_pretty = False, logger_with = []\<rparr>"

definition logger_With :: "(string \<times> string) list \<Rightarrow> slogLogger \<Rightarrow> slogLogger" where
  "logger_With args l = l\<lparr>logger_with := logger_with l @ args\<rparr>"

definition logger_enabled :: "slogLogger \<Rightarrow> log_level \<Rightarrow> bool" where
  "logger_enabled l level =
     (case logger_least l of None \<Rightarrow> False | Some least \<Rightarrow> least \<le> level)"

definition logger_write :: "slogLogger \<Rightarrow> log_level \<Rightarrow> string \<Rightarrow> (string \<times> string) list \<Rightarrow> log_line list" where
  "logger_write l level msg args =
     (if logger_enabled l level then [Log level msg (logger_with l @ args)] else [])"

text \<open>The job runner's logger: what the library logs as information is a debugging line here.\<close>

definition jobLog_Info :: "slogLogger \<Rightarrow> string \<Rightarrow> (string \<times> string) list \<Rightarrow> log_line list" where
  "jobLog_Info l = logger_write l Debug"

definition jobLog_Error :: "slogLogger \<Rightarrow> string \<Rightarrow> (string \<times> string) list \<Rightarrow> log_line list" where
  "jobLog_Error l = logger_write l Error"

section \<open>gateauth: the client\<close>

record gate_Config =
  gate_config_Issuer :: string
  gate_config_Audience :: string

record gate_Client =
  gate_verifier_ClientID :: string
  gate_issuer :: string

text \<open>\<open>oidc.NewProvider\<close> is an argument: it fetches the issuer's discovery document.\<close>

definition gateauth_New :: "(string \<Rightarrow> go_error option) \<Rightarrow> gate_Config \<Rightarrow> go_error + gate_Client" where
  "gateauth_New discover config =
     (case discover (gate_config_Issuer config) of
        Some err \<Rightarrow> Inl (Errorf_w (''failed to discover oidc issuer '' @ [CHR 0x22]
          @ gate_config_Issuer config @ [CHR 0x22]) err)
      | None \<Rightarrow> Inr \<lparr>gate_verifier_ClientID = gate_config_Audience config,
                   gate_issuer = gate_config_Issuer config\<rparr>)"

section \<open>newApp\<close>

record queue_opts =
  queue_DB :: nat
  queue_Name :: string
  queue_MaxReceive :: int
  queue_Timeout :: Duration

record runner_opts =
  runner_Limit :: int
  runner_PollInterval :: Duration
  runner_Log :: slogLogger

text \<open>The process: \<open>app\<close> with what only \<open>main\<close> uses of its state.\<close>

record process =
  proc_app :: app
  proc_conns :: Set
  proc_gate :: gate_Client
  proc_queue :: queue_opts
  proc_runner :: runner_opts
  proc_cron :: Runner
  proc_metrics :: "metric list"
  proc_ready :: bool

record server_libs =
  server_setup :: setup_libs
  server_discover :: "string \<Rightarrow> go_error option"
  server_parse_spec :: "string \<Rightarrow> go_error option"
  server_libs :: libs
  server_GitCommit :: string

definition newApp :: "server_libs \<Rightarrow> Config \<Rightarrow> slogLogger \<Rightarrow> process cio" where
  "newApp S config log = do {
     opened \<leftarrow> db_Setup (server_setup S) (Config_DatabaseFile config);
     case opened of
       Inl err \<Rightarrow> ret (Inl err)
     | Inr conns \<Rightarrow>
         (case gateauth_New (server_discover S)
             \<lparr>gate_config_Issuer = Config_OIDCIssuer config, gate_config_Audience = Config_OIDCClientID config\<rparr> of
            Inl err \<Rightarrow> do { Set_Close conns; ret (Inl err) }
          | Inr gate \<Rightarrow>
              let writeQueries = NewWriteQueries WritePool;
                  queue = \<lparr>queue_DB = set_Queue conns, queue_Name = queue_name, queue_MaxReceive = 3,
                    queue_Timeout = 5 * 60 * ns_per_s\<rparr>;
                  a = \<lparr>app_state = \<lparr>state_Notifier = \<lparr>notifier_from = Config_NotifierFrom config,
                          notifier_origin = Config_PublicURL config\<rparr>,
                        state_config = config, state_buildCommit = server_GitCommit S,
                        state_baseWrite = writeQueries, state_gate_issuer = gate_issuer gate,
                        state_libs = server_libs S\<rparr>,
                      app_Queries = db_New ReadPool, app_WriteQueries = writeQueries,
                      app_currentTx = None\<rparr> in
              ret (Inr \<lparr>proc_app = a, proc_conns = conns, proc_gate = gate, proc_queue = queue,
                proc_runner = \<lparr>runner_Limit = 2, runner_PollInterval = 2 * ns_per_s, runner_Log = log\<rparr>,
                proc_cron = cronjobs_New, proc_metrics = metrics_New (Config_Metrics config),
                proc_ready = True\<rparr>))
   }"

section \<open>run: coming up\<close>

record http_Server =
  srv_Addr :: string
  srv_ReadHeaderTimeout :: Duration
  srv_ReadTimeout :: Duration
  srv_WriteTimeout :: Duration
  srv_IdleTimeout :: Duration
  srv_MaxHeaderBytes :: int

definition main_server :: "Config \<Rightarrow> http_Server" where
  "main_server config =
     \<lparr>srv_Addr = Config_Addr config, srv_ReadHeaderTimeout = 10 * ns_per_s,
      srv_ReadTimeout = 30 * ns_per_s, srv_WriteTimeout = 60 * ns_per_s,
      srv_IdleTimeout = 120 * ns_per_s, srv_MaxHeaderBytes = 65536\<rparr>"

text \<open>Zero is the library's default: no timeout, and one megabyte of headers.\<close>

definition metrics_server :: "Config \<Rightarrow> http_Server" where
  "metrics_server config =
     \<lparr>srv_Addr = metrics_Addr (Config_Metrics config), srv_ReadHeaderTimeout = 10 * ns_per_s,
      srv_ReadTimeout = 0, srv_WriteTimeout = 0, srv_IdleTimeout = 0, srv_MaxHeaderBytes = 0\<rparr>"

text \<open>What the metrics listener answers with the metrics; anything else it refuses.\<close>

definition metricsHandler :: "Config \<Rightarrow> string \<Rightarrow> string \<Rightarrow> bool" where
  "metricsHandler config verb path \<longleftrightarrow>
     verb \<in> {''GET'', ''HEAD''} \<and> path = metrics_Path (Config_Metrics config)"

record booted =
  boot_process :: process
  boot_jobs :: job_table
  boot_cron :: Runner
  boot_server :: http_Server
  boot_metrics_server :: http_Server

definition run_boot :: "server_libs \<Rightarrow> config_result \<Rightarrow> booted cio" where
  "run_boot S configured =
     (case configured of
        ConfigError err \<Rightarrow> ret (Inl err)
      | ConfigPanic \<Rightarrow> ret (Inl (NewError ''panic''))
      | Configured config \<Rightarrow> do {
          made \<leftarrow> newApp S config (logger_New (Config_LogLevel config) (Config_DevMode config));
          case made of
            Inl err \<Rightarrow> ret (Inl err)
          | Inr p \<Rightarrow>
              let table = registerJobs (proc_app p) [];
                  (failed, cron) = registerCronJobs (server_parse_spec S) (proc_app p) (proc_cron p) in
              (case failed of
                 Some err \<Rightarrow> do { Set_Close (proc_conns p); ret (Inl err) }
               | None \<Rightarrow> ret (Inr \<lparr>boot_process = p, boot_jobs = table, boot_cron = cron_Start cron,
                   boot_server = main_server config, boot_metrics_server = metrics_server config\<rparr>))
        })"

section \<open>run: serving and draining\<close>

text \<open>
  Where \<open>run\<close> stands, with what it is going to return, and where the goroutine that drains.
\<close>

datatype main_pc =
    Serving
  | AwaitDrained
  | StoppingCron "go_error option"
  | ClosingConns "go_error option"
  | ReleasingSignals "go_error option"
  | Exited "go_error option"

datatype drain_pc = AwaitSignal | Delaying | ShuttingDown | Draining | ShuttingMetrics | Drained

record server =
  sv_main :: main_pc
  sv_drain :: drain_pc
  sv_cancelled :: bool
  sv_ready :: bool
  sv_listening :: bool
  sv_inflight :: nat
  sv_cut :: bool
  sv_metrics_listening :: bool
  sv_conns_open :: bool
  sv_cron :: Runner
  sv_jobs :: nat
  sv_log :: "log_line list"

definition server_started :: "booted \<Rightarrow> server" where
  "server_started b =
     \<lparr>sv_main = Serving, sv_drain = AwaitSignal, sv_cancelled = False,
      sv_ready = proc_ready (boot_process b), sv_listening = True, sv_inflight = 0, sv_cut = False,
      sv_metrics_listening = True, sv_conns_open = True, sv_cron = boot_cron b, sv_jobs = 0,
      sv_log = [Log Info ''starterkit listening''
        [(''addr'', srv_Addr (boot_server b)), (''metrics'', srv_Addr (boot_metrics_server b)),
         (''public_url'', Config_PublicURL (app_config (proc_app (boot_process b))))]]\<rparr>"

text \<open>The steps of \<open>shutdown\<close>.\<close>

definition begin_shutdown :: "Config \<Rightarrow> server \<Rightarrow> server" where
  "begin_shutdown config s = s\<lparr>sv_ready := False,
     sv_log := sv_log s @ [Log Info ''shutting down''
       [(''delay'', int_dec (Config_ShutdownDelay config)), (''timeout'', int_dec (Config_ShutdownTimeout config))]],
     sv_drain := (if 0 < Config_ShutdownDelay config then Delaying else ShuttingDown)\<rparr>"

definition close_listener :: "server \<Rightarrow> server" where
  "close_listener s = s\<lparr>sv_listening := False, sv_drain := Draining\<rparr>"

text \<open>\<open>Shutdown\<close> returns when no request is left, or with an error at the end of its time.\<close>

definition end_drain :: "go_error option \<Rightarrow> server \<Rightarrow> server" where
  "end_drain failed s =
     (case failed of
        None \<Rightarrow> s\<lparr>sv_drain := ShuttingMetrics\<rparr>
      | Some err \<Rightarrow> s\<lparr>sv_drain := ShuttingMetrics, sv_cut := True,
          sv_log := sv_log s @ [Log Error ''failed to shut down cleanly'' [(''error'', error_text err)]]\<rparr>)"

definition end_metrics :: "go_error option \<Rightarrow> server \<Rightarrow> server" where
  "end_metrics failed s =
     s\<lparr>sv_metrics_listening := False, sv_drain := Drained,
       sv_log := sv_log s @ (case failed of
         None \<Rightarrow> []
       | Some err \<Rightarrow> [Log Error ''failed to shut down the metrics listener''
           [(''error'', error_text err)]])\<rparr>"

text \<open>
  One step of the process: what comes from outside (a signal, a request, its answer, a job, a
  tick), the steps of the goroutines that ticks have started, the drain, and \<open>run\<close> itself with its
  deferred calls.
  \<open>ListenAndServe\<close> answers \<open>ErrServerClosed\<close> once \<open>Shutdown\<close> has been called, and any other
  error on a failure of its own.
\<close>

inductive server_act :: "Config \<Rightarrow> server \<Rightarrow> server \<Rightarrow> bool" for config where
  signal: "server_act config s (s\<lparr>sv_cancelled := True\<rparr>)"
| request: "sv_listening s \<Longrightarrow> server_act config s (s\<lparr>sv_inflight := Suc (sv_inflight s)\<rparr>)"
| answer: "0 < sv_inflight s \<Longrightarrow> server_act config s (s\<lparr>sv_inflight := sv_inflight s - 1\<rparr>)"
| job: "\<not> sv_cancelled s \<Longrightarrow> sv_jobs s < 2 \<Longrightarrow> server_act config s (s\<lparr>sv_jobs := Suc (sv_jobs s)\<rparr>)"
| job_done: "0 < sv_jobs s \<Longrightarrow> server_act config s (s\<lparr>sv_jobs := sv_jobs s - 1\<rparr>)"
| tick: "cron_started (sv_cron s) \<Longrightarrow> j \<in> set (cron_entries (sv_cron s)) \<Longrightarrow>
    server_act config s (s\<lparr>sv_cron := cron_spawn j (sv_cron s)\<rparr>)"
| cron_goroutine: "goroutine_step (sv_cron s) r \<Longrightarrow> server_act config s (s\<lparr>sv_cron := r\<rparr>)"
| notice: "sv_drain s = AwaitSignal \<Longrightarrow> sv_cancelled s \<Longrightarrow> server_act config s (begin_shutdown config s)"
| delayed: "sv_drain s = Delaying \<Longrightarrow> server_act config s (s\<lparr>sv_drain := ShuttingDown\<rparr>)"
| shut: "sv_drain s = ShuttingDown \<Longrightarrow> server_act config s (close_listener s)"
| drain_ok: "sv_drain s = Draining \<Longrightarrow> sv_inflight s = 0 \<Longrightarrow> server_act config s (end_drain None s)"
| drain_cut: "sv_drain s = Draining \<Longrightarrow> server_act config s (end_drain (Some err) s)"
| metrics_shut: "sv_drain s = ShuttingMetrics \<Longrightarrow> server_act config s (end_metrics failed s)"
| serve_closed: "sv_main s = Serving \<Longrightarrow> sv_drain s \<in> {Draining, ShuttingMetrics, Drained} \<Longrightarrow>
    server_act config s (s\<lparr>sv_main := AwaitDrained\<rparr>)"
| serve_failed: "sv_main s = Serving \<Longrightarrow> sv_listening s \<Longrightarrow>
    server_act config s (s\<lparr>sv_listening := False,
      sv_main := StoppingCron (Some (Errorf_w ''failed to serve'' err))\<rparr>)"
| drained: "sv_main s = AwaitDrained \<Longrightarrow> sv_drain s = Drained \<Longrightarrow>
    server_act config s (s\<lparr>sv_main := StoppingCron None\<rparr>)"
| stop_cron: "sv_main s = StoppingCron err \<Longrightarrow> cron_started (sv_cron s) \<Longrightarrow>
    server_act config s (s\<lparr>sv_cron := cron_Stop (sv_cron s)\<rparr>)"
| cron_stopped: "sv_main s = StoppingCron err \<Longrightarrow> stop_returns (sv_cron s) \<Longrightarrow>
    server_act config s (s\<lparr>sv_main := ClosingConns err\<rparr>)"
| close_conns: "sv_main s = ClosingConns err \<Longrightarrow>
    server_act config s (s\<lparr>sv_conns_open := False, sv_main := ReleasingSignals err\<rparr>)"
| release: "sv_main s = ReleasingSignals err \<Longrightarrow>
    server_act config s (s\<lparr>sv_cancelled := True, sv_main := Exited err\<rparr>)"

text \<open>When \<open>main\<close> has returned the process is gone.\<close>

definition server_step :: "Config \<Rightarrow> server \<Rightarrow> server \<Rightarrow> bool" where
  "server_step config s s' \<longleftrightarrow> (\<forall>err. sv_main s \<noteq> Exited err) \<and> server_act config s s'"

definition server_reachable :: "booted \<Rightarrow> server \<Rightarrow> bool" where
  "server_reachable b s \<longleftrightarrow>
     (server_step (app_config (proc_app (boot_process b))))\<^sup>*\<^sup>* (server_started b) s"

section \<open>What the goroutines and main report\<close>

text \<open>The goroutine of the gauges: its loop ends with the context, and that is no failure.\<close>

definition metrics_goroutine :: "run_result \<Rightarrow> log_line list" where
  "metrics_goroutine ended =
     (case ended of
        RunReturned err \<Rightarrow>
          if errors_Is err ContextCanceled then []
          else [Log Error ''metrics updater stopped'' [(''error'', error_text err)]]
      | _ \<Rightarrow> [])"

definition metrics_listener :: "go_error \<Rightarrow> log_line list" where
  "metrics_listener serveErr =
     (if errors_Is serveErr ErrServerClosed then []
      else [Log Error ''metrics listener stopped'' [(''error'', error_text serveErr)]])"

text \<open>\<open>main\<close>: the exit code and what it prints.\<close>

definition main_exit :: "go_error option \<Rightarrow> int \<times> string" where
  "main_exit err =
     (case err of
        None \<Rightarrow> (0, [])
      | Some e \<Rightarrow> (1, ''fatal: '' @ error_text e @ [CHR 0x0A]))"

end
