(* ===== verification/MetricsProps.thy ===== *)
theory MetricsProps
  imports Metrics Demo
begin

text \<open>
  The gauges show the tables: C31 (the counting statement) and C32 (the loop that
  refreshes them). No call on a metric can panic (\<open>metrics_registered\<close>).
\<close>

section \<open>The counting statement\<close>

lemma identifier_rest_quoted:
  "rest = [] \<or> hd rest \<noteq> dquote \<Longrightarrow>
   identifier_rest (replace_char dquote [dquote, dquote] s @ dquote # rest) = Some (s, rest)"
proof (induction s)
  case Nil
  then show ?case by (cases rest) (simp_all add: replace_char_def)
next
  case (Cons c s)
  then show ?case by (simp add: replace_char_def)
qed

lemma CutPrefix_append [simp]: "CutPrefix (p @ s) p = (s, True)"
  by (simp add: CutPrefix_def HasPrefix_def)

lemma sql_text_plain: "CHR 0x00 \<notin> set t \<Longrightarrow> sql_text t = t"
  by (simp add: sql_text_def takeWhile_eq_all_conv) blast

lemma quoted_no_zero: "CHR 0x00 \<notin> set s \<Longrightarrow> CHR 0x00 \<notin> set (replace_char dquote [dquote, dquote] s)"
  by (auto simp: replace_char_def dquote_def)

lemma read_count_quoted:
  assumes "CHR 0x00 \<notin> set name"
  shows "read_count (count_text @ quoteIdentifier name) = Some name"
proof -
  have "CHR 0x00 \<notin> set (count_text @ quoteIdentifier name)"
    using quoted_no_zero [OF assms] by (simp add: count_text_def quoteIdentifier_def dquote_def)
  moreover have "CutPrefix (count_text @ quoteIdentifier name) (count_text @ [dquote])
      = (replace_char dquote [dquote, dquote] name @ [dquote], True)"
    using CutPrefix_append [of "count_text @ [dquote]"] by (simp add: quoteIdentifier_def)
  ultimately show ?thesis
    using identifier_rest_quoted [of "[]" name] by (simp add: read_count_def sql_text_plain)
qed

lemma same_name_sym: "same_name a b \<longleftrightarrow> same_name b a"
  by (auto simp: same_name_def)

lemma same_name_trans: "same_name a b \<Longrightarrow> same_name b c \<Longrightarrow> same_name a c"
  by (simp add: same_name_def)

text \<open>No two tables of the file have names that differ in case only.\<close>

lemma table_sizes_names:
  "distinct (map (map lower_byte) (map fst (table_sizes db)))"
proof -
  have "map fst (table_sizes db) = map fst (table_sizes empty_db)"
    by (simp add: table_sizes_def)
  moreover have "distinct (map (map lower_byte) (map fst (table_sizes empty_db)))"
    by code_simp
  ultimately show ?thesis by simp
qed

lemma find_table_listed:
  assumes "distinct (map (map lower_byte) (map fst tables))" "(t, x) \<in> set tables" "same_name name t"
  shows "find_table name tables = Some x"
  using assms
proof (induction tables)
  case (Cons a tables)
  then show ?case
    by (cases a) (force simp: find_table_def same_name_def)
qed simp

lemma find_table_unlisted:
  "\<forall>t \<in> fst ` set tables. \<not> same_name name t \<Longrightarrow> find_table name tables = None"
  by (auto simp: find_table_def find_None_iff)

lemma sql_count_listed:
  assumes "CHR 0x00 \<notin> set name" "(t, n) \<in> set (table_sizes db)" "same_name name t"
  shows "sql_count unlisted (count_text @ quoteIdentifier name) db = Inr (int n)"
  using find_table_listed [OF table_sizes_names assms(2,3)]
  by (simp add: sql_count_def read_count_quoted [OF assms(1)])

text \<open>
  C31. The statement that counts the rows of a table counts that table, whatever its name is.
  For every name without a zero byte SQLite reads the quoted text back as exactly that name, the
  quotes inside it included, and nothing of it as SQL; so the answer is the number of rows of the
  table that has the name, in whatever case, and SQLite's answer for names of no table of the
  file.
\<close>

theorem count_statement_exact:
  assumes "CHR 0x00 \<notin> set name"
  shows "read_count (count_text @ quoteIdentifier name) = Some name
    \<and> (\<forall>t n. (t, n) \<in> set (table_sizes db) \<and> same_name name t \<longrightarrow>
          sql_count unlisted (count_text @ quoteIdentifier name) db = Inr (int n))
    \<and> ((\<forall>t \<in> fst ` set (table_sizes db). \<not> same_name name t) \<longrightarrow>
          sql_count unlisted (count_text @ quoteIdentifier name) db = unlisted name db)"
  using sql_count_listed [OF assms] find_table_unlisted [of "table_sizes db" name]
  by (intro conjI) (blast | simp add: read_count_quoted [OF assms] sql_count_def)+

definition demo_unlisted :: unlisted_tables where
  "demo_unlisted name db = Inl (NewError (''no such table: '' @ name))"

theorem count_statement_exact_witness:
  "sql_count demo_unlisted (count_text @ quoteIdentifier ''Users'') demo_db = Inr 3
   \<and> read_count (count_text @ quoteIdentifier (''users'' @ [dquote] @ ''; drop table users''))
       = Some (''users'' @ [dquote] @ ''; drop table users'')"
proof -
  have "(''users'', 3) \<in> set (table_sizes demo_db)" "same_name ''Users'' ''users''"
    by (simp add: table_sizes_def demo_db_def, code_simp)
  with count_statement_exact [of "''Users''" demo_db demo_unlisted]
    count_statement_exact [of "''users'' @ [dquote] @ ''; drop table users''" demo_db demo_unlisted]
  show ?thesis by (force simp: dquote_def)
qed

section \<open>Registration\<close>

text \<open>What \<open>WithLabelValues\<close>, \<open>Inc\<close>, \<open>Reset\<close> and \<open>Set\<close> need not to panic.\<close>

fun fits :: "metric list \<Rightarrow> prom_call \<Rightarrow> bool" where
  "fits ms (Inc n labels) =
     list_ex (\<lambda>m. metric_kind m = Counter \<and> metric_fqName m = n
       \<and> length (metric_labels m) = length labels) ms"
| "fits ms (GaugeReset n) = list_ex (\<lambda>m. metric_kind m = Gauge \<and> metric_fqName m = n) ms"
| "fits ms (GaugeSet n labels v) =
     list_ex (\<lambda>m. metric_kind m = Gauge \<and> metric_fqName m = n
       \<and> length (metric_labels m) = length labels) ms"

definition counts_registered :: "metrics_Config \<Rightarrow> unit act \<Rightarrow> bool" where
  "counts_registered config c \<longleftrightarrow>
     (\<forall>w. \<exists>call. run c w = ((), w\<lparr>w_prom := w_prom w @ [call]\<rparr>) \<and> fits (metrics_New config) call)"

lemma metric_name_inject [simp]: "metric_name config a = metric_name config b \<longleftrightarrow> a = b"
  by (simp add: metric_name_def)

lemmas metrics_New_defs = metrics_New_def metrics_counter_def counterVec_def gaugeVec_def

lemmas increase_defs = MetricsIncreaseSignIn_def MetricsIncreaseAdminDenied_def
  MetricsIncreaseUserBanned_def MetricsIncreaseAdminChanged_def MetricsIncreaseNotification_def
  MetricsIncreaseJobFinished_def

lemma counts_registered_Inc:
  assumes "fits (metrics_New config) (Inc n labels)"
  shows "counts_registered config (prom_Inc n labels)"
  unfolding counts_registered_def prom_Inc_def run_modify_world using assms by blast

text \<open>
  No metric call can panic. The registry gets seven metrics with seven names, under any
  namespace; every counting method counts one of them, with as many label values as it was
  registered with.
\<close>

lemma metrics_registered:
  "distinct (map metric_fqName (metrics_New config))
   \<and> counts_registered config (MetricsIncreaseSignIn config)
   \<and> counts_registered config (MetricsIncreaseAdminDenied config operation)
   \<and> counts_registered config (MetricsIncreaseUserBanned config)
   \<and> counts_registered config (MetricsIncreaseAdminChanged config action)
   \<and> counts_registered config (MetricsIncreaseNotification config kind)
   \<and> counts_registered config (MetricsIncreaseJobFinished config job err)
   \<and> fits (metrics_New config) (GaugeReset (tableRows config))
   \<and> fits (metrics_New config) (GaugeSet (tableRows config) [table] v)"
  by (simp add: counts_registered_Inc increase_defs metrics_New_defs tableRows_def)

section \<open>What the tables hold\<close>

lemma tableNames_fixed:
  "sql_tableNames db =
     [''admins'', ''audit_log'', ''goqite'', ''schema_migrations'', ''user_bans'', ''users'']"
proof -
  have "map tl_name (filter (\<lambda>r. tl_schema r = ''main'' \<and> tl_type r = ''table''
      \<and> \<not> like_sqlite (tl_name r)) (pragma_table_list db))
    = [''users'', ''admins'', ''user_bans'', ''audit_log'', ''goqite'', ''schema_migrations'']"
    by (simp add: pragma_table_list_def table_sizes_def like_sqlite_def lower_byte_def)
  moreover have "sort [''users'', ''admins'', ''user_bans'', ''audit_log'', ''goqite'',
      ''schema_migrations''] =
    [''admins'', ''audit_log'', ''goqite'', ''schema_migrations'', ''user_bans'', ''users'']"
    by code_simp
  ultimately show ?thesis by (simp add: sql_tableNames_def)
qed

definition sizes :: "Database \<Rightarrow> string \<Rightarrow> int option" where
  "sizes db t = map_option int (map_of (table_sizes db) t)"

lemma sizes_names: "sizes db t \<noteq> None \<longleftrightarrow> t \<in> set (sql_tableNames db)"
  by (auto simp: sizes_def tableNames_fixed table_sizes_def)

lemma run_read_pool:
  "run (read_on ReadPool f) w =
     ((case w_faults w (w_calls w) of None \<Rightarrow> Inr (f (w_committed w)) | Some e \<Rightarrow> Inl (fault_error e)),
      w\<lparr>w_calls := Suc (w_calls w)\<rparr>)"
  by (simp add: read_on_def driver_call_def split: option.splits)

text \<open>A computation that only counts driver calls, and fails only with one.\<close>

definition counting :: "(World, 'a) io \<Rightarrow> (Database \<Rightarrow> 'a \<Rightarrow> bool) \<Rightarrow> bool" where
  "counting c Q \<longleftrightarrow> (\<forall>w. \<exists>k. snd (run c w) = w\<lparr>w_calls := k\<rparr>
     \<and> (case fst (run c w) of Inl e \<Rightarrow> \<not> healthy_world w | Inr x \<Rightarrow> Q (w_committed w) x))"

lemma countingD:
  assumes "counting c Q" "run c w = (r, w')"
  obtains k where "w' = w\<lparr>w_calls := k\<rparr>"
    "case r of Inl e \<Rightarrow> \<not> healthy_world w | Inr x \<Rightarrow> Q (w_committed w) x"
  using assms unfolding counting_def by (metis fst_conv snd_conv)

lemma counting_tableNames: "counting (tableNames ReadPool) (\<lambda>db names. names = sql_tableNames db)"
  unfolding counting_def
proof
  fix w
  let ?c = "run (tableNames ReadPool) w"
  show "\<exists>k. snd ?c = w\<lparr>w_calls := k\<rparr>
      \<and> (case fst ?c of Inl e \<Rightarrow> \<not> healthy_world w | Inr x \<Rightarrow> x = sql_tableNames (w_committed w))"
  proof (cases "w_faults w (w_calls w)")
    case None
    then show ?thesis
      by (intro exI [of _ "Suc (Suc (w_calls w))"])
        (auto simp: tableNames_def run_read_pool driver_call_def healthy_world_def split: option.splits)
  next
    case (Some e)
    then show ?thesis
      by (intro exI [of _ "Suc (w_calls w)"])
        (auto simp: tableNames_def run_read_pool healthy_world_def)
  qed
qed

definition covers :: "(string \<Rightarrow> int option) \<Rightarrow> string set \<Rightarrow> (string \<times> int) list \<Rightarrow> bool" where
  "covers f names counts \<longleftrightarrow> distinct (map fst counts)
     \<and> (\<forall>t. map_of counts t = (if t \<in> names then f t else None))"

lemma covers_update:
  assumes "covers f seen counts" "f t = Some n"
  shows "covers f (insert t seen) (AList.update t n counts)"
  using assms by (auto simp: covers_def update_conv distinct_update)

lemma run_count_tables:
  assumes "set names \<subseteq> dom (sizes (w_committed w))" "covers (sizes (w_committed w)) seen counts"
  shows "\<exists>k. snd (run (count_tables unlisted ReadPool names counts) w) = w\<lparr>w_calls := k\<rparr>
    \<and> (case fst (run (count_tables unlisted ReadPool names counts) w) of
         Inl e \<Rightarrow> \<not> healthy_world w
       | Inr counted \<Rightarrow> covers (sizes (w_committed w)) (seen \<union> set names) counted)"
  using assms
proof (induction names arbitrary: w seen counts)
  case Nil
  then show ?case by (intro exI [of _ "w_calls w"]) simp
next
  case (Cons t names)
  let ?w = "w\<lparr>w_calls := Suc (w_calls w)\<rparr>"
  from Cons.prems obtain n where n: "map_of (table_sizes (w_committed w)) t = Some n"
    by (auto simp: sizes_def)
  from Cons.prems(1) have "t \<in> dom (sizes (w_committed w))" by simp
  then have "CHR 0x00 \<notin> set t" by (auto simp: sizes_def table_sizes_def split: if_splits)
  from sql_count_listed [OF this map_of_SomeD [OF n], where unlisted = unlisted]
  have count: "sql_count unlisted (count_text @ quoteIdentifier t) (w_committed w) = Inr (int n)"
    by (simp add: same_name_def)
  show ?case
  proof (cases "w_faults w (w_calls w)")
    case None
    have step: "run (count_tables unlisted ReadPool (t # names) counts) w
        = run (count_tables unlisted ReadPool names (AList.update t (int n) counts)) ?w"
      using None count by (simp add: run_read_pool)
    from n have "sizes (w_committed w) t = Some (int n)" by (simp add: sizes_def)
    from covers_update [OF Cons.prems(2) this]
    have "covers (sizes (w_committed ?w)) (insert t seen) (AList.update t (int n) counts)" by simp
    with Cons.IH [of ?w "insert t seen" "AList.update t (int n) counts"] Cons.prems(1)
    obtain k where "snd (run (count_tables unlisted ReadPool (t # names) counts) w) = ?w\<lparr>w_calls := k\<rparr>"
      "case fst (run (count_tables unlisted ReadPool (t # names) counts) w) of
         Inl e \<Rightarrow> \<not> healthy_world ?w
       | Inr counted \<Rightarrow> covers (sizes (w_committed ?w)) (insert t seen \<union> set names) counted"
      unfolding step by auto
    then show ?thesis
      by (intro exI [of _ k]) (simp add: healthy_world_def split: sum.splits)
  next
    case (Some e)
    then show ?thesis
      by (intro exI [of _ "Suc (w_calls w)"])
        (auto simp: run_read_pool healthy_world_def)
  qed
qed

lemma counting_TableRowCounts:
  "counting (TableRowCounts unlisted a ctx) (\<lambda>db counted. distinct (map fst counted) \<and> map_of counted = sizes db)"
  unfolding counting_def
proof
  fix w
  let ?all = "\<lambda>w. run (count_tables unlisted ReadPool (sql_tableNames (w_committed w)) []) w"
  obtain listed w1 where names: "run (tableNames ReadPool) w = (listed, w1)" by fastforce
  from countingD [OF counting_tableNames names] obtain j where w1: "w1 = w\<lparr>w_calls := j\<rparr>"
    and listed: "case listed of Inl e \<Rightarrow> \<not> healthy_world w | Inr x \<Rightarrow> x = sql_tableNames (w_committed w)" .
  have "set (sql_tableNames (w_committed w1)) \<subseteq> dom (sizes (w_committed w1))"
    using sizes_names by blast
  from run_count_tables [OF this, of "{}" "[]"] obtain k
    where counted: "snd (?all w1) = w1\<lparr>w_calls := k\<rparr>"
      "case fst (?all w1) of Inl e \<Rightarrow> \<not> healthy_world w1
       | Inr counted \<Rightarrow> covers (sizes (w_committed w1)) ({} \<union> set (sql_tableNames (w_committed w1))) counted"
    by (auto simp: covers_def [of _ "{}"])
  have all: "map_of counted = sizes db"
    if "covers (sizes db) (set (sql_tableNames db)) counted" for db and counted
    using that sizes_names [of db] by (fastforce simp: covers_def)
  show "\<exists>k. snd (run (TableRowCounts unlisted a ctx) w) = w\<lparr>w_calls := k\<rparr>
      \<and> (case fst (run (TableRowCounts unlisted a ctx) w) of Inl e \<Rightarrow> \<not> healthy_world w
         | Inr counted \<Rightarrow> distinct (map fst counted) \<and> map_of counted = sizes (w_committed w))"
  proof (cases listed)
    case (Inl e)
    with names listed w1 show ?thesis
      by (intro exI [of _ j]) (simp add: TableRowCounts_def db_TableRowCounts_def)
  next
    case (Inr ns)
    with names listed w1 counted all show ?thesis
      by (intro exI [of _ k])
        (auto simp: TableRowCounts_def db_TableRowCounts_def covers_def healthy_world_def split: sum.splits)
  qed
qed

section \<open>What the endpoint shows\<close>

text \<open>The value of a metric with label values, after the calls so far.\<close>

type_synonym samples = "string \<times> string list \<Rightarrow> int option"

fun apply_prom :: "prom_call \<Rightarrow> samples \<Rightarrow> samples" where
  "apply_prom (Inc n labels) f =
     f((n, labels) \<mapsto> (case f (n, labels) of None \<Rightarrow> 1 | Some v \<Rightarrow> v + 1))"
| "apply_prom (GaugeReset n) f = (\<lambda>(m, labels). if m = n then None else f (m, labels))"
| "apply_prom (GaugeSet n labels v) f = f((n, labels) \<mapsto> v)"

definition samples_of :: "World \<Rightarrow> samples" where
  "samples_of w = fold apply_prom (w_prom w) Map.empty"

lemma run_set_gauges:
  "run (set_gauges g counts) w =
     ((), w\<lparr>w_prom := w_prom w @ map (\<lambda>(t, n). GaugeSet g [t] (float64 n)) counts\<rparr>)"
  by (induction counts arbitrary: w) (auto simp: prom_call_def)

lemma fold_set_gauges:
  "distinct (map fst counts) \<Longrightarrow>
   fold apply_prom (map (\<lambda>(t, n). GaugeSet g [t] (float64 n)) counts) f (m, labels) =
     (case labels of
        [t] \<Rightarrow> (if m = g \<and> map_of counts t \<noteq> None then map_option float64 (map_of counts t)
               else f (m, labels))
      | _ \<Rightarrow> f (m, labels))"
proof (induction counts arbitrary: f)
  case Nil
  then show ?case by (simp split: list.split)
next
  case (Cons c counts)
  from Cons.prems have "map_of counts (fst c) = None" by (simp add: map_of_eq_None_iff)
  with Cons.prems show ?case by (cases c) (auto simp: Cons.IH split: list.split)
qed

text \<open>The samples after a refresh from a database: one for each table, all else as before.\<close>

definition refreshed :: "string \<Rightarrow> Database \<Rightarrow> samples \<Rightarrow> samples" where
  "refreshed g db f = (\<lambda>(m, labels).
     if m \<noteq> g then f (m, labels)
     else case labels of [t] \<Rightarrow> map_option float64 (sizes db t) | _ \<Rightarrow> None)"

lemma refreshed_twice [simp]: "refreshed g db (refreshed g db f) = refreshed g db f"
  by (auto simp: refreshed_def)

lemma fold_refreshed:
  assumes "distinct (map fst counts)" "map_of counts = sizes db"
  shows "fold apply_prom (GaugeReset g # map (\<lambda>(t, n). GaugeSet g [t] (float64 n)) counts) f
    = refreshed g db f"
  using fold_set_gauges [OF assms(1), of g "apply_prom (GaugeReset g) f"] assms(2)
  by (auto simp: refreshed_def fun_eq_iff split: list.splits option.splits)

lemma shuffled_map:
  assumes "mset xs = mset ys" "distinct (map fst ys)"
  shows "distinct (map fst xs)" "map_of xs = map_of ys"
proof -
  from assms(1) have "mset (map fst xs) = mset (map fst ys)" by simp
  then show d: "distinct (map fst xs)" using assms(2) mset_eq_imp_distinct_iff by blast
  from assms(1) have "set xs = set ys" using mset_eq_setD by blast
  with d assms(2) show "map_of xs = map_of ys" by (intro map_of_eqI) (auto simp: dest: map_of_SomeD)
qed

definition report :: "go_error \<Rightarrow> unit act" where
  "report err = log_at Error ''failed to update metrics'' [(''error'', error_text err)]"

lemma update_once_cases:
  assumes "\<And>xs. mset (shuffle xs) = mset xs"
    and "run (update_once (metrics_env unlisted a) config shuffle ctx (Some report)) w = ((), w')"
  shows "w_committed w' = w_committed w" "w_faults w' = w_faults w"
    "samples_of w' = refreshed (tableRows config) (w_committed w) (samples_of w)
     \<or> \<not> healthy_world w \<and> samples_of w' = samples_of w"
proof -
  obtain counted w1 where ran: "run (TableRowCounts unlisted a ctx) w = (counted, w1)" by fastforce
  from countingD [OF counting_TableRowCounts ran] obtain k where w1: "w1 = w\<lparr>w_calls := k\<rparr>"
    and counted: "case counted of Inl e \<Rightarrow> \<not> healthy_world w
      | Inr x \<Rightarrow> distinct (map fst x) \<and> map_of x = sizes (w_committed w)" .
  have "w_committed w' = w_committed w \<and> w_faults w' = w_faults w
    \<and> (samples_of w' = refreshed (tableRows config) (w_committed w) (samples_of w)
       \<or> \<not> healthy_world w \<and> samples_of w' = samples_of w)"
  proof (cases counted)
    case (Inl e)
    with assms(2) ran w1 counted show ?thesis
      by (auto simp: update_once_def metrics_Update_def metrics_env_def report_def log_at_def
          healthy_world_def samples_of_def)
  next
    case (Inr counts)
    with counted have "distinct (map fst counts)" "map_of counts = sizes (w_committed w)" by simp_all
    with shuffled_map [OF assms(1)] have "fold apply_prom (GaugeReset (tableRows config)
        # map (\<lambda>(t, n). GaugeSet (tableRows config) [t] (float64 n)) (shuffle counts)) (samples_of w)
      = refreshed (tableRows config) (w_committed w) (samples_of w)"
      by (intro fold_refreshed) simp_all
    with assms(2) ran w1 Inr show ?thesis
      by (auto simp: update_once_def metrics_Update_def metrics_env_def prom_call_def run_set_gauges
          healthy_world_def samples_of_def)
  qed
  then show "w_committed w' = w_committed w" "w_faults w' = w_faults w"
    "samples_of w' = refreshed (tableRows config) (w_committed w) (samples_of w)
     \<or> \<not> healthy_world w \<and> samples_of w' = samples_of w" by blast+
qed

text \<open>One refresh: the gauges show the tables, or a driver call failed and they show what they did.\<close>

definition refreshes :: "string \<Rightarrow> World \<Rightarrow> World \<Rightarrow> bool" where
  "refreshes g w w' \<longleftrightarrow> w_committed w' = w_committed w \<and> w_faults w' = w_faults w
     \<and> (samples_of w' = refreshed g (w_committed w) (samples_of w)
        \<or> \<not> healthy_world w \<and> samples_of w' = samples_of w)"

lemma update_once_refreshes:
  assumes "\<And>xs. mset (shuffle xs) = mset xs"
  shows "refreshes (tableRows config) w
    (snd (run (update_once (metrics_env unlisted a) config shuffle ctx (Some report)) w))"
  using update_once_cases [OF assms, of unlisted a config ctx w] unfolding refreshes_def
  by (metis (full_types) old.unit.exhaust surjective_pairing)

text \<open>The loop after one more wake.\<close>

lemma run_loop_append:
  "run (run_loop update (wakes @ rest)) w =
    (case run (run_loop update wakes) w of
       (Waiting, w1) \<Rightarrow>
         (case rest of
            [] \<Rightarrow> (Waiting, w1)
          | (meanwhile, CtxDone err) # _ \<Rightarrow> (RunReturned err, snd (run meanwhile w1))
          | (meanwhile, Tick) # later \<Rightarrow> run (run_loop update later) (snd (run meanwhile w1)))
     | (r, w1) \<Rightarrow> (r, w1))"
proof (induction wakes arbitrary: w)
  case Nil
  show ?case
    by (cases rest) (auto split: wake.split prod.split)
next
  case (Cons a wakes)
  then show ?case by (cases a) (auto split: wake.split prod.split)
qed

text \<open>
  C32. The gauges never lie for longer than an interval, and never show half a refresh. The loop
  refreshes them once at the start and once after every tick, whatever the rest of the process
  has done meanwhile to the database or to the metrics: after a refresh the endpoint shows one
  sample for every table, its number of rows at that time, and none for anything else, in
  whatever order the counted tables are visited; or exactly what it showed before, which needs a
  failed call. No other metric is touched and the database is only read. The loop ends when its
  context does, with the context's error and without another refresh, and not on a failed
  refresh. An interval that is not positive is a panic before the first refresh: the
  configuration does not exclude it.
\<close>

theorem metrics_Run_gauges:
  fixes unlisted a config shuffle ctx
  assumes "\<And>xs. mset (shuffle xs) = mset xs"
  defines "Run \<equiv> \<lambda>wakes. run (metrics_Run (metrics_env unlisted a) config shuffle ctx (Some report) wakes)"
    and "g \<equiv> tableRows config"
  shows "if metrics_UpdateInterval config \<le> 0 then \<forall>wakes w. Run wakes w = (TickerPanic, w)
    else \<forall>w. (case Run [] w of (r, w') \<Rightarrow> r = Waiting \<and> refreshes g w w')
      \<and> (\<forall>wakes w1. Run wakes w = (Waiting, w1) \<longrightarrow>
           (\<forall>meanwhile. let w2 = snd (run meanwhile w1) in
              (case Run (wakes @ [(meanwhile, Tick)]) w of (r, w') \<Rightarrow> r = Waiting \<and> refreshes g w2 w')
              \<and> (\<forall>err. Run (wakes @ [(meanwhile, CtxDone err)]) w = (RunReturned err, w2))))
      \<and> (\<forall>wakes w1 err later. Run wakes w = (RunReturned err, w1) \<longrightarrow>
           Run (wakes @ later) w = (RunReturned err, w1))"
proof (cases "metrics_UpdateInterval config \<le> 0")
  case True
  then show ?thesis by (simp add: Run_def metrics_Run_def)
next
  case False
  then have Run: "Run = (\<lambda>wakes. run (run_loop (update_once (metrics_env unlisted a) config shuffle ctx
      (Some report)) wakes))"
    by (simp add: Run_def metrics_Run_def fun_eq_iff)
  have first: "case Run [] w of (r, w') \<Rightarrow> r = Waiting \<and> refreshes g w w'" for w
    using update_once_refreshes [OF assms(1), of config w unlisted a ctx]
    by (auto simp: Run g_def split: prod.split)
  show ?thesis
    using False first by (auto simp: Run run_loop_append Let_def)
qed

lemma bit_count_le: "n < 2 ^ k \<Longrightarrow> bit_count n \<le> k"
proof (induction k arbitrary: n)
  case 0
  then show ?case by (simp add: bit_count.simps)
next
  case (Suc k)
  then have "n div 2 < 2 ^ k" by auto
  with Suc.IH show ?case by (subst bit_count.simps) simp
qed

lemma float64_exact: "\<bar>n\<bar> < 2 ^ 53 \<Longrightarrow> float64 n = n"
  using bit_count_le [of "nat \<bar>n\<bar>" 53] by (simp add: float64_def nat_less_iff)

definition minutely :: metrics_Config where
  "minutely = DefaultConfig\<lparr>metrics_UpdateInterval := 60 * ns_per_s\<rparr>"

text \<open>Meanwhile everybody leaves.\<close>

definition demo_exodus :: "unit act" where
  "demo_exodus = modify_world (\<lambda>w. w\<lparr>w_committed := (w_committed w)\<lparr>db_users := []\<rparr>\<rparr>)"

theorem metrics_Run_gauges_witness:
  "samples_of (snd (run (metrics_Run (metrics_env demo_unlisted demo_app) minutely rev demo_ctx (Some report) [])
      demo_world)) (''starterkit_table_rows'', [''users'']) = Some 3
   \<and> samples_of (snd (run (metrics_Run (metrics_env demo_unlisted demo_app) minutely rev demo_ctx (Some report)
      [(demo_exodus, Tick)]) demo_world)) (''starterkit_table_rows'', [''users'']) = Some 0"
proof -
  let ?Run = "\<lambda>wakes. run (metrics_Run (metrics_env demo_unlisted demo_app) minutely rev demo_ctx (Some report) wakes)
      demo_world"
  have demo: "0 < metrics_UpdateInterval minutely" "healthy_world demo_world"
    "tableRows minutely = ''starterkit_table_rows''" "sizes (w_committed demo_world) ''users'' = Some 3"
    by (simp_all add: minutely_def DefaultConfig_def ns_per_s_def healthy_world_def demo_world_def
        tableRows_def metric_name_def sizes_def table_sizes_def demo_db_def)
  have positive: "\<not> metrics_UpdateInterval minutely \<le> 0" using demo(1) by simp
  note gauges = metrics_Run_gauges [of rev minutely demo_unlisted demo_app demo_ctx, OF mset_rev,
      unfolded if_not_P [OF positive], THEN spec, of demo_world]
  note tick = gauges [THEN conjunct2, THEN conjunct1, rule_format, unfolded Let_def]
  from gauges [THEN conjunct1] obtain w1
    where w1: "?Run [] = (Waiting, w1)" "refreshes (tableRows minutely) demo_world w1"
    by (cases "?Run []") simp
  let ?w2 = "snd (run demo_exodus w1)"
  from tick [OF w1(1), of demo_exodus, THEN conjunct1] obtain w'
    where w': "?Run [(demo_exodus, Tick)] = (Waiting, w')" "refreshes (tableRows minutely) ?w2 w'"
    by (cases "?Run [(demo_exodus, Tick)]") simp
  have "healthy_world w1" using demo(2) w1(2) by (simp add: refreshes_def healthy_world_def)
  then have "healthy_world ?w2" "sizes (w_committed ?w2) ''users'' = Some 0"
    by (simp_all add: demo_exodus_def healthy_world_def sizes_def table_sizes_def)
  with w1 w' demo float64_exact [of 3] float64_exact [of 0] show ?thesis
    by (auto simp: refreshes_def refreshed_def)
qed

end
