(* ===== verification/SqliteProps.thy ===== *)
theory SqliteProps
  imports SqliteDriver MetricsProps
begin

text \<open>
  The driver's bookkeeping of migrations: its statements, read back by SQLite, act on the table
  the driver was given.
\<close>

section \<open>Reading the statements\<close>

lemma split_sql_quoted:
  assumes "rest = [] \<or> hd rest \<noteq> dquote"
  shows "split_sql p (p @ driver_quoteIdentifier name @ rest) = Some (name, rest)"
proof -
  have "CutPrefix (p @ driver_quoteIdentifier name @ rest) (p @ [dquote])
      = (replace_char dquote [dquote, dquote] name @ dquote # rest, True)"
    using CutPrefix_append [of "p @ [dquote]"] by (simp add: driver_quoteIdentifier_def)
  with identifier_rest_quoted [OF assms] show ?thesis by (simp add: split_sql_def)
qed

lemma split_sql_other:
  "\<not> prefix (p @ [dquote]) t \<Longrightarrow> split_sql p t = None"
  by (simp add: split_sql_def CutPrefix_def HasPrefix_def)

lemmas tails = create_tail_def desc_tail_def asc_tail_def insert_tail_def delete_tail_def

lemma read_create:
  "read_sql (''create table if not exists '' @ driver_quoteIdentifier name
     @ '' (version varchar(128) primary key)'') = Some (CreateVersions name)"
  unfolding read_sql_def by (subst split_sql_quoted) (simp_all add: tails dquote_def)

lemma read_insert:
  "read_sql (''insert into '' @ driver_quoteIdentifier name @ '' (version) values (?)'')
     = Some (InsertVersion name)"
  unfolding read_sql_def
  by (subst split_sql_other, simp, subst split_sql_quoted) (simp_all add: tails dquote_def)

lemma read_delete:
  "read_sql (''delete from '' @ driver_quoteIdentifier name @ '' where version = ?'')
     = Some (DeleteVersion name)"
  unfolding read_sql_def
  by (subst split_sql_other, simp, subst split_sql_other, simp, subst split_sql_quoted)
    (simp_all add: tails dquote_def)

lemma read_select:
  assumes "rest = desc_tail @ limit"
  shows "read_sql (''select version from '' @ driver_quoteIdentifier name @ rest)
     = map_option (SelectVersions name) (read_limit rest)"
  unfolding read_sql_def using assms
  by (subst split_sql_other, simp, subst split_sql_other, simp, subst split_sql_other, simp,
      subst split_sql_quoted) (simp_all add: tails dquote_def)

lemma read_select_all:
  "read_sql (''select version from '' @ driver_quoteIdentifier name @ '' order by version desc'')
     = Some (SelectVersions name None)"
  using read_select [of "'' order by version desc''" "[]" name] by (simp add: desc_tail_def read_limit_def)


text \<open>The same texts as the simplifier writes them.\<close>

lemmas read_texts = read_create [simplified] read_insert [simplified] read_delete [simplified]
  read_select_all [simplified]

lemma quoted_name_text: "CHR 0x00 \<notin> set name \<Longrightarrow> CHR 0x00 \<notin> set (driver_quoteIdentifier name)"
  using quoted_no_zero by (simp add: driver_quoteIdentifier_def dquote_def)

lemma int_dec_text: "CHR 0x00 \<notin> set (int_dec n)"
proof -
  have "CHR 0x00 \<notin> set (dec m)" if "0 \<le> m" for m
    using dec_digits [OF that] by (auto simp: list_all_iff is_digit_def byte_val_def)
  then show ?thesis by (simp add: int_dec_def)
qed

lemmas statement_text = sql_text_plain quoted_name_text int_dec_text

section \<open>Bookkeeping\<close>

























end
