(* ===== verification/SetupProps.thy ===== *)
theory SetupProps
  imports Setup SqliteProps
begin

text \<open>
  Opening the database: C34 (the three pools, and none left open on a failure) and C35 (which
  file they open).
\<close>

section \<open>The three pools\<close>

definition fresh :: "Conns \<Rightarrow> bool" where
  "fresh w \<longleftrightarrow> (\<forall>(m, p) \<in> set (conns_open w). m < conns_next w)"

definition the_pool :: "string \<Rightarrow> bool \<Rightarrow> sql_DB" where
  "the_pool file readOnly =
    (if readOnly
     then \<lparr>pool_dsn = open_dsn file True, pool_MaxOpenConns = 25, pool_MaxIdleConns = 25,
           pool_ConnMaxIdleTime = 30 * ns_per_s\<rparr>
     else \<lparr>pool_dsn = open_dsn file False, pool_MaxOpenConns = 1, pool_MaxIdleConns = 1,
           pool_ConnMaxIdleTime = 0\<rparr>)"

lemma fresh_unmatched:
  assumes "fresh w" "conns_next w \<le> n"
  shows "map (\<lambda>(m, p). (m, if m = n then f p else p)) (conns_open w) = conns_open w"
    "filter (\<lambda>(m, p). m \<noteq> n) (conns_open w) = conns_open w"
proof -
  from assms have other: "m \<noteq> n" if "(m, p) \<in> set (conns_open w)" for m p
    using that by (auto simp: fresh_def)
  show "map (\<lambda>(m, p). (m, if m = n then f p else p)) (conns_open w) = conns_open w"
    by (rule map_idI) (use other in auto)
  show "filter (\<lambda>(m, p). m \<noteq> n) (conns_open w) = conns_open w"
    by (rule filter_True) (use other in auto)
qed

lemma run_sql_Close: "run (sql_Close n) w =
    ((), w\<lparr>conns_open := filter (\<lambda>(m, p). m \<noteq> n) (conns_open w)\<rparr>)"
  by (simp add: sql_Close_def)

lemma db_open_cases:
  assumes "fresh w" "run (db_open file readOnly) w = (r, w')"
  shows "fresh w'" "conns_next w \<le> conns_next w'"
    "case r of Inl err \<Rightarrow> conns_open w' = conns_open w
     | Inr n \<Rightarrow> conns_open w' = conns_open w @ [(n, the_pool file readOnly)] \<and> conns_next w \<le> n
         \<and> n < conns_next w'"
proof -
  have "fresh w' \<and> conns_next w \<le> conns_next w' \<and>
    (case r of Inl err \<Rightarrow> conns_open w' = conns_open w
     | Inr n \<Rightarrow> conns_open w' = conns_open w @ [(n, the_pool file readOnly)] \<and> conns_next w \<le> n
         \<and> n < conns_next w')"
    using assms fresh_unmatched [OF assms(1) order_refl]
    by (fastforce simp: db_open_def sql_Open_def conns_call_def change_pool_def PingContext_def
        run_sql_Close the_pool_def fresh_def split: option.splits if_splits)
  then show "fresh w'" "conns_next w \<le> conns_next w'"
    "case r of Inl err \<Rightarrow> conns_open w' = conns_open w
     | Inr n \<Rightarrow> conns_open w' = conns_open w @ [(n, the_pool file readOnly)] \<and> conns_next w \<le> n
         \<and> n < conns_next w'" by blast+
qed

lemma fresh_filter:
  assumes "fresh w" "conns_next w \<le> n" "conns_open v = conns_open w @ [(n, p)]"
  shows "filter (\<lambda>(m, p). m \<noteq> n) (conns_open v) = conns_open w"
  using fresh_unmatched(2) [OF assms(1,2)] assms(3) by simp

text \<open>The migrations close what they open: dbmate closes its handles before it returns.\<close>

definition closes_its_own :: "setup_libs \<Rightarrow> bool" where
  "closes_its_own L \<longleftrightarrow> (\<forall>dbm w r w'. fresh w \<longrightarrow>
     run (setup_CreateAndMigrate L dbm) w = (r, w') \<longrightarrow>
     fresh w' \<and> conns_open w' = conns_open w)"

lemma Migrate_keeps:
  assumes "closes_its_own L" "fresh w" "run (Migrate L file) w = (r, w')"
  shows "fresh w'" "conns_open w' = conns_open w"
proof -
  have "fresh w' \<and> conns_open w' = conns_open w"
    using assms by (simp add: Migrate_def closes_its_own_def split: sum.splits prod.splits)
  then show "fresh w'" "conns_open w' = conns_open w" by simp_all
qed

lemma db_Setup_cases:
  assumes "closes_its_own L" "fresh w" "run (db_Setup L file) w = (r, w')"
  shows "case r of
      Inl err \<Rightarrow> conns_open w' = conns_open w
    | Inr s \<Rightarrow> conns_open w' = conns_open w
          @ [(set_Read s, the_pool file True), (set_Write s, the_pool file False),
             (set_Queue s, the_pool file False)]
        \<and> conns_open (snd (run (Set_Close s) w')) = conns_open w"
proof -
  obtain migrated w0 where m: "run (Migrate L file) w = (migrated, w0)" by fastforce
  note m0 = Migrate_keeps [OF assms(1,2) m]
  obtain opened1 w1 where o1: "run (db_open file True) w0 = (opened1, w1)" by fastforce
  note s1 = db_open_cases [OF m0(1) o1]
  obtain opened2 w2 where o2: "run (db_open file False) w1 = (opened2, w2)" by fastforce
  note s2 = db_open_cases [OF s1(1) o2]
  obtain opened3 w3 where o3: "run (db_open file False) w2 = (opened3, w3)" by fastforce
  note s3 = db_open_cases [OF s2(1) o3]
  from m0 have old: "fst c < conns_next w0" if "c \<in> set (conns_open w)" for c
    using that by (auto simp: fresh_def)
  note boot = assms(3) [unfolded db_Setup_def] m m0(2)
  show ?thesis
  proof (cases "\<exists>u a b. migrated = Inr u \<and> opened1 = Inr a \<and> opened2 = Inr b")
    case False
    then consider (m) err where "migrated = Inl err"
      | (a) err u where "migrated = Inr u" "opened1 = Inl err"
      | (b) err u a where "migrated = Inr u" "opened1 = Inr a" "opened2 = Inl err"
      by (metis sum.exhaust)
    then show ?thesis
    proof cases
      case m
      with boot show ?thesis by auto
    next
      case a
      with boot o1 s1 show ?thesis by auto
    next
      case b
      with old s1(3) have "\<forall>c\<in>set (conns_open w). fst c \<noteq> a" by fastforce
      with b boot o1 s1 o2 s2 show ?thesis
        by (auto simp: run_sql_Close filter_id_conv case_prod_unfold)
    qed
  next
    case True
    then obtain u a b where ab: "migrated = Inr u" "opened1 = Inr a" "opened2 = Inr b" by blast
    with old s1 s2 have two: "\<forall>c\<in>set (conns_open w). fst c \<noteq> a \<and> fst c \<noteq> b" "a < b"
      by fastforce+
    show ?thesis
    proof (cases opened3)
      case (Inl err)
      with ab two boot o1 s1 o2 s2 o3 s3 show ?thesis
        by (auto simp: run_sql_Close filter_id_conv case_prod_unfold)
    next
      case (Inr c)
      with ab old s1 s2 s3 have "\<forall>p\<in>set (conns_open w). fst p \<noteq> c" "b < c" by fastforce+
      with Inr ab two boot o1 s1 o2 s2 o3 s3 show ?thesis
        by (auto simp: run_sql_Close Set_Close_def filter_id_conv case_prod_unfold)
    qed
  qed
qed

text \<open>
  C34. Opening the database leaks nothing. Either all three pools are open, in this order: one
  of 25 connections that reads, and two of one connection each that write, for the queries and
  for the queue; and closing the set closes exactly them. Or, whatever step failed, the answer
  is an error and no pool that was opened on the way is left open.
\<close>

theorem db_Setup_leaks_nothing:
  assumes "closes_its_own L" "fresh w" "run (db_Setup L file) w = (r, w')"
  shows "case r of
      Inl err \<Rightarrow> conns_open w' = conns_open w
    | Inr s \<Rightarrow> conns_open w' = conns_open w
          @ [(set_Read s, the_pool file True), (set_Write s, the_pool file False),
             (set_Queue s, the_pool file False)]
        \<and> conns_open (snd (run (Set_Close s) w')) = conns_open w"
  using assms by (rule db_Setup_cases)

definition demo_setup :: setup_libs where
  "demo_setup =
     \<lparr>setup_authority = (\<lambda>s. Inr (None, s)), setup_CreateAndMigrate = (\<lambda>dbm. ret (Inr ()))\<rparr>"

definition demo_conns :: Conns where
  "demo_conns =
     \<lparr>conns_open = [], conns_next = 0, conns_faults = (\<lambda>n. if n = 5 then Some CtxCanceled else None),
      conns_calls = 0\<rparr>"

theorem db_Setup_leaks_nothing_witness:
  "case fst (run (db_Setup demo_setup ''panel.db'') demo_conns) of
     Inl err \<Rightarrow> conns_open (snd (run (db_Setup demo_setup ''panel.db'') demo_conns)) = []
   | Inr s \<Rightarrow> length (conns_open (snd (run (db_Setup demo_setup ''panel.db'') demo_conns))) = 3"
proof -
  have "closes_its_own demo_setup" "fresh demo_conns"
    by (simp_all add: closes_its_own_def demo_setup_def fresh_def demo_conns_def)
  from db_Setup_leaks_nothing [OF this surjective_pairing, of "''panel.db''"] show ?thesis
    by (auto simp: demo_conns_def split: sum.splits)
qed

section \<open>One database file\<close>

text \<open>
  What the SQLite driver documents of a data source name. A name that starts with \<open>file:\<close> is a
  URI: an authority between two slashes and the next one is skipped, and the path goes up to the
  first question mark. (Escapes and fragments of such a name are not read here: \<open>plain_file\<close>
  below excludes them.) Any other name is cut at a question mark after it; an empty name is a
  temporary database and \<open>:memory:\<close> one in memory, and everything else is the path of a file.
\<close>

datatype opened = OnDisk string | InMemory | Temporary

definition before_mark :: "string \<Rightarrow> string" where
  "before_mark dsn =
     (let name = takeWhile (\<lambda>c. c \<noteq> CHR ''?'') dsn in if name = [] then dsn else name)"

definition named_database :: "string \<Rightarrow> opened" where
  "named_database name = (if name = '''' then Temporary else if name = '':memory:'' then InMemory else OnDisk name)"

definition uri_path :: "string \<Rightarrow> string" where
  "uri_path s = (if HasPrefix s ''//'' then dropWhile (\<lambda>c. c \<noteq> CHR ''/'') (drop 2 s) else s)"

definition opens :: "string \<Rightarrow> opened" where
  "opens dsn = named_database
     (if HasPrefix dsn ''file:'' then uri_path (drop 5 (before_mark dsn)) else before_mark dsn)"

text \<open>
  Two paths of one file, from the same directory: both are absolute or both are not, and they go
  through the same names. Links are not considered.
\<close>

definition path_names :: "string \<Rightarrow> string list" where
  "path_names path = filter (\<lambda>n. n \<noteq> '''' \<and> n \<noteq> ''.'') (split_on CHR ''/'' path)"

definition same_path :: "string \<Rightarrow> string \<Rightarrow> bool" where
  "same_path p q \<longleftrightarrow> HasPrefix p ''/'' = HasPrefix q ''/'' \<and> path_names p = path_names q"

text \<open>Every database in memory and every temporary one is a database of its own.\<close>

fun same_database :: "opened \<Rightarrow> opened \<Rightarrow> bool" where
  "same_database (OnDisk p) (OnDisk q) = same_path p q"
| "same_database _ _ = False"

lemma hex_not_mark: "0 \<le> d \<Longrightarrow> d < 16 \<Longrightarrow> upper_hex d \<noteq> CHR ''?''"
proof
  assume "0 \<le> d" "d < 16" "upper_hex d = CHR ''?''"
  then have "byte_val (CHR ''?'') = (if d < 10 then 48 + d else 55 + d)"
    using byte_val_char [of "if d < 10 then 48 + d else 55 + d"] by (simp add: upper_hex_def split: if_splits)
  with \<open>d < 16\<close> show False by (simp add: byte_val_def split: if_splits)
qed

lemma escaped_no_mark: "CHR ''?'' \<notin> set (escape_with path_byte s)"
proof -
  have "CHR ''?'' \<notin> set (escape_byte c)" for c
  proof -
    have "0 \<le> byte_val c div 16" "byte_val c div 16 < 16"
      using byte_val_lt [of c] byte_nonneg [of c] by (simp_all add: byte_val_def pos_imp_zdiv_nonneg_iff)
    with hex_not_mark [of "byte_val c div 16"] hex_not_mark [of "byte_val c mod 16"]
    show ?thesis by (auto simp: escape_byte_def)
  qed
  then show ?thesis
    by (auto simp: escape_with_def path_byte_def unreserved_def byte_val_def split: if_splits)
qed

lemma escape_id: "list_all keep s \<Longrightarrow> escape_with keep s = s"
  by (induction s) (simp_all add: escape_with_def)

lemma escape_id_iff:
  assumes "CHR ''%'' \<notin> set s"
  shows "escape_with keep s = s \<longleftrightarrow> list_all keep s"
proof
  assume same: "escape_with keep s = s"
  have "keep c" if "c \<in> set s" for c
  proof (rule ccontr)
    assume "\<not> keep c"
    with that have "CHR ''%'' \<in> set (escape_with keep s)"
      by (force simp: escape_with_def escape_byte_def)
    with same assms show False by simp
  qed
  then show "list_all keep s" by (simp add: list_all_iff)
qed (rule escape_id)

lemma escape_longer: "length s \<le> length (escape_with keep s)"
  by (induction s) (auto simp: escape_with_def escape_byte_def)

lemma unescape_plain: "CHR ''%'' \<notin> set s \<Longrightarrow> unescape False s = Inr s"
  by (induction s) auto

lemma cut_at_none: "c \<notin> set s \<Longrightarrow> cut_at c s = (s, [])"
  by (induction s) auto

lemma filter_absent: "c \<notin> set s \<Longrightarrow> filter (\<lambda>d. d = c) s = []"
  by (induction s) auto

text \<open>Names without the bytes that a URL gives a meaning of its own.\<close>

definition plain_file :: "string \<Rightarrow> bool" where
  "plain_file file \<longleftrightarrow> file \<noteq> [] \<and> \<not> HasPrefix file ''//''
     \<and> (\<forall>c \<in> set file. \<not> control_byte c \<and> c \<notin> {CHR ''?'', CHR ''#'', CHR ''%''})"

lemma getScheme_sqlite: "getScheme (''sqlite:'' @ s) = Inr (''sqlite'', s)"
proof -
  have letters: "ascii_letter CHR ''s''" "ascii_letter CHR ''q''" "ascii_letter CHR ''l''"
    "ascii_letter CHR ''i''" "ascii_letter CHR ''t''" "ascii_letter CHR ''e''"
    "\<not> ascii_letter CHR '':''" "\<not> scheme_byte CHR '':''" "\<not> scheme_byte CHR ''s''"
    by code_simp+
  then show ?thesis by (simp add: getScheme_def)
qed

lemma parse_sqlite:
  assumes "plain_file file"
  shows "url_Parse authority (''sqlite:'' @ file) =
    Inr (if HasPrefix file ''/''
         then empty_URL\<lparr>url_Scheme := ''sqlite'', url_OmitHost := True, url_Path := file,
                url_RawPath := (if file = escape_with path_byte file then [] else file)\<rparr>
         else empty_URL\<lparr>url_Scheme := ''sqlite'', url_Opaque := file\<rparr>)"
proof -
  from assms have "CHR ''#'' \<notin> set (''sqlite:'' @ file)" by (auto simp: plain_file_def)
  from cut_at_none [OF this] have cut: "cut_at CHR ''#'' (''sqlite:'' @ file) = (''sqlite:'' @ file, [])" .
  have "\<not> list_ex control_byte (''sqlite:'' @ file)"
    using assms by (auto simp: plain_file_def list_ex_iff control_byte_def byte_val_def)
  moreover from assms have marks: "CHR ''?'' \<notin> set file" "CHR ''%'' \<notin> set file"
    by (simp_all add: plain_file_def) blast+
  moreover note filter_absent [OF marks(1)] cut_at_none [OF marks(1)] unescape_plain [OF marks(2)]
  moreover have "map lower_byte ''sqlite'' = ''sqlite''" by code_simp
  ultimately have "parse_unfragmented authority (''sqlite:'' @ file) =
    Inr (if HasPrefix file ''/''
         then empty_URL\<lparr>url_Scheme := ''sqlite'', url_OmitHost := True, url_Path := file,
                url_RawPath := (if file = escape_with path_byte file then [] else file)\<rparr>
         else empty_URL\<lparr>url_Scheme := ''sqlite'', url_Opaque := file\<rparr>)"
    using assms unfolding parse_unfragmented_def
    by (simp add: getScheme_sqlite [simplified] parse_hierarchy_def setPath_def plain_file_def empty_URL_def)
  with cut show ?thesis by (simp add: url_Parse_def)
qed

lemma encoded_queries:
  "Values_Encode (open_query True) = ''_dqs=false&_pragma=busy_timeout%2820000%29&_pragma=journal_mode%28WAL%29&_pragma=foreign_keys%281%29&_pragma=synchronous%28NORMAL%29&_pragma=temp_store%282%29&_pragma=cache_size%28-64000%29&_pragma=query_only%281%29''"
  "Values_Encode (open_query False) = ''_dqs=false&_pragma=busy_timeout%2820000%29&_pragma=journal_mode%28WAL%29&_pragma=foreign_keys%281%29&_pragma=synchronous%28NORMAL%29&_pragma=temp_store%282%29&_pragma=cache_size%28-64000%29&_txlock=immediate''"
  by code_simp+

lemma ConnectionString_sqlite:
  assumes "plain_file file" "mustUnescape file = Some file"
    and "url_Parse authority (''sqlite:'' @ file) = Inr u"
  shows "ConnectionString mustUnescape u = Some file"
proof (cases "HasPrefix file ''/''")
  case True
  then obtain s where s: "file = CHR ''/'' # s" by (auto simp: HasPrefix_def prefix_def)
  with assms(1) have "s = [] \<or> hd s \<noteq> CHR ''/''" by (cases s) (auto simp: plain_file_def HasPrefix_def)
  then have slashes: "dropWhile (\<lambda>c. c = CHR ''/'') s = s" by (cases s) auto
  from assms(3) parse_sqlite [OF assms(1)] True
  have "url_Opaque u = [] \<and> url_Path u = file \<and> url_Host u = [] \<and> \<not> url_ForceQuery u
      \<and> url_RawQuery u = [] \<and> url_Fragment u = []" by (auto simp: empty_URL_def)
  with assms(2) s slashes show ?thesis
    by (simp add: ConnectionString_def URL_String_def leadingSlashes_def HasPrefix_def)
next
  case False
  with assms(1,3) parse_sqlite [OF assms(1)] have "url_Opaque u = file \<and> \<not> url_ForceQuery u
      \<and> url_RawQuery u = [] \<and> url_Fragment u = []" by (auto simp: empty_URL_def)
  with assms(1) show ?thesis
    by (simp add: ConnectionString_def URL_String_def leadingSlashes_def plain_file_def)
qed

definition dotted :: "string \<Rightarrow> string" where
  "dotted path = (if CHR '':'' \<in> set (takeWhile (\<lambda>c. c \<noteq> CHR ''/'') path) then ''./'' @ path else path)"

lemma open_dsn_text:
  "open_dsn file readOnly =
     dotted (if file = ''*'' then file else escape_with path_byte file) @ ''?''
     @ Values_Encode (open_query readOnly)"
proof -
  have "Values_Encode (open_query readOnly) \<noteq> []" by (cases readOnly) (simp_all add: encoded_queries)
  then show ?thesis
    by (simp add: open_dsn_def URL_String_def hierarchy_text_def authority_text_def EscapedPath_def
        empty_URL_def dotted_def Let_def)
qed

lemma prefix_before: "prefix p (s @ c # t) \<Longrightarrow> c \<notin> set p \<Longrightarrow> prefix p s"
  by (auto simp: prefix_append prefix_Cons)

lemma dotted_prefix:
  "dotted path = path \<or> dotted path = ''./'' @ path"
  by (simp add: dotted_def)

lemma not_uri: "\<not> HasPrefix (dotted path) ''file:''"
proof (cases "HasPrefix path ''file:''")
  case True
  then obtain s where "path = ''file:'' @ s" by (auto simp: HasPrefix_def prefix_def)
  then show ?thesis by (simp add: dotted_def HasPrefix_def)
next
  case False
  with dotted_prefix [of path] show ?thesis by (auto simp: HasPrefix_def)
qed

lemma not_memory: "dotted path \<noteq> '':memory:''"
proof (cases "path = '':memory:''")
  case False
  with dotted_prefix [of path] show ?thesis by auto
qed (simp add: dotted_def)

lemma opens_pool:
  assumes "file \<noteq> []"
  shows "opens (open_dsn file readOnly) =
    OnDisk (dotted (if file = ''*'' then file else escape_with path_byte file))"
proof -
  let ?name = "dotted (if file = ''*'' then file else escape_with path_byte file)"
  have "escape_with path_byte file \<noteq> ''''"
    using assms escape_longer [of "file" path_byte] by auto
  then have named: "?name \<noteq> ''''" by (simp add: dotted_def)
  have "c \<noteq> CHR ''?''" if "c \<in> set ?name" for c
    using that escaped_no_mark [of "file"] by (auto simp: dotted_def split: if_splits)
  then have "before_mark (open_dsn file readOnly) = ?name"
    using named by (simp add: open_dsn_text before_mark_def takeWhile_append2)
  moreover have "\<not> HasPrefix (open_dsn file readOnly) ''file:''"
  proof
    assume "HasPrefix (open_dsn file readOnly) ''file:''"
    then have "prefix ''file:'' (?name @ CHR ''?'' # Values_Encode (open_query readOnly))"
      by (simp add: HasPrefix_def open_dsn_text)
    from prefix_before [OF this] not_uri show False by (auto simp: HasPrefix_def)
  qed
  ultimately show ?thesis using named by (simp add: opens_def named_database_def not_memory)
qed

lemma path_names_dot [simp]: "path_names (CHR ''.'' # CHR ''/'' # p) = path_names p"
  using split_on_append [of "CHR ''/''" "''.''" p] by (simp add: path_names_def)

lemma same_path_dotted:
  assumes "\<not> HasPrefix p ''/''"
  shows "same_path (''./'' @ p) p"
  using assms by (simp add: same_path_def HasPrefix_def)

lemma split_on_bytes: "c \<noteq> d \<Longrightarrow> c \<in> set s \<longleftrightarrow> (\<exists>n \<in> set (split_on d s). c \<in> set n)"
  by (induction d s rule: split_on.induct) (auto split: list.splits)

lemma path_names_percent: "CHR ''%'' \<in> set p \<longleftrightarrow> (\<exists>n \<in> set (path_names p). CHR ''%'' \<in> set n)"
proof -
  have "(\<exists>n \<in> set (split_on CHR ''/'' p). CHR ''%'' \<in> set n)
      \<longleftrightarrow> (\<exists>n \<in> set (path_names p). CHR ''%'' \<in> set n)"
    by (auto simp: path_names_def)
  with split_on_bytes [of "CHR ''%''" "CHR ''/''" p] show ?thesis by simp
qed

lemma dotted_percent: "CHR ''%'' \<in> set (dotted p) \<longleftrightarrow> CHR ''%'' \<in> set p"
  by (auto simp: dotted_def)

lemma same_path_percent:
  assumes "same_path p q"
  shows "CHR ''%'' \<in> set p \<longleftrightarrow> CHR ''%'' \<in> set q"
  using assms path_names_percent [of p] path_names_percent [of q] unfolding same_path_def by metis

lemma same_path_self: "same_path (dotted p) p"
proof (cases "HasPrefix p ''/''")
  case True
  then obtain s where "p = CHR ''/'' # s" by (auto simp: HasPrefix_def prefix_def)
  then have "dotted p = p" by (simp add: dotted_def)
  then show ?thesis by (simp add: same_path_def)
next
  case False
  from dotted_prefix [of p] show ?thesis
  proof
    assume "dotted p = p"
    then show ?thesis by (simp only: same_path_def simp_thms)
  next
    assume "dotted p = ''./'' @ p"
    with same_path_dotted [OF False] show ?thesis by (simp only:)
  qed
qed

text \<open>The file that a URI names is not the one that its text names as a path.\<close>

lemma uri_other_file: "\<not> same_path (dotted (''file:'' @ s)) (uri_path s)"
proof
  assume same: "same_path (dotted (''file:'' @ s)) (uri_path s)"
  have dot: "dotted (''file:'' @ s) = ''./'' @ ''file:'' @ s" by (simp add: dotted_def)
  have "\<not> HasPrefix (uri_path s) ''/''"
    using same dot by (simp add: same_path_def HasPrefix_def)
  moreover have "HasPrefix (dropWhile (\<lambda>c. c \<noteq> CHR ''/'') t) ''/''
      \<or> dropWhile (\<lambda>c. c \<noteq> CHR ''/'') t = ''''" for t
    using hd_dropWhile [of "\<lambda>c. c \<noteq> CHR ''/''" t]
    by (cases "dropWhile (\<lambda>c. c \<noteq> CHR ''/'') t") (auto simp: HasPrefix_def)
  ultimately consider "uri_path s = s" "\<not> HasPrefix s ''/''" | "uri_path s = ''''"
    by (auto simp: uri_path_def split: if_splits)
  then show False
  proof cases
    case 1
    obtain n ns where ns: "split_on CHR ''/'' s = n # ns"
      using split_on_nonempty [of "CHR ''/''" s] by (cases "split_on CHR ''/'' s") auto
    then have "split_on CHR ''/'' (''file:'' @ s) = (''file:'' @ n) # ns" by simp
    then have "path_names (''file:'' @ s) = (''file:'' @ n) # path_names s
        \<or> (\<exists>rest. path_names (''file:'' @ s) = (''file:'' @ n) # rest \<and> path_names s = n # rest)"
      using ns by (simp add: path_names_def)
    with same 1(1) dot show False
      using path_names_dot [of "''file:'' @ s", simplified] by (auto simp: same_path_def)
  next
    case 2
    have "path_names '''' = []" by (simp add: path_names_def)
    moreover obtain n ns where "split_on CHR ''/'' s = n # ns"
      using split_on_nonempty [of "CHR ''/''" s] by (cases "split_on CHR ''/'' s") auto
    then have "path_names (''file:'' @ s) \<noteq> []" by (simp add: path_names_def)
    ultimately show False
      using same 2 dot path_names_dot [of "''file:'' @ s", simplified] by (simp add: same_path_def)
  qed
qed

lemma escaped_percent:
  assumes "\<not> list_all path_byte s"
  shows "CHR ''%'' \<in> set (escape_with path_byte s)"
  using assms by (force simp: list_all_iff escape_with_def escape_byte_def)

definition pool_settings :: "bool \<Rightarrow> string" where
  "pool_settings readOnly =
     ''?_dqs=false&_pragma=busy_timeout%2820000%29&_pragma=journal_mode%28WAL%29&_pragma=foreign_keys%281%29&_pragma=synchronous%28NORMAL%29&_pragma=temp_store%282%29&_pragma=cache_size%28-64000%29''
     @ (if readOnly then ''&_pragma=query_only%281%29'' else ''&_txlock=immediate'')"

lemma opens_plain:
  assumes "plain_file file"
  shows "opens file = named_database (if HasPrefix file ''file:'' then uri_path (drop 5 file) else file)"
proof -
  have "\<forall>c \<in> set file. c \<noteq> CHR ''?''" using assms by (simp add: plain_file_def)
  then have "takeWhile (\<lambda>c. c \<noteq> CHR ''?'') file = file" by (simp only: takeWhile_eq_all_conv)
  then have "before_mark file = file" by (simp add: before_mark_def Let_def)
  then show ?thesis by (simp add: opens_def)
qed

lemma same_database_plain:
  assumes "plain_file file"
  shows "same_database (opens (open_dsn file readOnly)) (opens file) \<longleftrightarrow>
    (file = ''*'' \<or> list_all path_byte file) \<and> \<not> HasPrefix file ''file:'' \<and> file \<noteq> '':memory:''"
proof -
  let ?pool = "if file = ''*'' then file else escape_with path_byte file"
  have nonempty: "file \<noteq> []" "CHR ''%'' \<notin> set file" using assms by (auto simp: plain_file_def)
  note pool = opens_pool [OF nonempty(1), of readOnly] and plain = opens_plain [OF assms]
  consider (uri) "HasPrefix file ''file:''" | (memory) "file = '':memory:''"
    | (named) "\<not> HasPrefix file ''file:''" "file \<noteq> '':memory:''" by blast
  then show ?thesis
  proof cases
    case uri
    then obtain s where s: "file = ''file:'' @ s" by (auto simp: HasPrefix_def prefix_def)
    have "\<not> same_path (dotted ?pool) (uri_path s)"
    proof (cases "list_all path_byte file")
      case True
      with escape_id have "?pool = ''file:'' @ s" using s by simp
      then show ?thesis using uri_other_file [of s] by simp
    next
      case False
      have "file \<noteq> ''*''" using s by simp
      with escaped_percent [OF False] have "CHR ''%'' \<in> set (dotted ?pool)" by (simp add: dotted_percent)
      moreover have "CHR ''%'' \<notin> set (uri_path s)"
        using nonempty(2) s by (auto simp: uri_path_def dest!: set_dropWhileD in_set_dropD)
      ultimately show ?thesis using same_path_percent by blast
    qed
    with s uri pool plain show ?thesis by (simp add: named_database_def)
  next
    case memory
    with pool plain show ?thesis by (simp add: named_database_def HasPrefix_def)
  next
    case named
    have "same_path (dotted ?pool) file \<longleftrightarrow> file = ''*'' \<or> list_all path_byte file"
    proof (cases "file = ''*'' \<or> list_all path_byte file")
      case True
      with escape_id have "?pool = file" by auto
      with True same_path_self show ?thesis by simp
    next
      case False
      with escaped_percent have "CHR ''%'' \<in> set (dotted ?pool)" by (simp add: dotted_percent)
      with False nonempty(2) same_path_percent show ?thesis by blast
    qed
    with named nonempty(1) pool plain show ?thesis by (simp add: named_database_def)
  qed
qed

text \<open>
  C35. The pools open the file that was migrated, when its name is a path that needs no escaping.
  For a name without the bytes that have a meaning in a URL (a question mark, a number sign, a
  percent sign, control bytes) and without two slashes at its start, the migration opens the name
  as it is. The pools put it into the path of a URL, and the driver does not undo that: for a name
  with any other byte that a URL escapes, a space for instance, they open a file whose name has
  the escapes in it; for a URI of SQLite (\<open>file:panel.db\<close>) and for \<open>:memory:\<close> they open a file of
  that very name, while the migration has opened the file of the URI, or a database in memory. The
  settings are the same for every name: every pool enforces foreign keys and waits for locks, the
  one that reads cannot write, and those that write take the write lock when a transaction begins.
\<close>

theorem one_database_file:
  assumes "plain_file file" "mustUnescape file = Some file"
  shows "(\<exists>u. url_Parse authority (''sqlite:'' @ file) = Inr u \<and> ConnectionString mustUnescape u = Some file)
    \<and> (same_database (opens (open_dsn file readOnly)) (opens file) \<longleftrightarrow>
         (file = ''*'' \<or> list_all path_byte file) \<and> \<not> HasPrefix file ''file:'' \<and> file \<noteq> '':memory:'')
    \<and> suffix (pool_settings readOnly) (open_dsn file readOnly)"
proof (intro conjI)
  from parse_sqlite [OF assms(1)] obtain u where "url_Parse authority (''sqlite:'' @ file) = Inr u" by blast
  with ConnectionString_sqlite [of "file" mustUnescape] assms show "\<exists>u. url_Parse authority (''sqlite:'' @ file) = Inr u
      \<and> ConnectionString mustUnescape u = Some file" by blast
  have "''?'' @ Values_Encode (open_query readOnly) = pool_settings readOnly"
    by (cases readOnly) (simp_all add: encoded_queries pool_settings_def)
  then show "suffix (pool_settings readOnly) (open_dsn file readOnly)"
    unfolding open_dsn_text suffix_def by metis
qed (rule same_database_plain [OF assms(1)])

theorem one_database_file_witness:
  "same_database (opens (open_dsn ''data/panel.db'' True)) (opens ''data/panel.db'')
   \<and> \<not> same_database (opens (open_dsn ''my panel.db'' True)) (opens ''my panel.db'')
   \<and> \<not> same_database (opens (open_dsn ''file:panel.db'' True)) (opens ''file:panel.db'')"
proof -
  have "plain_file ''data/panel.db''" "list_all path_byte ''data/panel.db''"
    "plain_file ''my panel.db''" "\<not> list_all path_byte ''my panel.db''" "plain_file ''file:panel.db''"
    by code_simp+
  with one_database_file [of "''data/panel.db''" Some "\<lambda>s. Inr (None, s)" True]
    one_database_file [of "''my panel.db''" Some "\<lambda>s. Inr (None, s)" True]
    one_database_file [of "''file:panel.db''" Some "\<lambda>s. Inr (None, s)" True]
  show ?thesis by (simp add: HasPrefix_def)
qed

end
