(* ===== verification/ConfigProps.thy ===== *)
theory ConfigProps
  imports AppConfig SetupProps
begin

text \<open>
  Where a setting comes from (C36) and what every accepted configuration satisfies (C37).
\<close>

section \<open>Flags on the command line\<close>

definition string_flags :: "string list" where
  "string_flags =
     [''addr'', ''public-url'', ''base-path'', ''database-url'', ''oidc-issuer'', ''oidc-client-id'',
      ''sign-out-url'', ''bootstrap-admin'', ''log-level'', ''audit-purge-spec'', ''notifier-from'',
      ''trusted-proxies'', ''metrics-addr'']"

definition duration_flags :: "string list" where
  "duration_flags = [''audit-retention'', ''metrics-interval'', ''shutdown-delay'', ''shutdown-timeout'']"

definition bool_flags :: "string list" where
  "bool_flags = [''dev'']"

lemmas flag_lists = string_flags_def duration_flags_def bool_flags_def

text \<open>
  The ways to write a flag: \<open>-name=value\<close>, \<open>-name value\<close> (not for a boolean) and, for a boolean,
  \<open>-name\<close>; each with one dash or two.
\<close>

datatype flag_setting = Joined bool string string | Apart bool string string | Switch bool string

definition dashes :: "bool \<Rightarrow> string" where
  "dashes two = (if two then ''--'' else ''-'')"

fun flag_args :: "flag_setting \<Rightarrow> string list" where
  "flag_args (Joined two n v) = [dashes two @ n @ ''='' @ v]"
| "flag_args (Apart two n v) = [dashes two @ n, v]"
| "flag_args (Switch two n) = [dashes two @ n]"

fun setting :: "flag_setting \<Rightarrow> string \<times> string" where
  "setting (Joined two n v) = (n, v)"
| "setting (Apart two n v) = (n, v)"
| "setting (Switch two n) = (n, ''true'')"

fun proper :: "flag_setting \<Rightarrow> bool" where
  "proper (Joined two n v) \<longleftrightarrow> n \<in> set (string_flags @ duration_flags @ bool_flags)"
| "proper (Apart two n v) \<longleftrightarrow> n \<in> set (string_flags @ duration_flags)"
| "proper (Switch two n) \<longleftrightarrow> n \<in> set bool_flags"

text \<open>The value that a flag gets from its text, if it can be read.\<close>

definition flag_value :: "(int \<Rightarrow> nat \<Rightarrow> int \<Rightarrow> int) \<Rightarrow> string \<Rightarrow> string \<Rightarrow> flag_value option" where
  "flag_value frac n v =
     (if n \<in> set string_flags then Some (StringFlag v)
      else if n \<in> set duration_flags then map_option DurationFlag (ParseDuration frac v)
      else map_option BoolFlag (ParseBool v))"

definition set_flag :: "(int \<Rightarrow> nat \<Rightarrow> int \<Rightarrow> int) \<Rightarrow> string \<times> string \<Rightarrow> FlagSet \<Rightarrow> FlagSet" where
  "set_flag frac s = AList.update (fst s) (the (flag_value frac (fst s) (snd s)))"

text \<open>Every name above is that of a flag of its kind.\<close>

definition has_flags :: "FlagSet \<Rightarrow> bool" where
  "has_flags fs \<longleftrightarrow> (\<forall>n \<in> set string_flags. \<exists>v. map_of fs n = Some (StringFlag v))
     \<and> (\<forall>n \<in> set duration_flags. \<exists>d. map_of fs n = Some (DurationFlag d))
     \<and> (\<forall>n \<in> set bool_flags. \<exists>b. map_of fs n = Some (BoolFlag b))"

lemma flags_have: "has_flags (flags frac lookup)"
  by (simp add: has_flags_def flag_lists flags_def registerRuntimeFlags_def)

lemma kinds_disjoint:
  "n \<in> set duration_flags \<Longrightarrow> n \<notin> set string_flags"
  "n \<in> set bool_flags \<Longrightarrow> n \<notin> set string_flags"
  "n \<in> set bool_flags \<Longrightarrow> n \<notin> set duration_flags"
  by (auto simp: flag_lists)

lemma flag_set_value:
  assumes "has_flags fs" "n \<in> set (string_flags @ duration_flags @ bool_flags)" "map_of fs n = Some cur"
  shows "case flag_value frac n v of None \<Rightarrow> \<exists>err. flag_set frac cur v = Inl err
    | Some new \<Rightarrow> flag_set frac cur v = Inr new"
    "is_bool cur \<longleftrightarrow> n \<in> set bool_flags"
proof -
  consider "n \<in> set string_flags" | "n \<in> set duration_flags" | "n \<in> set bool_flags" using assms(2) by auto
  then show "case flag_value frac n v of None \<Rightarrow> \<exists>err. flag_set frac cur v = Inl err
      | Some new \<Rightarrow> flag_set frac cur v = Inr new"
    "is_bool cur \<longleftrightarrow> n \<in> set bool_flags"
    using assms(1,3) kinds_disjoint
    by (cases; fastforce simp: has_flags_def flag_value_def split: option.splits)+
qed

lemma has_flags_set:
  assumes "has_flags fs" "flag_value frac (fst s) (snd s) \<noteq> None"
  shows "has_flags (set_flag frac s fs)"
  using assms kinds_disjoint
  by (auto simp: has_flags_def set_flag_def update_conv flag_value_def split: if_splits)

lemma split_flag_setting:
  assumes "n \<noteq> []" "CHR ''='' \<notin> set n"
  shows "split_flag (n @ ''='' @ v) = (n, Some v)" "split_flag n = (n, None)"
proof -
  obtain c cs where n: "n = c # cs" using assms(1) by (cases n) auto
  with assms(2) have "takeWhile (\<lambda>c. c \<noteq> CHR ''='') (cs @ CHR ''='' # v) = cs"
    by (subst takeWhile_append2) auto
  with n show "split_flag (n @ ''='' @ v) = (n, Some v)" by (simp add: split_flag_def)
  from n assms(2) have all: "takeWhile (\<lambda>c. c \<noteq> CHR ''='') cs = cs" by (auto simp: takeWhile_eq_all_conv)
  show "split_flag n = (n, None)" by (simp add: split_flag_def Let_def n all)
qed

lemma flag_name:
  assumes "n \<in> set (string_flags @ duration_flags @ bool_flags)"
  shows "n \<noteq> []" "CHR ''='' \<notin> set n" "hd n \<noteq> CHR ''-''" "hd n \<noteq> CHR ''=''"
  using assms by (auto simp: flag_lists)

text \<open>What one flag does to the flags.\<close>

lemma parse_dashed:
  assumes "t \<noteq> []" "hd t \<noteq> CHR ''-''" "hd t \<noteq> CHR ''=''"
  shows "parse_flags frac fs ((dashes two @ t) # args) =
    (let (n, val) = split_flag t in
     (case map_of fs n of
        None \<Rightarrow>
          if n = ''help'' \<or> n = ''h'' then Inl (NewError ''flag: help requested'')
          else Inl (NewError (''flag provided but not defined: -'' @ n))
      | Some cur \<Rightarrow>
          if is_bool cur then
            (case flag_set frac cur (case val of None \<Rightarrow> ''true'' | Some v \<Rightarrow> v) of
               Inl err \<Rightarrow> Inl (bad_bool n (case val of None \<Rightarrow> ''true'' | Some v \<Rightarrow> v) err)
             | Inr new \<Rightarrow> parse_flags frac (AList.update n new fs) args)
          else
            (case val of
               Some v \<Rightarrow>
                 (case flag_set frac cur v of
                    Inl err \<Rightarrow> Inl (bad_value n v err)
                  | Inr new \<Rightarrow> parse_flags frac (AList.update n new fs) args)
             | None \<Rightarrow>
                 (case args of
                    [] \<Rightarrow> Inl (NewError (''flag needs an argument: -'' @ n))
                  | v # rest \<Rightarrow>
                      (case flag_set frac cur v of
                         Inl err \<Rightarrow> Inl (bad_value n v err)
                       | Inr new \<Rightarrow> parse_flags frac (AList.update n new fs) rest)))))"
proof -
  obtain c cs where "t = c # cs" using assms(1) by (cases t) auto
  with assms(2,3) show ?thesis by (cases two) (simp_all add: dashes_def)
qed

lemma parse_setting:
  assumes "has_flags fs" "proper s"
    and "parse_flags frac fs (flag_args s @ args) = Inr fs'"
  shows "flag_value frac (fst (setting s)) (snd (setting s)) \<noteq> None
    \<and> parse_flags frac (set_flag frac (setting s) fs) args = Inr fs'"
proof -
  let ?n = "fst (setting s)" and ?v = "snd (setting s)"
  have n: "?n \<in> set (string_flags @ duration_flags @ bool_flags)"
    using assms(2) by (cases s) auto
  note name = flag_name [OF n]
  from assms(1) n obtain cur where cur: "map_of fs ?n = Some cur" by (auto simp: has_flags_def)
  note read = flag_set_value [OF assms(1) n cur]
  have "case flag_set frac cur ?v of Inl err \<Rightarrow> False
      | Inr new \<Rightarrow> parse_flags frac (AList.update ?n new fs) args = Inr fs'"
  proof (cases s)
    case (Joined two m v)
    from assms(3) show ?thesis
      using parse_dashed [of "m @ ''='' @ v" frac fs two args] name cur split_flag_setting [OF name(1,2)]
      by (simp add: Joined split: if_splits sum.splits)
  next
    case (Apart two m v)
    with assms(2) kinds_disjoint have "\<not> is_bool cur" using read(2) by auto
    with assms(3) show ?thesis
      using parse_dashed [of m frac fs two "v # args"] name cur split_flag_setting(2) [OF name(1,2)]
      by (simp add: Apart split: sum.splits)
  next
    case (Switch two m)
    with assms(2) have "is_bool cur" using read(2) by auto
    with assms(3) show ?thesis
      using parse_dashed [of m frac fs two args] name cur split_flag_setting(2) [OF name(1,2)]
      by (simp add: Switch split: sum.splits)
  qed
  with read(1) [of frac ?v] show ?thesis
    by (auto simp: set_flag_def split: option.splits sum.splits)
qed

lemma parse_settings:
  assumes "has_flags fs" "list_all proper ss"
    and "parse_flags frac fs (concat (map flag_args ss)) = Inr fs'"
  shows "fs' = fold (set_flag frac) (map setting ss) fs
    \<and> (\<forall>(n, v) \<in> set (map setting ss). flag_value frac n v \<noteq> None)"
  using assms
proof (induction ss arbitrary: fs)
  case (Cons s ss)
  then have "proper s" "parse_flags frac fs (flag_args s @ concat (map flag_args ss)) = Inr fs'" by simp_all
  note step = parse_setting [OF Cons.prems(1) this]
  with has_flags_set [OF Cons.prems(1)] have "has_flags (set_flag frac (setting s) fs)" by blast
  from Cons.IH [OF this] Cons.prems(2) step show ?case by (auto simp: case_prod_unfold)
qed simp

lemma map_of_set_flags:
  "map_of (fold (set_flag frac) settings fs) n =
     (case map_of (rev settings) n of
        Some v \<Rightarrow> Some (the (flag_value frac n v))
      | None \<Rightarrow> map_of fs n)"
  by (induction settings arbitrary: fs)
    (auto simp: set_flag_def update_conv map_of_append map_add_def split: option.splits)

section \<open>Precedence\<close>

text \<open>The last flag of a name, then a variable that is not empty, then the default.\<close>

definition chosen :: "(string \<times> string) list \<Rightarrow> environment \<Rightarrow> string \<Rightarrow> string \<Rightarrow> string \<Rightarrow> string" where
  "chosen settings lookup name key fallback =
     (case map_of (rev settings) name of
        Some v \<Rightarrow> v
      | None \<Rightarrow> if lookup key \<in> {None, Some ''''} then fallback else the (lookup key))"

text \<open>The same for a value that is read from text: a variable that cannot be read counts as unset.\<close>

definition chosen_value ::
  "(string \<Rightarrow> 'a option) \<Rightarrow> (string \<times> string) list \<Rightarrow> environment \<Rightarrow> string \<Rightarrow> string \<Rightarrow> 'a \<Rightarrow> 'a" where
  "chosen_value parse settings lookup name key fallback =
     (case map_of (rev settings) name of
        Some v \<Rightarrow> the (parse v)
      | None \<Rightarrow>
          (case Option.bind (lookup key) parse of Some x \<Rightarrow> x | None \<Rightarrow> fallback))"

lemma env_chosen: "env lookup key fallback =
    (if lookup key \<in> {None, Some ''''} then fallback else the (lookup key))"
  by (auto simp: env_def split: option.splits)

lemma string_of_chosen:
  assumes "n \<in> set string_flags" "map_of fs n = Some (StringFlag (env lookup key fallback))"
  shows "string_of (fold (set_flag frac) settings fs) n = chosen settings lookup n key fallback"
  using assms
  by (simp add: string_of_def map_of_set_flags chosen_def env_chosen flag_value_def split: option.split)

lemma duration_of_chosen:
  assumes "\<forall>(n, v) \<in> set settings. flag_value frac n v \<noteq> None" "n \<in> set duration_flags"
    and "map_of fs n = Some (DurationFlag (envDuration frac lookup key fallback))"
  shows "duration_of (fold (set_flag frac) settings fs) n
    = chosen_value (ParseDuration frac) settings lookup n key fallback"
proof (cases "map_of (rev settings) n")
  case None
  with assms(3) show ?thesis
    by (simp add: duration_of_def map_of_set_flags chosen_value_def envDuration_def
        split: option.split bind_split)
next
  case (Some v)
  then have "(n, v) \<in> set settings" by (auto dest: map_of_SomeD)
  with assms(1) have "flag_value frac n v \<noteq> None" by fast
  with assms(2) kinds_disjoint(1) have "ParseDuration frac v \<noteq> None" by (auto simp: flag_value_def)
  with Some assms(2) kinds_disjoint(1) show ?thesis
    by (auto simp: duration_of_def map_of_set_flags chosen_value_def flag_value_def)
qed

lemma bool_of_chosen:
  assumes "\<forall>(n, v) \<in> set settings. flag_value frac n v \<noteq> None" "n \<in> set bool_flags"
    and "map_of fs n = Some (BoolFlag (envBool lookup key fallback))"
  shows "bool_of (fold (set_flag frac) settings fs) n
    = chosen_value ParseBool settings lookup n key fallback"
proof (cases "map_of (rev settings) n")
  case None
  with assms(3) show ?thesis
    by (simp add: bool_of_def map_of_set_flags chosen_value_def envBool_def split: option.split bind_split)
next
  case (Some v)
  then have "(n, v) \<in> set settings" by (auto dest: map_of_SomeD)
  with assms(1) have "flag_value frac n v \<noteq> None" by fast
  with assms(2) kinds_disjoint(2,3) have "ParseBool v \<noteq> None" by (auto simp: flag_value_def)
  with Some assms(2) kinds_disjoint(2,3) show ?thesis
    by (auto simp: bool_of_def map_of_set_flags chosen_value_def flag_value_def)
qed

lemma Get_cases:
  assumes "appconfig_Get L dotenv environ args = Configured c"
  obtains fs u db_file where
    "parse_flags (config_frac L) (flags (config_frac L) (godotenv_Load dotenv environ)) args = Inr fs"
    "url_Parse (config_authority L) (string_of fs ''database-url'') = Inr u"
    "ConnectionString (config_unescape L) u = Some db_file"
    "validate (config_of fs db_file) = None" "c = config_of fs db_file"
  using assms by (auto simp: appconfig_Get_def Let_def split: sum.splits option.splits)

lemma string_defaults:
  "map_of (flags frac lookup) ''addr'' = Some (StringFlag (env lookup ''STARTERKIT_ADDR'' ''127.0.0.1:7301''))"
  "map_of (flags frac lookup) ''public-url'' = Some (StringFlag (env lookup ''STARTERKIT_PUBLIC_URL'' ''http://panel.sk.localbox''))"
  "map_of (flags frac lookup) ''base-path'' = Some (StringFlag (env lookup ''STARTERKIT_BASE_PATH'' ''/_system/starterkit''))"
  "map_of (flags frac lookup) ''database-url'' = Some (StringFlag (env lookup ''DATABASE_URL'' ''sqlite:data.sqlite3''))"
  "map_of (flags frac lookup) ''oidc-issuer'' = Some (StringFlag (env lookup ''STARTERKIT_OIDC_ISSUER'' ''http://dex.sk.localbox/dex''))"
  "map_of (flags frac lookup) ''oidc-client-id'' = Some (StringFlag (env lookup ''STARTERKIT_OIDC_CLIENT_ID'' ''starterkit''))"
  "map_of (flags frac lookup) ''sign-out-url'' = Some (StringFlag (env lookup ''STARTERKIT_SIGN_OUT_URL'' ''/oauth2/sign_out''))"
  "map_of (flags frac lookup) ''bootstrap-admin'' = Some (StringFlag (env lookup ''STARTERKIT_BOOTSTRAP_ADMIN'' ''''))"
  "map_of (flags frac lookup) ''log-level'' = Some (StringFlag (env lookup ''STARTERKIT_LOG_LEVEL'' ''info''))"
  "map_of (flags frac lookup) ''audit-purge-spec'' = Some (StringFlag (env lookup ''STARTERKIT_AUDIT_PURGE_SPEC'' ''0 4 * * *''))"
  "map_of (flags frac lookup) ''notifier-from'' = Some (StringFlag (env lookup ''STARTERKIT_NOTIFIER_FROM'' ''noreply@example.invalid''))"
  "map_of (flags frac lookup) ''trusted-proxies'' = Some (StringFlag (env lookup ''STARTERKIT_TRUSTED_PROXIES'' ''127.0.0.1/32,::1/128''))"
  "map_of (flags frac lookup) ''metrics-addr'' = Some (StringFlag (env lookup ''STARTERKIT_METRICS_ADDR'' ''127.0.0.1:7302''))"
  by (simp_all add: flags_def registerRuntimeFlags_def DefaultConfig_def)

lemma other_defaults:
  "map_of (flags frac lookup) ''audit-retention'' = Some (DurationFlag (envDuration frac lookup
     ''STARTERKIT_AUDIT_RETENTION'' (30 * 24 * 3600 * ns_per_s)))"
  "map_of (flags frac lookup) ''metrics-interval'' = Some (DurationFlag (envDuration frac lookup
     ''STARTERKIT_METRICS_INTERVAL'' (30 * ns_per_s)))"
  "map_of (flags frac lookup) ''shutdown-delay'' = Some (DurationFlag (envDuration frac lookup
     ''STARTERKIT_SHUTDOWN_DELAY'' 0))"
  "map_of (flags frac lookup) ''shutdown-timeout'' = Some (DurationFlag (envDuration frac lookup
     ''STARTERKIT_SHUTDOWN_TIMEOUT'' (15 * ns_per_s)))"
  "map_of (flags frac lookup) ''dev'' = Some (BoolFlag (envBool lookup ''STARTERKIT_DEV_MODE'' False))"
  by (simp_all add: flags_def registerRuntimeFlags_def DefaultConfig_def)

lemma listed_flags:
  "list_all (\<lambda>n. n \<in> set string_flags)
    [''addr'', ''public-url'', ''base-path'', ''database-url'', ''oidc-issuer'', ''oidc-client-id'',
     ''sign-out-url'', ''bootstrap-admin'', ''log-level'', ''audit-purge-spec'', ''notifier-from'',
     ''trusted-proxies'', ''metrics-addr'']"
  "list_all (\<lambda>n. n \<in> set duration_flags)
    [''audit-retention'', ''metrics-interval'', ''shutdown-delay'', ''shutdown-timeout'']"
  "''dev'' \<in> set bool_flags"
  by (simp_all add: flag_lists)

lemmas chosen_strings = string_defaults [THEN string_of_chosen [rotated]]

text \<open>
  C36. Flags win over the environment, and the environment over the defaults. For a command line
  of flags, written in any of the ways there are, each of the eighteen settings of the result is
  the value of the last flag of its name, otherwise that of the variable of the environment (or of
  the file it is extended from), otherwise the default; an empty variable of a text counts as
  unset, and so does one that cannot be read as the duration or the truth value it stands for. A
  flag that cannot be read is an error: every configuration has its flags' values.
\<close>

theorem config_precedence:
  fixes L dotenv environ ss
  defines "lookup \<equiv> godotenv_Load dotenv environ" and "settings \<equiv> map setting ss"
    and "duration \<equiv> ParseDuration (config_frac L)"
  assumes "list_all proper ss"
    and "appconfig_Get L dotenv environ (concat (map flag_args ss)) = Configured c"
  shows "(\<forall>(n, v) \<in> set settings. flag_value (config_frac L) n v \<noteq> None)
    \<and> Config_Addr c = chosen settings lookup ''addr'' ''STARTERKIT_ADDR'' ''127.0.0.1:7301''
    \<and> Config_PublicURL c = chosen settings lookup ''public-url'' ''STARTERKIT_PUBLIC_URL'' ''http://panel.sk.localbox''
    \<and> Config_BasePath c = chosen settings lookup ''base-path'' ''STARTERKIT_BASE_PATH'' ''/_system/starterkit''
    \<and> Config_DatabaseURL c = chosen settings lookup ''database-url'' ''DATABASE_URL'' ''sqlite:data.sqlite3''
    \<and> Config_OIDCIssuer c = chosen settings lookup ''oidc-issuer'' ''STARTERKIT_OIDC_ISSUER'' ''http://dex.sk.localbox/dex''
    \<and> Config_OIDCClientID c = chosen settings lookup ''oidc-client-id'' ''STARTERKIT_OIDC_CLIENT_ID'' ''starterkit''
    \<and> Config_SignOutURL c = chosen settings lookup ''sign-out-url'' ''STARTERKIT_SIGN_OUT_URL'' ''/oauth2/sign_out''
    \<and> Config_BootstrapAdmin c = chosen settings lookup ''bootstrap-admin'' ''STARTERKIT_BOOTSTRAP_ADMIN'' ''''
    \<and> Config_LogLevel c = chosen settings lookup ''log-level'' ''STARTERKIT_LOG_LEVEL'' ''info''
    \<and> Config_AuditPurgeSpec c = chosen settings lookup ''audit-purge-spec'' ''STARTERKIT_AUDIT_PURGE_SPEC'' ''0 4 * * *''
    \<and> Config_NotifierFrom c = chosen settings lookup ''notifier-from'' ''STARTERKIT_NOTIFIER_FROM'' ''noreply@example.invalid''
    \<and> Config_TrustedProxies c = clientip_Parse
        (chosen settings lookup ''trusted-proxies'' ''STARTERKIT_TRUSTED_PROXIES'' ''127.0.0.1/32,::1/128'')
    \<and> metrics_Addr (Config_Metrics c) = chosen settings lookup ''metrics-addr'' ''STARTERKIT_METRICS_ADDR'' ''127.0.0.1:7302''
    \<and> Config_AuditRetention c = chosen_value duration settings lookup ''audit-retention''
        ''STARTERKIT_AUDIT_RETENTION'' (30 * 24 * 3600 * ns_per_s)
    \<and> metrics_UpdateInterval (Config_Metrics c) = chosen_value duration settings lookup ''metrics-interval''
        ''STARTERKIT_METRICS_INTERVAL'' (30 * ns_per_s)
    \<and> Config_ShutdownDelay c = chosen_value duration settings lookup ''shutdown-delay''
        ''STARTERKIT_SHUTDOWN_DELAY'' 0
    \<and> Config_ShutdownTimeout c = chosen_value duration settings lookup ''shutdown-timeout''
        ''STARTERKIT_SHUTDOWN_TIMEOUT'' (15 * ns_per_s)
    \<and> Config_DevMode c = chosen_value ParseBool settings lookup ''dev'' ''STARTERKIT_DEV_MODE'' False"
proof -
  let ?frac = "config_frac L"
  let ?fs = "flags ?frac lookup"
  from assms(5) obtain fs db_file
    where fs: "parse_flags ?frac ?fs (concat (map flag_args ss)) = Inr fs" and c: "c = config_of fs db_file"
    unfolding lookup_def by (rule Get_cases)
  note parsed = parse_settings [OF flags_have assms(4) fs, folded settings_def]
  then have readable: "\<forall>(n, v) \<in> set settings. flag_value ?frac n v \<noteq> None"
    and c: "c = config_of (fold (set_flag ?frac) settings ?fs) db_file" using c by blast+
  note durations = other_defaults(1-4) [THEN duration_of_chosen [OF readable, rotated]]
  note dev = other_defaults(5) [THEN bool_of_chosen [OF readable, rotated]]
  show ?thesis
    unfolding c config_of_def duration_def using readable listed_flags
    by (simp add: chosen_strings durations dev)
qed

definition demo_config_libs :: config_libs where
  "demo_config_libs =
     \<lparr>config_frac = (\<lambda>f scale unit. f * unit div 10 ^ scale), config_authority = (\<lambda>s. Inr (None, s)),
      config_unescape = Some\<rparr>"

definition demo_environ :: environment where
  "demo_environ = [''STARTERKIT_LOG_LEVEL'' \<mapsto> ''debug'', ''STARTERKIT_ADDR'' \<mapsto> '':7000'',
     ''STARTERKIT_TRUSTED_PROXIES'' \<mapsto> '''']"

definition demo_settings :: "flag_setting list" where
  "demo_settings = [Joined False ''addr'' '':9000'', Apart True ''addr'' '':9001'',
     Joined True ''shutdown-delay'' ''5s'', Switch False ''dev'', Joined False ''notifier-from'' ''panel@example.com'']"

lemma demo_get:
  obtains c where
    "appconfig_Get demo_config_libs (\<lambda>_. None) demo_environ (concat (map flag_args demo_settings)) = Configured c"
proof -
  have "case appconfig_Get demo_config_libs (\<lambda>_. None) demo_environ (concat (map flag_args demo_settings)) of
      Configured c \<Rightarrow> True | _ \<Rightarrow> False"
    by code_simp
  then show thesis using that by (auto split: config_result.splits)
qed

theorem config_precedence_witness:
  "\<exists>c. appconfig_Get demo_config_libs (\<lambda>_. None) demo_environ (concat (map flag_args demo_settings)) = Configured c
     \<and> Config_Addr c = '':9001'' \<and> Config_BasePath c = ''/_system/starterkit'' \<and> Config_LogLevel c = ''debug''
     \<and> Config_TrustedProxies c = clientip_Parse ''127.0.0.1/32,::1/128'' \<and> Config_DevMode c
     \<and> Config_ShutdownDelay c = 5 * ns_per_s \<and> Config_ShutdownTimeout c = 15 * ns_per_s"
proof -
  from demo_get obtain c where c: "appconfig_Get demo_config_libs (\<lambda>_. None) demo_environ
      (concat (map flag_args demo_settings)) = Configured c" .
  have proper: "list_all proper demo_settings" by (simp add: demo_settings_def flag_lists)
  have read: "ParseDuration (config_frac demo_config_libs) ''5s'' = Some (5 * ns_per_s)"
    "ParseBool ''true'' = Some True"
    by code_simp+
  show ?thesis
    using config_precedence [OF proper c] c read
    by (simp add: chosen_def chosen_value_def demo_settings_def demo_environ_def godotenv_Load_def)
qed

text \<open>
  C37. Whatever the command line and the environment are, a configuration the server starts with
  has a base path that starts with a slash and does not end with one, an issuer, a client id and
  a sender that are not empty, the trusted prefixes that were written, the database file that
  its URL names and the metrics' fixed path and namespace. Everything else is an error: Get
  never answers with a half-filled configuration.
\<close>

theorem config_checked:
  assumes "appconfig_Get L dotenv environ args = Configured c"
  shows "(\<exists>p. Config_BasePath c = ''/'' @ p \<and> (p = [] \<or> last p \<noteq> CHR ''/'')) \<and> Config_BasePath c \<noteq> ''/''
    \<and> Config_OIDCIssuer c \<noteq> '''' \<and> Config_OIDCClientID c \<noteq> '''' \<and> Config_NotifierFrom c \<noteq> ''''
    \<and> (\<exists>u. url_Parse (config_authority L) (Config_DatabaseURL c) = Inr u
          \<and> ConnectionString (config_unescape L) u = Some (Config_DatabaseFile c))
    \<and> metrics_Path (Config_Metrics c) = ''/metrics'' \<and> metrics_Namespace (Config_Metrics c) = ''starterkit''"
proof -
  from assms obtain fs u db_file where c: "c = config_of fs db_file" "validate c = None"
    and u: "url_Parse (config_authority L) (string_of fs ''database-url'') = Inr u"
      "ConnectionString (config_unescape L) u = Some db_file"
    by (metis Get_cases)
  have base: "HasPrefix (Config_BasePath c) ''/'' \<and> \<not> HasSuffix (Config_BasePath c) ''/''
      \<and> Config_OIDCIssuer c \<noteq> '''' \<and> Config_OIDCClientID c \<noteq> '''' \<and> Config_NotifierFrom c \<noteq> ''''"
    using c(2) by (simp add: validate_def split: if_splits)
  then obtain p where p: "Config_BasePath c = ''/'' @ p" by (auto simp: HasPrefix_def prefix_def)
  with base have "p = [] \<or> last p \<noteq> CHR ''/''" "Config_BasePath c \<noteq> ''/''"
    by (auto simp: HasSuffix_def suffix_def) (metis append_butlast_last_id append_Cons)
  with base p u show ?thesis by (simp add: c(1) config_of_def DefaultConfig_def)
qed

theorem config_checked_witness:
  "\<exists>c. appconfig_Get demo_config_libs (\<lambda>_. None) demo_environ (concat (map flag_args demo_settings)) = Configured c
     \<and> Config_OIDCIssuer c \<noteq> ''''"
  using demo_get config_checked by metis

text \<open>A variable that is set to nothing counts as unset: for the proxies it means the default ones.\<close>

lemma empty_proxies_variable:
  "env (lookup(''STARTERKIT_TRUSTED_PROXIES'' \<mapsto> '''')) ''STARTERKIT_TRUSTED_PROXIES'' fallback = fallback"
  by (simp add: env_def)

end
