(* ===== verification/ServerProps.thy ===== *)
theory ServerProps
  imports Server ConfigProps
begin

text \<open>
  The process drains before it lets go of the database (C38), and a start that fails leaves
  nothing open (C39).
\<close>

section \<open>Draining\<close>

fun result_of :: "main_pc \<Rightarrow> go_error option option" where
  "result_of Serving = None"
| "result_of AwaitDrained = None"
| "result_of (StoppingCron err) = Some err"
| "result_of (ClosingConns err) = Some err"
| "result_of (ReleasingSignals err) = Some err"
| "result_of (Exited err) = Some err"

fun cron_over :: "main_pc \<Rightarrow> bool" where
  "cron_over (ClosingConns err) = True"
| "cron_over (ReleasingSignals err) = True"
| "cron_over (Exited err) = True"
| "cron_over _ = False"

fun conns_over :: "main_pc \<Rightarrow> bool" where
  "conns_over (ReleasingSignals err) = True"
| "conns_over (Exited err) = True"
| "conns_over _ = False"

definition failed :: "server \<Rightarrow> bool" where
  "failed s \<longleftrightarrow> (\<exists>err. result_of (sv_main s) = Some (Some err))"

text \<open>What holds of the two threads in every reachable state.\<close>

definition orderly :: "server \<Rightarrow> bool" where
  "orderly s \<longleftrightarrow>
     (cron_over (sv_main s) \<longrightarrow> stop_returns (sv_cron s))
     \<and> (sv_conns_open s \<longleftrightarrow> \<not> conns_over (sv_main s))
     \<and> (sv_drain s \<noteq> AwaitSignal \<longrightarrow> \<not> sv_ready s)
     \<and> (sv_drain s \<in> {Draining, ShuttingMetrics, Drained} \<longrightarrow> \<not> sv_listening s)
     \<and> (\<not> sv_listening s \<longrightarrow> sv_drain s \<in> {Draining, ShuttingMetrics, Drained} \<or> failed s)
     \<and> (sv_drain s \<in> {ShuttingMetrics, Drained} \<longrightarrow> sv_inflight s = 0 \<or> sv_cut s)
     \<and> (sv_main s = AwaitDrained \<longrightarrow> sv_drain s \<in> {Draining, ShuttingMetrics, Drained})
     \<and> (result_of (sv_main s) = Some None \<longrightarrow> sv_drain s = Drained)
     \<and> (sv_drain s = Drained \<longrightarrow> \<not> sv_metrics_listening s)"

lemma stop_returns_idle:
  assumes "stop_returns r" "goroutine_step r r'"
  shows False
  using goroutine_works(1) [OF assms(2)] assms(1) by (simp add: stop_returns_def goroutine_work_def)

lemma orderly_step:
  assumes "server_act config s s'" "orderly s"
  shows "orderly s'"
  using assms(1)
proof cases
  case (tick j)
  then show ?thesis using assms(2) by (simp add: orderly_def failed_def stop_returns_def)
next
  case (cron_goroutine r)
  then have "\<not> stop_returns (sv_cron s)" using stop_returns_idle by blast
  with assms(2) have "\<not> cron_over (sv_main s)" unfolding orderly_def by blast
  with cron_goroutine assms(2) show ?thesis by (simp add: orderly_def failed_def)
next
  case request
  then have "sv_drain s \<notin> {Draining, ShuttingMetrics, Drained}" "sv_main s \<noteq> AwaitDrained"
    using assms(2) unfolding orderly_def by blast+
  with request assms(2) show ?thesis by (simp add: orderly_def failed_def)
next
  case answer
  then have "sv_drain s \<in> {ShuttingMetrics, Drained} \<longrightarrow> sv_inflight s - 1 = 0 \<or> sv_cut s"
    using assms(2) unfolding orderly_def by auto
  with answer assms(2) show ?thesis by (simp add: orderly_def failed_def)
next
  case (serve_failed err)
  then show ?thesis using assms(2) by (simp add: orderly_def failed_def)
next
  case notice
  then show ?thesis using assms(2) by (simp add: orderly_def failed_def begin_shutdown_def)
next
  case (stop_cron err)
  then show ?thesis using assms(2) by (simp add: orderly_def failed_def)
next
  case (cron_stopped err)
  then show ?thesis using assms(2) by (simp add: orderly_def failed_def)
next
  case (close_conns err)
  then show ?thesis using assms(2) by (simp add: orderly_def failed_def)
next
  case (release err)
  then show ?thesis using assms(2) by (simp add: orderly_def failed_def)
next
  case drained
  then show ?thesis using assms(2) by (simp add: orderly_def failed_def)
next
  case serve_closed
  then show ?thesis using assms(2) by (simp add: orderly_def failed_def)
next
  case delayed
  then show ?thesis using assms(2) by (simp add: orderly_def failed_def)
next
  case shut
  then show ?thesis using assms(2) by (simp add: orderly_def failed_def close_listener_def)
next
  case drain_ok
  then show ?thesis using assms(2) by (simp add: orderly_def failed_def end_drain_def)
next
  case (drain_cut err)
  then show ?thesis using assms(2) by (simp add: orderly_def failed_def end_drain_def)
next
  case (metrics_shut err)
  then show ?thesis using assms(2) by (simp add: orderly_def failed_def end_metrics_def)
qed (use assms(2) in \<open>simp_all add: orderly_def failed_def\<close>)

lemma orderly_reachable:
  assumes "server_reachable b s"
  shows "orderly s"
  using assms unfolding server_reachable_def
proof (induction rule: rtranclp_induct)
  case base
  show ?case by (simp add: orderly_def server_started_def)
next
  case (step s s')
  then show ?case using orderly_step by (auto simp: server_step_def)
qed

text \<open>
  C38. The process drains before it lets go. In every state it can reach: the database is closed
  only after no cron job is in progress and none can begin, and, unless the listener itself
  failed or the shutdown time ran out, only when no request is in flight; the listener is closed
  only after readiness has been withdrawn (or by its own failure); and \<open>run\<close> returns without an
  error only after the whole drain, with both listeners and the database closed.
\<close>

theorem server_drains:
  assumes "server_reachable b s"
  shows "(\<not> sv_conns_open s \<longrightarrow> stop_returns (sv_cron s)
            \<and> (sv_inflight s = 0 \<or> sv_cut s \<or> failed s))
    \<and> (\<not> sv_listening s \<longrightarrow> \<not> sv_ready s \<or> failed s)
    \<and> (sv_main s = Exited None \<longrightarrow> sv_drain s = Drained \<and> \<not> sv_listening s
         \<and> \<not> sv_metrics_listening s \<and> \<not> sv_conns_open s)"
proof -
  have o: "cron_over (sv_main s) \<longrightarrow> stop_returns (sv_cron s)"
    "sv_conns_open s \<longleftrightarrow> \<not> conns_over (sv_main s)" "sv_drain s \<noteq> AwaitSignal \<longrightarrow> \<not> sv_ready s"
    "sv_drain s \<in> {Draining, ShuttingMetrics, Drained} \<longrightarrow> \<not> sv_listening s"
    "\<not> sv_listening s \<longrightarrow> sv_drain s \<in> {Draining, ShuttingMetrics, Drained} \<or> failed s"
    "sv_drain s \<in> {ShuttingMetrics, Drained} \<longrightarrow> sv_inflight s = 0 \<or> sv_cut s"
    "result_of (sv_main s) = Some None \<longrightarrow> sv_drain s = Drained"
    "sv_drain s = Drained \<longrightarrow> \<not> sv_metrics_listening s"
    using orderly_reachable [OF assms] unfolding orderly_def by - (elim conjE, assumption)+
  have over: "cron_over (sv_main s) \<and> (result_of (sv_main s) = Some None \<or> failed s)"
    if "conns_over (sv_main s)"
    using that by (cases "sv_main s") (auto simp: failed_def)
  show ?thesis
  proof (intro conjI impI)
    assume "\<not> sv_conns_open s"
    with o(2) have "conns_over (sv_main s)" by simp
    from over [OF this] o(1,6,7) show "stop_returns (sv_cron s)" "sv_inflight s = 0 \<or> sv_cut s \<or> failed s"
      by auto
  next
    assume "\<not> sv_listening s"
    with o(3,5) show "\<not> sv_ready s \<or> failed s" by auto
  next
    assume "sv_main s = Exited None"
    with o(2,4,7,8) show "sv_drain s = Drained" "\<not> sv_listening s" "\<not> sv_metrics_listening s"
      "\<not> sv_conns_open s" by auto
  qed
qed

lemma server_reachable_step:
  assumes "server_reachable b s" "\<And>err. sv_main s \<noteq> Exited err"
    and "server_act (app_config (proc_app (boot_process b))) s s'"
  shows "server_reachable b s'"
  using assms unfolding server_reachable_def server_step_def by (simp add: rtranclp.rtrancl_into_rtrancl)

definition demo_booted :: booted where
  "demo_booted =
     \<lparr>boot_process = \<lparr>proc_app = demo_app, proc_conns = \<lparr>set_Read = 0, set_Write = 1, set_Queue = 2\<rparr>,
        proc_gate = \<lparr>gate_verifier_ClientID = ''panel'', gate_issuer = ''https://dex.example.com''\<rparr>,
        proc_queue = \<lparr>queue_DB = 2, queue_Name = queue_name, queue_MaxReceive = 3, queue_Timeout = 300 * ns_per_s\<rparr>,
        proc_runner = \<lparr>runner_Limit = 2, runner_PollInterval = 2 * ns_per_s, runner_Log = logger_Discard\<rparr>,
        proc_cron = cronjobs_New, proc_metrics = metrics_New (Config_Metrics demo_config), proc_ready = True\<rparr>,
      boot_jobs = [], boot_cron = cron_Start (cronjobs_New\<lparr>cron_entries := [demo_job]\<rparr>),
      boot_server = main_server demo_config, boot_metrics_server = metrics_server demo_config\<rparr>"

lemma demo_booted_config [simp]: "app_config (proc_app (boot_process demo_booted)) = demo_config"
  by (simp add: demo_booted_def demo_app_def app_config_def)

definition demo_draining :: server where
  "demo_draining = close_listener (begin_shutdown demo_config
     ((server_started demo_booted)\<lparr>sv_cancelled := True\<rparr>))"

lemma demo_draining_fields:
  "sv_drain demo_draining = Draining" "sv_main demo_draining = Serving" "sv_cancelled demo_draining"
  "sv_inflight demo_draining = 0" "cron_started (sv_cron demo_draining)"
  "sv_cron demo_draining = cron_Start (cronjobs_New\<lparr>cron_entries := [demo_job]\<rparr>)"
  by (simp_all add: demo_draining_def close_listener_def begin_shutdown_def server_started_def
      demo_booted_def cron_Start_def)

lemma demo_draining_reachable: "server_reachable demo_booted demo_draining"
proof -
  let ?s = "(server_started demo_booted)\<lparr>sv_cancelled := True\<rparr>"
  have "server_reachable demo_booted (server_started demo_booted)" by (simp add: server_reachable_def)
  then have 1: "server_reachable demo_booted ?s"
    by (rule server_reachable_step) (simp add: server_started_def, rule server_act.signal)
  have notice: "server_act demo_config ?s (begin_shutdown demo_config ?s)"
    by (rule server_act.notice) (simp_all add: server_started_def)
  have 2: "server_reachable demo_booted (begin_shutdown demo_config ?s)"
    by (rule server_reachable_step [OF 1])
      (simp add: server_started_def, simp only: demo_booted_config notice)
  have shut: "server_act demo_config (begin_shutdown demo_config ?s) demo_draining"
    unfolding demo_draining_def
    by (rule server_act.shut) (simp add: begin_shutdown_def demo_config_def)
  show ?thesis
    by (rule server_reachable_step [OF 2])
      (simp add: begin_shutdown_def server_started_def, simp only: demo_booted_config shut)
qed

text \<open>The cron scheduler is stopped after the drain, not by the signal: it still starts jobs during it.\<close>

lemma cron_ticks_while_draining:
  "server_reachable demo_booted demo_draining \<and> sv_cancelled demo_draining
   \<and> sv_drain demo_draining = Draining
   \<and> server_step demo_config demo_draining
       (demo_draining\<lparr>sv_cron := cron_spawn demo_job (sv_cron demo_draining)\<rparr>)
   \<and> fst (run_enter demo_job (sv_cron demo_draining))"
proof -
  have "server_act demo_config demo_draining
      (demo_draining\<lparr>sv_cron := cron_spawn demo_job (sv_cron demo_draining)\<rparr>)"
    by (rule server_act.tick) (simp_all add: demo_draining_fields cron_Start_def)
  then show ?thesis
    by (simp add: demo_draining_reachable demo_draining_fields server_step_def run_enter_def
        cron_Start_def cronjobs_New_def)
qed

definition demo_closed :: server where
  "demo_closed = (end_metrics None (end_drain None demo_draining))
     \<lparr>sv_cron := cron_Stop (sv_cron demo_draining), sv_conns_open := False,
      sv_main := ReleasingSignals None\<rparr>"

lemma demo_closed_reachable: "server_reachable demo_booted demo_closed"
proof -
  let ?d = "end_metrics None (end_drain None demo_draining)"
  let ?c = "?d\<lparr>sv_main := StoppingCron None, sv_cron := cron_Stop (sv_cron demo_draining)\<rparr>"
  note defs = demo_draining_fields end_drain_def end_metrics_def
  have "server_reachable demo_booted (end_drain None demo_draining)"
    by (rule server_reachable_step [OF demo_draining_reachable])
      (simp_all add: demo_draining_fields server_act.drain_ok)
  then have "server_reachable demo_booted ?d"
    by (rule server_reachable_step) (simp add: defs, simp, rule server_act.metrics_shut, simp add: defs)
  then have "server_reachable demo_booted (?d\<lparr>sv_main := AwaitDrained\<rparr>)"
    by (rule server_reachable_step) (simp add: defs, simp, rule server_act.serve_closed, simp_all add: defs)
  then have "server_reachable demo_booted (?d\<lparr>sv_main := AwaitDrained\<rparr>\<lparr>sv_main := StoppingCron None\<rparr>)"
    by (rule server_reachable_step) (simp, rule server_act.drained, simp_all add: defs)
  then have "server_reachable demo_booted ?c"
    using server_act.stop_cron [of "?d\<lparr>sv_main := StoppingCron None\<rparr>" None demo_config]
    by - (rule server_reachable_step, assumption, simp, simp add: defs cron_Start_def)
  then have "server_reachable demo_booted (?c\<lparr>sv_main := ClosingConns None\<rparr>)"
    by (rule server_reachable_step) (simp, rule server_act.cron_stopped [where err = None],
        simp_all add: defs stop_returns_def cron_Stop_def cron_Start_def cronjobs_New_def)
  then have "server_reachable demo_booted (?c\<lparr>sv_main := ClosingConns None\<rparr>
      \<lparr>sv_conns_open := False, sv_main := ReleasingSignals None\<rparr>)"
    by (rule server_reachable_step) (simp, rule server_act.close_conns, simp)
  then show ?thesis by (simp add: demo_closed_def)
qed

theorem server_drains_witness:
  "\<not> sv_conns_open demo_closed \<and> stop_returns (sv_cron demo_closed)
   \<and> (sv_inflight demo_closed = 0 \<or> sv_cut demo_closed \<or> failed demo_closed)"
  using server_drains [OF demo_closed_reachable] by (simp add: demo_closed_def)

section \<open>Coming up\<close>

lemma registered_names:
  "set (map fst (registerJobs a [])) = {jobPurgeAuditLog, jobNotifyUserBanned}"
  by (auto simp: registerJobs_def jobs_Register_def RegisterJob_def jobs_env_def)

lemma registered_cron:
  "registerCronJobs parse_spec a cronjobs_New =
     (case parse_spec (Config_AuditPurgeSpec (app_config a)) of
        None \<Rightarrow> (None, cronjobs_New\<lparr>cron_entries := [purge_cron_job a]\<rparr>)
      | Some err \<Rightarrow> (Some (Errorf_w (''failed to schedule cron job '' @ jobPurgeAuditLog) err), cronjobs_New))"
  by (simp add: registerCronJobs_def cron_Add_def purge_cron_job_def cronjobs_New_def split: option.split)

text \<open>
  C39. A start that fails leaves nothing open, and one that succeeds is wired completely. If the
  configuration, the database, the issuer or the cron specification is refused, \<open>run\<close> returns
  the error and no pool that it opened is left. Otherwise the three pools are open, the app
  reads through the read pool and writes through the write pool, the two jobs have their
  handlers, the purge is scheduled, the gate's tokens are checked for the configured issuer and
  audience, and the server is ready.
\<close>

theorem boot_wires_or_closes:
  assumes "closes_its_own (server_setup S)" "fresh w" "run (run_boot S configured) w = (r, w')"
  shows "case r of
      Inl err \<Rightarrow> conns_open w' = conns_open w
    | Inr b \<Rightarrow> \<exists>config. configured = Configured config
        \<and> map snd (drop (length (conns_open w)) (conns_open w'))
            = [the_pool (Config_DatabaseFile config) True, the_pool (Config_DatabaseFile config) False,
               the_pool (Config_DatabaseFile config) False]
        \<and> base_app (proc_app (boot_process b)) \<and> app_config (proc_app (boot_process b)) = config
        \<and> set (map fst (boot_jobs b)) = {jobPurgeAuditLog, jobNotifyUserBanned}
        \<and> cron_entries (boot_cron b) = [purge_cron_job (proc_app (boot_process b))]
        \<and> cron_started (boot_cron b)
        \<and> proc_gate (boot_process b) = \<lparr>gate_verifier_ClientID = Config_OIDCClientID config,
             gate_issuer = Config_OIDCIssuer config\<rparr>
        \<and> sv_ready (server_started b)"
proof (cases configured)
  case (Configured config)
  obtain opened w1 where o: "run (db_Setup (server_setup S) (Config_DatabaseFile config)) w = (opened, w1)"
    by fastforce
  note pools = db_Setup_cases [OF assms(1,2) o]
  show ?thesis
  proof (cases opened)
    case (Inl err)
    with assms(3) o pools Configured show ?thesis by (auto simp: run_boot_def newApp_def)
  next
    case (Inr conns)
    show ?thesis
    proof (cases "server_discover S (Config_OIDCIssuer config)")
      case issuer: None
      show ?thesis
      proof (cases "server_parse_spec S (Config_AuditPurgeSpec config)")
        case None
        with assms(3) o pools Configured Inr issuer show ?thesis
          by (auto simp: run_boot_def newApp_def gateauth_New_def registered_cron Let_def
              base_app_def app_config_def db_New_def NewWriteQueries_def
              registered_names [simplified] cron_Start_def server_started_def)
      next
        case (Some err)
        with assms(3) o pools Configured Inr issuer show ?thesis
          by (auto simp: run_boot_def newApp_def gateauth_New_def registered_cron Let_def
              app_config_def case_prod_unfold)
      qed
    next
      case (Some err)
      with assms(3) o pools Configured Inr show ?thesis
        by (auto simp: run_boot_def newApp_def gateauth_New_def case_prod_unfold)
    qed
  qed
qed (use assms(3) in \<open>auto simp: run_boot_def\<close>)

definition demo_server_libs :: server_libs where
  "demo_server_libs =
     \<lparr>server_setup = demo_setup, server_discover = (\<lambda>_. Some (NewError ''no such host'')),
      server_parse_spec = (\<lambda>_. None), server_libs = demo_libs, server_GitCommit = ''dev''\<rparr>"

theorem boot_wires_or_closes_witness:
  "fst (run (run_boot demo_server_libs (Configured demo_config)) demo_conns) \<in> range Inl
   \<and> conns_open (snd (run (run_boot demo_server_libs (Configured demo_config)) demo_conns)) = []"
proof -
  let ?ran = "run (run_boot demo_server_libs (Configured demo_config)) demo_conns"
  obtain opened w1 where o: "run (db_Setup demo_setup (Config_DatabaseFile demo_config)) demo_conns = (opened, w1)"
    by fastforce
  have "\<exists>err. fst ?ran = Inl err"
    by (cases opened) (auto simp: run_boot_def newApp_def gateauth_New_def demo_server_libs_def o case_prod_unfold)
  then obtain err where err: "fst ?ran = Inl err" by blast
  have "closes_its_own (server_setup demo_server_libs)" "fresh demo_conns"
    by (simp_all add: demo_server_libs_def closes_its_own_def demo_setup_def fresh_def demo_conns_def)
  from boot_wires_or_closes [OF this surjective_pairing, of "Configured demo_config"] err
  show ?thesis by (simp add: demo_conns_def)
qed

end
