(* ===== verification/ServerEnds.thy ===== *)
theory ServerEnds
  imports ServerProps
begin

text \<open>
  After the signal the process ends (C40): its steps, and what can still arrive from outside.
\<close>

section \<open>Runs\<close>

text \<open>What comes from outside: a signal, a request, a job of the queue, a tick of the scheduler.\<close>

inductive arrives :: "server \<Rightarrow> server \<Rightarrow> bool" where
  signal: "arrives s (s\<lparr>sv_cancelled := True\<rparr>)"
| request: "arrives s (s\<lparr>sv_inflight := Suc (sv_inflight s)\<rparr>)"
| job: "\<not> sv_cancelled s \<Longrightarrow> arrives s (s\<lparr>sv_jobs := Suc (sv_jobs s)\<rparr>)"
| tick: "arrives s (s\<lparr>sv_cron := cron_spawn j (sv_cron s)\<rparr>)"

text \<open>
  \<open>server_run config n k m s t\<close>: from \<open>s\<close> to \<open>t\<close> in \<open>n\<close> steps, \<open>k\<close> of which are arrivals, \<open>m\<close> of
  these ticks.
\<close>

inductive server_run :: "Config \<Rightarrow> nat \<Rightarrow> nat \<Rightarrow> nat \<Rightarrow> server \<Rightarrow> server \<Rightarrow> bool" for config where
  start: "server_run config 0 0 0 s s"
| arrival: "server_run config n k m s t \<Longrightarrow> server_step config t u \<Longrightarrow> arrives t u \<Longrightarrow>
    server_run config (Suc n) (Suc k) (if sv_cron u = sv_cron t then m else Suc m) s u"
| own: "server_run config n k m s t \<Longrightarrow> server_step config t u \<Longrightarrow> \<not> arrives t u \<Longrightarrow>
    server_run config (Suc n) k m s u"

section \<open>What is left to do\<close>

fun main_left :: "main_pc \<Rightarrow> nat" where
  "main_left Serving = 5"
| "main_left AwaitDrained = 4"
| "main_left (StoppingCron err) = 3"
| "main_left (ClosingConns err) = 2"
| "main_left (ReleasingSignals err) = 1"
| "main_left (Exited err) = 0"

fun drain_left :: "drain_pc \<Rightarrow> nat" where
  "drain_left AwaitSignal = 5"
| "drain_left Delaying = 4"
| "drain_left ShuttingDown = 3"
| "drain_left Draining = 2"
| "drain_left ShuttingMetrics = 1"
| "drain_left Drained = 0"

definition work_left :: "server \<Rightarrow> nat" where
  "work_left s = main_left (sv_main s) + drain_left (sv_drain s)
     + (if cron_started (sv_cron s) then 1 else 0) + (if sv_cancelled s then 0 else 1)
     + sv_inflight s + sv_jobs s + goroutine_work (sv_cron s)"

lemma main_left_le: "main_left pc \<le> 5"
  by (cases pc) simp_all

lemma drain_left_le: "drain_left pc \<le> 5"
  by (cases pc) simp_all

lemma work_left_le:
  "sv_cancelled s \<Longrightarrow>
     work_left s \<le> 11 + sv_inflight s + sv_jobs s + goroutine_work (sv_cron s)"
  using main_left_le [of "sv_main s"] drain_left_le [of "sv_drain s"] by (simp add: work_left_def)

lemma spawn_work [simp]:
  "cron_started (cron_spawn j r) = cron_started r"
  "goroutine_work (cron_spawn j r) = Suc (Suc (goroutine_work r))"
  by (simp_all add: cron_spawn_def goroutine_work_def)

lemma spawn_other: "cron_spawn j r \<noteq> r"
proof
  assume "cron_spawn j r = r"
  then have "goroutine_work (cron_spawn j r) = goroutine_work r" by simp
  then show False by simp
qed

lemma stop_work [simp]:
  "cron_started (cron_Stop r) = False"
  "goroutine_work (cron_Stop r) = goroutine_work r"
  by (simp_all add: cron_Stop_def goroutine_work_def)

lemma arrives_work:
  assumes "arrives s s'"
  shows "work_left s' \<le> Suc (work_left s) + (if sv_cron s' = sv_cron s then 0 else 1)"
    "sv_cancelled s \<Longrightarrow> work_left s \<le> work_left s'"
  using assms by (cases; simp add: work_left_def spawn_other)+

lemma own_work:
  assumes "server_act config s s'" "\<not> arrives s s'"
  shows "work_left s' < work_left s"
  using assms(1)
proof cases
  case (cron_goroutine r)
  then show ?thesis using goroutine_works [of "sv_cron s" r] by (simp add: work_left_def)
qed (use assms(2) in \<open>auto simp: work_left_def begin_shutdown_def close_listener_def end_drain_def
       end_metrics_def intro: arrives.intros split: option.splits\<close>)

lemma server_run_work: "server_run config n k m s t \<Longrightarrow> work_left t + n \<le> work_left s + 2 * k + m"
proof (induction rule: server_run.induct)
  case (arrival n k m s t u)
  with arrives_work(1) [of t u] show ?case by (simp split: if_splits)
next
  case (own n k m s t u)
  with own_work [of config t u] show ?case by (simp add: server_step_def)
qed simp

section \<open>Until the exit there is a step\<close>

lemma server_act_keeps:
  assumes "server_act config s s'"
  shows "sv_cancelled s \<Longrightarrow> sv_cancelled s'"
    and "entered_jobs (sv_cron s) \<Longrightarrow> entered_jobs (sv_cron s')"
proof -
  show "sv_cancelled s'" if "sv_cancelled s"
    using assms that
    by cases (simp_all add: begin_shutdown_def close_listener_def end_drain_def end_metrics_def
        split: option.splits)
  have "sv_cron s' = sv_cron s \<or> cron_step (sv_cron s) (sv_cron s')"
    using assms
    by cases (auto simp: begin_shutdown_def close_listener_def end_drain_def end_metrics_def
        intro: cron_step.stop cron_step.goroutine cron_step.tick
        split: option.splits)
  then show "entered_jobs (sv_cron s')" if "entered_jobs (sv_cron s)"
    using that entered_jobs_step by metis
qed

definition closing :: "server \<Rightarrow> bool" where
  "closing s \<longleftrightarrow> sv_cancelled s \<and> entered_jobs (sv_cron s)"

lemma server_run_closing: "server_run config n k m s t \<Longrightarrow> closing s \<Longrightarrow> closing t"
  by (induction rule: server_run.induct)
    (auto simp: closing_def server_step_def dest: server_act_keeps)

text \<open>The goroutine that drains never waits for long: its deadline cuts what it waits for.\<close>

lemma drain_goes_on:
  assumes "sv_cancelled s" "sv_drain s \<noteq> Drained"
  shows "\<exists>s'. server_act config s s' \<and> work_left s' < work_left s"
proof -
  consider "sv_drain s = AwaitSignal" | "sv_drain s = Delaying" | "sv_drain s = ShuttingDown"
    | "sv_drain s = Draining" | "sv_drain s = ShuttingMetrics"
    using assms(2) by (cases "sv_drain s") auto
  then show ?thesis
  proof cases
    case 1
    show ?thesis
      by (rule exI [of _ "begin_shutdown config s"])
        (simp add: server_act.notice [OF 1 assms(1)], simp add: 1 work_left_def begin_shutdown_def)
  next
    case 2
    show ?thesis
      by (rule exI [of _ "s\<lparr>sv_drain := ShuttingDown\<rparr>"])
        (simp add: server_act.delayed [OF 2], simp add: 2 work_left_def)
  next
    case 3
    show ?thesis
      by (rule exI [of _ "close_listener s"])
        (simp add: server_act.shut [OF 3], simp add: 3 work_left_def close_listener_def)
  next
    case 4
    show ?thesis
      by (rule exI [of _ "end_drain (Some (Sentinel DeadlineExceeded)) s"])
        (simp add: server_act.drain_cut [OF 4], simp add: 4 work_left_def end_drain_def)
  next
    case 5
    show ?thesis
      by (rule exI [of _ "end_metrics None s"])
        (simp add: server_act.metrics_shut [OF 5], simp add: 5 work_left_def end_metrics_def)
  qed
qed

lemma stopping_goes_on:
  assumes "sv_main s = StoppingCron err" "entered_jobs (sv_cron s)"
  shows "\<exists>s'. server_act config s s' \<and> work_left s' < work_left s"
proof -
  consider "cron_started (sv_cron s)" | "stop_returns (sv_cron s)"
    | "0 < goroutine_work (sv_cron s)"
    by (auto simp: stop_returns_def goroutine_work_def)
  then show ?thesis
  proof cases
    case 1
    with server_act.stop_cron [OF assms(1) 1] show ?thesis
      by (fastforce simp: work_left_def)
  next
    case 2
    with server_act.cron_stopped [OF assms(1) 2] assms(1) show ?thesis
      by (fastforce simp: work_left_def)
  next
    case 3
    with goroutine_goes_on [OF assms(2)] obtain r where r: "goroutine_step (sv_cron s) r" by blast
    then have "work_left (s\<lparr>sv_cron := r\<rparr>) < work_left s"
      using goroutine_works [OF r] by (simp add: work_left_def)
    with server_act.cron_goroutine [OF r] show ?thesis by blast
  qed
qed

lemma main_goes_on:
  assumes "closing s" "\<And>err. sv_main s \<noteq> Exited err"
  shows "\<exists>s'. server_act config s s' \<and> work_left s' < work_left s"
proof (cases "sv_main s")
  case Serving
  show ?thesis
  proof (cases "sv_drain s = Drained")
    case True
    with server_act.serve_closed [OF Serving] Serving show ?thesis by (fastforce simp: work_left_def)
  qed (use assms(1) drain_goes_on in \<open>auto simp: closing_def\<close>)
next
  case AwaitDrained
  show ?thesis
  proof (cases "sv_drain s = Drained")
    case True
    with server_act.drained [OF AwaitDrained] AwaitDrained show ?thesis
      by (fastforce simp: work_left_def)
  qed (use assms(1) drain_goes_on in \<open>auto simp: closing_def\<close>)
next
  case (StoppingCron err)
  then show ?thesis using stopping_goes_on assms(1) by (simp add: closing_def)
next
  case (ClosingConns err)
  with server_act.close_conns [OF this] show ?thesis by (fastforce simp: work_left_def)
next
  case (ReleasingSignals err)
  with server_act.release [OF this] show ?thesis by (fastforce simp: work_left_def)
qed (use assms(2) in auto)

lemma own_step:
  assumes "closing s" "\<And>err. sv_main s \<noteq> Exited err"
  shows "\<exists>s'. server_step config s s' \<and> \<not> arrives s s'"
proof -
  from main_goes_on [OF assms] obtain s' where "server_act config s s'" "work_left s' < work_left s"
    by blast
  moreover from this(2) assms(1) have "\<not> arrives s s'"
    using arrives_work(2) by (fastforce simp: closing_def)
  ultimately show ?thesis using assms(2) by (auto simp: server_step_def)
qed

lemma server_run_exits:
  assumes "server_run config n k m s t" "closing t"
  shows "\<exists>i u err. i \<le> work_left t \<and> server_run config (n + i) k m s u \<and> sv_main u = Exited err"
  using assms
proof (induction "work_left t" arbitrary: n t rule: less_induct)
  case less
  show ?case
  proof (cases "\<exists>err. sv_main t = Exited err")
    case True
    with less.prems(1) show ?thesis by (intro exI [of _ 0]) auto
  next
    case False
    with own_step less.prems(2) obtain u where u: "server_step config t u" "\<not> arrives t u" by blast
    then have left: "work_left u < work_left t" using own_work unfolding server_step_def by blast
    have "closing u" using u(1) less.prems(2) server_act_keeps by (auto simp: closing_def server_step_def)
    with less.hyps [OF left server_run.own [OF less.prems(1) u]] obtain i v err
      where "i \<le> work_left u" "server_run config (Suc n + i) k m s v" "sv_main v = Exited err" by blast
    with left show ?thesis by (intro exI [of _ "Suc i"]) auto
  qed
qed

lemma reachable_entered:
  assumes "server_reachable b s" "cron_waiting (boot_cron b) = []" "cron_active (boot_cron b) = []"
  shows "entered_jobs (sv_cron s)"
  using assms(1) unfolding server_reachable_def
proof (induction rule: rtranclp_induct)
  case base
  show ?case by (simp add: entered_jobs_def server_started_def assms(2,3))
next
  case (step s s')
  then show ?case using server_act_keeps(2) by (auto simp: server_step_def)
qed

text \<open>What \<open>run_boot\<close> makes has no cron job in progress.\<close>

lemma boot_idle:
  assumes "run (run_boot S configured) w = (Inr b, w')"
  shows "cron_waiting (boot_cron b) = []" "cron_active (boot_cron b) = []"
proof -
  have "cron_waiting (snd (registerCronJobs parse_spec a cronjobs_New)) = []
      \<and> cron_active (snd (registerCronJobs parse_spec a cronjobs_New)) = []" for parse_spec a
    by (cases "parse_spec (Config_AuditPurgeSpec (app_config a))")
      (simp_all add: registered_cron, simp_all add: cronjobs_New_def)
  then show "cron_waiting (boot_cron b) = []" "cron_active (boot_cron b) = []"
    using assms
    by (auto simp: run_boot_def newApp_def cron_Start_def Let_def case_prod_unfold
        split: config_result.splits sum.splits option.splits if_splits)
qed

text \<open>
  C40. After the signal the process ends. From any reachable state in which the signal has come, a
  run in which \<open>k\<close> more things arrive from outside (requests, ticks, signals) has at most eleven
  steps, one for each request, job and cron job in progress, two for each tick whose goroutine has
  not begun, two for each arrival, and one more for each of them that is a tick (whose goroutine
  enters its job and ends it); wherever it stands it can go on to the end of \<open>run\<close> without a further
  arrival; and when it can only wait for arrivals, \<open>run\<close> has returned.
\<close>

theorem server_shutdown_ends:
  assumes "server_reachable b s" "cron_waiting (boot_cron b) = []" "cron_active (boot_cron b) = []"
    and "sv_cancelled s" "config = app_config (proc_app (boot_process b))" "server_run config n k m s t"
  shows "n \<le> 11 + sv_inflight s + sv_jobs s + length (cron_active (sv_cron s))
         + 2 * length (cron_waiting (sv_cron s)) + 2 * k + m
    \<and> (\<exists>i u err. server_run config (n + i) k m s u \<and> sv_main u = Exited err)
    \<and> ((\<forall>u. server_step config t u \<longrightarrow> arrives t u) \<longrightarrow> (\<exists>err. sv_main t = Exited err))"
proof -
  have "closing s" using reachable_entered [OF assms(1,2,3)] assms(4) by (simp add: closing_def)
  with assms(6) have closing: "closing t" by (rule server_run_closing)
  have "n \<le> 11 + sv_inflight s + sv_jobs s + length (cron_active (sv_cron s))
      + 2 * length (cron_waiting (sv_cron s)) + 2 * k + m"
    using server_run_work [OF assms(6)] work_left_le [OF assms(4)] by (simp add: goroutine_work_def)
  with closing show ?thesis
    using server_run_exits [OF assms(6)] own_step by fastforce
qed

theorem server_shutdown_ends_witness:
  "\<exists>i u err. server_run demo_config (Suc i) 1 1 demo_draining u \<and> sv_main u = Exited err"
proof -
  let ?t = "demo_draining\<lparr>sv_cron := cron_spawn demo_job (sv_cron demo_draining)\<rparr>"
  have idle: "cron_waiting (boot_cron demo_booted) = []" "cron_active (boot_cron demo_booted) = []"
    by (simp_all add: demo_booted_def cron_Start_def cronjobs_New_def)
  have "server_run demo_config (Suc 0) (Suc 0)
      (if sv_cron ?t = sv_cron demo_draining then 0 else Suc 0) demo_draining ?t"
    by (rule server_run.arrival [OF server_run.start]) (use cron_ticks_while_draining arrives.tick in blast)+
  then have "server_run demo_config (Suc 0) (Suc 0) (Suc 0) demo_draining ?t"
    by (simp add: spawn_other)
  from server_shutdown_ends [OF demo_draining_reachable idle demo_draining_fields(3) _ this]
  show ?thesis by simp
qed

end
