(* ===== verification/RoleJson.thy ===== *)
theory RoleJson
  imports GqlModel Json
begin

text \<open>
  The methods of \<open>ViewerRole\<close> in internal/graph/model/models_gen.go: it is a string with three
  values, written and read as a quoted string.
\<close>

definition role_String :: "ViewerRole \<Rightarrow> string" where
  "role_String e =
     (case e of ViewerRoleAdmin \<Rightarrow> ''ADMIN'' | ViewerRoleUser \<Rightarrow> ''USER'' | ViewerRoleGuest \<Rightarrow> ''GUEST'')"

definition AllViewerRole :: "ViewerRole list" where
  "AllViewerRole = [ViewerRoleAdmin, ViewerRoleUser, ViewerRoleGuest]"

definition role_IsValid :: "string \<Rightarrow> bool" where
  "role_IsValid e \<longleftrightarrow> e = ''ADMIN'' \<or> e = ''USER'' \<or> e = ''GUEST''"

text \<open>
  \<open>strconv.Quote\<close> and \<open>Unquote\<close> on text of printable ASCII without quotes and backslashes; what
  they do with other text is an argument.
\<close>

record quoting =
  quote_other :: "string \<Rightarrow> string"
  unquote_other :: "string \<Rightarrow> go_error + string"

definition plain_text :: "string \<Rightarrow> bool" where
  "plain_text s \<longleftrightarrow> list_all (\<lambda>c. 32 \<le> byte_val c \<and> byte_val c < 127 \<and> c \<noteq> quote \<and> c \<noteq> backslash) s"

definition strconv_Quote :: "quoting \<Rightarrow> string \<Rightarrow> string" where
  "strconv_Quote Q s = (if plain_text s then [quote] @ s @ [quote] else quote_other Q s)"

definition strconv_Unquote :: "quoting \<Rightarrow> string \<Rightarrow> go_error + string" where
  "strconv_Unquote Q s =
    (if 2 \<le> length s \<and> hd s = quote \<and> last s = quote \<and> plain_text (butlast (tl s))
     then Inr (butlast (tl s)) else unquote_other Q s)"

text \<open>The receiver gets the text before it is checked; the answer is its new value and the error.\<close>

definition role_UnmarshalGQL :: "json \<Rightarrow> string \<Rightarrow> string \<times> go_error option" where
  "role_UnmarshalGQL v e =
     (case v of
        JString str \<Rightarrow>
          (if \<not> role_IsValid str then (str, Some (NewError (str @ '' is not a valid ViewerRole'')))
           else (str, None))
      | _ \<Rightarrow> (e, Some (NewError ''enums must be strings'')))"

definition role_MarshalGQL :: "quoting \<Rightarrow> string \<Rightarrow> string" where
  "role_MarshalGQL Q e = strconv_Quote Q e"

definition role_UnmarshalJSON :: "quoting \<Rightarrow> string \<Rightarrow> string \<Rightarrow> string \<times> go_error option" where
  "role_UnmarshalJSON Q b e =
     (case strconv_Unquote Q b of
        Inl err \<Rightarrow> (e, Some err)
      | Inr s \<Rightarrow> role_UnmarshalGQL (JString s) e)"

definition role_MarshalJSON :: "quoting \<Rightarrow> string \<Rightarrow> go_error + string" where
  "role_MarshalJSON Q e = Inr (role_MarshalGQL Q e)"

lemma unquote_quoted: "plain_text s \<Longrightarrow> strconv_Unquote Q (strconv_Quote Q s) = Inr s"
  by (simp add: strconv_Quote_def strconv_Unquote_def butlast_append)

lemma role_plain: "plain_text (role_String e)"
  by (cases e; simp only: role_String_def ViewerRole.case; code_simp)

text \<open>
  Roles survive being written and read. The valid texts are exactly those of the three
  roles, which differ; the JSON of a role is read back as that role; and a quoted text that is
  no role is refused, with an error that names it.
\<close>

lemma viewer_role_roundtrip:
  "(\<forall>s. role_IsValid s \<longleftrightarrow> s \<in> role_String ` set AllViewerRole)
   \<and> distinct (map role_String AllViewerRole)
   \<and> (case role_MarshalJSON Q (role_String e) of
        Inl err \<Rightarrow> False
      | Inr b \<Rightarrow> role_UnmarshalJSON Q b before = (role_String e, None))
   \<and> (if plain_text s \<and> \<not> role_IsValid s
      then role_UnmarshalJSON Q (strconv_Quote Q s) before
        = (s, Some (NewError (s @ '' is not a valid ViewerRole'')))
      else True)"
proof (intro conjI)
  have valid: "role_IsValid (role_String e)" by (cases e) (simp_all add: role_IsValid_def role_String_def)
  show "\<forall>s. role_IsValid s \<longleftrightarrow> s \<in> role_String ` set AllViewerRole"
    by (auto simp: role_IsValid_def AllViewerRole_def role_String_def)
  show "distinct (map role_String AllViewerRole)" by (simp add: AllViewerRole_def role_String_def)
  show "case role_MarshalJSON Q (role_String e) of
        Inl err \<Rightarrow> False
      | Inr b \<Rightarrow> role_UnmarshalJSON Q b before = (role_String e, None)"
    using valid unquote_quoted [OF role_plain, of Q e]
    by (simp add: role_MarshalJSON_def role_MarshalGQL_def role_UnmarshalJSON_def role_UnmarshalGQL_def)
  show "if plain_text s \<and> \<not> role_IsValid s
      then role_UnmarshalJSON Q (strconv_Quote Q s) before
        = (s, Some (NewError (s @ '' is not a valid ViewerRole'')))
      else True"
    by (simp add: unquote_quoted role_UnmarshalJSON_def role_UnmarshalGQL_def)
qed

end
