(* ===== verification/GqlRuntime.thy ===== *)
theory GqlRuntime
  imports Resolvers RoleJson
begin

text \<open>
  What the generated executor (internal/graph/generated) stands on: the values it passes around,
  the state of an operation in execution, and the runtime of \<open>gqlgen\<close>, whose functions are
  arguments; then the loop over a selection set that every object of the schema has.
\<close>

section \<open>The schema as \<open>gqlgen\<close> describes it\<close>

text \<open>
  The values of \<open>gqlgen\<close>'s package \<open>introspection\<close> describe the types of a schema, which refer to
  each other in cycles. They are references here; what is behind one is read with the functions
  of the record, each a method or a field of the package. A slice may be nil, which the executor
  tests in places.
\<close>

datatype introspection_Type = Type_ref nat
datatype introspection_Field = Field_ref nat
datatype introspection_InputValue = InputValue_ref nat
datatype introspection_EnumValue = EnumValue_ref nat
datatype introspection_Directive = Directive_ref nat
datatype introspection_Schema = Schema_ref nat

type_synonym 'a slice = "'a list option"

definition elements :: "'a slice \<Rightarrow> 'a list" where
  "elements v = (case v of None \<Rightarrow> [] | Some xs \<Rightarrow> xs)"

record introspection =
  Schema_Description :: "introspection_Schema \<Rightarrow> string option"
  Schema_Types :: "introspection_Schema \<Rightarrow> introspection_Type slice"
  Schema_QueryType :: "introspection_Schema \<Rightarrow> introspection_Type option"
  Schema_MutationType :: "introspection_Schema \<Rightarrow> introspection_Type option"
  Schema_SubscriptionType :: "introspection_Schema \<Rightarrow> introspection_Type option"
  Schema_Directives :: "introspection_Schema \<Rightarrow> introspection_Directive slice"
  Directive_Name :: "introspection_Directive \<Rightarrow> string"
  Directive_Description :: "introspection_Directive \<Rightarrow> string option"
  Directive_IsRepeatable :: "introspection_Directive \<Rightarrow> bool"
  Directive_Locations :: "introspection_Directive \<Rightarrow> string slice"
  Directive_Args :: "introspection_Directive \<Rightarrow> introspection_InputValue slice"
  EnumValue_Name :: "introspection_EnumValue \<Rightarrow> string"
  EnumValue_Description :: "introspection_EnumValue \<Rightarrow> string option"
  EnumValue_IsDeprecated :: "introspection_EnumValue \<Rightarrow> bool"
  EnumValue_DeprecationReason :: "introspection_EnumValue \<Rightarrow> string option"
  Field_Name :: "introspection_Field \<Rightarrow> string"
  Field_Description :: "introspection_Field \<Rightarrow> string option"
  Field_Args :: "introspection_Field \<Rightarrow> introspection_InputValue slice"
  Field_Type :: "introspection_Field \<Rightarrow> introspection_Type option"
  Field_IsDeprecated :: "introspection_Field \<Rightarrow> bool"
  Field_DeprecationReason :: "introspection_Field \<Rightarrow> string option"
  InputValue_Name :: "introspection_InputValue \<Rightarrow> string"
  InputValue_Description :: "introspection_InputValue \<Rightarrow> string option"
  InputValue_Type :: "introspection_InputValue \<Rightarrow> introspection_Type option"
  InputValue_DefaultValue :: "introspection_InputValue \<Rightarrow> string option"
  InputValue_IsDeprecated :: "introspection_InputValue \<Rightarrow> bool"
  InputValue_DeprecationReason :: "introspection_InputValue \<Rightarrow> string option"
  Type_Kind :: "introspection_Type \<Rightarrow> string"
  Type_Name :: "introspection_Type \<Rightarrow> string option"
  Type_Description :: "introspection_Type \<Rightarrow> string option"
  Type_SpecifiedByURL :: "introspection_Type \<Rightarrow> string option"
  Type_Fields :: "introspection_Type \<Rightarrow> bool \<Rightarrow> introspection_Field slice"
  Type_Interfaces :: "introspection_Type \<Rightarrow> introspection_Type slice"
  Type_PossibleTypes :: "introspection_Type \<Rightarrow> introspection_Type slice"
  Type_EnumValues :: "introspection_Type \<Rightarrow> bool \<Rightarrow> introspection_EnumValue slice"
  Type_InputFields :: "introspection_Type \<Rightarrow> introspection_InputValue slice"
  Type_OfType :: "introspection_Type \<Rightarrow> introspection_Type option"
  Type_IsOneOf :: "introspection_Type \<Rightarrow> bool"

section \<open>Values\<close>

text \<open>
  A Go interface value of the types that resolvers return and that arguments are read into. A
  pointer is an option where the code tests it for nil.
\<close>

datatype any =
    AnyInt64 int64
  | AnyInt64Ptr "int64 option"
  | AnyString string
  | AnyBool bool
  | AnyStamp Stamp
  | AnyStampPtr "Stamp option"
  | AnyRole ViewerRole
  | AnyUser "User option"
  | AnyAdminUser "DBListUsersRow option"
  | AnyAdminUsers "DBListUsersRow list"
  | AnyAdmins "DBListAdminsRow list"
  | AnyAuditLogs "AuditLog list"
  | AnyPageInfo "PageInfo option"
  | AnyFieldMessages "FieldMessage list"
  | AnyAdminUserElem DBListUsersRow
  | AnyAdminElem DBListAdminsRow
  | AnyAuditLogElem AuditLog
  | AnyFieldMessageElem FieldMessage
  | AnyViewer "Viewer option"
  | AnyAdminQuery "AdminQuery option"
  | AnyAdminMutation "AdminMutation option"
  | AnyUsersConnection "UsersConnection option"
  | AnyAdminsConnection "AdminsConnection option"
  | AnyAuditLogConnection "AuditLogConnection option"
  | AnySignOut "SignOutPayload option"
  | AnyBanUser BanUserOrErrorPayload
  | AnyUnbanUser UnbanUserOrErrorPayload
  | AnyMakeAdmin MakeAdminOrErrorPayload
  | AnyRemoveAdmin RemoveAdminOrErrorPayload
  | AnyBanUserInput BanUserInput
  | AnyUnbanUserInput UnbanUserInput
  | AnyMakeAdminInput MakeAdminInput
  | AnyRemoveAdminInput RemoveAdminInput
  | AnyBoolPtr "bool option"
  | AnyStringPtr "string option"
  | AnyStrings "string slice"
  | AnyStringElem string
  | AnyType "introspection_Type option"
  | AnyTypes "introspection_Type slice"
  | AnyFields "introspection_Field slice"
  | AnyFieldElem introspection_Field
  | AnyInputValues "introspection_InputValue slice"
  | AnyInputValueElem introspection_InputValue
  | AnyEnumValues "introspection_EnumValue slice"
  | AnyEnumValueElem introspection_EnumValue
  | AnyDirectives "introspection_Directive slice"
  | AnyDirectiveElem introspection_Directive
  | AnySchema "introspection_Schema option"

text \<open>Type assertions: the value when it has the named type.\<close>

definition as_Int64 :: "any \<Rightarrow> int64 option" where
  "as_Int64 v = (case v of AnyInt64 x \<Rightarrow> Some x | _ \<Rightarrow> None)"

definition as_Int64Ptr :: "any \<Rightarrow> (int64 option) option" where
  "as_Int64Ptr v = (case v of AnyInt64Ptr x \<Rightarrow> Some x | _ \<Rightarrow> None)"

definition as_String :: "any \<Rightarrow> string option" where
  "as_String v = (case v of AnyString x \<Rightarrow> Some x | _ \<Rightarrow> None)"

definition as_Bool :: "any \<Rightarrow> bool option" where
  "as_Bool v = (case v of AnyBool x \<Rightarrow> Some x | _ \<Rightarrow> None)"

definition as_Stamp :: "any \<Rightarrow> Stamp option" where
  "as_Stamp v = (case v of AnyStamp x \<Rightarrow> Some x | _ \<Rightarrow> None)"

definition as_StampPtr :: "any \<Rightarrow> (Stamp option) option" where
  "as_StampPtr v = (case v of AnyStampPtr x \<Rightarrow> Some x | _ \<Rightarrow> None)"

definition as_Role :: "any \<Rightarrow> ViewerRole option" where
  "as_Role v = (case v of AnyRole x \<Rightarrow> Some x | _ \<Rightarrow> None)"

definition as_User :: "any \<Rightarrow> (User option) option" where
  "as_User v = (case v of AnyUser x \<Rightarrow> Some x | _ \<Rightarrow> None)"

definition as_AdminUser :: "any \<Rightarrow> (DBListUsersRow option) option" where
  "as_AdminUser v = (case v of AnyAdminUser x \<Rightarrow> Some x | _ \<Rightarrow> None)"

definition as_AdminUsers :: "any \<Rightarrow> (DBListUsersRow list) option" where
  "as_AdminUsers v = (case v of AnyAdminUsers x \<Rightarrow> Some x | _ \<Rightarrow> None)"

definition as_Admins :: "any \<Rightarrow> (DBListAdminsRow list) option" where
  "as_Admins v = (case v of AnyAdmins x \<Rightarrow> Some x | _ \<Rightarrow> None)"

definition as_AuditLogs :: "any \<Rightarrow> (AuditLog list) option" where
  "as_AuditLogs v = (case v of AnyAuditLogs x \<Rightarrow> Some x | _ \<Rightarrow> None)"

definition as_PageInfo :: "any \<Rightarrow> (PageInfo option) option" where
  "as_PageInfo v = (case v of AnyPageInfo x \<Rightarrow> Some x | _ \<Rightarrow> None)"

definition as_FieldMessages :: "any \<Rightarrow> (FieldMessage list) option" where
  "as_FieldMessages v = (case v of AnyFieldMessages x \<Rightarrow> Some x | _ \<Rightarrow> None)"

definition as_Viewer :: "any \<Rightarrow> (Viewer option) option" where
  "as_Viewer v = (case v of AnyViewer x \<Rightarrow> Some x | _ \<Rightarrow> None)"

definition as_AdminQuery :: "any \<Rightarrow> (AdminQuery option) option" where
  "as_AdminQuery v = (case v of AnyAdminQuery x \<Rightarrow> Some x | _ \<Rightarrow> None)"

definition as_AdminMutation :: "any \<Rightarrow> (AdminMutation option) option" where
  "as_AdminMutation v = (case v of AnyAdminMutation x \<Rightarrow> Some x | _ \<Rightarrow> None)"

definition as_UsersConnection :: "any \<Rightarrow> (UsersConnection option) option" where
  "as_UsersConnection v = (case v of AnyUsersConnection x \<Rightarrow> Some x | _ \<Rightarrow> None)"

definition as_AdminsConnection :: "any \<Rightarrow> (AdminsConnection option) option" where
  "as_AdminsConnection v = (case v of AnyAdminsConnection x \<Rightarrow> Some x | _ \<Rightarrow> None)"

definition as_AuditLogConnection :: "any \<Rightarrow> (AuditLogConnection option) option" where
  "as_AuditLogConnection v = (case v of AnyAuditLogConnection x \<Rightarrow> Some x | _ \<Rightarrow> None)"

definition as_SignOut :: "any \<Rightarrow> (SignOutPayload option) option" where
  "as_SignOut v = (case v of AnySignOut x \<Rightarrow> Some x | _ \<Rightarrow> None)"

definition as_BanUser :: "any \<Rightarrow> BanUserOrErrorPayload option" where
  "as_BanUser v = (case v of AnyBanUser x \<Rightarrow> Some x | _ \<Rightarrow> None)"

definition as_UnbanUser :: "any \<Rightarrow> UnbanUserOrErrorPayload option" where
  "as_UnbanUser v = (case v of AnyUnbanUser x \<Rightarrow> Some x | _ \<Rightarrow> None)"

definition as_MakeAdmin :: "any \<Rightarrow> MakeAdminOrErrorPayload option" where
  "as_MakeAdmin v = (case v of AnyMakeAdmin x \<Rightarrow> Some x | _ \<Rightarrow> None)"

definition as_RemoveAdmin :: "any \<Rightarrow> RemoveAdminOrErrorPayload option" where
  "as_RemoveAdmin v = (case v of AnyRemoveAdmin x \<Rightarrow> Some x | _ \<Rightarrow> None)"

definition as_BanUserInput :: "any \<Rightarrow> BanUserInput option" where
  "as_BanUserInput v = (case v of AnyBanUserInput x \<Rightarrow> Some x | _ \<Rightarrow> None)"

definition as_UnbanUserInput :: "any \<Rightarrow> UnbanUserInput option" where
  "as_UnbanUserInput v = (case v of AnyUnbanUserInput x \<Rightarrow> Some x | _ \<Rightarrow> None)"

definition as_MakeAdminInput :: "any \<Rightarrow> MakeAdminInput option" where
  "as_MakeAdminInput v = (case v of AnyMakeAdminInput x \<Rightarrow> Some x | _ \<Rightarrow> None)"

definition as_RemoveAdminInput :: "any \<Rightarrow> RemoveAdminInput option" where
  "as_RemoveAdminInput v = (case v of AnyRemoveAdminInput x \<Rightarrow> Some x | _ \<Rightarrow> None)"

definition as_BoolPtr :: "any \<Rightarrow> (bool option) option" where
  "as_BoolPtr v = (case v of AnyBoolPtr x \<Rightarrow> Some x | _ \<Rightarrow> None)"

definition as_StringPtr :: "any \<Rightarrow> (string option) option" where
  "as_StringPtr v = (case v of AnyStringPtr x \<Rightarrow> Some x | _ \<Rightarrow> None)"

definition as_Strings :: "any \<Rightarrow> (string slice) option" where
  "as_Strings v = (case v of AnyStrings x \<Rightarrow> Some x | _ \<Rightarrow> None)"

definition as_Type :: "any \<Rightarrow> (introspection_Type option) option" where
  "as_Type v = (case v of AnyType x \<Rightarrow> Some x | _ \<Rightarrow> None)"

definition as_Types :: "any \<Rightarrow> (introspection_Type slice) option" where
  "as_Types v = (case v of AnyTypes x \<Rightarrow> Some x | _ \<Rightarrow> None)"

definition as_Fields :: "any \<Rightarrow> (introspection_Field slice) option" where
  "as_Fields v = (case v of AnyFields x \<Rightarrow> Some x | _ \<Rightarrow> None)"

definition as_InputValues :: "any \<Rightarrow> (introspection_InputValue slice) option" where
  "as_InputValues v = (case v of AnyInputValues x \<Rightarrow> Some x | _ \<Rightarrow> None)"

definition as_EnumValues :: "any \<Rightarrow> (introspection_EnumValue slice) option" where
  "as_EnumValues v = (case v of AnyEnumValues x \<Rightarrow> Some x | _ \<Rightarrow> None)"

definition as_Directives :: "any \<Rightarrow> (introspection_Directive slice) option" where
  "as_Directives v = (case v of AnyDirectives x \<Rightarrow> Some x | _ \<Rightarrow> None)"

definition as_Schema :: "any \<Rightarrow> (introspection_Schema option) option" where
  "as_Schema v = (case v of AnySchema x \<Rightarrow> Some x | _ \<Rightarrow> None)"

text \<open>
  A \<open>graphql.Marshaler\<close>: what an answer is written from. The code compares with two of the
  runtime's values by identity; a value never set is nil.
\<close>

datatype Marshaler =
    NilMarshaler
  | Null
  | RequiredNull
  | Written string
  | RoleMarshaler ViewerRole
  | FieldSetMarshaler "CollectedField list" "Marshaler list"
  | ArrayMarshaler "Marshaler list"

text \<open>The context of a field: the resolver's, and the arguments in the current field context.\<close>

record ectx = gctx +
  ctx_Args :: "(string \<times> any) list"

section \<open>State and effects\<close>

text \<open>
  The world, the counters \<open>Invalids\<close> of the field sets made so far (each is shared by pointer with
  the goroutines of its fields, so it lives here under a number), the counters of deferred groups,
  whether the operation's response handler has been called, and what \<open>gqlgen\<close> keeps (errors,
  field contexts, deferred results).
\<close>

record 'g exec_state =
  ex_World :: World
  ex_Invalids :: "nat \<Rightarrow> nat"
  ex_sets :: nat
  ex_Deferred :: nat
  ex_Pending :: nat
  ex_first :: bool
  ex_gql :: 'g

type_synonym ('g, 'a) ex = "('g exec_state, 'a) state"

text \<open>A computation that may panic gives \<open>Inl\<close> of the panic's text.\<close>

type_synonym ('g, 'a) px = "('g exec_state, string + 'a) state"

definition on_world :: "'a act \<Rightarrow> ('g, 'a) ex" where
  "on_world m = State (\<lambda>s. case run m (ex_World s) of (x, w) \<Rightarrow> (x, s\<lparr>ex_World := w\<rparr>))"

definition and_then :: "('g, 'a) px \<Rightarrow> ('a \<Rightarrow> ('g, 'b) px) \<Rightarrow> ('g, 'b) px" where
  "and_then m f = do { r \<leftarrow> m; case r of Inl p \<Rightarrow> ret (Inl p) | Inr x \<Rightarrow> f x }"

text \<open>What a resolver gives, as the interface values \<open>(any, error)\<close>.\<close>

definition resolved :: "('a \<Rightarrow> any) \<Rightarrow> (World, 'a) io \<Rightarrow> ('g, graph_error + any) px" where
  "resolved box m = do {
     r \<leftarrow> on_world m;
     ret (Inr (case r of Inl err \<Rightarrow> Inl (Plain err) | Inr v \<Rightarrow> Inr (box v)))
   }"

text \<open>A type assertion panics on a value of another type.\<close>

definition assert_type :: "'a option \<Rightarrow> ('a \<Rightarrow> ('g, 'b) px) \<Rightarrow> ('g, 'b) px" where
  "assert_type v f = (case v of None \<Rightarrow> ret (Inl ''interface conversion'') | Some x \<Rightarrow> f x)"

section \<open>Field contexts and field sets\<close>

text \<open>
  \<open>graphql.FieldContext\<close>. Its \<open>Child\<close> is a closure of one of two forms: it calls the function
  \<open>childFields_T\<close> of the executor for the object \<open>T\<close> of the field's type, or it gives an error. The
  closure is named here and applied by \<open>Child_call\<close> in theory ExecRoot.
\<close>

datatype child =
    Childless go_error
  | Child_Admin
  | Child_AdminMutation
  | Child_AdminQuery
  | Child_AdminUser
  | Child_AdminsConnection
  | Child_AuditLogConnection
  | Child_AuditLogEntry
  | Child_FieldMessage
  | Child_PageInfo
  | Child_SignOutPayload
  | Child_Timestamp
  | Child_User
  | Child_UsersConnection
  | Child_Viewer
  | Child___Directive
  | Child___EnumValue
  | Child___Field
  | Child___InputValue
  | Child___Schema
  | Child___Type

record FieldContext =
  fc_Object :: string
  fc_Field :: "CollectedField option"
  fc_IsMethod :: bool
  fc_IsResolver :: bool
  fc_Args :: "(string \<times> any) list"
  fc_Child :: "child option"

type_synonym 'g field_context = "('g, FieldContext option \<times> graph_error option) ex"

text \<open>
  \<open>graphql.FieldSet\<close> holds the fields, their values by position, its counter, and the values that
  \<open>Concurrently\<close> leaves to be computed.
\<close>

record 'g FieldSet =
  fs_fields :: "CollectedField list"
  fs_Values :: "Marshaler list"
  fs_number :: nat
  fs_delayed :: "(nat \<times> (ectx \<Rightarrow> ('g, Marshaler) px)) list"

record 'g DeferredGroup =
  dg_Defers :: "(string \<times> nat list) list"
  dg_Path :: "string list"
  dg_FieldSet :: "'g FieldSet"
  dg_Context :: ectx

section \<open>The runtime\<close>

text \<open>A deferred result, and the answer to an operation.\<close>

record DeferredResult =
  dr_Path :: "string list"
  dr_Label :: string
  dr_Result :: Marshaler
  dr_Errors :: "gqlerror list"

record Response =
  response_Data :: string
  response_Path :: "string list"
  response_Label :: string
  response_Errors :: "gqlerror list"
  response_HasNext :: "bool option"

text \<open>
  The functions of \<open>gqlgen\<close> that the executor calls, by their names. \<open>ResolveField\<close> gets the
  function that makes the field's context, the resolver, the marshalling of what it returns, and
  whether it recovers from panics and whether the field is non-null. \<open>ProcessArgField\<close> also gets
  the zero value of its type argument. The formatting of a time in a layout other than RFC 3339 is
  an argument too, and so is the description of the schema, with the functions \<open>IntrospectType\<close>
  and \<open>IntrospectSchema\<close> that give the two introspection fields of a query.
\<close>

record 'g runtime =
  rt_gqlgen :: gqlgen
  rt_quoting :: quoting
  rt_time_Format :: "string \<Rightarrow> Time \<Rightarrow> string"
  rt_MarshalString :: "string \<Rightarrow> Marshaler"
  rt_MarshalInt64 :: "int64 \<Rightarrow> Marshaler"
  rt_MarshalBoolean :: "bool \<Rightarrow> Marshaler"
  rt_MarshalGQL :: "Marshaler \<Rightarrow> string"
  rt_UnmarshalString :: "json \<Rightarrow> go_error + string"
  rt_UnmarshalInt64 :: "json \<Rightarrow> go_error + int64"
  rt_UnmarshalBoolean :: "json \<Rightarrow> go_error + bool"
  rt_ErrorOnPath :: "ectx \<Rightarrow> graph_error \<Rightarrow> graph_error"
  rt_WithPathField :: "string \<Rightarrow> ectx \<Rightarrow> ectx"
  rt_WithFieldContext :: "FieldContext \<Rightarrow> ectx \<Rightarrow> ectx"
  rt_WithRootFieldContext :: "string \<Rightarrow> CollectedField \<Rightarrow> ectx \<Rightarrow> ectx"
  rt_WithUnmarshalers :: "ectx \<Rightarrow> ectx"
  rt_IsDeferred :: "CollectedField \<Rightarrow> bool"
  rt_ArgumentMap :: "CollectedField \<Rightarrow> (string \<times> json) list \<Rightarrow> (string \<times> json) list"
  rt_ProcessArgField :: "ectx \<Rightarrow> (string \<times> json) list \<Rightarrow> string \<Rightarrow> any \<Rightarrow>
    (ectx \<Rightarrow> json \<Rightarrow> ('g, graph_error + any) px) \<Rightarrow> ('g, graph_error + any) px"
  rt_NewScalarFieldContext ::
    "string \<Rightarrow> CollectedField \<Rightarrow> bool \<Rightarrow> bool \<Rightarrow> go_error \<Rightarrow> 'g field_context"
  rt_ResolveField :: "ectx \<Rightarrow> OperationContext \<Rightarrow> CollectedField \<Rightarrow>
    (ectx \<Rightarrow> CollectedField \<Rightarrow> 'g field_context) \<Rightarrow> (ectx \<Rightarrow> ('g, graph_error + any) px) \<Rightarrow>
    (ectx \<Rightarrow> Selection list \<Rightarrow> any \<Rightarrow> ('g, Marshaler) px) \<Rightarrow> bool \<Rightarrow> bool \<Rightarrow> ('g, Marshaler) px"
  rt_MarshalSliceConcurrently ::
    "ectx \<Rightarrow> nat \<Rightarrow> nat \<Rightarrow> bool \<Rightarrow> (ectx \<Rightarrow> nat \<Rightarrow> ('g, Marshaler) px) \<Rightarrow> ('g, Marshaler list) px"
  rt_RootResolverMiddleware :: "ectx \<Rightarrow> (ectx \<Rightarrow> ('g, Marshaler) px) \<Rightarrow> ('g, Marshaler) px"
  rt_Dispatch :: "ectx \<Rightarrow> 'g FieldSet \<Rightarrow> ('g, Marshaler list) px"
  rt_ProcessDeferredGroup :: "'g DeferredGroup \<Rightarrow> ('g, unit) px"
  rt_DeferredResults :: "('g, DeferredResult) ex"
  rt_HasFieldError :: "ectx \<Rightarrow> ('g, bool) ex"
  rt_AddErrorf :: "ectx \<Rightarrow> string \<Rightarrow> ('g, unit) ex"
  rt_Error :: "ectx \<Rightarrow> graph_error \<Rightarrow> ('g, unit) ex"
  rt_Recover :: "ectx \<Rightarrow> string \<Rightarrow> ('g, graph_error) ex"
  rt_SetResult :: "ectx \<Rightarrow> any \<Rightarrow> ('g, unit) ex"
  rt_ErrorResponse :: "ectx \<Rightarrow> string \<Rightarrow> Response"
  rt_OneShot :: "Response \<Rightarrow> ectx \<Rightarrow> ('g, Response option) ex"
  rt_introspection :: introspection
  rt_IntrospectType :: "OperationContext \<Rightarrow> string \<Rightarrow> go_error + introspection_Type option"
  rt_IntrospectSchema :: "OperationContext \<Rightarrow> go_error + introspection_Schema option"

record 'g executionContext =
  ec_runtime :: "'g runtime"
  ec_Resolvers :: Resolver
  ec_OperationContext :: OperationContext

definition GetFieldContext_Args :: "ectx \<Rightarrow> string \<Rightarrow> any option" where
  "GetFieldContext_Args ctx name = map_of (ctx_Args ctx) name"

section \<open>Selection sets\<close>

definition NewFieldSet :: "CollectedField list \<Rightarrow> ('g, 'g FieldSet) ex" where
  "NewFieldSet collected = do {
     n \<leftarrow> ask_world ex_sets;
     modify_world (\<lambda>s. s\<lparr>ex_sets := Suc n, ex_Invalids := (ex_Invalids s)(n := 0)\<rparr>);
     ret \<lparr>fs_fields = collected, fs_Values = replicate (length collected) NilMarshaler,
          fs_number = n, fs_delayed = []\<rparr>
   }"

definition add_invalid :: "'g FieldSet \<Rightarrow> ('g, unit) ex" where
  "add_invalid fs = modify_world (\<lambda>s. s\<lparr>ex_Invalids :=
     (ex_Invalids s)(fs_number fs := Suc (ex_Invalids s (fs_number fs)))\<rparr>)"

definition AddField :: "CollectedField \<Rightarrow> 'g FieldSet \<Rightarrow> 'g FieldSet" where
  "AddField field fs =
     fs\<lparr>fs_fields := fs_fields fs @ [field], fs_Values := fs_Values fs @ [NilMarshaler]\<rparr>"

definition set_value :: "nat \<Rightarrow> Marshaler \<Rightarrow> 'g FieldSet \<Rightarrow> 'g FieldSet" where
  "set_value i v fs = fs\<lparr>fs_Values := (fs_Values fs)[i := v]\<rparr>"

definition Concurrently ::
  "nat \<Rightarrow> (ectx \<Rightarrow> ('g, Marshaler) px) \<Rightarrow> 'g FieldSet \<Rightarrow> 'g FieldSet" where
  "Concurrently i f fs = fs\<lparr>fs_delayed := fs_delayed fs @ [(i, f)]\<rparr>"

text \<open>A field is tested for \<open>Null\<close> when its type is non-null, for \<open>RequiredNull\<close> otherwise.\<close>

datatype null_test = NonNull | Nullable

fun is_invalid :: "null_test \<Rightarrow> Marshaler \<Rightarrow> bool" where
  "is_invalid NonNull m \<longleftrightarrow> m = Null"
| "is_invalid Nullable m \<longleftrightarrow> m = RequiredNull"

text \<open>
  The branch of a field in the switch over its name: computed in the loop, left to a goroutine, or
  left to one behind the root middleware.
\<close>

datatype 'g branch =
    AtOnce null_test "ectx \<Rightarrow> CollectedField \<Rightarrow> ('g, Marshaler) px"
  | Goroutine null_test "ectx \<Rightarrow> CollectedField \<Rightarrow> ('g, Marshaler) px"
  | RootGoroutine null_test "ectx \<Rightarrow> CollectedField \<Rightarrow> ('g, Marshaler) px"

text \<open>\<open>innerFunc\<close>: a panic becomes an error of the field, whose value stays nil.\<close>

definition innerFunc ::
  "'g executionContext \<Rightarrow> null_test \<Rightarrow> (ectx \<Rightarrow> CollectedField \<Rightarrow> ('g, Marshaler) px) \<Rightarrow>
   CollectedField \<Rightarrow> ectx \<Rightarrow> 'g FieldSet \<Rightarrow> ('g, Marshaler) px" where
  "innerFunc ec test f field ctx fs = do {
     r \<leftarrow> f ctx field;
     case r of
       Inl p \<Rightarrow> do {
         err \<leftarrow> rt_Recover (ec_runtime ec) ctx p;
         rt_Error (ec_runtime ec) ctx err;
         ret (Inr NilMarshaler)
       }
     | Inr res \<Rightarrow> do {
         (if is_invalid test res then add_invalid fs else ret ());
         ret (Inr res)
       }
   }"

text \<open>The labels a field is deferred under, each with the positions in the deferred set.\<close>

fun add_views :: "nat \<Rightarrow> string list \<Rightarrow> (string \<times> nat list) list \<Rightarrow> (string \<times> nat list) list" where
  "add_views k [] views = views"
| "add_views k (label # labels) views =
     add_views k labels
       (case map_of views label of
          None \<Rightarrow> views @ [(label, [k])]
        | Some indices \<Rightarrow> map (\<lambda>(l, ks). (l, if l = label then ks @ [k] else ks)) views)"

definition innerCtx :: "'g executionContext \<Rightarrow> CollectedField \<Rightarrow> ectx \<Rightarrow> ectx" where
  "innerCtx ec field ctx =
     rt_WithRootFieldContext (ec_runtime ec) (field_Name field) field ctx"

text \<open>The loop: the set to be answered, the deferred set, and the views of the latter.\<close>

type_synonym 'g loop_sets = "'g FieldSet \<times> 'g FieldSet \<times> (string \<times> nat list) list"

fun object_loop ::
  "'g executionContext \<Rightarrow> ectx \<Rightarrow> string \<Rightarrow> (string \<Rightarrow> 'g branch option) \<Rightarrow>
   (nat \<times> CollectedField) list \<Rightarrow> 'g loop_sets \<Rightarrow> ('g, 'g loop_sets) px" where
  "object_loop ec ctx typename switch [] sets = ret (Inr sets)"
| "object_loop ec ctx typename switch ((i, field) # rest) (out, deferred, views) =
    (if field_Name field = ''__typename''
     then object_loop ec ctx typename switch rest
       (set_value i (rt_MarshalString (ec_runtime ec) typename) out, deferred, views)
     else case switch (field_Name field) of
       None \<Rightarrow> ret (Inl (''unknown field '' @ strconv_Quote (rt_quoting (ec_runtime ec)) (field_Name field)))
     | Some (AtOnce test f) \<Rightarrow>
         and_then (f ctx field) (\<lambda>v. do {
           (if is_invalid test v then add_invalid out else ret ());
           object_loop ec ctx typename switch rest (set_value i v out, deferred, views)
         })
     | Some (Goroutine test f) \<Rightarrow>
         if rt_IsDeferred (ec_runtime ec) field then
           let added = AddField field deferred;
               fieldIndex = length (fs_Values added) - 1
           in object_loop ec ctx typename switch rest
                (set_value i Null out,
                 Concurrently fieldIndex (\<lambda>ctx. innerFunc ec test f field ctx added) added,
                 add_views fieldIndex (field_Deferrables field) views)
         else object_loop ec ctx typename switch rest
                (Concurrently i (\<lambda>ctx. innerFunc ec test f field ctx out) out, deferred, views)
     | Some (RootGoroutine test f) \<Rightarrow>
         object_loop ec ctx typename switch rest
           (Concurrently i (\<lambda>_. rt_RootResolverMiddleware (ec_runtime ec) (innerCtx ec field ctx)
               (\<lambda>ctx. innerFunc ec test f field ctx out)) out, deferred, views))"

definition max_int32 :: nat where "max_int32 = 2147483647"

definition exec_object ::
  "'g executionContext \<Rightarrow> ectx \<Rightarrow> Selection list \<Rightarrow> string list \<Rightarrow> string \<Rightarrow>
   (string \<Rightarrow> 'g branch option) \<Rightarrow> ('g, Marshaler) px" where
  "exec_object ec ctx sel implementors typename switch = do {
     let rt = ec_runtime ec;
     let collected = gql_CollectFields (rt_gqlgen rt) (Some (ec_OperationContext ec)) sel implementors;
     out \<leftarrow> NewFieldSet collected;
     deferred \<leftarrow> NewFieldSet [];
     and_then (object_loop ec ctx typename switch (enumerate 0 collected) (out, deferred, []))
       (\<lambda>(out, deferred, views).
         and_then (rt_Dispatch rt ctx out) (\<lambda>values. do {
           invalids \<leftarrow> ask_world (\<lambda>s. ex_Invalids s (fs_number out));
           if invalids > 0 then ret (Inr Null)
           else do {
             modify_world (\<lambda>s. s\<lparr>ex_Deferred := ex_Deferred s + min (length views) max_int32\<rparr>);
             and_then (rt_ProcessDeferredGroup rt
                 \<lparr>dg_Defers = views, dg_Path = g_path ctx, dg_FieldSet = deferred, dg_Context = ctx\<rparr>)
               (\<lambda>_. ret (Inr (FieldSetMarshaler collected values)))
           }
         }))
   }"

end
