(* ===== verification/GqlArgs.thy ===== *)
theory GqlArgs
  imports GqlRuntime
begin

text \<open>
  How the executor reads arguments (internal/graph/generated: the functions \<open>field_*_args\<close>,
  \<open>unmarshalInput*\<close> and \<open>unmarshal*\<close>) and how it writes scalars (\<open>marshal*\<close>).
\<close>

section \<open>Scalars\<close>

definition unmarshalNInt64 :: "'g executionContext \<Rightarrow> ectx \<Rightarrow> json \<Rightarrow> graph_error + int64" where
  "unmarshalNInt64 ec ctx v =
     (case rt_UnmarshalInt64 (ec_runtime ec) v of
        Inl err \<Rightarrow> Inl (rt_ErrorOnPath (ec_runtime ec) ctx (Plain err))
      | Inr res \<Rightarrow> Inr res)"

definition unmarshalOInt64 ::
  "'g executionContext \<Rightarrow> ectx \<Rightarrow> json \<Rightarrow> graph_error + int64 option" where
  "unmarshalOInt64 ec ctx v =
     (if v = JNull then Inr None
      else case rt_UnmarshalInt64 (ec_runtime ec) v of
        Inl err \<Rightarrow> Inl (rt_ErrorOnPath (ec_runtime ec) ctx (Plain err))
      | Inr res \<Rightarrow> Inr (Some res))"

definition unmarshalNString :: "'g executionContext \<Rightarrow> ectx \<Rightarrow> json \<Rightarrow> graph_error + string" where
  "unmarshalNString ec ctx v =
     (case rt_UnmarshalString (ec_runtime ec) v of
        Inl err \<Rightarrow> Inl (rt_ErrorOnPath (ec_runtime ec) ctx (Plain err))
      | Inr res \<Rightarrow> Inr res)"

definition unmarshalOBoolean :: "'g executionContext \<Rightarrow> ectx \<Rightarrow> json \<Rightarrow> graph_error + bool" where
  "unmarshalOBoolean ec ctx v =
     (case rt_UnmarshalBoolean (ec_runtime ec) v of
        Inl err \<Rightarrow> Inl (rt_ErrorOnPath (ec_runtime ec) ctx (Plain err))
      | Inr res \<Rightarrow> Inr res)"

definition unmarshalOBooleanPtr ::
  "'g executionContext \<Rightarrow> ectx \<Rightarrow> json \<Rightarrow> graph_error + bool option" where
  "unmarshalOBooleanPtr ec ctx v =
     (if v = JNull then Inr None
      else case rt_UnmarshalBoolean (ec_runtime ec) v of
        Inl err \<Rightarrow> Inl (rt_ErrorOnPath (ec_runtime ec) ctx (Plain err))
      | Inr res \<Rightarrow> Inr (Some res))"

section \<open>Inputs\<close>

text \<open>
  The loop over the fields of an input in their order: an absent one keeps the zero value, the
  first that cannot be read ends the loop. A nil object is the zero input, and an object that is
  no map panics.
\<close>

fun input_loop ::
  "(string \<Rightarrow> json \<Rightarrow> 'r \<Rightarrow> graph_error + 'r) \<Rightarrow> (string \<times> json) list \<Rightarrow> string list \<Rightarrow> 'r \<Rightarrow>
   graph_error + 'r" where
  "input_loop read asMap [] it = Inr it"
| "input_loop read asMap (k # fieldsInOrder) it =
     (case map_of asMap k of
        None \<Rightarrow> input_loop read asMap fieldsInOrder it
      | Some v \<Rightarrow> (case read k v it of
                     Inl err \<Rightarrow> Inl err
                   | Inr it \<Rightarrow> input_loop read asMap fieldsInOrder it))"

definition unmarshal_input ::
  "(string \<Rightarrow> json \<Rightarrow> 'r \<Rightarrow> graph_error + 'r) \<Rightarrow> string list \<Rightarrow> 'r \<Rightarrow> json \<Rightarrow>
   ('g, graph_error + 'r) px" where
  "unmarshal_input read fieldsInOrder it obj =
     (case obj of
        JNull \<Rightarrow> ret (Inr (Inr it))
      | JObject asMap \<Rightarrow> ret (Inr (input_loop read asMap fieldsInOrder it))
      | _ \<Rightarrow> ret (Inl ''interface conversion''))"

definition unmarshalInputBanUserInput ::
  "'g executionContext \<Rightarrow> ectx \<Rightarrow> json \<Rightarrow> ('g, graph_error + BanUserInput) px" where
  "unmarshalInputBanUserInput ec ctx obj =
     unmarshal_input (\<lambda>k v it.
        if k = ''userId'' then
          case unmarshalNInt64 ec (rt_WithPathField (ec_runtime ec) ''userId'' ctx) v of
            Inl err \<Rightarrow> Inl err
          | Inr data \<Rightarrow> Inr (it\<lparr>BanUserInput_UserID := data\<rparr>)
        else if k = ''reason'' then
          case unmarshalNString ec (rt_WithPathField (ec_runtime ec) ''reason'' ctx) v of
            Inl err \<Rightarrow> Inl err
          | Inr data \<Rightarrow> Inr (it\<lparr>BanUserInput_Reason := data\<rparr>)
        else Inr it)
      [''userId'', ''reason''] \<lparr>BanUserInput_UserID = 0, BanUserInput_Reason = ''''\<rparr> obj"

definition unmarshalInputMakeAdminInput ::
  "'g executionContext \<Rightarrow> ectx \<Rightarrow> json \<Rightarrow> ('g, graph_error + MakeAdminInput) px" where
  "unmarshalInputMakeAdminInput ec ctx obj =
     unmarshal_input (\<lambda>k v it.
        if k = ''userId'' then
          case unmarshalNInt64 ec (rt_WithPathField (ec_runtime ec) ''userId'' ctx) v of
            Inl err \<Rightarrow> Inl err
          | Inr data \<Rightarrow> Inr (it\<lparr>MakeAdminInput_UserID := data\<rparr>)
        else Inr it)
      [''userId''] \<lparr>MakeAdminInput_UserID = 0\<rparr> obj"

definition unmarshalInputRemoveAdminInput ::
  "'g executionContext \<Rightarrow> ectx \<Rightarrow> json \<Rightarrow> ('g, graph_error + RemoveAdminInput) px" where
  "unmarshalInputRemoveAdminInput ec ctx obj =
     unmarshal_input (\<lambda>k v it.
        if k = ''userId'' then
          case unmarshalNInt64 ec (rt_WithPathField (ec_runtime ec) ''userId'' ctx) v of
            Inl err \<Rightarrow> Inl err
          | Inr data \<Rightarrow> Inr (it\<lparr>RemoveAdminInput_UserID := data\<rparr>)
        else Inr it)
      [''userId''] \<lparr>RemoveAdminInput_UserID = 0\<rparr> obj"

definition unmarshalInputUnbanUserInput ::
  "'g executionContext \<Rightarrow> ectx \<Rightarrow> json \<Rightarrow> ('g, graph_error + UnbanUserInput) px" where
  "unmarshalInputUnbanUserInput ec ctx obj =
     unmarshal_input (\<lambda>k v it.
        if k = ''userId'' then
          case unmarshalNInt64 ec (rt_WithPathField (ec_runtime ec) ''userId'' ctx) v of
            Inl err \<Rightarrow> Inl err
          | Inr data \<Rightarrow> Inr (it\<lparr>UnbanUserInput_UserID := data\<rparr>)
        else Inr it)
      [''userId''] \<lparr>UnbanUserInput_UserID = 0\<rparr> obj"

text \<open>An input that cannot be read fails with the error on the path of the argument.\<close>

definition on_path ::
  "'g executionContext \<Rightarrow> ectx \<Rightarrow> ('g, graph_error + 'a) px \<Rightarrow> ('g, graph_error + 'a) px" where
  "on_path ec ctx m = and_then m (\<lambda>r. ret (Inr
     (case r of
        Inl err \<Rightarrow> Inl (rt_ErrorOnPath (ec_runtime ec) ctx err)
      | Inr res \<Rightarrow> Inr res)))"

definition unmarshalNBanUserInput ::
  "'g executionContext \<Rightarrow> ectx \<Rightarrow> json \<Rightarrow> ('g, graph_error + BanUserInput) px" where
  "unmarshalNBanUserInput ec ctx v = on_path ec ctx (unmarshalInputBanUserInput ec ctx v)"

definition unmarshalNMakeAdminInput ::
  "'g executionContext \<Rightarrow> ectx \<Rightarrow> json \<Rightarrow> ('g, graph_error + MakeAdminInput) px" where
  "unmarshalNMakeAdminInput ec ctx v = on_path ec ctx (unmarshalInputMakeAdminInput ec ctx v)"

definition unmarshalNRemoveAdminInput ::
  "'g executionContext \<Rightarrow> ectx \<Rightarrow> json \<Rightarrow> ('g, graph_error + RemoveAdminInput) px" where
  "unmarshalNRemoveAdminInput ec ctx v = on_path ec ctx (unmarshalInputRemoveAdminInput ec ctx v)"

definition unmarshalNUnbanUserInput ::
  "'g executionContext \<Rightarrow> ectx \<Rightarrow> json \<Rightarrow> ('g, graph_error + UnbanUserInput) px" where
  "unmarshalNUnbanUserInput ec ctx v = on_path ec ctx (unmarshalInputUnbanUserInput ec ctx v)"

section \<open>Arguments\<close>

type_synonym args = "(string \<times> any) list"

definition box_input ::
  "('a \<Rightarrow> any) \<Rightarrow> ('g, graph_error + 'a) px \<Rightarrow> ('g, graph_error + any) px" where
  "box_input box m = and_then m (\<lambda>r. ret (Inr (case r of Inl err \<Rightarrow> Inl err | Inr v \<Rightarrow> Inr (box v))))"

text \<open>One argument after the other; the first that fails ends the reading.\<close>

fun read_args ::
  "'g executionContext \<Rightarrow> ectx \<Rightarrow> (string \<times> json) list \<Rightarrow>
   (string \<times> any \<times> (ectx \<Rightarrow> json \<Rightarrow> ('g, graph_error + any) px)) list \<Rightarrow> args \<Rightarrow>
   ('g, graph_error + args) px" where
  "read_args ec ctx rawArgs [] args = ret (Inr (Inr args))"
| "read_args ec ctx rawArgs ((name, zero, unmarshal) # specs) args =
     and_then (rt_ProcessArgField (ec_runtime ec) ctx rawArgs name zero unmarshal)
       (\<lambda>arg. case arg of
          Inl err \<Rightarrow> ret (Inr (Inl err))
        | Inr arg \<Rightarrow> read_args ec ctx rawArgs specs (args @ [(name, arg)]))"

definition field_AdminMutation_banUser_args ::
  "'g executionContext \<Rightarrow> ectx \<Rightarrow> (string \<times> json) list \<Rightarrow> ('g, graph_error + args) px" where
  "field_AdminMutation_banUser_args ec ctx rawArgs =
     read_args ec ctx rawArgs
       [(''input'', AnyBanUserInput \<lparr>BanUserInput_UserID = 0, BanUserInput_Reason = ''''\<rparr>,
         \<lambda>ctx v. box_input AnyBanUserInput (unmarshalNBanUserInput ec ctx v))] []"

definition field_AdminMutation_makeAdmin_args ::
  "'g executionContext \<Rightarrow> ectx \<Rightarrow> (string \<times> json) list \<Rightarrow> ('g, graph_error + args) px" where
  "field_AdminMutation_makeAdmin_args ec ctx rawArgs =
     read_args ec ctx rawArgs
       [(''input'', AnyMakeAdminInput \<lparr>MakeAdminInput_UserID = 0\<rparr>,
         \<lambda>ctx v. box_input AnyMakeAdminInput (unmarshalNMakeAdminInput ec ctx v))] []"

definition field_AdminMutation_removeAdmin_args ::
  "'g executionContext \<Rightarrow> ectx \<Rightarrow> (string \<times> json) list \<Rightarrow> ('g, graph_error + args) px" where
  "field_AdminMutation_removeAdmin_args ec ctx rawArgs =
     read_args ec ctx rawArgs
       [(''input'', AnyRemoveAdminInput \<lparr>RemoveAdminInput_UserID = 0\<rparr>,
         \<lambda>ctx v. box_input AnyRemoveAdminInput (unmarshalNRemoveAdminInput ec ctx v))] []"

definition field_AdminMutation_unbanUser_args ::
  "'g executionContext \<Rightarrow> ectx \<Rightarrow> (string \<times> json) list \<Rightarrow> ('g, graph_error + args) px" where
  "field_AdminMutation_unbanUser_args ec ctx rawArgs =
     read_args ec ctx rawArgs
       [(''input'', AnyUnbanUserInput \<lparr>UnbanUserInput_UserID = 0\<rparr>,
         \<lambda>ctx v. box_input AnyUnbanUserInput (unmarshalNUnbanUserInput ec ctx v))] []"

definition field_AdminQuery_auditLog_args ::
  "'g executionContext \<Rightarrow> ectx \<Rightarrow> (string \<times> json) list \<Rightarrow> ('g, graph_error + args) px" where
  "field_AdminQuery_auditLog_args ec ctx rawArgs =
     read_args ec ctx rawArgs
       [(''limit'', AnyInt64 0, \<lambda>ctx v. box_input AnyInt64 (ret (Inr (unmarshalNInt64 ec ctx v)))),
        (''before'', AnyInt64Ptr None,
          \<lambda>ctx v. box_input AnyInt64Ptr (ret (Inr (unmarshalOInt64 ec ctx v))))] []"

definition field_AdminQuery_user_args ::
  "'g executionContext \<Rightarrow> ectx \<Rightarrow> (string \<times> json) list \<Rightarrow> ('g, graph_error + args) px" where
  "field_AdminQuery_user_args ec ctx rawArgs =
     read_args ec ctx rawArgs
       [(''id'', AnyInt64 0, \<lambda>ctx v. box_input AnyInt64 (ret (Inr (unmarshalNInt64 ec ctx v))))] []"

definition field_Timestamp_formatted_args ::
  "'g executionContext \<Rightarrow> ectx \<Rightarrow> (string \<times> json) list \<Rightarrow> ('g, graph_error + args) px" where
  "field_Timestamp_formatted_args ec ctx rawArgs =
     read_args ec ctx rawArgs
       [(''layout'', AnyString '''',
         \<lambda>ctx v. box_input AnyString (ret (Inr (unmarshalNString ec ctx v))))] []"

section \<open>Field contexts\<close>

definition scalar_context ::
  "'g executionContext \<Rightarrow> string \<Rightarrow> CollectedField \<Rightarrow> bool \<Rightarrow> bool \<Rightarrow> string \<Rightarrow> 'g field_context" where
  "scalar_context ec object field isMethod isResolver typename =
     rt_NewScalarFieldContext (ec_runtime ec) object field isMethod isResolver
       (NewError (''field of type '' @ typename @ '' does not have child fields''))"

text \<open>The switch of a type over the names of its fields, with its default.\<close>

definition child_fields ::
  "'g executionContext \<Rightarrow> string \<Rightarrow> (string \<times> (ectx \<Rightarrow> CollectedField \<Rightarrow> 'g field_context)) list \<Rightarrow>
   ectx \<Rightarrow> CollectedField \<Rightarrow> 'g field_context" where
  "child_fields ec typename cases ctx field =
     (case map_of cases (field_Name field) of
        Some f \<Rightarrow> f ctx field
      | None \<Rightarrow> ret (None, Some (Plain (NewError (''no field named ''
          @ strconv_Quote (rt_quoting (ec_runtime ec)) (field_Name field)
          @ '' was found under type '' @ typename)))))"

text \<open>
  The context of a field with arguments: they are read in the new context; a panic or an error is
  reported, and the context is returned with the error.
\<close>

definition context_with_args ::
  "'g executionContext \<Rightarrow> ectx \<Rightarrow> CollectedField \<Rightarrow> FieldContext \<Rightarrow>
   (ectx \<Rightarrow> (string \<times> json) list \<Rightarrow> ('g, graph_error + args) px) \<Rightarrow> 'g field_context" where
  "context_with_args ec ctx field fc read = do {
     let rt = ec_runtime ec;
     let ctx = rt_WithFieldContext rt fc ctx;
     r \<leftarrow> read ctx (rt_ArgumentMap rt field (oc_Variables (ec_OperationContext ec)));
     case r of
       Inl p \<Rightarrow> do {
         err \<leftarrow> rt_Recover rt ctx p;
         rt_Error rt ctx err;
         ret (Some fc, Some err)
       }
     | Inr (Inl err) \<Rightarrow> do {
         rt_Error rt ctx err;
         ret (Some fc, Some err)
       }
     | Inr (Inr args) \<Rightarrow> ret (Some (fc\<lparr>fc_Args := args\<rparr>), None)
   }"

section \<open>Writing scalars\<close>

definition report_null :: "'g executionContext \<Rightarrow> ectx \<Rightarrow> ('g, unit) ex" where
  "report_null ec ctx = do {
     has \<leftarrow> rt_HasFieldError (ec_runtime ec) ctx;
     if has then ret ()
     else rt_AddErrorf (ec_runtime ec) ctx
       ''the requested element is null which the schema does not allow''
   }"

definition marshal_nonnull :: "'g executionContext \<Rightarrow> ectx \<Rightarrow> Marshaler \<Rightarrow> ('g, Marshaler) px" where
  "marshal_nonnull ec ctx res = do {
     (if res = Null then report_null ec ctx else ret ());
     ret (Inr res)
   }"

definition marshalNInt64 :: "'g executionContext \<Rightarrow> ectx \<Rightarrow> Selection list \<Rightarrow> int64 \<Rightarrow> ('g, Marshaler) px" where
  "marshalNInt64 ec ctx sel v = marshal_nonnull ec ctx (rt_MarshalInt64 (ec_runtime ec) v)"

definition marshalNString :: "'g executionContext \<Rightarrow> ectx \<Rightarrow> Selection list \<Rightarrow> string \<Rightarrow> ('g, Marshaler) px" where
  "marshalNString ec ctx sel v = marshal_nonnull ec ctx (rt_MarshalString (ec_runtime ec) v)"

definition marshalNBoolean :: "'g executionContext \<Rightarrow> ectx \<Rightarrow> Selection list \<Rightarrow> bool \<Rightarrow> ('g, Marshaler) px" where
  "marshalNBoolean ec ctx sel v = marshal_nonnull ec ctx (rt_MarshalBoolean (ec_runtime ec) v)"

definition marshalNViewerRole ::
  "'g executionContext \<Rightarrow> ectx \<Rightarrow> Selection list \<Rightarrow> ViewerRole \<Rightarrow> ('g, Marshaler) px" where
  "marshalNViewerRole ec ctx sel v = ret (Inr (RoleMarshaler v))"

definition marshalOInt64 ::
  "'g executionContext \<Rightarrow> ectx \<Rightarrow> Selection list \<Rightarrow> int64 option \<Rightarrow> ('g, Marshaler) px" where
  "marshalOInt64 ec ctx sel v =
     ret (Inr (case v of None \<Rightarrow> Null | Some n \<Rightarrow> rt_MarshalInt64 (ec_runtime ec) n))"

definition marshalOString ::
  "'g executionContext \<Rightarrow> ectx \<Rightarrow> Selection list \<Rightarrow> string option \<Rightarrow> ('g, Marshaler) px" where
  "marshalOString ec ctx sel v =
     ret (Inr (case v of None \<Rightarrow> Null | Some text \<Rightarrow> rt_MarshalString (ec_runtime ec) text))"

definition marshalOBoolean ::
  "'g executionContext \<Rightarrow> ectx \<Rightarrow> Selection list \<Rightarrow> bool \<Rightarrow> ('g, Marshaler) px" where
  "marshalOBoolean ec ctx sel v = ret (Inr (rt_MarshalBoolean (ec_runtime ec) v))"

text \<open>A pointer that must not be nil, one that may be, a list of values, and one that may be nil.\<close>

definition marshal_pointer ::
  "'g executionContext \<Rightarrow> ectx \<Rightarrow> 'a option \<Rightarrow> ('a \<Rightarrow> ('g, Marshaler) px) \<Rightarrow> ('g, Marshaler) px" where
  "marshal_pointer ec ctx v f =
     (case v of None \<Rightarrow> do { report_null ec ctx; ret (Inr Null) } | Some x \<Rightarrow> f x)"

definition marshal_optional :: "'a option \<Rightarrow> ('a \<Rightarrow> ('g, Marshaler) px) \<Rightarrow> ('g, Marshaler) px" where
  "marshal_optional v f = (case v of None \<Rightarrow> ret (Inr Null) | Some x \<Rightarrow> f x)"

definition marshal_list ::
  "'g executionContext \<Rightarrow> ectx \<Rightarrow> ('a \<Rightarrow> any) \<Rightarrow> 'a list \<Rightarrow> (ectx \<Rightarrow> 'a \<Rightarrow> ('g, Marshaler) px) \<Rightarrow>
   ('g, Marshaler) px" where
  "marshal_list ec ctx box v f =
     and_then (rt_MarshalSliceConcurrently (ec_runtime ec) ctx (length v) 0 False (\<lambda>ctx i. do {
         rt_SetResult (ec_runtime ec) ctx (box (v ! i));
         f ctx (v ! i)
       }))
       (\<lambda>values. ret (Inr (if Null \<in> set values then Null else ArrayMarshaler values)))"

definition marshal_slice ::
  "'g executionContext \<Rightarrow> ectx \<Rightarrow> ('a \<Rightarrow> any) \<Rightarrow> 'a slice \<Rightarrow> (ectx \<Rightarrow> 'a \<Rightarrow> ('g, Marshaler) px) \<Rightarrow>
   ('g, Marshaler) px" where
  "marshal_slice ec ctx box v f =
     (case v of None \<Rightarrow> ret (Inr Null) | Some xs \<Rightarrow> marshal_list ec ctx box xs f)"

text \<open>A field of an object, as an interface value without an error.\<close>

definition plain_value :: "any \<Rightarrow> ('g, graph_error + any) px" where
  "plain_value v = ret (Inr (Inr v))"

end
