(* ===== verification/ExecTypes.thy ===== *)
theory ExecTypes
  imports GqlArgs
begin

text \<open>
  The executors of the objects that every caller can reach and of the payloads of the mutations
  (internal/graph/generated/generated.go): for each object the contexts and the values of its
  fields, the object itself, and the marshalling of the types that hold it.
\<close>

definition Stamp_Formatted :: "(string \<Rightarrow> Time \<Rightarrow> string) \<Rightarrow> Stamp \<Rightarrow> string \<Rightarrow> string" where
  "Stamp_Formatted time_Format s layout =
     (if layout = ''2006-01-02T15:04:05Z07:00'' then rfc3339 (stamp_Time s)
      else time_Format layout (stamp_Time s))"

section \<open>Timestamp\<close>

definition fieldContext_Timestamp_unix :: "'g executionContext \<Rightarrow> ectx \<Rightarrow> CollectedField \<Rightarrow> 'g field_context" where
  "fieldContext_Timestamp_unix ec ctx field = scalar_context ec ''Timestamp'' field True False ''Int64''"

definition fieldContext_Timestamp_formatted :: "'g executionContext \<Rightarrow> ectx \<Rightarrow> CollectedField \<Rightarrow> 'g field_context" where
  "fieldContext_Timestamp_formatted ec ctx field =
     context_with_args ec ctx field
       \<lparr>fc_Object = ''Timestamp'', fc_Field = Some field, fc_IsMethod = True, fc_IsResolver = False,
         fc_Args = [], fc_Child = Some (Childless (NewError ''field of type String does not have child fields''))\<rparr>
       (field_Timestamp_formatted_args ec)"

definition childFields_Timestamp :: "'g executionContext \<Rightarrow> ectx \<Rightarrow> CollectedField \<Rightarrow> 'g field_context" where
  "childFields_Timestamp ec = child_fields ec ''Timestamp''
     [(''unix'', fieldContext_Timestamp_unix ec),
      (''formatted'', fieldContext_Timestamp_formatted ec)]"

definition exec_Timestamp_unix ::
  "'g executionContext \<Rightarrow> ectx \<Rightarrow> CollectedField \<Rightarrow> Stamp \<Rightarrow> ('g, Marshaler) px" where
  "exec_Timestamp_unix ec ctx field obj =
     rt_ResolveField (ec_runtime ec) ctx (ec_OperationContext ec) field (fieldContext_Timestamp_unix ec)
       (\<lambda>ctx. plain_value (AnyInt64 (Unix (stamp_Time obj))))
       (\<lambda>ctx sel v. assert_type (as_Int64 v) (marshalNInt64 ec ctx sel)) True True"

definition exec_Timestamp_formatted ::
  "'g executionContext \<Rightarrow> ectx \<Rightarrow> CollectedField \<Rightarrow> Stamp \<Rightarrow> ('g, Marshaler) px" where
  "exec_Timestamp_formatted ec ctx field obj =
     rt_ResolveField (ec_runtime ec) ctx (ec_OperationContext ec) field (fieldContext_Timestamp_formatted ec)
       (\<lambda>ctx. assert_type (Option.bind (GetFieldContext_Args ctx ''layout'') as_String) (\<lambda>layout.
         plain_value (AnyString (Stamp_Formatted (rt_time_Format (ec_runtime ec)) obj layout))))
       (\<lambda>ctx sel v. assert_type (as_String v) (marshalNString ec ctx sel)) True True"

definition timestampImplementors :: "string list" where
  "timestampImplementors = [''Timestamp'']"

definition exec_Timestamp ::
  "'g executionContext \<Rightarrow> ectx \<Rightarrow> Selection list \<Rightarrow> Stamp \<Rightarrow> ('g, Marshaler) px" where
  "exec_Timestamp ec ctx sel obj =
     exec_object ec ctx sel timestampImplementors ''Timestamp'' (map_of
       [(''unix'', AtOnce NonNull (\<lambda>ctx field. exec_Timestamp_unix ec ctx field obj)),
        (''formatted'', AtOnce NonNull (\<lambda>ctx field. exec_Timestamp_formatted ec ctx field obj))])"

definition marshalNTimestamp ::
  "'g executionContext \<Rightarrow> ectx \<Rightarrow> Selection list \<Rightarrow> Stamp \<Rightarrow> ('g, Marshaler) px" where
  "marshalNTimestamp ec ctx sel v = exec_Timestamp ec ctx sel v"

definition marshalOTimestamp ::
  "'g executionContext \<Rightarrow> ectx \<Rightarrow> Selection list \<Rightarrow> Stamp option \<Rightarrow> ('g, Marshaler) px" where
  "marshalOTimestamp ec ctx sel v = marshal_optional v (exec_Timestamp ec ctx sel)"

section \<open>User\<close>

definition fieldContext_User_id :: "'g executionContext \<Rightarrow> ectx \<Rightarrow> CollectedField \<Rightarrow> 'g field_context" where
  "fieldContext_User_id ec ctx field = scalar_context ec ''User'' field False False ''Int64''"

definition fieldContext_User_email :: "'g executionContext \<Rightarrow> ectx \<Rightarrow> CollectedField \<Rightarrow> 'g field_context" where
  "fieldContext_User_email ec ctx field = scalar_context ec ''User'' field False False ''String''"

definition fieldContext_User_name :: "'g executionContext \<Rightarrow> ectx \<Rightarrow> CollectedField \<Rightarrow> 'g field_context" where
  "fieldContext_User_name ec ctx field = scalar_context ec ''User'' field False False ''String''"

definition fieldContext_User_createdAt :: "'g executionContext \<Rightarrow> ectx \<Rightarrow> CollectedField \<Rightarrow> 'g field_context" where
  "fieldContext_User_createdAt ec ctx field =
     ret (Some \<lparr>fc_Object = ''User'', fc_Field = Some field, fc_IsMethod = False, fc_IsResolver = False,
         fc_Args = [], fc_Child = Some Child_Timestamp\<rparr>, None)"

definition childFields_User :: "'g executionContext \<Rightarrow> ectx \<Rightarrow> CollectedField \<Rightarrow> 'g field_context" where
  "childFields_User ec = child_fields ec ''User''
     [(''id'', fieldContext_User_id ec),
      (''email'', fieldContext_User_email ec),
      (''name'', fieldContext_User_name ec),
      (''createdAt'', fieldContext_User_createdAt ec)]"

definition exec_User_id ::
  "'g executionContext \<Rightarrow> ectx \<Rightarrow> CollectedField \<Rightarrow> User \<Rightarrow> ('g, Marshaler) px" where
  "exec_User_id ec ctx field obj =
     rt_ResolveField (ec_runtime ec) ctx (ec_OperationContext ec) field (fieldContext_User_id ec)
       (\<lambda>ctx. plain_value (AnyInt64 (User_ID obj)))
       (\<lambda>ctx sel v. assert_type (as_Int64 v) (marshalNInt64 ec ctx sel)) True True"

definition exec_User_email ::
  "'g executionContext \<Rightarrow> ectx \<Rightarrow> CollectedField \<Rightarrow> User \<Rightarrow> ('g, Marshaler) px" where
  "exec_User_email ec ctx field obj =
     rt_ResolveField (ec_runtime ec) ctx (ec_OperationContext ec) field (fieldContext_User_email ec)
       (\<lambda>ctx. plain_value (AnyString (User_Email obj)))
       (\<lambda>ctx sel v. assert_type (as_String v) (marshalNString ec ctx sel)) True True"

definition exec_User_name ::
  "'g executionContext \<Rightarrow> ectx \<Rightarrow> CollectedField \<Rightarrow> User \<Rightarrow> ('g, Marshaler) px" where
  "exec_User_name ec ctx field obj =
     rt_ResolveField (ec_runtime ec) ctx (ec_OperationContext ec) field (fieldContext_User_name ec)
       (\<lambda>ctx. plain_value (AnyString (User_Name obj)))
       (\<lambda>ctx sel v. assert_type (as_String v) (marshalNString ec ctx sel)) True True"

definition exec_User_createdAt ::
  "'g executionContext \<Rightarrow> ectx \<Rightarrow> CollectedField \<Rightarrow> User \<Rightarrow> ('g, Marshaler) px" where
  "exec_User_createdAt ec ctx field obj =
     rt_ResolveField (ec_runtime ec) ctx (ec_OperationContext ec) field (fieldContext_User_createdAt ec)
       (\<lambda>ctx. plain_value (AnyStamp (User_CreatedAt obj)))
       (\<lambda>ctx sel v. assert_type (as_Stamp v) (marshalNTimestamp ec ctx sel)) True True"

definition userImplementors :: "string list" where
  "userImplementors = [''User'']"

definition exec_User ::
  "'g executionContext \<Rightarrow> ectx \<Rightarrow> Selection list \<Rightarrow> User \<Rightarrow> ('g, Marshaler) px" where
  "exec_User ec ctx sel obj =
     exec_object ec ctx sel userImplementors ''User'' (map_of
       [(''id'', AtOnce NonNull (\<lambda>ctx field. exec_User_id ec ctx field obj)),
        (''email'', AtOnce NonNull (\<lambda>ctx field. exec_User_email ec ctx field obj)),
        (''name'', AtOnce NonNull (\<lambda>ctx field. exec_User_name ec ctx field obj)),
        (''createdAt'', AtOnce NonNull (\<lambda>ctx field. exec_User_createdAt ec ctx field obj))])"

definition marshalOUser ::
  "'g executionContext \<Rightarrow> ectx \<Rightarrow> Selection list \<Rightarrow> User option \<Rightarrow> ('g, Marshaler) px" where
  "marshalOUser ec ctx sel v = marshal_optional v (exec_User ec ctx sel)"

section \<open>Viewer\<close>

definition fieldContext_Viewer_user :: "'g executionContext \<Rightarrow> ectx \<Rightarrow> CollectedField \<Rightarrow> 'g field_context" where
  "fieldContext_Viewer_user ec ctx field =
     ret (Some \<lparr>fc_Object = ''Viewer'', fc_Field = Some field, fc_IsMethod = True, fc_IsResolver = True,
         fc_Args = [], fc_Child = Some Child_User\<rparr>, None)"

definition fieldContext_Viewer_role :: "'g executionContext \<Rightarrow> ectx \<Rightarrow> CollectedField \<Rightarrow> 'g field_context" where
  "fieldContext_Viewer_role ec ctx field = scalar_context ec ''Viewer'' field True True ''ViewerRole''"

definition childFields_Viewer :: "'g executionContext \<Rightarrow> ectx \<Rightarrow> CollectedField \<Rightarrow> 'g field_context" where
  "childFields_Viewer ec = child_fields ec ''Viewer''
     [(''user'', fieldContext_Viewer_user ec),
      (''role'', fieldContext_Viewer_role ec)]"

definition exec_Viewer_user ::
  "'g executionContext \<Rightarrow> ectx \<Rightarrow> CollectedField \<Rightarrow> Viewer \<Rightarrow> ('g, Marshaler) px" where
  "exec_Viewer_user ec ctx field obj =
     rt_ResolveField (ec_runtime ec) ctx (ec_OperationContext ec) field (fieldContext_Viewer_user ec)
       (\<lambda>ctx. resolved AnyUser (Viewer_User (ec_Resolvers ec) (gctx.truncate ctx)))
       (\<lambda>ctx sel v. assert_type (as_User v) (marshalOUser ec ctx sel)) True False"

definition exec_Viewer_role ::
  "'g executionContext \<Rightarrow> ectx \<Rightarrow> CollectedField \<Rightarrow> Viewer \<Rightarrow> ('g, Marshaler) px" where
  "exec_Viewer_role ec ctx field obj =
     rt_ResolveField (ec_runtime ec) ctx (ec_OperationContext ec) field (fieldContext_Viewer_role ec)
       (\<lambda>ctx. resolved AnyRole (Viewer_Role (gctx.truncate ctx)))
       (\<lambda>ctx sel v. assert_type (as_Role v) (marshalNViewerRole ec ctx sel)) True True"

definition viewerImplementors :: "string list" where
  "viewerImplementors = [''Viewer'']"

definition exec_Viewer ::
  "'g executionContext \<Rightarrow> ectx \<Rightarrow> Selection list \<Rightarrow> Viewer \<Rightarrow> ('g, Marshaler) px" where
  "exec_Viewer ec ctx sel obj =
     exec_object ec ctx sel viewerImplementors ''Viewer'' (map_of
       [(''user'', Goroutine Nullable (\<lambda>ctx field. exec_Viewer_user ec ctx field obj)),
        (''role'', Goroutine NonNull (\<lambda>ctx field. exec_Viewer_role ec ctx field obj))])"

definition marshalNViewer ::
  "'g executionContext \<Rightarrow> ectx \<Rightarrow> Selection list \<Rightarrow> Viewer option \<Rightarrow> ('g, Marshaler) px" where
  "marshalNViewer ec ctx sel v = marshal_pointer ec ctx v (exec_Viewer ec ctx sel)"

section \<open>SignOutPayload\<close>

definition fieldContext_SignOutPayload_redirectUrl :: "'g executionContext \<Rightarrow> ectx \<Rightarrow> CollectedField \<Rightarrow> 'g field_context" where
  "fieldContext_SignOutPayload_redirectUrl ec ctx field = scalar_context ec ''SignOutPayload'' field False False ''String''"

definition childFields_SignOutPayload :: "'g executionContext \<Rightarrow> ectx \<Rightarrow> CollectedField \<Rightarrow> 'g field_context" where
  "childFields_SignOutPayload ec = child_fields ec ''SignOutPayload''
     [(''redirectUrl'', fieldContext_SignOutPayload_redirectUrl ec)]"

definition exec_SignOutPayload_redirectUrl ::
  "'g executionContext \<Rightarrow> ectx \<Rightarrow> CollectedField \<Rightarrow> SignOutPayload \<Rightarrow> ('g, Marshaler) px" where
  "exec_SignOutPayload_redirectUrl ec ctx field obj =
     rt_ResolveField (ec_runtime ec) ctx (ec_OperationContext ec) field (fieldContext_SignOutPayload_redirectUrl ec)
       (\<lambda>ctx. plain_value (AnyString (SignOutPayload_RedirectURL obj)))
       (\<lambda>ctx sel v. assert_type (as_String v) (marshalNString ec ctx sel)) True True"

definition signOutPayloadImplementors :: "string list" where
  "signOutPayloadImplementors = [''SignOutPayload'']"

definition exec_SignOutPayload ::
  "'g executionContext \<Rightarrow> ectx \<Rightarrow> Selection list \<Rightarrow> SignOutPayload \<Rightarrow> ('g, Marshaler) px" where
  "exec_SignOutPayload ec ctx sel obj =
     exec_object ec ctx sel signOutPayloadImplementors ''SignOutPayload'' (map_of
       [(''redirectUrl'', AtOnce NonNull (\<lambda>ctx field. exec_SignOutPayload_redirectUrl ec ctx field obj))])"

definition marshalNSignOutPayload ::
  "'g executionContext \<Rightarrow> ectx \<Rightarrow> Selection list \<Rightarrow> SignOutPayload option \<Rightarrow> ('g, Marshaler) px" where
  "marshalNSignOutPayload ec ctx sel v = marshal_pointer ec ctx v (exec_SignOutPayload ec ctx sel)"

section \<open>FieldMessage\<close>

definition fieldContext_FieldMessage_name :: "'g executionContext \<Rightarrow> ectx \<Rightarrow> CollectedField \<Rightarrow> 'g field_context" where
  "fieldContext_FieldMessage_name ec ctx field = scalar_context ec ''FieldMessage'' field False False ''String''"

definition fieldContext_FieldMessage_value :: "'g executionContext \<Rightarrow> ectx \<Rightarrow> CollectedField \<Rightarrow> 'g field_context" where
  "fieldContext_FieldMessage_value ec ctx field = scalar_context ec ''FieldMessage'' field False False ''String''"

definition childFields_FieldMessage :: "'g executionContext \<Rightarrow> ectx \<Rightarrow> CollectedField \<Rightarrow> 'g field_context" where
  "childFields_FieldMessage ec = child_fields ec ''FieldMessage''
     [(''name'', fieldContext_FieldMessage_name ec),
      (''value'', fieldContext_FieldMessage_value ec)]"

definition exec_FieldMessage_name ::
  "'g executionContext \<Rightarrow> ectx \<Rightarrow> CollectedField \<Rightarrow> FieldMessage \<Rightarrow> ('g, Marshaler) px" where
  "exec_FieldMessage_name ec ctx field obj =
     rt_ResolveField (ec_runtime ec) ctx (ec_OperationContext ec) field (fieldContext_FieldMessage_name ec)
       (\<lambda>ctx. plain_value (AnyString (FieldMessage_Name obj)))
       (\<lambda>ctx sel v. assert_type (as_String v) (marshalNString ec ctx sel)) True True"

definition exec_FieldMessage_value ::
  "'g executionContext \<Rightarrow> ectx \<Rightarrow> CollectedField \<Rightarrow> FieldMessage \<Rightarrow> ('g, Marshaler) px" where
  "exec_FieldMessage_value ec ctx field obj =
     rt_ResolveField (ec_runtime ec) ctx (ec_OperationContext ec) field (fieldContext_FieldMessage_value ec)
       (\<lambda>ctx. plain_value (AnyString (FieldMessage_Value obj)))
       (\<lambda>ctx sel v. assert_type (as_String v) (marshalNString ec ctx sel)) True True"

definition fieldMessageImplementors :: "string list" where
  "fieldMessageImplementors = [''FieldMessage'']"

definition exec_FieldMessage ::
  "'g executionContext \<Rightarrow> ectx \<Rightarrow> Selection list \<Rightarrow> FieldMessage \<Rightarrow> ('g, Marshaler) px" where
  "exec_FieldMessage ec ctx sel obj =
     exec_object ec ctx sel fieldMessageImplementors ''FieldMessage'' (map_of
       [(''name'', AtOnce NonNull (\<lambda>ctx field. exec_FieldMessage_name ec ctx field obj)),
        (''value'', AtOnce NonNull (\<lambda>ctx field. exec_FieldMessage_value ec ctx field obj))])"

definition marshalNFieldMessage ::
  "'g executionContext \<Rightarrow> ectx \<Rightarrow> Selection list \<Rightarrow> FieldMessage \<Rightarrow> ('g, Marshaler) px" where
  "marshalNFieldMessage ec ctx sel v = exec_FieldMessage ec ctx sel v"

definition marshalNFieldMessages ::
  "'g executionContext \<Rightarrow> ectx \<Rightarrow> Selection list \<Rightarrow> FieldMessage list \<Rightarrow> ('g, Marshaler) px" where
  "marshalNFieldMessages ec ctx sel v =
     marshal_list ec ctx AnyFieldMessageElem v (\<lambda>ctx x. marshalNFieldMessage ec ctx sel x)"

section \<open>ErrorPayload\<close>

definition fieldContext_ErrorPayload_message :: "'g executionContext \<Rightarrow> ectx \<Rightarrow> CollectedField \<Rightarrow> 'g field_context" where
  "fieldContext_ErrorPayload_message ec ctx field = scalar_context ec ''ErrorPayload'' field False False ''String''"

definition fieldContext_ErrorPayload_byFields :: "'g executionContext \<Rightarrow> ectx \<Rightarrow> CollectedField \<Rightarrow> 'g field_context" where
  "fieldContext_ErrorPayload_byFields ec ctx field =
     ret (Some \<lparr>fc_Object = ''ErrorPayload'', fc_Field = Some field, fc_IsMethod = False, fc_IsResolver = False,
         fc_Args = [], fc_Child = Some Child_FieldMessage\<rparr>, None)"

definition exec_ErrorPayload_message ::
  "'g executionContext \<Rightarrow> ectx \<Rightarrow> CollectedField \<Rightarrow> ErrorPayload \<Rightarrow> ('g, Marshaler) px" where
  "exec_ErrorPayload_message ec ctx field obj =
     rt_ResolveField (ec_runtime ec) ctx (ec_OperationContext ec) field (fieldContext_ErrorPayload_message ec)
       (\<lambda>ctx. plain_value (AnyString (ErrorPayload_Message obj)))
       (\<lambda>ctx sel v. assert_type (as_String v) (marshalNString ec ctx sel)) True True"

definition exec_ErrorPayload_byFields ::
  "'g executionContext \<Rightarrow> ectx \<Rightarrow> CollectedField \<Rightarrow> ErrorPayload \<Rightarrow> ('g, Marshaler) px" where
  "exec_ErrorPayload_byFields ec ctx field obj =
     rt_ResolveField (ec_runtime ec) ctx (ec_OperationContext ec) field (fieldContext_ErrorPayload_byFields ec)
       (\<lambda>ctx. plain_value (AnyFieldMessages (ErrorPayload_ByFields obj)))
       (\<lambda>ctx sel v. assert_type (as_FieldMessages v) (marshalNFieldMessages ec ctx sel)) True True"

definition errorPayloadImplementors :: "string list" where
  "errorPayloadImplementors = [''ErrorPayload'', ''BanUserOrErrorPayload'', ''UnbanUserOrErrorPayload'', ''MakeAdminOrErrorPayload'', ''RemoveAdminOrErrorPayload'']"

definition exec_ErrorPayload ::
  "'g executionContext \<Rightarrow> ectx \<Rightarrow> Selection list \<Rightarrow> ErrorPayload \<Rightarrow> ('g, Marshaler) px" where
  "exec_ErrorPayload ec ctx sel obj =
     exec_object ec ctx sel errorPayloadImplementors ''ErrorPayload'' (map_of
       [(''message'', AtOnce NonNull (\<lambda>ctx field. exec_ErrorPayload_message ec ctx field obj)),
        (''byFields'', AtOnce NonNull (\<lambda>ctx field. exec_ErrorPayload_byFields ec ctx field obj))])"

section \<open>BanUserPayload\<close>

definition fieldContext_BanUserPayload_userId :: "'g executionContext \<Rightarrow> ectx \<Rightarrow> CollectedField \<Rightarrow> 'g field_context" where
  "fieldContext_BanUserPayload_userId ec ctx field = scalar_context ec ''BanUserPayload'' field False False ''Int64''"

definition exec_BanUserPayload_userId ::
  "'g executionContext \<Rightarrow> ectx \<Rightarrow> CollectedField \<Rightarrow> BanUserPayload \<Rightarrow> ('g, Marshaler) px" where
  "exec_BanUserPayload_userId ec ctx field obj =
     rt_ResolveField (ec_runtime ec) ctx (ec_OperationContext ec) field (fieldContext_BanUserPayload_userId ec)
       (\<lambda>ctx. plain_value (AnyInt64 (BanUserPayload_UserID obj)))
       (\<lambda>ctx sel v. assert_type (as_Int64 v) (marshalNInt64 ec ctx sel)) True True"

definition banUserPayloadImplementors :: "string list" where
  "banUserPayloadImplementors = [''BanUserPayload'', ''BanUserOrErrorPayload'']"

definition exec_BanUserPayload ::
  "'g executionContext \<Rightarrow> ectx \<Rightarrow> Selection list \<Rightarrow> BanUserPayload \<Rightarrow> ('g, Marshaler) px" where
  "exec_BanUserPayload ec ctx sel obj =
     exec_object ec ctx sel banUserPayloadImplementors ''BanUserPayload'' (map_of
       [(''userId'', AtOnce NonNull (\<lambda>ctx field. exec_BanUserPayload_userId ec ctx field obj))])"

definition exec_BanUserOrErrorPayload ::
  "'g executionContext \<Rightarrow> ectx \<Rightarrow> Selection list \<Rightarrow> BanUserOrErrorPayload \<Rightarrow> ('g, Marshaler) px" where
  "exec_BanUserOrErrorPayload ec ctx sel obj =
     (case obj of
        Rejected e \<Rightarrow> exec_ErrorPayload ec ctx sel e
      | Payload p \<Rightarrow> exec_BanUserPayload ec ctx sel p)"

definition marshalNBanUserOrErrorPayload ::
  "'g executionContext \<Rightarrow> ectx \<Rightarrow> Selection list \<Rightarrow> BanUserOrErrorPayload \<Rightarrow> ('g, Marshaler) px" where
  "marshalNBanUserOrErrorPayload ec ctx sel v = exec_BanUserOrErrorPayload ec ctx sel v"

section \<open>UnbanUserPayload\<close>

definition fieldContext_UnbanUserPayload_userId :: "'g executionContext \<Rightarrow> ectx \<Rightarrow> CollectedField \<Rightarrow> 'g field_context" where
  "fieldContext_UnbanUserPayload_userId ec ctx field = scalar_context ec ''UnbanUserPayload'' field False False ''Int64''"

definition exec_UnbanUserPayload_userId ::
  "'g executionContext \<Rightarrow> ectx \<Rightarrow> CollectedField \<Rightarrow> UnbanUserPayload \<Rightarrow> ('g, Marshaler) px" where
  "exec_UnbanUserPayload_userId ec ctx field obj =
     rt_ResolveField (ec_runtime ec) ctx (ec_OperationContext ec) field (fieldContext_UnbanUserPayload_userId ec)
       (\<lambda>ctx. plain_value (AnyInt64 (UnbanUserPayload_UserID obj)))
       (\<lambda>ctx sel v. assert_type (as_Int64 v) (marshalNInt64 ec ctx sel)) True True"

definition unbanUserPayloadImplementors :: "string list" where
  "unbanUserPayloadImplementors = [''UnbanUserPayload'', ''UnbanUserOrErrorPayload'']"

definition exec_UnbanUserPayload ::
  "'g executionContext \<Rightarrow> ectx \<Rightarrow> Selection list \<Rightarrow> UnbanUserPayload \<Rightarrow> ('g, Marshaler) px" where
  "exec_UnbanUserPayload ec ctx sel obj =
     exec_object ec ctx sel unbanUserPayloadImplementors ''UnbanUserPayload'' (map_of
       [(''userId'', AtOnce NonNull (\<lambda>ctx field. exec_UnbanUserPayload_userId ec ctx field obj))])"

definition exec_UnbanUserOrErrorPayload ::
  "'g executionContext \<Rightarrow> ectx \<Rightarrow> Selection list \<Rightarrow> UnbanUserOrErrorPayload \<Rightarrow> ('g, Marshaler) px" where
  "exec_UnbanUserOrErrorPayload ec ctx sel obj =
     (case obj of
        Rejected e \<Rightarrow> exec_ErrorPayload ec ctx sel e
      | Payload p \<Rightarrow> exec_UnbanUserPayload ec ctx sel p)"

definition marshalNUnbanUserOrErrorPayload ::
  "'g executionContext \<Rightarrow> ectx \<Rightarrow> Selection list \<Rightarrow> UnbanUserOrErrorPayload \<Rightarrow> ('g, Marshaler) px" where
  "marshalNUnbanUserOrErrorPayload ec ctx sel v = exec_UnbanUserOrErrorPayload ec ctx sel v"

section \<open>MakeAdminPayload\<close>

definition fieldContext_MakeAdminPayload_userId :: "'g executionContext \<Rightarrow> ectx \<Rightarrow> CollectedField \<Rightarrow> 'g field_context" where
  "fieldContext_MakeAdminPayload_userId ec ctx field = scalar_context ec ''MakeAdminPayload'' field False False ''Int64''"

definition exec_MakeAdminPayload_userId ::
  "'g executionContext \<Rightarrow> ectx \<Rightarrow> CollectedField \<Rightarrow> MakeAdminPayload \<Rightarrow> ('g, Marshaler) px" where
  "exec_MakeAdminPayload_userId ec ctx field obj =
     rt_ResolveField (ec_runtime ec) ctx (ec_OperationContext ec) field (fieldContext_MakeAdminPayload_userId ec)
       (\<lambda>ctx. plain_value (AnyInt64 (MakeAdminPayload_UserID obj)))
       (\<lambda>ctx sel v. assert_type (as_Int64 v) (marshalNInt64 ec ctx sel)) True True"

definition makeAdminPayloadImplementors :: "string list" where
  "makeAdminPayloadImplementors = [''MakeAdminPayload'', ''MakeAdminOrErrorPayload'']"

definition exec_MakeAdminPayload ::
  "'g executionContext \<Rightarrow> ectx \<Rightarrow> Selection list \<Rightarrow> MakeAdminPayload \<Rightarrow> ('g, Marshaler) px" where
  "exec_MakeAdminPayload ec ctx sel obj =
     exec_object ec ctx sel makeAdminPayloadImplementors ''MakeAdminPayload'' (map_of
       [(''userId'', AtOnce NonNull (\<lambda>ctx field. exec_MakeAdminPayload_userId ec ctx field obj))])"

definition exec_MakeAdminOrErrorPayload ::
  "'g executionContext \<Rightarrow> ectx \<Rightarrow> Selection list \<Rightarrow> MakeAdminOrErrorPayload \<Rightarrow> ('g, Marshaler) px" where
  "exec_MakeAdminOrErrorPayload ec ctx sel obj =
     (case obj of
        Rejected e \<Rightarrow> exec_ErrorPayload ec ctx sel e
      | Payload p \<Rightarrow> exec_MakeAdminPayload ec ctx sel p)"

definition marshalNMakeAdminOrErrorPayload ::
  "'g executionContext \<Rightarrow> ectx \<Rightarrow> Selection list \<Rightarrow> MakeAdminOrErrorPayload \<Rightarrow> ('g, Marshaler) px" where
  "marshalNMakeAdminOrErrorPayload ec ctx sel v = exec_MakeAdminOrErrorPayload ec ctx sel v"

section \<open>RemoveAdminPayload\<close>

definition fieldContext_RemoveAdminPayload_userId :: "'g executionContext \<Rightarrow> ectx \<Rightarrow> CollectedField \<Rightarrow> 'g field_context" where
  "fieldContext_RemoveAdminPayload_userId ec ctx field = scalar_context ec ''RemoveAdminPayload'' field False False ''Int64''"

definition exec_RemoveAdminPayload_userId ::
  "'g executionContext \<Rightarrow> ectx \<Rightarrow> CollectedField \<Rightarrow> RemoveAdminPayload \<Rightarrow> ('g, Marshaler) px" where
  "exec_RemoveAdminPayload_userId ec ctx field obj =
     rt_ResolveField (ec_runtime ec) ctx (ec_OperationContext ec) field (fieldContext_RemoveAdminPayload_userId ec)
       (\<lambda>ctx. plain_value (AnyInt64 (RemoveAdminPayload_UserID obj)))
       (\<lambda>ctx sel v. assert_type (as_Int64 v) (marshalNInt64 ec ctx sel)) True True"

definition removeAdminPayloadImplementors :: "string list" where
  "removeAdminPayloadImplementors = [''RemoveAdminPayload'', ''RemoveAdminOrErrorPayload'']"

definition exec_RemoveAdminPayload ::
  "'g executionContext \<Rightarrow> ectx \<Rightarrow> Selection list \<Rightarrow> RemoveAdminPayload \<Rightarrow> ('g, Marshaler) px" where
  "exec_RemoveAdminPayload ec ctx sel obj =
     exec_object ec ctx sel removeAdminPayloadImplementors ''RemoveAdminPayload'' (map_of
       [(''userId'', AtOnce NonNull (\<lambda>ctx field. exec_RemoveAdminPayload_userId ec ctx field obj))])"

definition exec_RemoveAdminOrErrorPayload ::
  "'g executionContext \<Rightarrow> ectx \<Rightarrow> Selection list \<Rightarrow> RemoveAdminOrErrorPayload \<Rightarrow> ('g, Marshaler) px" where
  "exec_RemoveAdminOrErrorPayload ec ctx sel obj =
     (case obj of
        Rejected e \<Rightarrow> exec_ErrorPayload ec ctx sel e
      | Payload p \<Rightarrow> exec_RemoveAdminPayload ec ctx sel p)"

definition marshalNRemoveAdminOrErrorPayload ::
  "'g executionContext \<Rightarrow> ectx \<Rightarrow> Selection list \<Rightarrow> RemoveAdminOrErrorPayload \<Rightarrow> ('g, Marshaler) px" where
  "marshalNRemoveAdminOrErrorPayload ec ctx sel v = exec_RemoveAdminOrErrorPayload ec ctx sel v"

end
