(* ===== verification/ExecAdmin.thy ===== *)
theory ExecAdmin
  imports ExecTypes
begin

text \<open>
  The executors of the objects behind the admin boundary (internal/graph/generated/generated.go):
  lists and pages, and the namespaces of admin queries and admin mutations.
\<close>

section \<open>AdminUser\<close>

definition fieldContext_AdminUser_id :: "'g executionContext \<Rightarrow> ectx \<Rightarrow> CollectedField \<Rightarrow> 'g field_context" where
  "fieldContext_AdminUser_id ec ctx field = scalar_context ec ''AdminUser'' field False False ''Int64''"

definition fieldContext_AdminUser_email :: "'g executionContext \<Rightarrow> ectx \<Rightarrow> CollectedField \<Rightarrow> 'g field_context" where
  "fieldContext_AdminUser_email ec ctx field = scalar_context ec ''AdminUser'' field False False ''String''"

definition fieldContext_AdminUser_name :: "'g executionContext \<Rightarrow> ectx \<Rightarrow> CollectedField \<Rightarrow> 'g field_context" where
  "fieldContext_AdminUser_name ec ctx field = scalar_context ec ''AdminUser'' field False False ''String''"

definition fieldContext_AdminUser_createdAt :: "'g executionContext \<Rightarrow> ectx \<Rightarrow> CollectedField \<Rightarrow> 'g field_context" where
  "fieldContext_AdminUser_createdAt ec ctx field =
     ret (Some \<lparr>fc_Object = ''AdminUser'', fc_Field = Some field, fc_IsMethod = False, fc_IsResolver = False,
         fc_Args = [], fc_Child = Some Child_Timestamp\<rparr>, None)"

definition fieldContext_AdminUser_lastSignInAt :: "'g executionContext \<Rightarrow> ectx \<Rightarrow> CollectedField \<Rightarrow> 'g field_context" where
  "fieldContext_AdminUser_lastSignInAt ec ctx field =
     ret (Some \<lparr>fc_Object = ''AdminUser'', fc_Field = Some field, fc_IsMethod = False, fc_IsResolver = False,
         fc_Args = [], fc_Child = Some Child_Timestamp\<rparr>, None)"

definition fieldContext_AdminUser_isAdmin :: "'g executionContext \<Rightarrow> ectx \<Rightarrow> CollectedField \<Rightarrow> 'g field_context" where
  "fieldContext_AdminUser_isAdmin ec ctx field = scalar_context ec ''AdminUser'' field True True ''Boolean''"

definition fieldContext_AdminUser_banReason :: "'g executionContext \<Rightarrow> ectx \<Rightarrow> CollectedField \<Rightarrow> 'g field_context" where
  "fieldContext_AdminUser_banReason ec ctx field = scalar_context ec ''AdminUser'' field False False ''String''"

definition childFields_AdminUser :: "'g executionContext \<Rightarrow> ectx \<Rightarrow> CollectedField \<Rightarrow> 'g field_context" where
  "childFields_AdminUser ec = child_fields ec ''AdminUser''
     [(''id'', fieldContext_AdminUser_id ec),
      (''email'', fieldContext_AdminUser_email ec),
      (''name'', fieldContext_AdminUser_name ec),
      (''createdAt'', fieldContext_AdminUser_createdAt ec),
      (''lastSignInAt'', fieldContext_AdminUser_lastSignInAt ec),
      (''isAdmin'', fieldContext_AdminUser_isAdmin ec),
      (''banReason'', fieldContext_AdminUser_banReason ec)]"

definition exec_AdminUser_id ::
  "'g executionContext \<Rightarrow> ectx \<Rightarrow> CollectedField \<Rightarrow> DBListUsersRow \<Rightarrow> ('g, Marshaler) px" where
  "exec_AdminUser_id ec ctx field obj =
     rt_ResolveField (ec_runtime ec) ctx (ec_OperationContext ec) field (fieldContext_AdminUser_id ec)
       (\<lambda>ctx. plain_value (AnyInt64 (ListUsers_ID obj)))
       (\<lambda>ctx sel v. assert_type (as_Int64 v) (marshalNInt64 ec ctx sel)) True True"

definition exec_AdminUser_email ::
  "'g executionContext \<Rightarrow> ectx \<Rightarrow> CollectedField \<Rightarrow> DBListUsersRow \<Rightarrow> ('g, Marshaler) px" where
  "exec_AdminUser_email ec ctx field obj =
     rt_ResolveField (ec_runtime ec) ctx (ec_OperationContext ec) field (fieldContext_AdminUser_email ec)
       (\<lambda>ctx. plain_value (AnyString (ListUsers_Email obj)))
       (\<lambda>ctx sel v. assert_type (as_String v) (marshalNString ec ctx sel)) True True"

definition exec_AdminUser_name ::
  "'g executionContext \<Rightarrow> ectx \<Rightarrow> CollectedField \<Rightarrow> DBListUsersRow \<Rightarrow> ('g, Marshaler) px" where
  "exec_AdminUser_name ec ctx field obj =
     rt_ResolveField (ec_runtime ec) ctx (ec_OperationContext ec) field (fieldContext_AdminUser_name ec)
       (\<lambda>ctx. plain_value (AnyString (ListUsers_Name obj)))
       (\<lambda>ctx sel v. assert_type (as_String v) (marshalNString ec ctx sel)) True True"

definition exec_AdminUser_createdAt ::
  "'g executionContext \<Rightarrow> ectx \<Rightarrow> CollectedField \<Rightarrow> DBListUsersRow \<Rightarrow> ('g, Marshaler) px" where
  "exec_AdminUser_createdAt ec ctx field obj =
     rt_ResolveField (ec_runtime ec) ctx (ec_OperationContext ec) field (fieldContext_AdminUser_createdAt ec)
       (\<lambda>ctx. plain_value (AnyStamp (ListUsers_CreatedAt obj)))
       (\<lambda>ctx sel v. assert_type (as_Stamp v) (marshalNTimestamp ec ctx sel)) True True"

definition exec_AdminUser_lastSignInAt ::
  "'g executionContext \<Rightarrow> ectx \<Rightarrow> CollectedField \<Rightarrow> DBListUsersRow \<Rightarrow> ('g, Marshaler) px" where
  "exec_AdminUser_lastSignInAt ec ctx field obj =
     rt_ResolveField (ec_runtime ec) ctx (ec_OperationContext ec) field (fieldContext_AdminUser_lastSignInAt ec)
       (\<lambda>ctx. plain_value (AnyStampPtr (ListUsers_LastSigninAt obj)))
       (\<lambda>ctx sel v. assert_type (as_StampPtr v) (marshalOTimestamp ec ctx sel)) True False"

definition exec_AdminUser_isAdmin ::
  "'g executionContext \<Rightarrow> ectx \<Rightarrow> CollectedField \<Rightarrow> DBListUsersRow \<Rightarrow> ('g, Marshaler) px" where
  "exec_AdminUser_isAdmin ec ctx field obj =
     rt_ResolveField (ec_runtime ec) ctx (ec_OperationContext ec) field (fieldContext_AdminUser_isAdmin ec)
       (\<lambda>ctx. resolved AnyBool (AdminUser_IsAdminField obj))
       (\<lambda>ctx sel v. assert_type (as_Bool v) (marshalNBoolean ec ctx sel)) True True"

definition exec_AdminUser_banReason ::
  "'g executionContext \<Rightarrow> ectx \<Rightarrow> CollectedField \<Rightarrow> DBListUsersRow \<Rightarrow> ('g, Marshaler) px" where
  "exec_AdminUser_banReason ec ctx field obj =
     rt_ResolveField (ec_runtime ec) ctx (ec_OperationContext ec) field (fieldContext_AdminUser_banReason ec)
       (\<lambda>ctx. plain_value (AnyString (ListUsers_BanReason obj)))
       (\<lambda>ctx sel v. assert_type (as_String v) (marshalNString ec ctx sel)) True True"

definition adminUserImplementors :: "string list" where
  "adminUserImplementors = [''AdminUser'']"

definition exec_AdminUser ::
  "'g executionContext \<Rightarrow> ectx \<Rightarrow> Selection list \<Rightarrow> DBListUsersRow \<Rightarrow> ('g, Marshaler) px" where
  "exec_AdminUser ec ctx sel obj =
     exec_object ec ctx sel adminUserImplementors ''AdminUser'' (map_of
       [(''id'', AtOnce NonNull (\<lambda>ctx field. exec_AdminUser_id ec ctx field obj)),
        (''email'', AtOnce NonNull (\<lambda>ctx field. exec_AdminUser_email ec ctx field obj)),
        (''name'', AtOnce NonNull (\<lambda>ctx field. exec_AdminUser_name ec ctx field obj)),
        (''createdAt'', AtOnce NonNull (\<lambda>ctx field. exec_AdminUser_createdAt ec ctx field obj)),
        (''lastSignInAt'', AtOnce Nullable (\<lambda>ctx field. exec_AdminUser_lastSignInAt ec ctx field obj)),
        (''isAdmin'', Goroutine NonNull (\<lambda>ctx field. exec_AdminUser_isAdmin ec ctx field obj)),
        (''banReason'', AtOnce NonNull (\<lambda>ctx field. exec_AdminUser_banReason ec ctx field obj))])"

definition marshalOAdminUser ::
  "'g executionContext \<Rightarrow> ectx \<Rightarrow> Selection list \<Rightarrow> DBListUsersRow option \<Rightarrow> ('g, Marshaler) px" where
  "marshalOAdminUser ec ctx sel v = marshal_optional v (exec_AdminUser ec ctx sel)"

definition marshalNAdminUser ::
  "'g executionContext \<Rightarrow> ectx \<Rightarrow> Selection list \<Rightarrow> DBListUsersRow \<Rightarrow> ('g, Marshaler) px" where
  "marshalNAdminUser ec ctx sel v = exec_AdminUser ec ctx sel v"

definition marshalNAdminUsers ::
  "'g executionContext \<Rightarrow> ectx \<Rightarrow> Selection list \<Rightarrow> DBListUsersRow list \<Rightarrow> ('g, Marshaler) px" where
  "marshalNAdminUsers ec ctx sel v =
     marshal_list ec ctx AnyAdminUserElem v (\<lambda>ctx x. marshalNAdminUser ec ctx sel x)"

section \<open>Admin\<close>

definition fieldContext_Admin_userId :: "'g executionContext \<Rightarrow> ectx \<Rightarrow> CollectedField \<Rightarrow> 'g field_context" where
  "fieldContext_Admin_userId ec ctx field = scalar_context ec ''Admin'' field False False ''Int64''"

definition fieldContext_Admin_email :: "'g executionContext \<Rightarrow> ectx \<Rightarrow> CollectedField \<Rightarrow> 'g field_context" where
  "fieldContext_Admin_email ec ctx field = scalar_context ec ''Admin'' field False False ''String''"

definition fieldContext_Admin_name :: "'g executionContext \<Rightarrow> ectx \<Rightarrow> CollectedField \<Rightarrow> 'g field_context" where
  "fieldContext_Admin_name ec ctx field = scalar_context ec ''Admin'' field False False ''String''"

definition fieldContext_Admin_createdAt :: "'g executionContext \<Rightarrow> ectx \<Rightarrow> CollectedField \<Rightarrow> 'g field_context" where
  "fieldContext_Admin_createdAt ec ctx field =
     ret (Some \<lparr>fc_Object = ''Admin'', fc_Field = Some field, fc_IsMethod = False, fc_IsResolver = False,
         fc_Args = [], fc_Child = Some Child_Timestamp\<rparr>, None)"

definition childFields_Admin :: "'g executionContext \<Rightarrow> ectx \<Rightarrow> CollectedField \<Rightarrow> 'g field_context" where
  "childFields_Admin ec = child_fields ec ''Admin''
     [(''userId'', fieldContext_Admin_userId ec),
      (''email'', fieldContext_Admin_email ec),
      (''name'', fieldContext_Admin_name ec),
      (''createdAt'', fieldContext_Admin_createdAt ec)]"

definition exec_Admin_userId ::
  "'g executionContext \<Rightarrow> ectx \<Rightarrow> CollectedField \<Rightarrow> DBListAdminsRow \<Rightarrow> ('g, Marshaler) px" where
  "exec_Admin_userId ec ctx field obj =
     rt_ResolveField (ec_runtime ec) ctx (ec_OperationContext ec) field (fieldContext_Admin_userId ec)
       (\<lambda>ctx. plain_value (AnyInt64 (ListAdmins_UserID obj)))
       (\<lambda>ctx sel v. assert_type (as_Int64 v) (marshalNInt64 ec ctx sel)) True True"

definition exec_Admin_email ::
  "'g executionContext \<Rightarrow> ectx \<Rightarrow> CollectedField \<Rightarrow> DBListAdminsRow \<Rightarrow> ('g, Marshaler) px" where
  "exec_Admin_email ec ctx field obj =
     rt_ResolveField (ec_runtime ec) ctx (ec_OperationContext ec) field (fieldContext_Admin_email ec)
       (\<lambda>ctx. plain_value (AnyString (ListAdmins_Email obj)))
       (\<lambda>ctx sel v. assert_type (as_String v) (marshalNString ec ctx sel)) True True"

definition exec_Admin_name ::
  "'g executionContext \<Rightarrow> ectx \<Rightarrow> CollectedField \<Rightarrow> DBListAdminsRow \<Rightarrow> ('g, Marshaler) px" where
  "exec_Admin_name ec ctx field obj =
     rt_ResolveField (ec_runtime ec) ctx (ec_OperationContext ec) field (fieldContext_Admin_name ec)
       (\<lambda>ctx. plain_value (AnyString (ListAdmins_Name obj)))
       (\<lambda>ctx sel v. assert_type (as_String v) (marshalNString ec ctx sel)) True True"

definition exec_Admin_createdAt ::
  "'g executionContext \<Rightarrow> ectx \<Rightarrow> CollectedField \<Rightarrow> DBListAdminsRow \<Rightarrow> ('g, Marshaler) px" where
  "exec_Admin_createdAt ec ctx field obj =
     rt_ResolveField (ec_runtime ec) ctx (ec_OperationContext ec) field (fieldContext_Admin_createdAt ec)
       (\<lambda>ctx. plain_value (AnyStamp (ListAdmins_CreatedAt obj)))
       (\<lambda>ctx sel v. assert_type (as_Stamp v) (marshalNTimestamp ec ctx sel)) True True"

definition adminImplementors :: "string list" where
  "adminImplementors = [''Admin'']"

definition exec_Admin ::
  "'g executionContext \<Rightarrow> ectx \<Rightarrow> Selection list \<Rightarrow> DBListAdminsRow \<Rightarrow> ('g, Marshaler) px" where
  "exec_Admin ec ctx sel obj =
     exec_object ec ctx sel adminImplementors ''Admin'' (map_of
       [(''userId'', AtOnce NonNull (\<lambda>ctx field. exec_Admin_userId ec ctx field obj)),
        (''email'', AtOnce NonNull (\<lambda>ctx field. exec_Admin_email ec ctx field obj)),
        (''name'', AtOnce NonNull (\<lambda>ctx field. exec_Admin_name ec ctx field obj)),
        (''createdAt'', AtOnce NonNull (\<lambda>ctx field. exec_Admin_createdAt ec ctx field obj))])"

definition marshalNAdmin ::
  "'g executionContext \<Rightarrow> ectx \<Rightarrow> Selection list \<Rightarrow> DBListAdminsRow \<Rightarrow> ('g, Marshaler) px" where
  "marshalNAdmin ec ctx sel v = exec_Admin ec ctx sel v"

definition marshalNAdmins ::
  "'g executionContext \<Rightarrow> ectx \<Rightarrow> Selection list \<Rightarrow> DBListAdminsRow list \<Rightarrow> ('g, Marshaler) px" where
  "marshalNAdmins ec ctx sel v =
     marshal_list ec ctx AnyAdminElem v (\<lambda>ctx x. marshalNAdmin ec ctx sel x)"

section \<open>UsersConnection\<close>

definition fieldContext_UsersConnection_totalCount :: "'g executionContext \<Rightarrow> ectx \<Rightarrow> CollectedField \<Rightarrow> 'g field_context" where
  "fieldContext_UsersConnection_totalCount ec ctx field = scalar_context ec ''UsersConnection'' field True True ''Int64''"

definition fieldContext_UsersConnection_nodes :: "'g executionContext \<Rightarrow> ectx \<Rightarrow> CollectedField \<Rightarrow> 'g field_context" where
  "fieldContext_UsersConnection_nodes ec ctx field =
     ret (Some \<lparr>fc_Object = ''UsersConnection'', fc_Field = Some field, fc_IsMethod = True, fc_IsResolver = True,
         fc_Args = [], fc_Child = Some Child_AdminUser\<rparr>, None)"

definition childFields_UsersConnection :: "'g executionContext \<Rightarrow> ectx \<Rightarrow> CollectedField \<Rightarrow> 'g field_context" where
  "childFields_UsersConnection ec = child_fields ec ''UsersConnection''
     [(''totalCount'', fieldContext_UsersConnection_totalCount ec),
      (''nodes'', fieldContext_UsersConnection_nodes ec)]"

definition exec_UsersConnection_totalCount ::
  "'g executionContext \<Rightarrow> ectx \<Rightarrow> CollectedField \<Rightarrow> UsersConnection \<Rightarrow> ('g, Marshaler) px" where
  "exec_UsersConnection_totalCount ec ctx field obj =
     rt_ResolveField (ec_runtime ec) ctx (ec_OperationContext ec) field (fieldContext_UsersConnection_totalCount ec)
       (\<lambda>ctx. resolved AnyInt64 (UsersConnection_TotalCountField (ec_Resolvers ec) (gctx.truncate ctx)))
       (\<lambda>ctx sel v. assert_type (as_Int64 v) (marshalNInt64 ec ctx sel)) True True"

definition exec_UsersConnection_nodes ::
  "'g executionContext \<Rightarrow> ectx \<Rightarrow> CollectedField \<Rightarrow> UsersConnection \<Rightarrow> ('g, Marshaler) px" where
  "exec_UsersConnection_nodes ec ctx field obj =
     rt_ResolveField (ec_runtime ec) ctx (ec_OperationContext ec) field (fieldContext_UsersConnection_nodes ec)
       (\<lambda>ctx. resolved AnyAdminUsers (UsersConnection_NodesField (ec_Resolvers ec) (gctx.truncate ctx)))
       (\<lambda>ctx sel v. assert_type (as_AdminUsers v) (marshalNAdminUsers ec ctx sel)) True True"

definition usersConnectionImplementors :: "string list" where
  "usersConnectionImplementors = [''UsersConnection'']"

definition exec_UsersConnection ::
  "'g executionContext \<Rightarrow> ectx \<Rightarrow> Selection list \<Rightarrow> UsersConnection \<Rightarrow> ('g, Marshaler) px" where
  "exec_UsersConnection ec ctx sel obj =
     exec_object ec ctx sel usersConnectionImplementors ''UsersConnection'' (map_of
       [(''totalCount'', Goroutine NonNull (\<lambda>ctx field. exec_UsersConnection_totalCount ec ctx field obj)),
        (''nodes'', Goroutine NonNull (\<lambda>ctx field. exec_UsersConnection_nodes ec ctx field obj))])"

definition marshalNUsersConnection ::
  "'g executionContext \<Rightarrow> ectx \<Rightarrow> Selection list \<Rightarrow> UsersConnection option \<Rightarrow> ('g, Marshaler) px" where
  "marshalNUsersConnection ec ctx sel v = marshal_pointer ec ctx v (exec_UsersConnection ec ctx sel)"

section \<open>AdminsConnection\<close>

definition fieldContext_AdminsConnection_totalCount :: "'g executionContext \<Rightarrow> ectx \<Rightarrow> CollectedField \<Rightarrow> 'g field_context" where
  "fieldContext_AdminsConnection_totalCount ec ctx field = scalar_context ec ''AdminsConnection'' field True True ''Int64''"

definition fieldContext_AdminsConnection_nodes :: "'g executionContext \<Rightarrow> ectx \<Rightarrow> CollectedField \<Rightarrow> 'g field_context" where
  "fieldContext_AdminsConnection_nodes ec ctx field =
     ret (Some \<lparr>fc_Object = ''AdminsConnection'', fc_Field = Some field, fc_IsMethod = True, fc_IsResolver = True,
         fc_Args = [], fc_Child = Some Child_Admin\<rparr>, None)"

definition childFields_AdminsConnection :: "'g executionContext \<Rightarrow> ectx \<Rightarrow> CollectedField \<Rightarrow> 'g field_context" where
  "childFields_AdminsConnection ec = child_fields ec ''AdminsConnection''
     [(''totalCount'', fieldContext_AdminsConnection_totalCount ec),
      (''nodes'', fieldContext_AdminsConnection_nodes ec)]"

definition exec_AdminsConnection_totalCount ::
  "'g executionContext \<Rightarrow> ectx \<Rightarrow> CollectedField \<Rightarrow> AdminsConnection \<Rightarrow> ('g, Marshaler) px" where
  "exec_AdminsConnection_totalCount ec ctx field obj =
     rt_ResolveField (ec_runtime ec) ctx (ec_OperationContext ec) field (fieldContext_AdminsConnection_totalCount ec)
       (\<lambda>ctx. resolved AnyInt64 (AdminsConnection_TotalCountField (ec_Resolvers ec) (gctx.truncate ctx)))
       (\<lambda>ctx sel v. assert_type (as_Int64 v) (marshalNInt64 ec ctx sel)) True True"

definition exec_AdminsConnection_nodes ::
  "'g executionContext \<Rightarrow> ectx \<Rightarrow> CollectedField \<Rightarrow> AdminsConnection \<Rightarrow> ('g, Marshaler) px" where
  "exec_AdminsConnection_nodes ec ctx field obj =
     rt_ResolveField (ec_runtime ec) ctx (ec_OperationContext ec) field (fieldContext_AdminsConnection_nodes ec)
       (\<lambda>ctx. resolved AnyAdmins (AdminsConnection_NodesField (ec_Resolvers ec) (gctx.truncate ctx)))
       (\<lambda>ctx sel v. assert_type (as_Admins v) (marshalNAdmins ec ctx sel)) True True"

definition adminsConnectionImplementors :: "string list" where
  "adminsConnectionImplementors = [''AdminsConnection'']"

definition exec_AdminsConnection ::
  "'g executionContext \<Rightarrow> ectx \<Rightarrow> Selection list \<Rightarrow> AdminsConnection \<Rightarrow> ('g, Marshaler) px" where
  "exec_AdminsConnection ec ctx sel obj =
     exec_object ec ctx sel adminsConnectionImplementors ''AdminsConnection'' (map_of
       [(''totalCount'', Goroutine NonNull (\<lambda>ctx field. exec_AdminsConnection_totalCount ec ctx field obj)),
        (''nodes'', Goroutine NonNull (\<lambda>ctx field. exec_AdminsConnection_nodes ec ctx field obj))])"

definition marshalNAdminsConnection ::
  "'g executionContext \<Rightarrow> ectx \<Rightarrow> Selection list \<Rightarrow> AdminsConnection option \<Rightarrow> ('g, Marshaler) px" where
  "marshalNAdminsConnection ec ctx sel v = marshal_pointer ec ctx v (exec_AdminsConnection ec ctx sel)"

section \<open>PageInfo\<close>

definition fieldContext_PageInfo_hasNextPage :: "'g executionContext \<Rightarrow> ectx \<Rightarrow> CollectedField \<Rightarrow> 'g field_context" where
  "fieldContext_PageInfo_hasNextPage ec ctx field = scalar_context ec ''PageInfo'' field False False ''Boolean''"

definition fieldContext_PageInfo_endCursor :: "'g executionContext \<Rightarrow> ectx \<Rightarrow> CollectedField \<Rightarrow> 'g field_context" where
  "fieldContext_PageInfo_endCursor ec ctx field = scalar_context ec ''PageInfo'' field False False ''Int64''"

definition childFields_PageInfo :: "'g executionContext \<Rightarrow> ectx \<Rightarrow> CollectedField \<Rightarrow> 'g field_context" where
  "childFields_PageInfo ec = child_fields ec ''PageInfo''
     [(''hasNextPage'', fieldContext_PageInfo_hasNextPage ec),
      (''endCursor'', fieldContext_PageInfo_endCursor ec)]"

definition exec_PageInfo_hasNextPage ::
  "'g executionContext \<Rightarrow> ectx \<Rightarrow> CollectedField \<Rightarrow> PageInfo \<Rightarrow> ('g, Marshaler) px" where
  "exec_PageInfo_hasNextPage ec ctx field obj =
     rt_ResolveField (ec_runtime ec) ctx (ec_OperationContext ec) field (fieldContext_PageInfo_hasNextPage ec)
       (\<lambda>ctx. plain_value (AnyBool (PageInfo_HasNextPage obj)))
       (\<lambda>ctx sel v. assert_type (as_Bool v) (marshalNBoolean ec ctx sel)) True True"

definition exec_PageInfo_endCursor ::
  "'g executionContext \<Rightarrow> ectx \<Rightarrow> CollectedField \<Rightarrow> PageInfo \<Rightarrow> ('g, Marshaler) px" where
  "exec_PageInfo_endCursor ec ctx field obj =
     rt_ResolveField (ec_runtime ec) ctx (ec_OperationContext ec) field (fieldContext_PageInfo_endCursor ec)
       (\<lambda>ctx. plain_value (AnyInt64Ptr (PageInfo_EndCursor obj)))
       (\<lambda>ctx sel v. assert_type (as_Int64Ptr v) (marshalOInt64 ec ctx sel)) True False"

definition pageInfoImplementors :: "string list" where
  "pageInfoImplementors = [''PageInfo'']"

definition exec_PageInfo ::
  "'g executionContext \<Rightarrow> ectx \<Rightarrow> Selection list \<Rightarrow> PageInfo \<Rightarrow> ('g, Marshaler) px" where
  "exec_PageInfo ec ctx sel obj =
     exec_object ec ctx sel pageInfoImplementors ''PageInfo'' (map_of
       [(''hasNextPage'', AtOnce NonNull (\<lambda>ctx field. exec_PageInfo_hasNextPage ec ctx field obj)),
        (''endCursor'', AtOnce Nullable (\<lambda>ctx field. exec_PageInfo_endCursor ec ctx field obj))])"

definition marshalNPageInfo ::
  "'g executionContext \<Rightarrow> ectx \<Rightarrow> Selection list \<Rightarrow> PageInfo option \<Rightarrow> ('g, Marshaler) px" where
  "marshalNPageInfo ec ctx sel v = marshal_pointer ec ctx v (exec_PageInfo ec ctx sel)"

section \<open>AuditLogEntry\<close>

definition fieldContext_AuditLogEntry_id :: "'g executionContext \<Rightarrow> ectx \<Rightarrow> CollectedField \<Rightarrow> 'g field_context" where
  "fieldContext_AuditLogEntry_id ec ctx field = scalar_context ec ''AuditLogEntry'' field False False ''Int64''"

definition fieldContext_AuditLogEntry_userId :: "'g executionContext \<Rightarrow> ectx \<Rightarrow> CollectedField \<Rightarrow> 'g field_context" where
  "fieldContext_AuditLogEntry_userId ec ctx field = scalar_context ec ''AuditLogEntry'' field False False ''Int64''"

definition fieldContext_AuditLogEntry_email :: "'g executionContext \<Rightarrow> ectx \<Rightarrow> CollectedField \<Rightarrow> 'g field_context" where
  "fieldContext_AuditLogEntry_email ec ctx field = scalar_context ec ''AuditLogEntry'' field False False ''String''"

definition fieldContext_AuditLogEntry_action :: "'g executionContext \<Rightarrow> ectx \<Rightarrow> CollectedField \<Rightarrow> 'g field_context" where
  "fieldContext_AuditLogEntry_action ec ctx field = scalar_context ec ''AuditLogEntry'' field False False ''String''"

definition fieldContext_AuditLogEntry_detail :: "'g executionContext \<Rightarrow> ectx \<Rightarrow> CollectedField \<Rightarrow> 'g field_context" where
  "fieldContext_AuditLogEntry_detail ec ctx field = scalar_context ec ''AuditLogEntry'' field False False ''String''"

definition fieldContext_AuditLogEntry_ip :: "'g executionContext \<Rightarrow> ectx \<Rightarrow> CollectedField \<Rightarrow> 'g field_context" where
  "fieldContext_AuditLogEntry_ip ec ctx field = scalar_context ec ''AuditLogEntry'' field False False ''String''"

definition fieldContext_AuditLogEntry_createdAt :: "'g executionContext \<Rightarrow> ectx \<Rightarrow> CollectedField \<Rightarrow> 'g field_context" where
  "fieldContext_AuditLogEntry_createdAt ec ctx field =
     ret (Some \<lparr>fc_Object = ''AuditLogEntry'', fc_Field = Some field, fc_IsMethod = False, fc_IsResolver = False,
         fc_Args = [], fc_Child = Some Child_Timestamp\<rparr>, None)"

definition childFields_AuditLogEntry :: "'g executionContext \<Rightarrow> ectx \<Rightarrow> CollectedField \<Rightarrow> 'g field_context" where
  "childFields_AuditLogEntry ec = child_fields ec ''AuditLogEntry''
     [(''id'', fieldContext_AuditLogEntry_id ec),
      (''userId'', fieldContext_AuditLogEntry_userId ec),
      (''email'', fieldContext_AuditLogEntry_email ec),
      (''action'', fieldContext_AuditLogEntry_action ec),
      (''detail'', fieldContext_AuditLogEntry_detail ec),
      (''ip'', fieldContext_AuditLogEntry_ip ec),
      (''createdAt'', fieldContext_AuditLogEntry_createdAt ec)]"

definition exec_AuditLogEntry_id ::
  "'g executionContext \<Rightarrow> ectx \<Rightarrow> CollectedField \<Rightarrow> AuditLog \<Rightarrow> ('g, Marshaler) px" where
  "exec_AuditLogEntry_id ec ctx field obj =
     rt_ResolveField (ec_runtime ec) ctx (ec_OperationContext ec) field (fieldContext_AuditLogEntry_id ec)
       (\<lambda>ctx. plain_value (AnyInt64 (AuditLog_ID obj)))
       (\<lambda>ctx sel v. assert_type (as_Int64 v) (marshalNInt64 ec ctx sel)) True True"

definition exec_AuditLogEntry_userId ::
  "'g executionContext \<Rightarrow> ectx \<Rightarrow> CollectedField \<Rightarrow> AuditLog \<Rightarrow> ('g, Marshaler) px" where
  "exec_AuditLogEntry_userId ec ctx field obj =
     rt_ResolveField (ec_runtime ec) ctx (ec_OperationContext ec) field (fieldContext_AuditLogEntry_userId ec)
       (\<lambda>ctx. plain_value (AnyInt64Ptr (AuditLog_UserID obj)))
       (\<lambda>ctx sel v. assert_type (as_Int64Ptr v) (marshalOInt64 ec ctx sel)) True False"

definition exec_AuditLogEntry_email ::
  "'g executionContext \<Rightarrow> ectx \<Rightarrow> CollectedField \<Rightarrow> AuditLog \<Rightarrow> ('g, Marshaler) px" where
  "exec_AuditLogEntry_email ec ctx field obj =
     rt_ResolveField (ec_runtime ec) ctx (ec_OperationContext ec) field (fieldContext_AuditLogEntry_email ec)
       (\<lambda>ctx. plain_value (AnyString (AuditLog_Email obj)))
       (\<lambda>ctx sel v. assert_type (as_String v) (marshalNString ec ctx sel)) True True"

definition exec_AuditLogEntry_action ::
  "'g executionContext \<Rightarrow> ectx \<Rightarrow> CollectedField \<Rightarrow> AuditLog \<Rightarrow> ('g, Marshaler) px" where
  "exec_AuditLogEntry_action ec ctx field obj =
     rt_ResolveField (ec_runtime ec) ctx (ec_OperationContext ec) field (fieldContext_AuditLogEntry_action ec)
       (\<lambda>ctx. plain_value (AnyString (AuditLog_Action obj)))
       (\<lambda>ctx sel v. assert_type (as_String v) (marshalNString ec ctx sel)) True True"

definition exec_AuditLogEntry_detail ::
  "'g executionContext \<Rightarrow> ectx \<Rightarrow> CollectedField \<Rightarrow> AuditLog \<Rightarrow> ('g, Marshaler) px" where
  "exec_AuditLogEntry_detail ec ctx field obj =
     rt_ResolveField (ec_runtime ec) ctx (ec_OperationContext ec) field (fieldContext_AuditLogEntry_detail ec)
       (\<lambda>ctx. plain_value (AnyString (AuditLog_Detail obj)))
       (\<lambda>ctx sel v. assert_type (as_String v) (marshalNString ec ctx sel)) True True"

definition exec_AuditLogEntry_ip ::
  "'g executionContext \<Rightarrow> ectx \<Rightarrow> CollectedField \<Rightarrow> AuditLog \<Rightarrow> ('g, Marshaler) px" where
  "exec_AuditLogEntry_ip ec ctx field obj =
     rt_ResolveField (ec_runtime ec) ctx (ec_OperationContext ec) field (fieldContext_AuditLogEntry_ip ec)
       (\<lambda>ctx. plain_value (AnyString (AuditLog_Ip obj)))
       (\<lambda>ctx sel v. assert_type (as_String v) (marshalNString ec ctx sel)) True True"

definition exec_AuditLogEntry_createdAt ::
  "'g executionContext \<Rightarrow> ectx \<Rightarrow> CollectedField \<Rightarrow> AuditLog \<Rightarrow> ('g, Marshaler) px" where
  "exec_AuditLogEntry_createdAt ec ctx field obj =
     rt_ResolveField (ec_runtime ec) ctx (ec_OperationContext ec) field (fieldContext_AuditLogEntry_createdAt ec)
       (\<lambda>ctx. plain_value (AnyStamp (AuditLog_CreatedAt obj)))
       (\<lambda>ctx sel v. assert_type (as_Stamp v) (marshalNTimestamp ec ctx sel)) True True"

definition auditLogEntryImplementors :: "string list" where
  "auditLogEntryImplementors = [''AuditLogEntry'']"

definition exec_AuditLogEntry ::
  "'g executionContext \<Rightarrow> ectx \<Rightarrow> Selection list \<Rightarrow> AuditLog \<Rightarrow> ('g, Marshaler) px" where
  "exec_AuditLogEntry ec ctx sel obj =
     exec_object ec ctx sel auditLogEntryImplementors ''AuditLogEntry'' (map_of
       [(''id'', AtOnce NonNull (\<lambda>ctx field. exec_AuditLogEntry_id ec ctx field obj)),
        (''userId'', AtOnce Nullable (\<lambda>ctx field. exec_AuditLogEntry_userId ec ctx field obj)),
        (''email'', AtOnce NonNull (\<lambda>ctx field. exec_AuditLogEntry_email ec ctx field obj)),
        (''action'', AtOnce NonNull (\<lambda>ctx field. exec_AuditLogEntry_action ec ctx field obj)),
        (''detail'', AtOnce NonNull (\<lambda>ctx field. exec_AuditLogEntry_detail ec ctx field obj)),
        (''ip'', AtOnce NonNull (\<lambda>ctx field. exec_AuditLogEntry_ip ec ctx field obj)),
        (''createdAt'', AtOnce NonNull (\<lambda>ctx field. exec_AuditLogEntry_createdAt ec ctx field obj))])"

definition marshalNAuditLogEntry ::
  "'g executionContext \<Rightarrow> ectx \<Rightarrow> Selection list \<Rightarrow> AuditLog \<Rightarrow> ('g, Marshaler) px" where
  "marshalNAuditLogEntry ec ctx sel v = exec_AuditLogEntry ec ctx sel v"

definition marshalNAuditLogEntries ::
  "'g executionContext \<Rightarrow> ectx \<Rightarrow> Selection list \<Rightarrow> AuditLog list \<Rightarrow> ('g, Marshaler) px" where
  "marshalNAuditLogEntries ec ctx sel v =
     marshal_list ec ctx AnyAuditLogElem v (\<lambda>ctx x. marshalNAuditLogEntry ec ctx sel x)"

section \<open>AuditLogConnection\<close>

definition fieldContext_AuditLogConnection_totalCount :: "'g executionContext \<Rightarrow> ectx \<Rightarrow> CollectedField \<Rightarrow> 'g field_context" where
  "fieldContext_AuditLogConnection_totalCount ec ctx field = scalar_context ec ''AuditLogConnection'' field False False ''Int64''"

definition fieldContext_AuditLogConnection_nodes :: "'g executionContext \<Rightarrow> ectx \<Rightarrow> CollectedField \<Rightarrow> 'g field_context" where
  "fieldContext_AuditLogConnection_nodes ec ctx field =
     ret (Some \<lparr>fc_Object = ''AuditLogConnection'', fc_Field = Some field, fc_IsMethod = False, fc_IsResolver = False,
         fc_Args = [], fc_Child = Some Child_AuditLogEntry\<rparr>, None)"

definition fieldContext_AuditLogConnection_pageInfo :: "'g executionContext \<Rightarrow> ectx \<Rightarrow> CollectedField \<Rightarrow> 'g field_context" where
  "fieldContext_AuditLogConnection_pageInfo ec ctx field =
     ret (Some \<lparr>fc_Object = ''AuditLogConnection'', fc_Field = Some field, fc_IsMethod = False, fc_IsResolver = False,
         fc_Args = [], fc_Child = Some Child_PageInfo\<rparr>, None)"

definition childFields_AuditLogConnection :: "'g executionContext \<Rightarrow> ectx \<Rightarrow> CollectedField \<Rightarrow> 'g field_context" where
  "childFields_AuditLogConnection ec = child_fields ec ''AuditLogConnection''
     [(''totalCount'', fieldContext_AuditLogConnection_totalCount ec),
      (''nodes'', fieldContext_AuditLogConnection_nodes ec),
      (''pageInfo'', fieldContext_AuditLogConnection_pageInfo ec)]"

definition exec_AuditLogConnection_totalCount ::
  "'g executionContext \<Rightarrow> ectx \<Rightarrow> CollectedField \<Rightarrow> AuditLogConnection \<Rightarrow> ('g, Marshaler) px" where
  "exec_AuditLogConnection_totalCount ec ctx field obj =
     rt_ResolveField (ec_runtime ec) ctx (ec_OperationContext ec) field (fieldContext_AuditLogConnection_totalCount ec)
       (\<lambda>ctx. plain_value (AnyInt64 (AuditLogConnection_TotalCount obj)))
       (\<lambda>ctx sel v. assert_type (as_Int64 v) (marshalNInt64 ec ctx sel)) True True"

definition exec_AuditLogConnection_nodes ::
  "'g executionContext \<Rightarrow> ectx \<Rightarrow> CollectedField \<Rightarrow> AuditLogConnection \<Rightarrow> ('g, Marshaler) px" where
  "exec_AuditLogConnection_nodes ec ctx field obj =
     rt_ResolveField (ec_runtime ec) ctx (ec_OperationContext ec) field (fieldContext_AuditLogConnection_nodes ec)
       (\<lambda>ctx. plain_value (AnyAuditLogs (AuditLogConnection_Nodes obj)))
       (\<lambda>ctx sel v. assert_type (as_AuditLogs v) (marshalNAuditLogEntries ec ctx sel)) True True"

definition exec_AuditLogConnection_pageInfo ::
  "'g executionContext \<Rightarrow> ectx \<Rightarrow> CollectedField \<Rightarrow> AuditLogConnection \<Rightarrow> ('g, Marshaler) px" where
  "exec_AuditLogConnection_pageInfo ec ctx field obj =
     rt_ResolveField (ec_runtime ec) ctx (ec_OperationContext ec) field (fieldContext_AuditLogConnection_pageInfo ec)
       (\<lambda>ctx. plain_value (AnyPageInfo (Some (AuditLogConnection_PageInfo obj))))
       (\<lambda>ctx sel v. assert_type (as_PageInfo v) (marshalNPageInfo ec ctx sel)) True True"

definition auditLogConnectionImplementors :: "string list" where
  "auditLogConnectionImplementors = [''AuditLogConnection'']"

definition exec_AuditLogConnection ::
  "'g executionContext \<Rightarrow> ectx \<Rightarrow> Selection list \<Rightarrow> AuditLogConnection \<Rightarrow> ('g, Marshaler) px" where
  "exec_AuditLogConnection ec ctx sel obj =
     exec_object ec ctx sel auditLogConnectionImplementors ''AuditLogConnection'' (map_of
       [(''totalCount'', AtOnce NonNull (\<lambda>ctx field. exec_AuditLogConnection_totalCount ec ctx field obj)),
        (''nodes'', AtOnce NonNull (\<lambda>ctx field. exec_AuditLogConnection_nodes ec ctx field obj)),
        (''pageInfo'', AtOnce NonNull (\<lambda>ctx field. exec_AuditLogConnection_pageInfo ec ctx field obj))])"

definition marshalNAuditLogConnection ::
  "'g executionContext \<Rightarrow> ectx \<Rightarrow> Selection list \<Rightarrow> AuditLogConnection option \<Rightarrow> ('g, Marshaler) px" where
  "marshalNAuditLogConnection ec ctx sel v = marshal_pointer ec ctx v (exec_AuditLogConnection ec ctx sel)"

section \<open>AdminQuery\<close>

definition fieldContext_AdminQuery_users :: "'g executionContext \<Rightarrow> ectx \<Rightarrow> CollectedField \<Rightarrow> 'g field_context" where
  "fieldContext_AdminQuery_users ec ctx field =
     ret (Some \<lparr>fc_Object = ''AdminQuery'', fc_Field = Some field, fc_IsMethod = True, fc_IsResolver = True,
         fc_Args = [], fc_Child = Some Child_UsersConnection\<rparr>, None)"

definition fieldContext_AdminQuery_user :: "'g executionContext \<Rightarrow> ectx \<Rightarrow> CollectedField \<Rightarrow> 'g field_context" where
  "fieldContext_AdminQuery_user ec ctx field =
     context_with_args ec ctx field
       \<lparr>fc_Object = ''AdminQuery'', fc_Field = Some field, fc_IsMethod = True, fc_IsResolver = True,
         fc_Args = [], fc_Child = Some Child_AdminUser\<rparr>
       (field_AdminQuery_user_args ec)"

definition fieldContext_AdminQuery_admins :: "'g executionContext \<Rightarrow> ectx \<Rightarrow> CollectedField \<Rightarrow> 'g field_context" where
  "fieldContext_AdminQuery_admins ec ctx field =
     ret (Some \<lparr>fc_Object = ''AdminQuery'', fc_Field = Some field, fc_IsMethod = True, fc_IsResolver = True,
         fc_Args = [], fc_Child = Some Child_AdminsConnection\<rparr>, None)"

definition fieldContext_AdminQuery_auditLog :: "'g executionContext \<Rightarrow> ectx \<Rightarrow> CollectedField \<Rightarrow> 'g field_context" where
  "fieldContext_AdminQuery_auditLog ec ctx field =
     context_with_args ec ctx field
       \<lparr>fc_Object = ''AdminQuery'', fc_Field = Some field, fc_IsMethod = True, fc_IsResolver = True,
         fc_Args = [], fc_Child = Some Child_AuditLogConnection\<rparr>
       (field_AdminQuery_auditLog_args ec)"

definition fieldContext_AdminQuery_buildGitCommit :: "'g executionContext \<Rightarrow> ectx \<Rightarrow> CollectedField \<Rightarrow> 'g field_context" where
  "fieldContext_AdminQuery_buildGitCommit ec ctx field = scalar_context ec ''AdminQuery'' field True True ''String''"

definition childFields_AdminQuery :: "'g executionContext \<Rightarrow> ectx \<Rightarrow> CollectedField \<Rightarrow> 'g field_context" where
  "childFields_AdminQuery ec = child_fields ec ''AdminQuery''
     [(''users'', fieldContext_AdminQuery_users ec),
      (''user'', fieldContext_AdminQuery_user ec),
      (''admins'', fieldContext_AdminQuery_admins ec),
      (''auditLog'', fieldContext_AdminQuery_auditLog ec),
      (''buildGitCommit'', fieldContext_AdminQuery_buildGitCommit ec)]"

definition exec_AdminQuery_users ::
  "'g executionContext \<Rightarrow> ectx \<Rightarrow> CollectedField \<Rightarrow> AdminQuery \<Rightarrow> ('g, Marshaler) px" where
  "exec_AdminQuery_users ec ctx field obj =
     rt_ResolveField (ec_runtime ec) ctx (ec_OperationContext ec) field (fieldContext_AdminQuery_users ec)
       (\<lambda>ctx. resolved (\<lambda>v. AnyUsersConnection (Some v)) (AdminQuery_Users))
       (\<lambda>ctx sel v. assert_type (as_UsersConnection v) (marshalNUsersConnection ec ctx sel)) True True"

definition exec_AdminQuery_user ::
  "'g executionContext \<Rightarrow> ectx \<Rightarrow> CollectedField \<Rightarrow> AdminQuery \<Rightarrow> ('g, Marshaler) px" where
  "exec_AdminQuery_user ec ctx field obj =
     rt_ResolveField (ec_runtime ec) ctx (ec_OperationContext ec) field (fieldContext_AdminQuery_user ec)
       (\<lambda>ctx. assert_type (Option.bind (GetFieldContext_Args ctx ''id'') as_Int64) (\<lambda>uid.
         resolved AnyAdminUser (AdminQuery_User (ec_Resolvers ec) (gctx.truncate ctx) uid)))
       (\<lambda>ctx sel v. assert_type (as_AdminUser v) (marshalOAdminUser ec ctx sel)) True False"

definition exec_AdminQuery_admins ::
  "'g executionContext \<Rightarrow> ectx \<Rightarrow> CollectedField \<Rightarrow> AdminQuery \<Rightarrow> ('g, Marshaler) px" where
  "exec_AdminQuery_admins ec ctx field obj =
     rt_ResolveField (ec_runtime ec) ctx (ec_OperationContext ec) field (fieldContext_AdminQuery_admins ec)
       (\<lambda>ctx. resolved (\<lambda>v. AnyAdminsConnection (Some v)) (AdminQuery_Admins))
       (\<lambda>ctx sel v. assert_type (as_AdminsConnection v) (marshalNAdminsConnection ec ctx sel)) True True"

definition exec_AdminQuery_auditLog ::
  "'g executionContext \<Rightarrow> ectx \<Rightarrow> CollectedField \<Rightarrow> AdminQuery \<Rightarrow> ('g, Marshaler) px" where
  "exec_AdminQuery_auditLog ec ctx field obj =
     rt_ResolveField (ec_runtime ec) ctx (ec_OperationContext ec) field (fieldContext_AdminQuery_auditLog ec)
       (\<lambda>ctx. assert_type (Option.bind (GetFieldContext_Args ctx ''limit'') as_Int64) (\<lambda>limit.
         assert_type (Option.bind (GetFieldContext_Args ctx ''before'') as_Int64Ptr) (\<lambda>before.
         resolved (\<lambda>v. AnyAuditLogConnection (Some v)) (AdminQuery_AuditLog (ec_Resolvers ec) (gctx.truncate ctx) limit before))))
       (\<lambda>ctx sel v. assert_type (as_AuditLogConnection v) (marshalNAuditLogConnection ec ctx sel)) True True"

definition exec_AdminQuery_buildGitCommit ::
  "'g executionContext \<Rightarrow> ectx \<Rightarrow> CollectedField \<Rightarrow> AdminQuery \<Rightarrow> ('g, Marshaler) px" where
  "exec_AdminQuery_buildGitCommit ec ctx field obj =
     rt_ResolveField (ec_runtime ec) ctx (ec_OperationContext ec) field (fieldContext_AdminQuery_buildGitCommit ec)
       (\<lambda>ctx. resolved AnyString (AdminQuery_BuildGitCommit (ec_Resolvers ec) (gctx.truncate ctx)))
       (\<lambda>ctx sel v. assert_type (as_String v) (marshalNString ec ctx sel)) True True"

definition adminQueryImplementors :: "string list" where
  "adminQueryImplementors = [''AdminQuery'']"

definition exec_AdminQuery ::
  "'g executionContext \<Rightarrow> ectx \<Rightarrow> Selection list \<Rightarrow> AdminQuery \<Rightarrow> ('g, Marshaler) px" where
  "exec_AdminQuery ec ctx sel obj =
     exec_object ec ctx sel adminQueryImplementors ''AdminQuery'' (map_of
       [(''users'', Goroutine NonNull (\<lambda>ctx field. exec_AdminQuery_users ec ctx field obj)),
        (''user'', Goroutine Nullable (\<lambda>ctx field. exec_AdminQuery_user ec ctx field obj)),
        (''admins'', Goroutine NonNull (\<lambda>ctx field. exec_AdminQuery_admins ec ctx field obj)),
        (''auditLog'', Goroutine NonNull (\<lambda>ctx field. exec_AdminQuery_auditLog ec ctx field obj)),
        (''buildGitCommit'', Goroutine NonNull (\<lambda>ctx field. exec_AdminQuery_buildGitCommit ec ctx field obj))])"

definition marshalNAdminQuery ::
  "'g executionContext \<Rightarrow> ectx \<Rightarrow> Selection list \<Rightarrow> AdminQuery option \<Rightarrow> ('g, Marshaler) px" where
  "marshalNAdminQuery ec ctx sel v = marshal_pointer ec ctx v (exec_AdminQuery ec ctx sel)"

section \<open>AdminMutation\<close>

definition fieldContext_AdminMutation_banUser :: "'g executionContext \<Rightarrow> ectx \<Rightarrow> CollectedField \<Rightarrow> 'g field_context" where
  "fieldContext_AdminMutation_banUser ec ctx field =
     context_with_args ec ctx field
       \<lparr>fc_Object = ''AdminMutation'', fc_Field = Some field, fc_IsMethod = True, fc_IsResolver = True,
         fc_Args = [], fc_Child = Some (Childless (NewError ''field of type BanUserOrErrorPayload does not have child fields''))\<rparr>
       (field_AdminMutation_banUser_args ec)"

definition fieldContext_AdminMutation_unbanUser :: "'g executionContext \<Rightarrow> ectx \<Rightarrow> CollectedField \<Rightarrow> 'g field_context" where
  "fieldContext_AdminMutation_unbanUser ec ctx field =
     context_with_args ec ctx field
       \<lparr>fc_Object = ''AdminMutation'', fc_Field = Some field, fc_IsMethod = True, fc_IsResolver = True,
         fc_Args = [], fc_Child = Some (Childless (NewError ''field of type UnbanUserOrErrorPayload does not have child fields''))\<rparr>
       (field_AdminMutation_unbanUser_args ec)"

definition fieldContext_AdminMutation_makeAdmin :: "'g executionContext \<Rightarrow> ectx \<Rightarrow> CollectedField \<Rightarrow> 'g field_context" where
  "fieldContext_AdminMutation_makeAdmin ec ctx field =
     context_with_args ec ctx field
       \<lparr>fc_Object = ''AdminMutation'', fc_Field = Some field, fc_IsMethod = True, fc_IsResolver = True,
         fc_Args = [], fc_Child = Some (Childless (NewError ''field of type MakeAdminOrErrorPayload does not have child fields''))\<rparr>
       (field_AdminMutation_makeAdmin_args ec)"

definition fieldContext_AdminMutation_removeAdmin :: "'g executionContext \<Rightarrow> ectx \<Rightarrow> CollectedField \<Rightarrow> 'g field_context" where
  "fieldContext_AdminMutation_removeAdmin ec ctx field =
     context_with_args ec ctx field
       \<lparr>fc_Object = ''AdminMutation'', fc_Field = Some field, fc_IsMethod = True, fc_IsResolver = True,
         fc_Args = [], fc_Child = Some (Childless (NewError ''field of type RemoveAdminOrErrorPayload does not have child fields''))\<rparr>
       (field_AdminMutation_removeAdmin_args ec)"

definition childFields_AdminMutation :: "'g executionContext \<Rightarrow> ectx \<Rightarrow> CollectedField \<Rightarrow> 'g field_context" where
  "childFields_AdminMutation ec = child_fields ec ''AdminMutation''
     [(''banUser'', fieldContext_AdminMutation_banUser ec),
      (''unbanUser'', fieldContext_AdminMutation_unbanUser ec),
      (''makeAdmin'', fieldContext_AdminMutation_makeAdmin ec),
      (''removeAdmin'', fieldContext_AdminMutation_removeAdmin ec)]"

definition exec_AdminMutation_banUser ::
  "'g executionContext \<Rightarrow> ectx \<Rightarrow> CollectedField \<Rightarrow> AdminMutation \<Rightarrow> ('g, Marshaler) px" where
  "exec_AdminMutation_banUser ec ctx field obj =
     rt_ResolveField (ec_runtime ec) ctx (ec_OperationContext ec) field (fieldContext_AdminMutation_banUser ec)
       (\<lambda>ctx. assert_type (Option.bind (GetFieldContext_Args ctx ''input'') as_BanUserInput) (\<lambda>input.
         resolved AnyBanUser (AdminMutation_BanUser (ec_Resolvers ec) (gctx.truncate ctx) input)))
       (\<lambda>ctx sel v. assert_type (as_BanUser v) (marshalNBanUserOrErrorPayload ec ctx sel)) True True"

definition exec_AdminMutation_unbanUser ::
  "'g executionContext \<Rightarrow> ectx \<Rightarrow> CollectedField \<Rightarrow> AdminMutation \<Rightarrow> ('g, Marshaler) px" where
  "exec_AdminMutation_unbanUser ec ctx field obj =
     rt_ResolveField (ec_runtime ec) ctx (ec_OperationContext ec) field (fieldContext_AdminMutation_unbanUser ec)
       (\<lambda>ctx. assert_type (Option.bind (GetFieldContext_Args ctx ''input'') as_UnbanUserInput) (\<lambda>input.
         resolved AnyUnbanUser (AdminMutation_UnbanUser (ec_Resolvers ec) (gctx.truncate ctx) input)))
       (\<lambda>ctx sel v. assert_type (as_UnbanUser v) (marshalNUnbanUserOrErrorPayload ec ctx sel)) True True"

definition exec_AdminMutation_makeAdmin ::
  "'g executionContext \<Rightarrow> ectx \<Rightarrow> CollectedField \<Rightarrow> AdminMutation \<Rightarrow> ('g, Marshaler) px" where
  "exec_AdminMutation_makeAdmin ec ctx field obj =
     rt_ResolveField (ec_runtime ec) ctx (ec_OperationContext ec) field (fieldContext_AdminMutation_makeAdmin ec)
       (\<lambda>ctx. assert_type (Option.bind (GetFieldContext_Args ctx ''input'') as_MakeAdminInput) (\<lambda>input.
         resolved AnyMakeAdmin (AdminMutation_MakeAdmin (ec_Resolvers ec) (gctx.truncate ctx) input)))
       (\<lambda>ctx sel v. assert_type (as_MakeAdmin v) (marshalNMakeAdminOrErrorPayload ec ctx sel)) True True"

definition exec_AdminMutation_removeAdmin ::
  "'g executionContext \<Rightarrow> ectx \<Rightarrow> CollectedField \<Rightarrow> AdminMutation \<Rightarrow> ('g, Marshaler) px" where
  "exec_AdminMutation_removeAdmin ec ctx field obj =
     rt_ResolveField (ec_runtime ec) ctx (ec_OperationContext ec) field (fieldContext_AdminMutation_removeAdmin ec)
       (\<lambda>ctx. assert_type (Option.bind (GetFieldContext_Args ctx ''input'') as_RemoveAdminInput) (\<lambda>input.
         resolved AnyRemoveAdmin (AdminMutation_RemoveAdmin (ec_Resolvers ec) (gctx.truncate ctx) input)))
       (\<lambda>ctx sel v. assert_type (as_RemoveAdmin v) (marshalNRemoveAdminOrErrorPayload ec ctx sel)) True True"

definition adminMutationImplementors :: "string list" where
  "adminMutationImplementors = [''AdminMutation'']"

definition exec_AdminMutation ::
  "'g executionContext \<Rightarrow> ectx \<Rightarrow> Selection list \<Rightarrow> AdminMutation \<Rightarrow> ('g, Marshaler) px" where
  "exec_AdminMutation ec ctx sel obj =
     exec_object ec ctx sel adminMutationImplementors ''AdminMutation'' (map_of
       [(''banUser'', Goroutine NonNull (\<lambda>ctx field. exec_AdminMutation_banUser ec ctx field obj)),
        (''unbanUser'', Goroutine NonNull (\<lambda>ctx field. exec_AdminMutation_unbanUser ec ctx field obj)),
        (''makeAdmin'', Goroutine NonNull (\<lambda>ctx field. exec_AdminMutation_makeAdmin ec ctx field obj)),
        (''removeAdmin'', Goroutine NonNull (\<lambda>ctx field. exec_AdminMutation_removeAdmin ec ctx field obj))])"

definition marshalNAdminMutation ::
  "'g executionContext \<Rightarrow> ectx \<Rightarrow> Selection list \<Rightarrow> AdminMutation option \<Rightarrow> ('g, Marshaler) px" where
  "marshalNAdminMutation ec ctx sel v = marshal_pointer ec ctx v (exec_AdminMutation ec ctx sel)"

end
