(* ===== verification/ExecIntro.thy ===== *)
theory ExecIntro
  imports ExecAdmin
begin

text \<open>
  The executors of the introspection of the schema (internal/graph/generated/generated.go): the
  objects \<open>__Schema\<close>, \<open>__Directive\<close>, \<open>__Type\<close>, \<open>__Field\<close>, \<open>__InputValue\<close> and \<open>__EnumValue\<close>. They call
  each other in cycles, each of which goes through \<open>___Type\<close>: the executors under it take it as an
  argument, \<open>on_type\<close>, and \<open>exec___Type\<close> ties the knot.
\<close>

type_synonym 'g exec_type =
  "ectx \<Rightarrow> Selection list \<Rightarrow> introspection_Type \<Rightarrow> ('g, Marshaler) px"

section \<open>Arguments and scalars\<close>

text \<open>What the runtime reads from the schema, as the interface values \<open>(any, error)\<close>.\<close>

definition introspected :: "('a \<Rightarrow> any) \<Rightarrow> go_error + 'a \<Rightarrow> ('g, graph_error + any) px" where
  "introspected box r = ret (Inr (case r of Inl err \<Rightarrow> Inl (Plain err) | Inr v \<Rightarrow> Inr (box v)))"

definition field_Query___type_args ::
  "'g executionContext \<Rightarrow> ectx \<Rightarrow> (string \<times> json) list \<Rightarrow> ('g, graph_error + args) px" where
  "field_Query___type_args ec ctx rawArgs =
     read_args ec ctx rawArgs
       [(''name'', AnyString '''',
         \<lambda>ctx v. box_input AnyString (ret (Inr (unmarshalNString ec ctx v))))] []"

definition field___Directive_args_args ::
  "'g executionContext \<Rightarrow> ectx \<Rightarrow> (string \<times> json) list \<Rightarrow> ('g, graph_error + args) px" where
  "field___Directive_args_args ec ctx rawArgs =
     read_args ec ctx rawArgs
       [(''includeDeprecated'', AnyBoolPtr None,
         \<lambda>ctx v. box_input AnyBoolPtr (ret (Inr (unmarshalOBooleanPtr ec ctx v))))] []"

definition field___Field_args_args ::
  "'g executionContext \<Rightarrow> ectx \<Rightarrow> (string \<times> json) list \<Rightarrow> ('g, graph_error + args) px" where
  "field___Field_args_args ec ctx rawArgs =
     read_args ec ctx rawArgs
       [(''includeDeprecated'', AnyBoolPtr None,
         \<lambda>ctx v. box_input AnyBoolPtr (ret (Inr (unmarshalOBooleanPtr ec ctx v))))] []"

definition field___Type_enumValues_args ::
  "'g executionContext \<Rightarrow> ectx \<Rightarrow> (string \<times> json) list \<Rightarrow> ('g, graph_error + args) px" where
  "field___Type_enumValues_args ec ctx rawArgs =
     read_args ec ctx rawArgs
       [(''includeDeprecated'', AnyBool False,
         \<lambda>ctx v. box_input AnyBool (ret (Inr (unmarshalOBoolean ec ctx v))))] []"

definition field___Type_fields_args ::
  "'g executionContext \<Rightarrow> ectx \<Rightarrow> (string \<times> json) list \<Rightarrow> ('g, graph_error + args) px" where
  "field___Type_fields_args ec ctx rawArgs =
     read_args ec ctx rawArgs
       [(''includeDeprecated'', AnyBool False,
         \<lambda>ctx v. box_input AnyBool (ret (Inr (unmarshalOBoolean ec ctx v))))] []"

definition marshalN__TypeKind ::
  "'g executionContext \<Rightarrow> ectx \<Rightarrow> Selection list \<Rightarrow> string \<Rightarrow> ('g, Marshaler) px" where
  "marshalN__TypeKind ec ctx sel v = marshal_nonnull ec ctx (rt_MarshalString (ec_runtime ec) v)"

definition marshalN__DirectiveLocation ::
  "'g executionContext \<Rightarrow> ectx \<Rightarrow> Selection list \<Rightarrow> string \<Rightarrow> ('g, Marshaler) px" where
  "marshalN__DirectiveLocation ec ctx sel v =
     marshal_nonnull ec ctx (rt_MarshalString (ec_runtime ec) v)"

definition marshalN__DirectiveLocations ::
  "'g executionContext \<Rightarrow> ectx \<Rightarrow> Selection list \<Rightarrow> string slice \<Rightarrow> ('g, Marshaler) px" where
  "marshalN__DirectiveLocations ec ctx sel v =
     marshal_list ec ctx AnyStringElem (elements v)
       (\<lambda>ctx x. marshalN__DirectiveLocation ec ctx sel x)"

section \<open>__EnumValue\<close>

definition fieldContext___EnumValue_name :: "'g executionContext \<Rightarrow> ectx \<Rightarrow> CollectedField \<Rightarrow> 'g field_context" where
  "fieldContext___EnumValue_name ec ctx field = scalar_context ec ''__EnumValue'' field False False ''String''"

definition fieldContext___EnumValue_description :: "'g executionContext \<Rightarrow> ectx \<Rightarrow> CollectedField \<Rightarrow> 'g field_context" where
  "fieldContext___EnumValue_description ec ctx field = scalar_context ec ''__EnumValue'' field True False ''String''"

definition fieldContext___EnumValue_isDeprecated :: "'g executionContext \<Rightarrow> ectx \<Rightarrow> CollectedField \<Rightarrow> 'g field_context" where
  "fieldContext___EnumValue_isDeprecated ec ctx field = scalar_context ec ''__EnumValue'' field True False ''Boolean''"

definition fieldContext___EnumValue_deprecationReason :: "'g executionContext \<Rightarrow> ectx \<Rightarrow> CollectedField \<Rightarrow> 'g field_context" where
  "fieldContext___EnumValue_deprecationReason ec ctx field = scalar_context ec ''__EnumValue'' field True False ''String''"

definition childFields___EnumValue :: "'g executionContext \<Rightarrow> ectx \<Rightarrow> CollectedField \<Rightarrow> 'g field_context" where
  "childFields___EnumValue ec = child_fields ec ''__EnumValue''
     [(''name'', fieldContext___EnumValue_name ec),
      (''description'', fieldContext___EnumValue_description ec),
      (''isDeprecated'', fieldContext___EnumValue_isDeprecated ec),
      (''deprecationReason'', fieldContext___EnumValue_deprecationReason ec)]"

definition exec___EnumValue_name ::
  "'g executionContext \<Rightarrow> ectx \<Rightarrow> CollectedField \<Rightarrow> introspection_EnumValue \<Rightarrow> ('g, Marshaler) px" where
  "exec___EnumValue_name ec ctx field obj =
     rt_ResolveField (ec_runtime ec) ctx (ec_OperationContext ec) field (fieldContext___EnumValue_name ec)
       (\<lambda>ctx. plain_value (AnyString (EnumValue_Name (rt_introspection (ec_runtime ec)) obj)))
       (\<lambda>ctx sel v. assert_type (as_String v) (marshalNString ec ctx sel)) True True"

definition exec___EnumValue_description ::
  "'g executionContext \<Rightarrow> ectx \<Rightarrow> CollectedField \<Rightarrow> introspection_EnumValue \<Rightarrow> ('g, Marshaler) px" where
  "exec___EnumValue_description ec ctx field obj =
     rt_ResolveField (ec_runtime ec) ctx (ec_OperationContext ec) field (fieldContext___EnumValue_description ec)
       (\<lambda>ctx. plain_value (AnyStringPtr (EnumValue_Description (rt_introspection (ec_runtime ec)) obj)))
       (\<lambda>ctx sel v. assert_type (as_StringPtr v) (marshalOString ec ctx sel)) True False"

definition exec___EnumValue_isDeprecated ::
  "'g executionContext \<Rightarrow> ectx \<Rightarrow> CollectedField \<Rightarrow> introspection_EnumValue \<Rightarrow> ('g, Marshaler) px" where
  "exec___EnumValue_isDeprecated ec ctx field obj =
     rt_ResolveField (ec_runtime ec) ctx (ec_OperationContext ec) field (fieldContext___EnumValue_isDeprecated ec)
       (\<lambda>ctx. plain_value (AnyBool (EnumValue_IsDeprecated (rt_introspection (ec_runtime ec)) obj)))
       (\<lambda>ctx sel v. assert_type (as_Bool v) (marshalNBoolean ec ctx sel)) True True"

definition exec___EnumValue_deprecationReason ::
  "'g executionContext \<Rightarrow> ectx \<Rightarrow> CollectedField \<Rightarrow> introspection_EnumValue \<Rightarrow> ('g, Marshaler) px" where
  "exec___EnumValue_deprecationReason ec ctx field obj =
     rt_ResolveField (ec_runtime ec) ctx (ec_OperationContext ec) field (fieldContext___EnumValue_deprecationReason ec)
       (\<lambda>ctx. plain_value (AnyStringPtr (EnumValue_DeprecationReason (rt_introspection (ec_runtime ec)) obj)))
       (\<lambda>ctx sel v. assert_type (as_StringPtr v) (marshalOString ec ctx sel)) True False"

definition introspection_EnumValueImplementors :: "string list" where
  "introspection_EnumValueImplementors = [''__EnumValue'']"

definition exec___EnumValue ::
  "'g executionContext \<Rightarrow> ectx \<Rightarrow> Selection list \<Rightarrow> introspection_EnumValue \<Rightarrow> ('g, Marshaler) px" where
  "exec___EnumValue ec ctx sel obj =
     exec_object ec ctx sel introspection_EnumValueImplementors ''__EnumValue'' (map_of
       [(''name'', AtOnce NonNull (\<lambda>ctx field. exec___EnumValue_name ec ctx field obj)),
        (''description'', AtOnce Nullable (\<lambda>ctx field. exec___EnumValue_description ec ctx field obj)),
        (''isDeprecated'', AtOnce NonNull (\<lambda>ctx field. exec___EnumValue_isDeprecated ec ctx field obj)),
        (''deprecationReason'', AtOnce Nullable (\<lambda>ctx field. exec___EnumValue_deprecationReason ec ctx field obj))])"

definition marshalN__EnumValue ::
  "'g executionContext \<Rightarrow> ectx \<Rightarrow> Selection list \<Rightarrow> introspection_EnumValue \<Rightarrow> ('g, Marshaler) px" where
  "marshalN__EnumValue ec ctx sel v = exec___EnumValue ec ctx sel v"

definition marshalO__EnumValues ::
  "'g executionContext \<Rightarrow> ectx \<Rightarrow> Selection list \<Rightarrow> introspection_EnumValue slice \<Rightarrow> ('g, Marshaler) px" where
  "marshalO__EnumValues ec ctx sel v =
     marshal_slice ec ctx AnyEnumValueElem v (\<lambda>ctx x. marshalN__EnumValue ec ctx sel x)"

section \<open>Lists and pointers of types\<close>

definition marshalN__TypeValue ::
  "'g executionContext \<Rightarrow> 'g exec_type \<Rightarrow> ectx \<Rightarrow> Selection list \<Rightarrow> introspection_Type \<Rightarrow> ('g, Marshaler) px" where
  "marshalN__TypeValue ec on_type ctx sel v = on_type ctx sel v"

definition marshalN__Type ::
  "'g executionContext \<Rightarrow> 'g exec_type \<Rightarrow> ectx \<Rightarrow> Selection list \<Rightarrow> introspection_Type option \<Rightarrow> ('g, Marshaler) px" where
  "marshalN__Type ec on_type ctx sel v = marshal_pointer ec ctx v (on_type ctx sel)"

definition marshalO__Type ::
  "'g executionContext \<Rightarrow> 'g exec_type \<Rightarrow> ectx \<Rightarrow> Selection list \<Rightarrow> introspection_Type option \<Rightarrow> ('g, Marshaler) px" where
  "marshalO__Type ec on_type ctx sel v = marshal_optional v (on_type ctx sel)"

definition marshalN__Types ::
  "'g executionContext \<Rightarrow> 'g exec_type \<Rightarrow> ectx \<Rightarrow> Selection list \<Rightarrow> introspection_Type slice \<Rightarrow> ('g, Marshaler) px" where
  "marshalN__Types ec on_type ctx sel v =
     marshal_list ec ctx (\<lambda>x. AnyType (Some x)) (elements v) (\<lambda>ctx x. marshalN__TypeValue ec on_type ctx sel x)"

definition marshalO__Types ::
  "'g executionContext \<Rightarrow> 'g exec_type \<Rightarrow> ectx \<Rightarrow> Selection list \<Rightarrow> introspection_Type slice \<Rightarrow> ('g, Marshaler) px" where
  "marshalO__Types ec on_type ctx sel v =
     marshal_slice ec ctx (\<lambda>x. AnyType (Some x)) v (\<lambda>ctx x. marshalN__TypeValue ec on_type ctx sel x)"

section \<open>__InputValue\<close>

definition fieldContext___InputValue_name :: "'g executionContext \<Rightarrow> ectx \<Rightarrow> CollectedField \<Rightarrow> 'g field_context" where
  "fieldContext___InputValue_name ec ctx field = scalar_context ec ''__InputValue'' field False False ''String''"

definition fieldContext___InputValue_description :: "'g executionContext \<Rightarrow> ectx \<Rightarrow> CollectedField \<Rightarrow> 'g field_context" where
  "fieldContext___InputValue_description ec ctx field = scalar_context ec ''__InputValue'' field True False ''String''"

definition fieldContext___InputValue_type :: "'g executionContext \<Rightarrow> ectx \<Rightarrow> CollectedField \<Rightarrow> 'g field_context" where
  "fieldContext___InputValue_type ec ctx field =
     ret (Some \<lparr>fc_Object = ''__InputValue'', fc_Field = Some field, fc_IsMethod = False, fc_IsResolver = False,
         fc_Args = [], fc_Child = Some Child___Type\<rparr>, None)"

definition fieldContext___InputValue_defaultValue :: "'g executionContext \<Rightarrow> ectx \<Rightarrow> CollectedField \<Rightarrow> 'g field_context" where
  "fieldContext___InputValue_defaultValue ec ctx field = scalar_context ec ''__InputValue'' field False False ''String''"

definition fieldContext___InputValue_isDeprecated :: "'g executionContext \<Rightarrow> ectx \<Rightarrow> CollectedField \<Rightarrow> 'g field_context" where
  "fieldContext___InputValue_isDeprecated ec ctx field = scalar_context ec ''__InputValue'' field True False ''Boolean''"

definition fieldContext___InputValue_deprecationReason :: "'g executionContext \<Rightarrow> ectx \<Rightarrow> CollectedField \<Rightarrow> 'g field_context" where
  "fieldContext___InputValue_deprecationReason ec ctx field = scalar_context ec ''__InputValue'' field True False ''String''"

definition childFields___InputValue :: "'g executionContext \<Rightarrow> ectx \<Rightarrow> CollectedField \<Rightarrow> 'g field_context" where
  "childFields___InputValue ec = child_fields ec ''__InputValue''
     [(''name'', fieldContext___InputValue_name ec),
      (''description'', fieldContext___InputValue_description ec),
      (''type'', fieldContext___InputValue_type ec),
      (''defaultValue'', fieldContext___InputValue_defaultValue ec),
      (''isDeprecated'', fieldContext___InputValue_isDeprecated ec),
      (''deprecationReason'', fieldContext___InputValue_deprecationReason ec)]"

definition exec___InputValue_name ::
  "'g executionContext \<Rightarrow> ectx \<Rightarrow> CollectedField \<Rightarrow> introspection_InputValue \<Rightarrow> ('g, Marshaler) px" where
  "exec___InputValue_name ec ctx field obj =
     rt_ResolveField (ec_runtime ec) ctx (ec_OperationContext ec) field (fieldContext___InputValue_name ec)
       (\<lambda>ctx. plain_value (AnyString (InputValue_Name (rt_introspection (ec_runtime ec)) obj)))
       (\<lambda>ctx sel v. assert_type (as_String v) (marshalNString ec ctx sel)) True True"

definition exec___InputValue_description ::
  "'g executionContext \<Rightarrow> ectx \<Rightarrow> CollectedField \<Rightarrow> introspection_InputValue \<Rightarrow> ('g, Marshaler) px" where
  "exec___InputValue_description ec ctx field obj =
     rt_ResolveField (ec_runtime ec) ctx (ec_OperationContext ec) field (fieldContext___InputValue_description ec)
       (\<lambda>ctx. plain_value (AnyStringPtr (InputValue_Description (rt_introspection (ec_runtime ec)) obj)))
       (\<lambda>ctx sel v. assert_type (as_StringPtr v) (marshalOString ec ctx sel)) True False"

definition exec___InputValue_type ::
  "'g executionContext \<Rightarrow> 'g exec_type \<Rightarrow> ectx \<Rightarrow> CollectedField \<Rightarrow> introspection_InputValue \<Rightarrow> ('g, Marshaler) px" where
  "exec___InputValue_type ec on_type ctx field obj =
     rt_ResolveField (ec_runtime ec) ctx (ec_OperationContext ec) field (fieldContext___InputValue_type ec)
       (\<lambda>ctx. plain_value (AnyType (InputValue_Type (rt_introspection (ec_runtime ec)) obj)))
       (\<lambda>ctx sel v. assert_type (as_Type v) (marshalN__Type ec on_type ctx sel)) True True"

definition exec___InputValue_defaultValue ::
  "'g executionContext \<Rightarrow> ectx \<Rightarrow> CollectedField \<Rightarrow> introspection_InputValue \<Rightarrow> ('g, Marshaler) px" where
  "exec___InputValue_defaultValue ec ctx field obj =
     rt_ResolveField (ec_runtime ec) ctx (ec_OperationContext ec) field (fieldContext___InputValue_defaultValue ec)
       (\<lambda>ctx. plain_value (AnyStringPtr (InputValue_DefaultValue (rt_introspection (ec_runtime ec)) obj)))
       (\<lambda>ctx sel v. assert_type (as_StringPtr v) (marshalOString ec ctx sel)) True False"

definition exec___InputValue_isDeprecated ::
  "'g executionContext \<Rightarrow> ectx \<Rightarrow> CollectedField \<Rightarrow> introspection_InputValue \<Rightarrow> ('g, Marshaler) px" where
  "exec___InputValue_isDeprecated ec ctx field obj =
     rt_ResolveField (ec_runtime ec) ctx (ec_OperationContext ec) field (fieldContext___InputValue_isDeprecated ec)
       (\<lambda>ctx. plain_value (AnyBool (InputValue_IsDeprecated (rt_introspection (ec_runtime ec)) obj)))
       (\<lambda>ctx sel v. assert_type (as_Bool v) (marshalNBoolean ec ctx sel)) True True"

definition exec___InputValue_deprecationReason ::
  "'g executionContext \<Rightarrow> ectx \<Rightarrow> CollectedField \<Rightarrow> introspection_InputValue \<Rightarrow> ('g, Marshaler) px" where
  "exec___InputValue_deprecationReason ec ctx field obj =
     rt_ResolveField (ec_runtime ec) ctx (ec_OperationContext ec) field (fieldContext___InputValue_deprecationReason ec)
       (\<lambda>ctx. plain_value (AnyStringPtr (InputValue_DeprecationReason (rt_introspection (ec_runtime ec)) obj)))
       (\<lambda>ctx sel v. assert_type (as_StringPtr v) (marshalOString ec ctx sel)) True False"

definition introspection_InputValueImplementors :: "string list" where
  "introspection_InputValueImplementors = [''__InputValue'']"

definition exec___InputValue ::
  "'g executionContext \<Rightarrow> 'g exec_type \<Rightarrow> ectx \<Rightarrow> Selection list \<Rightarrow> introspection_InputValue \<Rightarrow> ('g, Marshaler) px" where
  "exec___InputValue ec on_type ctx sel obj =
     exec_object ec ctx sel introspection_InputValueImplementors ''__InputValue'' (map_of
       [(''name'', AtOnce NonNull (\<lambda>ctx field. exec___InputValue_name ec ctx field obj)),
        (''description'', AtOnce Nullable (\<lambda>ctx field. exec___InputValue_description ec ctx field obj)),
        (''type'', AtOnce NonNull (\<lambda>ctx field. exec___InputValue_type ec on_type ctx field obj)),
        (''defaultValue'', AtOnce Nullable (\<lambda>ctx field. exec___InputValue_defaultValue ec ctx field obj)),
        (''isDeprecated'', AtOnce NonNull (\<lambda>ctx field. exec___InputValue_isDeprecated ec ctx field obj)),
        (''deprecationReason'', AtOnce Nullable (\<lambda>ctx field. exec___InputValue_deprecationReason ec ctx field obj))])"

definition marshalN__InputValue ::
  "'g executionContext \<Rightarrow> 'g exec_type \<Rightarrow> ectx \<Rightarrow> Selection list \<Rightarrow> introspection_InputValue \<Rightarrow> ('g, Marshaler) px" where
  "marshalN__InputValue ec on_type ctx sel v = exec___InputValue ec on_type ctx sel v"

definition marshalN__InputValues ::
  "'g executionContext \<Rightarrow> 'g exec_type \<Rightarrow> ectx \<Rightarrow> Selection list \<Rightarrow> introspection_InputValue slice \<Rightarrow> ('g, Marshaler) px" where
  "marshalN__InputValues ec on_type ctx sel v =
     marshal_list ec ctx AnyInputValueElem (elements v) (\<lambda>ctx x. marshalN__InputValue ec on_type ctx sel x)"

definition marshalO__InputValues ::
  "'g executionContext \<Rightarrow> 'g exec_type \<Rightarrow> ectx \<Rightarrow> Selection list \<Rightarrow> introspection_InputValue slice \<Rightarrow> ('g, Marshaler) px" where
  "marshalO__InputValues ec on_type ctx sel v =
     marshal_slice ec ctx AnyInputValueElem v (\<lambda>ctx x. marshalN__InputValue ec on_type ctx sel x)"

section \<open>__Field\<close>

definition fieldContext___Field_name :: "'g executionContext \<Rightarrow> ectx \<Rightarrow> CollectedField \<Rightarrow> 'g field_context" where
  "fieldContext___Field_name ec ctx field = scalar_context ec ''__Field'' field False False ''String''"

definition fieldContext___Field_description :: "'g executionContext \<Rightarrow> ectx \<Rightarrow> CollectedField \<Rightarrow> 'g field_context" where
  "fieldContext___Field_description ec ctx field = scalar_context ec ''__Field'' field True False ''String''"

definition fieldContext___Field_args :: "'g executionContext \<Rightarrow> ectx \<Rightarrow> CollectedField \<Rightarrow> 'g field_context" where
  "fieldContext___Field_args ec ctx field =
     context_with_args ec ctx field
       \<lparr>fc_Object = ''__Field'', fc_Field = Some field, fc_IsMethod = False, fc_IsResolver = False,
         fc_Args = [], fc_Child = Some Child___InputValue\<rparr>
       (field___Field_args_args ec)"

definition fieldContext___Field_type :: "'g executionContext \<Rightarrow> ectx \<Rightarrow> CollectedField \<Rightarrow> 'g field_context" where
  "fieldContext___Field_type ec ctx field =
     ret (Some \<lparr>fc_Object = ''__Field'', fc_Field = Some field, fc_IsMethod = False, fc_IsResolver = False,
         fc_Args = [], fc_Child = Some Child___Type\<rparr>, None)"

definition fieldContext___Field_isDeprecated :: "'g executionContext \<Rightarrow> ectx \<Rightarrow> CollectedField \<Rightarrow> 'g field_context" where
  "fieldContext___Field_isDeprecated ec ctx field = scalar_context ec ''__Field'' field True False ''Boolean''"

definition fieldContext___Field_deprecationReason :: "'g executionContext \<Rightarrow> ectx \<Rightarrow> CollectedField \<Rightarrow> 'g field_context" where
  "fieldContext___Field_deprecationReason ec ctx field = scalar_context ec ''__Field'' field True False ''String''"

definition childFields___Field :: "'g executionContext \<Rightarrow> ectx \<Rightarrow> CollectedField \<Rightarrow> 'g field_context" where
  "childFields___Field ec = child_fields ec ''__Field''
     [(''name'', fieldContext___Field_name ec),
      (''description'', fieldContext___Field_description ec),
      (''args'', fieldContext___Field_args ec),
      (''type'', fieldContext___Field_type ec),
      (''isDeprecated'', fieldContext___Field_isDeprecated ec),
      (''deprecationReason'', fieldContext___Field_deprecationReason ec)]"

definition exec___Field_name ::
  "'g executionContext \<Rightarrow> ectx \<Rightarrow> CollectedField \<Rightarrow> introspection_Field \<Rightarrow> ('g, Marshaler) px" where
  "exec___Field_name ec ctx field obj =
     rt_ResolveField (ec_runtime ec) ctx (ec_OperationContext ec) field (fieldContext___Field_name ec)
       (\<lambda>ctx. plain_value (AnyString (Field_Name (rt_introspection (ec_runtime ec)) obj)))
       (\<lambda>ctx sel v. assert_type (as_String v) (marshalNString ec ctx sel)) True True"

definition exec___Field_description ::
  "'g executionContext \<Rightarrow> ectx \<Rightarrow> CollectedField \<Rightarrow> introspection_Field \<Rightarrow> ('g, Marshaler) px" where
  "exec___Field_description ec ctx field obj =
     rt_ResolveField (ec_runtime ec) ctx (ec_OperationContext ec) field (fieldContext___Field_description ec)
       (\<lambda>ctx. plain_value (AnyStringPtr (Field_Description (rt_introspection (ec_runtime ec)) obj)))
       (\<lambda>ctx sel v. assert_type (as_StringPtr v) (marshalOString ec ctx sel)) True False"

definition exec___Field_args ::
  "'g executionContext \<Rightarrow> 'g exec_type \<Rightarrow> ectx \<Rightarrow> CollectedField \<Rightarrow> introspection_Field \<Rightarrow> ('g, Marshaler) px" where
  "exec___Field_args ec on_type ctx field obj =
     rt_ResolveField (ec_runtime ec) ctx (ec_OperationContext ec) field (fieldContext___Field_args ec)
       (\<lambda>ctx. plain_value (AnyInputValues (Field_Args (rt_introspection (ec_runtime ec)) obj)))
       (\<lambda>ctx sel v. assert_type (as_InputValues v) (marshalN__InputValues ec on_type ctx sel)) True True"

definition exec___Field_type ::
  "'g executionContext \<Rightarrow> 'g exec_type \<Rightarrow> ectx \<Rightarrow> CollectedField \<Rightarrow> introspection_Field \<Rightarrow> ('g, Marshaler) px" where
  "exec___Field_type ec on_type ctx field obj =
     rt_ResolveField (ec_runtime ec) ctx (ec_OperationContext ec) field (fieldContext___Field_type ec)
       (\<lambda>ctx. plain_value (AnyType (Field_Type (rt_introspection (ec_runtime ec)) obj)))
       (\<lambda>ctx sel v. assert_type (as_Type v) (marshalN__Type ec on_type ctx sel)) True True"

definition exec___Field_isDeprecated ::
  "'g executionContext \<Rightarrow> ectx \<Rightarrow> CollectedField \<Rightarrow> introspection_Field \<Rightarrow> ('g, Marshaler) px" where
  "exec___Field_isDeprecated ec ctx field obj =
     rt_ResolveField (ec_runtime ec) ctx (ec_OperationContext ec) field (fieldContext___Field_isDeprecated ec)
       (\<lambda>ctx. plain_value (AnyBool (Field_IsDeprecated (rt_introspection (ec_runtime ec)) obj)))
       (\<lambda>ctx sel v. assert_type (as_Bool v) (marshalNBoolean ec ctx sel)) True True"

definition exec___Field_deprecationReason ::
  "'g executionContext \<Rightarrow> ectx \<Rightarrow> CollectedField \<Rightarrow> introspection_Field \<Rightarrow> ('g, Marshaler) px" where
  "exec___Field_deprecationReason ec ctx field obj =
     rt_ResolveField (ec_runtime ec) ctx (ec_OperationContext ec) field (fieldContext___Field_deprecationReason ec)
       (\<lambda>ctx. plain_value (AnyStringPtr (Field_DeprecationReason (rt_introspection (ec_runtime ec)) obj)))
       (\<lambda>ctx sel v. assert_type (as_StringPtr v) (marshalOString ec ctx sel)) True False"

definition introspection_FieldImplementors :: "string list" where
  "introspection_FieldImplementors = [''__Field'']"

definition exec___Field ::
  "'g executionContext \<Rightarrow> 'g exec_type \<Rightarrow> ectx \<Rightarrow> Selection list \<Rightarrow> introspection_Field \<Rightarrow> ('g, Marshaler) px" where
  "exec___Field ec on_type ctx sel obj =
     exec_object ec ctx sel introspection_FieldImplementors ''__Field'' (map_of
       [(''name'', AtOnce NonNull (\<lambda>ctx field. exec___Field_name ec ctx field obj)),
        (''description'', AtOnce Nullable (\<lambda>ctx field. exec___Field_description ec ctx field obj)),
        (''args'', AtOnce NonNull (\<lambda>ctx field. exec___Field_args ec on_type ctx field obj)),
        (''type'', AtOnce NonNull (\<lambda>ctx field. exec___Field_type ec on_type ctx field obj)),
        (''isDeprecated'', AtOnce NonNull (\<lambda>ctx field. exec___Field_isDeprecated ec ctx field obj)),
        (''deprecationReason'', AtOnce Nullable (\<lambda>ctx field. exec___Field_deprecationReason ec ctx field obj))])"

definition marshalN__Field ::
  "'g executionContext \<Rightarrow> 'g exec_type \<Rightarrow> ectx \<Rightarrow> Selection list \<Rightarrow> introspection_Field \<Rightarrow> ('g, Marshaler) px" where
  "marshalN__Field ec on_type ctx sel v = exec___Field ec on_type ctx sel v"

definition marshalO__Fields ::
  "'g executionContext \<Rightarrow> 'g exec_type \<Rightarrow> ectx \<Rightarrow> Selection list \<Rightarrow> introspection_Field slice \<Rightarrow> ('g, Marshaler) px" where
  "marshalO__Fields ec on_type ctx sel v =
     marshal_slice ec ctx AnyFieldElem v (\<lambda>ctx x. marshalN__Field ec on_type ctx sel x)"

section \<open>__Type\<close>

definition fieldContext___Type_kind :: "'g executionContext \<Rightarrow> ectx \<Rightarrow> CollectedField \<Rightarrow> 'g field_context" where
  "fieldContext___Type_kind ec ctx field = scalar_context ec ''__Type'' field True False ''__TypeKind''"

definition fieldContext___Type_name :: "'g executionContext \<Rightarrow> ectx \<Rightarrow> CollectedField \<Rightarrow> 'g field_context" where
  "fieldContext___Type_name ec ctx field = scalar_context ec ''__Type'' field True False ''String''"

definition fieldContext___Type_description :: "'g executionContext \<Rightarrow> ectx \<Rightarrow> CollectedField \<Rightarrow> 'g field_context" where
  "fieldContext___Type_description ec ctx field = scalar_context ec ''__Type'' field True False ''String''"

definition fieldContext___Type_specifiedByURL :: "'g executionContext \<Rightarrow> ectx \<Rightarrow> CollectedField \<Rightarrow> 'g field_context" where
  "fieldContext___Type_specifiedByURL ec ctx field = scalar_context ec ''__Type'' field True False ''String''"

definition fieldContext___Type_fields :: "'g executionContext \<Rightarrow> ectx \<Rightarrow> CollectedField \<Rightarrow> 'g field_context" where
  "fieldContext___Type_fields ec ctx field =
     context_with_args ec ctx field
       \<lparr>fc_Object = ''__Type'', fc_Field = Some field, fc_IsMethod = True, fc_IsResolver = False,
         fc_Args = [], fc_Child = Some Child___Field\<rparr>
       (field___Type_fields_args ec)"

definition fieldContext___Type_interfaces :: "'g executionContext \<Rightarrow> ectx \<Rightarrow> CollectedField \<Rightarrow> 'g field_context" where
  "fieldContext___Type_interfaces ec ctx field =
     ret (Some \<lparr>fc_Object = ''__Type'', fc_Field = Some field, fc_IsMethod = True, fc_IsResolver = False,
         fc_Args = [], fc_Child = Some Child___Type\<rparr>, None)"

definition fieldContext___Type_possibleTypes :: "'g executionContext \<Rightarrow> ectx \<Rightarrow> CollectedField \<Rightarrow> 'g field_context" where
  "fieldContext___Type_possibleTypes ec ctx field =
     ret (Some \<lparr>fc_Object = ''__Type'', fc_Field = Some field, fc_IsMethod = True, fc_IsResolver = False,
         fc_Args = [], fc_Child = Some Child___Type\<rparr>, None)"

definition fieldContext___Type_enumValues :: "'g executionContext \<Rightarrow> ectx \<Rightarrow> CollectedField \<Rightarrow> 'g field_context" where
  "fieldContext___Type_enumValues ec ctx field =
     context_with_args ec ctx field
       \<lparr>fc_Object = ''__Type'', fc_Field = Some field, fc_IsMethod = True, fc_IsResolver = False,
         fc_Args = [], fc_Child = Some Child___EnumValue\<rparr>
       (field___Type_enumValues_args ec)"

definition fieldContext___Type_inputFields :: "'g executionContext \<Rightarrow> ectx \<Rightarrow> CollectedField \<Rightarrow> 'g field_context" where
  "fieldContext___Type_inputFields ec ctx field =
     ret (Some \<lparr>fc_Object = ''__Type'', fc_Field = Some field, fc_IsMethod = True, fc_IsResolver = False,
         fc_Args = [], fc_Child = Some Child___InputValue\<rparr>, None)"

definition fieldContext___Type_ofType :: "'g executionContext \<Rightarrow> ectx \<Rightarrow> CollectedField \<Rightarrow> 'g field_context" where
  "fieldContext___Type_ofType ec ctx field =
     ret (Some \<lparr>fc_Object = ''__Type'', fc_Field = Some field, fc_IsMethod = True, fc_IsResolver = False,
         fc_Args = [], fc_Child = Some Child___Type\<rparr>, None)"

definition fieldContext___Type_isOneOf :: "'g executionContext \<Rightarrow> ectx \<Rightarrow> CollectedField \<Rightarrow> 'g field_context" where
  "fieldContext___Type_isOneOf ec ctx field = scalar_context ec ''__Type'' field True False ''Boolean''"

definition childFields___Type :: "'g executionContext \<Rightarrow> ectx \<Rightarrow> CollectedField \<Rightarrow> 'g field_context" where
  "childFields___Type ec = child_fields ec ''__Type''
     [(''kind'', fieldContext___Type_kind ec),
      (''name'', fieldContext___Type_name ec),
      (''description'', fieldContext___Type_description ec),
      (''specifiedByURL'', fieldContext___Type_specifiedByURL ec),
      (''fields'', fieldContext___Type_fields ec),
      (''interfaces'', fieldContext___Type_interfaces ec),
      (''possibleTypes'', fieldContext___Type_possibleTypes ec),
      (''enumValues'', fieldContext___Type_enumValues ec),
      (''inputFields'', fieldContext___Type_inputFields ec),
      (''ofType'', fieldContext___Type_ofType ec),
      (''isOneOf'', fieldContext___Type_isOneOf ec)]"

definition exec___Type_kind ::
  "'g executionContext \<Rightarrow> ectx \<Rightarrow> CollectedField \<Rightarrow> introspection_Type \<Rightarrow> ('g, Marshaler) px" where
  "exec___Type_kind ec ctx field obj =
     rt_ResolveField (ec_runtime ec) ctx (ec_OperationContext ec) field (fieldContext___Type_kind ec)
       (\<lambda>ctx. plain_value (AnyString (Type_Kind (rt_introspection (ec_runtime ec)) obj)))
       (\<lambda>ctx sel v. assert_type (as_String v) (marshalN__TypeKind ec ctx sel)) True True"

definition exec___Type_name ::
  "'g executionContext \<Rightarrow> ectx \<Rightarrow> CollectedField \<Rightarrow> introspection_Type \<Rightarrow> ('g, Marshaler) px" where
  "exec___Type_name ec ctx field obj =
     rt_ResolveField (ec_runtime ec) ctx (ec_OperationContext ec) field (fieldContext___Type_name ec)
       (\<lambda>ctx. plain_value (AnyStringPtr (Type_Name (rt_introspection (ec_runtime ec)) obj)))
       (\<lambda>ctx sel v. assert_type (as_StringPtr v) (marshalOString ec ctx sel)) True False"

definition exec___Type_description ::
  "'g executionContext \<Rightarrow> ectx \<Rightarrow> CollectedField \<Rightarrow> introspection_Type \<Rightarrow> ('g, Marshaler) px" where
  "exec___Type_description ec ctx field obj =
     rt_ResolveField (ec_runtime ec) ctx (ec_OperationContext ec) field (fieldContext___Type_description ec)
       (\<lambda>ctx. plain_value (AnyStringPtr (Type_Description (rt_introspection (ec_runtime ec)) obj)))
       (\<lambda>ctx sel v. assert_type (as_StringPtr v) (marshalOString ec ctx sel)) True False"

definition exec___Type_specifiedByURL ::
  "'g executionContext \<Rightarrow> ectx \<Rightarrow> CollectedField \<Rightarrow> introspection_Type \<Rightarrow> ('g, Marshaler) px" where
  "exec___Type_specifiedByURL ec ctx field obj =
     rt_ResolveField (ec_runtime ec) ctx (ec_OperationContext ec) field (fieldContext___Type_specifiedByURL ec)
       (\<lambda>ctx. plain_value (AnyStringPtr (Type_SpecifiedByURL (rt_introspection (ec_runtime ec)) obj)))
       (\<lambda>ctx sel v. assert_type (as_StringPtr v) (marshalOString ec ctx sel)) True False"

definition exec___Type_fields ::
  "'g executionContext \<Rightarrow> 'g exec_type \<Rightarrow> ectx \<Rightarrow> CollectedField \<Rightarrow> introspection_Type \<Rightarrow> ('g, Marshaler) px" where
  "exec___Type_fields ec on_type ctx field obj =
     rt_ResolveField (ec_runtime ec) ctx (ec_OperationContext ec) field (fieldContext___Type_fields ec)
       (\<lambda>ctx. assert_type (Option.bind (GetFieldContext_Args ctx ''includeDeprecated'') as_Bool) (\<lambda>includeDeprecated.
         plain_value (AnyFields (Type_Fields (rt_introspection (ec_runtime ec)) obj includeDeprecated))))
       (\<lambda>ctx sel v. assert_type (as_Fields v) (marshalO__Fields ec on_type ctx sel)) True False"

definition exec___Type_interfaces ::
  "'g executionContext \<Rightarrow> 'g exec_type \<Rightarrow> ectx \<Rightarrow> CollectedField \<Rightarrow> introspection_Type \<Rightarrow> ('g, Marshaler) px" where
  "exec___Type_interfaces ec on_type ctx field obj =
     rt_ResolveField (ec_runtime ec) ctx (ec_OperationContext ec) field (fieldContext___Type_interfaces ec)
       (\<lambda>ctx. plain_value (AnyTypes (Type_Interfaces (rt_introspection (ec_runtime ec)) obj)))
       (\<lambda>ctx sel v. assert_type (as_Types v) (marshalO__Types ec on_type ctx sel)) True False"

definition exec___Type_possibleTypes ::
  "'g executionContext \<Rightarrow> 'g exec_type \<Rightarrow> ectx \<Rightarrow> CollectedField \<Rightarrow> introspection_Type \<Rightarrow> ('g, Marshaler) px" where
  "exec___Type_possibleTypes ec on_type ctx field obj =
     rt_ResolveField (ec_runtime ec) ctx (ec_OperationContext ec) field (fieldContext___Type_possibleTypes ec)
       (\<lambda>ctx. plain_value (AnyTypes (Type_PossibleTypes (rt_introspection (ec_runtime ec)) obj)))
       (\<lambda>ctx sel v. assert_type (as_Types v) (marshalO__Types ec on_type ctx sel)) True False"

definition exec___Type_enumValues ::
  "'g executionContext \<Rightarrow> ectx \<Rightarrow> CollectedField \<Rightarrow> introspection_Type \<Rightarrow> ('g, Marshaler) px" where
  "exec___Type_enumValues ec ctx field obj =
     rt_ResolveField (ec_runtime ec) ctx (ec_OperationContext ec) field (fieldContext___Type_enumValues ec)
       (\<lambda>ctx. assert_type (Option.bind (GetFieldContext_Args ctx ''includeDeprecated'') as_Bool) (\<lambda>includeDeprecated.
         plain_value (AnyEnumValues (Type_EnumValues (rt_introspection (ec_runtime ec)) obj includeDeprecated))))
       (\<lambda>ctx sel v. assert_type (as_EnumValues v) (marshalO__EnumValues ec ctx sel)) True False"

definition exec___Type_inputFields ::
  "'g executionContext \<Rightarrow> 'g exec_type \<Rightarrow> ectx \<Rightarrow> CollectedField \<Rightarrow> introspection_Type \<Rightarrow> ('g, Marshaler) px" where
  "exec___Type_inputFields ec on_type ctx field obj =
     rt_ResolveField (ec_runtime ec) ctx (ec_OperationContext ec) field (fieldContext___Type_inputFields ec)
       (\<lambda>ctx. plain_value (AnyInputValues (Type_InputFields (rt_introspection (ec_runtime ec)) obj)))
       (\<lambda>ctx sel v. assert_type (as_InputValues v) (marshalO__InputValues ec on_type ctx sel)) True False"

definition exec___Type_ofType ::
  "'g executionContext \<Rightarrow> 'g exec_type \<Rightarrow> ectx \<Rightarrow> CollectedField \<Rightarrow> introspection_Type \<Rightarrow> ('g, Marshaler) px" where
  "exec___Type_ofType ec on_type ctx field obj =
     rt_ResolveField (ec_runtime ec) ctx (ec_OperationContext ec) field (fieldContext___Type_ofType ec)
       (\<lambda>ctx. plain_value (AnyType (Type_OfType (rt_introspection (ec_runtime ec)) obj)))
       (\<lambda>ctx sel v. assert_type (as_Type v) (marshalO__Type ec on_type ctx sel)) True False"

definition exec___Type_isOneOf ::
  "'g executionContext \<Rightarrow> ectx \<Rightarrow> CollectedField \<Rightarrow> introspection_Type \<Rightarrow> ('g, Marshaler) px" where
  "exec___Type_isOneOf ec ctx field obj =
     rt_ResolveField (ec_runtime ec) ctx (ec_OperationContext ec) field (fieldContext___Type_isOneOf ec)
       (\<lambda>ctx. plain_value (AnyBool (Type_IsOneOf (rt_introspection (ec_runtime ec)) obj)))
       (\<lambda>ctx sel v. assert_type (as_Bool v) (marshalOBoolean ec ctx sel)) True False"

definition introspection_TypeImplementors :: "string list" where
  "introspection_TypeImplementors = [''__Type'']"

definition exec___Type_body ::
  "'g executionContext \<Rightarrow> 'g exec_type \<Rightarrow> ectx \<Rightarrow> Selection list \<Rightarrow> introspection_Type \<Rightarrow> ('g, Marshaler) px" where
  "exec___Type_body ec on_type ctx sel obj =
     exec_object ec ctx sel introspection_TypeImplementors ''__Type'' (map_of
       [(''kind'', AtOnce NonNull (\<lambda>ctx field. exec___Type_kind ec ctx field obj)),
        (''name'', AtOnce Nullable (\<lambda>ctx field. exec___Type_name ec ctx field obj)),
        (''description'', AtOnce Nullable (\<lambda>ctx field. exec___Type_description ec ctx field obj)),
        (''specifiedByURL'', AtOnce Nullable (\<lambda>ctx field. exec___Type_specifiedByURL ec ctx field obj)),
        (''fields'', AtOnce Nullable (\<lambda>ctx field. exec___Type_fields ec on_type ctx field obj)),
        (''interfaces'', AtOnce Nullable (\<lambda>ctx field. exec___Type_interfaces ec on_type ctx field obj)),
        (''possibleTypes'', AtOnce Nullable (\<lambda>ctx field. exec___Type_possibleTypes ec on_type ctx field obj)),
        (''enumValues'', AtOnce Nullable (\<lambda>ctx field. exec___Type_enumValues ec ctx field obj)),
        (''inputFields'', AtOnce Nullable (\<lambda>ctx field. exec___Type_inputFields ec on_type ctx field obj)),
        (''ofType'', AtOnce Nullable (\<lambda>ctx field. exec___Type_ofType ec on_type ctx field obj)),
        (''isOneOf'', AtOnce Nullable (\<lambda>ctx field. exec___Type_isOneOf ec ctx field obj))])"

section \<open>The knot\<close>

text \<open>
  How deep fields are nested in a selection set; a fragment adds no depth of its own.
\<close>

fun selection_depth :: "Selection \<Rightarrow> nat" and selections_depth :: "Selection list \<Rightarrow> nat" where
  "selection_depth (SelField al name as sels) = Suc (selections_depth sels)"
| "selection_depth (SelFragment on sels) = selections_depth sels"
| "selections_depth [] = 0"
| "selections_depth (s # sels) = max (selection_depth s) (selections_depth sels)"

text \<open>
  The code calls \<open>___Type\<close> under itself, on a selection set that is less deep each time. The model
  counts the calls: \<open>exec___Type_upto n bottom\<close> is \<open>___Type\<close> up to \<open>n\<close> calls under each other, the
  next one being \<open>bottom\<close>. As many calls as the selection set is deep, and one, are enough:
  theory IntroProps proves that \<open>exec___Type\<close> satisfies the equation of the code, and that neither a
  larger number nor another \<open>bottom\<close> can be told from it.
\<close>

primrec exec___Type_upto :: "nat \<Rightarrow> 'g exec_type \<Rightarrow> 'g executionContext \<Rightarrow> 'g exec_type" where
  "exec___Type_upto 0 bottom ec = bottom"
| "exec___Type_upto (Suc n) bottom ec = exec___Type_body ec (exec___Type_upto n bottom ec)"

definition stack_overflow :: "'g exec_type" where
  "stack_overflow ctx sel obj = ret (Inl ''stack overflow'')"

definition exec___Type :: "'g executionContext \<Rightarrow> 'g exec_type" where
  "exec___Type ec ctx sel obj =
     exec___Type_upto (Suc (selections_depth sel)) stack_overflow ec ctx sel obj"

section \<open>__Directive\<close>

definition fieldContext___Directive_name :: "'g executionContext \<Rightarrow> ectx \<Rightarrow> CollectedField \<Rightarrow> 'g field_context" where
  "fieldContext___Directive_name ec ctx field = scalar_context ec ''__Directive'' field False False ''String''"

definition fieldContext___Directive_description :: "'g executionContext \<Rightarrow> ectx \<Rightarrow> CollectedField \<Rightarrow> 'g field_context" where
  "fieldContext___Directive_description ec ctx field = scalar_context ec ''__Directive'' field True False ''String''"

definition fieldContext___Directive_isRepeatable :: "'g executionContext \<Rightarrow> ectx \<Rightarrow> CollectedField \<Rightarrow> 'g field_context" where
  "fieldContext___Directive_isRepeatable ec ctx field = scalar_context ec ''__Directive'' field False False ''Boolean''"

definition fieldContext___Directive_locations :: "'g executionContext \<Rightarrow> ectx \<Rightarrow> CollectedField \<Rightarrow> 'g field_context" where
  "fieldContext___Directive_locations ec ctx field = scalar_context ec ''__Directive'' field False False ''__DirectiveLocation''"

definition fieldContext___Directive_args :: "'g executionContext \<Rightarrow> ectx \<Rightarrow> CollectedField \<Rightarrow> 'g field_context" where
  "fieldContext___Directive_args ec ctx field =
     context_with_args ec ctx field
       \<lparr>fc_Object = ''__Directive'', fc_Field = Some field, fc_IsMethod = False, fc_IsResolver = False,
         fc_Args = [], fc_Child = Some Child___InputValue\<rparr>
       (field___Directive_args_args ec)"

definition childFields___Directive :: "'g executionContext \<Rightarrow> ectx \<Rightarrow> CollectedField \<Rightarrow> 'g field_context" where
  "childFields___Directive ec = child_fields ec ''__Directive''
     [(''name'', fieldContext___Directive_name ec),
      (''description'', fieldContext___Directive_description ec),
      (''isRepeatable'', fieldContext___Directive_isRepeatable ec),
      (''locations'', fieldContext___Directive_locations ec),
      (''args'', fieldContext___Directive_args ec)]"

definition exec___Directive_name ::
  "'g executionContext \<Rightarrow> ectx \<Rightarrow> CollectedField \<Rightarrow> introspection_Directive \<Rightarrow> ('g, Marshaler) px" where
  "exec___Directive_name ec ctx field obj =
     rt_ResolveField (ec_runtime ec) ctx (ec_OperationContext ec) field (fieldContext___Directive_name ec)
       (\<lambda>ctx. plain_value (AnyString (Directive_Name (rt_introspection (ec_runtime ec)) obj)))
       (\<lambda>ctx sel v. assert_type (as_String v) (marshalNString ec ctx sel)) True True"

definition exec___Directive_description ::
  "'g executionContext \<Rightarrow> ectx \<Rightarrow> CollectedField \<Rightarrow> introspection_Directive \<Rightarrow> ('g, Marshaler) px" where
  "exec___Directive_description ec ctx field obj =
     rt_ResolveField (ec_runtime ec) ctx (ec_OperationContext ec) field (fieldContext___Directive_description ec)
       (\<lambda>ctx. plain_value (AnyStringPtr (Directive_Description (rt_introspection (ec_runtime ec)) obj)))
       (\<lambda>ctx sel v. assert_type (as_StringPtr v) (marshalOString ec ctx sel)) True False"

definition exec___Directive_isRepeatable ::
  "'g executionContext \<Rightarrow> ectx \<Rightarrow> CollectedField \<Rightarrow> introspection_Directive \<Rightarrow> ('g, Marshaler) px" where
  "exec___Directive_isRepeatable ec ctx field obj =
     rt_ResolveField (ec_runtime ec) ctx (ec_OperationContext ec) field (fieldContext___Directive_isRepeatable ec)
       (\<lambda>ctx. plain_value (AnyBool (Directive_IsRepeatable (rt_introspection (ec_runtime ec)) obj)))
       (\<lambda>ctx sel v. assert_type (as_Bool v) (marshalNBoolean ec ctx sel)) True True"

definition exec___Directive_locations ::
  "'g executionContext \<Rightarrow> ectx \<Rightarrow> CollectedField \<Rightarrow> introspection_Directive \<Rightarrow> ('g, Marshaler) px" where
  "exec___Directive_locations ec ctx field obj =
     rt_ResolveField (ec_runtime ec) ctx (ec_OperationContext ec) field (fieldContext___Directive_locations ec)
       (\<lambda>ctx. plain_value (AnyStrings (Directive_Locations (rt_introspection (ec_runtime ec)) obj)))
       (\<lambda>ctx sel v. assert_type (as_Strings v) (marshalN__DirectiveLocations ec ctx sel)) True True"

definition exec___Directive_args ::
  "'g executionContext \<Rightarrow> ectx \<Rightarrow> CollectedField \<Rightarrow> introspection_Directive \<Rightarrow> ('g, Marshaler) px" where
  "exec___Directive_args ec ctx field obj =
     rt_ResolveField (ec_runtime ec) ctx (ec_OperationContext ec) field (fieldContext___Directive_args ec)
       (\<lambda>ctx. plain_value (AnyInputValues (Directive_Args (rt_introspection (ec_runtime ec)) obj)))
       (\<lambda>ctx sel v. assert_type (as_InputValues v) (marshalN__InputValues ec (exec___Type ec) ctx sel)) True True"

definition introspection_DirectiveImplementors :: "string list" where
  "introspection_DirectiveImplementors = [''__Directive'']"

definition exec___Directive ::
  "'g executionContext \<Rightarrow> ectx \<Rightarrow> Selection list \<Rightarrow> introspection_Directive \<Rightarrow> ('g, Marshaler) px" where
  "exec___Directive ec ctx sel obj =
     exec_object ec ctx sel introspection_DirectiveImplementors ''__Directive'' (map_of
       [(''name'', AtOnce NonNull (\<lambda>ctx field. exec___Directive_name ec ctx field obj)),
        (''description'', AtOnce Nullable (\<lambda>ctx field. exec___Directive_description ec ctx field obj)),
        (''isRepeatable'', AtOnce NonNull (\<lambda>ctx field. exec___Directive_isRepeatable ec ctx field obj)),
        (''locations'', AtOnce NonNull (\<lambda>ctx field. exec___Directive_locations ec ctx field obj)),
        (''args'', AtOnce NonNull (\<lambda>ctx field. exec___Directive_args ec ctx field obj))])"

definition marshalN__Directive ::
  "'g executionContext \<Rightarrow> ectx \<Rightarrow> Selection list \<Rightarrow> introspection_Directive \<Rightarrow> ('g, Marshaler) px" where
  "marshalN__Directive ec ctx sel v = exec___Directive ec ctx sel v"

definition marshalN__Directives ::
  "'g executionContext \<Rightarrow> ectx \<Rightarrow> Selection list \<Rightarrow> introspection_Directive slice \<Rightarrow> ('g, Marshaler) px" where
  "marshalN__Directives ec ctx sel v =
     marshal_list ec ctx AnyDirectiveElem (elements v) (\<lambda>ctx x. marshalN__Directive ec ctx sel x)"

section \<open>__Schema\<close>

definition fieldContext___Schema_description :: "'g executionContext \<Rightarrow> ectx \<Rightarrow> CollectedField \<Rightarrow> 'g field_context" where
  "fieldContext___Schema_description ec ctx field = scalar_context ec ''__Schema'' field True False ''String''"

definition fieldContext___Schema_types :: "'g executionContext \<Rightarrow> ectx \<Rightarrow> CollectedField \<Rightarrow> 'g field_context" where
  "fieldContext___Schema_types ec ctx field =
     ret (Some \<lparr>fc_Object = ''__Schema'', fc_Field = Some field, fc_IsMethod = True, fc_IsResolver = False,
         fc_Args = [], fc_Child = Some Child___Type\<rparr>, None)"

definition fieldContext___Schema_queryType :: "'g executionContext \<Rightarrow> ectx \<Rightarrow> CollectedField \<Rightarrow> 'g field_context" where
  "fieldContext___Schema_queryType ec ctx field =
     ret (Some \<lparr>fc_Object = ''__Schema'', fc_Field = Some field, fc_IsMethod = True, fc_IsResolver = False,
         fc_Args = [], fc_Child = Some Child___Type\<rparr>, None)"

definition fieldContext___Schema_mutationType :: "'g executionContext \<Rightarrow> ectx \<Rightarrow> CollectedField \<Rightarrow> 'g field_context" where
  "fieldContext___Schema_mutationType ec ctx field =
     ret (Some \<lparr>fc_Object = ''__Schema'', fc_Field = Some field, fc_IsMethod = True, fc_IsResolver = False,
         fc_Args = [], fc_Child = Some Child___Type\<rparr>, None)"

definition fieldContext___Schema_subscriptionType :: "'g executionContext \<Rightarrow> ectx \<Rightarrow> CollectedField \<Rightarrow> 'g field_context" where
  "fieldContext___Schema_subscriptionType ec ctx field =
     ret (Some \<lparr>fc_Object = ''__Schema'', fc_Field = Some field, fc_IsMethod = True, fc_IsResolver = False,
         fc_Args = [], fc_Child = Some Child___Type\<rparr>, None)"

definition fieldContext___Schema_directives :: "'g executionContext \<Rightarrow> ectx \<Rightarrow> CollectedField \<Rightarrow> 'g field_context" where
  "fieldContext___Schema_directives ec ctx field =
     ret (Some \<lparr>fc_Object = ''__Schema'', fc_Field = Some field, fc_IsMethod = True, fc_IsResolver = False,
         fc_Args = [], fc_Child = Some Child___Directive\<rparr>, None)"

definition childFields___Schema :: "'g executionContext \<Rightarrow> ectx \<Rightarrow> CollectedField \<Rightarrow> 'g field_context" where
  "childFields___Schema ec = child_fields ec ''__Schema''
     [(''description'', fieldContext___Schema_description ec),
      (''types'', fieldContext___Schema_types ec),
      (''queryType'', fieldContext___Schema_queryType ec),
      (''mutationType'', fieldContext___Schema_mutationType ec),
      (''subscriptionType'', fieldContext___Schema_subscriptionType ec),
      (''directives'', fieldContext___Schema_directives ec)]"

definition exec___Schema_description ::
  "'g executionContext \<Rightarrow> ectx \<Rightarrow> CollectedField \<Rightarrow> introspection_Schema \<Rightarrow> ('g, Marshaler) px" where
  "exec___Schema_description ec ctx field obj =
     rt_ResolveField (ec_runtime ec) ctx (ec_OperationContext ec) field (fieldContext___Schema_description ec)
       (\<lambda>ctx. plain_value (AnyStringPtr (Schema_Description (rt_introspection (ec_runtime ec)) obj)))
       (\<lambda>ctx sel v. assert_type (as_StringPtr v) (marshalOString ec ctx sel)) True False"

definition exec___Schema_types ::
  "'g executionContext \<Rightarrow> ectx \<Rightarrow> CollectedField \<Rightarrow> introspection_Schema \<Rightarrow> ('g, Marshaler) px" where
  "exec___Schema_types ec ctx field obj =
     rt_ResolveField (ec_runtime ec) ctx (ec_OperationContext ec) field (fieldContext___Schema_types ec)
       (\<lambda>ctx. plain_value (AnyTypes (Schema_Types (rt_introspection (ec_runtime ec)) obj)))
       (\<lambda>ctx sel v. assert_type (as_Types v) (marshalN__Types ec (exec___Type ec) ctx sel)) True True"

definition exec___Schema_queryType ::
  "'g executionContext \<Rightarrow> ectx \<Rightarrow> CollectedField \<Rightarrow> introspection_Schema \<Rightarrow> ('g, Marshaler) px" where
  "exec___Schema_queryType ec ctx field obj =
     rt_ResolveField (ec_runtime ec) ctx (ec_OperationContext ec) field (fieldContext___Schema_queryType ec)
       (\<lambda>ctx. plain_value (AnyType (Schema_QueryType (rt_introspection (ec_runtime ec)) obj)))
       (\<lambda>ctx sel v. assert_type (as_Type v) (marshalN__Type ec (exec___Type ec) ctx sel)) True True"

definition exec___Schema_mutationType ::
  "'g executionContext \<Rightarrow> ectx \<Rightarrow> CollectedField \<Rightarrow> introspection_Schema \<Rightarrow> ('g, Marshaler) px" where
  "exec___Schema_mutationType ec ctx field obj =
     rt_ResolveField (ec_runtime ec) ctx (ec_OperationContext ec) field (fieldContext___Schema_mutationType ec)
       (\<lambda>ctx. plain_value (AnyType (Schema_MutationType (rt_introspection (ec_runtime ec)) obj)))
       (\<lambda>ctx sel v. assert_type (as_Type v) (marshalO__Type ec (exec___Type ec) ctx sel)) True False"

definition exec___Schema_subscriptionType ::
  "'g executionContext \<Rightarrow> ectx \<Rightarrow> CollectedField \<Rightarrow> introspection_Schema \<Rightarrow> ('g, Marshaler) px" where
  "exec___Schema_subscriptionType ec ctx field obj =
     rt_ResolveField (ec_runtime ec) ctx (ec_OperationContext ec) field (fieldContext___Schema_subscriptionType ec)
       (\<lambda>ctx. plain_value (AnyType (Schema_SubscriptionType (rt_introspection (ec_runtime ec)) obj)))
       (\<lambda>ctx sel v. assert_type (as_Type v) (marshalO__Type ec (exec___Type ec) ctx sel)) True False"

definition exec___Schema_directives ::
  "'g executionContext \<Rightarrow> ectx \<Rightarrow> CollectedField \<Rightarrow> introspection_Schema \<Rightarrow> ('g, Marshaler) px" where
  "exec___Schema_directives ec ctx field obj =
     rt_ResolveField (ec_runtime ec) ctx (ec_OperationContext ec) field (fieldContext___Schema_directives ec)
       (\<lambda>ctx. plain_value (AnyDirectives (Schema_Directives (rt_introspection (ec_runtime ec)) obj)))
       (\<lambda>ctx sel v. assert_type (as_Directives v) (marshalN__Directives ec ctx sel)) True True"

definition introspection_SchemaImplementors :: "string list" where
  "introspection_SchemaImplementors = [''__Schema'']"

definition exec___Schema ::
  "'g executionContext \<Rightarrow> ectx \<Rightarrow> Selection list \<Rightarrow> introspection_Schema \<Rightarrow> ('g, Marshaler) px" where
  "exec___Schema ec ctx sel obj =
     exec_object ec ctx sel introspection_SchemaImplementors ''__Schema'' (map_of
       [(''description'', AtOnce Nullable (\<lambda>ctx field. exec___Schema_description ec ctx field obj)),
        (''types'', AtOnce NonNull (\<lambda>ctx field. exec___Schema_types ec ctx field obj)),
        (''queryType'', AtOnce NonNull (\<lambda>ctx field. exec___Schema_queryType ec ctx field obj)),
        (''mutationType'', AtOnce Nullable (\<lambda>ctx field. exec___Schema_mutationType ec ctx field obj)),
        (''subscriptionType'', AtOnce Nullable (\<lambda>ctx field. exec___Schema_subscriptionType ec ctx field obj)),
        (''directives'', AtOnce NonNull (\<lambda>ctx field. exec___Schema_directives ec ctx field obj))])"

definition marshalO__Schema ::
  "'g executionContext \<Rightarrow> ectx \<Rightarrow> Selection list \<Rightarrow> introspection_Schema option \<Rightarrow> ('g, Marshaler) px" where
  "marshalO__Schema ec ctx sel v = marshal_optional v (exec___Schema ec ctx sel)"

end
