(* ===== verification/ExecRoot.thy ===== *)
theory ExecRoot
  imports ExecIntro
begin

text \<open>
  The roots of the schema and the execution of an operation (internal/graph/generated): the
  executors of queries and of mutations, and the handler that gives the responses of an operation.
\<close>

section \<open>Mutation\<close>

definition fieldContext_Mutation_signOut :: "'g executionContext \<Rightarrow> ectx \<Rightarrow> CollectedField \<Rightarrow> 'g field_context" where
  "fieldContext_Mutation_signOut ec ctx field =
     ret (Some \<lparr>fc_Object = ''Mutation'', fc_Field = Some field, fc_IsMethod = True, fc_IsResolver = True,
         fc_Args = [], fc_Child = Some Child_SignOutPayload\<rparr>, None)"

definition fieldContext_Mutation_admin :: "'g executionContext \<Rightarrow> ectx \<Rightarrow> CollectedField \<Rightarrow> 'g field_context" where
  "fieldContext_Mutation_admin ec ctx field =
     ret (Some \<lparr>fc_Object = ''Mutation'', fc_Field = Some field, fc_IsMethod = True, fc_IsResolver = True,
         fc_Args = [], fc_Child = Some Child_AdminMutation\<rparr>, None)"

definition exec_Mutation_signOut ::
  "'g executionContext \<Rightarrow> ectx \<Rightarrow> CollectedField \<Rightarrow> ('g, Marshaler) px" where
  "exec_Mutation_signOut ec ctx field =
     rt_ResolveField (ec_runtime ec) ctx (ec_OperationContext ec) field (fieldContext_Mutation_signOut ec)
       (\<lambda>ctx. resolved (\<lambda>v. AnySignOut (Some v)) (Mutation_SignOut (ec_Resolvers ec) (gctx.truncate ctx)))
       (\<lambda>ctx sel v. assert_type (as_SignOut v) (marshalNSignOutPayload ec ctx sel)) True True"

definition exec_Mutation_admin ::
  "'g executionContext \<Rightarrow> ectx \<Rightarrow> CollectedField \<Rightarrow> ('g, Marshaler) px" where
  "exec_Mutation_admin ec ctx field =
     rt_ResolveField (ec_runtime ec) ctx (ec_OperationContext ec) field (fieldContext_Mutation_admin ec)
       (\<lambda>ctx. resolved (\<lambda>v. AnyAdminMutation (Some v)) (Mutation_Admin (rt_gqlgen (ec_runtime ec)) (ec_Resolvers ec) (gctx.truncate ctx)))
       (\<lambda>ctx sel v. assert_type (as_AdminMutation v) (marshalNAdminMutation ec ctx sel)) True True"

definition mutationImplementors :: "string list" where
  "mutationImplementors = [''Mutation'']"

definition exec_Mutation ::
  "'g executionContext \<Rightarrow> ectx \<Rightarrow> Selection list \<Rightarrow> ('g, Marshaler) px" where
  "exec_Mutation ec ctx sel =
     (let ctx = rt_WithFieldContext (ec_runtime ec) \<lparr>fc_Object = ''Mutation'', fc_Field = None,
          fc_IsMethod = False, fc_IsResolver = False, fc_Args = [], fc_Child = None\<rparr> ctx
      in exec_object ec ctx sel mutationImplementors ''Mutation'' (map_of
       [(''signOut'', AtOnce NonNull (\<lambda>ctx field. rt_RootResolverMiddleware (ec_runtime ec) (innerCtx ec field ctx)
           (\<lambda>ctx. exec_Mutation_signOut ec ctx field))),
        (''admin'', AtOnce NonNull (\<lambda>ctx field. rt_RootResolverMiddleware (ec_runtime ec) (innerCtx ec field ctx)
           (\<lambda>ctx. exec_Mutation_admin ec ctx field)))]))"

section \<open>Query\<close>

definition fieldContext_Query_viewer :: "'g executionContext \<Rightarrow> ectx \<Rightarrow> CollectedField \<Rightarrow> 'g field_context" where
  "fieldContext_Query_viewer ec ctx field =
     ret (Some \<lparr>fc_Object = ''Query'', fc_Field = Some field, fc_IsMethod = True, fc_IsResolver = True,
         fc_Args = [], fc_Child = Some Child_Viewer\<rparr>, None)"

definition fieldContext_Query_admin :: "'g executionContext \<Rightarrow> ectx \<Rightarrow> CollectedField \<Rightarrow> 'g field_context" where
  "fieldContext_Query_admin ec ctx field =
     ret (Some \<lparr>fc_Object = ''Query'', fc_Field = Some field, fc_IsMethod = True, fc_IsResolver = True,
         fc_Args = [], fc_Child = Some Child_AdminQuery\<rparr>, None)"

definition fieldContext_Query___type :: "'g executionContext \<Rightarrow> ectx \<Rightarrow> CollectedField \<Rightarrow> 'g field_context" where
  "fieldContext_Query___type ec ctx field =
     context_with_args ec ctx field
       \<lparr>fc_Object = ''Query'', fc_Field = Some field, fc_IsMethod = True, fc_IsResolver = False,
         fc_Args = [], fc_Child = Some Child___Type\<rparr>
       (field_Query___type_args ec)"

definition fieldContext_Query___schema :: "'g executionContext \<Rightarrow> ectx \<Rightarrow> CollectedField \<Rightarrow> 'g field_context" where
  "fieldContext_Query___schema ec ctx field =
     ret (Some \<lparr>fc_Object = ''Query'', fc_Field = Some field, fc_IsMethod = True, fc_IsResolver = False,
         fc_Args = [], fc_Child = Some Child___Schema\<rparr>, None)"

definition exec_Query_viewer ::
  "'g executionContext \<Rightarrow> ectx \<Rightarrow> CollectedField \<Rightarrow> ('g, Marshaler) px" where
  "exec_Query_viewer ec ctx field =
     rt_ResolveField (ec_runtime ec) ctx (ec_OperationContext ec) field (fieldContext_Query_viewer ec)
       (\<lambda>ctx. resolved (\<lambda>v. AnyViewer (Some v)) (Query_Viewer (gctx.truncate ctx)))
       (\<lambda>ctx sel v. assert_type (as_Viewer v) (marshalNViewer ec ctx sel)) True True"

definition exec_Query_admin ::
  "'g executionContext \<Rightarrow> ectx \<Rightarrow> CollectedField \<Rightarrow> ('g, Marshaler) px" where
  "exec_Query_admin ec ctx field =
     rt_ResolveField (ec_runtime ec) ctx (ec_OperationContext ec) field (fieldContext_Query_admin ec)
       (\<lambda>ctx. resolved (\<lambda>v. AnyAdminQuery (Some v)) (Query_Admin (rt_gqlgen (ec_runtime ec)) (ec_Resolvers ec) (gctx.truncate ctx)))
       (\<lambda>ctx sel v. assert_type (as_AdminQuery v) (marshalNAdminQuery ec ctx sel)) True True"

definition exec_Query___type ::
  "'g executionContext \<Rightarrow> ectx \<Rightarrow> CollectedField \<Rightarrow> ('g, Marshaler) px" where
  "exec_Query___type ec ctx field =
     rt_ResolveField (ec_runtime ec) ctx (ec_OperationContext ec) field (fieldContext_Query___type ec)
       (\<lambda>ctx. assert_type (Option.bind (GetFieldContext_Args ctx ''name'') as_String) (\<lambda>name.
         introspected AnyType (rt_IntrospectType (ec_runtime ec) (ec_OperationContext ec) name)))
       (\<lambda>ctx sel v. assert_type (as_Type v) (marshalO__Type ec (exec___Type ec) ctx sel)) True False"

definition exec_Query___schema ::
  "'g executionContext \<Rightarrow> ectx \<Rightarrow> CollectedField \<Rightarrow> ('g, Marshaler) px" where
  "exec_Query___schema ec ctx field =
     rt_ResolveField (ec_runtime ec) ctx (ec_OperationContext ec) field (fieldContext_Query___schema ec)
       (\<lambda>ctx. introspected AnySchema (rt_IntrospectSchema (ec_runtime ec) (ec_OperationContext ec)))
       (\<lambda>ctx sel v. assert_type (as_Schema v) (marshalO__Schema ec ctx sel)) True False"

definition queryImplementors :: "string list" where
  "queryImplementors = [''Query'']"

definition exec_Query ::
  "'g executionContext \<Rightarrow> ectx \<Rightarrow> Selection list \<Rightarrow> ('g, Marshaler) px" where
  "exec_Query ec ctx sel =
     (let ctx = rt_WithFieldContext (ec_runtime ec) \<lparr>fc_Object = ''Query'', fc_Field = None,
          fc_IsMethod = False, fc_IsResolver = False, fc_Args = [], fc_Child = None\<rparr> ctx
      in exec_object ec ctx sel queryImplementors ''Query'' (map_of
       [(''viewer'', RootGoroutine NonNull (\<lambda>ctx field. exec_Query_viewer ec ctx field)),
        (''admin'', RootGoroutine NonNull (\<lambda>ctx field. exec_Query_admin ec ctx field)),
        (''__type'', AtOnce Nullable (\<lambda>ctx field. rt_RootResolverMiddleware (ec_runtime ec) (innerCtx ec field ctx)
           (\<lambda>ctx. exec_Query___type ec ctx field))),
        (''__schema'', AtOnce Nullable (\<lambda>ctx field. rt_RootResolverMiddleware (ec_runtime ec) (innerCtx ec field ctx)
           (\<lambda>ctx. exec_Query___schema ec ctx field)))]))"

section \<open>The children of field contexts\<close>

text \<open>What the closure \<open>Child\<close> of a field context does when it is called.\<close>

definition Child_call ::
  "'g executionContext \<Rightarrow> child \<Rightarrow> ectx \<Rightarrow> CollectedField \<Rightarrow> 'g field_context" where
  "Child_call ec child =
     (case child of
        Childless err \<Rightarrow> (\<lambda>ctx field. ret (None, Some (Plain err)))
      | Child_Admin \<Rightarrow> childFields_Admin ec
      | Child_AdminMutation \<Rightarrow> childFields_AdminMutation ec
      | Child_AdminQuery \<Rightarrow> childFields_AdminQuery ec
      | Child_AdminUser \<Rightarrow> childFields_AdminUser ec
      | Child_AdminsConnection \<Rightarrow> childFields_AdminsConnection ec
      | Child_AuditLogConnection \<Rightarrow> childFields_AuditLogConnection ec
      | Child_AuditLogEntry \<Rightarrow> childFields_AuditLogEntry ec
      | Child_FieldMessage \<Rightarrow> childFields_FieldMessage ec
      | Child_PageInfo \<Rightarrow> childFields_PageInfo ec
      | Child_SignOutPayload \<Rightarrow> childFields_SignOutPayload ec
      | Child_Timestamp \<Rightarrow> childFields_Timestamp ec
      | Child_User \<Rightarrow> childFields_User ec
      | Child_UsersConnection \<Rightarrow> childFields_UsersConnection ec
      | Child_Viewer \<Rightarrow> childFields_Viewer ec
      | Child___Directive \<Rightarrow> childFields___Directive ec
      | Child___EnumValue \<Rightarrow> childFields___EnumValue ec
      | Child___Field \<Rightarrow> childFields___Field ec
      | Child___InputValue \<Rightarrow> childFields___InputValue ec
      | Child___Schema \<Rightarrow> childFields___Schema ec
      | Child___Type \<Rightarrow> childFields___Type ec)"

section \<open>Operations\<close>

text \<open>
  \<open>newExecutionContext\<close> and \<open>Exec\<close>. The handler that \<open>Exec\<close> returns is called until it gives no
  response. Of a query the first response is the selection, and the later ones are the groups
  that were deferred; a mutation has one response.
\<close>

definition newExecutionContext ::
  "'g runtime \<Rightarrow> Resolver \<Rightarrow> OperationContext \<Rightarrow> 'g executionContext" where
  "newExecutionContext rt resolvers opCtx =
     \<lparr>ec_runtime = rt, ec_Resolvers = resolvers, ec_OperationContext = opCtx\<rparr>"

definition no_response :: Response where
  "no_response = \<lparr>response_Data = '''', response_Path = [], response_Label = '''',
     response_Errors = [], response_HasNext = None\<rparr>"

definition query_response ::
  "'g executionContext \<Rightarrow> Selection list \<Rightarrow> ectx \<Rightarrow> ('g, Response option) px" where
  "query_response ec sel ctx = do {
     first \<leftarrow> ask_world ex_first;
     pending \<leftarrow> ask_world ex_Pending;
     and_then
       (if first then do {
          modify_world (\<lambda>s. s\<lparr>ex_first := False\<rparr>);
          and_then (exec_Query ec (rt_WithUnmarshalers (ec_runtime ec) ctx) sel)
            (\<lambda>data. ret (Inr (Some (no_response, data))))
        }
        else if pending > 0 then do {
          result \<leftarrow> rt_DeferredResults (ec_runtime ec);
          modify_world (\<lambda>s. s\<lparr>ex_Pending := ex_Pending s - 1\<rparr>);
          ret (Inr (Some (no_response\<lparr>response_Path := dr_Path result,
            response_Label := dr_Label result, response_Errors := dr_Errors result\<rparr>,
            dr_Result result)))
        }
        else ret (Inr None))
       (\<lambda>out. case out of
          None \<Rightarrow> ret (Inr None)
        | Some (response, data) \<Rightarrow> do {
            let response = response\<lparr>response_Data := rt_MarshalGQL (ec_runtime ec) data\<rparr>;
            deferred \<leftarrow> ask_world ex_Deferred;
            pending \<leftarrow> ask_world ex_Pending;
            ret (Inr (Some (if deferred > 0
              then response\<lparr>response_HasNext := Some (pending > 0)\<rparr> else response)))
          })
   }"

definition mutation_response ::
  "'g executionContext \<Rightarrow> Selection list \<Rightarrow> ectx \<Rightarrow> ('g, Response option) px" where
  "mutation_response ec sel ctx = do {
     first \<leftarrow> ask_world ex_first;
     if \<not> first then ret (Inr None)
     else do {
       modify_world (\<lambda>s. s\<lparr>ex_first := False\<rparr>);
       and_then (exec_Mutation ec (rt_WithUnmarshalers (ec_runtime ec) ctx) sel)
         (\<lambda>data. ret (Inr (Some (no_response\<lparr>response_Data := rt_MarshalGQL (ec_runtime ec) data\<rparr>))))
     }
   }"

definition Exec :: "'g executionContext \<Rightarrow> ectx \<Rightarrow> ectx \<Rightarrow> ('g, Response option) px" where
  "Exec ec ctx0 =
     (case oc_Operation (ec_OperationContext ec) of
        Some (Query, sel) \<Rightarrow> query_response ec sel
      | Some (Mutation, sel) \<Rightarrow> mutation_response ec sel
      | Some (Subscription, sel) \<Rightarrow> (\<lambda>ctx. do {
          response \<leftarrow> rt_OneShot (ec_runtime ec)
            (rt_ErrorResponse (ec_runtime ec) ctx0 ''unsupported GraphQL operation'') ctx;
          ret (Inr response)
        })
      | None \<Rightarrow> (\<lambda>ctx. ret (Inl ''invalid memory address or nil pointer dereference'')))"

end
