(* ===== verification/ExecLaws.thy ===== *)
theory ExecLaws
  imports ExecRoot
begin

text \<open>
  What the executor relies on of \<open>gqlgen\<close>, as a law over invariants of the world, and what follows
  for every executor: it changes the world only through the resolvers that it calls.
\<close>

section \<open>Invariants of the world\<close>

definition leads :: "(World \<Rightarrow> bool) \<Rightarrow> ('g, 'a) ex \<Rightarrow> (World \<Rightarrow> bool) \<Rightarrow> bool" where
  "leads P m Q \<longleftrightarrow> (\<forall>s. P (ex_World s) \<longrightarrow> Q (ex_World (snd (run m s))))"

abbreviation keeps :: "(World \<Rightarrow> bool) \<Rightarrow> ('g, 'a) ex \<Rightarrow> bool" where
  "keeps I m \<equiv> leads I m I"

lemma leadsD: "leads P m Q \<Longrightarrow> P (ex_World s) \<Longrightarrow> run m s = (x, s') \<Longrightarrow> Q (ex_World s')"
  unfolding leads_def by (metis snd_conv)

text \<open>Additionally, a value that is returned satisfies \<open>J\<close> in the world it is returned in.\<close>

definition yields ::
  "(World \<Rightarrow> bool) \<Rightarrow> ('g, graph_error + any) px \<Rightarrow> (any \<Rightarrow> World \<Rightarrow> bool) \<Rightarrow> bool" where
  "yields I m J \<longleftrightarrow> (\<forall>s r s'. I (ex_World s) \<and> run m s = (r, s') \<longrightarrow>
     I (ex_World s') \<and> (\<forall>v. r = Inr (Inr v) \<longrightarrow> J v (ex_World s')))"

text \<open>A resolver of the model, as a computation on the world.\<close>

definition keeps_world :: "(World \<Rightarrow> bool) \<Rightarrow> 'a act \<Rightarrow> bool" where
  "keeps_world I m \<longleftrightarrow> (\<forall>w. I w \<longrightarrow> I (snd (run m w)))"

text \<open>The presenter of errors writes to the log, so the invariants do not read it.\<close>

definition log_blind :: "(World \<Rightarrow> bool) \<Rightarrow> bool" where
  "log_blind I \<longleftrightarrow> (\<forall>w lines. I (w\<lparr>w_log := lines\<rparr>) = I w)"

section \<open>The law\<close>

text \<open>
  The runtime acts on the world only by writing errors to the log and by calling what it is given.
  It calls it in contexts of the same request, and \<open>ResolveField\<close> marshals only a value that the
  resolver has returned, after it returned it. The contexts that the runtime derives are of the
  same request.
\<close>

definition upholds_ResolveField :: "'g runtime \<Rightarrow> (World \<Rightarrow> bool) \<Rightarrow> bool" where
  "upholds_ResolveField rt I \<longleftrightarrow>
     (\<forall>J ctx oc field fctx resolver marshal recovers nonnull.
        (\<forall>v. log_blind (J v)) \<longrightarrow>
        (\<forall>c f. g_ctx c = g_ctx ctx \<longrightarrow> keeps I (fctx c f)) \<longrightarrow>
        (\<forall>c. g_ctx c = g_ctx ctx \<longrightarrow> yields I (resolver c) J) \<longrightarrow>
        (\<forall>c sel v. g_ctx c = g_ctx ctx \<longrightarrow> leads (\<lambda>w. I w \<and> J v w) (marshal c sel v) I) \<longrightarrow>
        keeps I (rt_ResolveField rt ctx oc field fctx resolver marshal recovers nonnull))"

definition upholds_callers :: "'g runtime \<Rightarrow> (World \<Rightarrow> bool) \<Rightarrow> bool" where
  "upholds_callers rt I \<longleftrightarrow>
     (\<forall>ctx raw name zero read.
        (\<forall>c v. g_ctx c = g_ctx ctx \<longrightarrow> keeps I (read c v)) \<longrightarrow>
        keeps I (rt_ProcessArgField rt ctx raw name zero read)) \<and>
     (\<forall>ctx n k fast f.
        (\<forall>c i. g_ctx c = g_ctx ctx \<and> i < n \<longrightarrow> keeps I (f c i)) \<longrightarrow>
        keeps I (rt_MarshalSliceConcurrently rt ctx n k fast f)) \<and>
     (\<forall>ctx f. (\<forall>c. g_ctx c = g_ctx ctx \<longrightarrow> keeps I (f c)) \<longrightarrow>
        keeps I (rt_RootResolverMiddleware rt ctx f)) \<and>
     (\<forall>ctx fs. (\<forall>c. \<forall>(i, f) \<in> set (fs_delayed fs). g_ctx c = g_ctx ctx \<longrightarrow> keeps I (f c)) \<longrightarrow>
        keeps I (rt_Dispatch rt ctx fs)) \<and>
     (\<forall>dg. (\<forall>c. \<forall>(i, f) \<in> set (fs_delayed (dg_FieldSet dg)).
          g_ctx c = g_ctx (dg_Context dg) \<longrightarrow> keeps I (f c)) \<longrightarrow>
        keeps I (rt_ProcessDeferredGroup rt dg))"

definition upholds_calls :: "'g runtime \<Rightarrow> (World \<Rightarrow> bool) \<Rightarrow> bool" where
  "upholds_calls rt I \<longleftrightarrow>
     (\<forall>object field m r err. keeps I (rt_NewScalarFieldContext rt object field m r err)) \<and>
     (\<forall>response ctx. keeps I (rt_OneShot rt response ctx)) \<and>
     keeps I (rt_DeferredResults rt) \<and>
     (\<forall>ctx. keeps I (rt_HasFieldError rt ctx)) \<and>
     (\<forall>ctx text. keeps I (rt_AddErrorf rt ctx text)) \<and>
     (\<forall>ctx err. keeps I (rt_Error rt ctx err)) \<and>
     (\<forall>ctx p. keeps I (rt_Recover rt ctx p)) \<and>
     (\<forall>ctx v. keeps I (rt_SetResult rt ctx v))"

definition derives_contexts :: "'g runtime \<Rightarrow> bool" where
  "derives_contexts rt \<longleftrightarrow>
     (\<forall>name ctx. g_ctx (rt_WithPathField rt name ctx) = g_ctx ctx) \<and>
     (\<forall>fc ctx. g_ctx (rt_WithFieldContext rt fc ctx) = g_ctx ctx) \<and>
     (\<forall>name field ctx. g_ctx (rt_WithRootFieldContext rt name field ctx) = g_ctx ctx) \<and>
     (\<forall>ctx. g_ctx (rt_WithUnmarshalers rt ctx) = g_ctx ctx)"

definition upholds :: "'g runtime \<Rightarrow> (World \<Rightarrow> bool) \<Rightarrow> bool" where
  "upholds rt I \<longleftrightarrow>
     upholds_ResolveField rt I \<and> upholds_callers rt I \<and> upholds_calls rt I \<and> derives_contexts rt"

definition runtime_documented :: "'g runtime \<Rightarrow> bool" where
  "runtime_documented rt \<longleftrightarrow> (\<forall>I. log_blind I \<longrightarrow> upholds rt I)"

section \<open>Rules\<close>

named_theorems keeps_rules \<open>how an invariant passes through a computation\<close>
named_theorems keeps_world_rules \<open>the same for a computation on the world alone\<close>

lemma leads_return [keeps_rules]: "keeps I (ret x)"
  by (simp add: leads_def)

lemma leads_bind [keeps_rules]: "keeps I m \<Longrightarrow> (\<And>x. keeps I (f x)) \<Longrightarrow> keeps I (m \<bind> f)"
  unfolding leads_def by (auto split: prod.splits)

lemma leads_ask [keeps_rules]: "keeps I (ask_world f)"
  by (simp add: leads_def)

lemma leads_modify [keeps_rules]:
  "(\<And>s. ex_World (f s) = ex_World s) \<Longrightarrow> keeps I (modify_world f)"
  by (simp add: leads_def)

lemma leads_if [keeps_rules]: "keeps I m \<Longrightarrow> keeps I n \<Longrightarrow> keeps I (if b then m else n)"
  by simp

lemma leads_sum [keeps_rules]:
  "(\<And>e. keeps I (f e)) \<Longrightarrow> (\<And>x. keeps I (g x)) \<Longrightarrow>
   keeps I (case r of Inl e \<Rightarrow> f e | Inr x \<Rightarrow> g x)"
  by (simp split: sum.splits)

lemma leads_option [keeps_rules]:
  "keeps I m \<Longrightarrow> (\<And>x. keeps I (f x)) \<Longrightarrow> keeps I (case r of None \<Rightarrow> m | Some x \<Rightarrow> f x)"
  by (simp split: option.splits)

lemma leads_prod [keeps_rules]: "(\<And>x y. keeps I (f x y)) \<Longrightarrow> keeps I (case p of (x, y) \<Rightarrow> f x y)"
  by (simp split: prod.splits)

lemma leads_and_then [keeps_rules]:
  "keeps I m \<Longrightarrow> (\<And>x. keeps I (f x)) \<Longrightarrow> keeps I (and_then m f)"
  unfolding and_then_def by (intro leads_bind leads_sum leads_return)

lemma leads_on_world [keeps_rules]: "keeps_world I m \<Longrightarrow> keeps I (on_world m)"
  by (auto simp: leads_def keeps_world_def on_world_def split: prod.splits)

lemma leads_resolved [keeps_rules]: "keeps_world I m \<Longrightarrow> keeps I (resolved box m)"
  unfolding resolved_def by (intro keeps_rules)

lemma leads_assert_type [keeps_rules]: "(\<And>x. keeps I (f x)) \<Longrightarrow> keeps I (assert_type v f)"
  unfolding assert_type_def by (intro keeps_rules)

lemma leads_plain_value [keeps_rules]: "keeps I (plain_value v)"
  unfolding plain_value_def by (intro keeps_rules)

lemma keeps_yields: "keeps I m \<Longrightarrow> yields I m (\<lambda>v. I)"
  unfolding yields_def leads_def by (metis snd_conv)


section \<open>The runtime\<close>

text \<open>With a condition on what the resolver returns, and without one.\<close>

lemma keeps_ResolveField_if:
  assumes rt: "upholds rt I"
    and blind: "\<And>v. log_blind (J v)"
    and fctx: "\<And>c f. g_ctx c = g_ctx ctx \<Longrightarrow> keeps I (fctx c f)"
    and res: "\<And>c. g_ctx c = g_ctx ctx \<Longrightarrow> yields I (resolver c) J"
    and mar: "\<And>c sel v. g_ctx c = g_ctx ctx \<Longrightarrow> leads (\<lambda>w. I w \<and> J v w) (marshal c sel v) I"
  shows "keeps I (rt_ResolveField rt ctx oc field fctx resolver marshal recovers nonnull)"
proof -
  have "\<And>J. \<forall>v. log_blind (J v) \<Longrightarrow> \<forall>c f. g_ctx c = g_ctx ctx \<longrightarrow> keeps I (fctx c f) \<Longrightarrow>
      \<forall>c. g_ctx c = g_ctx ctx \<longrightarrow> yields I (resolver c) J \<Longrightarrow>
      \<forall>c sel v. g_ctx c = g_ctx ctx \<longrightarrow> leads (\<lambda>w. I w \<and> J v w) (marshal c sel v) I \<Longrightarrow>
      keeps I (rt_ResolveField rt ctx oc field fctx resolver marshal recovers nonnull)"
    using rt unfolding upholds_def upholds_ResolveField_def by blast
  then show ?thesis using blind fctx res mar by blast
qed

lemma keeps_ResolveField [keeps_rules]:
  assumes rt: "upholds rt I"
    and fctx: "\<And>c f. g_ctx c = g_ctx ctx \<Longrightarrow> keeps I (fctx c f)"
    and res: "\<And>c. g_ctx c = g_ctx ctx \<Longrightarrow> keeps I (resolver c)"
    and mar: "\<And>c sel v. g_ctx c = g_ctx ctx \<Longrightarrow> keeps I (marshal c sel v)"
  shows "keeps I (rt_ResolveField rt ctx oc field fctx resolver marshal recovers nonnull)"
proof (rule keeps_ResolveField_if [where J = "\<lambda>_ _. True", OF rt])
  show "yields I (resolver c) (\<lambda>_ _. True)" if "g_ctx c = g_ctx ctx" for c
    using res [OF that] unfolding yields_def leads_def by (metis snd_conv)
qed (use fctx mar in \<open>auto simp: log_blind_def\<close>)

lemma keeps_ProcessArgField [keeps_rules]:
  "upholds rt I \<Longrightarrow> (\<And>c v. g_ctx c = g_ctx ctx \<Longrightarrow> keeps I (read c v)) \<Longrightarrow>
   keeps I (rt_ProcessArgField rt ctx raw name zero read)"
  unfolding upholds_def upholds_callers_def by blast

lemma keeps_MarshalSliceConcurrently [keeps_rules]:
  "upholds rt I \<Longrightarrow> (\<And>c i. g_ctx c = g_ctx ctx \<Longrightarrow> keeps I (f c i)) \<Longrightarrow>
   keeps I (rt_MarshalSliceConcurrently rt ctx n k fast f)"
  unfolding upholds_def upholds_callers_def by blast

lemma keeps_RootResolverMiddleware [keeps_rules]:
  "upholds rt I \<Longrightarrow> (\<And>c. g_ctx c = g_ctx ctx \<Longrightarrow> keeps I (f c)) \<Longrightarrow>
   keeps I (rt_RootResolverMiddleware rt ctx f)"
  unfolding upholds_def upholds_callers_def by blast

lemma keeps_Dispatch:
  "upholds rt I \<Longrightarrow>
   (\<And>c i f. (i, f) \<in> set (fs_delayed fs) \<Longrightarrow> g_ctx c = g_ctx ctx \<Longrightarrow> keeps I (f c)) \<Longrightarrow>
   keeps I (rt_Dispatch rt ctx fs)"
  unfolding upholds_def upholds_callers_def by blast

lemma keeps_ProcessDeferredGroup:
  "upholds rt I \<Longrightarrow>
   (\<And>c i f. (i, f) \<in> set (fs_delayed (dg_FieldSet g)) \<Longrightarrow> g_ctx c = g_ctx (dg_Context g)
      \<Longrightarrow> keeps I (f c)) \<Longrightarrow>
   keeps I (rt_ProcessDeferredGroup rt g)"
  unfolding upholds_def upholds_callers_def by blast

lemma keeps_calls [keeps_rules]:
  "upholds rt I \<Longrightarrow> keeps I (rt_NewScalarFieldContext rt object field m r why)"
  "upholds rt I \<Longrightarrow> keeps I (rt_OneShot rt response ctx)"
  "upholds rt I \<Longrightarrow> keeps I (rt_DeferredResults rt)"
  "upholds rt I \<Longrightarrow> keeps I (rt_HasFieldError rt ctx)"
  "upholds rt I \<Longrightarrow> keeps I (rt_AddErrorf rt ctx text)"
  "upholds rt I \<Longrightarrow> keeps I (rt_Error rt ctx err)"
  "upholds rt I \<Longrightarrow> keeps I (rt_Recover rt ctx p)"
  "upholds rt I \<Longrightarrow> keeps I (rt_SetResult rt ctx v)"
  by (simp_all add: upholds_def upholds_calls_def)

lemma derived_contexts:
  "upholds rt I \<Longrightarrow> g_ctx (rt_WithPathField rt name ctx) = g_ctx ctx"
  "upholds rt I \<Longrightarrow> g_ctx (rt_WithFieldContext rt fc ctx) = g_ctx ctx"
  "upholds rt I \<Longrightarrow> g_ctx (rt_WithRootFieldContext rt name field ctx) = g_ctx ctx"
  "upholds rt I \<Longrightarrow> g_ctx (rt_WithUnmarshalers rt ctx) = g_ctx ctx"
  by (simp_all add: upholds_def derives_contexts_def)

section \<open>Arguments and scalars\<close>

lemma keeps_box_input [keeps_rules]: "keeps I m \<Longrightarrow> keeps I (box_input box m)"
  unfolding box_input_def by (intro keeps_rules)

lemma keeps_on_path [keeps_rules]: "keeps I m \<Longrightarrow> keeps I (on_path ec ctx m)"
  unfolding on_path_def by (intro keeps_rules)

lemma keeps_unmarshal_input [keeps_rules]: "keeps I (unmarshal_input read ks it obj)"
  by (simp add: unmarshal_input_def leads_return split: json.splits)

lemma keeps_read_args [keeps_rules]:
  assumes "upholds (ec_runtime ec) I"
    and "\<And>name zero read c v. (name, zero, read) \<in> set specs \<Longrightarrow> keeps I (read c v)"
  shows "keeps I (read_args ec ctx raw specs args)"
  using assms(2)
proof (induction specs arbitrary: args)
  case (Cons spec specs)
  obtain name zero read where spec: "spec = (name, zero, read)" by (cases spec)
  have "keeps I (read c v)" for c v
    by (rule Cons.prems [of name zero read]) (simp add: spec)
  moreover have "keeps I (read_args ec ctx raw specs args)" for args
    using Cons.IH Cons.prems by (meson list.set_intros(2))
  ultimately show ?case
    unfolding spec read_args.simps by (intro keeps_rules assms(1))
qed (simp add: leads_return)

lemma keeps_context_with_args [keeps_rules]:
  assumes "upholds (ec_runtime ec) I" and "\<And>c raw. keeps I (read c raw)"
  shows "keeps I (context_with_args ec ctx field fc read)"
  unfolding context_with_args_def Let_def by (intro keeps_rules assms)

lemma keeps_scalars [keeps_rules]:
  assumes "upholds (ec_runtime ec) I"
  shows "keeps I (scalar_context ec object field m r typename)"
    and "keeps I (report_null ec ctx)"
    and "keeps I (marshal_nonnull ec ctx res)"
    and "keeps I (marshalNInt64 ec ctx sel n)"
    and "keeps I (marshalNString ec ctx sel text)"
    and "keeps I (marshalNBoolean ec ctx sel b)"
    and "keeps I (marshalNViewerRole ec ctx sel role)"
    and "keeps I (marshalOInt64 ec ctx sel k)"
    and "keeps I (marshalOString ec ctx sel text')"
    and "keeps I (marshalOBoolean ec ctx sel b)"
  unfolding scalar_context_def report_null_def marshal_nonnull_def marshalNInt64_def
    marshalNString_def marshalNBoolean_def marshalNViewerRole_def marshalOInt64_def
    marshalOString_def marshalOBoolean_def
  by (intro keeps_rules assms)+

lemma keeps_optional [keeps_rules]: "(\<And>x. keeps I (f x)) \<Longrightarrow> keeps I (marshal_optional v f)"
  unfolding marshal_optional_def by (intro keeps_rules)

lemma keeps_pointers [keeps_rules]:
  assumes "upholds (ec_runtime ec) I"
  shows "(\<And>x. keeps I (f x)) \<Longrightarrow> keeps I (marshal_pointer ec ctx v f)"
    and "(\<And>c x. g_ctx c = g_ctx ctx \<Longrightarrow> keeps I (h c x)) \<Longrightarrow> keeps I (marshal_list ec ctx box l h)"
    and "(\<And>c x. g_ctx c = g_ctx ctx \<Longrightarrow> keeps I (h c x)) \<Longrightarrow> keeps I (marshal_slice ec ctx box l' h)"
  unfolding marshal_pointer_def marshal_slice_def marshal_list_def by (intro keeps_rules assms; simp)+

section \<open>Selection sets\<close>

primrec branch_keeps :: "(World \<Rightarrow> bool) \<Rightarrow> Ctx \<Rightarrow> 'g branch \<Rightarrow> bool" where
  "branch_keeps I c (AtOnce test f) \<longleftrightarrow> (\<forall>ctx field. g_ctx ctx = c \<longrightarrow> keeps I (f ctx field))"
| "branch_keeps I c (Goroutine test f) \<longleftrightarrow> (\<forall>ctx field. g_ctx ctx = c \<longrightarrow> keeps I (f ctx field))"
| "branch_keeps I c (RootGoroutine test f) \<longleftrightarrow> (\<forall>ctx field. g_ctx ctx = c \<longrightarrow> keeps I (f ctx field))"

definition delayed_keep :: "(World \<Rightarrow> bool) \<Rightarrow> Ctx \<Rightarrow> 'g FieldSet \<Rightarrow> bool" where
  "delayed_keep I c fs \<longleftrightarrow>
     (\<forall>(i, f) \<in> set (fs_delayed fs). \<forall>ctx. g_ctx ctx = c \<longrightarrow> keeps I (f ctx))"

lemma delayed_keepD:
  "delayed_keep I (g_ctx ctx) fs \<Longrightarrow> (i, f) \<in> set (fs_delayed fs) \<Longrightarrow> g_ctx c = g_ctx ctx \<Longrightarrow> keeps I (f c)"
  by (auto simp: delayed_keep_def)

lemma delayed_keep_simps [simp]:
  "delayed_keep I c (set_value i v fs) = delayed_keep I c fs"
  "delayed_keep I c (AddField field fs) = delayed_keep I c fs"
  "delayed_keep I c (Concurrently i f fs) \<longleftrightarrow>
     delayed_keep I c fs \<and> (\<forall>ctx. g_ctx ctx = c \<longrightarrow> keeps I (f ctx))"
  by (auto simp: delayed_keep_def set_value_def AddField_def Concurrently_def)

lemma keeps_add_invalid [keeps_rules]: "keeps I (add_invalid fs)"
  unfolding add_invalid_def by (intro keeps_rules) simp

lemma keeps_NewFieldSet [keeps_rules]: "keeps I (NewFieldSet collected)"
  unfolding NewFieldSet_def by (intro keeps_rules) simp

lemma keeps_innerFunc [keeps_rules]:
  assumes "upholds (ec_runtime ec) I" and "keeps I (f ctx field)"
  shows "keeps I (innerFunc ec test f field ctx fs)"
  unfolding innerFunc_def by (intro keeps_rules assms)

text \<open>The thunks that the loop leaves to be computed keep the invariant, when the branches do.\<close>

lemma object_loop_delayed:
  assumes rt: "upholds (ec_runtime ec) I"
    and switch: "\<And>name b. switch name = Some b \<Longrightarrow> branch_keeps I (g_ctx ctx) b"
  shows "run (object_loop ec ctx typename switch todo (out, deferred, views)) s
      = (Inr (out', deferred', views'), s') \<Longrightarrow>
    delayed_keep I (g_ctx ctx) out \<Longrightarrow> delayed_keep I (g_ctx ctx) deferred \<Longrightarrow>
    delayed_keep I (g_ctx ctx) out' \<and> delayed_keep I (g_ctx ctx) deferred'"
proof (induction todo arbitrary: out deferred views s)
  case (Cons entry todo)
  obtain i field where entry: "entry = (i, field)" by (cases entry)
  have root: "keeps I (rt_RootResolverMiddleware (ec_runtime ec) (innerCtx ec field ctx)
      (\<lambda>c. innerFunc ec test f field c fs))"
    if "\<forall>ctx' field. g_ctx ctx' = g_ctx ctx \<longrightarrow> keeps I (f ctx' field)" for test f and fs :: "'a FieldSet"
    using that rt by (intro keeps_rules) (simp_all add: innerCtx_def derived_contexts)
  show ?case
  proof (cases "field_Name field = ''__typename''")
    case True
    with Cons.prems Cons.IH show ?thesis by (auto simp: entry)
  next
    case name: False
    show ?thesis
    proof (cases "switch (field_Name field)")
      case None
      with name Cons.prems show ?thesis by (simp add: entry)
    next
      case (Some b)
      note b = switch [OF Some]
      show ?thesis
      proof (cases b)
        case (AtOnce test f)
        with name Some Cons.prems Cons.IH show ?thesis
          by (auto simp: entry and_then_def split: prod.splits sum.splits if_splits)
      next
        case (Goroutine test f)
        then have "keeps I (innerFunc ec test f field c fs)"
          if "g_ctx c = g_ctx ctx" for c and fs :: "'a FieldSet"
          using b that rt by (intro keeps_rules) simp_all
        with Goroutine name Some Cons.prems Cons.IH show ?thesis
          by (auto simp: entry Let_def split: if_splits)
      next
        case (RootGoroutine test f)
        with b name Some Cons.prems Cons.IH root show ?thesis by (auto simp: entry)
      qed
    qed
  qed
qed simp

lemma keeps_object_loop [keeps_rules]:
  assumes "\<And>name b. switch name = Some b \<Longrightarrow> branch_keeps I (g_ctx ctx) b"
  shows "keeps I (object_loop ec ctx typename switch todo sets)"
proof (induction todo arbitrary: sets)
  case (Cons entry todo)
  obtain i field where entry: "entry = (i, field)" by (cases entry)
  obtain out deferred views where sets: "sets = (out, deferred, views)" by (cases sets)
  have "keeps I (f ctx field)" if "switch (field_Name field) = Some (AtOnce test f)" for test f
    using assms [OF that] by simp
  then show ?case
    using Cons.IH unfolding entry sets object_loop.simps Let_def
    by (auto intro!: keeps_rules split: option.splits branch.splits)
qed (simp add: leads_return)

text \<open>A continuation needs to keep the invariant only on what the computation can return.\<close>

lemma leads_and_then_from:
  fixes m :: "('g, 'a) px"
  assumes "keeps I m" and "\<And>x s s'. run m s = (Inr x, s') \<Longrightarrow> keeps I (f x)"
  shows "keeps I (and_then m f)"
  unfolding leads_def
proof (intro allI impI)
  fix s :: "'g exec_state" assume s: "I (ex_World s)"
  obtain r s' where m: "run m s = (r, s')" by (cases "run m s")
  have s': "I (ex_World s')" using assms(1) s m by (metis leads_def snd_conv)
  show "I (ex_World (snd (run (and_then m f) s)))"
  proof (cases r)
    case (Inr x)
    with assms(2) [of s x s'] m s' show ?thesis by (simp add: and_then_def leads_def)
  qed (use m s' in \<open>simp add: and_then_def\<close>)
qed

lemma NewFieldSet_delayed:
  "run (NewFieldSet collected) s = (fs, s') \<Longrightarrow> delayed_keep I c fs"
  by (auto simp: NewFieldSet_def delayed_keep_def)

lemma leads_bind_from:
  assumes "keeps I m" and "\<And>x s s'. run m s = (x, s') \<Longrightarrow> keeps I (f x)"
  shows "keeps I (m \<bind> f)"
  using assms unfolding leads_def by (auto split: prod.splits)

lemma keeps_exec_object:
  assumes rt: "upholds (ec_runtime ec) I"
    and switch: "\<And>name b. switch name = Some b \<Longrightarrow> branch_keeps I (g_ctx ctx) b"
  shows "keeps I (exec_object ec ctx sel implementors typename switch)"
  unfolding exec_object_def Let_def
proof (rule leads_bind_from [OF keeps_NewFieldSet], rule leads_bind_from [OF keeps_NewFieldSet])
  fix out deferred :: "'a FieldSet" and s1 s1' s2 s2'
  let ?collected = "gql_CollectFields (rt_gqlgen (ec_runtime ec)) (Some (ec_OperationContext ec)) sel implementors"
  assume new: "run (NewFieldSet ?collected) s1 = (out, s1')" "run (NewFieldSet []) s2 = (deferred, s2')"
  note fresh = new [THEN NewFieldSet_delayed, of I "g_ctx ctx"]
  show "keeps I (and_then (object_loop ec ctx typename switch (enumerate 0 ?collected) (out, deferred, []))
     (\<lambda>(out, deferred, views). and_then (rt_Dispatch (ec_runtime ec) ctx out) (\<lambda>values. do {
        invalids \<leftarrow> ask_world (\<lambda>s. ex_Invalids s (fs_number out));
        if invalids > 0 then ret (Inr Null)
        else do {
          modify_world (\<lambda>s. s\<lparr>ex_Deferred := ex_Deferred s + min (length views) max_int32\<rparr>);
          and_then (rt_ProcessDeferredGroup (ec_runtime ec)
              \<lparr>dg_Defers = views, dg_Path = g_path ctx, dg_FieldSet = deferred, dg_Context = ctx\<rparr>)
            (\<lambda>_. ret (Inr (FieldSetMarshaler ?collected values)))
        }
      })))"
  proof (rule leads_and_then_from)
    show "keeps I (object_loop ec ctx typename switch (enumerate 0 ?collected) (out, deferred, []))"
      by (rule keeps_object_loop [OF switch])
  next
    fix x s s'
    assume x: "run (object_loop ec ctx typename switch (enumerate 0 ?collected) (out, deferred, [])) s = (Inr x, s')"
    obtain out' deferred' views where sets: "x = (out', deferred', views)" by (cases x)
    have "delayed_keep I (g_ctx ctx) out' \<and> delayed_keep I (g_ctx ctx) deferred'"
      using object_loop_delayed [OF rt switch, OF _ x [unfolded sets]] fresh by simp
    then have "keeps I (rt_Dispatch (ec_runtime ec) ctx out')"
      and "keeps I (rt_ProcessDeferredGroup (ec_runtime ec)
        \<lparr>dg_Defers = views, dg_Path = g_path ctx, dg_FieldSet = deferred', dg_Context = ctx\<rparr>)"
      by (auto intro!: keeps_Dispatch [OF rt] keeps_ProcessDeferredGroup [OF rt] dest: delayed_keepD)
    then show "keeps I (case x of (out, deferred, views) \<Rightarrow>
      and_then (rt_Dispatch (ec_runtime ec) ctx out) (\<lambda>values. do {
        invalids \<leftarrow> ask_world (\<lambda>s. ex_Invalids s (fs_number out));
        if invalids > 0 then ret (Inr Null)
        else do {
          modify_world (\<lambda>s. s\<lparr>ex_Deferred := ex_Deferred s + min (length views) max_int32\<rparr>);
          and_then (rt_ProcessDeferredGroup (ec_runtime ec)
              \<lparr>dg_Defers = views, dg_Path = g_path ctx, dg_FieldSet = deferred, dg_Context = ctx\<rparr>)
            (\<lambda>_. ret (Inr (FieldSetMarshaler ?collected values)))
        }
      }))"
      unfolding sets by (simp, intro keeps_rules) simp_all
  qed
qed

end
