(* ===== verification/ExecKeeps.thy ===== *)
theory ExecKeeps
  imports ExecLaws
begin

text \<open>
  Every executor keeps an invariant that the resolvers under it keep. The objects that no resolver
  is under keep every invariant.
\<close>

section \<open>The fields of each object\<close>

lemmas Timestamp_fields = fieldContext_Timestamp_unix_def exec_Timestamp_unix_def
  fieldContext_Timestamp_formatted_def exec_Timestamp_formatted_def

lemmas User_fields = fieldContext_User_id_def exec_User_id_def fieldContext_User_email_def
  exec_User_email_def fieldContext_User_name_def exec_User_name_def
  fieldContext_User_createdAt_def exec_User_createdAt_def

lemmas Viewer_fields = fieldContext_Viewer_user_def exec_Viewer_user_def
  fieldContext_Viewer_role_def exec_Viewer_role_def

lemmas SignOutPayload_fields = fieldContext_SignOutPayload_redirectUrl_def
  exec_SignOutPayload_redirectUrl_def

lemmas FieldMessage_fields = fieldContext_FieldMessage_name_def exec_FieldMessage_name_def
  fieldContext_FieldMessage_value_def exec_FieldMessage_value_def

lemmas ErrorPayload_fields = fieldContext_ErrorPayload_message_def exec_ErrorPayload_message_def
  fieldContext_ErrorPayload_byFields_def exec_ErrorPayload_byFields_def

lemmas BanUserPayload_fields = fieldContext_BanUserPayload_userId_def
  exec_BanUserPayload_userId_def

lemmas UnbanUserPayload_fields = fieldContext_UnbanUserPayload_userId_def
  exec_UnbanUserPayload_userId_def

lemmas MakeAdminPayload_fields = fieldContext_MakeAdminPayload_userId_def
  exec_MakeAdminPayload_userId_def

lemmas RemoveAdminPayload_fields = fieldContext_RemoveAdminPayload_userId_def
  exec_RemoveAdminPayload_userId_def

lemmas AdminUser_fields = fieldContext_AdminUser_id_def exec_AdminUser_id_def
  fieldContext_AdminUser_email_def exec_AdminUser_email_def fieldContext_AdminUser_name_def
  exec_AdminUser_name_def fieldContext_AdminUser_createdAt_def exec_AdminUser_createdAt_def
  fieldContext_AdminUser_lastSignInAt_def exec_AdminUser_lastSignInAt_def
  fieldContext_AdminUser_isAdmin_def exec_AdminUser_isAdmin_def
  fieldContext_AdminUser_banReason_def exec_AdminUser_banReason_def

lemmas Admin_fields = fieldContext_Admin_userId_def exec_Admin_userId_def
  fieldContext_Admin_email_def exec_Admin_email_def fieldContext_Admin_name_def
  exec_Admin_name_def fieldContext_Admin_createdAt_def exec_Admin_createdAt_def

lemmas UsersConnection_fields = fieldContext_UsersConnection_totalCount_def
  exec_UsersConnection_totalCount_def fieldContext_UsersConnection_nodes_def
  exec_UsersConnection_nodes_def

lemmas AdminsConnection_fields = fieldContext_AdminsConnection_totalCount_def
  exec_AdminsConnection_totalCount_def fieldContext_AdminsConnection_nodes_def
  exec_AdminsConnection_nodes_def

lemmas PageInfo_fields = fieldContext_PageInfo_hasNextPage_def exec_PageInfo_hasNextPage_def
  fieldContext_PageInfo_endCursor_def exec_PageInfo_endCursor_def

lemmas AuditLogEntry_fields = fieldContext_AuditLogEntry_id_def exec_AuditLogEntry_id_def
  fieldContext_AuditLogEntry_userId_def exec_AuditLogEntry_userId_def
  fieldContext_AuditLogEntry_email_def exec_AuditLogEntry_email_def
  fieldContext_AuditLogEntry_action_def exec_AuditLogEntry_action_def
  fieldContext_AuditLogEntry_detail_def exec_AuditLogEntry_detail_def
  fieldContext_AuditLogEntry_ip_def exec_AuditLogEntry_ip_def
  fieldContext_AuditLogEntry_createdAt_def exec_AuditLogEntry_createdAt_def

lemmas AuditLogConnection_fields = fieldContext_AuditLogConnection_totalCount_def
  exec_AuditLogConnection_totalCount_def fieldContext_AuditLogConnection_nodes_def
  exec_AuditLogConnection_nodes_def fieldContext_AuditLogConnection_pageInfo_def
  exec_AuditLogConnection_pageInfo_def

lemmas AdminQuery_fields = fieldContext_AdminQuery_users_def exec_AdminQuery_users_def
  fieldContext_AdminQuery_user_def exec_AdminQuery_user_def fieldContext_AdminQuery_admins_def
  exec_AdminQuery_admins_def fieldContext_AdminQuery_auditLog_def exec_AdminQuery_auditLog_def
  fieldContext_AdminQuery_buildGitCommit_def exec_AdminQuery_buildGitCommit_def

lemmas AdminMutation_fields = fieldContext_AdminMutation_banUser_def
  exec_AdminMutation_banUser_def fieldContext_AdminMutation_unbanUser_def
  exec_AdminMutation_unbanUser_def fieldContext_AdminMutation_makeAdmin_def
  exec_AdminMutation_makeAdmin_def fieldContext_AdminMutation_removeAdmin_def
  exec_AdminMutation_removeAdmin_def

lemmas Mutation_fields = fieldContext_Mutation_signOut_def exec_Mutation_signOut_def
  fieldContext_Mutation_admin_def exec_Mutation_admin_def

lemmas Query_fields = fieldContext_Query_viewer_def exec_Query_viewer_def
  fieldContext_Query_admin_def exec_Query_admin_def fieldContext_Query___type_def
  exec_Query___type_def fieldContext_Query___schema_def exec_Query___schema_def

lemmas introspection_EnumValue_fields = fieldContext___EnumValue_name_def
  fieldContext___EnumValue_description_def fieldContext___EnumValue_isDeprecated_def
  fieldContext___EnumValue_deprecationReason_def exec___EnumValue_name_def
  exec___EnumValue_description_def exec___EnumValue_isDeprecated_def
  exec___EnumValue_deprecationReason_def

lemmas introspection_InputValue_fields = fieldContext___InputValue_name_def
  fieldContext___InputValue_description_def fieldContext___InputValue_type_def
  fieldContext___InputValue_defaultValue_def fieldContext___InputValue_isDeprecated_def
  fieldContext___InputValue_deprecationReason_def exec___InputValue_name_def
  exec___InputValue_description_def exec___InputValue_type_def
  exec___InputValue_defaultValue_def exec___InputValue_isDeprecated_def
  exec___InputValue_deprecationReason_def

lemmas introspection_Field_fields = fieldContext___Field_name_def fieldContext___Field_description_def
  fieldContext___Field_args_def fieldContext___Field_type_def
  fieldContext___Field_isDeprecated_def fieldContext___Field_deprecationReason_def
  exec___Field_name_def exec___Field_description_def exec___Field_args_def
  exec___Field_type_def exec___Field_isDeprecated_def exec___Field_deprecationReason_def

lemmas introspection_Type_fields = fieldContext___Type_kind_def fieldContext___Type_name_def
  fieldContext___Type_description_def fieldContext___Type_specifiedByURL_def
  fieldContext___Type_fields_def fieldContext___Type_interfaces_def
  fieldContext___Type_possibleTypes_def fieldContext___Type_enumValues_def
  fieldContext___Type_inputFields_def fieldContext___Type_ofType_def
  fieldContext___Type_isOneOf_def exec___Type_kind_def exec___Type_name_def
  exec___Type_description_def exec___Type_specifiedByURL_def exec___Type_fields_def
  exec___Type_interfaces_def exec___Type_possibleTypes_def exec___Type_enumValues_def
  exec___Type_inputFields_def exec___Type_ofType_def exec___Type_isOneOf_def

lemmas introspection_Directive_fields = fieldContext___Directive_name_def
  fieldContext___Directive_description_def fieldContext___Directive_isRepeatable_def
  fieldContext___Directive_locations_def fieldContext___Directive_args_def
  exec___Directive_name_def exec___Directive_description_def exec___Directive_isRepeatable_def
  exec___Directive_locations_def exec___Directive_args_def

lemmas introspection_Schema_fields = fieldContext___Schema_description_def fieldContext___Schema_types_def
  fieldContext___Schema_queryType_def fieldContext___Schema_mutationType_def
  fieldContext___Schema_subscriptionType_def fieldContext___Schema_directives_def
  exec___Schema_description_def exec___Schema_types_def exec___Schema_queryType_def
  exec___Schema_mutationType_def exec___Schema_subscriptionType_def
  exec___Schema_directives_def

lemmas argument_readers =
  field_AdminMutation_banUser_args_def field_AdminMutation_makeAdmin_args_def
  field_AdminMutation_removeAdmin_args_def field_AdminMutation_unbanUser_args_def
  field_AdminQuery_auditLog_args_def field_AdminQuery_user_args_def field_Timestamp_formatted_args_def
  field_Query___type_args_def field___Directive_args_args_def field___Field_args_args_def
  field___Type_enumValues_args_def field___Type_fields_args_def
  unmarshalNBanUserInput_def unmarshalInputBanUserInput_def
  unmarshalNMakeAdminInput_def unmarshalInputMakeAdminInput_def
  unmarshalNRemoveAdminInput_def unmarshalInputRemoveAdminInput_def
  unmarshalNUnbanUserInput_def unmarshalInputUnbanUserInput_def

lemma keeps_argument_readers [keeps_rules]:
  assumes "upholds (ec_runtime ec) I"
  shows "keeps I (field_AdminMutation_banUser_args ec ctx raw)"
    and "keeps I (field_AdminMutation_makeAdmin_args ec ctx raw)"
    and "keeps I (field_AdminMutation_removeAdmin_args ec ctx raw)"
    and "keeps I (field_AdminMutation_unbanUser_args ec ctx raw)"
    and "keeps I (field_AdminQuery_auditLog_args ec ctx raw)"
    and "keeps I (field_AdminQuery_user_args ec ctx raw)"
    and "keeps I (field_Timestamp_formatted_args ec ctx raw)"
    and "keeps I (field_Query___type_args ec ctx raw)"
    and "keeps I (field___Directive_args_args ec ctx raw)"
    and "keeps I (field___Field_args_args ec ctx raw)"
    and "keeps I (field___Type_enumValues_args ec ctx raw)"
    and "keeps I (field___Type_fields_args ec ctx raw)"
  unfolding argument_readers by (auto intro!: keeps_rules assms)

text \<open>An object whose branches are given by a list.\<close>

lemma keeps_object:
  assumes "upholds (ec_runtime ec) I" and "list_all (\<lambda>(name, b). branch_keeps I (g_ctx ctx) b) bs"
  shows "keeps I (exec_object ec ctx sel implementors typename (map_of bs))"
proof (rule keeps_exec_object [OF assms(1)])
  fix name b assume "map_of bs name = Some b"
  then show "branch_keeps I (g_ctx ctx) b" using assms(2) by (auto dest!: map_of_SomeD simp: list_all_iff)
qed

section \<open>Objects without resolvers\<close>

lemma keeps_Timestamp [keeps_rules]:
  assumes rt: "upholds (ec_runtime ec) I"
  shows "keeps I (exec_Timestamp ec ctx sel obj)"
  unfolding exec_Timestamp_def Timestamp_fields
  by (rule keeps_object [OF rt]) (auto intro!: keeps_rules rt)

lemma keeps_Timestamp_values [keeps_rules]:
  assumes rt: "upholds (ec_runtime ec) I"
  shows "keeps I (marshalNTimestamp ec ctx sel t)" and "keeps I (marshalOTimestamp ec ctx sel k)"
  unfolding marshalNTimestamp_def marshalOTimestamp_def by (intro keeps_rules rt)+

lemma keeps_User [keeps_rules]:
  assumes rt: "upholds (ec_runtime ec) I"
  shows "keeps I (exec_User ec ctx sel obj)"
  unfolding exec_User_def User_fields
  by (rule keeps_object [OF rt]) (auto intro!: keeps_rules rt)

lemma keeps_SignOutPayload [keeps_rules]:
  assumes rt: "upholds (ec_runtime ec) I"
  shows "keeps I (exec_SignOutPayload ec ctx sel obj)"
  unfolding exec_SignOutPayload_def SignOutPayload_fields
  by (rule keeps_object [OF rt]) (auto intro!: keeps_rules rt)

lemma keeps_FieldMessage [keeps_rules]:
  assumes rt: "upholds (ec_runtime ec) I"
  shows "keeps I (exec_FieldMessage ec ctx sel obj)"
  unfolding exec_FieldMessage_def FieldMessage_fields
  by (rule keeps_object [OF rt]) (auto intro!: keeps_rules rt)

lemma keeps_FieldMessages [keeps_rules]:
  "upholds (ec_runtime ec) I \<Longrightarrow> keeps I (marshalNFieldMessages ec ctx sel v)"
  unfolding marshalNFieldMessages_def marshalNFieldMessage_def by (intro keeps_rules)

lemma keeps_ErrorPayload [keeps_rules]:
  assumes rt: "upholds (ec_runtime ec) I"
  shows "keeps I (exec_ErrorPayload ec ctx sel obj)"
  unfolding exec_ErrorPayload_def ErrorPayload_fields
  by (rule keeps_object [OF rt]) (auto intro!: keeps_rules rt)

lemma keeps_BanUserPayload [keeps_rules]:
  assumes rt: "upholds (ec_runtime ec) I"
  shows "keeps I (exec_BanUserPayload ec ctx sel obj)"
  unfolding exec_BanUserPayload_def BanUserPayload_fields
  by (rule keeps_object [OF rt]) (auto intro!: keeps_rules rt)

lemma keeps_UnbanUserPayload [keeps_rules]:
  assumes rt: "upholds (ec_runtime ec) I"
  shows "keeps I (exec_UnbanUserPayload ec ctx sel obj)"
  unfolding exec_UnbanUserPayload_def UnbanUserPayload_fields
  by (rule keeps_object [OF rt]) (auto intro!: keeps_rules rt)

lemma keeps_MakeAdminPayload [keeps_rules]:
  assumes rt: "upholds (ec_runtime ec) I"
  shows "keeps I (exec_MakeAdminPayload ec ctx sel obj)"
  unfolding exec_MakeAdminPayload_def MakeAdminPayload_fields
  by (rule keeps_object [OF rt]) (auto intro!: keeps_rules rt)

lemma keeps_RemoveAdminPayload [keeps_rules]:
  assumes rt: "upholds (ec_runtime ec) I"
  shows "keeps I (exec_RemoveAdminPayload ec ctx sel obj)"
  unfolding exec_RemoveAdminPayload_def RemoveAdminPayload_fields
  by (rule keeps_object [OF rt]) (auto intro!: keeps_rules rt)

lemma keeps_unions [keeps_rules]:
  assumes rt: "upholds (ec_runtime ec) I"
  shows "keeps I (marshalNBanUserOrErrorPayload ec ctx sel v1)"
    and "keeps I (marshalNUnbanUserOrErrorPayload ec ctx sel v2)"
    and "keeps I (marshalNMakeAdminOrErrorPayload ec ctx sel v3)"
    and "keeps I (marshalNRemoveAdminOrErrorPayload ec ctx sel v4)"
  unfolding marshalNBanUserOrErrorPayload_def marshalNUnbanUserOrErrorPayload_def
    marshalNMakeAdminOrErrorPayload_def marshalNRemoveAdminOrErrorPayload_def
    exec_BanUserOrErrorPayload_def exec_UnbanUserOrErrorPayload_def
    exec_MakeAdminOrErrorPayload_def exec_RemoveAdminOrErrorPayload_def
  by (auto intro!: keeps_rules rt split: OrErrorPayload.splits)

lemma keeps_Admin [keeps_rules]:
  assumes rt: "upholds (ec_runtime ec) I"
  shows "keeps I (exec_Admin ec ctx sel obj)"
  unfolding exec_Admin_def Admin_fields
  by (rule keeps_object [OF rt]) (auto intro!: keeps_rules rt)

lemma keeps_PageInfo [keeps_rules]:
  assumes rt: "upholds (ec_runtime ec) I"
  shows "keeps I (exec_PageInfo ec ctx sel obj)"
  unfolding exec_PageInfo_def PageInfo_fields
  by (rule keeps_object [OF rt]) (auto intro!: keeps_rules rt)

lemma keeps_AuditLogEntry [keeps_rules]:
  assumes rt: "upholds (ec_runtime ec) I"
  shows "keeps I (exec_AuditLogEntry ec ctx sel obj)"
  unfolding exec_AuditLogEntry_def AuditLogEntry_fields
  by (rule keeps_object [OF rt]) (auto intro!: keeps_rules rt)

lemma keeps_values [keeps_rules]:
  assumes rt: "upholds (ec_runtime ec) I"
  shows "keeps I (marshalOUser ec ctx sel user)"
    and "keeps I (marshalNSignOutPayload ec ctx sel payload)"
    and "keeps I (marshalNAdmins ec ctx sel admins)"
    and "keeps I (marshalNPageInfo ec ctx sel page)"
    and "keeps I (marshalNAuditLogEntries ec ctx sel entries)"
  unfolding marshalOUser_def marshalNSignOutPayload_def marshalNAdmins_def marshalNAdmin_def
    marshalNPageInfo_def marshalNAuditLogEntries_def marshalNAuditLogEntry_def
  by (intro keeps_rules rt)+

lemma keeps_AuditLogConnection [keeps_rules]:
  assumes rt: "upholds (ec_runtime ec) I"
  shows "keeps I (exec_AuditLogConnection ec ctx sel obj)"
  unfolding exec_AuditLogConnection_def AuditLogConnection_fields
  by (rule keeps_object [OF rt]) (auto intro!: keeps_rules rt)

section \<open>Introspection\<close>

text \<open>
  It reads the description of the schema and nothing of the world. What is executed under a type
  keeps an invariant when \<open>on_type\<close> does, and so \<open>___Type\<close> keeps it, however often it is called.
\<close>

definition type_keeps :: "(World \<Rightarrow> bool) \<Rightarrow> Ctx \<Rightarrow> 'g exec_type \<Rightarrow> bool" where
  "type_keeps I c on_type \<longleftrightarrow> (\<forall>ctx sel obj. g_ctx ctx = c \<longrightarrow> keeps I (on_type ctx sel obj))"

lemma keeps_introspected [keeps_rules]: "keeps I (introspected box r)"
  unfolding introspected_def by (intro keeps_rules)

lemma keeps_introspection_scalars [keeps_rules]:
  assumes "upholds (ec_runtime ec) I"
  shows "keeps I (marshalN__TypeKind ec ctx sel kind)"
    and "keeps I (marshalN__DirectiveLocations ec ctx sel locations)"
  unfolding marshalN__TypeKind_def marshalN__DirectiveLocations_def marshalN__DirectiveLocation_def
  by (intro keeps_rules assms)+

lemma keeps_types [keeps_rules]:
  assumes "upholds (ec_runtime ec) I" and "type_keeps I (g_ctx ctx) on_type"
  shows "keeps I (marshalN__Type ec on_type ctx sel t)"
    and "keeps I (marshalO__Type ec on_type ctx sel t)"
    and "keeps I (marshalN__Types ec on_type ctx sel ts)"
    and "keeps I (marshalO__Types ec on_type ctx sel ts)"
  unfolding marshalN__Type_def marshalO__Type_def marshalN__Types_def marshalO__Types_def
    marshalN__TypeValue_def
  using assms by (auto intro!: keeps_rules simp: type_keeps_def)

lemma keeps_EnumValues [keeps_rules]:
  assumes rt: "upholds (ec_runtime ec) I"
  shows "keeps I (marshalO__EnumValues ec ctx sel v)"
  unfolding marshalO__EnumValues_def marshalN__EnumValue_def exec___EnumValue_def
    introspection_EnumValue_fields
  by (intro keeps_pointers rt, rule keeps_object [OF rt]) (auto intro!: keeps_rules rt)

lemma keeps_InputValue [keeps_rules]:
  assumes rt: "upholds (ec_runtime ec) I" and "type_keeps I (g_ctx ctx) on_type"
  shows "keeps I (exec___InputValue ec on_type ctx sel obj)"
  unfolding exec___InputValue_def introspection_InputValue_fields
  by (rule keeps_object [OF rt]) (use assms in \<open>auto intro!: keeps_rules\<close>)

lemma keeps_InputValues [keeps_rules]:
  assumes "upholds (ec_runtime ec) I" and "type_keeps I (g_ctx ctx) on_type"
  shows "keeps I (marshalN__InputValues ec on_type ctx sel v)"
    and "keeps I (marshalO__InputValues ec on_type ctx sel v)"
  unfolding marshalN__InputValues_def marshalO__InputValues_def marshalN__InputValue_def
  using assms by (auto intro!: keeps_rules)

lemma keeps_Fields [keeps_rules]:
  assumes rt: "upholds (ec_runtime ec) I" and "type_keeps I (g_ctx ctx) on_type"
  shows "keeps I (marshalO__Fields ec on_type ctx sel v)"
  unfolding marshalO__Fields_def marshalN__Field_def exec___Field_def introspection_Field_fields
  by (intro keeps_pointers rt, rule keeps_object [OF rt]) (use assms in \<open>auto intro!: keeps_rules\<close>)

lemma keeps_Type_body:
  assumes rt: "upholds (ec_runtime ec) I" and "type_keeps I (g_ctx ctx) on_type"
  shows "keeps I (exec___Type_body ec on_type ctx sel obj)"
  unfolding exec___Type_body_def introspection_Type_fields
  by (rule keeps_object [OF rt]) (use assms in \<open>auto intro!: keeps_rules\<close>)

lemma keeps_Type: "upholds (ec_runtime ec) I \<Longrightarrow> type_keeps I c (exec___Type ec)"
proof -
  assume rt: "upholds (ec_runtime ec) I"
  have "type_keeps I c (exec___Type_upto n stack_overflow ec)" for n
  proof (induction n)
    case 0
    show ?case by (simp add: type_keeps_def stack_overflow_def leads_return)
  next
    case (Suc n)
    have "keeps I (exec___Type_body ec (exec___Type_upto n stack_overflow ec) ctx sel obj)"
      if "g_ctx ctx = c" for ctx sel obj
      by (rule keeps_Type_body [OF rt]) (simp add: that Suc.IH)
    then show ?case unfolding type_keeps_def by simp
  qed
  then show ?thesis by (simp add: type_keeps_def exec___Type_def del: exec___Type_upto.simps)
qed

lemma keeps_Directives [keeps_rules]:
  assumes rt: "upholds (ec_runtime ec) I"
  shows "keeps I (marshalN__Directives ec ctx sel v)"
  unfolding marshalN__Directives_def marshalN__Directive_def exec___Directive_def
    introspection_Directive_fields
  by (intro keeps_pointers rt, rule keeps_object [OF rt]) (auto intro!: keeps_rules keeps_Type rt)

lemma keeps_Schema [keeps_rules]:
  assumes rt: "upholds (ec_runtime ec) I"
  shows "keeps I (marshalO__Schema ec ctx sel v)"
  unfolding marshalO__Schema_def exec___Schema_def introspection_Schema_fields
  by (intro keeps_optional, rule keeps_object [OF rt]) (auto intro!: keeps_rules keeps_Type rt)

lemma keeps_exec_Query_introspection [keeps_rules]:
  assumes rt: "upholds (ec_runtime ec) I"
  shows "keeps I (exec_Query___type ec ctx field)" and "keeps I (exec_Query___schema ec ctx field)"
  unfolding Query_fields by (auto intro!: keeps_rules keeps_Type rt)

section \<open>Objects with resolvers\<close>

definition viewer_keeps :: "(World \<Rightarrow> bool) \<Rightarrow> Resolver \<Rightarrow> Ctx \<Rightarrow> bool" where
  "viewer_keeps I r c \<longleftrightarrow> (\<forall>ctx. g_ctx ctx = c \<longrightarrow>
     keeps_world I (Viewer_User r ctx) \<and> keeps_world I (Viewer_Role ctx))"

definition admin_query_keeps :: "(World \<Rightarrow> bool) \<Rightarrow> Resolver \<Rightarrow> Ctx \<Rightarrow> bool" where
  "admin_query_keeps I r c \<longleftrightarrow> (\<forall>ctx. g_ctx ctx = c \<longrightarrow>
     keeps_world I (UsersConnection_TotalCountField r ctx) \<and>
     keeps_world I (UsersConnection_NodesField r ctx) \<and>
     keeps_world I (AdminsConnection_TotalCountField r ctx) \<and>
     keeps_world I (AdminsConnection_NodesField r ctx) \<and>
     (\<forall>uid. keeps_world I (AdminQuery_User r ctx uid)) \<and>
     (\<forall>limit before. keeps_world I (AdminQuery_AuditLog r ctx limit before)) \<and>
     keeps_world I (AdminQuery_BuildGitCommit r ctx))"

definition admin_mutation_keeps :: "(World \<Rightarrow> bool) \<Rightarrow> Resolver \<Rightarrow> Ctx \<Rightarrow> bool" where
  "admin_mutation_keeps I r c \<longleftrightarrow> (\<forall>ctx. g_ctx ctx = c \<longrightarrow>
     (\<forall>input. keeps_world I (AdminMutation_BanUser r ctx input)) \<and>
     (\<forall>input. keeps_world I (AdminMutation_UnbanUser r ctx input)) \<and>
     (\<forall>input. keeps_world I (AdminMutation_MakeAdmin r ctx input)) \<and>
     (\<forall>input. keeps_world I (AdminMutation_RemoveAdmin r ctx input)))"

lemma keeps_world_return [keeps_world_rules]: "keeps_world I (ret x)"
  by (simp add: keeps_world_def)

lemma g_ctx_truncate [simp]: "g_ctx (gctx.truncate ctx) = g_ctx ctx"
  by (simp add: gctx.truncate_def)

lemma keeps_AdminUser [keeps_rules]:
  assumes rt: "upholds (ec_runtime ec) I"
  shows "keeps I (exec_AdminUser ec ctx sel obj)"
  unfolding exec_AdminUser_def AdminUser_fields AdminUser_IsAdminField_def
  by (rule keeps_object [OF rt]) (auto intro!: keeps_rules keeps_world_rules rt)

lemma keeps_AdminUsers [keeps_rules]:
  assumes rt: "upholds (ec_runtime ec) I"
  shows "keeps I (marshalOAdminUser ec ctx sel user)" and "keeps I (marshalNAdminUsers ec ctx sel users)"
  unfolding marshalOAdminUser_def marshalNAdminUsers_def marshalNAdminUser_def by (intro keeps_rules rt)+

lemma keeps_Viewer [keeps_rules]:
  assumes rt: "upholds (ec_runtime ec) I" and "viewer_keeps I (ec_Resolvers ec) (g_ctx ctx)"
  shows "keeps I (marshalNViewer ec ctx sel v)"
  unfolding marshalNViewer_def exec_Viewer_def Viewer_fields
  by (intro keeps_pointers rt, rule keeps_object [OF rt])
    (use assms in \<open>auto intro!: keeps_rules simp: viewer_keeps_def\<close>)

lemma keeps_UsersConnection [keeps_rules]:
  assumes rt: "upholds (ec_runtime ec) I" and "admin_query_keeps I (ec_Resolvers ec) (g_ctx ctx)"
  shows "keeps I (marshalNUsersConnection ec ctx sel v)"
  unfolding marshalNUsersConnection_def exec_UsersConnection_def UsersConnection_fields
  by (intro keeps_pointers rt, rule keeps_object [OF rt])
    (use assms in \<open>auto intro!: keeps_rules simp: admin_query_keeps_def\<close>)

lemma keeps_AdminsConnection [keeps_rules]:
  assumes rt: "upholds (ec_runtime ec) I" and "admin_query_keeps I (ec_Resolvers ec) (g_ctx ctx)"
  shows "keeps I (marshalNAdminsConnection ec ctx sel v)"
  unfolding marshalNAdminsConnection_def exec_AdminsConnection_def AdminsConnection_fields
  by (intro keeps_pointers rt, rule keeps_object [OF rt])
    (use assms in \<open>auto intro!: keeps_rules simp: admin_query_keeps_def\<close>)

lemma keeps_AuditLogPage [keeps_rules]:
  "upholds (ec_runtime ec) I \<Longrightarrow> keeps I (marshalNAuditLogConnection ec ctx sel v)"
  unfolding marshalNAuditLogConnection_def by (intro keeps_rules)

lemma keeps_AdminQuery [keeps_rules]:
  assumes rt: "upholds (ec_runtime ec) I" and "admin_query_keeps I (ec_Resolvers ec) (g_ctx ctx)"
  shows "keeps I (marshalNAdminQuery ec ctx sel v)"
  unfolding marshalNAdminQuery_def exec_AdminQuery_def AdminQuery_fields AdminQuery_Users_def
    AdminQuery_Admins_def
  by (intro keeps_pointers rt, rule keeps_object [OF rt])
    (use assms in \<open>auto intro!: keeps_rules keeps_world_rules simp: admin_query_keeps_def\<close>)

lemma keeps_AdminMutation [keeps_rules]:
  assumes rt: "upholds (ec_runtime ec) I" and "admin_mutation_keeps I (ec_Resolvers ec) (g_ctx ctx)"
  shows "keeps I (marshalNAdminMutation ec ctx sel v)"
  unfolding marshalNAdminMutation_def exec_AdminMutation_def AdminMutation_fields
  by (intro keeps_pointers rt, rule keeps_object [OF rt])
    (use assms in \<open>auto intro!: keeps_rules simp: admin_mutation_keeps_def\<close>)

end
