(* ===== verification/ExecProps.thy ===== *)
theory ExecProps
  imports ExecKeeps GraphProps AuditPages
begin

text \<open>
  What a whole GraphQL operation can do, whatever its document: without admin rights it runs no
  statement and leaves its refusals in the audit buffer, and with them it changes the database
  only as a mutation whose entry is in the buffer.
\<close>

section \<open>Roots\<close>

lemma keeps_exec_Mutation:
  assumes rt: "upholds (ec_runtime ec) I"
    and "\<And>ctx' field. g_ctx ctx' = g_ctx ctx \<Longrightarrow> keeps I (exec_Mutation_signOut ec ctx' field)"
    and "\<And>ctx' field. g_ctx ctx' = g_ctx ctx \<Longrightarrow> keeps I (exec_Mutation_admin ec ctx' field)"
  shows "keeps I (exec_Mutation ec ctx sel)"
  unfolding exec_Mutation_def Let_def
  by (rule keeps_object [OF rt])
    (use assms in \<open>auto intro!: keeps_rules simp: derived_contexts innerCtx_def\<close>)

lemma keeps_exec_Query:
  assumes rt: "upholds (ec_runtime ec) I"
    and "\<And>ctx' field. g_ctx ctx' = g_ctx ctx \<Longrightarrow> keeps I (exec_Query_viewer ec ctx' field)"
    and "\<And>ctx' field. g_ctx ctx' = g_ctx ctx \<Longrightarrow> keeps I (exec_Query_admin ec ctx' field)"
  shows "keeps I (exec_Query ec ctx sel)"
  unfolding exec_Query_def Let_def
  by (rule keeps_object [OF rt])
    (use assms in \<open>auto intro!: keeps_rules simp: derived_contexts innerCtx_def\<close>)

lemma keeps_exec_Mutation_signOut:
  assumes rt: "upholds (ec_runtime ec) I"
    and "\<And>g. g_ctx g = g_ctx ctx \<Longrightarrow> keeps_world I (Mutation_SignOut (ec_Resolvers ec) g)"
  shows "keeps I (exec_Mutation_signOut ec ctx field)"
  unfolding Mutation_fields using assms by (auto intro!: keeps_rules)

lemma keeps_exec_Query_viewer:
  assumes rt: "upholds (ec_runtime ec) I" and "viewer_keeps I (ec_Resolvers ec) (g_ctx ctx)"
  shows "keeps I (exec_Query_viewer ec ctx field)"
  unfolding Query_fields Query_Viewer_def
  using assms by (auto intro!: keeps_rules keeps_world_rules)

text \<open>The two fields behind the admin boundary: what the resolver establishes when it lets through.\<close>

definition admits :: "(World \<Rightarrow> bool) \<Rightarrow> (World, 'a) io \<Rightarrow> (World \<Rightarrow> bool) \<Rightarrow> bool" where
  "admits I m J \<longleftrightarrow> (\<forall>w r w'. I w \<and> run m w = (r, w') \<longrightarrow> I w' \<and> (\<forall>v. r = Inr v \<longrightarrow> J w'))"

lemma yields_resolved: "admits I m J \<Longrightarrow> yields I (resolved box m) (\<lambda>_. J)"
  by (auto simp: yields_def admits_def resolved_def on_world_def split: prod.splits sum.splits)

lemma leads_assert_type_from: "(\<And>x. leads P (f x) I) \<Longrightarrow> (\<And>w. P w \<Longrightarrow> I w) \<Longrightarrow> leads P (assert_type v f) I"
  by (auto simp: assert_type_def leads_def split: option.splits)

lemma keeps_leads: "keeps (\<lambda>w. I w \<and> J w) m \<Longrightarrow> leads (\<lambda>w. I w \<and> J w) m I"
  by (simp add: leads_def)

lemma keeps_exec_Mutation_admin:
  assumes rt: "upholds (ec_runtime ec) I" "upholds (ec_runtime ec) (\<lambda>w. I w \<and> J w)" and "log_blind J"
    and "\<And>g. g_ctx g = g_ctx ctx \<Longrightarrow>
      admits I (Mutation_Admin (rt_gqlgen (ec_runtime ec)) (ec_Resolvers ec) g) J"
    and "admin_mutation_keeps (\<lambda>w. I w \<and> J w) (ec_Resolvers ec) (g_ctx ctx)"
  shows "keeps I (exec_Mutation_admin ec ctx field)"
  unfolding exec_Mutation_admin_def
  by (rule keeps_ResolveField_if [where J = "\<lambda>_. J", OF rt(1)])
    (use assms in \<open>auto intro!: yields_resolved leads_assert_type_from keeps_leads keeps_AdminMutation
       leads_return simp: fieldContext_Mutation_admin_def\<close>)

lemma keeps_exec_Query_admin:
  assumes rt: "upholds (ec_runtime ec) I" "upholds (ec_runtime ec) (\<lambda>w. I w \<and> J w)" and "log_blind J"
    and "\<And>g. g_ctx g = g_ctx ctx \<Longrightarrow>
      admits I (Query_Admin (rt_gqlgen (ec_runtime ec)) (ec_Resolvers ec) g) J"
    and "admin_query_keeps (\<lambda>w. I w \<and> J w) (ec_Resolvers ec) (g_ctx ctx)"
  shows "keeps I (exec_Query_admin ec ctx field)"
  unfolding exec_Query_admin_def
  by (rule keeps_ResolveField_if [where J = "\<lambda>_. J", OF rt(1)])
    (use assms in \<open>auto intro!: yields_resolved leads_assert_type_from keeps_leads keeps_AdminQuery
       leads_return simp: fieldContext_Query_admin_def\<close>)

lemma keeps_Exec:
  assumes rt: "upholds (ec_runtime ec) I"
    and "\<And>sel ctx'. oc_Operation (ec_OperationContext ec) = Some (Query, sel) \<Longrightarrow>
      g_ctx ctx' = g_ctx ctx \<Longrightarrow> keeps I (exec_Query ec ctx' sel)"
    and "\<And>sel ctx'. oc_Operation (ec_OperationContext ec) = Some (Mutation, sel) \<Longrightarrow>
      g_ctx ctx' = g_ctx ctx \<Longrightarrow> keeps I (exec_Mutation ec ctx' sel)"
  shows "keeps I (Exec ec ctx0 ctx)"
  using assms
  by (auto simp: Exec_def query_response_def mutation_response_def Let_def derived_contexts
      intro!: keeps_rules split: option.splits operation.splits)

section \<open>Without admin rights\<close>

text \<open>What the request without admin rights can leave: refusals and sign-outs, in its own name.\<close>

definition is_denial :: "audit_Entry \<Rightarrow> bool" where
  "is_denial e \<longleftrightarrow> HasPrefix (Entry_Action e) PrefixDenied"

definition own_entry :: "Request \<Rightarrow> audit_Entry \<Rightarrow> bool" where
  "own_entry req e \<longleftrightarrow> Entry_UserID e = map_option User_ID (Request_user req)
     \<and> Entry_Email e = (case Request_user req of None \<Rightarrow> '''' | Some user \<Rightarrow> User_Email user)
     \<and> Entry_IP e = Request_ip req"

definition denials_counted :: "metrics_Config \<Rightarrow> audit_Entry list \<Rightarrow> prom_call list" where
  "denials_counted config es =
     map (\<lambda>e. Inc (metric_name config ''admin_denied_total'') [Entry_Action e]) (filter is_denial es)"

definition with_audits :: "Request \<Rightarrow> audit_Entry list \<Rightarrow> Request" where
  "with_audits req es = req\<lparr>Request_audits := Request_audits req @ es\<rparr>"

lemma with_audits_simps [simp]:
  "Request_Env (with_audits req es) = Request_Env req"
  "Request_user (with_audits req es) = Request_user req"
  "Request_isAdmin (with_audits req es) = Request_isAdmin req"
  "Request_ip (with_audits req es) = Request_ip req"
  "admin_entry action (with_audits req es) = admin_entry action req"
  "(with_audits req es)\<lparr>Request_audits := Request_audits (with_audits req es) @ [e]\<rparr>
     = with_audits req (es @ [e])"
  by (simp_all add: with_audits_def admin_entry_def)

definition denied_inv :: "nat \<Rightarrow> Request \<Rightarrow> World \<Rightarrow> World \<Rightarrow> bool" where
  "denied_inv n req w0 w \<longleftrightarrow>
     (\<exists>es. w\<lparr>w_log := []\<rparr> = w0\<lparr>w_requests := (w_requests w0)(n \<mapsto> with_audits req es),
         w_prom := w_prom w0 @ denials_counted (app_metrics (Request_Env req)) es, w_log := []\<rparr>
       \<and> (\<forall>e \<in> set es. own_entry req e \<and> (is_denial e \<or> Entry_Action e = ActionSignOut)))"

lemma denied_inv_blind: "log_blind (denied_inv n req w0)"
  by (simp add: log_blind_def denied_inv_def)

lemma denied_invE:
  assumes "denied_inv n req w0 w"
  obtains es lines where
    "w = w0\<lparr>w_requests := (w_requests w0)(n \<mapsto> with_audits req es),
       w_prom := w_prom w0 @ denials_counted (app_metrics (Request_Env req)) es, w_log := lines\<rparr>"
    "\<forall>e \<in> set es. own_entry req e \<and> (is_denial e \<or> Entry_Action e = ActionSignOut)"
proof -
  from assms obtain es where es: "w\<lparr>w_log := []\<rparr> = w0\<lparr>w_requests := (w_requests w0)(n \<mapsto> with_audits req es),
         w_prom := w_prom w0 @ denials_counted (app_metrics (Request_Env req)) es, w_log := []\<rparr>"
      "\<forall>e \<in> set es. own_entry req e \<and> (is_denial e \<or> Entry_Action e = ActionSignOut)"
    unfolding denied_inv_def by blast
  have "w = (w\<lparr>w_log := []\<rparr>)\<lparr>w_log := w_log w\<rparr>" by simp
  also note es(1)
  finally show thesis using that [of "w_log w" es] es(2) by simp
qed

lemma denied_invI:
  assumes "w = w0\<lparr>w_requests := (w_requests w0)(n \<mapsto> with_audits req es),
       w_prom := w_prom w0 @ denials_counted (app_metrics (Request_Env req)) es, w_log := lines\<rparr>"
    "\<forall>e \<in> set es. own_entry req e \<and> (is_denial e \<or> Entry_Action e = ActionSignOut)"
  shows "denied_inv n req w0 w"
  unfolding denied_inv_def using assms by (intro exI [of _ es]) simp

text \<open>The boundary refuses, and its entry and its count keep the invariant.\<close>

lemma denied_checkAdmin:
  assumes ctx: "ctx_request (g_ctx g) = Some n"
    and denied: "\<not> (Request_isAdmin req \<and> Request_user req \<noteq> None)"
    and inv: "denied_inv n req w0 w"
    and check: "run (checkAdmin G r g op) w = (answer, w')"
  shows "denied_inv n req w0 w' \<and> answer \<noteq> None"
proof -
  obtain es lines where w: "w = w0\<lparr>w_requests := (w_requests w0)(n \<mapsto> with_audits req es),
       w_prom := w_prom w0 @ denials_counted (app_metrics (Request_Env req)) es, w_log := lines\<rparr>"
    and es: "\<forall>e \<in> set es. own_entry req e \<and> (is_denial e \<or> Entry_Action e = ActionSignOut)"
    using inv by (rule denied_invE)
  let ?action = "PrefixDenied @ adminAction G g op"
  let ?e = "(admin_entry (adminAction G g op) req)\<lparr>Entry_Action := ?action, Entry_Detail := auditVariables g\<rparr>"
  have e: "own_entry req ?e" "is_denial ?e"
    by (simp_all add: own_entry_def is_denial_def admin_entry_def HasPrefix_def Let_def split: option.splits)
  have request: "w_requests w n = Some (with_audits req es)" by (simp add: w)
  have "answer = Some (Sentinel ErrNotAdmin)"
    and w': "w' = w0\<lparr>w_requests := (w_requests w0)(n \<mapsto> with_audits req (es @ [?e])),
       w_prom := w_prom w0 @ denials_counted (app_metrics (Request_Env req)) (es @ [?e]), w_log := lines\<rparr>"
    using checkAdmin_run [OF ctx request, of G r op] check denied e(2)
    by (auto simp: Let_def w denials_counted_def split: if_splits)
  moreover have "denied_inv n req w0 w'"
    by (rule denied_invI [OF w']) (use es e in auto)
  ultimately show ?thesis by simp
qed

lemma keeps_world_reads: "(\<And>w. I w \<Longrightarrow> \<exists>x. run m w = (x, w)) \<Longrightarrow> keeps_world I m"
  by (fastforce simp: keeps_world_def)

lemma viewer_reads:
  "\<exists>x. run (Viewer_User r g) w = (x, w)" "\<exists>x. run (Viewer_Role g) w = (x, w)" if
  "ctx_request (g_ctx g) = Some n" "w_requests w n = Some req"
  using that
  by (auto simp: Viewer_User_def Viewer_Role_def resolver_env_def FromCtx_def graph_env_def
      CurrentUser_def split: option.splits)

lemma denied_viewer:
  assumes "ctx_request c = Some n"
  shows "viewer_keeps (denied_inv n req w0) r c"
  unfolding viewer_keeps_def
proof (intro allI impI conjI keeps_world_reads)
  fix g :: gctx and w assume g: "g_ctx g = c" and inv: "denied_inv n req w0 w"
  have request: "\<exists>req. w_requests w n = Some req" using inv by (auto elim!: denied_invE)
  show "\<exists>x. run (Viewer_User r g) w = (x, w)" "\<exists>x. run (Viewer_Role g) w = (x, w)"
    using viewer_reads g assms request by blast+
qed

lemma denied_SignOut:
  assumes ctx: "ctx_request (g_ctx g) = Some n"
  shows "keeps_world (denied_inv n req w0) (Mutation_SignOut r g)"
  unfolding keeps_world_def
proof (intro allI impI)
  fix w assume inv: "denied_inv n req w0 w"
  obtain es lines where w: "w = w0\<lparr>w_requests := (w_requests w0)(n \<mapsto> with_audits req es),
       w_prom := w_prom w0 @ denials_counted (app_metrics (Request_Env req)) es, w_log := lines\<rparr>"
    and es: "\<forall>e \<in> set es. own_entry req e \<and> (is_denial e \<or> Entry_Action e = ActionSignOut)"
    using inv by (rule denied_invE)
  have request: "w_requests w n = Some (with_audits req es)" by (simp add: w)
  show "denied_inv n req w0 (snd (run (Mutation_SignOut r g) w))"
  proof (cases "Request_user req")
    case None
    have "snd (run (Mutation_SignOut r g) w) = w"
      using ctx request None
      by (simp add: Mutation_SignOut_def resolver_env_def FromCtx_def graph_env_def RecordSignOut_def)
    with inv show ?thesis by simp
  next
    case (Some user)
    let ?e = "sign_entry (User_ID user) (User_Email user) ActionSignOut (Request_ip req)"
    have e: "own_entry req ?e" "\<not> is_denial ?e" "Entry_Action ?e = ActionSignOut"
      by (simp_all add: own_entry_def sign_entry_def Some is_denial_def HasPrefix_def ActionSignOut_def
          PrefixDenied_def)
    have "snd (run (Mutation_SignOut r g) w) = w\<lparr>w_requests := (w_requests w)(n \<mapsto> with_audits req (es @ [?e]))\<rparr>"
      using ctx request Some
      by (simp add: Mutation_SignOut_def resolver_env_def FromCtx_def graph_env_def RecordSignOut_def
          WriteAudit_def AddAudit_def change_request_def)
    also have "\<dots> = w0\<lparr>w_requests := (w_requests w0)(n \<mapsto> with_audits req (es @ [?e])),
       w_prom := w_prom w0 @ denials_counted (app_metrics (Request_Env req)) (es @ [?e]), w_log := lines\<rparr>"
      using e(2) by (simp add: w denials_counted_def)
    finally show ?thesis by (rule denied_invI) (use es e in auto)
  qed
qed

lemma denied_admits:
  assumes ctx: "ctx_request (g_ctx g) = Some n"
    and denied: "\<not> (Request_isAdmin req \<and> Request_user req \<noteq> None)"
  shows "admits (denied_inv n req w0) (Mutation_Admin G r g) (\<lambda>_. False)"
    and "admits (denied_inv n req w0) (Query_Admin G r g) (\<lambda>_. False)"
  by (auto simp: admits_def Mutation_Admin_def Query_Admin_def split: prod.splits option.splits
      dest: denied_checkAdmin [OF ctx denied])

lemma denied_Exec:
  assumes doc: "runtime_documented (ec_runtime ec)"
    and ctx: "ctx_request (g_ctx ctx) = Some n"
    and denied: "\<not> (Request_isAdmin req \<and> Request_user req \<noteq> None)"
  shows "keeps (denied_inv n req w0) (Exec ec ctx0 ctx)"
proof -
  let ?I = "denied_inv n req w0"
  have rt: "upholds (ec_runtime ec) ?I" "upholds (ec_runtime ec) (\<lambda>w. ?I w \<and> False)"
    using doc denied_inv_blind by (auto simp: runtime_documented_def log_blind_def)
  have never: "log_blind (\<lambda>_. False)" by (simp add: log_blind_def)
  have none: "admin_query_keeps (\<lambda>w. ?I w \<and> False) r c" "admin_mutation_keeps (\<lambda>w. ?I w \<and> False) r c" for r c
    by (simp_all add: admin_query_keeps_def admin_mutation_keeps_def keeps_world_def)
  show ?thesis
  proof (rule keeps_Exec [OF rt(1)])
    fix sel and ctx' :: ectx assume g: "g_ctx ctx' = g_ctx ctx"
    show "keeps ?I (exec_Query ec ctx' sel)"
      using denied_viewer ctx g
      by (auto intro!: keeps_exec_Query [OF rt(1)] keeps_exec_Query_viewer [OF rt(1)]
          keeps_exec_Query_admin [OF rt never] denied_admits denied none)
    show "keeps ?I (exec_Mutation ec ctx' sel)"
      using ctx g
      by (auto intro!: keeps_exec_Mutation [OF rt(1)] keeps_exec_Mutation_signOut [OF rt(1)]
          keeps_exec_Mutation_admin [OF rt never] denied_admits denied_SignOut denied none)
  qed
qed

text \<open>
  C12. Whatever the document: an operation of a request without admin rights runs no statement and
  leaves the world as it is, but for the entries it puts in the request's own audit buffer, one
  count for each refusal among them, and log lines. Each entry is in the name and with the address
  of the request, and is a refusal or a sign-out.
\<close>

theorem denied_operation:
  assumes "runtime_documented (ec_runtime ec)"
    and "ctx_request (g_ctx ctx) = Some n" "w_requests (ex_World s) n = Some req"
    and "\<not> (Request_isAdmin req \<and> Request_user req \<noteq> None)"
    and "run (Exec ec ctx0 ctx) s = (r, s')"
  shows "\<exists>es lines. ex_World s' = (ex_World s)
      \<lparr>w_requests := (w_requests (ex_World s))(n \<mapsto> req\<lparr>Request_audits := Request_audits req @ es\<rparr>),
       w_prom := w_prom (ex_World s) @ denials_counted (app_metrics (Request_Env req)) es,
       w_log := lines\<rparr>
    \<and> (\<forall>e \<in> set es. own_entry req e \<and> (is_denial e \<or> Entry_Action e = ActionSignOut))"
proof -
  let ?w = "ex_World s"
  have start: "denied_inv n req ?w ?w"
    by (rule denied_invI [where es = "[]" and lines = "w_log ?w"])
      (simp_all add: denials_counted_def with_audits_def assms(3) fun_upd_idem)
  have "denied_inv n req ?w (ex_World s')"
    by (rule leadsD [OF denied_Exec [OF assms(1,2,4)] start assms(5)])
  then show ?thesis by (elim denied_invE) (auto simp: with_audits_def)
qed

section \<open>A change has its entry\<close>

lemma calls_refl: "\<exists>k. w = w\<lparr>w_calls := k\<rparr>" for w :: World
  by (intro exI [of _ "w_calls w"]) simp

interpretation reading: state_preorder "\<lambda>(w :: World) w'. \<exists>k. w' = w\<lparr>w_calls := k\<rparr>"
  by unfold_locales (rule calls_refl, auto)

lemma reading_read: "reading.evolves (read_on ReadPool f)"
  by (rule reading.evolvesI) (auto simp: read_on_def driver_call_def split: option.splits)

lemma reading_row: "reading.evolves (QueryRow ReadPool f)"
  unfolding QueryRow_def by (intro reading.evolves_rules reading_read)

definition traced :: "operation \<Rightarrow> Request \<Rightarrow> audit_Entry list \<Rightarrow> bool" where
  "traced oper req es \<longleftrightarrow> oper = Mutation \<and> Request_isAdmin req \<and> Request_user req \<noteq> None
     \<and> (\<exists>e \<in> set es. own_entry req e \<and> HasPrefix (Entry_Action e) ''mutation'')"

definition trace_there :: "operation \<Rightarrow> nat \<Rightarrow> Request \<Rightarrow> World \<Rightarrow> World \<Rightarrow> bool" where
  "trace_there oper n req w0 w \<longleftrightarrow>
     (\<exists>es. w_requests w = (w_requests w0)(n \<mapsto> with_audits req es) \<and> traced oper req es)"

definition traced_inv :: "operation \<Rightarrow> nat \<Rightarrow> Request \<Rightarrow> World \<Rightarrow> World \<Rightarrow> bool" where
  "traced_inv oper n req w0 w \<longleftrightarrow>
     (\<exists>es. w_requests w = (w_requests w0)(n \<mapsto> with_audits req es)
        \<and> w_tx w = None \<and> wf_db (w_committed w) \<and> w_stalls w = w_stalls w0
        \<and> w_faults w = w_faults w0 \<and> (w_committed w = w_committed w0 \<or> traced oper req es))"

lemma traced_blind: "log_blind (traced_inv oper n req w0)" "log_blind (trace_there oper n req w0)"
  by (simp_all add: log_blind_def traced_inv_def trace_there_def)

lemma traced_reading:
  "traced_inv oper n req w0 (w\<lparr>w_calls := k\<rparr>) = traced_inv oper n req w0 w"
  "trace_there oper n req w0 (w\<lparr>w_calls := k\<rparr>) = trace_there oper n req w0 w"
  by (simp_all add: traced_inv_def trace_there_def)

text \<open>A command that runs once the entry is there.\<close>

lemma with_audits_inject [simp]: "with_audits req es = with_audits req es' \<longleftrightarrow> es = es'"
proof
  assume "with_audits req es = with_audits req es'"
  then have "Request_audits (with_audits req es) = Request_audits (with_audits req es')" by simp
  then show "es = es'" by (simp add: with_audits_def)
qed simp

lemma at_rest_faults: "at_rest w w' \<Longrightarrow> w_faults w' = w_faults w"
  by (simp add: at_rest_def same_frame_def)

lemma traced_command:
  assumes "traced_inv oper n req w0 w \<and> trace_there oper n req w0 w" and "at_rest w w'"
  shows "traced_inv oper n req w0 w' \<and> trace_there oper n req w0 w'"
  using assms at_restD [OF assms(2)] at_rest_faults [OF assms(2)]
  by (auto simp: traced_inv_def trace_there_def dest: fun_upd_eqD)

lemma traced_idle:
  assumes "traced_inv oper n req w0 w" and "ctx_request c = Some n" "ctx_txEnv c = None"
    and "base_app (Request_Env req)"
  shows "idle (Request_Env req) c w"
  using assms
  by (auto simp: traced_inv_def idle_def open_env_def txEnvFromCtx_def FromCtx_def base_app_def)

lemma run_resolver_env:
  "ctx_request (g_ctx g) = Some n \<Longrightarrow> w_requests w n = Some req \<Longrightarrow>
   run (resolver_env r g) w = (graph_env (Request_Env req), w)"
  by (simp add: resolver_env_def FromCtx_def)

lemma reading_fields:
  assumes "base_app a"
  shows "reading.evolves (DBCountUsers (app_Queries a))" "reading.evolves (DBListUsers (app_Queries a))"
    "reading.evolves (DBCountAdmins (app_Queries a))" "reading.evolves (DBListAdmins (app_Queries a))"
    "reading.evolves (DBGetAdminUserByID (app_Queries a) uid)"
    "reading.evolves (ListAuditLog a ctx limit before)"
  using assms
  by (auto simp: base_app_def DBCountUsers_def DBListUsers_def DBCountAdmins_def DBListAdmins_def
      DBGetAdminUserByID_def ListAuditLog_def listauditlog_Resolve_def listauditlog_env_def
      DBListAuditLog_def DBCountAuditLog_def Let_def
      intro!: reading_read reading_row reading.evolves_rules)

text \<open>A resolver is what it does in the environment of its request.\<close>

lemma run_with_env:
  assumes "ctx_request (g_ctx g) = Some n" "w_requests w n = Some req"
  shows "run (do { env \<leftarrow> resolver_env r g; f env }) w = run (f (graph_env (Request_Env req))) w"
  using run_resolver_env [OF assms] by simp

lemma keeps_world_env:
  assumes "ctx_request (g_ctx g) = Some n" and "\<And>w. I w \<Longrightarrow> \<exists>es. w_requests w n = Some (with_audits req es)"
    and "\<And>w. I w \<Longrightarrow> I (snd (run (f (graph_env (Request_Env req))) w))"
  shows "keeps_world I (do { env \<leftarrow> resolver_env r g; f env })"
  unfolding keeps_world_def
proof (intro allI impI)
  fix w assume w: "I w"
  then obtain es where "w_requests w n = Some (with_audits req es)" using assms(2) by blast
  then have "run (do { env \<leftarrow> resolver_env r g; f env }) w = run (f (graph_env (Request_Env req))) w"
    using run_with_env [OF assms(1)] by (metis with_audits_simps(1))
  with assms(3) [OF w] show "I (snd (run (do { env \<leftarrow> resolver_env r g; f env }) w))" by (simp only:)
qed

lemma keeps_world_reading:
  assumes "\<And>w k. I (w\<lparr>w_calls := k\<rparr>) = I w" and "reading.evolves m" and "I w"
  shows "I (snd (run m w))"
  using assms reading.evolvesD [OF assms(2), of w] by auto

lemma reading_error:
  "reading.evolves m \<Longrightarrow> reading.evolves (do { r \<leftarrow> m; case r of Inl e \<Rightarrow> ret (f e) | Inr x \<Rightarrow> ret (g x) })"
  by (intro reading.evolves_rules)

lemma traced_admin_query:
  fixes oper :: operation and n :: nat and req :: Request and w0 :: World
  assumes "ctx_request c = Some n" and base: "base_app (Request_Env req)"
  defines "I \<equiv> \<lambda>w. traced_inv oper n req w0 w \<and> True"
  shows "admin_query_keeps I r c"
proof -
  have blind: "I (w\<lparr>w_calls := k\<rparr>) = I w" for w k by (simp add: I_def traced_reading)
  have request: "\<exists>es. w_requests w n = Some (with_audits req es)" if "I w" for w
    using that by (auto simp: I_def traced_inv_def)
  note step = keeps_world_reading [where I = I, OF blind]
  show ?thesis
    unfolding admin_query_keeps_def UsersConnection_TotalCountField_def UsersConnection_NodesField_def
      AdminsConnection_TotalCountField_def AdminsConnection_NodesField_def AdminQuery_User_def
      AdminQuery_AuditLog_def AdminQuery_BuildGitCommit_def
    using assms(1)
    by (auto intro!: keeps_world_env [where I = I, OF _ request] step reading_fields [OF base]
        reading.evolves_rules simp: graph_env_def)
qed

lemma commands_rest:
  assumes "idle a ctx w"
  shows "at_rest w (snd (run (BanUser a ctx i1) w))" "at_rest w (snd (run (UnbanUser a ctx i2) w))"
    "at_rest w (snd (run (MakeAdmin a ctx i3) w))" "at_rest w (snd (run (RemoveAdmin a ctx i4) w))"
proof -
  note start = idleD(1) [OF assms] and none = idleD(2) [OF assms]
  show "at_rest w (snd (run (BanUser a ctx i1) w))"
    by (rule pool.wpD(1) [OF BanUser_wp [OF none] start surjective_pairing])
  show "at_rest w (snd (run (UnbanUser a ctx i2) w))"
    by (rule pool.wpD(1) [OF UnbanUser_wp [OF none] start surjective_pairing])
  show "at_rest w (snd (run (MakeAdmin a ctx i3) w))"
    by (rule pool.wpD(1) [OF MakeAdmin_wp [OF none] start surjective_pairing])
  show "at_rest w (snd (run (RemoveAdmin a ctx i4) w))"
    by (rule pool.wpD(1) [OF RemoveAdmin_wp [OF none] start surjective_pairing])
qed

lemma traced_admin_mutation:
  fixes oper :: operation and n :: nat and req :: Request and w0 :: World
  assumes "ctx_request c = Some n" "ctx_txEnv c = None" and base: "base_app (Request_Env req)"
  defines "I \<equiv> \<lambda>w. traced_inv oper n req w0 w \<and> trace_there oper n req w0 w"
  shows "admin_mutation_keeps I r c"
proof -
  let ?a = "Request_Env req"
  have request: "\<exists>es. w_requests w n = Some (with_audits req es)" if "I w" for w
    using that by (auto simp: I_def traced_inv_def)
  have step: "I (snd (run m w))" if w: "I w" and rest: "idle ?a c w \<Longrightarrow> at_rest w (snd (run m w))"
    for m :: "'b act" and w
  proof -
    have "traced_inv oper n req w0 w" using w unfolding I_def by (rule conjunct1)
    note rest [OF traced_idle [OF this assms(1,2) base]]
    with w [unfolded I_def] show ?thesis unfolding I_def by (rule traced_command)
  qed
  have command: "keeps_world I (do { env \<leftarrow> resolver_env r g; f env })"
    if "g_ctx g = c" and "\<And>w. idle ?a c w \<Longrightarrow> at_rest w (snd (run (f (graph_env ?a)) w))"
    for g :: gctx and f :: "app_Env \<Rightarrow> 'b act"
  proof (rule keeps_world_env [where I = I and n = n and req = req])
    show "ctx_request (g_ctx g) = Some n" using that(1) assms(1) by simp
    show "\<exists>es. w_requests w n = Some (with_audits req es)" if "I w" for w using that by (rule request)
    show "I (snd (run (f (graph_env ?a)) w))" if "I w" for w using that \<open>\<And>w. idle ?a c w \<Longrightarrow> _\<close> by (rule step)
  qed
  show ?thesis
    unfolding admin_mutation_keeps_def AdminMutation_BanUser_def AdminMutation_UnbanUser_def
      AdminMutation_MakeAdmin_def AdminMutation_RemoveAdmin_def
    by (intro allI impI conjI command) (simp_all add: graph_env_def commands_rest)
qed

text \<open>The boundary: what it lets through as a mutation has its entry.\<close>

lemma adminAction_mutation: "HasPrefix (adminAction G g Mutation) ''mutation''"
  by (simp add: adminAction_def Let_def HasPrefix_def)

lemma traced_invE:
  assumes "traced_inv oper n req w0 w"
  obtains es where "w_requests w = (w_requests w0)(n \<mapsto> with_audits req es)" "w_tx w = None"
    "wf_db (w_committed w)" "w_stalls w = w_stalls w0" "w_faults w = w_faults w0"
    "w_committed w = w_committed w0 \<or> traced oper req es"
  using assms unfolding traced_inv_def by blast

lemma traced_more: "traced oper req es \<Longrightarrow> traced oper req (es @ fs)"
  by (auto simp: traced_def)

lemma traced_inv_entry:
  assumes "traced_inv oper n req w0 w"
    and "w_requests w' = (w_requests w)(n := map_option (\<lambda>r. r\<lparr>Request_audits := Request_audits r @ [e]\<rparr>) (w_requests w n))"
    and "w_tx w' = w_tx w" "w_committed w' = w_committed w" "w_stalls w' = w_stalls w"
      "w_faults w' = w_faults w"
  shows "traced_inv oper n req w0 w'"
proof -
  obtain es where es: "w_requests w = (w_requests w0)(n \<mapsto> with_audits req es)" "w_tx w = None"
    "wf_db (w_committed w)" "w_stalls w = w_stalls w0" "w_faults w = w_faults w0"
    "w_committed w = w_committed w0 \<or> traced oper req es"
    using assms(1) by (rule traced_invE)
  then show ?thesis
    unfolding traced_inv_def using assms(2-) traced_more [of oper req es "[e]"]
    by (intro exI [of _ "es @ [e]"]) auto
qed

lemma traced_checkAdmin:
  assumes ctx: "ctx_request (g_ctx g) = Some n" and inv: "traced_inv oper n req w0 w"
    and check: "run (checkAdmin G r g oper) w = (answer, w')"
  shows "traced_inv oper n req w0 w' \<and>
    (oper = Mutation \<and> answer = None \<longrightarrow> trace_there oper n req w0 w')"
proof -
  obtain es where es: "w_requests w = (w_requests w0)(n \<mapsto> with_audits req es)"
    using inv by (rule traced_invE)
  have request: "w_requests w n = Some (with_audits req es)" by (simp add: es)
  let ?name = "adminAction G g oper"
  let ?admitted = "Request_isAdmin req \<and> Request_user req \<noteq> None"
  let ?e = "(admin_entry ?name req)\<lparr>Entry_Action := (if ?admitted then ?name else PrefixDenied @ ?name),
     Entry_Detail := auditVariables g\<rparr>"
  have e: "own_entry req ?e" by (simp add: own_entry_def admin_entry_def Let_def split: option.splits)
  note exact = checkAdmin_run [OF ctx request, of G r oper]
  have kept: "traced_inv oper n req w0 w'"
  proof (cases "?admitted \<and> oper \<noteq> Mutation")
    case True
    with exact check inv show ?thesis by (simp add: Let_def)
  next
    case False
    with exact check have "w_requests w' = (w_requests w)(n \<mapsto> with_audits req (es @ [?e]))"
      "w_tx w' = w_tx w" "w_committed w' = w_committed w" "w_stalls w' = w_stalls w"
      "w_faults w' = w_faults w"
      by (auto simp: Let_def split: if_splits)
    with request show ?thesis
      by (intro traced_inv_entry [OF inv, of w' ?e]) simp_all
  qed
  have "trace_there oper n req w0 w'" if m: "oper = Mutation" and "answer = None"
  proof -
    have a: "?admitted" using exact check that by (auto simp: Let_def split: if_splits)
    with exact check m have "w_requests w' = (w_requests w0)(n \<mapsto> with_audits req (es @ [?e]))"
      by (auto simp: Let_def es)
    moreover have "traced oper req (es @ [?e])"
      using a m e adminAction_mutation [of G g] by (auto simp: traced_def)
    ultimately show ?thesis unfolding trace_there_def by blast
  qed
  with kept show ?thesis by blast
qed

lemma traced_admits:
  assumes "ctx_request (g_ctx g) = Some n"
  shows "admits (traced_inv Mutation n req w0) (Mutation_Admin G r g) (trace_there Mutation n req w0)"
    and "admits (traced_inv Query n req w0) (Query_Admin G r g) (\<lambda>_. True)"
  by (auto simp: admits_def Mutation_Admin_def Query_Admin_def split: prod.splits option.splits
      dest: traced_checkAdmin [OF assms])

lemma traced_viewer:
  assumes "ctx_request c = Some n"
  shows "viewer_keeps (traced_inv oper n req w0) r c"
  unfolding viewer_keeps_def
proof (intro allI impI conjI keeps_world_reads)
  fix g :: gctx and w assume g: "g_ctx g = c" and inv: "traced_inv oper n req w0 w"
  have request: "\<exists>req. w_requests w n = Some req" using inv by (auto elim!: traced_invE)
  show "\<exists>x. run (Viewer_User r g) w = (x, w)" "\<exists>x. run (Viewer_Role g) w = (x, w)"
    using viewer_reads g assms request by blast+
qed

lemma traced_SignOut:
  assumes ctx: "ctx_request (g_ctx g) = Some n"
  shows "keeps_world (traced_inv oper n req w0) (Mutation_SignOut r g)"
  unfolding keeps_world_def
proof (intro allI impI)
  fix w assume inv: "traced_inv oper n req w0 w"
  obtain es where es: "w_requests w = (w_requests w0)(n \<mapsto> with_audits req es)"
    using inv by (rule traced_invE)
  have request: "w_requests w n = Some (with_audits req es)" by (simp add: es)
  show "traced_inv oper n req w0 (snd (run (Mutation_SignOut r g) w))"
  proof (cases "Request_user req")
    case None
    with ctx request inv show ?thesis
      by (simp add: Mutation_SignOut_def resolver_env_def FromCtx_def graph_env_def RecordSignOut_def)
  next
    case (Some user)
    let ?e = "sign_entry (User_ID user) (User_Email user) ActionSignOut (Request_ip req)"
    have "snd (run (Mutation_SignOut r g) w) = w\<lparr>w_requests := (w_requests w)(n \<mapsto> with_audits req (es @ [?e]))\<rparr>"
      using ctx request Some
      by (simp add: Mutation_SignOut_def resolver_env_def FromCtx_def graph_env_def RecordSignOut_def
          WriteAudit_def AddAudit_def change_request_def)
    then show ?thesis
      using request by (intro traced_inv_entry [OF inv, of _ ?e]) simp_all
  qed
qed

text \<open>A mutation can leave a trace and a change, any other operation neither.\<close>

definition effect_of :: "'g executionContext \<Rightarrow> operation" where
  "effect_of ec = (case oc_Operation (ec_OperationContext ec) of Some (Mutation, sel) \<Rightarrow> Mutation | _ \<Rightarrow> Query)"

lemma traced_Exec:
  assumes doc: "runtime_documented (ec_runtime ec)"
    and ctx: "ctx_request (g_ctx ctx) = Some n" "ctx_txEnv (g_ctx ctx) = None"
    and base: "base_app (Request_Env req)"
  shows "keeps (traced_inv (effect_of ec) n req w0) (Exec ec ctx0 ctx)"
proof -
  define oper where "oper = effect_of ec"
  let ?I = "traced_inv oper n req w0"
  have rt: "upholds (ec_runtime ec) ?I" "upholds (ec_runtime ec) (\<lambda>w. ?I w \<and> True)"
      "upholds (ec_runtime ec) (\<lambda>w. ?I w \<and> trace_there oper n req w0 w)"
    using doc traced_blind [of oper n req w0] by (auto simp: runtime_documented_def log_blind_def)
  have blind: "log_blind (\<lambda>_. True)" by (simp add: log_blind_def)
  show ?thesis
    unfolding oper_def [symmetric]
  proof (rule keeps_Exec [OF rt(1)])
    fix sel and ctx' :: ectx
    assume g: "g_ctx ctx' = g_ctx ctx"
      and op: "oc_Operation (ec_OperationContext ec) = Some (Query, sel)"
    have q: "oper = Query" using op by (simp add: oper_def effect_of_def)
    show "keeps ?I (exec_Query ec ctx' sel)"
      using traced_viewer traced_admin_query [OF ctx(1) base] ctx g
      by (auto intro!: keeps_exec_Query [OF rt(1)] keeps_exec_Query_viewer [OF rt(1)]
          keeps_exec_Query_admin [OF rt(1,2) blind] traced_admits(2) [folded q])
  next
    fix sel and ctx' :: ectx
    assume g: "g_ctx ctx' = g_ctx ctx"
      and op: "oc_Operation (ec_OperationContext ec) = Some (Mutation, sel)"
    have m: "oper = Mutation" using op by (simp add: oper_def effect_of_def)
    show "keeps ?I (exec_Mutation ec ctx' sel)"
      using traced_admin_mutation [OF ctx base] ctx g
      by (auto intro!: keeps_exec_Mutation [OF rt(1)] keeps_exec_Mutation_signOut [OF rt(1)]
          keeps_exec_Mutation_admin [OF rt(1,3) traced_blind(2)] traced_admits(1) [folded m] traced_SignOut)
  qed
qed

text \<open>
  C13. Whatever the document, and whatever fails in the driver: an operation leaves no transaction
  open, keeps the schema's constraints, never waits for the write connection, and touches no other
  request. When it has changed the database it was a mutation of an admin, and the request's audit
  buffer holds an entry of the admin for it.
\<close>

theorem operation_leaves_trace:
  assumes "runtime_documented (ec_runtime ec)"
    and "ctx_request (g_ctx ctx) = Some n" "ctx_txEnv (g_ctx ctx) = None"
    and "w_requests (ex_World s) n = Some req" "base_app (Request_Env req)"
    and "w_tx (ex_World s) = None" "wf_db (w_committed (ex_World s))"
    and "run (Exec ec ctx0 ctx) s = (r, s')"
  shows "\<exists>es. w_requests (ex_World s')
        = (w_requests (ex_World s))(n \<mapsto> req\<lparr>Request_audits := Request_audits req @ es\<rparr>)
    \<and> w_tx (ex_World s') = None \<and> wf_db (w_committed (ex_World s'))
    \<and> w_stalls (ex_World s') = w_stalls (ex_World s)
    \<and> (w_committed (ex_World s') \<noteq> w_committed (ex_World s) \<longrightarrow>
        (\<exists>sel. oc_Operation (ec_OperationContext ec) = Some (Mutation, sel))
        \<and> Request_isAdmin req \<and> Request_user req \<noteq> None
        \<and> (\<exists>e \<in> set es. own_entry req e \<and> HasPrefix (Entry_Action e) ''mutation''))"
proof -
  let ?w = "ex_World s"
  have start: "traced_inv (effect_of ec) n req ?w ?w"
    unfolding traced_inv_def
    by (intro exI [of _ "[]"]) (simp add: with_audits_def assms(4,6,7) fun_upd_idem)
  have "traced_inv (effect_of ec) n req ?w (ex_World s')"
    by (rule leadsD [OF traced_Exec [OF assms(1,2,3,5)] start assms(8)])
  then show ?thesis
    by (elim traced_invE)
      (auto simp: with_audits_def traced_def effect_of_def split: option.splits prod.splits operation.splits)
qed

end
