(* ===== verification/ExecDemo.thy ===== *)
theory ExecDemo
  imports ExecProps
begin

text \<open>
  A runtime that behaves as documented, one field after the other, and three operations on the
  small installation of theory Demo, on which the properties of operations are evaluated.
\<close>

section \<open>A sequential runtime\<close>

definition demo_Error :: "ectx \<Rightarrow> graph_error \<Rightarrow> (unit, unit) ex" where
  "demo_Error ctx err = on_world (log_at Error ''resolver failed'' [])"

definition demo_WithFieldContext :: "FieldContext \<Rightarrow> ectx \<Rightarrow> ectx" where
  "demo_WithFieldContext fc ctx = ctx\<lparr>g_field := fc_Field fc, ctx_Args := fc_Args fc\<rparr>"

definition demo_ResolveField ::
  "ectx \<Rightarrow> OperationContext \<Rightarrow> CollectedField \<Rightarrow> (ectx \<Rightarrow> CollectedField \<Rightarrow> unit field_context) \<Rightarrow>
   (ectx \<Rightarrow> (unit, graph_error + any) px) \<Rightarrow> (ectx \<Rightarrow> Selection list \<Rightarrow> any \<Rightarrow> (unit, Marshaler) px) \<Rightarrow>
   bool \<Rightarrow> bool \<Rightarrow> (unit, Marshaler) px" where
  "demo_ResolveField ctx oc field fctx resolver marshal recovers nonnull = do {
     fc \<leftarrow> fctx ctx field;
     case fc of
       (Some fc, None) \<Rightarrow> do {
         let ctx = demo_WithFieldContext fc ctx;
         r \<leftarrow> resolver ctx;
         case r of
           Inl p \<Rightarrow> ret (Inr Null)
         | Inr (Inl err) \<Rightarrow> do { demo_Error ctx err; ret (Inr Null) }
         | Inr (Inr v) \<Rightarrow> do {
             m \<leftarrow> marshal ctx (field_Selections field) v;
             ret (Inr (case m of Inl p \<Rightarrow> Null | Inr m \<Rightarrow> m))
           }
       }
     | _ \<Rightarrow> ret (Inr Null)
   }"

fun demo_run_delayed ::
  "ectx \<Rightarrow> Marshaler list \<Rightarrow> (nat \<times> (ectx \<Rightarrow> (unit, Marshaler) px)) list \<Rightarrow> (unit, Marshaler list) px" where
  "demo_run_delayed ctx values [] = ret (Inr values)"
| "demo_run_delayed ctx values ((i, f) # delayed) =
     and_then (f ctx) (\<lambda>v. demo_run_delayed ctx (values[i := v]) delayed)"

fun demo_each :: "(nat \<Rightarrow> (unit, Marshaler) px) \<Rightarrow> nat list \<Rightarrow> (unit, Marshaler list) px" where
  "demo_each f [] = ret (Inr [])"
| "demo_each f (i # ks) = and_then (f i) (\<lambda>v. and_then (demo_each f ks) (\<lambda>vs. ret (Inr (v # vs))))"

text \<open>A schema of one type, \<open>type Node { next: Node }\<close>.\<close>

definition demo_introspection :: introspection where
  "demo_introspection =
     \<lparr>Schema_Description = (\<lambda>s. None), Schema_Types = (\<lambda>s. Some [Type_ref 0]),
      Schema_QueryType = (\<lambda>s. Some (Type_ref 0)), Schema_MutationType = (\<lambda>s. None),
      Schema_SubscriptionType = (\<lambda>s. None), Schema_Directives = (\<lambda>s. None),
      Directive_Name = (\<lambda>d. ''''), Directive_Description = (\<lambda>d. None),
      Directive_IsRepeatable = (\<lambda>d. False), Directive_Locations = (\<lambda>d. None),
      Directive_Args = (\<lambda>d. None), EnumValue_Name = (\<lambda>e. ''''),
      EnumValue_Description = (\<lambda>e. None), EnumValue_IsDeprecated = (\<lambda>e. False),
      EnumValue_DeprecationReason = (\<lambda>e. None), Field_Name = (\<lambda>f. ''next''),
      Field_Description = (\<lambda>f. None), Field_Args = (\<lambda>f. None),
      Field_Type = (\<lambda>f. Some (Type_ref 0)), Field_IsDeprecated = (\<lambda>f. False),
      Field_DeprecationReason = (\<lambda>f. None), InputValue_Name = (\<lambda>i. ''''),
      InputValue_Description = (\<lambda>i. None), InputValue_Type = (\<lambda>i. None),
      InputValue_DefaultValue = (\<lambda>i. None), InputValue_IsDeprecated = (\<lambda>i. False),
      InputValue_DeprecationReason = (\<lambda>i. None), Type_Kind = (\<lambda>t. ''OBJECT''),
      Type_Name = (\<lambda>t. Some ''Node''), Type_Description = (\<lambda>t. None),
      Type_SpecifiedByURL = (\<lambda>t. None), Type_Fields = (\<lambda>t deprecated. Some [Field_ref 0]),
      Type_Interfaces = (\<lambda>t. Some []), Type_PossibleTypes = (\<lambda>t. None),
      Type_EnumValues = (\<lambda>t deprecated. None), Type_InputFields = (\<lambda>t. None),
      Type_OfType = (\<lambda>t. None), Type_IsOneOf = (\<lambda>t. False)\<rparr>"

definition demo_runtime :: "unit runtime" where
  "demo_runtime =
     \<lparr>rt_gqlgen = demo_gqlgen,
      rt_quoting = \<lparr>quote_other = (\<lambda>s. s), unquote_other = Inr\<rparr>,
      rt_time_Format = (\<lambda>layout t. layout),
      rt_MarshalString = Written, rt_MarshalInt64 = (\<lambda>n. Written (int_dec n)),
      rt_MarshalBoolean = (\<lambda>b. Written (if b then ''true'' else ''false'')),
      rt_MarshalGQL = (\<lambda>m. if m = Null then ''null'' else ''data''),
      rt_UnmarshalString = (\<lambda>v. case v of JString s \<Rightarrow> Inr s | _ \<Rightarrow> Inl (NewError ''not a string'')),
      rt_UnmarshalInt64 = (\<lambda>v. case v of JNumber s \<Rightarrow> (if s = ''2'' then Inr 2 else Inr 0)
        | _ \<Rightarrow> Inl (NewError ''not a number'')),
      rt_UnmarshalBoolean = (\<lambda>v. case v of JBool b \<Rightarrow> Inr b | _ \<Rightarrow> Inl (NewError ''not a boolean'')),
      rt_ErrorOnPath = (\<lambda>ctx err. err), rt_WithPathField = (\<lambda>name ctx. ctx),
      rt_WithFieldContext = demo_WithFieldContext,
      rt_WithRootFieldContext = (\<lambda>name field ctx. ctx), rt_WithUnmarshalers = (\<lambda>ctx. ctx),
      rt_IsDeferred = (\<lambda>field. field_Deferrables field \<noteq> []),
      rt_ArgumentMap = (\<lambda>field variables. field_Args field),
      rt_ProcessArgField = (\<lambda>ctx raw name zero read.
        case map_of raw name of None \<Rightarrow> ret (Inr (Inr zero)) | Some v \<Rightarrow> read ctx v),
      rt_NewScalarFieldContext = (\<lambda>object field m r err.
        ret (Some \<lparr>fc_Object = object, fc_Field = Some field, fc_IsMethod = m, fc_IsResolver = r,
          fc_Args = [], fc_Child = Some (Childless err)\<rparr>, None)),
      rt_ResolveField = demo_ResolveField,
      rt_MarshalSliceConcurrently = (\<lambda>ctx n k fast f. demo_each (f ctx) [0..<n]),
      rt_RootResolverMiddleware = (\<lambda>ctx f. f ctx),
      rt_Dispatch = (\<lambda>ctx fs. demo_run_delayed ctx (fs_Values fs) (fs_delayed fs)),
      rt_ProcessDeferredGroup = (\<lambda>g. and_then
        (demo_run_delayed (dg_Context g) (fs_Values (dg_FieldSet g)) (fs_delayed (dg_FieldSet g)))
        (\<lambda>_. ret (Inr ()))),
      rt_DeferredResults = ret \<lparr>dr_Path = [], dr_Label = '''', dr_Result = Null, dr_Errors = []\<rparr>,
      rt_HasFieldError = (\<lambda>ctx. ret False), rt_AddErrorf = (\<lambda>ctx msg. ret ()),
      rt_Error = demo_Error, rt_Recover = (\<lambda>ctx p. ret (Plain (NewError p))),
      rt_SetResult = (\<lambda>ctx v. ret ()), rt_ErrorResponse = (\<lambda>ctx msg. no_response),
      rt_OneShot = (\<lambda>response ctx. ret (Some response)),
      rt_introspection = demo_introspection,
      rt_IntrospectType = (\<lambda>oc name. Inr (if name = ''Node'' then Some (Type_ref 0) else None)),
      rt_IntrospectSchema = (\<lambda>oc. Inr (Some (Schema_ref 0)))\<rparr>"

lemma demo_Error_keeps: "log_blind I \<Longrightarrow> keeps I (demo_Error ctx err)"
  unfolding demo_Error_def
  by (rule leads_on_world) (simp add: keeps_world_def log_at_def log_blind_def)

lemma demo_run_delayed_keeps:
  "(\<And>i f. (i, f) \<in> set delayed \<Longrightarrow> keeps I (f ctx)) \<Longrightarrow> keeps I (demo_run_delayed ctx vs delayed)"
proof (induction delayed arbitrary: vs)
  case (Cons d delayed)
  obtain i f where d: "d = (i, f)" by (cases d)
  have "keeps I (f ctx)" by (rule Cons.prems [of i f]) (simp add: d)
  moreover have "keeps I (demo_run_delayed ctx vs delayed)" for vs
    by (rule Cons.IH) (use Cons.prems in auto)
  ultimately show ?case unfolding d demo_run_delayed.simps by (rule leads_and_then)
qed (simp add: leads_return)

lemma demo_each_keeps: "(\<And>i. i \<in> set ks \<Longrightarrow> keeps I (f i)) \<Longrightarrow> keeps I (demo_each f ks)"
  by (induction ks) (auto intro!: keeps_rules)

lemma demo_ResolveField_keeps:
  assumes blind: "log_blind I" "\<And>v. log_blind (J v)"
    and fctx: "\<And>c f. g_ctx c = g_ctx ctx \<Longrightarrow> keeps I (fctx c f)"
    and res: "\<And>c. g_ctx c = g_ctx ctx \<Longrightarrow> yields I (resolver c) J"
    and mar: "\<And>c sel v. g_ctx c = g_ctx ctx \<Longrightarrow> leads (\<lambda>w. I w \<and> J v w) (marshal c sel v) I"
  shows "keeps I (demo_ResolveField ctx oc field fctx resolver marshal recovers nonnull)"
proof -
  have same: "g_ctx (demo_WithFieldContext fc ctx) = g_ctx ctx" for fc
    by (simp add: demo_WithFieldContext_def)
  have tail: "keeps I (do {
      r \<leftarrow> resolver c;
      case r of
        Inl p \<Rightarrow> ret (Inr Null)
      | Inr (Inl err) \<Rightarrow> do { demo_Error c err; ret (Inr Null) }
      | Inr (Inr v) \<Rightarrow> do {
          m \<leftarrow> marshal c sel v;
          ret (Inr (case m of Inl p \<Rightarrow> Null | Inr m \<Rightarrow> m))
        }
    })" (is "keeps I (_ \<bind> ?rest)") if c: "g_ctx c = g_ctx ctx" for c sel
    unfolding leads_def
  proof (intro allI impI)
    fix s :: "unit exec_state" assume s: "I (ex_World s)"
    obtain r s' where run: "run (resolver c) s = (r, s')" by (cases "run (resolver c) s")
    have s': "I (ex_World s')" "\<And>v. r = Inr (Inr v) \<Longrightarrow> J v (ex_World s')"
      using res [OF c] s run by (auto simp: yields_def)
    have "I (ex_World (snd (run (?rest r) s')))"
    proof (cases r)
      case (Inr out)
      show ?thesis
      proof (cases out)
        case (Inl err)
        have "keeps I (do { demo_Error c err; ret (Inr Null) })"
          by (intro keeps_rules demo_Error_keeps blind)
        from this [unfolded leads_def, rule_format, OF s'(1)] show ?thesis by (simp add: Inr Inl)
      next
        case v: (Inr v)
        have "I (ex_World s') \<and> J v (ex_World s')" using s' Inr v by simp
        with mar [OF c, of v sel] show ?thesis by (auto simp: Inr v leads_def split: prod.splits)
      qed
    qed (use s' in simp)
    then show "I (ex_World (snd (run (resolver c \<bind> ?rest) s)))" by (simp add: run)
  qed
  show ?thesis
    unfolding demo_ResolveField_def Let_def
    by (rule leads_bind [OF fctx [OF refl]])
      (auto split: prod.splits option.splits intro: tail [OF same] leads_return)
qed

lemma demo_runtime_documented: "runtime_documented demo_runtime"
  unfolding runtime_documented_def
proof (intro allI impI)
  fix I assume blind: "log_blind I"
  have "upholds_ResolveField demo_runtime I"
    unfolding upholds_ResolveField_def
    by (auto simp: demo_runtime_def intro!: demo_ResolveField_keeps [OF blind])
  moreover have "upholds_callers demo_runtime I"
    unfolding upholds_callers_def
    by (auto simp: demo_runtime_def intro!: keeps_rules demo_run_delayed_keeps demo_each_keeps)
  moreover have "upholds_calls demo_runtime I"
    unfolding upholds_calls_def
    by (auto simp: demo_runtime_def intro!: keeps_rules demo_Error_keeps [OF blind])
  moreover have "derives_contexts demo_runtime"
    by (simp add: derives_contexts_def demo_runtime_def demo_WithFieldContext_def)
  ultimately show "upholds demo_runtime I" by (simp add: upholds_def)
qed

section \<open>Operations\<close>

text \<open>\<open>mutation { admin { banUser(input: {userId: 2, reason: "rude"}) { userId } } }\<close>, by an admin and
  by a user who is none.\<close>

definition ban_document :: "Selection list" where
  "ban_document =
     [SelField ''admin'' ''admin'' []
       [SelField ''banUser'' ''banUser''
         [(''input'', JObject [(''userId'', JNumber ''2''), (''reason'', JString ''rude'')])]
         [SelField ''userId'' ''userId'' [] []]]]"

definition demo_ec :: "unit executionContext" where
  "demo_ec = newExecutionContext demo_runtime demo_resolver
     \<lparr>oc_Operation = Some (Mutation, ban_document), oc_Variables = []\<rparr>"

definition demo_ectx :: ectx where
  "demo_ectx = \<lparr>g_ctx = demo_ctx, g_operation = Some (ec_OperationContext demo_ec), g_field = None,
     g_path = [], ctx_Args = []\<rparr>"

definition demo_state :: "World \<Rightarrow> unit exec_state" where
  "demo_state w = \<lparr>ex_World = w, ex_Invalids = (\<lambda>_. 0), ex_sets = 0, ex_Deferred = 0, ex_Pending = 0,
     ex_first = True, ex_gql = ()\<rparr>"

definition plain_request :: Request where
  "plain_request = \<lparr>Request_Env = demo_app, Request_user = Some (scan_User (demo_user 2 ''bob'')),
     Request_isAdmin = False, Request_ip = ''10.0.0.2'', Request_audits = []\<rparr>"

definition plain_world :: World where
  "plain_world = demo_world\<lparr>w_requests := [1 \<mapsto> plain_request]\<rparr>"

lemma demo_ec_simps [simp]:
  "ec_runtime demo_ec = demo_runtime" "g_ctx demo_ectx = demo_ctx"
  "oc_Operation (ec_OperationContext demo_ec) = Some (Mutation, ban_document)"
  by (simp_all add: demo_ec_def demo_ectx_def newExecutionContext_def)

lemma demo_state_World [simp]: "ex_World (demo_state w) = w"
  by (simp add: demo_state_def)

theorem denied_operation_witness:
  "w_committed (ex_World (snd (run (Exec demo_ec demo_ectx demo_ectx) (demo_state plain_world)))) = demo_db"
proof -
  let ?s = "demo_state plain_world"
  have req: "w_requests (ex_World ?s) 1 = Some plain_request" by (simp add: plain_world_def)
  have ctx: "ctx_request (g_ctx demo_ectx) = Some 1" by (simp add: demo_ctx_def)
  have plain: "\<not> (Request_isAdmin plain_request \<and> Request_user plain_request \<noteq> None)"
    by (simp add: plain_request_def)
  have doc: "runtime_documented (ec_runtime demo_ec)" by (simp add: demo_runtime_documented)
  obtain r s' where run: "run (Exec demo_ec demo_ectx demo_ectx) ?s = (r, s')"
    by (cases "run (Exec demo_ec demo_ectx demo_ectx) ?s")
  from denied_operation [OF doc ctx req plain run]
  have "w_committed (ex_World s') = w_committed plain_world" by auto
  also have "\<dots> = demo_db" by (simp add: plain_world_def demo_world_def)
  finally show ?thesis by (simp add: run)
qed

theorem operation_leaves_trace_witness:
  "w_tx (ex_World (snd (run (Exec demo_ec demo_ectx demo_ectx) (demo_state demo_world)))) = None"
proof -
  let ?s = "demo_state demo_world"
  let ?req = "the (w_requests demo_world 1)"
  have req: "w_requests (ex_World ?s) 1 = Some ?req" by (simp add: demo_world_def)
  have ctx: "ctx_request (g_ctx demo_ectx) = Some 1" "ctx_txEnv (g_ctx demo_ectx) = None"
    by (simp_all add: demo_ctx_def)
  have base: "base_app (Request_Env ?req)" using demo_base by (simp add: demo_world_def)
  have doc: "runtime_documented (ec_runtime demo_ec)" by (simp add: demo_runtime_documented)
  have db: "w_tx (ex_World ?s) = None" "wf_db (w_committed (ex_World ?s))"
    by (simp_all add: demo_world_def demo_wf)
  obtain r s' where run: "run (Exec demo_ec demo_ectx demo_ectx) ?s = (r, s')"
    by (cases "run (Exec demo_ec demo_ectx demo_ectx) ?s")
  from operation_leaves_trace [OF doc ctx req base db run] show ?thesis by (auto simp: run)
qed

end
