(* ===== verification/ExecValues.thy ===== *)
theory ExecValues
  imports ExecDemo
begin

text \<open>
  What a selection set is answered with: one value per selected field, in the order of the
  selection and whatever the order in which the goroutines run, or null when a field that must
  not be null has no value (C14).
\<close>

section \<open>Computations with one value\<close>

text \<open>
  The computation has this value in every state whose world satisfies the invariant, keeps the
  invariant, and leaves the counters of the field sets that exist as they are.
\<close>

definition gives :: "(World \<Rightarrow> bool) \<Rightarrow> ('g, 'a) px \<Rightarrow> 'a \<Rightarrow> bool" where
  "gives I m v \<longleftrightarrow> (\<forall>s. I (ex_World s) \<longrightarrow>
     (\<exists>s'. run m s = (Inr v, s') \<and> I (ex_World s') \<and> ex_sets s \<le> ex_sets s'
        \<and> (\<forall>k < ex_sets s. ex_Invalids s' k = ex_Invalids s k)))"

text \<open>The same, but the counter of set \<open>n\<close> grows by \<open>d\<close>.\<close>

definition tallies :: "(World \<Rightarrow> bool) \<Rightarrow> nat \<Rightarrow> nat \<Rightarrow> ('g, 'a) px \<Rightarrow> 'a \<Rightarrow> bool" where
  "tallies I n d m v \<longleftrightarrow> (\<forall>s. I (ex_World s) \<and> n < ex_sets s \<longrightarrow>
     (\<exists>s'. run m s = (Inr v, s') \<and> I (ex_World s') \<and> ex_sets s \<le> ex_sets s'
        \<and> (\<forall>k < ex_sets s. ex_Invalids s' k = ex_Invalids s k + (if k = n then d else 0))))"

lemma givesD:
  assumes "gives I m v" "I (ex_World s)"
  obtains s' where "run m s = (Inr v, s')" "I (ex_World s')" "ex_sets s \<le> ex_sets s'"
    "\<And>k. k < ex_sets s \<Longrightarrow> ex_Invalids s' k = ex_Invalids s k"
  using assms unfolding gives_def by blast

lemma talliesD:
  assumes "tallies I n d m v" "I (ex_World s)" "n < ex_sets s"
  obtains s' where "run m s = (Inr v, s')" "I (ex_World s')" "ex_sets s \<le> ex_sets s'"
    "\<And>k. k < ex_sets s \<Longrightarrow> ex_Invalids s' k = ex_Invalids s k + (if k = n then d else 0)"
  using assms unfolding tallies_def by blast

lemma run_and_then:
  "run m s = (Inr a, s') \<Longrightarrow> run (and_then m f) s = run (f a) s'"
  by (simp add: and_then_def)

lemma tallies_return: "tallies I n 0 (ret (Inr v)) v"
  by (simp add: tallies_def)

lemma gives_tallies: "gives I m v \<Longrightarrow> tallies I n 0 m v"
  by (fastforce simp: gives_def tallies_def)

lemma tallies_and_then:
  assumes "tallies I n d m a" "tallies I n e (f a) b"
  shows "tallies I n (d + e) (and_then m f) b"
  unfolding tallies_def
proof (intro allI impI)
  fix s :: "'a exec_state" assume s: "I (ex_World s) \<and> n < ex_sets s"
  obtain s' where s': "run m s = (Inr a, s')" "I (ex_World s')" "ex_sets s \<le> ex_sets s'"
    "\<And>k. k < ex_sets s \<Longrightarrow> ex_Invalids s' k = ex_Invalids s k + (if k = n then d else 0)"
    using talliesD [OF assms(1)] s by metis
  obtain s'' where s'': "run (f a) s' = (Inr b, s'')" "I (ex_World s'')" "ex_sets s' \<le> ex_sets s''"
    "\<And>k. k < ex_sets s' \<Longrightarrow> ex_Invalids s'' k = ex_Invalids s' k + (if k = n then e else 0)"
    using talliesD [OF assms(2)] s'(2,3) s by (metis order_less_le_trans)
  show "\<exists>s'. run (and_then m f) s = (Inr b, s') \<and> I (ex_World s') \<and> ex_sets s \<le> ex_sets s'
      \<and> (\<forall>k < ex_sets s. ex_Invalids s' k = ex_Invalids s k + (if k = n then d + e else 0))"
    using s' s'' by (intro exI [of _ s'']) (auto simp: run_and_then)
qed

lemma tallies_add_invalid:
  assumes "fs_number fs = n"
  shows "tallies I n (if bad then 1 else 0) (do { (if bad then add_invalid fs else ret ()); ret (Inr v) }) v"
  using assms by (auto simp: tallies_def add_invalid_def)

lemma tallies_innerFunc:
  assumes "gives I (f ctx field) v" "fs_number fs = n"
  shows "tallies I n (if is_invalid test v then 1 else 0) (innerFunc ec test f field ctx fs) v"
proof -
  have "innerFunc ec test f field ctx fs = do {
     r \<leftarrow> f ctx field;
     case r of
       Inl p \<Rightarrow> do {
         err \<leftarrow> rt_Recover (ec_runtime ec) ctx p;
         rt_Error (ec_runtime ec) ctx err;
         ret (Inr NilMarshaler)
       }
     | Inr res \<Rightarrow> do { (if is_invalid test res then add_invalid fs else ret ()); ret (Inr res) } }"
    by (simp add: innerFunc_def)
  moreover have "tallies I n (0 + (if is_invalid test v then 1 else 0))
      (and_then (f ctx field) (\<lambda>res. do { (if is_invalid test res then add_invalid fs else ret ()); ret (Inr res) })) v"
    by (rule tallies_and_then [OF gives_tallies [OF assms(1)] tallies_add_invalid [OF assms(2)]])
  ultimately show ?thesis
    using assms(1) by (fastforce simp: tallies_def gives_def and_then_def)
qed


section \<open>The values that goroutines leave\<close>

text \<open>The delayed values one after the other, in some order.\<close>

fun in_order ::
  "ectx \<Rightarrow> Marshaler list \<Rightarrow> (nat \<times> (ectx \<Rightarrow> ('g, Marshaler) px)) list \<Rightarrow> ('g, Marshaler list) px" where
  "in_order ctx values [] = ret (Inr values)"
| "in_order ctx values ((i, f) # ds) = and_then (f ctx) (\<lambda>v. in_order ctx (values[i := v]) ds)"

definition filled :: "nat set \<Rightarrow> (nat \<Rightarrow> Marshaler) \<Rightarrow> Marshaler list \<Rightarrow> Marshaler list" where
  "filled js val vs = map (\<lambda>j. if j \<in> js then val j else vs ! j) [0..<length vs]"

lemma filled_simps [simp]:
  "filled {} val vs = vs" "length (filled js val vs) = length vs"
  "j < length vs \<Longrightarrow> filled js val vs ! j = (if j \<in> js then val j else vs ! j)"
  by (simp_all add: filled_def map_nth)

lemma filled_update: "filled js val (vs[i := val i]) = filled (insert i js) val vs"
  by (rule nth_equalityI) (auto simp: nth_list_update)

lemma in_order_tallies:
  assumes "\<And>i f. (i, f) \<in> set ds \<Longrightarrow> tallies I n (bad i) (f ctx) (val i)"
  shows "tallies I n (\<Sum>d\<leftarrow>ds. bad (fst d)) (in_order ctx vs ds) (filled (fst ` set ds) val vs)"
  using assms
proof (induction ds arbitrary: vs)
  case Nil
  show ?case by (simp add: tallies_return)
next
  case (Cons d ds)
  obtain i f where d: "d = (i, f)" by (cases d)
  have "tallies I n (bad i) (f ctx) (val i)" by (rule Cons.prems) (simp add: d)
  moreover have "tallies I n (\<Sum>d\<leftarrow>ds. bad (fst d)) (in_order ctx (vs[i := val i]) ds)
      (filled (insert i (fst ` set ds)) val vs)"
    unfolding filled_update [symmetric] by (rule Cons.IH) (use Cons.prems in auto)
  ultimately show ?case
    unfolding d in_order.simps using tallies_and_then by fastforce
qed

section \<open>The loop over the fields\<close>

text \<open>What the branch of a field gives, when it is not deferred, and whether that ends the object.\<close>

definition field_gives ::
  "(World \<Rightarrow> bool) \<Rightarrow> 'g executionContext \<Rightarrow> ectx \<Rightarrow> string \<Rightarrow> (string \<Rightarrow> 'g branch option) \<Rightarrow>
   CollectedField \<Rightarrow> Marshaler \<Rightarrow> bool" where
  "field_gives I ec ctx typename switch field v \<longleftrightarrow>
     (if field_Name field = ''__typename'' then v = rt_MarshalString (ec_runtime ec) typename
      else case switch (field_Name field) of
        Some (AtOnce test f) \<Rightarrow> gives I (f ctx field) v
      | Some (Goroutine test f) \<Rightarrow> \<not> rt_IsDeferred (ec_runtime ec) field \<and> gives I (f ctx field) v
      | _ \<Rightarrow> False)"

definition field_fails :: "(string \<Rightarrow> 'g branch option) \<Rightarrow> CollectedField \<Rightarrow> Marshaler \<Rightarrow> bool" where
  "field_fails switch field v \<longleftrightarrow> field_Name field \<noteq> ''__typename'' \<and>
     (case switch (field_Name field) of
        Some (AtOnce test f) \<Rightarrow> is_invalid test v
      | Some (Goroutine test f) \<Rightarrow> is_invalid test v
      | _ \<Rightarrow> False)"

text \<open>The loop leaves each value in its place, or a computation of it behind.\<close>

definition loop_done ::
  "(World \<Rightarrow> bool) \<Rightarrow> ectx \<Rightarrow> (nat \<Rightarrow> nat) \<Rightarrow> (nat \<Rightarrow> Marshaler) \<Rightarrow> nat list \<Rightarrow> 'g FieldSet \<Rightarrow> 'g FieldSet \<Rightarrow> nat \<Rightarrow> bool" where
  "loop_done I ctx bad val is out out' d \<longleftrightarrow>
     (\<exists>ds js. fs_number out' = fs_number out \<and> fs_fields out' = fs_fields out
        \<and> fs_delayed out' = fs_delayed out @ ds \<and> fs_Values out' = filled js val (fs_Values out)
        \<and> js \<union> fst ` set ds = set is \<and> d + (\<Sum>x\<leftarrow>ds. bad (fst x)) = (\<Sum>i\<leftarrow>is. bad i)
        \<and> (\<forall>(i, f) \<in> set ds. tallies I (fs_number out) (bad i) (f ctx) (val i)))"

lemma loop_done_nothing: "loop_done I ctx bad val [] out out 0"
  unfolding loop_done_def by (intro exI [of _ "[]"] exI [of _ "{}"]) simp

lemma loop_done_value:
  assumes "loop_done I ctx bad val is (set_value i (val i) out) out' d"
  shows "loop_done I ctx bad val (i # is) out out' (bad i + d)"
proof -
  from assms obtain ds js where "fs_number out' = fs_number out" "fs_fields out' = fs_fields out"
      "fs_delayed out' = fs_delayed out @ ds" "fs_Values out' = filled js val ((fs_Values out)[i := val i])"
      "js \<union> fst ` set ds = set is" "d + (\<Sum>x\<leftarrow>ds. bad (fst x)) = (\<Sum>i\<leftarrow>is. bad i)"
      "\<forall>(i, f) \<in> set ds. tallies I (fs_number out) (bad i) (f ctx) (val i)"
    unfolding loop_done_def set_value_def by auto
  then show ?thesis
    unfolding loop_done_def filled_update
    by (intro exI [of _ ds] exI [of _ "insert i js"]) auto
qed

lemma loop_done_delayed:
  assumes "loop_done I ctx bad val is (Concurrently i f out) out' d"
    and "tallies I (fs_number out) (bad i) (f ctx) (val i)"
  shows "loop_done I ctx bad val (i # is) out out' d"
proof -
  from assms(1) obtain ds js where "fs_number out' = fs_number out" "fs_fields out' = fs_fields out"
      "fs_delayed out' = fs_delayed out @ (i, f) # ds" "fs_Values out' = filled js val (fs_Values out)"
      "js \<union> fst ` set ds = set is" "d + (\<Sum>x\<leftarrow>ds. bad (fst x)) = (\<Sum>i\<leftarrow>is. bad i)"
      "\<forall>(i, f) \<in> set ds. tallies I (fs_number out) (bad i) (f ctx) (val i)"
    unfolding loop_done_def Concurrently_def by auto
  with assms(2) show ?thesis
    unfolding loop_done_def by (intro exI [of _ "(i, f) # ds"] exI [of _ js]) auto
qed


lemma tallies_invalid_then:
  assumes "tallies I n e m b" "fs_number fs = n"
  shows "tallies I n ((if fails then 1 else 0) + e) (do { (if fails then add_invalid fs else ret ()); m }) b"
proof -
  have "(do { (if fails then add_invalid fs else ret ()); m })
      = and_then (do { (if fails then add_invalid fs else ret ()); ret (Inr ()) }) (\<lambda>_. m)"
    by (simp add: and_then_def)
  moreover have "tallies I n ((if fails then 1 else 0) + e)
      (and_then (do { (if fails then add_invalid fs else ret ()); ret (Inr ()) }) (\<lambda>_. m)) b"
    by (rule tallies_and_then [where a = "()"]) (rule tallies_add_invalid [OF assms(2)], rule assms(1))
  ultimately show ?thesis by simp
qed

lemma field_gives_cases:
  assumes "field_gives I ec ctx typename switch field v"
  obtains (typename) "field_Name field = ''__typename''" "v = rt_MarshalString (ec_runtime ec) typename"
      "\<not> field_fails switch field v"
    | (now) test f where "field_Name field \<noteq> ''__typename''" "switch (field_Name field) = Some (AtOnce test f)"
      "gives I (f ctx field) v" "field_fails switch field v \<longleftrightarrow> is_invalid test v"
    | (later) test f where "field_Name field \<noteq> ''__typename''" "switch (field_Name field) = Some (Goroutine test f)"
      "\<not> rt_IsDeferred (ec_runtime ec) field" "gives I (f ctx field) v"
      "field_fails switch field v \<longleftrightarrow> is_invalid test v"
  using assms unfolding field_gives_def field_fails_def
  by (auto split: if_splits option.splits branch.splits)

lemma object_loop_values:
  assumes "\<And>i field. (i, field) \<in> set rest \<Longrightarrow> field_gives I ec ctx typename switch field (val i)
      \<and> bad i = (if field_fails switch field (val i) then 1 else 0)"
  shows "\<exists>out' d. tallies I (fs_number out) d (object_loop ec ctx typename switch rest (out, deferred, views))
      (out', deferred, views) \<and> loop_done I ctx bad val (map fst rest) out out' d"
  using assms
proof (induction rest arbitrary: out)
  case Nil
  show ?case by (intro exI [of _ out] exI [of _ 0]) (simp add: tallies_return loop_done_nothing)
next
  case (Cons x rest)
  obtain i field where x: "x = (i, field)" by (cases x)
  have tail: "\<exists>out' d. tallies I (fs_number out) d
      (object_loop ec ctx typename switch rest (out, deferred, views)) (out', deferred, views)
      \<and> loop_done I ctx bad val (map fst rest) out out' d" for out
    by (rule Cons.IH) (use Cons.prems in auto)
  have head: "field_gives I ec ctx typename switch field (val i)"
    "bad i = (if field_fails switch field (val i) then 1 else 0)"
    using Cons.prems [of i field] by (simp_all add: x)
  from head(1) show ?case
  proof (cases rule: field_gives_cases)
    case typename
    obtain out' d where "tallies I (fs_number out) d (object_loop ec ctx typename switch rest
        (set_value i (val i) out, deferred, views)) (out', deferred, views)"
      and "loop_done I ctx bad val (map fst rest) (set_value i (val i) out) out' d"
      using tail [of "set_value i (val i) out"] by (auto simp: set_value_def)
    with typename head(2) loop_done_value show ?thesis
      unfolding x by (intro exI [of _ out'] exI [of _ d]) fastforce
  next
    case (now test f)
    obtain out' d where t: "tallies I (fs_number out) d (object_loop ec ctx typename switch rest
        (set_value i (val i) out, deferred, views)) (out', deferred, views)"
      and l: "loop_done I ctx bad val (map fst rest) (set_value i (val i) out) out' d"
      using tail [of "set_value i (val i) out"] by (auto simp: set_value_def)
    have "tallies I (fs_number out) (bad i + d)
        (do { (if is_invalid test (val i) then add_invalid out else ret ());
              object_loop ec ctx typename switch rest (set_value i (val i) out, deferred, views) })
        (out', deferred, views)"
      using tallies_invalid_then [OF t refl, of "is_invalid test (val i)"] now(4) head(2) by simp
    then have "tallies I (fs_number out) (0 + (bad i + d)) (and_then (f ctx field) (\<lambda>v. do {
          (if is_invalid test v then add_invalid out else ret ());
          object_loop ec ctx typename switch rest (set_value i v out, deferred, views) }))
        (out', deferred, views)"
      by (rule tallies_and_then [OF gives_tallies [OF now(3)]])
    with now(1,2) have "tallies I (fs_number out) (bad i + d)
        (object_loop ec ctx typename switch (x # rest) (out, deferred, views)) (out', deferred, views)"
      by (simp add: x)
    with loop_done_value [OF l] show ?thesis unfolding x by (intro exI [of _ out'] exI [of _ "bad i + d"]) simp
  next
    case (later test f)
    let ?out = "Concurrently i (\<lambda>ctx. innerFunc ec test f field ctx out) out"
    obtain out' d where t: "tallies I (fs_number out) d (object_loop ec ctx typename switch rest
        (?out, deferred, views)) (out', deferred, views)"
      and l: "loop_done I ctx bad val (map fst rest) ?out out' d"
      using tail [of ?out] by (auto simp: Concurrently_def)
    have "tallies I (fs_number out) (bad i) (innerFunc ec test f field ctx out) (val i)"
      using tallies_innerFunc [where f = f and ctx = ctx and field = field and fs = out, OF later(4) refl]
        later(5) head(2) by simp
    with loop_done_delayed [OF l] t later(1-3) show ?thesis
      unfolding x by (intro exI [of _ out'] exI [of _ d]) simp
  qed
qed


section \<open>Selection sets\<close>

text \<open>
  What \<open>gqlgen\<close> promises of its field sets: \<open>Dispatch\<close> runs every delayed computation once, in
  some order, and puts each value in its place; a deferred group without fields does nothing.
\<close>

definition answers_in_order :: "'g runtime \<Rightarrow> bool" where
  "answers_in_order rt \<longleftrightarrow>
     (\<forall>ctx fs s. \<exists>ds. mset ds = mset (fs_delayed fs)
        \<and> run (rt_Dispatch rt ctx fs) s = run (in_order ctx (fs_Values fs) ds) s)
     \<and> (\<forall>I group. log_blind I \<and> dg_Defers group = [] \<and> fs_delayed (dg_FieldSet group) = [] \<longrightarrow>
          gives I (rt_ProcessDeferredGroup rt group) ())"

lemma filled_twice: "filled js val (filled ks val vs) = filled (ks \<union> js) val vs"
  by (rule nth_equalityI) auto

lemma Dispatch_tallies:
  assumes "answers_in_order rt" "loop_done I ctx bad val is out out' d" "fs_delayed out = []"
  shows "\<exists>e. d + e = (\<Sum>i\<leftarrow>is. bad i)
    \<and> tallies I (fs_number out) e (rt_Dispatch rt ctx out') (filled (set is) val (fs_Values out))"
proof -
  from assms(2) obtain ds js where ran: "fs_delayed out' = fs_delayed out @ ds"
      "fs_Values out' = filled js val (fs_Values out)" "js \<union> fst ` set ds = set is"
      "d + (\<Sum>x\<leftarrow>ds. bad (fst x)) = (\<Sum>i\<leftarrow>is. bad i)"
      "\<forall>(i, f) \<in> set ds. tallies I (fs_number out) (bad i) (f ctx) (val i)"
    unfolding loop_done_def by blast
  have delayed: "fs_delayed out' = ds" using ran(1) assms(3) by simp
  have "tallies I (fs_number out) (\<Sum>x\<leftarrow>ds. bad (fst x)) (rt_Dispatch rt ctx out')
      (filled (set is) val (fs_Values out))"
    unfolding tallies_def
  proof (intro allI impI)
    fix s :: "'a exec_state" assume s: "I (ex_World s) \<and> fs_number out < ex_sets s"
    obtain ks where ks: "mset ks = mset ds" "run (rt_Dispatch rt ctx out') s = run (in_order ctx (fs_Values out') ks) s"
      using assms(1) delayed unfolding answers_in_order_def by metis
    have same: "set ks = set ds" using ks(1) by (rule mset_eq_setD)
    have count: "(\<Sum>x\<leftarrow>ks. bad (fst x)) = (\<Sum>x\<leftarrow>ds. bad (fst x))"
      by (simp flip: sum_mset_sum_list add: ks(1))
    have "tallies I (fs_number out) (\<Sum>x\<leftarrow>ks. bad (fst x)) (in_order ctx (fs_Values out') ks)
        (filled (fst ` set ks) val (fs_Values out'))"
      by (rule in_order_tallies) (use ran(5) same in auto)
    then show "\<exists>s'. run (rt_Dispatch rt ctx out') s = (Inr (filled (set is) val (fs_Values out)), s')
        \<and> I (ex_World s') \<and> ex_sets s \<le> ex_sets s' \<and> (\<forall>k < ex_sets s. ex_Invalids s' k
             = ex_Invalids s k + (if k = fs_number out then \<Sum>x\<leftarrow>ds. bad (fst x) else 0))"
      using s by (auto simp: tallies_def ks(2) same count ran(2,3) filled_twice)
  qed
  with ran(4) show ?thesis by blast
qed

text \<open>
  The value of a selection set: null when a field that must not be null has no value, and
  otherwise the values of the fields in the order of the selection.
\<close>

definition selection_value ::
  "(string \<Rightarrow> 'g branch option) \<Rightarrow> (CollectedField \<Rightarrow> Marshaler) \<Rightarrow> CollectedField list \<Rightarrow> Marshaler" where
  "selection_value switch answer collected =
     (if \<exists>field \<in> set collected. field_fails switch field (answer field) then Null
      else FieldSetMarshaler collected (map answer collected))"

lemma filled_all:
  "filled (set [0..<length xs]) (\<lambda>i. f (xs ! i)) (replicate (length xs) v) = map f xs"
  by (rule nth_equalityI) auto

lemma sum_positive_iff:
  "0 < (\<Sum>i\<leftarrow>[0..<length xs]. if P (xs ! i) then 1 else 0 :: nat) \<longleftrightarrow> (\<exists>x \<in> set xs. P x)"
proof -
  have "(\<Sum>i\<leftarrow>[0..<length xs]. if P (xs ! i) then 1 else 0 :: nat) = (\<Sum>x\<leftarrow>xs. if P x then 1 else 0)"
    by (simp add: sum_list_sum_nth)
  also have "0 < \<dots> \<longleftrightarrow> (\<exists>x \<in> set xs. P x)" by (induction xs) auto
  finally show ?thesis .
qed

lemma exec_object_gives:
  assumes laws: "answers_in_order (ec_runtime ec)" and blind: "log_blind I"
    and collected: "collected = gql_CollectFields (rt_gqlgen (ec_runtime ec)) (Some (ec_OperationContext ec)) sel implementors"
    and fields: "\<And>field. field \<in> set collected \<Longrightarrow> field_gives I ec ctx typename switch field (answer field)"
  shows "gives I (exec_object ec ctx sel implementors typename switch) (selection_value switch answer collected)"
  unfolding gives_def
proof (intro allI impI)
  fix s :: "'a exec_state" assume I: "I (ex_World s)"
  let ?rt = "ec_runtime ec" and ?n = "ex_sets s" and ?is = "[0..<length collected]"
  define val where "val = (\<lambda>i. answer (collected ! i))"
  define bad :: "nat \<Rightarrow> nat" where "bad = (\<lambda>i. if field_fails switch (collected ! i) (val i) then 1 else 0)"
  define out where "out = \<lparr>fs_fields = collected, fs_Values = replicate (length collected) NilMarshaler,
    fs_number = ?n, fs_delayed = ([] :: (nat \<times> (ectx \<Rightarrow> ('a, Marshaler) px)) list)\<rparr>"
  define empty_set where "empty_set = \<lparr>fs_fields = [], fs_Values = [], fs_number = Suc ?n,
    fs_delayed = ([] :: (nat \<times> (ectx \<Rightarrow> ('a, Marshaler) px)) list)\<rparr>"
  define s2 where "s2 = s\<lparr>ex_sets := Suc (Suc ?n), ex_Invalids := (ex_Invalids s)(?n := 0, Suc ?n := 0)\<rparr>"
  have I2: "I (ex_World s2)" "?n < ex_sets s2" using I by (simp_all add: s2_def)
  have "\<exists>out' d. tallies I (fs_number out) d (object_loop ec ctx typename switch (enumerate 0 collected) (out, empty_set, []))
      (out', empty_set, []) \<and> loop_done I ctx bad val (map fst (enumerate 0 collected)) out out' d"
    by (rule object_loop_values) (auto simp: in_set_enumerate_eq fields val_def bad_def)
  then obtain out' d where loop: "tallies I ?n d (object_loop ec ctx typename switch (enumerate 0 collected)
        (out, empty_set, [])) (out', empty_set, [])" and ran: "loop_done I ctx bad val ?is out out' d"
    by (auto simp: out_def)
  obtain e where e: "d + e = (\<Sum>i\<leftarrow>?is. bad i)"
      "tallies I ?n e (rt_Dispatch ?rt ctx out') (map answer collected)"
    using Dispatch_tallies [OF laws ran] filled_all [of collected answer NilMarshaler] by (auto simp: out_def val_def)
  obtain s3 where s3: "run (object_loop ec ctx typename switch (enumerate 0 collected) (out, empty_set, [])) s2
        = (Inr (out', empty_set, []), s3)" "I (ex_World s3)" "ex_sets s2 \<le> ex_sets s3"
      "\<And>k. k < ex_sets s2 \<Longrightarrow> ex_Invalids s3 k = ex_Invalids s2 k + (if k = ?n then d else 0)"
    by (rule talliesD [OF loop I2]) blast
  obtain s4 where s4: "run (rt_Dispatch ?rt ctx out') s3 = (Inr (map answer collected), s4)" "I (ex_World s4)"
      "ex_sets s3 \<le> ex_sets s4"
      "\<And>k. k < ex_sets s3 \<Longrightarrow> ex_Invalids s4 k = ex_Invalids s3 k + (if k = ?n then e else 0)"
    by (rule talliesD [OF e(2) s3(2)]) (use I2(2) s3(3) in auto)
  have number: "fs_number out' = ?n" using ran by (auto simp: loop_done_def out_def)
  have "ex_Invalids s4 ?n = d + e" using s4(4) s3(3,4) I2(2) by (simp add: s2_def)
  then have count: "0 < ex_Invalids s4 ?n \<longleftrightarrow> (\<exists>field \<in> set collected. field_fails switch field (answer field))"
    using sum_positive_iff [of "\<lambda>f. field_fails switch f (answer f)" collected] by (simp add: e(1) bad_def val_def)
  have kept: "\<forall>k < ?n. ex_Invalids s4 k = ex_Invalids s k" "?n \<le> ex_sets s4"
    using s3(3,4) s4(3,4) by (auto simp: s2_def)
  let ?s5 = "s4\<lparr>ex_Deferred := ex_Deferred s4 + min 0 max_int32\<rparr>"
  let ?group = "\<lparr>dg_Defers = [], dg_Path = g_path ctx, dg_FieldSet = empty_set, dg_Context = ctx\<rparr>"
  have "gives I (rt_ProcessDeferredGroup ?rt ?group) ()"
    using laws blind by (auto simp: answers_in_order_def empty_set_def)
  then obtain s6 where s6: "run (rt_ProcessDeferredGroup ?rt ?group) ?s5 = (Inr (), s6)" "I (ex_World s6)"
      "ex_sets s4 \<le> ex_sets s6" "\<And>k. k < ex_sets s4 \<Longrightarrow> ex_Invalids s6 k = ex_Invalids s4 k"
    using s4(2) by (auto elim: givesD [where s = ?s5])
  have "run (exec_object ec ctx sel implementors typename switch) s
      = (Inr (selection_value switch answer collected), if 0 < ex_Invalids s4 ?n then s4 else s6)"
    using s3(1) s4(1) s6(1) count
    by (simp add: exec_object_def Let_def collected [symmetric] NewFieldSet_def out_def [symmetric] empty_set_def [symmetric]
        s2_def [symmetric] run_and_then number selection_value_def)
  then show "\<exists>s'. run (exec_object ec ctx sel implementors typename switch) s
      = (Inr (selection_value switch answer collected), s') \<and> I (ex_World s') \<and> ex_sets s \<le> ex_sets s'
      \<and> (\<forall>k < ex_sets s. ex_Invalids s' k = ex_Invalids s k)"
    using s4(2) s6(2-4) kept by auto
qed


text \<open>
  C14. A selection set has one answer, whatever the order of its goroutines. When every selected
  field gives a value (and none is deferred), the object is null as soon as one that must not be
  null has none, and otherwise holds exactly the selected fields in the order of the selection,
  each with its value; neither the order in which the goroutines of the fields run nor what they
  do to each other's counters shows, and what the fields keep of the world the object keeps.
\<close>

theorem selection_set_value:
  assumes "answers_in_order (ec_runtime ec)" "log_blind I" "I (ex_World s)"
    and "collected = gql_CollectFields (rt_gqlgen (ec_runtime ec)) (Some (ec_OperationContext ec)) sel implementors"
    and "\<And>field. field \<in> set collected \<Longrightarrow> field_gives I ec ctx typename switch field (answer field)"
  shows "\<exists>s'. run (exec_object ec ctx sel implementors typename switch) s
      = (Inr (if \<exists>field \<in> set collected. field_fails switch field (answer field) then Null
              else FieldSetMarshaler collected (map answer collected)), s')
    \<and> I (ex_World s')"
proof -
  obtain s' where "run (exec_object ec ctx sel implementors typename switch) s
      = (Inr (selection_value switch answer collected), s')" "I (ex_World s')"
    by (rule givesD [OF exec_object_gives [OF assms(1,2,4,5)] assms(3)])
  then show ?thesis by (intro exI [of _ s']) (simp add: selection_value_def)
qed

lemma demo_in_order: "demo_run_delayed ctx vs ds = in_order ctx vs ds"
  by (induction ctx vs ds rule: in_order.induct) simp_all

lemma demo_answers: "answers_in_order demo_runtime"
  unfolding answers_in_order_def
proof (intro conjI allI impI)
  fix ctx and fs :: "unit FieldSet" and s
  show "\<exists>ds. mset ds = mset (fs_delayed fs)
      \<and> run (rt_Dispatch demo_runtime ctx fs) s = run (in_order ctx (fs_Values fs) ds) s"
    by (intro exI [of _ "fs_delayed fs"]) (simp add: demo_runtime_def demo_in_order)
qed (auto simp: demo_runtime_def gives_def and_then_def)

definition user_document :: "Selection list" where
  "user_document = [SelField ''id'' ''id'' [] [], SelField ''mail'' ''email'' [] [], SelField ''type'' ''__typename'' [] []]"

theorem selection_set_value_witness:
  "fst (run (exec_User demo_ec demo_ectx user_document (scan_User (demo_user 2 ''bob''))) (demo_state demo_world))
   = Inr (FieldSetMarshaler (concat (map plain_field user_document))
       [Written ''2'', Written ''bob@example.com'', Written ''User''])"
proof -
  let ?u = "scan_User (demo_user 2 ''bob'')"
  let ?switch = "map_of
       [(''id'', AtOnce NonNull (\<lambda>ctx field. exec_User_id demo_ec ctx field ?u)),
        (''email'', AtOnce NonNull (\<lambda>ctx field. exec_User_email demo_ec ctx field ?u)),
        (''name'', AtOnce NonNull (\<lambda>ctx field. exec_User_name demo_ec ctx field ?u)),
        (''createdAt'', AtOnce NonNull (\<lambda>ctx field. exec_User_createdAt demo_ec ctx field ?u))]"
  let ?answer = "\<lambda>field. if field_Name field = ''id'' then Written ''2''
      else if field_Name field = ''email'' then Written ''bob@example.com'' else Written ''User''"
  let ?collected = "concat (map plain_field user_document)"
  have collected: "?collected = gql_CollectFields (rt_gqlgen (ec_runtime demo_ec))
      (Some (ec_OperationContext demo_ec)) user_document userImplementors"
    by (simp add: demo_runtime_def demo_gqlgen_def)
  have two: "int_dec 2 = ''2''" by code_simp
  have "User_ID ?u = 2" "User_Email ?u = ''bob@example.com''" by (simp_all add: scan_User_def demo_user_def)
  then have fields: "field_gives (\<lambda>_. True) demo_ec demo_ectx ''User'' ?switch field (?answer field)"
    if "field \<in> set ?collected" for field
    using that
    by (auto simp: user_document_def field_gives_def gives_def demo_runtime_def exec_User_id_def
        exec_User_email_def demo_ResolveField_def fieldContext_User_id_def fieldContext_User_email_def
        scalar_context_def plain_value_def assert_type_def as_Int64_def as_String_def marshalNInt64_def
        marshalNString_def marshal_nonnull_def two)
  have none: "\<not> (\<exists>field \<in> set ?collected. field_fails ?switch field (?answer field))"
    by (simp add: user_document_def field_fails_def)
  have rt: "answers_in_order (ec_runtime demo_ec)" by (simp add: demo_answers)
  have "\<exists>s'. run (exec_object demo_ec demo_ectx user_document userImplementors ''User'' ?switch) (demo_state demo_world)
      = (Inr (if \<exists>field \<in> set ?collected. field_fails ?switch field (?answer field) then Null
              else FieldSetMarshaler ?collected (map ?answer ?collected)), s') \<and> True"
    by (rule selection_set_value [OF rt _ _ collected fields]) (simp_all add: log_blind_def)
  then obtain s' where "run (exec_User demo_ec demo_ectx user_document ?u) (demo_state demo_world)
      = (Inr (FieldSetMarshaler ?collected (map ?answer ?collected)), s')"
    unfolding exec_User_def if_not_P [OF none] by blast
  then show ?thesis by (simp only: fst_conv) (simp add: user_document_def)
qed

end
