(* ===== verification/IntroProps.thy ===== *)
theory IntroProps
  imports ExecDemo
begin

text \<open>
  Introspection ends although the description of a schema is cyclic: every call of \<open>___Type\<close> under
  another one is on a selection set that is less deep.
\<close>

section \<open>What the runtime does with selection sets\<close>

text \<open>
  A collected field comes with selections that stand under it in the set it is collected from, and
  \<open>ResolveField\<close> marshals the value of a field with the selections of that field.
\<close>

definition collects_below :: "gqlgen \<Rightarrow> bool" where
  "collects_below G \<longleftrightarrow> (\<forall>oc sel implementors. \<forall>field \<in> set (gql_CollectFields G oc sel implementors).
     selections_depth (field_Selections field) < selections_depth sel)"

definition marshals_selections :: "'g runtime \<Rightarrow> bool" where
  "marshals_selections rt \<longleftrightarrow>
     (\<forall>ctx oc field fctx resolver marshal marshal' recovers nonnull.
        (\<forall>c. marshal c (field_Selections field) = marshal' c (field_Selections field)) \<longrightarrow>
        rt_ResolveField rt ctx oc field fctx resolver marshal recovers nonnull
          = rt_ResolveField rt ctx oc field fctx resolver marshal' recovers nonnull)"

definition selections_documented :: "'g runtime \<Rightarrow> bool" where
  "selections_documented rt \<longleftrightarrow> collects_below (rt_gqlgen rt) \<and> marshals_selections rt"

lemma ResolveField_cong:
  assumes "selections_documented rt"
    and "\<And>c v. marshal c (field_Selections field) v = marshal' c (field_Selections field) v"
  shows "rt_ResolveField rt ctx oc field fctx resolver marshal recovers nonnull
    = rt_ResolveField rt ctx oc field fctx resolver marshal' recovers nonnull"
  using assms by (auto simp: selections_documented_def marshals_selections_def fun_eq_iff)

section \<open>Objects with the same branches\<close>

definition same_branch :: "CollectedField \<Rightarrow> 'g branch \<Rightarrow> 'g branch \<Rightarrow> bool" where
  "same_branch field b b' \<longleftrightarrow> b = b' \<or>
     (\<exists>test f f'. b = AtOnce test f \<and> b' = AtOnce test f' \<and> (\<forall>ctx. f ctx field = f' ctx field))"

lemma same_AtOnce [simp]:
  "same_branch field (AtOnce test f) (AtOnce test f') \<longleftrightarrow> (\<forall>ctx. f ctx field = f' ctx field)"
  by (auto simp: same_branch_def)

lemma map_of_same:
  "list_all2 (\<lambda>(x, b) (x', b'). x = x' \<and> same_branch field b b') bs bs' \<Longrightarrow>
   rel_option (same_branch field) (map_of bs name) (map_of bs' name)"
  by (induction rule: list_all2_induct) (auto split: if_splits)

lemma object_loop_cong:
  "(\<And>i field. (i, field) \<in> set todo \<Longrightarrow>
     rel_option (same_branch field) (switch (field_Name field)) (switch' (field_Name field))) \<Longrightarrow>
   object_loop ec ctx typename switch todo sets = object_loop ec ctx typename switch' todo sets"
proof (induction todo arbitrary: sets)
  case (Cons entry todo)
  obtain i field where entry: "entry = (i, field)" by (cases entry)
  obtain out deferred views where sets: "sets = (out, deferred, views)" by (cases sets)
  have tail: "object_loop ec ctx typename switch todo sets = object_loop ec ctx typename switch' todo sets" for sets
    by (rule Cons.IH) (use Cons.prems in auto)
  have "rel_option (same_branch field) (switch (field_Name field)) (switch' (field_Name field))"
    by (rule Cons.prems [of i]) (simp add: entry)
  then consider "switch (field_Name field) = switch' (field_Name field)"
    | test f f' where "switch (field_Name field) = Some (AtOnce test f)"
      "switch' (field_Name field) = Some (AtOnce test f')" "\<And>ctx. f ctx field = f' ctx field"
    by (cases rule: option.rel_cases) (auto simp: same_branch_def)
  then show ?case
  proof cases
    case 1
    show ?thesis unfolding entry sets object_loop.simps 1 tail ..
  next
    case 2
    show ?thesis unfolding entry sets object_loop.simps 2(1,2) tail by (simp add: 2(3))
  qed
qed simp

lemma object_cong:
  assumes "selections_documented (ec_runtime ec)"
    and "\<And>field. selections_depth (field_Selections field) < selections_depth sel \<Longrightarrow>
      list_all2 (\<lambda>(x, b) (x', b'). x = x' \<and> same_branch field b b') bs bs'"
  shows "exec_object ec ctx sel implementors typename (map_of bs)
    = exec_object ec ctx sel implementors typename (map_of bs')"
proof -
  let ?collected = "gql_CollectFields (rt_gqlgen (ec_runtime ec)) (Some (ec_OperationContext ec)) sel implementors"
  have "rel_option (same_branch field) (map_of bs (field_Name field)) (map_of bs' (field_Name field))"
    if "(i, field) \<in> set (enumerate 0 ?collected)" for i field
  proof (rule map_of_same, rule assms(2))
    have "field \<in> set ?collected" using that by (auto simp: in_set_enumerate_eq)
    then show "selections_depth (field_Selections field) < selections_depth sel"
      using assms(1) by (auto simp: selections_documented_def collects_below_def)
  qed
  then have "object_loop ec ctx typename (map_of bs) (enumerate 0 ?collected) sets
    = object_loop ec ctx typename (map_of bs') (enumerate 0 ?collected) sets" for sets
    by (rule object_loop_cong)
  then show ?thesis by (simp add: exec_object_def Let_def)
qed

section \<open>Below a depth\<close>

definition agree :: "nat \<Rightarrow> 'g exec_type \<Rightarrow> 'g exec_type \<Rightarrow> bool" where
  "agree d t t' \<longleftrightarrow> (\<forall>ctx sel. selections_depth sel < d \<longrightarrow> t ctx sel = t' ctx sel)"

lemma types_agree:
  assumes "agree d t t'" and "selections_depth sel < d"
  shows "marshalN__Type ec t ctx sel = marshalN__Type ec t' ctx sel"
    and "marshalO__Type ec t ctx sel = marshalO__Type ec t' ctx sel"
    and "marshalN__Types ec t ctx sel = marshalN__Types ec t' ctx sel"
    and "marshalO__Types ec t ctx sel = marshalO__Types ec t' ctx sel"
proof -
  have eq: "t c sel = t' c sel" for c using assms by (simp add: agree_def)
  show "marshalN__Type ec t ctx sel = marshalN__Type ec t' ctx sel"
    and "marshalO__Type ec t ctx sel = marshalO__Type ec t' ctx sel"
    and "marshalN__Types ec t ctx sel = marshalN__Types ec t' ctx sel"
    and "marshalO__Types ec t ctx sel = marshalO__Types ec t' ctx sel"
    by (rule ext, simp add: eq marshalN__Type_def marshalO__Type_def marshalN__Types_def
        marshalO__Types_def marshalN__TypeValue_def)+
qed

lemma InputValue_agree:
  assumes rt: "selections_documented (ec_runtime ec)" and "agree d t t'" "selections_depth sel \<le> d"
  shows "exec___InputValue ec t ctx sel obj = exec___InputValue ec t' ctx sel obj"
proof -
  have "exec___InputValue_type ec t ctx field obj = exec___InputValue_type ec t' ctx field obj"
    if "selections_depth (field_Selections field) < d" for ctx field
    unfolding exec___InputValue_type_def
    by (rule ResolveField_cong [OF rt]) (simp add: types_agree [OF assms(2) that])
  then show ?thesis
    unfolding exec___InputValue_def by (intro object_cong [OF rt]) (use assms(3) in simp)
qed

lemma InputValues_agree:
  assumes "selections_documented (ec_runtime ec)" and "agree d t t'" "selections_depth sel < d"
  shows "marshalN__InputValues ec t ctx sel = marshalN__InputValues ec t' ctx sel"
    and "marshalO__InputValues ec t ctx sel = marshalO__InputValues ec t' ctx sel"
  using InputValue_agree [OF assms(1,2) less_imp_le [OF assms(3)]]
  by (auto simp: fun_eq_iff marshalN__InputValues_def marshalO__InputValues_def marshalN__InputValue_def)

lemma Field_agree:
  assumes rt: "selections_documented (ec_runtime ec)" and "agree d t t'" "selections_depth sel \<le> d"
  shows "exec___Field ec t ctx sel obj = exec___Field ec t' ctx sel obj"
proof -
  have "exec___Field_args ec t ctx field obj = exec___Field_args ec t' ctx field obj"
    and "exec___Field_type ec t ctx field obj = exec___Field_type ec t' ctx field obj"
    if "selections_depth (field_Selections field) < d" for ctx field
    unfolding exec___Field_args_def exec___Field_type_def
    by (rule ResolveField_cong [OF rt],
        simp add: InputValues_agree [OF rt assms(2) that] types_agree [OF assms(2) that])+
  then show ?thesis
    unfolding exec___Field_def by (intro object_cong [OF rt]) (use assms(3) in simp)
qed

lemma Fields_agree:
  assumes "selections_documented (ec_runtime ec)" and "agree d t t'" "selections_depth sel < d"
  shows "marshalO__Fields ec t ctx sel = marshalO__Fields ec t' ctx sel"
  using Field_agree [OF assms(1,2) less_imp_le [OF assms(3)]]
  by (auto simp: fun_eq_iff marshalO__Fields_def marshalN__Field_def)

lemma Type_body_agree:
  assumes rt: "selections_documented (ec_runtime ec)" and "agree d t t'" "selections_depth sel \<le> d"
  shows "exec___Type_body ec t ctx sel obj = exec___Type_body ec t' ctx sel obj"
proof -
  have "exec___Type_fields ec t ctx field obj = exec___Type_fields ec t' ctx field obj"
    and "exec___Type_interfaces ec t ctx field obj = exec___Type_interfaces ec t' ctx field obj"
    and "exec___Type_possibleTypes ec t ctx field obj = exec___Type_possibleTypes ec t' ctx field obj"
    and "exec___Type_inputFields ec t ctx field obj = exec___Type_inputFields ec t' ctx field obj"
    and "exec___Type_ofType ec t ctx field obj = exec___Type_ofType ec t' ctx field obj"
    if "selections_depth (field_Selections field) < d" for ctx field
    unfolding exec___Type_fields_def exec___Type_interfaces_def exec___Type_possibleTypes_def
      exec___Type_inputFields_def exec___Type_ofType_def
    by (rule ResolveField_cong [OF rt],
        simp add: Fields_agree [OF rt assms(2) that] InputValues_agree [OF rt assms(2) that]
          types_agree [OF assms(2) that])+
  then show ?thesis
    unfolding exec___Type_body_def by (intro object_cong [OF rt]) (use assms(3) in simp)
qed

section \<open>The knot\<close>

lemma body_agree:
  assumes "selections_documented (ec_runtime ec)" and "agree d t t'"
  shows "agree (Suc d) (exec___Type_body ec t) (exec___Type_body ec t')"
  unfolding agree_def using Type_body_agree [OF assms] by (simp add: fun_eq_iff)

lemma upto_agree:
  assumes "selections_documented (ec_runtime ec)"
  shows "agree (min n m) (exec___Type_upto n bottom ec) (exec___Type_upto m bottom' ec)"
proof (induction n arbitrary: m)
  case (Suc n)
  show ?case
  proof (cases m)
    case (Suc k)
    then show ?thesis using body_agree [OF assms Suc.IH [of k]] by simp
  qed (simp add: agree_def)
qed (simp add: agree_def)

lemma upto_enough:
  assumes "selections_documented (ec_runtime ec)" and "selections_depth sel < calls"
  shows "exec___Type_upto calls bottom ec ctx sel obj = exec___Type ec ctx sel obj"
proof -
  have "exec___Type_upto calls bottom ec ctx sel
      = exec___Type_upto (Suc (selections_depth sel)) stack_overflow ec ctx sel"
    using upto_agree [OF assms(1), of calls "Suc (selections_depth sel)"] assms(2) by (simp add: agree_def)
  then show ?thesis by (simp only: exec___Type_def)
qed

lemma Type_recursion:
  assumes "selections_documented (ec_runtime ec)"
  shows "exec___Type ec = exec___Type_body ec (exec___Type ec)"
proof (intro ext)
  fix ctx sel obj
  have "agree (selections_depth sel) (exec___Type_upto (selections_depth sel) stack_overflow ec) (exec___Type ec)"
    using upto_enough [OF assms] by (simp add: agree_def fun_eq_iff)
  then have "exec___Type_body ec (exec___Type_upto (selections_depth sel) stack_overflow ec) ctx sel obj
      = exec___Type_body ec (exec___Type ec) ctx sel obj"
    by (rule Type_body_agree [OF assms]) simp
  then show "exec___Type ec ctx sel obj = exec___Type_body ec (exec___Type ec) ctx sel obj"
    by (simp add: exec___Type_def [of ec ctx sel obj])
qed

lemma recursion_unique:
  assumes "selections_documented (ec_runtime ec)" and "f = exec___Type_body ec f"
  shows "f = exec___Type ec"
proof -
  have "agree d f (exec___Type ec)" for d
  proof (induction d)
    case (Suc d)
    from body_agree [OF assms(1) this] show ?case
      by (simp flip: assms(2) Type_recursion [OF assms(1)])
  qed (simp add: agree_def)
  then show ?thesis by (auto simp: agree_def fun_eq_iff)
qed

text \<open>
  C15. Introspection ends, whatever the schema: the equation by which \<open>___Type\<close> calls itself has
  exactly one solution, which is the executor of the model, and the calls of \<open>___Type\<close> under each
  other are at most as many as the selection set is deep, and one; what a further call would do
  makes no difference.
\<close>

theorem introspection_ends:
  assumes "selections_documented (ec_runtime ec)"
  shows "(f = exec___Type_body ec f \<longleftrightarrow> f = exec___Type ec) \<and>
    (selections_depth sel < calls \<longrightarrow>
      exec___Type_upto calls bottom ec ctx sel obj = exec___Type ec ctx sel obj)"
  using Type_recursion [OF assms] recursion_unique [OF assms] upto_enough [OF assms] by blast

section \<open>A cyclic schema\<close>

text \<open>\<open>{ name fields { type { fields { type { name } } } } }\<close>, on the schema of theory ExecDemo, whose
  only type has a field of itself.\<close>

definition cyclic_document :: "Selection list" where
  "cyclic_document =
     (let field = (\<lambda>name sels. SelField name name [(''includeDeprecated'', JBool True)] sels)
      in [field ''name'' [], field ''fields'' [field ''type''
           [field ''fields'' [field ''type'' [field ''name'' []]]]]])"

lemma plain_field_below:
  "field \<in> set (concat (map plain_field sels)) \<Longrightarrow>
   selections_depth (field_Selections field) < selections_depth sels"
proof (induction sels)
  case (Cons s sels)
  then show ?case by (cases s) fastforce+
qed simp

lemma demo_ResolveField_own:
  assumes "\<And>c. marshal c (field_Selections field) = marshal' c (field_Selections field)"
  shows "demo_ResolveField ctx oc field fctx resolver marshal recovers nonnull
    = demo_ResolveField ctx oc field fctx resolver marshal' recovers nonnull"
  unfolding demo_ResolveField_def assms ..

lemma demo_selections: "selections_documented demo_runtime"
proof -
  have "collects_below demo_gqlgen"
    unfolding collects_below_def by (simp add: demo_gqlgen_def plain_field_below del: set_concat)
  moreover have "marshals_selections demo_runtime"
    unfolding marshals_selections_def
    by (simp add: demo_runtime_def) (intro allI impI demo_ResolveField_own, simp)
  ultimately show ?thesis unfolding selections_documented_def by (simp add: demo_runtime_def)
qed

theorem introspection_ends_witness:
  "exec___Type demo_ec = exec___Type_body demo_ec (exec___Type demo_ec) \<and>
   exec___Type_upto 6 (\<lambda>ctx sel obj. ret (Inr Null)) demo_ec demo_ectx cyclic_document (Type_ref 0)
     = exec___Type demo_ec demo_ectx cyclic_document (Type_ref 0)"
proof -
  have doc: "selections_documented (ec_runtime demo_ec)" by (simp add: demo_selections)
  have "selections_depth cyclic_document < 6" by (simp add: cyclic_document_def Let_def)
  then show ?thesis using introspection_ends [OF doc] by blast
qed

end
