(* ===== verification/GqlSchema.thy ===== *)
theory GqlSchema
  imports ExecRoot
begin

text \<open>
  The schema that the executor is generated from (the text embedded in
  internal/graph/generated/generated.go), when a selection set is valid in it, and when an answer
  conforms to it.
\<close>

section \<open>The schema\<close>

text \<open>
  A type is named, a list or required (written with an exclamation mark). A field has arguments
  and a type. Default values and the directives that guide the generator are left out.
\<close>

datatype gtype = Named string | ListOf gtype | Required gtype

datatype type_def =
    Object_type "(string \<times> (string \<times> gtype) list \<times> gtype) list"
  | Input_type "(string \<times> gtype) list"
  | Union_type "string list"
  | Enum_type "string list"
  | Scalar_type

definition viewer_schema :: "(string \<times> type_def) list" where
  "viewer_schema =
   [(''Int64'', Scalar_type),
    (''Timestamp'', Object_type
      [(''unix'', [], Required (Named ''Int64'')),
       (''formatted'', [(''layout'', Required (Named ''String''))], Required (Named ''String''))]),
    (''Query'', Object_type
      [(''viewer'', [], Required (Named ''Viewer'')),
       (''admin'', [], Required (Named ''AdminQuery''))]),
    (''Mutation'', Object_type
      [(''signOut'', [], Required (Named ''SignOutPayload'')),
       (''admin'', [], Required (Named ''AdminMutation''))]),
    (''Viewer'', Object_type
      [(''user'', [], Named ''User''),
       (''role'', [], Required (Named ''ViewerRole''))]),
    (''ViewerRole'', Enum_type [''ADMIN'', ''USER'', ''GUEST'']),
    (''User'', Object_type
      [(''id'', [], Required (Named ''Int64'')),
       (''email'', [], Required (Named ''String'')),
       (''name'', [], Required (Named ''String'')),
       (''createdAt'', [], Required (Named ''Timestamp''))]),
    (''SignOutPayload'', Object_type
      [(''redirectUrl'', [], Required (Named ''String''))])]"

definition panel_schema :: "(string \<times> type_def) list" where
  "panel_schema =
   [(''AdminQuery'', Object_type
      [(''users'', [], Required (Named ''UsersConnection'')),
       (''user'', [(''id'', Required (Named ''Int64''))], Named ''AdminUser''),
       (''admins'', [], Required (Named ''AdminsConnection'')),
       (''auditLog'', [(''limit'', Required (Named ''Int64'')), (''before'', Named ''Int64'')],
         Required (Named ''AuditLogConnection'')),
       (''buildGitCommit'', [], Required (Named ''String''))]),
    (''AdminMutation'', Object_type
      [(''banUser'', [(''input'', Required (Named ''BanUserInput''))],
        Required (Named ''BanUserOrErrorPayload'')),
       (''unbanUser'', [(''input'', Required (Named ''UnbanUserInput''))],
         Required (Named ''UnbanUserOrErrorPayload'')),
       (''makeAdmin'', [(''input'', Required (Named ''MakeAdminInput''))],
         Required (Named ''MakeAdminOrErrorPayload'')),
       (''removeAdmin'', [(''input'', Required (Named ''RemoveAdminInput''))],
         Required (Named ''RemoveAdminOrErrorPayload''))]),
    (''UsersConnection'', Object_type
      [(''totalCount'', [], Required (Named ''Int64'')),
       (''nodes'', [], Required (ListOf (Required (Named ''AdminUser''))))]),
    (''AdminUser'', Object_type
      [(''id'', [], Required (Named ''Int64'')),
       (''email'', [], Required (Named ''String'')),
       (''name'', [], Required (Named ''String'')),
       (''createdAt'', [], Required (Named ''Timestamp'')),
       (''lastSignInAt'', [], Named ''Timestamp''),
       (''isAdmin'', [], Required (Named ''Boolean'')),
       (''banReason'', [], Required (Named ''String''))]),
    (''AdminsConnection'', Object_type
      [(''totalCount'', [], Required (Named ''Int64'')),
       (''nodes'', [], Required (ListOf (Required (Named ''Admin''))))]),
    (''Admin'', Object_type
      [(''userId'', [], Required (Named ''Int64'')),
       (''email'', [], Required (Named ''String'')),
       (''name'', [], Required (Named ''String'')),
       (''createdAt'', [], Required (Named ''Timestamp''))]),
    (''AuditLogConnection'', Object_type
      [(''totalCount'', [], Required (Named ''Int64'')),
       (''nodes'', [], Required (ListOf (Required (Named ''AuditLogEntry'')))),
       (''pageInfo'', [], Required (Named ''PageInfo''))]),
    (''PageInfo'', Object_type
      [(''hasNextPage'', [], Required (Named ''Boolean'')),
       (''endCursor'', [], Named ''Int64'')]),
    (''AuditLogEntry'', Object_type
      [(''id'', [], Required (Named ''Int64'')),
       (''userId'', [], Named ''Int64''),
       (''email'', [], Required (Named ''String'')),
       (''action'', [], Required (Named ''String'')),
       (''detail'', [], Required (Named ''String'')),
       (''ip'', [], Required (Named ''String'')),
       (''createdAt'', [], Required (Named ''Timestamp''))])]"

definition mutation_schema :: "(string \<times> type_def) list" where
  "mutation_schema =
   [(''ErrorPayload'', Object_type
      [(''message'', [], Required (Named ''String'')),
       (''byFields'', [], Required (ListOf (Required (Named ''FieldMessage''))))]),
    (''FieldMessage'', Object_type
      [(''name'', [], Required (Named ''String'')),
       (''value'', [], Required (Named ''String''))]),
    (''BanUserInput'', Input_type [(''userId'', Required (Named ''Int64'')), (''reason'',
      Required (Named ''String''))]),
    (''BanUserPayload'', Object_type
      [(''userId'', [], Required (Named ''Int64''))]),
    (''BanUserOrErrorPayload'', Union_type [''BanUserPayload'', ''ErrorPayload'']),
    (''UnbanUserInput'', Input_type [(''userId'', Required (Named ''Int64''))]),
    (''UnbanUserPayload'', Object_type
      [(''userId'', [], Required (Named ''Int64''))]),
    (''UnbanUserOrErrorPayload'', Union_type [''UnbanUserPayload'', ''ErrorPayload'']),
    (''MakeAdminInput'', Input_type [(''userId'', Required (Named ''Int64''))]),
    (''MakeAdminPayload'', Object_type
      [(''userId'', [], Required (Named ''Int64''))]),
    (''MakeAdminOrErrorPayload'', Union_type [''MakeAdminPayload'', ''ErrorPayload'']),
    (''RemoveAdminInput'', Input_type [(''userId'', Required (Named ''Int64''))]),
    (''RemoveAdminPayload'', Object_type
      [(''userId'', [], Required (Named ''Int64''))]),
    (''RemoveAdminOrErrorPayload'', Union_type [''RemoveAdminPayload'', ''ErrorPayload''])]"

text \<open>
  The types that every schema has, as the executor has them, and the fields of a query that lead
  to them.
\<close>

definition introspection_schema :: "(string \<times> type_def) list" where
  "introspection_schema =
   [(''String'', Scalar_type), (''Boolean'', Scalar_type),
    (''__Schema'', Object_type
      [(''description'', [], Named ''String''),
       (''types'', [], Required (ListOf (Required (Named ''__Type'')))),
       (''queryType'', [], Required (Named ''__Type'')),
       (''mutationType'', [], Named ''__Type''),
       (''subscriptionType'', [], Named ''__Type''),
       (''directives'', [], Required (ListOf (Required (Named ''__Directive''))))]),
    (''__Type'', Object_type
      [(''kind'', [], Required (Named ''__TypeKind'')),
       (''name'', [], Named ''String''),
       (''description'', [], Named ''String''),
       (''specifiedByURL'', [], Named ''String''),
       (''fields'', [(''includeDeprecated'', Named ''Boolean'')], ListOf (Required (Named ''__Field''))),
       (''interfaces'', [], ListOf (Required (Named ''__Type''))),
       (''possibleTypes'', [], ListOf (Required (Named ''__Type''))),
       (''enumValues'', [(''includeDeprecated'', Named ''Boolean'')], ListOf (Required (Named ''__EnumValue''))),
       (''inputFields'', [], ListOf (Required (Named ''__InputValue''))),
       (''ofType'', [], Named ''__Type''),
       (''isOneOf'', [], Named ''Boolean'')]),
    (''__Field'', Object_type
      [(''name'', [], Required (Named ''String'')),
       (''description'', [], Named ''String''),
       (''args'', [(''includeDeprecated'', Named ''Boolean'')], Required (ListOf (Required (Named ''__InputValue'')))),
       (''type'', [], Required (Named ''__Type'')),
       (''isDeprecated'', [], Required (Named ''Boolean'')),
       (''deprecationReason'', [], Named ''String'')]),
    (''__InputValue'', Object_type
      [(''name'', [], Required (Named ''String'')),
       (''description'', [], Named ''String''),
       (''type'', [], Required (Named ''__Type'')),
       (''defaultValue'', [], Named ''String''),
       (''isDeprecated'', [], Required (Named ''Boolean'')),
       (''deprecationReason'', [], Named ''String'')]),
    (''__EnumValue'', Object_type
      [(''name'', [], Required (Named ''String'')),
       (''description'', [], Named ''String''),
       (''isDeprecated'', [], Required (Named ''Boolean'')),
       (''deprecationReason'', [], Named ''String'')]),
    (''__Directive'', Object_type
      [(''name'', [], Required (Named ''String'')),
       (''description'', [], Named ''String''),
       (''isRepeatable'', [], Required (Named ''Boolean'')),
       (''locations'', [], Required (ListOf (Required (Named ''__DirectiveLocation'')))),
       (''args'', [(''includeDeprecated'', Named ''Boolean'')], Required (ListOf (Required (Named ''__InputValue''))))]),
    (''__TypeKind'', Enum_type [''SCALAR'', ''OBJECT'', ''INTERFACE'', ''UNION'', ''ENUM'', ''INPUT_OBJECT'',
       ''LIST'', ''NON_NULL'']),
    (''__DirectiveLocation'', Enum_type [''QUERY'', ''MUTATION'', ''SUBSCRIPTION'', ''FIELD'',
       ''FRAGMENT_DEFINITION'', ''FRAGMENT_SPREAD'', ''INLINE_FRAGMENT'', ''VARIABLE_DEFINITION'', ''SCHEMA'',
       ''SCALAR'', ''OBJECT'', ''FIELD_DEFINITION'', ''ARGUMENT_DEFINITION'', ''INTERFACE'', ''UNION'', ''ENUM'',
       ''ENUM_VALUE'', ''INPUT_OBJECT'', ''INPUT_FIELD_DEFINITION''])]"

definition meta_fields :: "(string \<times> (string \<times> gtype) list \<times> gtype) list" where
  "meta_fields =
     [(''__type'', [(''name'', Required (Named ''String''))], Named ''__Type''),
      (''__schema'', [], Named ''__Schema'')]"

definition schema :: "(string \<times> type_def) list" where
  "schema = viewer_schema @ panel_schema @ mutation_schema @ introspection_schema"

definition fields_of :: "string \<Rightarrow> (string \<times> (string \<times> gtype) list \<times> gtype) list option" where
  "fields_of T =
     (case map_of schema T of
        Some (Object_type fs) \<Rightarrow> Some (if T = ''Query'' then fs @ meta_fields else fs)
      | _ \<Rightarrow> None)"

definition members_of :: "string \<Rightarrow> string list option" where
  "members_of U = (case map_of schema U of Some (Union_type Ts) \<Rightarrow> Some Ts | _ \<Rightarrow> None)"

fun is_leaf :: "type_def \<Rightarrow> bool" where
  "is_leaf Scalar_type \<longleftrightarrow> True"
| "is_leaf (Enum_type names) \<longleftrightarrow> True"
| "is_leaf _ \<longleftrightarrow> False"

definition leaf :: "string \<Rightarrow> bool" where
  "leaf n \<longleftrightarrow> (case map_of schema n of Some d \<Rightarrow> is_leaf d | None \<Rightarrow> False)"

text \<open>The type and the unions it is a member of, in the order of the schema.\<close>

definition implementors_of :: "string \<Rightarrow> string list" where
  "implementors_of T =
     T # map fst (filter (\<lambda>(n, d). case d of Union_type Ts \<Rightarrow> T \<in> set Ts | _ \<Rightarrow> False) schema)"

fun base_type :: "gtype \<Rightarrow> string" where
  "base_type (Named n) = n"
| "base_type (ListOf t) = base_type t"
| "base_type (Required t) = base_type t"

fun is_required :: "gtype \<Rightarrow> bool" where
  "is_required (Required t) \<longleftrightarrow> True"
| "is_required _ \<longleftrightarrow> False"

fun optional_type :: "gtype \<Rightarrow> gtype" where
  "optional_type (Required t) = optional_type t"
| "optional_type t = t"

section \<open>Valid documents\<close>

definition collected_on :: "'g executionContext \<Rightarrow> string \<Rightarrow> Selection list \<Rightarrow> CollectedField list" where
  "collected_on ec T sel = gql_CollectFields (rt_gqlgen (ec_runtime ec)) (Some (ec_OperationContext ec)) sel
     (implementors_of T)"

text \<open>
  A selection set is valid on a type when every field that is collected on it is one of the type,
  with arguments of the field, and its own selections are valid on its type; on a union when it is
  valid on every member. The library checks this before it executes an operation.
\<close>

inductive valid :: "'g executionContext \<Rightarrow> string \<Rightarrow> Selection list \<Rightarrow> bool" for ec where
  leaf: "leaf n \<Longrightarrow> valid ec n sel"
| object: "fields_of T = Some fs \<Longrightarrow>
    (\<And>field. field \<in> set (collected_on ec T sel) \<Longrightarrow> field_Name field = ''__typename'' \<or>
       (\<exists>args t. map_of fs (field_Name field) = Some (args, t)
          \<and> fst ` set (field_Args field) \<subseteq> fst ` set args
          \<and> valid ec (base_type t) (field_Selections field))) \<Longrightarrow>
    valid ec T sel"
| union: "members_of U = Some Ts \<Longrightarrow> (\<And>T. T \<in> set Ts \<Longrightarrow> valid ec T sel) \<Longrightarrow> valid ec U sel"

section \<open>Answers of a type\<close>

text \<open>
  What a selection set on a type may be answered with: null where the type is not required, one
  answer for each field that is collected, in their order, each of the type of its field. A field
  that is deferred may be null in the first response whatever its type.
\<close>

inductive conforms :: "'g executionContext \<Rightarrow> gtype \<Rightarrow> Selection list \<Rightarrow> Marshaler \<Rightarrow> bool" for ec where
  Null: "\<not> is_required t \<Longrightarrow> conforms ec t sel Null"
| Required: "conforms ec t sel m \<Longrightarrow> m \<noteq> Null \<Longrightarrow> conforms ec (Required t) sel m"
| Leaf: "leaf n \<Longrightarrow> conforms ec (Named n) sel (Written text)"
| Role: "conforms ec (Named ''ViewerRole'') sel (RoleMarshaler role)"
| List: "(\<And>m. m \<in> set ms \<Longrightarrow> conforms ec t sel m) \<Longrightarrow> conforms ec (ListOf t) sel (ArrayMarshaler ms)"
| Object: "fields_of T = Some fs \<Longrightarrow>
    list_all2 (\<lambda>field m.
      field_Name field = ''__typename'' \<and> m = rt_MarshalString (ec_runtime ec) T \<or>
      (\<exists>args t. map_of fs (field_Name field) = Some (args, t)
         \<and> (conforms ec t (field_Selections field) m
             \<or> m = Null \<and> rt_IsDeferred (ec_runtime ec) field)))
      (collected_on ec T sel) ms \<Longrightarrow>
    conforms ec (Named T) sel (FieldSetMarshaler (collected_on ec T sel) ms)"
| Union: "members_of U = Some Ts \<Longrightarrow> T \<in> set Ts \<Longrightarrow> conforms ec (Named T) sel m \<Longrightarrow> conforms ec (Named U) sel m"

end
