(* ===== verification/ExecSure.thy ===== *)
theory ExecSure
  imports GqlSchema IntroProps ExecValues
begin

text \<open>
  Computations of the executor that do not panic and answer in a type: the judgement, the law of
  the runtime it rests on, and the rule for a selection set.
\<close>

section \<open>Judgements\<close>

text \<open>
  The counters of the field sets that exist only grow. A computation is steady when it respects
  that; it is safe for a condition when what it returns satisfies it, and sure when it also does
  not panic.
\<close>

definition grows :: "'g exec_state \<Rightarrow> 'g exec_state \<Rightarrow> bool" where
  "grows s s' \<longleftrightarrow> ex_sets s \<le> ex_sets s' \<and> (\<forall>k < ex_sets s. ex_Invalids s k \<le> ex_Invalids s' k)"

lemma grows_refl [simp]: "grows s s"
  by (simp add: grows_def)

lemma grows_trans: "grows s s' \<Longrightarrow> grows s' s'' \<Longrightarrow> grows s s''"
  unfolding grows_def by (meson order_less_le_trans order_trans)

definition steady :: "('g, 'a) ex \<Rightarrow> bool" where
  "steady m \<longleftrightarrow> (\<forall>s. grows s (snd (run m s)))"

definition safe :: "('g, 'a) px \<Rightarrow> ('a \<Rightarrow> bool) \<Rightarrow> bool" where
  "safe m P \<longleftrightarrow> steady m \<and> (\<forall>s x. fst (run m s) = Inr x \<longrightarrow> P x)"

definition sure :: "('g, 'a) px \<Rightarrow> ('a \<Rightarrow> bool) \<Rightarrow> bool" where
  "sure m P \<longleftrightarrow> safe m P \<and> (\<forall>s p. fst (run m s) \<noteq> Inl p)"

lemma sure_safe: "sure m P \<Longrightarrow> safe m P"
  by (simp add: sure_def)

lemma sure_steady: "sure m P \<Longrightarrow> steady m"
  by (simp add: sure_def safe_def)

lemma sure_mono: "sure m P \<Longrightarrow> (\<And>x. P x \<Longrightarrow> Q x) \<Longrightarrow> sure m Q"
  by (simp add: sure_def safe_def)

lemma sureE:
  assumes "sure m P"
  obtains x s' where "run m s = (Inr x, s')" "P x" "grows s s'"
  using assms unfolding sure_def safe_def steady_def
  by (metis fst_conv snd_conv surj_pair sum.exhaust)

lemma steadyD: "steady m \<Longrightarrow> run m s = (x, s') \<Longrightarrow> grows s s'"
  unfolding steady_def by (metis snd_conv)

named_theorems steady_rules \<open>how steadiness passes through a computation\<close>
named_theorems sure_rules \<open>the same for answers in a type\<close>

lemma steady_return [steady_rules]: "steady (ret x)"
  by (simp add: steady_def)

lemma steady_bind [steady_rules]: "steady m \<Longrightarrow> (\<And>x. steady (f x)) \<Longrightarrow> steady (m \<bind> f)"
  unfolding steady_def by (auto split: prod.splits) (metis grows_trans snd_conv)

lemma steady_ask [steady_rules]: "steady (ask_world f)"
  by (simp add: steady_def)

lemma steady_modify [steady_rules]: "(\<And>s. grows s (f s)) \<Longrightarrow> steady (modify_world f)"
  by (simp add: steady_def)

lemma steady_if [steady_rules]: "steady m \<Longrightarrow> steady n \<Longrightarrow> steady (if b then m else n)"
  by simp

lemma steady_sum [steady_rules]:
  "(\<And>e. steady (f e)) \<Longrightarrow> (\<And>x. steady (g x)) \<Longrightarrow> steady (case r of Inl e \<Rightarrow> f e | Inr x \<Rightarrow> g x)"
  by (simp split: sum.splits)

lemma steady_option [steady_rules]:
  "steady m \<Longrightarrow> (\<And>x. steady (f x)) \<Longrightarrow> steady (case r of None \<Rightarrow> m | Some x \<Rightarrow> f x)"
  by (simp split: option.splits)

lemma steady_and_then [steady_rules]: "steady m \<Longrightarrow> (\<And>x. steady (f x)) \<Longrightarrow> steady (and_then m f)"
  unfolding and_then_def by (intro steady_rules)

lemma steady_on_world [steady_rules]: "steady (on_world m)"
  by (auto simp: steady_def on_world_def grows_def split: prod.splits)

lemma steady_resolved [steady_rules]: "steady (resolved box m)"
  unfolding resolved_def by (intro steady_rules)

lemma steady_assert_type [steady_rules]: "(\<And>x. steady (f x)) \<Longrightarrow> steady (assert_type v f)"
  unfolding assert_type_def by (intro steady_rules)

lemma steady_values [steady_rules]: "steady (plain_value v)" "steady (introspected box r)"
  unfolding plain_value_def introspected_def by (intro steady_rules)+

lemma steady_inputs [steady_rules]:
  "steady m \<Longrightarrow> steady (box_input box m)" "steady m' \<Longrightarrow> steady (on_path ec ctx m')"
  "steady (unmarshal_input read ks it obj)"
  unfolding box_input_def on_path_def unmarshal_input_def
  by (auto intro!: steady_rules split: json.splits)

lemma safe_assert_type [sure_rules]: "(\<And>x. sure (f x) P) \<Longrightarrow> safe (assert_type v f) P"
  by (auto simp: assert_type_def safe_def sure_def steady_return split: option.splits)

lemma sure_return [sure_rules]: "P x \<Longrightarrow> sure (ret (Inr x)) P"
  by (simp add: sure_def safe_def steady_return)

lemma sure_bind:
  assumes "steady m" and "\<And>x. sure (f x) P"
  shows "sure (m \<bind> f) P"
  using assms steady_bind [OF assms(1) sure_steady [OF assms(2)]]
  by (auto simp: sure_def safe_def split: prod.splits)

section \<open>The law\<close>

text \<open>
  What \<open>gqlgen\<close> promises beyond \<open>runtime_documented\<close>. Its functions leave the counters of the field
  sets alone. \<open>ResolveField\<close>, told to recover, answers null or what the marshaller gives for the
  selections of the field; the elements of a list are marshalled one by one; a root field and a
  deferred group are computed by what is given for them; scalars are written.
\<close>

definition steady_calls :: "'g runtime \<Rightarrow> bool" where
  "steady_calls rt \<longleftrightarrow>
     (\<forall>object field m r err. steady (rt_NewScalarFieldContext rt object field m r err)) \<and>
     (\<forall>ctx. steady (rt_HasFieldError rt ctx)) \<and>
     (\<forall>ctx text. steady (rt_AddErrorf rt ctx text)) \<and>
     (\<forall>ctx err. steady (rt_Error rt ctx err)) \<and>
     (\<forall>ctx p. steady (rt_Recover rt ctx p)) \<and>
     (\<forall>ctx v. steady (rt_SetResult rt ctx v)) \<and>
     (\<forall>ctx raw name zero read. (\<forall>c v. steady (read c v)) \<longrightarrow>
        steady (rt_ProcessArgField rt ctx raw name zero read))"

definition answers_fields :: "'g runtime \<Rightarrow> bool" where
  "answers_fields rt \<longleftrightarrow>
     (\<forall>P ctx oc field fctx resolver marshal nonnull.
        (\<forall>c f. steady (fctx c f)) \<longrightarrow> (\<forall>c. steady (resolver c)) \<longrightarrow>
        (\<forall>c v. safe (marshal c (field_Selections field) v) P) \<longrightarrow>
        sure (rt_ResolveField rt ctx oc field fctx resolver marshal True nonnull) (\<lambda>m. m = Null \<or> P m))"

definition answers_parts :: "'g runtime \<Rightarrow> bool" where
  "answers_parts rt \<longleftrightarrow>
     (\<forall>P ctx n k fast f. (\<forall>c i. i < n \<longrightarrow> sure (f c i) P) \<longrightarrow>
        sure (rt_MarshalSliceConcurrently rt ctx n k fast f) (\<lambda>vs. length vs = n \<and> (\<forall>v \<in> set vs. P v))) \<and>
     (\<forall>ctx f s. \<exists>c. run (rt_RootResolverMiddleware rt ctx f) s = run (f c) s) \<and>
     (\<forall>dg. (\<forall>c. \<forall>(i, f) \<in> set (fs_delayed (dg_FieldSet dg)). sure (f c) (\<lambda>_. True)) \<longrightarrow>
        sure (rt_ProcessDeferredGroup rt dg) (\<lambda>_. True))"

definition writes_scalars :: "'g runtime \<Rightarrow> bool" where
  "writes_scalars rt \<longleftrightarrow>
     (\<forall>text. \<exists>w. rt_MarshalString rt text = Written w) \<and>
     (\<forall>n. \<exists>w. rt_MarshalInt64 rt n = Written w) \<and>
     (\<forall>b. \<exists>w. rt_MarshalBoolean rt b = Written w)"

definition typed_runtime :: "'g runtime \<Rightarrow> bool" where
  "typed_runtime rt \<longleftrightarrow> steady_calls rt \<and> answers_fields rt \<and> answers_parts rt \<and> writes_scalars rt
     \<and> answers_in_order rt \<and> collects_below (rt_gqlgen rt)"

lemma steady_runtime [steady_rules]:
  assumes "typed_runtime rt"
  shows "steady (rt_NewScalarFieldContext rt object field m r err)"
    and "steady (rt_HasFieldError rt ctx)"
    and "steady (rt_AddErrorf rt ctx text)"
    and "steady (rt_Error rt ctx err')"
    and "steady (rt_Recover rt ctx p)"
    and "steady (rt_SetResult rt ctx v)"
    and "(\<And>c v. steady (read c v)) \<Longrightarrow> steady (rt_ProcessArgField rt ctx raw name zero read)"
  using assms by (simp_all add: typed_runtime_def steady_calls_def)

lemma sure_ResolveField:
  assumes "typed_runtime rt" and "\<And>c f. steady (fctx c f)" and "\<And>c. steady (resolver c)"
    and "\<And>c v. safe (marshal c (field_Selections field) v) P" and "P Null"
  shows "sure (rt_ResolveField rt ctx oc field fctx resolver marshal True nonnull) P"
proof -
  have "sure (rt_ResolveField rt ctx oc field fctx resolver marshal True nonnull) (\<lambda>m. m = Null \<or> P m)"
    using assms(1-4) unfolding typed_runtime_def answers_fields_def by blast
  then show ?thesis by (rule sure_mono) (use assms(5) in auto)
qed

lemma sure_Root [sure_rules]:
  assumes "typed_runtime rt" and "\<And>c. sure (f c) P"
  shows "sure (rt_RootResolverMiddleware rt ctx f) P"
proof -
  have "\<exists>c. run (rt_RootResolverMiddleware rt ctx f) s = run (f c) s" for s
    using assms(1) unfolding typed_runtime_def answers_parts_def by blast
  with assms(2) show ?thesis unfolding sure_def safe_def steady_def by metis
qed

lemma sure_Slice:
  assumes "typed_runtime rt" and "\<And>c i. i < n \<Longrightarrow> sure (f c i) P"
  shows "sure (rt_MarshalSliceConcurrently rt ctx n k fast f) (\<lambda>vs. length vs = n \<and> (\<forall>v \<in> set vs. P v))"
  using assms unfolding typed_runtime_def answers_parts_def by blast

section \<open>Arguments and scalars\<close>

lemma steady_read_args [steady_rules]:
  assumes "typed_runtime (ec_runtime ec)"
    and "\<And>name zero read c v. (name, zero, read) \<in> set specs \<Longrightarrow> steady (read c v)"
  shows "steady (read_args ec ctx raw specs args)"
  using assms(2)
proof (induction specs arbitrary: args)
  case (Cons spec specs)
  obtain name zero read where spec: "spec = (name, zero, read)" by (cases spec)
  have "steady (read c v)" for c v
    by (rule Cons.prems [of name zero read]) (simp add: spec)
  moreover have "steady (read_args ec ctx raw specs args)" for args
    using Cons.IH Cons.prems by (meson list.set_intros(2))
  ultimately show ?case
    unfolding spec read_args.simps by (intro steady_rules assms(1))
qed (simp add: steady_return)

lemma steady_contexts [steady_rules]:
  assumes "typed_runtime (ec_runtime ec)"
  shows "steady (scalar_context ec object field m r typename)"
    and "(\<And>c raw. steady (read c raw)) \<Longrightarrow> steady (context_with_args ec ctx field fc read)"
    and "steady (report_null ec ctx)"
  unfolding scalar_context_def context_with_args_def report_null_def Let_def
  by (intro steady_rules assms; simp)+

lemma leaves [simp]:
  "leaf ''String''" "leaf ''Boolean''" "leaf ''Int64''" "leaf ''__TypeKind''" "leaf ''__DirectiveLocation''"
  by code_simp+

lemma conforms_Null [simp]: "conforms ec (Named n) sel Null" "conforms ec (ListOf t) sel Null"
  by (simp_all add: conforms.Null)

lemma sure_and_then:
  assumes "sure m P" and "\<And>x. P x \<Longrightarrow> sure (f x) Q"
  shows "sure (and_then m f) Q"
proof -
  have "\<exists>x s'. run (and_then m f) s = (Inr x, s') \<and> Q x \<and> grows s s'" for s
  proof -
    obtain y s1 where y: "run m s = (Inr y, s1)" "P y" "grows s s1" by (rule sureE [OF assms(1)])
    obtain x s' where "run (f y) s1 = (Inr x, s')" "Q x" "grows s1 s'"
      by (rule sureE [OF assms(2) [OF y(2)]])
    with y show ?thesis by (auto simp: run_and_then intro: grows_trans)
  qed
  then show ?thesis unfolding sure_def safe_def steady_def
    by (metis Inl_Inr_False fst_conv snd_conv sum.inject(2))
qed

lemma sure_nonnull [sure_rules]:
  assumes "typed_runtime (ec_runtime ec)" and "P res"
  shows "sure (marshal_nonnull ec ctx res) P"
  unfolding marshal_nonnull_def
  by (intro sure_bind sure_return steady_rules assms)

lemma sure_scalars [sure_rules]:
  assumes "typed_runtime (ec_runtime ec)"
  shows "sure (marshalNInt64 ec ctx sel n) (conforms ec (Named ''Int64'') sel)"
    and "sure (marshalNString ec ctx sel text) (conforms ec (Named ''String'') sel)"
    and "sure (marshalNBoolean ec ctx sel b) (conforms ec (Named ''Boolean'') sel)"
    and "sure (marshalNViewerRole ec ctx sel role) (conforms ec (Named ''ViewerRole'') sel)"
    and "sure (marshalOInt64 ec ctx sel k) (conforms ec (Named ''Int64'') sel)"
    and "sure (marshalOString ec ctx sel opt) (conforms ec (Named ''String'') sel)"
    and "sure (marshalOBoolean ec ctx sel b) (conforms ec (Named ''Boolean'') sel)"
    and "sure (marshalN__TypeKind ec ctx sel text) (conforms ec (Named ''__TypeKind'') sel)"
    and "sure (marshalN__DirectiveLocation ec ctx sel text) (conforms ec (Named ''__DirectiveLocation'') sel)"
proof -
  obtain ws where ws: "\<And>text. rt_MarshalString (ec_runtime ec) text = Written (ws text)"
    using assms unfolding typed_runtime_def writes_scalars_def by metis
  obtain wi where wi: "\<And>n. rt_MarshalInt64 (ec_runtime ec) n = Written (wi n)"
    using assms unfolding typed_runtime_def writes_scalars_def by metis
  obtain wb where wb: "\<And>b. rt_MarshalBoolean (ec_runtime ec) b = Written (wb b)"
    using assms unfolding typed_runtime_def writes_scalars_def by metis
  note written = ws wi wb conforms.Leaf conforms.Role
  show "sure (marshalNInt64 ec ctx sel n) (conforms ec (Named ''Int64'') sel)"
    "sure (marshalNString ec ctx sel text) (conforms ec (Named ''String'') sel)"
    "sure (marshalNBoolean ec ctx sel b) (conforms ec (Named ''Boolean'') sel)"
    "sure (marshalNViewerRole ec ctx sel role) (conforms ec (Named ''ViewerRole'') sel)"
    "sure (marshalOInt64 ec ctx sel k) (conforms ec (Named ''Int64'') sel)"
    "sure (marshalOString ec ctx sel opt) (conforms ec (Named ''String'') sel)"
    "sure (marshalOBoolean ec ctx sel b) (conforms ec (Named ''Boolean'') sel)"
    "sure (marshalN__TypeKind ec ctx sel text) (conforms ec (Named ''__TypeKind'') sel)"
    "sure (marshalN__DirectiveLocation ec ctx sel text) (conforms ec (Named ''__DirectiveLocation'') sel)"
    unfolding marshalNInt64_def marshalNString_def marshalNBoolean_def marshalNViewerRole_def
      marshalOInt64_def marshalOString_def marshalOBoolean_def marshalN__TypeKind_def
      marshalN__DirectiveLocation_def
    by (intro sure_rules assms; simp add: written split: option.splits)+
qed

lemma sure_pointers [sure_rules]:
  "typed_runtime (ec_runtime ec) \<Longrightarrow> P Null \<Longrightarrow> (\<And>x. sure (f x) P) \<Longrightarrow> sure (marshal_pointer ec ctx v f) P"
  "P Null \<Longrightarrow> (\<And>x. sure (f x) P) \<Longrightarrow> sure (marshal_optional v f) P"
  unfolding marshal_pointer_def marshal_optional_def
  by (auto intro!: sure_bind sure_return steady_rules split: option.splits)

lemma sure_lists [sure_rules]:
  assumes "typed_runtime (ec_runtime ec)" and "\<And>c x. sure (h c x) (conforms ec t sel)"
  shows "sure (marshal_list ec ctx box v h) (conforms ec (ListOf (Required t)) sel)"
    and "sure (marshal_slice ec ctx box w h) (conforms ec (ListOf (Required t)) sel)"
proof -
  have elems: "sure (rt_MarshalSliceConcurrently (ec_runtime ec) ctx (length v) 0 False (\<lambda>ctx i. do {
         rt_SetResult (ec_runtime ec) ctx (box (v ! i));
         h ctx (v ! i)
       })) (\<lambda>vs. length vs = length v \<and> (\<forall>m \<in> set vs. conforms ec t sel m))" for v
    by (rule sure_Slice [OF assms(1)]) (intro sure_bind steady_runtime(6) [OF assms(1)] assms(2))
  have list: "sure (marshal_list ec ctx box v h) (conforms ec (ListOf (Required t)) sel)" for v
    unfolding marshal_list_def
    by (rule sure_and_then [OF elems], rule sure_return) (auto intro!: conforms.List conforms.Required)
  show "sure (marshal_list ec ctx box v h) (conforms ec (ListOf (Required t)) sel)" by (rule list)
  show "sure (marshal_slice ec ctx box w h) (conforms ec (ListOf (Required t)) sel)"
    unfolding marshal_slice_def by (auto intro!: list sure_return split: option.splits)
qed

section \<open>Selection sets\<close>

lemma conforms_optional:
  "conforms ec (optional_type t) sel m \<Longrightarrow> (is_required t \<Longrightarrow> m \<noteq> Null) \<Longrightarrow> conforms ec t sel m"
  by (induction t) (auto intro: conforms.Required)

text \<open>A branch answers in the type of its field, or with null, which it tests when it must.\<close>

definition tests_null :: "gtype \<Rightarrow> null_test \<Rightarrow> bool" where
  "tests_null t test \<longleftrightarrow> (is_required t \<longrightarrow> test = NonNull)"

definition field_sure ::
  "'g executionContext \<Rightarrow> Selection list \<Rightarrow> gtype \<Rightarrow> (ectx \<Rightarrow> CollectedField \<Rightarrow> ('g, Marshaler) px) \<Rightarrow> bool" where
  "field_sure ec sel t f \<longleftrightarrow> (\<forall>ctx field.
     valid ec (base_type t) (field_Selections field) \<and>
     selections_depth (field_Selections field) < selections_depth sel \<longrightarrow>
     sure (f ctx field) (conforms ec (optional_type t) (field_Selections field)))"

primrec branch_sure :: "'g executionContext \<Rightarrow> Selection list \<Rightarrow> gtype \<Rightarrow> 'g branch \<Rightarrow> bool" where
  "branch_sure ec sel t (AtOnce test f) \<longleftrightarrow> tests_null t test \<and> field_sure ec sel t f"
| "branch_sure ec sel t (Goroutine test f) \<longleftrightarrow> tests_null t test \<and> field_sure ec sel t f"
| "branch_sure ec sel t (RootGoroutine test f) \<longleftrightarrow> tests_null t test \<and> field_sure ec sel t f"

text \<open>A goroutine answers in a type, or adds to the counter of its field set.\<close>

definition tries :: "nat \<Rightarrow> ('g, Marshaler) px \<Rightarrow> (Marshaler \<Rightarrow> bool) \<Rightarrow> bool" where
  "tries n m P \<longleftrightarrow> steady m \<and> (\<forall>s. n < ex_sets s \<longrightarrow>
     (\<exists>x s'. run m s = (Inr x, s') \<and> (P x \<or> 0 < ex_Invalids s' n)))"

lemma grows_add_invalid: "steady (add_invalid fs)"
  unfolding add_invalid_def by (rule steady_modify) (simp add: grows_def)

lemma tries_mono: "tries n m P \<Longrightarrow> (\<And>x. P x \<Longrightarrow> Q x) \<Longrightarrow> tries n m Q"
  unfolding tries_def by blast

lemma run_innerFunc:
  "run (f ctx field) s = (Inr x, s') \<Longrightarrow>
   run (innerFunc ec test f field ctx fs) s
     = run (do { (if is_invalid test x then add_invalid fs else ret ()); ret (Inr x) }) s'"
  by (simp add: innerFunc_def)

lemma sure_innerFunc:
  assumes "typed_runtime (ec_runtime ec)" and "steady (f ctx field)"
  shows "sure (innerFunc ec test f field ctx fs) (\<lambda>_. True)"
  unfolding innerFunc_def
  by (rule sure_bind [OF assms(2)])
    (auto intro!: sure_bind sure_return steady_rules grows_add_invalid assms(1) split: sum.splits)

lemma tries_innerFunc:
  assumes "typed_runtime (ec_runtime ec)" and "sure (f ctx field) (conforms ec (optional_type t) sel)"
    and "tests_null t test"
  shows "tries (fs_number fs) (innerFunc ec test f field ctx fs) (conforms ec t sel)"
  unfolding tries_def
proof (intro conjI allI impI)
  show "steady (innerFunc ec test f field ctx fs)"
    by (rule sure_steady [OF sure_innerFunc [where f = f, OF assms(1) sure_steady [OF assms(2)]]])
  fix s
  obtain x s' where x: "run (f ctx field) s = (Inr x, s')" "conforms ec (optional_type t) sel x"
    by (rule sureE [OF assms(2)])
  have "conforms ec t sel x" if "\<not> is_invalid test x"
    by (rule conforms_optional [OF x(2)]) (use that assms(3) in \<open>auto simp: tests_null_def\<close>)
  then show "\<exists>x s'. run (innerFunc ec test f field ctx fs) s = (Inr x, s')
      \<and> (conforms ec t sel x \<or> 0 < ex_Invalids s' (fs_number fs))"
    by (auto simp: run_innerFunc [where f = f, OF x(1)] add_invalid_def)
qed

lemma tries_Root:
  assumes "typed_runtime rt" and "\<And>c. tries n (f c) P"
  shows "tries n (rt_RootResolverMiddleware rt ctx f) P"
proof -
  have "\<exists>c. run (rt_RootResolverMiddleware rt ctx f) s = run (f c) s" for s
    using assms(1) unfolding typed_runtime_def answers_parts_def by blast
  with assms(2) show ?thesis unfolding tries_def steady_def by metis
qed

text \<open>
  The state of the loop: every place of the field set that is behind it holds an answer of its
  type or is left to a goroutine, unless the set is invalid already.
\<close>

definition filling ::
  "(nat \<Rightarrow> Marshaler \<Rightarrow> bool) \<Rightarrow> nat \<Rightarrow> nat set \<Rightarrow> 'g FieldSet \<Rightarrow> 'g exec_state \<Rightarrow> bool" where
  "filling P len ahead out s \<longleftrightarrow>
     length (fs_Values out) = len \<and> fs_number out < ex_sets s \<and>
     (\<forall>(i, f) \<in> set (fs_delayed out). i < len \<and> (\<forall>c. tries (fs_number out) (f c) (P i))) \<and>
     (\<forall>j < len. j \<in> ahead \<or> P j (fs_Values out ! j) \<or> 0 < ex_Invalids s (fs_number out)
        \<or> j \<in> fst ` set (fs_delayed out))"

lemma filling_grows: "filling P len ahead out s \<Longrightarrow> grows s s' \<Longrightarrow> filling P len ahead out s'"
  unfolding filling_def grows_def by (meson order_less_le_trans)

lemma filling_value:
  assumes "filling P len (insert i ahead) out s" and "P i v \<or> 0 < ex_Invalids s (fs_number out)"
  shows "filling P len ahead (set_value i v out) s"
proof -
  have "P j ((fs_Values out)[i := v] ! j) \<or> 0 < ex_Invalids s (fs_number out)"
    if "j = i \<or> P j (fs_Values out ! j)" "j < length (fs_Values out)" for j
    using that assms(2) by (cases "j = i") auto
  with assms(1) show ?thesis unfolding filling_def set_value_def by simp blast
qed

lemma filling_goroutine:
  assumes "filling P len (insert i ahead) out s" and "i < len" and "\<And>c. tries (fs_number out) (f c) (P i)"
  shows "filling P len ahead (Concurrently i f out) s"
  using assms unfolding filling_def Concurrently_def by auto

definition sure_delayed :: "'g FieldSet \<Rightarrow> bool" where
  "sure_delayed fs \<longleftrightarrow> (\<forall>(i, f) \<in> set (fs_delayed fs). \<forall>c. sure (f c) (\<lambda>_. True))"

lemma sure_delayed_simps [simp]:
  "sure_delayed (AddField field fs) = sure_delayed fs"
  "sure_delayed (Concurrently i f fs) \<longleftrightarrow> sure_delayed fs \<and> (\<forall>c. sure (f c) (\<lambda>_. True))"
  by (auto simp: sure_delayed_def AddField_def Concurrently_def)

text \<open>What an entry of the loop may be answered with.\<close>

definition entry_ok ::
  "'g executionContext \<Rightarrow> string \<Rightarrow> (string \<times> (string \<times> gtype) list \<times> gtype) list \<Rightarrow> CollectedField \<Rightarrow>
   Marshaler \<Rightarrow> bool" where
  "entry_ok ec T fs field m \<longleftrightarrow>
     field_Name field = ''__typename'' \<and> m = rt_MarshalString (ec_runtime ec) T \<or>
     (\<exists>args t. map_of fs (field_Name field) = Some (args, t)
        \<and> (conforms ec t (field_Selections field) m \<or> m = Null \<and> rt_IsDeferred (ec_runtime ec) field))"

definition entry_sure ::
  "'g executionContext \<Rightarrow> (string \<times> (string \<times> gtype) list \<times> gtype) list \<Rightarrow> (string \<Rightarrow> 'g branch option) \<Rightarrow>
   CollectedField \<Rightarrow> bool" where
  "entry_sure ec fs switch field \<longleftrightarrow> field_Name field = ''__typename'' \<or>
     (\<exists>args t test f. map_of fs (field_Name field) = Some (args, t) \<and> tests_null t test
        \<and> (\<forall>ctx. sure (f ctx field) (conforms ec (optional_type t) (field_Selections field)))
        \<and> switch (field_Name field) \<in> {Some (AtOnce test f), Some (Goroutine test f), Some (RootGoroutine test f)})"

lemma entry_sure_cases:
  assumes "entry_sure ec fs switch field"
  obtains (typename) "field_Name field = ''__typename''"
    | (branch) args t test f where "field_Name field \<noteq> ''__typename''"
      "map_of fs (field_Name field) = Some (args, t)" "tests_null t test"
      "\<And>ctx. sure (f ctx field) (conforms ec (optional_type t) (field_Selections field))"
      "switch (field_Name field) \<in> {Some (AtOnce test f), Some (Goroutine test f), Some (RootGoroutine test f)}"
  using assms unfolding entry_sure_def by blast

lemma entry_okI:
  "map_of fs (field_Name field) = Some (args, t) \<Longrightarrow> conforms ec t (field_Selections field) m \<Longrightarrow>
   entry_ok ec T fs field m"
  "map_of fs (field_Name field) = Some (args, t) \<Longrightarrow> rt_IsDeferred (ec_runtime ec) field \<Longrightarrow>
   entry_ok ec T fs field Null"
  "field_Name field = ''__typename'' \<Longrightarrow> entry_ok ec T fs field (rt_MarshalString (ec_runtime ec) T)"
  by (auto simp: entry_ok_def)

lemma loop_fills:
  assumes typed: "typed_runtime (ec_runtime ec)"
    and P: "\<And>i. P i = entry_ok ec T fs (collected ! i)"
  shows "\<forall>(i, field) \<in> set todo. i < len \<and> field = collected ! i \<and> entry_sure ec fs switch field \<Longrightarrow>
    filling P len (fst ` set todo) out s \<Longrightarrow> sure_delayed deferred \<Longrightarrow>
    \<exists>out' deferred' views' s'.
      run (object_loop ec ctx T switch todo (out, deferred, views)) s = (Inr (out', deferred', views'), s')
      \<and> grows s s' \<and> filling P len {} out' s' \<and> sure_delayed deferred' \<and> fs_number out' = fs_number out"
proof (induction todo arbitrary: out deferred views s)
  case Nil
  then show ?case by simp
next
  case (Cons entry todo)
  obtain i field where entry: "entry = (i, field)" by (cases entry)
  have i: "i < len" "field = collected ! i" "entry_sure ec fs switch field"
    using Cons.prems(1) by (auto simp: entry)
  have fill: "filling P len (insert i (fst ` set todo)) out s" using Cons.prems(2) by (simp add: entry)
  have tail: "\<exists>out' deferred' views' s'.
      run (object_loop ec ctx T switch todo (o1, d1, views)) s1 = (Inr (out', deferred', views'), s')
      \<and> grows s s' \<and> filling P len {} out' s' \<and> sure_delayed deferred' \<and> fs_number out' = fs_number out"
    if "filling P len (fst ` set todo) o1 s1" "sure_delayed d1" "grows s s1" "fs_number o1 = fs_number out"
    for o1 d1 views s1
    using Cons.IH [OF _ that(1,2), of views] Cons.prems(1) that(3,4) by (force intro: grows_trans)
  have number: "fs_number (set_value i v out) = fs_number out" "fs_number (Concurrently i g out) = fs_number out"
    for v g by (simp_all add: set_value_def Concurrently_def)
  note filled = filling_value [OF fill]
  from i(3) show ?case
  proof (cases rule: entry_sure_cases)
    case typename
    have "P i (rt_MarshalString (ec_runtime ec) T)"
      using entry_okI(3) [OF typename] by (simp add: P i(2))
    with tail [OF filled Cons.prems(3) grows_refl number(1)] typename show ?thesis
      by (simp add: entry)
  next
    case (branch args t test f)
    have answer: "P i m" if "conforms ec t (field_Selections field) m" for m
      using entry_okI(1) [OF branch(2) that] by (simp add: P i(2))
    have inner: "tries (fs_number out) (innerFunc ec test f field c out) (P i)" for c
      by (rule tries_mono [OF tries_innerFunc [where f = f, OF typed branch(4,3)] answer])
    consider (now) "switch (field_Name field) = Some (AtOnce test f)"
      | (later) "switch (field_Name field) = Some (Goroutine test f)"
      | (root) "switch (field_Name field) = Some (RootGoroutine test f)"
      using branch(5) by auto
    then show ?thesis
    proof cases
      case now
      obtain v s1 where v: "run (f ctx field) s = (Inr v, s1)" "conforms ec (optional_type t) (field_Selections field) v"
        "grows s s1" by (rule sureE [OF branch(4)])
      obtain s2 where s2: "run (if is_invalid test v then add_invalid out else ret ()) s1 = ((), s2)" "grows s1 s2"
        "is_invalid test v \<Longrightarrow> 0 < ex_Invalids s2 (fs_number out)"
        using steadyD [OF grows_add_invalid] by (cases "is_invalid test v") (auto simp: add_invalid_def)
      have grown: "grows s s2" by (rule grows_trans [OF v(3) s2(2)])
      have "conforms ec t (field_Selections field) v" if "\<not> is_invalid test v"
        by (rule conforms_optional [OF v(2)]) (use that branch(3) in \<open>auto simp: tests_null_def\<close>)
      then have "filling P len (fst ` set todo) (set_value i v out) s2"
        by (intro filling_value [OF filling_grows [OF fill grown]], cases "is_invalid test v") (use s2(3) answer in auto)
      from tail [OF this Cons.prems(3) grown number(1)] show ?thesis
        using now branch(1) s2(1) by (simp add: entry run_and_then [OF v(1)] split: prod.splits)
    next
      case later
      have later_sure: "sure (innerFunc ec test f field c fs') (\<lambda>_. True)" for c and fs' :: "'a FieldSet"
        by (rule sure_innerFunc [where f = f, OF typed sure_steady [OF branch(4)]])
      show ?thesis
      proof (cases "rt_IsDeferred (ec_runtime ec) field")
        case True
        have "P i Null" using entry_okI(2) [OF branch(2) True] by (simp add: P i(2))
        with True later branch(1) show ?thesis
          using tail [OF filled _ grows_refl number(1)] Cons.prems(3) later_sure by (simp add: entry Let_def)
      next
        case False
        from tail [OF filling_goroutine [OF fill i(1) inner] Cons.prems(3) grows_refl number(2)]
        show ?thesis using False later branch(1) by (simp add: entry)
      qed
    next
      case root
      have "tries (fs_number out) (rt_RootResolverMiddleware (ec_runtime ec) (innerCtx ec field ctx)
          (\<lambda>ctx. innerFunc ec test f field ctx out)) (P i)"
        by (rule tries_Root [OF typed inner])
      from tail [OF filling_goroutine [OF fill i(1) this] Cons.prems(3) grows_refl number(2)]
      show ?thesis using root branch(1) by (simp add: entry)
    qed
  qed
qed

lemma in_order_fills:
  assumes "\<forall>(i, f) \<in> set ds. i < length vs \<and> tries n (f ctx) (P i)" and "n < ex_sets s"
    and "\<forall>j < length vs. P j (vs ! j) \<or> 0 < ex_Invalids s n \<or> j \<in> fst ` set ds"
  shows "\<exists>vs' s'. run (in_order ctx vs ds) s = (Inr vs', s') \<and> grows s s' \<and> length vs' = length vs
    \<and> (\<forall>j < length vs. P j (vs' ! j) \<or> 0 < ex_Invalids s' n)"
  using assms
proof (induction ds arbitrary: vs s)
  case Nil
  then show ?case by simp
next
  case (Cons d ds)
  obtain i f where d: "d = (i, f)" by (cases d)
  have f: "i < length vs" "tries n (f ctx) (P i)" using Cons.prems(1) by (auto simp: d)
  obtain v s1 where v: "run (f ctx) s = (Inr v, s1)" "P i v \<or> 0 < ex_Invalids s1 n"
    using f(2) Cons.prems(2) unfolding tries_def by blast
  have grown: "grows s s1" using f(2) v(1) by (auto simp: tries_def dest: steadyD)
  have more: "n < ex_sets s1" "0 < ex_Invalids s n \<Longrightarrow> 0 < ex_Invalids s1 n"
    using grown Cons.prems(2) unfolding grows_def by (auto intro: order_less_le_trans)
  have "\<exists>vs' s'. run (in_order ctx (vs[i := v]) ds) s1 = (Inr vs', s') \<and> grows s1 s'
      \<and> length vs' = length (vs[i := v]) \<and> (\<forall>j < length (vs[i := v]). P j (vs' ! j) \<or> 0 < ex_Invalids s' n)"
  proof (rule Cons.IH [OF _ more(1)])
    show "\<forall>(i', f) \<in> set ds. i' < length (vs[i := v]) \<and> tries n (f ctx) (P i')"
      using Cons.prems(1) by auto
    show "\<forall>j < length (vs[i := v]). P j (vs[i := v] ! j) \<or> 0 < ex_Invalids s1 n \<or> j \<in> fst ` set ds"
    proof (intro allI impI)
      fix j assume "j < length (vs[i := v])"
      with Cons.prems(3) v(2) more(2)
      show "P j (vs[i := v] ! j) \<or> 0 < ex_Invalids s1 n \<or> j \<in> fst ` set ds"
        by (cases "j = i") (auto simp: d)
    qed
  qed
  with grown show ?case by (auto simp: d run_and_then [OF v(1)] intro: grows_trans)
qed

lemma sure_ProcessDeferredGroup:
  assumes "typed_runtime rt" and "sure_delayed (dg_FieldSet dg)"
  shows "sure (rt_ProcessDeferredGroup rt dg) (\<lambda>_. True)"
proof -
  have "\<forall>c. \<forall>(i, f) \<in> set (fs_delayed (dg_FieldSet dg)). sure (f c) (\<lambda>_. True)"
    using assms(2) by (auto simp: sure_delayed_def)
  with assms(1) show ?thesis unfolding typed_runtime_def answers_parts_def by blast
qed

lemma sureI: "(\<And>s. \<exists>x s'. run m s = (Inr x, s') \<and> P x \<and> grows s s') \<Longrightarrow> sure m P"
  unfolding sure_def safe_def steady_def by (metis Inl_Inr_False fst_conv snd_conv sum.inject(2))

lemma valid_fieldsD:
  assumes "valid ec T sel" and "fields_of T = Some fs" and "field \<in> set (collected_on ec T sel)"
    and "field_Name field \<noteq> ''__typename''"
  obtains args t where "map_of fs (field_Name field) = Some (args, t)"
    "valid ec (base_type t) (field_Selections field)"
  using assms(1)
proof cases
  case leaf
  with assms(2) show ?thesis
    by (auto simp: leaf_def fields_of_def split: option.splits type_def.splits)
next
  case union
  with assms(2) show ?thesis
    by (auto simp: members_of_def fields_of_def split: option.splits type_def.splits)
next
  case (object fs')
  from object(2) [OF assms(3)] assms(2,4) object(1) that show ?thesis by auto
qed

lemma object_entries:
  assumes "typed_runtime (ec_runtime ec)" and "fields_of T = Some fs" and "valid ec T sel"
    and "list_all (\<lambda>(name, b). \<exists>args t. map_of fs name = Some (args, t) \<and> branch_sure ec sel t b) bs"
    and "set (map fst fs) \<subseteq> set (map fst bs)"
    and "field \<in> set (collected_on ec T sel)"
  shows "entry_sure ec fs (map_of bs) field"
proof (cases "field_Name field = ''__typename''")
  case False
  obtain args t where t: "map_of fs (field_Name field) = Some (args, t)"
    "valid ec (base_type t) (field_Selections field)"
    by (rule valid_fieldsD [OF assms(3,2,6) False])
  have "field_Name field \<in> set (map fst bs)" using assms(5) t(1) by (force dest: map_of_SomeD)
  then obtain b where b: "map_of bs (field_Name field) = Some b"
    by (metis map_of_eq_None_iff not_Some_eq set_map)
  then have "(field_Name field, b) \<in> set bs" by (rule map_of_SomeD)
  then have "branch_sure ec sel t b" using assms(4) t(1) by (auto simp: list_all_iff)
  moreover have "selections_depth (field_Selections field) < selections_depth sel"
    using assms(1,6) unfolding typed_runtime_def collects_below_def collected_on_def by blast
  ultimately show ?thesis
    using t b by (cases b) (auto simp: entry_sure_def field_sure_def)
qed (simp add: entry_sure_def)

lemma sure_object:
  assumes typed: "typed_runtime (ec_runtime ec)" and fs: "fields_of T = Some fs"
    and implementors: "implementors_of T = implementors" and valid: "valid ec T sel"
    and bs: "list_all (\<lambda>(name, b). \<exists>args t. map_of fs name = Some (args, t) \<and> branch_sure ec sel t b) bs"
      "set (map fst fs) \<subseteq> set (map fst bs)"
  shows "sure (exec_object ec ctx sel implementors T (map_of bs)) (conforms ec (Named T) sel)"
proof (rule sureI)
  fix s :: "'a exec_state"
  let ?rt = "ec_runtime ec" and ?n = "ex_sets s" and ?loop = "object_loop ec ctx T (map_of bs)"
  define collected where "collected = collected_on ec T sel"
  define P where "P = (\<lambda>i. entry_ok ec T fs (collected ! i))"
  define out where "out = \<lparr>fs_fields = collected, fs_Values = replicate (length collected) NilMarshaler,
    fs_number = ?n, fs_delayed = ([] :: (nat \<times> (ectx \<Rightarrow> ('a, Marshaler) px)) list)\<rparr>"
  define empty_set where "empty_set = \<lparr>fs_fields = [], fs_Values = [], fs_number = Suc ?n,
    fs_delayed = ([] :: (nat \<times> (ectx \<Rightarrow> ('a, Marshaler) px)) list)\<rparr>"
  define s2 where "s2 = s\<lparr>ex_sets := Suc (Suc ?n), ex_Invalids := (ex_Invalids s)(?n := 0, Suc ?n := 0)\<rparr>"
  have todo: "\<forall>(i, field) \<in> set (enumerate 0 collected). i < length collected \<and> field = collected ! i
      \<and> entry_sure ec fs (map_of bs) field"
    using object_entries [OF typed fs valid bs] by (auto simp: in_set_enumerate_eq collected_def)
  have "filling P (length collected) (fst ` set (enumerate 0 collected)) out s2"
    by (auto simp: filling_def out_def s2_def enumerate_eq_zip simp flip: set_map)
  moreover have "\<And>i. P i = entry_ok ec T fs (collected ! i)" "sure_delayed empty_set" "fs_number out = ?n"
    by (simp_all add: P_def sure_delayed_def empty_set_def out_def)
  ultimately
  obtain out' deferred' views' s3 where s3:
    "run (?loop (enumerate 0 collected) (out, empty_set, [])) s2 = (Inr (out', deferred', views'), s3)"
    "grows s2 s3" "filling P (length collected) {} out' s3" "sure_delayed deferred'" "fs_number out' = ?n"
    using loop_fills [where T = T and P = P and views = "[]" and ctx = ctx, OF typed _ todo] by metis
  obtain ds where ds: "mset ds = mset (fs_delayed out')"
    "run (rt_Dispatch ?rt ctx out') s3 = run (in_order ctx (fs_Values out') ds) s3"
    using typed unfolding typed_runtime_def answers_in_order_def by metis
  have same: "set ds = set (fs_delayed out')" using ds(1) by (rule mset_eq_setD)
  have "\<forall>(i, f) \<in> set ds. i < length (fs_Values out') \<and> tries ?n (f ctx) (P i)"
    using s3(3,5) unfolding same by (fastforce simp: filling_def)
  then obtain vs s4 where s4: "run (rt_Dispatch ?rt ctx out') s3 = (Inr vs, s4)" "grows s3 s4"
    "length vs = length collected" "\<forall>j < length collected. P j (vs ! j) \<or> 0 < ex_Invalids s4 ?n"
    using in_order_fills [of ds "fs_Values out'" ?n ctx P s3] s3(3,5) by (auto simp: filling_def ds(2) same)
  have "grows s s2" by (simp add: grows_def s2_def)
  then have grown: "grows s s4" using s3(2) s4(2) by (blast intro: grows_trans)
  let ?s5 = "s4\<lparr>ex_Deferred := ex_Deferred s4 + min (length views') max_int32\<rparr>"
  let ?group = "\<lparr>dg_Defers = views', dg_Path = g_path ctx, dg_FieldSet = deferred', dg_Context = ctx\<rparr>"
  have "sure (rt_ProcessDeferredGroup ?rt ?group) (\<lambda>_. True)"
    by (rule sure_ProcessDeferredGroup [OF typed]) (simp add: s3(4))
  then obtain s6 where s6: "run (rt_ProcessDeferredGroup ?rt ?group) ?s5 = (Inr (), s6)" "grows ?s5 s6"
    by (auto elim: sureE [where s = ?s5])
  have last: "grows s s6" by (rule grows_trans [OF grown]) (use s6(2) in \<open>simp add: grows_def\<close>)
  have result: "run (exec_object ec ctx sel implementors T (map_of bs)) s
      = (if 0 < ex_Invalids s4 ?n then (Inr Null, s4) else (Inr (FieldSetMarshaler collected vs), s6))"
    using s3(1,5) s4(1) s6(1)
    by (simp add: exec_object_def Let_def collected_def [symmetric, unfolded collected_on_def implementors]
        NewFieldSet_def out_def [symmetric] empty_set_def [symmetric] s2_def [symmetric] run_and_then)
  have "conforms ec (Named T) sel (FieldSetMarshaler collected vs)" if "\<not> 0 < ex_Invalids s4 ?n"
    unfolding collected_def
    by (rule conforms.Object [OF fs], rule list_all2_all_nthI)
      (use s4(3,4) that in \<open>auto simp: P_def entry_ok_def collected_def\<close>)
  with result grown last show "\<exists>x s'. run (exec_object ec ctx sel implementors T (map_of bs)) s = (Inr x, s')
      \<and> conforms ec (Named T) sel x \<and> grows s s'"
    by (cases "0 < ex_Invalids s4 ?n") auto
qed

end
