(* ===== verification/ExecTyped.thy ===== *)
theory ExecTyped
  imports ExecSure
begin

text \<open>
  Every executor answers in the type of the schema that it is generated for, without a panic, when
  the selection set is valid in the schema.
\<close>

section \<open>The objects of the schema\<close>

lemma fields_Timestamp:
  "fields_of ''Timestamp'' = Some
     [(''unix'', [], Required (Named ''Int64'')),
      (''formatted'', [(''layout'', Required (Named ''String''))], Required (Named ''String''))]"
  by code_simp

lemma implementors_Timestamp: "implementors_of ''Timestamp'' = timestampImplementors"
  by code_simp

lemma fields_User:
  "fields_of ''User'' = Some
     [(''id'', [], Required (Named ''Int64'')),
      (''email'', [], Required (Named ''String'')),
      (''name'', [], Required (Named ''String'')),
      (''createdAt'', [], Required (Named ''Timestamp''))]"
  by code_simp

lemma implementors_User: "implementors_of ''User'' = userImplementors"
  by code_simp

lemma fields_Viewer:
  "fields_of ''Viewer'' = Some
     [(''user'', [], Named ''User''),
      (''role'', [], Required (Named ''ViewerRole''))]"
  by code_simp

lemma implementors_Viewer: "implementors_of ''Viewer'' = viewerImplementors"
  by code_simp

lemma fields_SignOutPayload:
  "fields_of ''SignOutPayload'' = Some
     [(''redirectUrl'', [], Required (Named ''String''))]"
  by code_simp

lemma implementors_SignOutPayload: "implementors_of ''SignOutPayload'' = signOutPayloadImplementors"
  by code_simp

lemma fields_FieldMessage:
  "fields_of ''FieldMessage'' = Some
     [(''name'', [], Required (Named ''String'')),
      (''value'', [], Required (Named ''String''))]"
  by code_simp

lemma implementors_FieldMessage: "implementors_of ''FieldMessage'' = fieldMessageImplementors"
  by code_simp

lemma fields_ErrorPayload:
  "fields_of ''ErrorPayload'' = Some
     [(''message'', [], Required (Named ''String'')),
      (''byFields'', [], Required (ListOf (Required (Named ''FieldMessage''))))]"
  by code_simp

lemma implementors_ErrorPayload: "implementors_of ''ErrorPayload'' = errorPayloadImplementors"
  by code_simp

lemma fields_BanUserPayload:
  "fields_of ''BanUserPayload'' = Some
     [(''userId'', [], Required (Named ''Int64''))]"
  by code_simp

lemma implementors_BanUserPayload: "implementors_of ''BanUserPayload'' = banUserPayloadImplementors"
  by code_simp

lemma fields_UnbanUserPayload:
  "fields_of ''UnbanUserPayload'' = Some
     [(''userId'', [], Required (Named ''Int64''))]"
  by code_simp

lemma implementors_UnbanUserPayload: "implementors_of ''UnbanUserPayload'' = unbanUserPayloadImplementors"
  by code_simp

lemma fields_MakeAdminPayload:
  "fields_of ''MakeAdminPayload'' = Some
     [(''userId'', [], Required (Named ''Int64''))]"
  by code_simp

lemma implementors_MakeAdminPayload: "implementors_of ''MakeAdminPayload'' = makeAdminPayloadImplementors"
  by code_simp

lemma fields_RemoveAdminPayload:
  "fields_of ''RemoveAdminPayload'' = Some
     [(''userId'', [], Required (Named ''Int64''))]"
  by code_simp

lemma implementors_RemoveAdminPayload: "implementors_of ''RemoveAdminPayload'' = removeAdminPayloadImplementors"
  by code_simp

lemma fields_AdminUser:
  "fields_of ''AdminUser'' = Some
     [(''id'', [], Required (Named ''Int64'')),
      (''email'', [], Required (Named ''String'')),
      (''name'', [], Required (Named ''String'')),
      (''createdAt'', [], Required (Named ''Timestamp'')),
      (''lastSignInAt'', [], Named ''Timestamp''),
      (''isAdmin'', [], Required (Named ''Boolean'')),
      (''banReason'', [], Required (Named ''String''))]"
  by code_simp

lemma implementors_AdminUser: "implementors_of ''AdminUser'' = adminUserImplementors"
  by code_simp

lemma fields_Admin:
  "fields_of ''Admin'' = Some
     [(''userId'', [], Required (Named ''Int64'')),
      (''email'', [], Required (Named ''String'')),
      (''name'', [], Required (Named ''String'')),
      (''createdAt'', [], Required (Named ''Timestamp''))]"
  by code_simp

lemma implementors_Admin: "implementors_of ''Admin'' = adminImplementors"
  by code_simp

lemma fields_UsersConnection:
  "fields_of ''UsersConnection'' = Some
     [(''totalCount'', [], Required (Named ''Int64'')),
      (''nodes'', [], Required (ListOf (Required (Named ''AdminUser''))))]"
  by code_simp

lemma implementors_UsersConnection: "implementors_of ''UsersConnection'' = usersConnectionImplementors"
  by code_simp

lemma fields_AdminsConnection:
  "fields_of ''AdminsConnection'' = Some
     [(''totalCount'', [], Required (Named ''Int64'')),
      (''nodes'', [], Required (ListOf (Required (Named ''Admin''))))]"
  by code_simp

lemma implementors_AdminsConnection: "implementors_of ''AdminsConnection'' = adminsConnectionImplementors"
  by code_simp

lemma fields_PageInfo:
  "fields_of ''PageInfo'' = Some
     [(''hasNextPage'', [], Required (Named ''Boolean'')),
      (''endCursor'', [], Named ''Int64'')]"
  by code_simp

lemma implementors_PageInfo: "implementors_of ''PageInfo'' = pageInfoImplementors"
  by code_simp

lemma fields_AuditLogEntry:
  "fields_of ''AuditLogEntry'' = Some
     [(''id'', [], Required (Named ''Int64'')),
      (''userId'', [], Named ''Int64''),
      (''email'', [], Required (Named ''String'')),
      (''action'', [], Required (Named ''String'')),
      (''detail'', [], Required (Named ''String'')),
      (''ip'', [], Required (Named ''String'')),
      (''createdAt'', [], Required (Named ''Timestamp''))]"
  by code_simp

lemma implementors_AuditLogEntry: "implementors_of ''AuditLogEntry'' = auditLogEntryImplementors"
  by code_simp

lemma fields_AuditLogConnection:
  "fields_of ''AuditLogConnection'' = Some
     [(''totalCount'', [], Required (Named ''Int64'')),
      (''nodes'', [], Required (ListOf (Required (Named ''AuditLogEntry'')))),
      (''pageInfo'', [], Required (Named ''PageInfo''))]"
  by code_simp

lemma implementors_AuditLogConnection: "implementors_of ''AuditLogConnection'' = auditLogConnectionImplementors"
  by code_simp

lemma fields_AdminQuery:
  "fields_of ''AdminQuery'' = Some
     [(''users'', [], Required (Named ''UsersConnection'')),
      (''user'', [(''id'', Required (Named ''Int64''))], Named ''AdminUser''),
      (''admins'', [], Required (Named ''AdminsConnection'')),
      (''auditLog'', [(''limit'', Required (Named ''Int64'')), (''before'', Named ''Int64'')],
      Required (Named ''AuditLogConnection'')),
      (''buildGitCommit'', [], Required (Named ''String''))]"
  by code_simp

lemma implementors_AdminQuery: "implementors_of ''AdminQuery'' = adminQueryImplementors"
  by code_simp

lemma fields_AdminMutation:
  "fields_of ''AdminMutation'' = Some
     [(''banUser'', [(''input'', Required (Named ''BanUserInput''))],
      Required (Named ''BanUserOrErrorPayload'')),
      (''unbanUser'', [(''input'', Required (Named ''UnbanUserInput''))],
      Required (Named ''UnbanUserOrErrorPayload'')),
      (''makeAdmin'', [(''input'', Required (Named ''MakeAdminInput''))],
      Required (Named ''MakeAdminOrErrorPayload'')),
      (''removeAdmin'', [(''input'', Required (Named ''RemoveAdminInput''))],
      Required (Named ''RemoveAdminOrErrorPayload''))]"
  by code_simp

lemma implementors_AdminMutation: "implementors_of ''AdminMutation'' = adminMutationImplementors"
  by code_simp

lemma fields_Mutation:
  "fields_of ''Mutation'' = Some
     [(''signOut'', [], Required (Named ''SignOutPayload'')),
      (''admin'', [], Required (Named ''AdminMutation''))]"
  by code_simp

lemma implementors_Mutation: "implementors_of ''Mutation'' = mutationImplementors"
  by code_simp

lemma fields_Query:
  "fields_of ''Query'' = Some
     [(''viewer'', [], Required (Named ''Viewer'')),
      (''admin'', [], Required (Named ''AdminQuery'')),
      (''__type'', [(''name'', Required (Named ''String''))], Named ''__Type''),
      (''__schema'', [], Named ''__Schema'')]"
  by code_simp

lemma implementors_Query: "implementors_of ''Query'' = queryImplementors"
  by code_simp

lemma fields_EnumValue:
  "fields_of ''__EnumValue'' = Some
     [(''name'', [], Required (Named ''String'')),
      (''description'', [], Named ''String''),
      (''isDeprecated'', [], Required (Named ''Boolean'')),
      (''deprecationReason'', [], Named ''String'')]"
  by code_simp

lemma implementors_EnumValue: "implementors_of ''__EnumValue'' = introspection_EnumValueImplementors"
  by code_simp

lemma fields_InputValue:
  "fields_of ''__InputValue'' = Some
     [(''name'', [], Required (Named ''String'')),
      (''description'', [], Named ''String''),
      (''type'', [], Required (Named ''__Type'')),
      (''defaultValue'', [], Named ''String''),
      (''isDeprecated'', [], Required (Named ''Boolean'')),
      (''deprecationReason'', [], Named ''String'')]"
  by code_simp

lemma implementors_InputValue: "implementors_of ''__InputValue'' = introspection_InputValueImplementors"
  by code_simp

lemma fields_Field:
  "fields_of ''__Field'' = Some
     [(''name'', [], Required (Named ''String'')),
      (''description'', [], Named ''String''),
      (''args'', [(''includeDeprecated'', Named ''Boolean'')], Required (ListOf (Required (Named ''__InputValue'')))),
      (''type'', [], Required (Named ''__Type'')),
      (''isDeprecated'', [], Required (Named ''Boolean'')),
      (''deprecationReason'', [], Named ''String'')]"
  by code_simp

lemma implementors_Field: "implementors_of ''__Field'' = introspection_FieldImplementors"
  by code_simp

lemma fields_Type:
  "fields_of ''__Type'' = Some
     [(''kind'', [], Required (Named ''__TypeKind'')),
      (''name'', [], Named ''String''),
      (''description'', [], Named ''String''),
      (''specifiedByURL'', [], Named ''String''),
      (''fields'', [(''includeDeprecated'', Named ''Boolean'')], ListOf (Required (Named ''__Field''))),
      (''interfaces'', [], ListOf (Required (Named ''__Type''))),
      (''possibleTypes'', [], ListOf (Required (Named ''__Type''))),
      (''enumValues'', [(''includeDeprecated'', Named ''Boolean'')], ListOf (Required (Named ''__EnumValue''))),
      (''inputFields'', [], ListOf (Required (Named ''__InputValue''))),
      (''ofType'', [], Named ''__Type''),
      (''isOneOf'', [], Named ''Boolean'')]"
  by code_simp

lemma implementors_Type: "implementors_of ''__Type'' = introspection_TypeImplementors"
  by code_simp

lemma fields_Directive:
  "fields_of ''__Directive'' = Some
     [(''name'', [], Required (Named ''String'')),
      (''description'', [], Named ''String''),
      (''isRepeatable'', [], Required (Named ''Boolean'')),
      (''locations'', [], Required (ListOf (Required (Named ''__DirectiveLocation'')))),
      (''args'', [(''includeDeprecated'', Named ''Boolean'')], Required (ListOf (Required (Named ''__InputValue''))))]"
  by code_simp

lemma implementors_Directive: "implementors_of ''__Directive'' = introspection_DirectiveImplementors"
  by code_simp

lemma fields_Schema:
  "fields_of ''__Schema'' = Some
     [(''description'', [], Named ''String''),
      (''types'', [], Required (ListOf (Required (Named ''__Type'')))),
      (''queryType'', [], Required (Named ''__Type'')),
      (''mutationType'', [], Named ''__Type''),
      (''subscriptionType'', [], Named ''__Type''),
      (''directives'', [], Required (ListOf (Required (Named ''__Directive''))))]"
  by code_simp

lemma implementors_Schema: "implementors_of ''__Schema'' = introspection_SchemaImplementors"
  by code_simp

lemma members_BanUser: "members_of ''BanUserOrErrorPayload'' = Some [''BanUserPayload'', ''ErrorPayload'']"
  by code_simp

lemma members_UnbanUser: "members_of ''UnbanUserOrErrorPayload'' = Some [''UnbanUserPayload'', ''ErrorPayload'']"
  by code_simp

lemma members_MakeAdmin: "members_of ''MakeAdminOrErrorPayload'' = Some [''MakeAdminPayload'', ''ErrorPayload'']"
  by code_simp

lemma members_RemoveAdmin: "members_of ''RemoveAdminOrErrorPayload'' = Some [''RemoveAdminPayload'', ''ErrorPayload'']"
  by code_simp

lemma field_sureI:
  "(\<And>ctx field. valid ec (base_type t) (field_Selections field) \<Longrightarrow>
     selections_depth (field_Selections field) < selections_depth sel \<Longrightarrow>
     sure (f ctx field) (conforms ec (optional_type t) (field_Selections field))) \<Longrightarrow>
   field_sure ec sel t f"
  by (simp add: field_sure_def)

lemma steady_argument_readers [steady_rules]:
  assumes "typed_runtime (ec_runtime ec)"
  shows "steady (field_AdminMutation_banUser_args ec ctx raw)"
    and "steady (field_AdminMutation_makeAdmin_args ec ctx raw)"
    and "steady (field_AdminMutation_removeAdmin_args ec ctx raw)"
    and "steady (field_AdminMutation_unbanUser_args ec ctx raw)"
    and "steady (field_AdminQuery_auditLog_args ec ctx raw)"
    and "steady (field_AdminQuery_user_args ec ctx raw)"
    and "steady (field_Timestamp_formatted_args ec ctx raw)"
    and "steady (field_Query___type_args ec ctx raw)"
    and "steady (field___Directive_args_args ec ctx raw)"
    and "steady (field___Field_args_args ec ctx raw)"
    and "steady (field___Type_enumValues_args ec ctx raw)"
    and "steady (field___Type_fields_args ec ctx raw)"
  unfolding argument_readers by (auto intro!: steady_rules assms)

section \<open>Viewer, users and payloads\<close>

lemma sure_Timestamp [sure_rules]:
  assumes rt: "typed_runtime (ec_runtime ec)" and valid: "valid ec ''Timestamp'' sel"
  shows "sure (exec_Timestamp ec ctx sel obj) (conforms ec (Named ''Timestamp'') sel)"
  unfolding exec_Timestamp_def Timestamp_fields
  by (rule sure_object [OF rt fields_Timestamp implementors_Timestamp valid])
    (auto simp: tests_null_def intro!: field_sureI sure_ResolveField sure_rules steady_rules rt)

lemma sure_Timestamps [sure_rules]:
  assumes "typed_runtime (ec_runtime ec)" and "valid ec ''Timestamp'' sel"
  shows "sure (marshalNTimestamp ec ctx sel v0) (conforms ec (Named ''Timestamp'') sel)"
    and "sure (marshalOTimestamp ec ctx sel v1) (conforms ec (Named ''Timestamp'') sel)"
  unfolding marshalNTimestamp_def marshalOTimestamp_def
  by (auto intro!: sure_rules assms)

lemma sure_User [sure_rules]:
  assumes rt: "typed_runtime (ec_runtime ec)" and valid: "valid ec ''User'' sel"
  shows "sure (exec_User ec ctx sel obj) (conforms ec (Named ''User'') sel)"
  unfolding exec_User_def User_fields
  by (rule sure_object [OF rt fields_User implementors_User valid])
    (auto simp: tests_null_def intro!: field_sureI sure_ResolveField sure_rules steady_rules rt)

lemma sure_OUser [sure_rules]:
  assumes "typed_runtime (ec_runtime ec)" and "valid ec ''User'' sel"
  shows "sure (marshalOUser ec ctx sel v0) (conforms ec (Named ''User'') sel)"
  unfolding marshalOUser_def
  by (auto intro!: sure_rules assms)

lemma sure_Viewer [sure_rules]:
  assumes rt: "typed_runtime (ec_runtime ec)" and valid: "valid ec ''Viewer'' sel"
  shows "sure (exec_Viewer ec ctx sel obj) (conforms ec (Named ''Viewer'') sel)"
  unfolding exec_Viewer_def Viewer_fields
  by (rule sure_object [OF rt fields_Viewer implementors_Viewer valid])
    (auto simp: tests_null_def intro!: field_sureI sure_ResolveField sure_rules steady_rules rt)

lemma sure_NViewer [sure_rules]:
  assumes "typed_runtime (ec_runtime ec)" and "valid ec ''Viewer'' sel"
  shows "sure (marshalNViewer ec ctx sel v0) (conforms ec (Named ''Viewer'') sel)"
  unfolding marshalNViewer_def
  by (auto intro!: sure_rules assms)

lemma sure_SignOutPayload [sure_rules]:
  assumes rt: "typed_runtime (ec_runtime ec)" and valid: "valid ec ''SignOutPayload'' sel"
  shows "sure (exec_SignOutPayload ec ctx sel obj) (conforms ec (Named ''SignOutPayload'') sel)"
  unfolding exec_SignOutPayload_def SignOutPayload_fields
  by (rule sure_object [OF rt fields_SignOutPayload implementors_SignOutPayload valid])
    (auto simp: tests_null_def intro!: field_sureI sure_ResolveField sure_rules steady_rules rt)

lemma sure_NSignOutPayload [sure_rules]:
  assumes "typed_runtime (ec_runtime ec)" and "valid ec ''SignOutPayload'' sel"
  shows "sure (marshalNSignOutPayload ec ctx sel v0) (conforms ec (Named ''SignOutPayload'') sel)"
  unfolding marshalNSignOutPayload_def
  by (auto intro!: sure_rules assms)

lemma sure_FieldMessage [sure_rules]:
  assumes rt: "typed_runtime (ec_runtime ec)" and valid: "valid ec ''FieldMessage'' sel"
  shows "sure (exec_FieldMessage ec ctx sel obj) (conforms ec (Named ''FieldMessage'') sel)"
  unfolding exec_FieldMessage_def FieldMessage_fields
  by (rule sure_object [OF rt fields_FieldMessage implementors_FieldMessage valid])
    (auto simp: tests_null_def intro!: field_sureI sure_ResolveField sure_rules steady_rules rt)

lemma sure_FieldMessages [sure_rules]:
  assumes "typed_runtime (ec_runtime ec)" and "valid ec ''FieldMessage'' sel"
  shows "sure (marshalNFieldMessages ec ctx sel v0) (conforms ec (ListOf (Required (Named ''FieldMessage''))) sel)"
  unfolding marshalNFieldMessages_def marshalNFieldMessage_def
  by (auto intro!: sure_rules assms)

lemma sure_ErrorPayload [sure_rules]:
  assumes rt: "typed_runtime (ec_runtime ec)" and valid: "valid ec ''ErrorPayload'' sel"
  shows "sure (exec_ErrorPayload ec ctx sel obj) (conforms ec (Named ''ErrorPayload'') sel)"
  unfolding exec_ErrorPayload_def ErrorPayload_fields
  by (rule sure_object [OF rt fields_ErrorPayload implementors_ErrorPayload valid])
    (auto simp: tests_null_def intro!: field_sureI sure_ResolveField sure_rules steady_rules rt)

lemma sure_BanUserPayload [sure_rules]:
  assumes rt: "typed_runtime (ec_runtime ec)" and valid: "valid ec ''BanUserPayload'' sel"
  shows "sure (exec_BanUserPayload ec ctx sel obj) (conforms ec (Named ''BanUserPayload'') sel)"
  unfolding exec_BanUserPayload_def BanUserPayload_fields
  by (rule sure_object [OF rt fields_BanUserPayload implementors_BanUserPayload valid])
    (auto simp: tests_null_def intro!: field_sureI sure_ResolveField sure_rules steady_rules rt)

lemma sure_UnbanUserPayload [sure_rules]:
  assumes rt: "typed_runtime (ec_runtime ec)" and valid: "valid ec ''UnbanUserPayload'' sel"
  shows "sure (exec_UnbanUserPayload ec ctx sel obj) (conforms ec (Named ''UnbanUserPayload'') sel)"
  unfolding exec_UnbanUserPayload_def UnbanUserPayload_fields
  by (rule sure_object [OF rt fields_UnbanUserPayload implementors_UnbanUserPayload valid])
    (auto simp: tests_null_def intro!: field_sureI sure_ResolveField sure_rules steady_rules rt)

lemma sure_MakeAdminPayload [sure_rules]:
  assumes rt: "typed_runtime (ec_runtime ec)" and valid: "valid ec ''MakeAdminPayload'' sel"
  shows "sure (exec_MakeAdminPayload ec ctx sel obj) (conforms ec (Named ''MakeAdminPayload'') sel)"
  unfolding exec_MakeAdminPayload_def MakeAdminPayload_fields
  by (rule sure_object [OF rt fields_MakeAdminPayload implementors_MakeAdminPayload valid])
    (auto simp: tests_null_def intro!: field_sureI sure_ResolveField sure_rules steady_rules rt)

lemma sure_RemoveAdminPayload [sure_rules]:
  assumes rt: "typed_runtime (ec_runtime ec)" and valid: "valid ec ''RemoveAdminPayload'' sel"
  shows "sure (exec_RemoveAdminPayload ec ctx sel obj) (conforms ec (Named ''RemoveAdminPayload'') sel)"
  unfolding exec_RemoveAdminPayload_def RemoveAdminPayload_fields
  by (rule sure_object [OF rt fields_RemoveAdminPayload implementors_RemoveAdminPayload valid])
    (auto simp: tests_null_def intro!: field_sureI sure_ResolveField sure_rules steady_rules rt)

text \<open>A value of a union is one of its members.\<close>

lemma valid_memberD:
  assumes "valid ec U sel" and "members_of U = Some Ts" and "T \<in> set Ts"
  shows "valid ec T sel"
  using assms(1)
proof cases
  case leaf
  with assms(2) show ?thesis
    by (auto simp: leaf_def members_of_def split: option.splits type_def.splits)
next
  case object
  with assms(2) show ?thesis
    by (auto simp: fields_of_def members_of_def split: option.splits type_def.splits)
next
  case union
  with assms(2,3) show ?thesis by auto
qed

lemma sure_member:
  assumes "members_of U = Some Ts" and "T \<in> set Ts" and "valid ec U sel"
    and "valid ec T sel \<Longrightarrow> sure m (conforms ec (Named T) sel)"
  shows "sure m (conforms ec (Named U) sel)"
  using assms(4) [OF valid_memberD [OF assms(3,1,2)]]
  by (rule sure_mono) (rule conforms.Union [OF assms(1,2)])

lemma sure_BanUserOrErrorPayload [sure_rules]:
  assumes "typed_runtime (ec_runtime ec)" and "valid ec ''BanUserOrErrorPayload'' sel"
  shows "sure (marshalNBanUserOrErrorPayload ec ctx sel v) (conforms ec (Named ''BanUserOrErrorPayload'') sel)"
proof (cases v)
  case (Rejected e)
  show ?thesis
    unfolding marshalNBanUserOrErrorPayload_def exec_BanUserOrErrorPayload_def Rejected
    by (simp, rule sure_member [OF members_BanUser _ assms(2), where T = "''ErrorPayload''"])
      (auto intro!: sure_rules assms(1))
next
  case (Payload p)
  show ?thesis
    unfolding marshalNBanUserOrErrorPayload_def exec_BanUserOrErrorPayload_def Payload
    by (simp, rule sure_member [OF members_BanUser _ assms(2), where T = "''BanUserPayload''"])
      (auto intro!: sure_rules assms(1))
qed

lemma sure_UnbanUserOrErrorPayload [sure_rules]:
  assumes "typed_runtime (ec_runtime ec)" and "valid ec ''UnbanUserOrErrorPayload'' sel"
  shows "sure (marshalNUnbanUserOrErrorPayload ec ctx sel v) (conforms ec (Named ''UnbanUserOrErrorPayload'') sel)"
proof (cases v)
  case (Rejected e)
  show ?thesis
    unfolding marshalNUnbanUserOrErrorPayload_def exec_UnbanUserOrErrorPayload_def Rejected
    by (simp, rule sure_member [OF members_UnbanUser _ assms(2), where T = "''ErrorPayload''"])
      (auto intro!: sure_rules assms(1))
next
  case (Payload p)
  show ?thesis
    unfolding marshalNUnbanUserOrErrorPayload_def exec_UnbanUserOrErrorPayload_def Payload
    by (simp, rule sure_member [OF members_UnbanUser _ assms(2), where T = "''UnbanUserPayload''"])
      (auto intro!: sure_rules assms(1))
qed

lemma sure_MakeAdminOrErrorPayload [sure_rules]:
  assumes "typed_runtime (ec_runtime ec)" and "valid ec ''MakeAdminOrErrorPayload'' sel"
  shows "sure (marshalNMakeAdminOrErrorPayload ec ctx sel v) (conforms ec (Named ''MakeAdminOrErrorPayload'') sel)"
proof (cases v)
  case (Rejected e)
  show ?thesis
    unfolding marshalNMakeAdminOrErrorPayload_def exec_MakeAdminOrErrorPayload_def Rejected
    by (simp, rule sure_member [OF members_MakeAdmin _ assms(2), where T = "''ErrorPayload''"])
      (auto intro!: sure_rules assms(1))
next
  case (Payload p)
  show ?thesis
    unfolding marshalNMakeAdminOrErrorPayload_def exec_MakeAdminOrErrorPayload_def Payload
    by (simp, rule sure_member [OF members_MakeAdmin _ assms(2), where T = "''MakeAdminPayload''"])
      (auto intro!: sure_rules assms(1))
qed

lemma sure_RemoveAdminOrErrorPayload [sure_rules]:
  assumes "typed_runtime (ec_runtime ec)" and "valid ec ''RemoveAdminOrErrorPayload'' sel"
  shows "sure (marshalNRemoveAdminOrErrorPayload ec ctx sel v) (conforms ec (Named ''RemoveAdminOrErrorPayload'') sel)"
proof (cases v)
  case (Rejected e)
  show ?thesis
    unfolding marshalNRemoveAdminOrErrorPayload_def exec_RemoveAdminOrErrorPayload_def Rejected
    by (simp, rule sure_member [OF members_RemoveAdmin _ assms(2), where T = "''ErrorPayload''"])
      (auto intro!: sure_rules assms(1))
next
  case (Payload p)
  show ?thesis
    unfolding marshalNRemoveAdminOrErrorPayload_def exec_RemoveAdminOrErrorPayload_def Payload
    by (simp, rule sure_member [OF members_RemoveAdmin _ assms(2), where T = "''RemoveAdminPayload''"])
      (auto intro!: sure_rules assms(1))
qed

section \<open>The panel\<close>

lemma sure_AdminUser [sure_rules]:
  assumes rt: "typed_runtime (ec_runtime ec)" and valid: "valid ec ''AdminUser'' sel"
  shows "sure (exec_AdminUser ec ctx sel obj) (conforms ec (Named ''AdminUser'') sel)"
  unfolding exec_AdminUser_def AdminUser_fields
  by (rule sure_object [OF rt fields_AdminUser implementors_AdminUser valid])
    (auto simp: tests_null_def intro!: field_sureI sure_ResolveField sure_rules steady_rules rt)

lemma sure_AdminUsers [sure_rules]:
  assumes "typed_runtime (ec_runtime ec)" and "valid ec ''AdminUser'' sel"
  shows "sure (marshalOAdminUser ec ctx sel v0) (conforms ec (Named ''AdminUser'') sel)"
    and "sure (marshalNAdminUsers ec ctx sel v1) (conforms ec (ListOf (Required (Named ''AdminUser''))) sel)"
  unfolding marshalOAdminUser_def marshalNAdminUsers_def marshalNAdminUser_def
  by (auto intro!: sure_rules assms)

lemma sure_Admin [sure_rules]:
  assumes rt: "typed_runtime (ec_runtime ec)" and valid: "valid ec ''Admin'' sel"
  shows "sure (exec_Admin ec ctx sel obj) (conforms ec (Named ''Admin'') sel)"
  unfolding exec_Admin_def Admin_fields
  by (rule sure_object [OF rt fields_Admin implementors_Admin valid])
    (auto simp: tests_null_def intro!: field_sureI sure_ResolveField sure_rules steady_rules rt)

lemma sure_Admins [sure_rules]:
  assumes "typed_runtime (ec_runtime ec)" and "valid ec ''Admin'' sel"
  shows "sure (marshalNAdmins ec ctx sel v0) (conforms ec (ListOf (Required (Named ''Admin''))) sel)"
  unfolding marshalNAdmins_def marshalNAdmin_def
  by (auto intro!: sure_rules assms)

lemma sure_UsersConnection [sure_rules]:
  assumes rt: "typed_runtime (ec_runtime ec)" and valid: "valid ec ''UsersConnection'' sel"
  shows "sure (exec_UsersConnection ec ctx sel obj) (conforms ec (Named ''UsersConnection'') sel)"
  unfolding exec_UsersConnection_def UsersConnection_fields
  by (rule sure_object [OF rt fields_UsersConnection implementors_UsersConnection valid])
    (auto simp: tests_null_def intro!: field_sureI sure_ResolveField sure_rules steady_rules rt)

lemma sure_NUsersConnection [sure_rules]:
  assumes "typed_runtime (ec_runtime ec)" and "valid ec ''UsersConnection'' sel"
  shows "sure (marshalNUsersConnection ec ctx sel v0) (conforms ec (Named ''UsersConnection'') sel)"
  unfolding marshalNUsersConnection_def
  by (auto intro!: sure_rules assms)

lemma sure_AdminsConnection [sure_rules]:
  assumes rt: "typed_runtime (ec_runtime ec)" and valid: "valid ec ''AdminsConnection'' sel"
  shows "sure (exec_AdminsConnection ec ctx sel obj) (conforms ec (Named ''AdminsConnection'') sel)"
  unfolding exec_AdminsConnection_def AdminsConnection_fields
  by (rule sure_object [OF rt fields_AdminsConnection implementors_AdminsConnection valid])
    (auto simp: tests_null_def intro!: field_sureI sure_ResolveField sure_rules steady_rules rt)

lemma sure_NAdminsConnection [sure_rules]:
  assumes "typed_runtime (ec_runtime ec)" and "valid ec ''AdminsConnection'' sel"
  shows "sure (marshalNAdminsConnection ec ctx sel v0) (conforms ec (Named ''AdminsConnection'') sel)"
  unfolding marshalNAdminsConnection_def
  by (auto intro!: sure_rules assms)

lemma sure_PageInfo [sure_rules]:
  assumes rt: "typed_runtime (ec_runtime ec)" and valid: "valid ec ''PageInfo'' sel"
  shows "sure (exec_PageInfo ec ctx sel obj) (conforms ec (Named ''PageInfo'') sel)"
  unfolding exec_PageInfo_def PageInfo_fields
  by (rule sure_object [OF rt fields_PageInfo implementors_PageInfo valid])
    (auto simp: tests_null_def intro!: field_sureI sure_ResolveField sure_rules steady_rules rt)

lemma sure_NPageInfo [sure_rules]:
  assumes "typed_runtime (ec_runtime ec)" and "valid ec ''PageInfo'' sel"
  shows "sure (marshalNPageInfo ec ctx sel v0) (conforms ec (Named ''PageInfo'') sel)"
  unfolding marshalNPageInfo_def
  by (auto intro!: sure_rules assms)

lemma sure_AuditLogEntry [sure_rules]:
  assumes rt: "typed_runtime (ec_runtime ec)" and valid: "valid ec ''AuditLogEntry'' sel"
  shows "sure (exec_AuditLogEntry ec ctx sel obj) (conforms ec (Named ''AuditLogEntry'') sel)"
  unfolding exec_AuditLogEntry_def AuditLogEntry_fields
  by (rule sure_object [OF rt fields_AuditLogEntry implementors_AuditLogEntry valid])
    (auto simp: tests_null_def intro!: field_sureI sure_ResolveField sure_rules steady_rules rt)

lemma sure_AuditLogEntries [sure_rules]:
  assumes "typed_runtime (ec_runtime ec)" and "valid ec ''AuditLogEntry'' sel"
  shows "sure (marshalNAuditLogEntries ec ctx sel v0) (conforms ec (ListOf (Required (Named ''AuditLogEntry''))) sel)"
  unfolding marshalNAuditLogEntries_def marshalNAuditLogEntry_def
  by (auto intro!: sure_rules assms)

lemma sure_AuditLogConnection [sure_rules]:
  assumes rt: "typed_runtime (ec_runtime ec)" and valid: "valid ec ''AuditLogConnection'' sel"
  shows "sure (exec_AuditLogConnection ec ctx sel obj) (conforms ec (Named ''AuditLogConnection'') sel)"
  unfolding exec_AuditLogConnection_def AuditLogConnection_fields
  by (rule sure_object [OF rt fields_AuditLogConnection implementors_AuditLogConnection valid])
    (auto simp: tests_null_def intro!: field_sureI sure_ResolveField sure_rules steady_rules rt)

lemma sure_NAuditLogConnection [sure_rules]:
  assumes "typed_runtime (ec_runtime ec)" and "valid ec ''AuditLogConnection'' sel"
  shows "sure (marshalNAuditLogConnection ec ctx sel v0) (conforms ec (Named ''AuditLogConnection'') sel)"
  unfolding marshalNAuditLogConnection_def
  by (auto intro!: sure_rules assms)

lemma sure_AdminQuery [sure_rules]:
  assumes rt: "typed_runtime (ec_runtime ec)" and valid: "valid ec ''AdminQuery'' sel"
  shows "sure (exec_AdminQuery ec ctx sel obj) (conforms ec (Named ''AdminQuery'') sel)"
  unfolding exec_AdminQuery_def AdminQuery_fields
  by (rule sure_object [OF rt fields_AdminQuery implementors_AdminQuery valid])
    (auto simp: tests_null_def intro!: field_sureI sure_ResolveField sure_rules steady_rules rt)

lemma sure_NAdminQuery [sure_rules]:
  assumes "typed_runtime (ec_runtime ec)" and "valid ec ''AdminQuery'' sel"
  shows "sure (marshalNAdminQuery ec ctx sel v0) (conforms ec (Named ''AdminQuery'') sel)"
  unfolding marshalNAdminQuery_def
  by (auto intro!: sure_rules assms)

lemma sure_AdminMutation [sure_rules]:
  assumes rt: "typed_runtime (ec_runtime ec)" and valid: "valid ec ''AdminMutation'' sel"
  shows "sure (exec_AdminMutation ec ctx sel obj) (conforms ec (Named ''AdminMutation'') sel)"
  unfolding exec_AdminMutation_def AdminMutation_fields
  by (rule sure_object [OF rt fields_AdminMutation implementors_AdminMutation valid])
    (auto simp: tests_null_def intro!: field_sureI sure_ResolveField sure_rules steady_rules rt)

lemma sure_NAdminMutation [sure_rules]:
  assumes "typed_runtime (ec_runtime ec)" and "valid ec ''AdminMutation'' sel"
  shows "sure (marshalNAdminMutation ec ctx sel v0) (conforms ec (Named ''AdminMutation'') sel)"
  unfolding marshalNAdminMutation_def
  by (auto intro!: sure_rules assms)

section \<open>Introspection\<close>

text \<open>What is executed under a type answers in its type when \<open>on_type\<close> does on less deep selections.\<close>

definition type_sure :: "'g executionContext \<Rightarrow> nat \<Rightarrow> 'g exec_type \<Rightarrow> bool" where
  "type_sure ec d on_type \<longleftrightarrow> (\<forall>ctx sel obj. selections_depth sel < d \<and> valid ec ''__Type'' sel \<longrightarrow>
     sure (on_type ctx sel obj) (conforms ec (Named ''__Type'') sel))"

lemma sure_locations [sure_rules]:
  assumes "typed_runtime (ec_runtime ec)"
  shows "sure (marshalN__DirectiveLocations ec ctx sel v)
    (conforms ec (ListOf (Required (Named ''__DirectiveLocation''))) sel)"
  unfolding marshalN__DirectiveLocations_def by (intro sure_rules assms)

lemma sure_EnumValue [sure_rules]:
  assumes rt: "typed_runtime (ec_runtime ec)" and valid: "valid ec ''__EnumValue'' sel"
  shows "sure (exec___EnumValue ec ctx sel obj) (conforms ec (Named ''__EnumValue'') sel)"
  unfolding exec___EnumValue_def introspection_EnumValue_fields
  by (rule sure_object [OF rt fields_EnumValue implementors_EnumValue valid])
    (auto simp: tests_null_def intro!: field_sureI sure_ResolveField sure_rules steady_rules rt)

lemma sure_EnumValues [sure_rules]:
  assumes "typed_runtime (ec_runtime ec)" and "valid ec ''__EnumValue'' sel"
  shows "sure (marshalO__EnumValues ec ctx sel v0) (conforms ec (ListOf (Required (Named ''__EnumValue''))) sel)"
  unfolding marshalO__EnumValues_def marshalN__EnumValue_def
  by (auto intro!: sure_rules assms)

lemma sure_types:
  assumes "typed_runtime (ec_runtime ec)" and "type_sure ec d on_type"
    and "selections_depth sel < d" and "valid ec ''__Type'' sel"
  shows "sure (marshalN__Type ec on_type ctx sel t) (conforms ec (Named ''__Type'') sel)"
    and "sure (marshalO__Type ec on_type ctx sel t) (conforms ec (Named ''__Type'') sel)"
    and "sure (marshalN__Types ec on_type ctx sel ts) (conforms ec (ListOf (Required (Named ''__Type''))) sel)"
    and "sure (marshalO__Types ec on_type ctx sel ts) (conforms ec (ListOf (Required (Named ''__Type''))) sel)"
  unfolding marshalN__Type_def marshalO__Type_def marshalN__Types_def marshalO__Types_def
    marshalN__TypeValue_def
  using assms by (auto intro!: sure_rules simp: type_sure_def)

lemma sure_InputValue:
  assumes rt: "typed_runtime (ec_runtime ec)" and on_type: "type_sure ec d on_type"
    and depth: "selections_depth sel \<le> d" and valid: "valid ec ''__InputValue'' sel"
  shows "sure (exec___InputValue ec on_type ctx sel obj) (conforms ec (Named ''__InputValue'') sel)"
proof -
  note below = order_less_le_trans [OF _ depth]
  show ?thesis
    unfolding exec___InputValue_def introspection_InputValue_fields
    by (rule sure_object [OF rt fields_InputValue implementors_InputValue valid])
      (auto simp: tests_null_def intro!: field_sureI sure_ResolveField sure_types [OF rt on_type]
         sure_rules steady_rules rt below)
qed

lemma sure_InputValues:
  assumes "typed_runtime (ec_runtime ec)" and "type_sure ec d on_type"
    and "selections_depth sel < d" and "valid ec ''__InputValue'' sel"
  shows "sure (marshalN__InputValues ec on_type ctx sel v) (conforms ec (ListOf (Required (Named ''__InputValue''))) sel)"
    and "sure (marshalO__InputValues ec on_type ctx sel v) (conforms ec (ListOf (Required (Named ''__InputValue''))) sel)"
  unfolding marshalN__InputValues_def marshalO__InputValues_def marshalN__InputValue_def
  by (intro sure_lists assms(1) sure_InputValue [OF assms(1,2) less_imp_le [OF assms(3)] assms(4)])+

lemma sure_Field:
  assumes rt: "typed_runtime (ec_runtime ec)" and on_type: "type_sure ec d on_type"
    and depth: "selections_depth sel \<le> d" and valid: "valid ec ''__Field'' sel"
  shows "sure (exec___Field ec on_type ctx sel obj) (conforms ec (Named ''__Field'') sel)"
proof -
  note below = order_less_le_trans [OF _ depth]
  show ?thesis
    unfolding exec___Field_def introspection_Field_fields
    by (rule sure_object [OF rt fields_Field implementors_Field valid])
      (auto simp: tests_null_def intro!: field_sureI sure_ResolveField sure_types [OF rt on_type] sure_InputValues [OF rt on_type]
         sure_rules steady_rules rt below)
qed

lemma sure_Fields:
  assumes "typed_runtime (ec_runtime ec)" and "type_sure ec d on_type"
    and "selections_depth sel < d" and "valid ec ''__Field'' sel"
  shows "sure (marshalO__Fields ec on_type ctx sel v) (conforms ec (ListOf (Required (Named ''__Field''))) sel)"
  unfolding marshalO__Fields_def marshalN__Field_def
  by (intro sure_lists assms(1) sure_Field [OF assms(1,2) less_imp_le [OF assms(3)] assms(4)])

lemma sure_Type_body:
  assumes rt: "typed_runtime (ec_runtime ec)" and on_type: "type_sure ec d on_type"
    and depth: "selections_depth sel \<le> d" and valid: "valid ec ''__Type'' sel"
  shows "sure (exec___Type_body ec on_type ctx sel obj) (conforms ec (Named ''__Type'') sel)"
proof -
  note below = order_less_le_trans [OF _ depth]
  show ?thesis
    unfolding exec___Type_body_def introspection_Type_fields
    by (rule sure_object [OF rt fields_Type implementors_Type valid])
      (auto simp: tests_null_def intro!: field_sureI sure_ResolveField sure_types [OF rt on_type] sure_InputValues [OF rt on_type] sure_Fields [OF rt on_type]
         sure_rules steady_rules rt below)
qed

lemma sure_Type:
  assumes "typed_runtime (ec_runtime ec)"
  shows "type_sure ec d (exec___Type ec)"
proof -
  have "type_sure ec n (exec___Type_upto n stack_overflow ec)" for n
  proof (induction n)
    case (Suc n)
    then show ?case
      unfolding type_sure_def [of ec "Suc n"] by (auto intro: sure_Type_body [OF assms])
  qed (simp add: type_sure_def)
  then show ?thesis
    unfolding type_sure_def exec___Type_def by (auto simp del: exec___Type_upto.simps)
qed

lemma sure_tied_types [sure_rules]:
  assumes "typed_runtime (ec_runtime ec)" and "valid ec ''__Type'' sel"
  shows "sure (marshalN__Type ec (exec___Type ec) ctx sel t) (conforms ec (Named ''__Type'') sel)"
    and "sure (marshalO__Type ec (exec___Type ec) ctx sel t) (conforms ec (Named ''__Type'') sel)"
    and "sure (marshalN__Types ec (exec___Type ec) ctx sel ts) (conforms ec (ListOf (Required (Named ''__Type''))) sel)"
  by (rule sure_types [OF assms(1) sure_Type [OF assms(1)] lessI assms(2)])+

lemma sure_tied_inputs [sure_rules]:
  assumes "typed_runtime (ec_runtime ec)" and "valid ec ''__InputValue'' sel"
  shows "sure (marshalN__InputValues ec (exec___Type ec) ctx sel v)
    (conforms ec (ListOf (Required (Named ''__InputValue''))) sel)"
  by (rule sure_InputValues [OF assms(1) sure_Type [OF assms(1)] lessI assms(2)])

lemma sure_Directive [sure_rules]:
  assumes rt: "typed_runtime (ec_runtime ec)" and valid: "valid ec ''__Directive'' sel"
  shows "sure (exec___Directive ec ctx sel obj) (conforms ec (Named ''__Directive'') sel)"
  unfolding exec___Directive_def introspection_Directive_fields
  by (rule sure_object [OF rt fields_Directive implementors_Directive valid])
    (auto simp: tests_null_def intro!: field_sureI sure_ResolveField sure_rules steady_rules rt)

lemma sure_Directives [sure_rules]:
  assumes "typed_runtime (ec_runtime ec)" and "valid ec ''__Directive'' sel"
  shows "sure (marshalN__Directives ec ctx sel v0) (conforms ec (ListOf (Required (Named ''__Directive''))) sel)"
  unfolding marshalN__Directives_def marshalN__Directive_def
  by (auto intro!: sure_rules assms)

lemma sure_Schema [sure_rules]:
  assumes rt: "typed_runtime (ec_runtime ec)" and valid: "valid ec ''__Schema'' sel"
  shows "sure (exec___Schema ec ctx sel obj) (conforms ec (Named ''__Schema'') sel)"
  unfolding exec___Schema_def introspection_Schema_fields
  by (rule sure_object [OF rt fields_Schema implementors_Schema valid])
    (auto simp: tests_null_def intro!: field_sureI sure_ResolveField sure_rules steady_rules rt)

lemma sure_OSchema [sure_rules]:
  assumes "typed_runtime (ec_runtime ec)" and "valid ec ''__Schema'' sel"
  shows "sure (marshalO__Schema ec ctx sel v0) (conforms ec (Named ''__Schema'') sel)"
  unfolding marshalO__Schema_def
  by (auto intro!: sure_rules assms)

section \<open>Operations\<close>

lemma sure_Mutation:
  assumes rt: "typed_runtime (ec_runtime ec)" and valid: "valid ec ''Mutation'' sel"
  shows "sure (exec_Mutation ec ctx sel) (conforms ec (Named ''Mutation'') sel)"
  unfolding exec_Mutation_def Mutation_fields Let_def
  by (rule sure_object [OF rt fields_Mutation implementors_Mutation valid])
    (auto simp: tests_null_def intro!: field_sureI sure_ResolveField sure_rules steady_rules rt)

lemma sure_Query:
  assumes rt: "typed_runtime (ec_runtime ec)" and valid: "valid ec ''Query'' sel"
  shows "sure (exec_Query ec ctx sel) (conforms ec (Named ''Query'') sel)"
  unfolding exec_Query_def Query_fields Let_def
  by (rule sure_object [OF rt fields_Query implementors_Query valid])
    (auto simp: tests_null_def intro!: field_sureI sure_ResolveField sure_rules steady_rules rt)

end
