(* ===== verification/TypeProps.thy ===== *)
theory TypeProps
  imports ExecTyped
begin

text \<open>
  Type soundness of the executor: an operation that is valid in the schema is answered, in the
  types of the schema.
\<close>

text \<open>
  C16. A valid operation does not go wrong: whatever the resolvers answer and whatever fails, the
  executor gives a response, without a panic, and its data conforms to the schema: every object
  has one value for each selected field, in their order, each of the type of its field, and null
  only where the schema allows it or the field is deferred. This includes introspection.
\<close>

theorem operation_well_typed:
  assumes "typed_runtime (ec_runtime ec)"
    and "oc_Operation (ec_OperationContext ec) = Some (op, sel)"
    and "(op, root) \<in> {(Query, ''Query''), (Mutation, ''Mutation'')}"
    and "valid ec root sel" and "ex_first s"
  shows "\<exists>response data s'. run (Exec ec ctx0 ctx) s = (Inr (Some response), s')
    \<and> response_Data response = rt_MarshalGQL (ec_runtime ec) data \<and> conforms ec (Named root) sel data"
proof -
  let ?ctx = "rt_WithUnmarshalers (ec_runtime ec) ctx" and ?s = "s\<lparr>ex_first := False\<rparr>"
  consider (query) "op = Query" "root = ''Query''" | (mutation) "op = Mutation" "root = ''Mutation''"
    using assms(3) by auto
  then show ?thesis
  proof cases
    case query
    obtain data s' where data: "run (exec_Query ec ?ctx sel) ?s = (Inr data, s')" "conforms ec (Named ''Query'') sel data"
      using sureE [OF sure_Query [OF assms(1)]] assms(4) query(2) by metis
    have "\<exists>response s''. run (Exec ec ctx0 ctx) s = (Inr (Some response), s'')
        \<and> response_Data response = rt_MarshalGQL (ec_runtime ec) data"
      using assms(2,5) query data(1) by (simp add: Exec_def query_response_def and_then_def Let_def)
    with data(2) query show ?thesis by blast
  next
    case mutation
    obtain data s' where data: "run (exec_Mutation ec ?ctx sel) ?s = (Inr data, s')" "conforms ec (Named ''Mutation'') sel data"
      using sureE [OF sure_Mutation [OF assms(1)]] assms(4) mutation(2) by metis
    have "\<exists>response s''. run (Exec ec ctx0 ctx) s = (Inr (Some response), s'')
        \<and> response_Data response = rt_MarshalGQL (ec_runtime ec) data"
      using assms(2,5) mutation data(1) by (simp add: Exec_def mutation_response_def and_then_def)
    with data(2) mutation show ?thesis by blast
  qed
qed

section \<open>The sequential runtime\<close>

lemma steady_demo_Error: "steady (demo_Error ctx err)"
  unfolding demo_Error_def by (rule steady_on_world)

lemma sure_recovered:
  "safe m P \<Longrightarrow> sure (do { r \<leftarrow> m; ret (Inr (case r of Inl p \<Rightarrow> Null | Inr v \<Rightarrow> v)) }) (\<lambda>v. v = Null \<or> P v)"
proof (rule sureI)
  fix s assume m: "safe m P"
  obtain r s' where run: "run m s = (r, s')" by (cases "run m s")
  have "grows s s'" "\<And>v. r = Inr v \<Longrightarrow> P v"
    using m run unfolding safe_def by (auto dest: steadyD) (metis fst_conv)
  with run show "\<exists>x s'. run (do { r \<leftarrow> m; ret (Inr (case r of Inl p \<Rightarrow> Null | Inr v \<Rightarrow> v)) }) s = (Inr x, s')
      \<and> (x = Null \<or> P x) \<and> grows s s'"
    by (cases r) auto
qed

lemma sure_demo_ResolveField:
  assumes "\<And>c f. steady (fctx c f)" and "\<And>c. steady (resolver c)"
    and "\<And>c v. safe (marshal c (field_Selections field) v) P"
  shows "sure (demo_ResolveField ctx oc field fctx resolver marshal recovers nonnull) (\<lambda>m. m = Null \<or> P m)"
  unfolding demo_ResolveField_def Let_def
  by (rule sure_bind [OF assms(1)])
    (auto intro!: sure_bind assms(2) sure_return steady_demo_Error sure_recovered [OF assms(3)]
      split: prod.splits option.splits sum.splits)

lemma sure_demo_run_delayed:
  "(\<And>i f. (i, f) \<in> set delayed \<Longrightarrow> sure (f ctx) (\<lambda>_. True)) \<Longrightarrow>
   sure (demo_run_delayed ctx vs delayed) (\<lambda>_. True)"
proof (induction delayed arbitrary: vs)
  case (Cons d delayed)
  obtain i f where d: "d = (i, f)" by (cases d)
  show ?case
    unfolding d demo_run_delayed.simps
    by (rule sure_and_then [where P = "\<lambda>_. True"]) (use Cons in \<open>auto simp: d\<close>)
qed (simp add: sure_return)

lemma sure_demo_each:
  "(\<And>i. i \<in> set ks \<Longrightarrow> sure (f i) P) \<Longrightarrow>
   sure (demo_each f ks) (\<lambda>vs. length vs = length ks \<and> (\<forall>v \<in> set vs. P v))"
proof (induction ks)
  case (Cons k ks)
  have "sure (f k) P" "sure (demo_each f ks) (\<lambda>vs. length vs = length ks \<and> (\<forall>v \<in> set vs. P v))"
    using Cons by auto
  then show ?case
    unfolding demo_each.simps by (auto intro!: sure_and_then sure_return)
qed (simp add: sure_return)

lemma demo_typed: "typed_runtime demo_runtime"
proof -
  have "steady_calls demo_runtime"
    unfolding steady_calls_def
    by (auto simp: demo_runtime_def intro!: steady_rules steady_demo_Error)
  moreover have "answers_fields demo_runtime"
    unfolding answers_fields_def by (auto simp: demo_runtime_def intro!: sure_demo_ResolveField)
  moreover have "answers_parts demo_runtime"
    unfolding answers_parts_def
  proof (intro conjI allI impI)
    fix P :: "Marshaler \<Rightarrow> bool" and ctx n k fast and f :: "ectx \<Rightarrow> nat \<Rightarrow> (unit, Marshaler) px"
    assume "\<forall>c i. i < n \<longrightarrow> sure (f c i) P"
    then show "sure (rt_MarshalSliceConcurrently demo_runtime ctx n k fast f)
        (\<lambda>vs. length vs = n \<and> (\<forall>v \<in> set vs. P v))"
      using sure_demo_each [of "[0..<n]" "f ctx" P] by (simp add: demo_runtime_def)
  next
    fix dg :: "unit DeferredGroup"
    assume "\<forall>c. \<forall>(i, f) \<in> set (fs_delayed (dg_FieldSet dg)). sure (f c) (\<lambda>_. True)"
    then show "sure (rt_ProcessDeferredGroup demo_runtime dg) (\<lambda>_. True)"
      by (auto simp: demo_runtime_def intro!: sure_and_then [where P = "\<lambda>_. True"]
          sure_demo_run_delayed sure_return)
  qed (auto simp: demo_runtime_def)
  moreover have "writes_scalars demo_runtime" by (simp add: writes_scalars_def demo_runtime_def)
  moreover have "collects_below (rt_gqlgen demo_runtime)"
    using demo_selections by (simp add: selections_documented_def)
  ultimately show ?thesis by (simp add: typed_runtime_def demo_answers)
qed

text \<open>\<open>{ viewer { role user { id email } } __type(name: "Node") { name fields { type { name } } } }\<close>\<close>

definition typed_document :: "Selection list" where
  "typed_document =
     [SelField ''viewer'' ''viewer'' []
       [SelField ''role'' ''role'' [] [],
        SelField ''user'' ''user'' [] [SelField ''id'' ''id'' [] [], SelField ''email'' ''email'' [] []]],
      SelField ''__type'' ''__type'' [(''name'', JString ''Node'')]
       [SelField ''name'' ''name'' [] [],
        SelField ''fields'' ''fields'' [(''includeDeprecated'', JBool True)]
         [SelField ''type'' ''type'' [] [SelField ''name'' ''name'' [] []]]]]"

definition typed_ec :: "unit executionContext" where
  "typed_ec = newExecutionContext demo_runtime demo_resolver
     \<lparr>oc_Operation = Some (Query, typed_document), oc_Variables = []\<rparr>"

lemma typed_collected: "collected_on typed_ec T sel = concat (map plain_field sel)"
  by (simp add: collected_on_def typed_ec_def newExecutionContext_def demo_runtime_def demo_gqlgen_def)

lemma valid_listed:
  "fields_of T = Some fs \<Longrightarrow>
   list_all (\<lambda>field. \<exists>args t. map_of fs (field_Name field) = Some (args, t)
      \<and> fst ` set (field_Args field) \<subseteq> fst ` set args
      \<and> valid ec (base_type t) (field_Selections field)) (collected_on ec T sel) \<Longrightarrow>
   valid ec T sel"
  by (rule valid.object) (auto simp: list_all_iff)

lemma typed_document_valid: "valid typed_ec ''Query'' typed_document"
proof -
  note check = typed_collected valid.leaf
  have leaf_role: "leaf ''ViewerRole''" by code_simp
  have "valid typed_ec ''User'' [SelField ''id'' ''id'' [] [], SelField ''email'' ''email'' [] []]"
    by (rule valid_listed [OF fields_User]) (simp add: check)
  then have viewer: "valid typed_ec ''Viewer'' [SelField ''role'' ''role'' [] [],
      SelField ''user'' ''user'' [] [SelField ''id'' ''id'' [] [], SelField ''email'' ''email'' [] []]]"
    by (intro valid_listed [OF fields_Viewer]) (simp add: check leaf_role)
  have "valid typed_ec ''__Type'' [SelField ''name'' ''name'' [] []]"
    by (rule valid_listed [OF fields_Type]) (simp add: check)
  then have "valid typed_ec ''__Field'' [SelField ''type'' ''type'' [] [SelField ''name'' ''name'' [] []]]"
    by (intro valid_listed [OF fields_Field]) (simp add: check)
  then have "valid typed_ec ''__Type'' [SelField ''name'' ''name'' [] [],
        SelField ''fields'' ''fields'' [(''includeDeprecated'', JBool True)]
         [SelField ''type'' ''type'' [] [SelField ''name'' ''name'' [] []]]]"
    by (intro valid_listed [OF fields_Type]) (simp add: check)
  with viewer show ?thesis
    unfolding typed_document_def by (intro valid_listed [OF fields_Query]) (simp add: check)
qed

theorem operation_well_typed_witness:
  "\<exists>response data s'. run (Exec typed_ec demo_ectx demo_ectx) (demo_state demo_world) = (Inr (Some response), s')
    \<and> response_Data response = rt_MarshalGQL demo_runtime data \<and> conforms typed_ec (Named ''Query'') typed_document data"
proof -
  have ec: "ec_runtime typed_ec = demo_runtime"
    "oc_Operation (ec_OperationContext typed_ec) = Some (Query, typed_document)"
    by (simp_all add: typed_ec_def newExecutionContext_def)
  have typed: "typed_runtime (ec_runtime typed_ec)" by (simp add: ec demo_typed)
  have first: "ex_first (demo_state demo_world)" by (simp add: demo_state_def)
  have root: "(Query, ''Query'') \<in> {(Query, ''Query''), (Mutation, ''Mutation'')}" by simp
  from operation_well_typed [OF typed ec(2) root typed_document_valid first]
  show ?thesis by (simp add: ec)
qed

end
