(* ===== verification/EndToEnd.thy ===== *)
theory EndToEnd
  imports HttpProps ExecDemo
begin

text \<open>
  A GraphQL request from the front door to the stored audit log: the routes, the identity, the
  executor with its resolvers and commands, and the flush of the request's entries (C11).
\<close>

section \<open>The server of the endpoint\<close>

text \<open>
  What \<open>gqlgen\<close>'s HTTP server promises: it acts on the application by executing operations only,
  with the resolvers it was made with and in contexts of the request, so it keeps whatever every
  such operation keeps.
\<close>

definition serves_operations :: "http_libs \<Rightarrow> 'g runtime \<Rightarrow> bool" where
  "serves_operations H rt \<longleftrightarrow> (\<forall>server ctx r resp I. log_blind I \<longrightarrow>
     (\<forall>opCtx ctx0 ectx. g_ctx ectx = ctx \<longrightarrow>
        keeps I (Exec (newExecutionContext rt (server_Resolver server) opCtx) ctx0 ectx)) \<longrightarrow>
     keeps_world I (http_ServeGraphQL H server ctx r resp))"

text \<open>Several operations keep what one of them, a mutation at most, may do.\<close>

lemma any_operation_traced:
  assumes doc: "runtime_documented (ec_runtime ec)"
    and ctx: "ctx_request (g_ctx ctx) = Some n" "ctx_txEnv (g_ctx ctx) = None"
    and base: "base_app (Request_Env req)"
  shows "keeps (traced_inv Mutation n req w0) (Exec ec ctx0 ctx)"
proof (cases "effect_of ec = Mutation")
  case True
  with traced_Exec [OF assms, of w0 ctx0] show ?thesis by simp
next
  case False
  then have q: "effect_of ec = Query"
    by (auto simp: effect_of_def split: option.splits prod.splits operation.splits)
  show ?thesis
    unfolding leads_def
  proof (intro allI impI)
    fix s :: "'a exec_state"
    assume "traced_inv Mutation n req w0 (ex_World s)"
    then obtain es where es: "w_requests (ex_World s) = (w_requests w0)(n \<mapsto> with_audits req es)"
        "w_tx (ex_World s) = None" "wf_db (w_committed (ex_World s))"
        "w_stalls (ex_World s) = w_stalls w0" "w_faults (ex_World s) = w_faults w0"
        "w_committed (ex_World s) = w_committed w0 \<or> traced Mutation req es"
      by (rule traced_invE)
    have "traced_inv Query n (with_audits req es) (ex_World s) (ex_World s)"
      unfolding traced_inv_def
      by (intro exI [of _ "[]"]) (simp add: es with_audits_def)
    moreover have "base_app (Request_Env (with_audits req es))" using base by simp
    ultimately have "traced_inv Query n (with_audits req es) (ex_World s)
        (ex_World (snd (run (Exec ec ctx0 ctx) s)))"
      using traced_Exec [OF doc ctx, of "with_audits req es" "ex_World s" ctx0] q by (simp add: leads_def)
    then obtain fs where fs: "w_requests (ex_World (snd (run (Exec ec ctx0 ctx) s)))
          = (w_requests (ex_World s))(n \<mapsto> with_audits (with_audits req es) fs)"
        "w_tx (ex_World (snd (run (Exec ec ctx0 ctx) s))) = None"
        "wf_db (w_committed (ex_World (snd (run (Exec ec ctx0 ctx) s))))"
        "w_stalls (ex_World (snd (run (Exec ec ctx0 ctx) s))) = w_stalls (ex_World s)"
        "w_faults (ex_World (snd (run (Exec ec ctx0 ctx) s))) = w_faults (ex_World s)"
        "w_committed (ex_World (snd (run (Exec ec ctx0 ctx) s))) = w_committed (ex_World s)"
      by (rule traced_invE) (auto simp: traced_def)
    have joined: "with_audits (with_audits req es) fs = with_audits req (es @ fs)"
      by (simp add: with_audits_def)
    show "traced_inv Mutation n req w0 (ex_World (snd (run (Exec ec ctx0 ctx) s)))"
      unfolding traced_inv_def
      by (intro exI [of _ "es @ fs"]) (use es fs joined traced_more in auto)
  qed
qed

text \<open>What the endpoint leaves, and what it leaves of a request without admin rights.\<close>

definition admitted :: "Request \<Rightarrow> bool" where
  "admitted req \<longleftrightarrow> Request_isAdmin req \<and> Request_user req \<noteq> None"

definition plain_entries :: "Request \<Rightarrow> audit_Entry list \<Rightarrow> bool" where
  "plain_entries req es \<longleftrightarrow>
     (\<forall>e \<in> set es. own_entry req e \<and> (is_denial e \<or> Entry_Action e = ActionSignOut))"

definition endpoint_leaves :: "nat \<Rightarrow> Request \<Rightarrow> audit_Entry list \<Rightarrow> World \<Rightarrow> World \<Rightarrow> bool" where
  "endpoint_leaves n req es w w' \<longleftrightarrow>
     w_requests w' = (w_requests w)(n \<mapsto> with_audits req es)
     \<and> w_tx w' = None \<and> wf_db (w_committed w') \<and> w_stalls w' = w_stalls w \<and> w_faults w' = w_faults w
     \<and> (w_committed w' = w_committed w \<or> traced Mutation req es)
     \<and> (\<not> admitted req \<longrightarrow> plain_entries req es)"

lemma endpoint_leaves_nothing:
  "w_requests w n = Some req \<Longrightarrow> w_tx w = None \<Longrightarrow> wf_db (w_committed w) \<Longrightarrow> endpoint_leaves n req [] w w"
  by (simp add: endpoint_leaves_def with_audits_def plain_entries_def fun_upd_idem)

lemma ServeGraphQL_leaves:
  assumes doc: "runtime_documented rt" and serves: "serves_operations H rt"
    and ctx: "ctx_request ctx = Some n" "ctx_txEnv ctx = None" and req: "w_requests w n = Some req"
    and base: "base_app (Request_Env req)" and calm: "w_tx w = None" "wf_db (w_committed w)"
  shows "\<exists>es. endpoint_leaves n req es w (snd (run (http_ServeGraphQL H server ctx r resp) w))"
proof -
  let ?w' = "snd (run (http_ServeGraphQL H server ctx r resp) w)"
  note served = serves [unfolded serves_operations_def, rule_format]
  have "keeps_world (traced_inv Mutation n req w) (http_ServeGraphQL H server ctx r resp)"
    by (rule served [OF traced_blind(1) any_operation_traced])
      (use doc ctx base in \<open>simp_all add: newExecutionContext_def\<close>)
  moreover have "traced_inv Mutation n req w w"
    unfolding traced_inv_def
    by (intro exI [of _ "[]"]) (simp add: with_audits_def req calm fun_upd_idem)
  ultimately have "traced_inv Mutation n req w ?w'" by (simp add: keeps_world_def)
  then obtain es where es: "w_requests ?w' = (w_requests w)(n \<mapsto> with_audits req es)" "w_tx ?w' = None"
      "wf_db (w_committed ?w')" "w_stalls ?w' = w_stalls w" "w_faults ?w' = w_faults w"
      "w_committed ?w' = w_committed w \<or> traced Mutation req es"
    by (rule traced_invE)
  have "plain_entries req es" if plain: "\<not> admitted req"
  proof -
    have "keeps_world (denied_inv n req w) (http_ServeGraphQL H server ctx r resp)"
      by (rule served [OF denied_inv_blind denied_Exec])
        (use doc ctx plain in \<open>simp_all add: newExecutionContext_def admitted_def\<close>)
    moreover have "denied_inv n req w w"
      by (rule denied_invI [where es = "[]" and lines = "w_log w"])
        (simp_all add: with_audits_def denials_counted_def req fun_upd_idem)
    ultimately have "denied_inv n req w ?w'" by (simp add: keeps_world_def)
    then obtain fs lines where "?w' = w\<lparr>w_requests := (w_requests w)(n \<mapsto> with_audits req fs),
         w_prom := w_prom w @ denials_counted (app_metrics (Request_Env req)) fs, w_log := lines\<rparr>"
      and fs: "\<forall>e \<in> set fs. own_entry req e \<and> (is_denial e \<or> Entry_Action e = ActionSignOut)"
      by (rule denied_invE)
    with es(1) have "fs = es" by (auto dest: fun_upd_eqD)
    with fs show ?thesis by (simp add: plain_entries_def)
  qed
  with es show ?thesis unfolding endpoint_leaves_def by blast
qed

lemma endpoint_mux_leaves:
  assumes "runtime_documented rt" "serves_operations H rt"
    and "ctx_request ctx = Some n" "ctx_txEnv ctx = None" "w_requests w n = Some req"
    and "base_app (Request_Env req)" "w_tx w = None" "wf_db (w_committed w)"
    and "mux_route (Config_BasePath (app_config a)) (Config_DevMode (app_config a)) (http_Method r) (http_Path r)
      = GraphQLEndpoint"
  shows "\<exists>es. endpoint_leaves n req es w (snd (run (mux H a ctx r resp) w))"
proof (cases "Request_user req = None")
  case True
  with mux_anonymous [OF assms(3,5) True] assms(5,7-9) endpoint_leaves_nothing show ?thesis
    by (fastforce simp: guarded_def)
next
  case False
  then have "run (mux H a ctx r resp) w = run (http_ServeGraphQL H
      (NewHandler (http_gqlgen H) (http_rand H) (graph_env a)) ctx (r\<lparr>http_BodyLimit := Some maxRequestBody\<rparr>) resp) w"
    using assms(3,5,9) by (auto simp: mux_def Let_def limitBody_def run_requireIdentity)
  with ServeGraphQL_leaves [OF assms(1-8)] show ?thesis by metis
qed

section \<open>The request\<close>

text \<open>What the identity step leaves: a request of this app, with entries only when it is let in.\<close>

lemma identity_leaves:
  assumes "base_app a" "calm w w" "ctx_txEnv outer = None" "reasons_given (w_committed w)"
    and "run (resolveIdentity a (NewContext (w_next_request w) outer) (w_next_request w) r) (entered a r w) = (seen, w2)"
  obtains req where "calm w w2" "w_requests w2 (w_next_request w) = Some req" "Request_Env req = a"
    "Request_audits req = [] \<or> (\<exists>i. seen = Inr (Some i) \<and> Auth_BanReason i = '''' \<and> \<not> Auth_StaleToken i)"
proof -
  let ?n = "w_next_request w"
  let ?req = "\<lparr>Request_Env = a, Request_user = None, Request_isAdmin = False,
      Request_ip = clientip_Resolve r (Config_TrustedProxies (app_config a)), Request_audits = []\<rparr>"
  have c: "calm w (entered a r w)" using assms(2) by (rule entered_calm)
  have ctx: "ctx_request (NewContext ?n outer) = Some ?n" by (simp add: NewContext_def)
  have req: "w_requests (entered a r w) ?n = Some ?req" by simp
  have reasons: "reasons_given (w_committed (entered a r w))" using assms(4) by simp
  show thesis
  proof (rule resolveIdentity_step [OF assms(1) calm_self [OF c] entered_free [OF assms(1,3)] ctx req reasons assms(5)])
    assume "calm (entered a r w) w2" "w_requests w2 = w_requests (entered a r w)"
    with that [of ?req] calm_trans [OF c] show thesis by simp
  next
    fix i u claimed audits
    assume "seen = Inr (Some i)" "calm (entered a r w) w2"
      and i: "identified a ?n ?req (entered a r w) claimed i u audits w2"
    moreover from i have "Auth_BanReason i = ''''" "\<not> Auth_StaleToken i"
      by (metis identified_def AuthIdentity.select_convs(3), metis identified_def AuthIdentity.select_convs(4))
    ultimately show thesis
      using that [of "?req\<lparr>Request_user := Some u, Request_isAdmin := Auth_IsAdmin i,
          Request_audits := Request_audits ?req @ audits\<rparr>"] calm_trans [OF c]
      by (simp add: identified_def)
  qed
qed

lemma flush_leaves:
  assumes "base_app a" "calm w2 w2" "endpoint_leaves n req es w2 w3"
    and "run (do { entries \<leftarrow> TakeAudit n; flushAudit a entries }) w3 = ((), w')"
  shows "calm w3 w' \<and> (\<exists>rows. log_appended (w_committed w3) rows (w_committed w')
     \<and> subseq (map row_entry rows) (Request_audits req @ es)
     \<and> (healthy_world w2 \<and> seq_audit_log (w_committed w3) + int (length (Request_audits req @ es)) \<le> max_int64
          \<longrightarrow> map row_entry rows = Request_audits req @ es))"
proof -
  let ?taken = "w3\<lparr>w_requests := (w_requests w3)(n \<mapsto> (with_audits req es)\<lparr>Request_audits := []\<rparr>)\<rparr>"
  have "w_requests w3 n = Some (with_audits req es)" using assms(3) by (simp add: endpoint_leaves_def)
  then have "run (TakeAudit n) w3 = (Request_audits req @ es, ?taken)"
    by (simp add: TakeAudit_def change_request_def with_audits_def)
  with assms(4) have flush: "run (flushAudit a (Request_audits req @ es)) ?taken = ((), w')" by simp
  have taken: "calm ?taken ?taken" "w_committed ?taken = w_committed w3" "healthy_world ?taken = healthy_world w2"
    using assms(3) by (simp_all add: endpoint_leaves_def calm_refl healthy_world_def)
  from flushAudit_step [OF assms(1) taken(1) flush] show ?thesis
    unfolding taken(2,3) by (simp add: calm_def)
qed

text \<open>
  C11. Nothing is changed through the panel without a record, and nothing but records without
  admin rights. A GraphQL request, whatever its document, its token and the failures of the
  driver: after its identity is resolved the database changes only when the request is an
  admin's and its entries hold one of that admin for a mutation. The entries are then stored in
  order, behind the log as it is, all of them on a healthy connection. Without admin rights the
  entries are refusals and sign-outs in the user's own name. The constraints hold throughout, no
  transaction stays open and nothing waits for the write connection.
\<close>

theorem graphql_request_audited:
  assumes "runtime_documented rt" "serves_operations H rt"
    and "base_app a" "calm w w" "ctx_txEnv outer = None" "reasons_given (w_committed w)"
    and "mux_route (Config_BasePath (app_config a)) (Config_DevMode (app_config a)) (http_Method r) (http_Path r)
      = GraphQLEndpoint"
    and "run (resolveIdentity a (NewContext (w_next_request w) outer) (w_next_request w) r) (entered a r w) = (seen, w2)"
    and "run (routes H a outer r new_response) w = (out, w')"
  shows "\<exists>req es db rows. w_requests w2 (w_next_request w) = Some req
    \<and> log_appended db rows (w_committed w') \<and> subseq (map row_entry rows) (Request_audits req @ es)
    \<and> (healthy_world w \<and> seq_audit_log db + int (length (Request_audits req @ es)) \<le> max_int64
         \<longrightarrow> map row_entry rows = Request_audits req @ es)
    \<and> (db \<noteq> w_committed w2 \<longrightarrow> admitted req
         \<and> (\<exists>e \<in> set es. own_entry req e \<and> HasPrefix (Entry_Action e) ''mutation''))
    \<and> (\<not> admitted req \<longrightarrow> plain_entries req es)
    \<and> wf_db (w_committed w') \<and> w_tx w' = None \<and> w_stalls w' = w_stalls w"
proof -
  let ?n = "w_next_request w"
  obtain req where c2: "calm w w2" and req: "w_requests w2 ?n = Some req" "Request_Env req = a"
    and fresh: "Request_audits req = [] \<or> (\<exists>i. seen = Inr (Some i) \<and> Auth_BanReason i = '''' \<and> \<not> Auth_StaleToken i)"
    by (rule identity_leaves [OF assms(3-6,8)])
  have idle: ?thesis if "Request_audits req = []" "w_committed w' = w_committed w2" "w_tx w' = w_tx w2"
    "w_stalls w' = w_stalls w2"
    using that req(1) c2
    by (intro exI [of _ req] exI [of _ "[]"] exI [of _ "w_committed w2"])
      (auto simp: log_appended_def plain_entries_def calm_def)
  have run: "run (withRequest H a (mux H a) outer r (secured new_response)) w = (out, w')"
    using assms(9) by (simp add: routes_eq)
  from run assms(8) show ?thesis
  proof (cases rule: withRequest_cases)
    case (served i w3)
    have ctx: "ctx_request (NewContext ?n outer) = Some ?n" "ctx_txEnv (NewContext ?n outer) = None"
      using assms(5) by (simp_all add: NewContext_def)
    have tx: "w_tx w2 = None" "wf_db (w_committed w2)" using c2 by (simp_all add: calm_def)
    have base: "base_app (Request_Env req)" using assms(3) req(2) by simp
    from endpoint_mux_leaves [OF assms(1,2) ctx req(1) base tx assms(7)] served(4)
    obtain es where es: "endpoint_leaves ?n req es w2 w3" by (metis snd_conv)
    have "healthy_world w2 = healthy_world w" using c2 by (simp add: calm_def healthy_world_def)
    with flush_leaves [OF assms(3) calm_self [OF c2] es served(5)] es req(1) c2 show ?thesis
      by (intro exI [of _ req] exI [of _ es] exI [of _ "w_committed w3"])
        (auto simp: endpoint_leaves_def traced_def admitted_def calm_def)
  qed (use fresh idle in \<open>auto\<close>)
qed


section \<open>A panel to evaluate on\<close>

text \<open>An endpoint that answers every request with the mutation of the demonstration.\<close>

definition demo_serve :: "Server \<Rightarrow> handler" where
  "demo_serve server ctx r resp = State (\<lambda>w.
     case run (Exec (newExecutionContext demo_runtime (server_Resolver server) (ec_OperationContext demo_ec))
         (demo_ectx\<lparr>g_ctx := ctx\<rparr>) (demo_ectx\<lparr>g_ctx := ctx\<rparr>)) (demo_state w) of
       (answer, s) \<Rightarrow>
         ((case answer of
             Inr (Some response) \<Rightarrow> resp_Write (response_Data response) resp
           | _ \<Rightarrow> http_Error ''internal system error'' 422 resp), ex_World s))"

definition demo_panel :: http_libs where
  "demo_panel = demo_http\<lparr>http_ServeGraphQL := demo_serve\<rparr>"

lemma demo_serves: "serves_operations demo_panel demo_runtime"
  unfolding serves_operations_def
proof (intro allI impI)
  fix server :: Server and ctx r resp and I :: "World \<Rightarrow> bool"
  assume ops: "\<forall>opCtx ctx0 ectx. g_ctx ectx = ctx \<longrightarrow>
      keeps I (Exec (newExecutionContext demo_runtime (server_Resolver server) opCtx) ctx0 ectx)"
  have "I (ex_World (snd (run (Exec (newExecutionContext demo_runtime (server_Resolver server)
      (ec_OperationContext demo_ec)) (demo_ectx\<lparr>g_ctx := ctx\<rparr>) (demo_ectx\<lparr>g_ctx := ctx\<rparr>)) (demo_state w))))"
    if "I w" for w
    using ops that by (simp add: leads_def)
  then show "keeps_world I (http_ServeGraphQL demo_panel server ctx r resp)"
    by (simp add: keeps_world_def demo_panel_def demo_serve_def case_prod_unfold)
qed

definition demo_post :: http_Request where
  "demo_post = (bearer ''good'')\<lparr>http_Method := ''POST'', http_Path := ''/graphql''\<rparr>"

theorem graphql_request_audited_witness:
  "wf_db (w_committed (snd (run (routes demo_panel demo_app background demo_post new_response) demo_world)))
   \<and> w_tx (snd (run (routes demo_panel demo_app background demo_post new_response) demo_world)) = None
   \<and> w_stalls (snd (run (routes demo_panel demo_app background demo_post new_response) demo_world))
     = w_stalls demo_world"
proof -
  have route: "mux_route (Config_BasePath (app_config demo_app)) (Config_DevMode (app_config demo_app))
      (http_Method demo_post) (http_Path demo_post) = GraphQLEndpoint"
    by code_simp
  have outer: "ctx_txEnv background = None" by (simp add: background_def)
  from graphql_request_audited [OF demo_runtime_documented demo_serves demo_base demo_calm outer demo_reasons
      route surjective_pairing surjective_pairing]
  show ?thesis by blast
qed

end
