(* ===== verification/Spec2Isabelle.thy ===== *)
theory Spec2Isabelle
  imports AuditPages Panel AuthProps HttpProps JobsProps Cron ServerEnds RoleJson ExecValues IntroProps TypeProps EndToEnd
begin

text \<open>
  The starterkit is a Go admin panel behind an authenticating gate: users sign in with a token
  of the gate, admins ban and unban users and grant and revoke admin access over GraphQL, every
  attempt is written to an audit log, notices and sweeps run as jobs of a queue in the same
  SQLite file. This development models the server and proves what it promises.

  \<^bold>\<open>The parts and their theories\<close>

  \<^item> \<open>GoPrelude\<close>, \<open>GoStrings\<close>: the language. Errors are values (\<open>Inl\<close> of an error), a method with
    effects is a computation of the state monad over the world it changes; strings are bytes.
    \<open>Json\<close>, \<open>JsonRead\<close>, \<open>Url\<close>, \<open>Netip\<close>: what the code uses of \<open>encoding/json\<close>, \<open>net/url\<close> and
    \<open>net/netip\<close>. \<open>NetipProps\<close>: the text of an address of either family reads back as that address.
  \<^item> \<open>DbModels\<close>, \<open>Sql\<close>: the rows and tables of db/migrations with their constraints (\<open>wf_db\<close>),
    and each statement of internal/db/queries.*.sql.go as a function on them. \<open>SqlProps\<close>,
    \<open>SqlEffects\<close>: every statement keeps the constraints, and what it changes.
  \<^item> \<open>GqlModel\<close>, \<open>RoleJson\<close>: internal/graph/model.
  \<^item> \<open>CaseBan\<close>, \<open>CaseAdmin\<close>, \<open>CaseSignIn\<close>, \<open>CaseAudit\<close>: the use cases of internal/case, each with its
    own \<open>Env\<close> as a record of methods.
  \<^item> \<open>Store\<close>, \<open>Contracts\<close>: the data layer as an interface (locale \<open>store\<close>: inside a session a method
    performs its statement, or fails and changes nothing), and what each use case does over any
    such store.
  \<^item> \<open>World\<close>, \<open>Queries\<close>, \<open>App\<close>: the world of the running server (the committed database, the one
    write transaction, requests, counters, log, clock, a schedule of driver failures), the
    methods of internal/db, and \<open>app\<close> of cmd/server with \<open>WithTransaction\<close> and its commands.
    \<open>AppEnv\<close> interprets the contracts on \<open>app\<close>, inside a transaction and at rest; \<open>AppProps\<close>,
    \<open>Outcomes\<close>, \<open>AuditPages\<close>, \<open>Panel\<close> prove the commands (C1 to C10).
  \<^item> \<open>Auth\<close>, \<open>AuthProps\<close>: internal/gateauth and cmd/server/auth.go (C17).
  \<^item> \<open>Graph\<close>, \<open>Resolvers\<close>, \<open>GraphProps\<close>: internal/graph, the admin boundary with its audit entries,
    the resolvers and the error presenter (C18 to C21).
  \<^item> \<open>GqlRuntime\<close>, \<open>GqlArgs\<close>, \<open>ExecTypes\<close>, \<open>ExecAdmin\<close>, \<open>ExecIntro\<close>, \<open>ExecRoot\<close>:
    internal/graph/generated, the executor: one function per object and per field of the schema
    and of its introspection, over a record of the functions of gqlgen that it calls (\<open>runtime\<close>).
    A field context names the executor of its children (\<open>child\<close>) where the code keeps a closure
    that calls it; \<open>Child_call\<close> is that call. \<open>ExecLaws\<close> states what gqlgen promises of them
    (\<open>runtime_documented\<close>), \<open>ExecKeeps\<close> that an operation then keeps what its resolvers keep,
    \<open>ExecProps\<close> what a whole operation can do (C12, C13), \<open>ExecDemo\<close> a runtime with these laws,
    \<open>ExecValues\<close> what a selection set is answered with (C14), \<open>IntroProps\<close> that introspection
    ends (C15).
  \<^item> \<open>GqlSchema\<close>: the schema that the same package embeds, as data, when a selection set is valid in
    it and when an answer conforms to it. \<open>ExecSure\<close> is the judgement that a computation of the
    executor answers in a type without a panic, \<open>ExecTyped\<close> proves it object by object, and
    \<open>TypeProps\<close> that a valid operation is answered in the types of the schema (C16).
  \<^item> \<open>ClientIp\<close>: internal/clientip (C22, C23). \<open>Http\<close>, \<open>HttpProps\<close>: cmd/server/http.go and
    assets/embed.go, the routes and their middleware (C24 to C26).
  \<^item> \<open>Jobs\<close>, \<open>JobsProps\<close>: internal/jobs and cmd/server/jobs.go (C27, C28). \<open>Cron\<close>: internal/cronjobs
    and cmd/server/cron.go as a step system under the runner's mutex (C29, C30): a tick starts a
    goroutine, which locks the mutex and enters its job or skips the tick in a later step, so a job
    may still be entered after \<open>Stop\<close> was called, and \<open>Stop\<close> waits for it.
  \<^item> \<open>Metrics\<close>, \<open>MetricsProps\<close>: internal/metrics and internal/db/tablestats.go (C31, C32). The loop
    takes, with each thing it wakes up for, what the rest of the process has done meanwhile.
  \<^item> \<open>SqliteDriver\<close>, \<open>SqliteProps\<close>: internal/dbmate/sqlite, over files that hold tables, views
    and indexes by name (C33). \<open>Setup\<close>, \<open>SetupProps\<close>:
    internal/db/setup.go (C34, C35).
  \<^item> \<open>AppConfig\<close>, \<open>ConfigProps\<close>: internal/appconfig (C36, C37). \<open>Server\<close>, \<open>ServerProps\<close>,
    \<open>ServerEnds\<close>: cmd/server/main.go and internal/logger; serving and draining is a step system of
    \<open>run\<close>, the goroutine that drains, requests, jobs and cron ticks: it drains before it lets go, a
    start wires everything or leaves nothing open, and after the signal it ends (C38 to C40).
  \<^item> \<open>EndToEnd\<close>: a GraphQL request through the routes, the identity, the executor, the commands and
    the flush of its audit entries (C11).
  \<^item> \<open>Demo\<close>: a small installation on which the witnesses evaluate.

  \<^bold>\<open>How they fit together\<close>

  A request enters \<open>Http.routes\<close>; \<open>withRequest\<close> resolves its identity (\<open>Auth\<close>) before anything else
  runs and writes its audit entries after; \<open>ExecRoot.Exec\<close> executes a GraphQL operation field by
  field; a field of the panel crosses \<open>Graph.checkAdmin\<close> and then calls a command of
  \<open>App\<close>, which runs a use case inside \<open>WithTransaction\<close>. The proofs go the same way up: statements
  keep the constraints (\<open>SqlProps\<close>), so a use case over a store is a statement of its own (\<open>Contracts\<close>),
  so a command is one atomic step of the committed database (\<open>Outcomes\<close>), so any
  history of commands keeps the panel's invariants (\<open>Panel\<close>), and any GraphQL document does no more
  than its resolvers (\<open>ExecProps\<close>).

  \<^bold>\<open>Arguments of the model\<close>

  What is outside src/ is an argument: the validator, token verification and OIDC discovery, the
  row a job becomes, gqlgen's runtime (\<open>runtime\<close>), its description of the schema (\<open>introspection\<close>)
  and HTTP server, the file server, dbmate's migrator, the reader of cron specifications, the
  authority part of a URL, floating-point fractions of durations, and what SQLite answers when the
  rows of a name are counted that is no table of the file (\<open>unlisted\<close>: its own and virtual tables,
  and no table at all). A theorem that relies on one of them names what it relies on: for the
  handlers of libraries this is \<open>libs_keep_policy\<close> (\<open>HttpProps\<close>), for gqlgen these are
  \<open>runtime_documented\<close> (\<open>ExecLaws\<close>), \<open>answers_in_order\<close> (\<open>ExecValues\<close>), \<open>selections_documented\<close>
  (\<open>IntroProps\<close>), \<open>typed_runtime\<close> (\<open>ExecSure\<close>) and \<open>serves_operations\<close> (\<open>EndToEnd\<close>). That a
  document is \<open>valid\<close> (\<open>GqlSchema\<close>) is what gqlgen checks before it executes one. Failures of
  database calls are any schedule the world holds; the order in which Go visits a map is an
  argument.

  \<^bold>\<open>Bounds and recursion\<close>

  Integers that Go keeps in 64 bits are integers here, with the bounds written where the code
  reads or writes text (\<open>ParseInt64\<close>, \<open>float64\<close>); row numbers come from SQLite, which refuses to
  pass the bound. Loops that read input recurse on it or have a termination proof. A loop that
  waits for the outside (the gauges' loop) takes the list of what it receives, and the end of the
  list means that it still waits. The executors of introspection call each other in cycles, all of
  which go through \<open>___Type\<close>: it is bounded by the number of its calls under each other, taken from
  the depth of the selection set, which C15 proves to be enough and not to be observable. Nothing
  else uses fuel.

  \<^bold>\<open>Not modelled\<close>

  Of the schema that generated.go embeds, the default values and the directives for the generator;
  gqlgen's reading of it and its validation of documents against it. The fields of a selection
  set that run at the same time are run as whole fields, in whatever order the runtime has, and the deferred groups of an operation within it, although the code may finish them after
  the answer. Marshalling functions that the generator emits and nothing calls, the constant
  answers of \<open>Schema\<close> and \<open>Complexity\<close>, and the methods that only hand out a resolver.

  Of the router, the escaped form of a path (patterns are matched with the decoded one), \<open>CONNECT\<close>,
  the request target \<open>*\<close> and braces in the base path. Of the file system, links: two names are one
  file when they differ only in \<open>.\<close> and empty segments. Of the files that the migration driver works
  on, the schema of tables other than the table of versions.

  The front end, the text formats of the log, the scrape format of the metrics, the exit of the
  process after \<open>main\<close>.
  Requests are modelled one at a time over the shared world: two requests in flight interleave
  only at the write connection, where the second waits (\<open>w_stalls\<close>).
\<close>

end
